(* ===== verification/Prelude.thy ===== *)
theory Prelude
  imports Complex_Main "HOL-Library.List_Lexorder" "HOL-Library.Char_ord"
begin

text \<open>
  Vocabulary shared by every component theory:
  \<^item> the exceptions the Python code raises, as one datatype, and the result type
    \<open>err + 'a\<close> with its sequencing operator;
  \<^item> SQLite tables as lists of rows in insertion order, with the handful of statement
    shapes the services use (lookup by primary key, plain INSERT, INSERT with
    ON CONFLICT, UPDATE by key) and their characteristic equations;
  \<^item> the few \<open>str\<close> methods the services call on identifiers.
\<close>

section \<open>Exceptions and results\<close>

text \<open>
  One constructor per exception class that can leave a modelled function.
  \<open>ScienceError\<close>, \<open>TreasuryError\<close>, \<open>ConsensusError\<close> and \<open>MiningError\<close> carry the HTTP status and the detail text.
\<close>

datatype err =
    ValueError string
  | InvalidOperation
  | IntegrityError string
  | TypeError
  | KeyError string
  | ScienceError nat string
  | TreasuryError nat string
  | TransactionExecutionError string
  | ConsensusError nat string
  | MiningError nat string
  | ValidationFinalizationDeferred string

type_synonym 'a result = "err + 'a"

definition bindE :: "'a result \<Rightarrow> ('a \<Rightarrow> 'b result) \<Rightarrow> 'b result" where
  "bindE m f = (case m of Inl e \<Rightarrow> Inl e | Inr x \<Rightarrow> f x)"

definition guardE :: "bool \<Rightarrow> err \<Rightarrow> unit result" where
  "guardE c e = (if c then Inr () else Inl e)"

text \<open>A \<open>for\<close> loop whose body may raise.\<close>

fun foldE :: "('x \<Rightarrow> 's \<Rightarrow> 's result) \<Rightarrow> 'x list \<Rightarrow> 's \<Rightarrow> 's result" where
  "foldE f [] s = Inr s"
| "foldE f (x # xs) s = bindE (f x s) (foldE f xs)"

lemma bindE_simps [simp]:
  "bindE (Inl e) f = Inl e"
  "bindE (Inr x) f = f x"
  by (simp_all add: bindE_def)

lemma bindE_eq_Inr [simp]: "bindE m f = Inr y \<longleftrightarrow> (\<exists>x. m = Inr x \<and> f x = Inr y)"
  by (cases m) auto

lemma bindE_eq_Inl: "bindE m f = Inl e \<longleftrightarrow> m = Inl e \<or> (\<exists>x. m = Inr x \<and> f x = Inl e)"
  by (cases m) auto

lemma guardE_eq_Inr [simp]: "guardE c e = Inr u \<longleftrightarrow> c"
  by (simp add: guardE_def)

lemma guardE_True [simp]: "guardE True e = Inr ()"
  by (simp add: guardE_def)

lemma guardE_False [simp]: "guardE False e = Inl e"
  by (simp add: guardE_def)

lemma bindE_guardE: "bindE (guardE c e) f = (if c then f () else Inl e)"
  by (simp add: guardE_def)

lemma foldE_append: "foldE f (xs @ ys) s = bindE (foldE f xs s) (foldE f ys)"
proof (induction xs arbitrary: s)
  case (Cons x xs)
  then show ?case by (cases "f x s") auto
qed simp

text \<open>An invariant every iteration keeps is kept by the loop.\<close>

lemma foldE_invariant:
  assumes "\<And>x s s'. x \<in> set xs \<Longrightarrow> P s \<Longrightarrow> f x s = Inr s' \<Longrightarrow> P s'"
    and "P s" and "foldE f xs s = Inr s'"
  shows "P s'"
  using assms
proof (induction xs arbitrary: s)
  case (Cons x xs)
  then obtain s1 where "f x s = Inr s1" "foldE f xs s1 = Inr s'"
    by auto
  then show ?case
    using Cons.IH [of s1] Cons.prems(1) [of x s s1] Cons.prems by auto
qed simp

section \<open>Tables\<close>

text \<open>
  A table is the list of its rows in rowid order. \<open>key\<close> selects the primary key (or the
  UNIQUE column the statement names).
\<close>

definition tbl_find :: "('r \<Rightarrow> 'k) \<Rightarrow> 'k \<Rightarrow> 'r list \<Rightarrow> 'r option" where
  "tbl_find key k rows = List.find (\<lambda>r. key r = k) rows"

text \<open>\<open>UPDATE t SET \<dots> WHERE p\<close>.\<close>

definition tbl_update :: "('r \<Rightarrow> bool) \<Rightarrow> ('r \<Rightarrow> 'r) \<Rightarrow> 'r list \<Rightarrow> 'r list" where
  "tbl_update p f rows = map (\<lambda>r. if p r then f r else r) rows"

text \<open>\<open>INSERT INTO t\<close>: a second row with the same key violates the constraint.\<close>

definition tbl_insert :: "('r \<Rightarrow> 'k) \<Rightarrow> string \<Rightarrow> 'r \<Rightarrow> 'r list \<Rightarrow> 'r list result" where
  "tbl_insert key name r rows =
     (if tbl_find key (key r) rows = None then Inr (rows @ [r]) else Inl (IntegrityError name))"

text \<open>\<open>INSERT INTO t \<dots> ON CONFLICT(key) DO UPDATE SET \<dots>\<close>; \<open>DO NOTHING\<close> is \<open>f = id\<close>.\<close>

definition tbl_upsert :: "('r \<Rightarrow> 'k) \<Rightarrow> ('r \<Rightarrow> 'r) \<Rightarrow> 'r \<Rightarrow> 'r list \<Rightarrow> 'r list" where
  "tbl_upsert key f r rows =
     (if tbl_find key (key r) rows = None then rows @ [r]
      else tbl_update (\<lambda>r'. key r' = key r) f rows)"

lemma tbl_find_Nil [simp]: "tbl_find key k [] = None"
  by (simp add: tbl_find_def)

lemma tbl_find_Cons [simp]:
  "tbl_find key k (r # rows) = (if key r = k then Some r else tbl_find key k rows)"
  by (simp add: tbl_find_def)

lemma tbl_find_key: "tbl_find key k rows = Some r \<Longrightarrow> key r = k"
  by (induction rows) (auto split: if_splits)

lemma tbl_find_in: "tbl_find key k rows = Some r \<Longrightarrow> r \<in> set rows"
  by (induction rows) (auto split: if_splits)

lemma tbl_find_None: "tbl_find key k rows = None \<longleftrightarrow> k \<notin> key ` set rows"
  by (induction rows) auto

lemma tbl_find_append:
  "tbl_find key k (xs @ ys) = (case tbl_find key k xs of None \<Rightarrow> tbl_find key k ys | Some r \<Rightarrow> Some r)"
  by (induction xs) auto

lemma tbl_find_distinct:
  "distinct (map key rows) \<Longrightarrow> r \<in> set rows \<Longrightarrow> tbl_find key (key r) rows = Some r"
  by (induction rows) (auto simp: image_iff)

lemma tbl_update_Nil [simp]: "tbl_update p f [] = []"
  by (simp add: tbl_update_def)

lemma tbl_update_Cons [simp]:
  "tbl_update p f (r # rows) = (if p r then f r else r) # tbl_update p f rows"
  by (simp add: tbl_update_def)

lemma length_tbl_update [simp]: "length (tbl_update p f rows) = length rows"
  by (simp add: tbl_update_def)

lemma tbl_update_id [simp]: "tbl_update p id rows = rows"
  by (induction rows) auto

lemma set_tbl_update: "set (tbl_update p f rows) = (\<lambda>r. if p r then f r else r) ` set rows"
  by (simp add: tbl_update_def)

lemma map_tbl_update:
  "(\<And>r. r \<in> set rows \<Longrightarrow> p r \<Longrightarrow> g (f r) = g r) \<Longrightarrow> map g (tbl_update p f rows) = map g rows"
  by (simp add: tbl_update_def)

lemma tbl_find_update:
  "(\<And>r. p r \<Longrightarrow> key (f r) = key r) \<Longrightarrow>
   tbl_find key k (tbl_update p f rows) =
     map_option (\<lambda>r. if p r then f r else r) (tbl_find key k rows)"
  by (induction rows) auto

lemma tbl_insert_eq_Inr:
  "tbl_insert key name r rows = Inr rows' \<longleftrightarrow>
     tbl_find key (key r) rows = None \<and> rows' = rows @ [r]"
  by (auto simp: tbl_insert_def)

lemma tbl_find_upsert:
  assumes "\<And>r'. key r' = key r \<Longrightarrow> key (f r') = key r"
  shows "tbl_find key k (tbl_upsert key f r rows) =
     (if k = key r then
        (case tbl_find key k rows of None \<Rightarrow> Some r | Some r' \<Rightarrow> Some (f r'))
      else tbl_find key k rows)"
proof (cases "tbl_find key (key r) rows")
  case None
  then show ?thesis
    by (auto simp: tbl_upsert_def tbl_find_append split: option.splits)
next
  case (Some r')
  have "tbl_find key k (tbl_update (\<lambda>r'. key r' = key r) f rows) =
      map_option (\<lambda>r'. if key r' = key r then f r' else r') (tbl_find key k rows)"
    by (rule tbl_find_update) (simp add: assms)
  then show ?thesis
    using Some
    by (cases "tbl_find key k rows") (auto simp: tbl_upsert_def dest: tbl_find_key)
qed

lemma distinct_tbl_upsert:
  assumes "\<And>r'. key r' = key r \<Longrightarrow> key (f r') = key r" and "distinct (map key rows)"
  shows "distinct (map key (tbl_upsert key f r rows))"
proof (cases "tbl_find key (key r) rows")
  case None
  then show ?thesis
    using assms by (auto simp: tbl_upsert_def tbl_find_None)
next
  case (Some r')
  have "map key (tbl_update (\<lambda>r'. key r' = key r) f rows) = map key rows"
    by (rule map_tbl_update) (simp add: assms)
  with Some show ?thesis
    using assms by (simp add: tbl_upsert_def)
qed

lemma distinct_tbl_insert:
  "distinct (map key rows) \<Longrightarrow> tbl_insert key name r rows = Inr rows' \<Longrightarrow> distinct (map key rows')"
  by (auto simp: tbl_insert_eq_Inr tbl_find_None)

lemma sum_list_tbl_update_one:
  fixes g :: "'r \<Rightarrow> int"
  assumes "distinct (map key rows)" and "tbl_find key k rows = Some r"
  shows "(\<Sum>r'\<leftarrow>tbl_update (\<lambda>r'. key r' = k) f rows. g r') = (\<Sum>r'\<leftarrow>rows. g r') - g r + g (f r)"
  using assms
proof (induction rows)
  case (Cons x xs)
  show ?case
  proof (cases "key x = k")
    case True
    then have "k \<notin> key ` set xs" using Cons.prems by auto
    then have "tbl_update (\<lambda>r'. key r' = k) f xs = xs"
      by (auto simp: tbl_update_def image_iff intro!: map_idI)
    with True Cons.prems show ?thesis by simp
  next
    case False
    with Cons show ?thesis by simp
  qed
qed simp

section \<open>Strings\<close>

text \<open>
  \<open>str.strip\<close>, \<open>str.upper\<close>, \<open>str.lower\<close> and \<open>str.startswith\<close> on the ASCII
  identifiers the services handle (addresses, hashes, status words).
\<close>

definition is_space :: "char \<Rightarrow> bool" where
  "is_space c \<longleftrightarrow> c \<in> {CHR '' '', CHR 0x09, CHR 0x0A, CHR 0x0B, CHR 0x0C, CHR 0x0D,
     CHR 0x1C, CHR 0x1D, CHR 0x1E, CHR 0x1F}"

definition str_strip :: "string \<Rightarrow> string" where
  "str_strip s = rev (dropWhile is_space (rev (dropWhile is_space s)))"

definition char_upper :: "char \<Rightarrow> char" where
  "char_upper c = (let n = of_char c :: nat in
     if 97 \<le> n \<and> n \<le> 122 then char_of (n - 32) else c)"

definition char_lower :: "char \<Rightarrow> char" where
  "char_lower c = (let n = of_char c :: nat in
     if 65 \<le> n \<and> n \<le> 90 then char_of (n + 32) else c)"

definition str_upper :: "string \<Rightarrow> string" where
  "str_upper s = map char_upper s"

definition str_lower :: "string \<Rightarrow> string" where
  "str_lower s = map char_lower s"

definition starts_with :: "string \<Rightarrow> string \<Rightarrow> bool" where
  "starts_with p s \<longleftrightarrow> take (length p) s = p"

text \<open>\<open>x or default\<close> on an optional text: \<open>None\<close> and the empty text are falsy.\<close>

definition str_or :: "string option \<Rightarrow> string \<Rightarrow> string" where
  "str_or x d = (case x of None \<Rightarrow> d | Some s \<Rightarrow> if s = [] then d else s)"

lemma str_strip_Nil [simp]: "str_strip [] = []"
  by (simp add: str_strip_def)

lemma set_str_strip: "set (str_strip s) \<subseteq> set s"
  by (metis set_dropWhileD set_rev str_strip_def subsetI)

lemma hd_dropWhile_last:
  "dropWhile P xs \<noteq> [] \<Longrightarrow> last (dropWhile P xs) = last xs"
  by (induction xs) auto

lemma dropWhile_eq_self: "xs = [] \<or> \<not> P (hd xs) \<Longrightarrow> dropWhile P xs = xs"
  by (cases xs) auto

lemma str_strip_idem [simp]: "str_strip (str_strip s) = str_strip s"
proof -
  let ?a = "dropWhile is_space s"
  let ?b = "dropWhile is_space (rev ?a)"
  have b: "?b = [] \<or> \<not> is_space (hd ?b)"
    using hd_dropWhile by blast
  have "rev ?b = [] \<or> \<not> is_space (hd (rev ?b))"
  proof (cases "?b = []")
    case False
    then have "?a \<noteq> []" by (metis dropWhile.simps(1) rev.simps(1))
    then have "\<not> is_space (hd ?a)" by (rule hd_dropWhile)
    moreover have "hd (rev ?b) = hd ?a"
      using False \<open>?a \<noteq> []\<close> by (simp add: hd_rev hd_dropWhile_last last_rev)
    ultimately show ?thesis by simp
  qed simp
  then have "dropWhile is_space (rev ?b) = rev ?b" by (rule dropWhile_eq_self)
  with b show ?thesis
    by (simp add: str_strip_def dropWhile_eq_self)
qed

text \<open>Decimal rendering of integers, as \<open>str(int)\<close> does.\<close>

fun show_nat :: "nat \<Rightarrow> string" where
  "show_nat n = (if n < 10 then [char_of (48 + n)] else show_nat (n div 10) @ [char_of (48 + n mod 10)])"

declare show_nat.simps [simp del]

definition show_int :: "int \<Rightarrow> string" where
  "show_int i = (if i < 0 then CHR ''-'' # show_nat (nat (- i)) else show_nat (nat i))"

end
