(* ===== verification/Float64.thy ===== *)
theory Float64
  imports Prelude "HOL-Library.Log_Nat"
begin

text \<open>
  Python floats. A finite binary64 value is the rational number it denotes; every
  arithmetic operation of the source is the exact operation followed by \<open>fl\<close>, rounding
  to the nearest 53-bit significand with ties to even. The exponent is unbounded here:
  overflow to infinity, NaN and subnormals are not modelled (the amounts of the services lie
  between \<open>10 ^ -8\<close> and \<open>10 ^ 15\<close>, and the theorems that depend on the size state
  it). The theory also models \<open>round(x, n)\<close> and \<open>Decimal(str(x))\<close>.

  Lemmas: relative error of \<open>fl\<close>, exactness on values with few bits, idempotence,
  and the error of \<open>py_repr\<close> and \<open>py_round\<close>.
\<close>

type_synonym pyfloat = rat

section \<open>Rounding to integers\<close>

definition round_half_even :: "rat \<Rightarrow> int" where
  "round_half_even x = (let f = \<lfloor>x\<rfloor>; d = x - of_int f in
     if d < 1 / 2 then f else if 1 / 2 < d then f + 1 else if even f then f else f + 1)"

text \<open>\<open>ROUND_HALF_UP\<close> of the decimal module: ties away from zero.\<close>

definition round_half_up :: "rat \<Rightarrow> int" where
  "round_half_up x = (if 0 \<le> x then \<lfloor>x + 1 / 2\<rfloor> else - \<lfloor>- x + 1 / 2\<rfloor>)"

lemma round_half_even_err: "\<bar>of_int (round_half_even x) - x\<bar> \<le> 1 / 2"
proof -
  have "of_int \<lfloor>x\<rfloor> \<le> x" "x < of_int \<lfloor>x\<rfloor> + 1" by linarith+
  then show ?thesis
    by (auto simp: round_half_even_def Let_def)
qed

lemma round_half_even_of_int [simp]: "round_half_even (of_int i) = i"
  by (simp add: round_half_even_def)

lemma round_half_even_0 [simp]: "round_half_even 0 = 0"
  by (simp add: round_half_even_def)

lemma round_half_up_of_int [simp]: "round_half_up (of_int i) = i"
proof -
  have "\<lfloor>of_int i + 1 / 2 :: rat\<rfloor> = i" "\<lfloor>- of_int i + 1 / 2 :: rat\<rfloor> = - i"
    by linarith+
  then show ?thesis by (simp add: round_half_up_def)
qed

lemma round_half_up_0 [simp]: "round_half_up 0 = 0"
  using round_half_up_of_int [of 0] by simp

lemma round_half_up_err: "\<bar>of_int (round_half_up x) - x\<bar> \<le> 1 / 2"
proof (cases "0 \<le> x")
  case True
  then have "round_half_up x = \<lfloor>x + 1 / 2\<rfloor>" by (simp add: round_half_up_def)
  moreover have "of_int \<lfloor>x + 1/2\<rfloor> \<le> x + 1/2" "x + 1/2 < of_int \<lfloor>x + 1/2\<rfloor> + 1" by linarith+
  ultimately show ?thesis by linarith
next
  case False
  define y where "y = - x"
  have "round_half_up x = - \<lfloor>y + 1 / 2\<rfloor>" using False by (simp add: round_half_up_def y_def)
  moreover have "of_int \<lfloor>y + 1/2\<rfloor> \<le> y + 1/2" "y + 1/2 < of_int \<lfloor>y + 1/2\<rfloor> + 1" by linarith+
  ultimately have "\<bar>of_int (round_half_up x) + y\<bar> \<le> 1 / 2" by linarith
  then show ?thesis by (simp add: y_def)
qed

lemma round_half_up_near:
  assumes "\<bar>x - of_int i\<bar> < 1 / 2"
  shows "round_half_up x = i"
proof -
  have "\<lfloor>x + 1 / 2\<rfloor> = i" "\<lfloor>- x + 1 / 2\<rfloor> = - i"
    using assms by linarith+
  then show ?thesis by (simp add: round_half_up_def)
qed

lemma round_half_up_mono:
  assumes "x \<le> y"
  shows "round_half_up x \<le> round_half_up y"
proof -
  have "\<lfloor>x + 1 / 2\<rfloor> \<le> \<lfloor>y + 1 / 2\<rfloor>" "\<lfloor>- y + 1 / 2\<rfloor> \<le> \<lfloor>- x + 1 / 2\<rfloor>"
    using assms by (simp_all add: floor_mono)
  moreover have "- \<lfloor>- x + 1 / 2\<rfloor> \<le> \<lfloor>y + 1 / 2\<rfloor>" if "x < 0" "0 \<le> y"
    using that by linarith
  ultimately show ?thesis
    using assms unfolding round_half_up_def by (cases "0 \<le> x"; cases "0 \<le> y") auto
qed

lemma round_half_up_minus: "round_half_up (- x) = - round_half_up x"
proof (cases "x = 0")
  case False
  then show ?thesis by (auto simp: round_half_up_def)
qed simp

lemma round_half_even_mono: "x \<le> y \<Longrightarrow> round_half_even x \<le> round_half_even y"
proof (cases "\<lfloor>x\<rfloor> = \<lfloor>y\<rfloor>")
  case True
  then show "x \<le> y \<Longrightarrow> ?thesis" by (auto simp: round_half_even_def Let_def)
next
  case False
  assume "x \<le> y"
  then have "\<lfloor>x\<rfloor> + 1 \<le> \<lfloor>y\<rfloor>" using False floor_mono [of x y] by linarith
  then show ?thesis by (auto simp: round_half_even_def Let_def)
qed

section \<open>The rounding function of binary64\<close>

text \<open>The binary exponent: \<open>2 powi expo x \<le> x < 2 powi (expo x + 1)\<close> for positive \<open>x\<close>.\<close>

definition expo :: "rat \<Rightarrow> int" where
  "expo x = (case quotient_of x of (a, b) \<Rightarrow>
     (let e = bitlen a - bitlen b in if 2 powi e \<le> x then e else e - 1))"

definition ulp :: "rat \<Rightarrow> rat" where
  "ulp x = 2 powi (expo \<bar>x\<bar> - 52)"

definition fl :: "rat \<Rightarrow> pyfloat" where
  "fl x = (if x = 0 then 0 else of_int (round_half_even (x / ulp x)) * ulp x)"

definition is_float :: "rat \<Rightarrow> bool" where
  "is_float x \<longleftrightarrow> fl x = x"

definition fadd :: "pyfloat \<Rightarrow> pyfloat \<Rightarrow> pyfloat" where
  "fadd x y = fl (x + y)"

definition fsub :: "pyfloat \<Rightarrow> pyfloat \<Rightarrow> pyfloat" where
  "fsub x y = fl (x - y)"

definition fmul :: "pyfloat \<Rightarrow> pyfloat \<Rightarrow> pyfloat" where
  "fmul x y = fl (x * y)"

text \<open>\<open>round(x, n)\<close>: the nearest multiple of \<open>10 ^ -n\<close> to the exact value of \<open>x\<close>
  (CPython rounds the exact binary value, ties to even), as a float again.\<close>

definition py_round :: "nat \<Rightarrow> pyfloat \<Rightarrow> pyfloat" where
  "py_round n x = fl (of_int (round_half_even (x * 10 ^ n)) / 10 ^ n)"

text \<open>
  \<open>Decimal(str(x))\<close>: \<open>str\<close> gives the shortest decimal that reads back as \<open>x\<close>, the
  nearest one of that length. \<open>dec_round k x\<close> is the nearest decimal with \<open>k\<close> digits
  after the point (\<open>k\<close> negative: trailing zeros before it), and the search takes the
  least \<open>k\<close> that reads back.
\<close>

definition dec_round :: "int \<Rightarrow> rat \<Rightarrow> rat" where
  "dec_round k x = of_int (round_half_even (x * 10 powi k)) / 10 powi k"

definition py_repr :: "pyfloat \<Rightarrow> rat" where
  "py_repr x =
     (let k0 = - (expo \<bar>x\<bar> * 30103 div 100000) - 1 in
      case List.find (\<lambda>k. fl (dec_round k x) = x) (map (\<lambda>i. k0 + int i) [0..<20]) of
        Some k \<Rightarrow> dec_round k x
      | None \<Rightarrow> x)"

lemma expo_bounds:
  assumes "0 < x"
  shows "2 powi (expo x) \<le> x" and "x < 2 powi (expo x + 1)"
proof -
  obtain a b where q: "quotient_of x = (a, b)" by force
  then have b: "0 < b" and x: "x = of_int a / of_int b"
    by (auto simp: quotient_of_denom_pos quotient_of_div)
  with assms have a: "0 < a"
    by (simp add: zero_less_divide_iff)
  have la: "0 < bitlen a" and lb: "0 < bitlen b"
    using bitlen_bounds [OF a] bitlen_bounds [OF b] a b bitlen_nonneg [of a] bitlen_nonneg [of b]
    by (auto simp: order_less_le bitlen_eq_zero_iff)
  have A: "2 powi (bitlen a - 1) \<le> (of_int a :: rat)" "(of_int a :: rat) < 2 powi (bitlen a)"
  proof -
    have "(2::int) ^ nat (bitlen a - 1) \<le> a" "a < 2 ^ nat (bitlen a)"
      using bitlen_bounds [OF a] by auto
    then have "(of_int (2 ^ nat (bitlen a - 1)) :: rat) \<le> of_int a" "(of_int a :: rat) < of_int (2 ^ nat (bitlen a))"
      by (simp_all only: of_int_le_iff of_int_less_iff)
    then show "2 powi (bitlen a - 1) \<le> (of_int a :: rat)" "(of_int a :: rat) < 2 powi (bitlen a)"
      using la by (simp_all add: power_int_def)
  qed
  have B: "2 powi (bitlen b - 1) \<le> (of_int b :: rat)" "(of_int b :: rat) < 2 powi (bitlen b)"
  proof -
    have "(2::int) ^ nat (bitlen b - 1) \<le> b" "b < 2 ^ nat (bitlen b)"
      using bitlen_bounds [OF b] by auto
    then have "(of_int (2 ^ nat (bitlen b - 1)) :: rat) \<le> of_int b" "(of_int b :: rat) < of_int (2 ^ nat (bitlen b))"
      by (simp_all only: of_int_le_iff of_int_less_iff)
    then show "2 powi (bitlen b - 1) \<le> (of_int b :: rat)" "(of_int b :: rat) < 2 powi (bitlen b)"
      using lb by (simp_all add: power_int_def)
  qed
  define e where "e = bitlen a - bitlen b"
  have bp: "(0::rat) < of_int b" using b by simp
  have up: "x < 2 powi (e + 1)"
  proof -
    have "2 powi (e + 1) * 2 powi (bitlen b - 1) = (2 powi (bitlen a) :: rat)"
      by (simp add: e_def flip: power_int_add)
    moreover have "(2::rat) powi (e + 1) * 2 powi (bitlen b - 1) \<le> 2 powi (e + 1) * of_int b"
      using B(1) by (intro mult_left_mono) auto
    ultimately have "of_int a < (2::rat) powi (e + 1) * of_int b"
      using A(2) by linarith
    then show ?thesis using bp by (simp add: x divide_less_eq)
  qed
  have lo: "2 powi (e - 1) \<le> x"
  proof -
    have "2 powi (e - 1) * 2 powi (bitlen b) = (2 powi (bitlen a - 1) :: rat)"
      by (simp add: e_def algebra_simps flip: power_int_add)
    moreover have "(2::rat) powi (e - 1) * of_int b \<le> 2 powi (e - 1) * 2 powi (bitlen b)"
      using B(2) by (intro mult_left_mono) auto
    ultimately have "(2::rat) powi (e - 1) * of_int b \<le> of_int a"
      using A(1) by linarith
    then show ?thesis using bp by (simp add: x le_divide_eq)
  qed
  have ex: "expo x = (if 2 powi e \<le> x then e else e - 1)"
    by (simp add: expo_def q e_def Let_def)
  show "2 powi (expo x) \<le> x" and "x < 2 powi (expo x + 1)"
    using up lo by (auto simp: ex)
qed

lemma expo_unique:
  assumes "2 powi e \<le> x" and "x < 2 powi (e + 1)"
  shows "expo x = e"
proof -
  have "0 < x"
    using assms(1) by (meson less_le_trans zero_less_numeral zero_less_power_int)
  note b = expo_bounds [OF this]
  have "\<not> expo x < e"
  proof
    assume "expo x < e"
    then have "(2::rat) powi (expo x + 1) \<le> 2 powi e"
      by (intro power_int_increasing) auto
    with b assms show False by linarith
  qed
  moreover have "\<not> e < expo x"
  proof
    assume "e < expo x"
    then have "(2::rat) powi (e + 1) \<le> 2 powi (expo x)"
      by (intro power_int_increasing) auto
    with b assms show False by linarith
  qed
  ultimately show ?thesis by linarith
qed

lemma ulp_pos [simp]: "0 < ulp x"
  by (simp add: ulp_def)

lemma ulp_nonzero [simp]: "ulp x \<noteq> 0"
  using ulp_pos [of x] by linarith

lemma ulp_minus [simp]: "ulp (- x) = ulp x"
  by (simp add: ulp_def)

lemma ulp_le: "x \<noteq> 0 \<Longrightarrow> ulp x \<le> \<bar>x\<bar> / 2 ^ 52"
proof -
  assume "x \<noteq> 0"
  then have "2 powi (expo \<bar>x\<bar>) \<le> \<bar>x\<bar>" using expo_bounds(1) [of "\<bar>x\<bar>"] by simp
  moreover have "ulp x = 2 powi (expo \<bar>x\<bar>) / 2 ^ 52"
    by (simp add: ulp_def power_int_diff)
  ultimately show ?thesis by (simp add: divide_right_mono)
qed

lemma fl_0 [simp]: "fl 0 = 0"
  by (simp add: fl_def)

text \<open>The relative error of one rounding.\<close>

lemma fl_err: "\<bar>fl x - x\<bar> \<le> \<bar>x\<bar> / 2 ^ 53"
proof (cases "x = 0")
  case False
  let ?u = "ulp x" and ?r = "of_int (round_half_even (x / ulp x)) :: rat"
  have "fl x - x = (?r - x / ?u) * ?u"
    using False by (simp add: fl_def left_diff_distrib)
  then have "\<bar>fl x - x\<bar> = \<bar>?r - x / ?u\<bar> * ?u"
    using ulp_pos [of x] by (simp only: abs_mult abs_of_pos)
  also have "\<dots> \<le> 1 / 2 * ?u"
    by (intro mult_right_mono round_half_even_err) (simp add: less_imp_le)
  also have "\<dots> \<le> 1 / 2 * (\<bar>x\<bar> / 2 ^ 52)"
    using ulp_le [OF False] by (intro mult_left_mono) auto
  finally show ?thesis by simp
qed simp

text \<open>The same with the power evaluated, for linear arithmetic.\<close>

lemma fl_err_num: "\<bar>fl x - x\<bar> \<le> \<bar>x\<bar> / 9007199254740992"
  using fl_err [of x] by simp

lemma round_half_even_minus: "round_half_even (- x) = - round_half_even x"
proof (cases "x = of_int \<lfloor>x\<rfloor>")
  case True
  then show ?thesis by (metis of_int_minus round_half_even_of_int)
next
  case False
  then have "\<lfloor>- x\<rfloor> = - \<lfloor>x\<rfloor> - 1" by linarith
  then show ?thesis by (auto simp: round_half_even_def Let_def)
qed

lemma fl_minus: "fl (- x) = - fl x"
  by (simp add: fl_def round_half_even_minus)

text \<open>Values with at most 53 significant bits are exact.\<close>

lemma fl_exact_aux:
  assumes "\<bar>m\<bar> < (2::int) ^ 53"
  shows "fl (of_int m * 2 powi k) = of_int m * 2 powi k"
proof (cases "m = 0")
  case False
  define x :: rat where "x = of_int m * 2 powi k"
  define e where "e = expo \<bar>x\<bar>"
  have x0: "x \<noteq> 0" using False by (simp add: x_def)
  have ax: "\<bar>x\<bar> = of_int \<bar>m\<bar> * 2 powi k"
    by (simp add: x_def abs_mult)
  have "(of_int \<bar>m\<bar> :: rat) < of_int (2 ^ 53)"
    using assms by (simp only: of_int_less_iff)
  then have "\<bar>x\<bar> < 2 ^ 53 * 2 powi k"
    unfolding ax by (intro mult_strict_right_mono) auto
  moreover have "(2::rat) ^ 53 * 2 powi k = 2 powi (53 + k)"
    by (simp add: power_int_add)
  ultimately have "(2::rat) powi e < 2 powi (53 + k)"
    using expo_bounds(1) [of "\<bar>x\<bar>"] x0 by (simp add: e_def)
  then have ek: "e - 52 \<le> k"
    by (metis add.commute add_le_cancel_left diff_add_cancel le_diff_eq less_le_not_le linorder_not_less
        numeral_plus_one one_le_numeral power_int_increasing semiring_norm(5) zle_diff1_eq)
  have u: "ulp x = 2 powi (e - 52)" by (simp add: ulp_def e_def)
  have "x / 2 powi (e - 52) = of_int m * 2 powi (k - (e - 52))"
    by (simp add: x_def power_int_diff)
  then have "x / ulp x = of_int m * 2 powi (k - (e - 52))"
    by (simp only: u)
  also have "\<dots> = of_int (m * 2 ^ nat (k - (e - 52)))"
    using ek by (simp add: power_int_def)
  finally have "round_half_even (x / ulp x) = m * 2 ^ nat (k - (e - 52))"
    by (metis round_half_even_of_int)
  moreover have "of_int (m * 2 ^ nat (k - (e - 52))) * ulp x = x"
    using \<open>x / ulp x = _\<close> \<open>_ = of_int (m * 2 ^ nat (k - (e - 52)))\<close> by (metis nonzero_divide_eq_eq ulp_nonzero)
  ultimately show ?thesis
    using x0 by (simp add: fl_def x_def)
qed simp

lemma fl_exact:
  assumes "\<bar>m\<bar> \<le> (2::int) ^ 53"
  shows "fl (of_int m * 2 powi k) = of_int m * 2 powi k"
proof (cases "\<bar>m\<bar> = 2 ^ 53")
  case True
  define n where "n = m div 2"
  have "m = 2 * n" "\<bar>n\<bar> < 2 ^ 53"
    using True by (auto simp: n_def abs_if split: if_splits) presburger+
  moreover have "of_int (2 * n) * (2::rat) powi k = of_int n * 2 powi (k + 1)"
    by (simp add: power_int_add)
  ultimately show ?thesis
    using fl_exact_aux [of n "k + 1"] by metis
next
  case False
  then show ?thesis using assms by (intro fl_exact_aux) linarith
qed

lemma fl_of_int: "\<bar>m\<bar> \<le> (2::int) ^ 53 \<Longrightarrow> fl (of_int m) = of_int m"
  using fl_exact [of m 0] by simp

lemma fl_idem [simp]: "fl (fl x) = fl x"
proof (cases "x = 0")
  case False
  let ?m = "round_half_even (x / ulp x)"
  have "\<bar>x\<bar> < 2 powi (expo \<bar>x\<bar> + 1)"
    using expo_bounds(2) [of "\<bar>x\<bar>"] False by simp
  also have "\<dots> = 2 ^ 53 * ulp x"
    by (simp add: ulp_def power_int_add power_int_diff)
  finally have "\<bar>x / ulp x\<bar> < 2 ^ 53"
    using ulp_pos [of x] by (simp add: abs_divide divide_less_eq)
  then have b: "of_int (- (2 ^ 53)) \<le> x / ulp x" "x / ulp x \<le> of_int (2 ^ 53)"
    unfolding of_int_minus of_int_power of_int_numeral by linarith+
  have "?m \<le> 2 ^ 53" "- (2 ^ 53) \<le> ?m"
    using round_half_even_mono [OF b(2)] round_half_even_mono [OF b(1)]
    by (simp_all only: round_half_even_of_int)
  then have "fl (of_int ?m * 2 powi (expo \<bar>x\<bar> - 52)) = of_int ?m * 2 powi (expo \<bar>x\<bar> - 52)"
    by (intro fl_exact) auto
  then show ?thesis
    using False by (simp add: fl_def [of x] ulp_def)
qed simp

lemma is_float_fl [simp]: "is_float (fl x)"
  by (simp add: is_float_def)

lemma is_float_0 [simp]: "is_float 0"
  by (simp add: is_float_def)

lemma is_float_py_round [simp]: "is_float (py_round n x)"
  by (simp add: py_round_def)

lemma py_round_0 [simp]: "py_round n 0 = 0"
  by (simp add: py_round_def)

lemma fl_abs_le: "\<bar>fl x\<bar> \<le> 2 * \<bar>x\<bar>"
proof -
  show ?thesis using fl_err_num [of x] by linarith
qed

section \<open>Reading a float back from its decimal representation\<close>

lemma fl_py_repr:
  assumes "is_float x"
  shows "fl (py_repr x) = x"
  using assms
  by (auto simp: py_repr_def is_float_def Let_def find_Some_iff split: option.splits)

lemma py_repr_err:
  assumes "is_float x"
  shows "\<bar>py_repr x - x\<bar> \<le> \<bar>x\<bar> / 4503599627370496"
  using fl_err_num [of "py_repr x"] unfolding fl_py_repr [OF assms] by linarith

lemma py_repr_0 [simp]: "py_repr 0 = 0"
  using py_repr_err [of 0] by simp

lemma py_round_err:
  "\<bar>py_round n x - x\<bar> \<le> 1 / (2 * 10 ^ n) + (\<bar>x\<bar> + 1 / (2 * 10 ^ n)) / 9007199254740992"
proof -
  define p :: rat where "p = 10 ^ n"
  have p: "0 < p" by (simp add: p_def)
  define q where "q = of_int (round_half_even (x * p)) / p"
  have "q - x = (of_int (round_half_even (x * p)) - x * p) / p"
    using p by (simp add: q_def field_simps)
  then have "\<bar>q - x\<bar> = \<bar>of_int (round_half_even (x * p)) - x * p\<bar> / p"
    using p by (simp add: abs_divide)
  also have "\<dots> \<le> (1 / 2) / p"
    using p by (intro divide_right_mono round_half_even_err) simp
  finally have q: "\<bar>q - x\<bar> \<le> 1 / (2 * p)" by simp
  have "\<bar>fl q - q\<bar> \<le> \<bar>q\<bar> / 9007199254740992" by (rule fl_err_num)
  also have "\<dots> \<le> (\<bar>x\<bar> + 1 / (2 * p)) / 9007199254740992"
    using q by (intro divide_right_mono) linarith+
  finally show ?thesis
    using q unfolding py_round_def p_def [symmetric] q_def [symmetric] by linarith
qed

text \<open>Rounding is monotone, so it keeps the bounds a caller has checked.\<close>

lemma fl_mono_pos:
  assumes "0 < x" and "x \<le> y"
  shows "fl x \<le> fl y"
proof (cases "expo x = expo y")
  case True
  then have u: "ulp x = ulp y" using assms by (simp add: ulp_def)
  have "x / ulp y \<le> y / ulp y" using assms(2) ulp_pos [of y]
    by (intro divide_right_mono) (simp_all add: less_imp_le)
  then have "of_int (round_half_even (x / ulp y)) \<le> (of_int (round_half_even (y / ulp y)) :: rat)"
    using round_half_even_mono by simp
  then show ?thesis
    using assms u ulp_pos [of y] by (simp add: fl_def mult_right_mono)
next
  case False
  have y: "0 < y" using assms by simp
  have "expo x < expo y"
  proof (rule ccontr)
    assume "\<not> expo x < expo y"
    then have "expo y + 1 \<le> expo x" using False by simp
    then have "(2::rat) powi (expo y + 1) \<le> 2 powi (expo x)" by (intro power_int_increasing) auto
    then show False using expo_bounds(1) [OF assms(1)] expo_bounds(2) [OF y] assms by linarith
  qed
  then have "(2::rat) powi (expo x + 1) \<le> 2 powi (expo y)" by (intro power_int_increasing) auto
  define b where "b = (2::rat) powi (expo y)"
  have xb: "x \<le> 2 powi (expo x + 1)" using expo_bounds(2) [OF assms(1)] by simp
  have "x / ulp x \<le> of_int (2 ^ 53)"
  proof -
    have "(2::rat) powi (expo x + 1) = 2 ^ 53 * ulp x"
      using assms by (simp add: ulp_def power_int_add power_int_diff)
    then show ?thesis using xb ulp_pos [of x] by (simp add: divide_le_eq)
  qed
  then have "round_half_even (x / ulp x) \<le> 2 ^ 53"
    using round_half_even_mono round_half_even_of_int by metis
  then have "of_int (round_half_even (x / ulp x)) \<le> (of_int (2 ^ 53) :: rat)"
    by (simp only: of_int_le_iff)
  then have "fl x \<le> 2 ^ 53 * ulp x"
    using assms ulp_pos [of x] by (simp add: fl_def mult_right_mono)
  also have "\<dots> = 2 powi (expo x + 1)"
    using assms by (simp add: ulp_def power_int_add power_int_diff)
  also have "\<dots> \<le> b" using \<open>2 powi (expo x + 1) \<le> 2 powi (expo y)\<close> by (simp add: b_def)
  also have "b \<le> fl y"
  proof -
    have bu: "b = 2 ^ 52 * ulp y" using y by (simp add: b_def ulp_def power_int_diff)
    have "of_int (2 ^ 52) \<le> y / ulp y"
      using expo_bounds(1) [OF y] ulp_pos [of y] bu by (simp add: b_def le_divide_eq)
    then have "2 ^ 52 \<le> round_half_even (y / ulp y)"
      using round_half_even_mono round_half_even_of_int by metis
    then have "(of_int (2 ^ 52) :: rat) \<le> of_int (round_half_even (y / ulp y))"
      by (simp only: of_int_le_iff)
    then show ?thesis
      using y ulp_pos [of y] by (simp add: bu fl_def mult_right_mono)
  qed
  finally show ?thesis .
qed

lemma fl_nonneg: "0 \<le> x \<Longrightarrow> 0 \<le> fl x"
  using fl_err_num [of x] by linarith

lemma fl_mono: "x \<le> y \<Longrightarrow> fl x \<le> fl y"
proof -
  assume le: "x \<le> y"
  consider "0 < x" | "x \<le> 0" "0 \<le> y" | "y < 0" using le by linarith
  then show ?thesis
  proof cases
    case 1
    then show ?thesis using le by (rule fl_mono_pos)
  next
    case 2
    then show ?thesis using fl_nonneg [of y] fl_nonneg [of "- x"] by (simp add: fl_minus)
  next
    case 3
    then show ?thesis using fl_mono_pos [of "- y" "- x"] le by (simp add: fl_minus)
  qed
qed

lemma fl_pos: "0 < x \<Longrightarrow> 0 < fl x"
  using fl_err_num [of x] by linarith

lemma py_round_mono: "x \<le> y \<Longrightarrow> py_round n x \<le> py_round n y"
  unfolding py_round_def
  by (intro fl_mono divide_right_mono) (simp_all add: round_half_even_mono mult_right_mono)

lemma py_round_minus: "py_round n (- x) = - py_round n x"
  using round_half_even_minus [of "x * 10 ^ n"] by (simp add: py_round_def fl_minus [symmetric])

lemma py_repr_minus: "py_repr (- x) = - py_repr x"
proof -
  have d: "dec_round k (- x) = - dec_round k x" for k
    using round_half_even_minus [of "x * 10 powi k"] by (simp add: dec_round_def)
  show ?thesis
    unfolding py_repr_def d fl_minus neg_equal_iff_equal abs_minus_cancel
    by (auto simp: Let_def split: option.splits)
qed

end
