(* ===== verification/Money.thy ===== *)
theory Money
  imports Float64
begin

text \<open>
  \<open>app/core/money.py\<close>: amounts of Picoin as micro-units. \<open>amount\<close> has one constructor
  per Python type that reaches \<open>_decimal\<close>; \<open>to_units\<close>, \<open>from_units\<close>,
  \<open>canonical_amount\<close>, \<open>units_to_float\<close> and \<open>units_from_db\<close> are the module's
  functions. The decimal context of the module is the default one (28 digits): the only
  operation it can make fail is the first \<open>quantize\<close> of \<open>to_units\<close>. Unit counts read from
  SQLite are 64-bit, so \<open>from_units\<close> never reaches the limit and is total here.

  Lemmas: the decimal notation reads back, the float of a unit count converts back to that
  count, and a row whose two columns agree is read as its unit column.
\<close>

section \<open>Decimal notation\<close>

definition PICOIN_UNIT :: int where "PICOIN_UNIT = 1000000"

definition PICOIN_DECIMALS :: nat where "PICOIN_DECIMALS = 6"

definition is_digit :: "char \<Rightarrow> bool" where
  "is_digit c \<longleftrightarrow> 48 \<le> (of_char c :: nat) \<and> (of_char c :: nat) \<le> 57"

definition digit_val :: "char \<Rightarrow> nat" where
  "digit_val c = of_char c - 48"

fun digits_val :: "nat \<Rightarrow> string \<Rightarrow> nat" where
  "digits_val acc [] = acc"
| "digits_val acc (c # cs) = digits_val (10 * acc + digit_val c) cs"

text \<open>
  \<open>Decimal(s)\<close> on plain decimal notation: an optional sign, digits, and optionally a point
  followed by digits, at least one digit in all. Other texts (exponents, \<open>NaN\<close>,
  \<open>Infinity\<close>) do not occur among the amounts the program prints and give \<open>None\<close>,
  as texts that are not numbers do.
\<close>

definition parse_unsigned :: "string \<Rightarrow> rat option" where
  "parse_unsigned s =
     (let ip = takeWhile is_digit s; rest = dropWhile is_digit s in
      case rest of
        [] \<Rightarrow> if ip = [] then None else Some (of_nat (digits_val 0 ip))
      | c # fp \<Rightarrow>
          if c = CHR ''.'' \<and> list_all is_digit fp \<and> \<not> (ip = [] \<and> fp = [])
          then Some (of_nat (digits_val (digits_val 0 ip) fp) / 10 ^ length fp) else None)"

definition parse_decimal :: "string \<Rightarrow> rat option" where
  "parse_decimal s =
     (case s of
        [] \<Rightarrow> None
      | c # cs \<Rightarrow> if c = CHR ''-'' then map_option uminus (parse_unsigned cs)
          else if c = CHR ''+'' then parse_unsigned cs else parse_unsigned s)"

section \<open>The functions of money.py\<close>

datatype amount = NoneA | FloatA pyfloat | IntA int | DecA rat | StrA string

definition decimal_of :: "amount \<Rightarrow> rat result" where
  "decimal_of v = (case v of
     DecA d \<Rightarrow> Inr d
   | NoneA \<Rightarrow> Inr 0
   | FloatA x \<Rightarrow> Inr (py_repr x)
   | IntA i \<Rightarrow> Inr (of_int i)
   | StrA s \<Rightarrow> (case parse_decimal (str_strip s) of
       Some d \<Rightarrow> Inr d | None \<Rightarrow> Inl (ValueError ''invalid Picoin amount'')))"

text \<open>
  \<open>quantize\<close> to six places raises \<open>InvalidOperation\<close> when the coefficient needs more than
  the 28 digits of the context; the second rounding acts on an integer.
\<close>

definition to_units :: "amount \<Rightarrow> int result" where
  "to_units v = bindE (decimal_of v) (\<lambda>d.
     let q = round_half_up (d * of_int PICOIN_UNIT) in
     if \<bar>q\<bar> \<ge> 10 ^ 28 then Inl InvalidOperation else Inr q)"

definition from_units :: "int \<Rightarrow> rat" where
  "from_units u = of_int u / of_int PICOIN_UNIT"

definition pad_digits :: "nat \<Rightarrow> string \<Rightarrow> string" where
  "pad_digits n s = replicate (n - length s) CHR ''0'' @ s"

definition canonical_amount :: "int \<Rightarrow> string" where
  "canonical_amount u =
     (let a = nat \<bar>u\<bar> in
      (if u < 0 then ''-'' else []) @ show_nat (a div 10 ^ PICOIN_DECIMALS) @ ''.'' @
      pad_digits PICOIN_DECIMALS (show_nat (a mod 10 ^ PICOIN_DECIMALS)))"

text \<open>\<open>float(s)\<close> rounds the number the text denotes once.\<close>

definition units_to_float :: "int \<Rightarrow> pyfloat" where
  "units_to_float u = (case parse_decimal (canonical_amount u) of Some d \<Rightarrow> fl d | None \<Rightarrow> 0)"

definition units_from_db :: "amount \<Rightarrow> int option \<Rightarrow> int result" where
  "units_from_db amount units = (case units of
     None \<Rightarrow> to_units amount
   | Some parsed \<Rightarrow>
       (case to_units amount of
          Inl (ValueError m) \<Rightarrow> if parsed \<noteq> 0 then Inl (ValueError m) else to_units amount
        | Inl e \<Rightarrow> Inl e
        | Inr amount_units \<Rightarrow>
            if parsed \<noteq> 0 \<and> amount_units \<noteq> parsed
            then Inl (ValueError ''amount/unit mismatch'')
            else if parsed \<noteq> 0 \<or> amount_units = 0 then Inr parsed
            else to_units amount))"

section \<open>The notation reads back\<close>

lemma is_digit_char_of [simp]: "(d::nat) < 10 \<Longrightarrow> is_digit (char_of (48 + d))"
  by (simp add: is_digit_def)

lemma digit_val_char_of [simp]: "(d::nat) < 10 \<Longrightarrow> digit_val (char_of (48 + d)) = d"
  by (simp add: digit_val_def)

lemma digits_val_append: "digits_val acc (xs @ ys) = digits_val (digits_val acc xs) ys"
  by (induction xs arbitrary: acc) auto

lemma digits_val_acc: "digits_val acc xs = acc * 10 ^ length xs + digits_val 0 xs"
proof (induction xs arbitrary: acc)
  case (Cons c cs)
  show ?case
    unfolding digits_val.simps Cons [of "10 * acc + _"] Cons [of "10 * 0 + _"]
    by (simp add: algebra_simps)
qed simp

lemma show_nat_digits: "list_all is_digit (show_nat n)"
proof (induction n rule: show_nat.induct)
  case (1 n)
  then show ?case by (subst show_nat.simps) auto
qed

lemma digits_val_show_nat [simp]: "digits_val 0 (show_nat n) = n"
proof (induction n rule: show_nat.induct)
  case (1 n)
  then show ?case by (subst show_nat.simps) (auto simp: digits_val_append)
qed

lemma show_nat_not_Nil [simp]: "show_nat n \<noteq> []"
  by (subst show_nat.simps) auto

lemma length_show_nat: "0 < k \<Longrightarrow> n < 10 ^ k \<Longrightarrow> length (show_nat n) \<le> k"
proof (induction n arbitrary: k rule: show_nat.induct)
  case (1 n)
  show ?case
  proof (cases "n < 10")
    case True
    then show ?thesis using 1(2) by (subst show_nat.simps) simp
  next
    case False
    then obtain j where k: "k = Suc j" "0 < j"
      using 1(2,3) by (cases k; cases "k - 1") auto
    then have "n div 10 < 10 ^ j" using 1(3) by (simp add: less_mult_imp_div_less mult.commute)
    then have "length (show_nat (n div 10)) \<le> j" using 1(1) False k by blast
    then show ?thesis using False k by (subst show_nat.simps) simp
  qed
qed

lemma show_nat_inject: "show_nat m = show_nat n \<longleftrightarrow> m = n"
  by (metis digits_val_show_nat)

lemma takeWhile_digits: "list_all is_digit xs \<Longrightarrow> takeWhile is_digit (xs @ CHR ''.'' # ys) = xs"
  by (induction xs) (auto simp: is_digit_def)

lemma dropWhile_digits:
  "list_all is_digit xs \<Longrightarrow> dropWhile is_digit (xs @ CHR ''.'' # ys) = CHR ''.'' # ys"
  by (induction xs) (auto simp: is_digit_def)

lemma pad_digits_props:
  assumes "length s \<le> n"
  shows "length (pad_digits n s) = n" and "digits_val 0 (pad_digits n s) = digits_val 0 s"
    and "list_all is_digit s \<Longrightarrow> list_all is_digit (pad_digits n s)"
proof -
  have z: "digits_val 0 (replicate k CHR ''0'') = 0" for k
    by (induction k) (auto simp: digit_val_def)
  show "length (pad_digits n s) = n" using assms by (simp add: pad_digits_def)
  show "digits_val 0 (pad_digits n s) = digits_val 0 s"
    by (simp add: pad_digits_def digits_val_append z)
  show "list_all is_digit s \<Longrightarrow> list_all is_digit (pad_digits n s)"
    by (auto simp: pad_digits_def list_all_iff is_digit_def set_replicate_conv_if)
qed

lemma parse_unsigned_point:
  assumes "list_all is_digit xs" and "xs \<noteq> []" and "list_all is_digit ys"
  shows "parse_unsigned (xs @ CHR ''.'' # ys) =
    Some (of_nat (digits_val 0 xs * 10 ^ length ys + digits_val 0 ys) / 10 ^ length ys)"
  using assms digits_val_acc [of "digits_val 0 xs" ys]
  by (simp add: parse_unsigned_def takeWhile_digits dropWhile_digits)

lemma parse_canonical_amount: "parse_decimal (canonical_amount u) = Some (from_units u)"
proof -
  define a where "a = nat \<bar>u\<bar>"
  define ip where "ip = show_nat (a div 10 ^ 6)"
  define fp where "fp = pad_digits 6 (show_nat (a mod 10 ^ 6))"
  have len: "length (show_nat (a mod 10 ^ 6)) \<le> 6" by (rule length_show_nat) simp_all
  have fp: "length fp = 6" "digits_val 0 fp = a mod 10 ^ 6" "list_all is_digit fp"
    using pad_digits_props [OF len] show_nat_digits by (simp_all add: fp_def)
  have "parse_unsigned (ip @ CHR ''.'' # fp) =
      Some (of_nat (a div 10 ^ 6 * 10 ^ 6 + a mod 10 ^ 6) / 10 ^ 6)"
    using parse_unsigned_point [of ip fp] fp show_nat_digits by (simp add: ip_def)
  then have p: "parse_unsigned (ip @ CHR ''.'' # fp) = Some (of_nat a / 10 ^ 6)"
    by (simp only: div_mult_mod_eq)
  have ca: "canonical_amount u = (if u < 0 then ''-'' else []) @ ip @ CHR ''.'' # fp"
    by (simp add: canonical_amount_def Let_def a_def ip_def fp_def PICOIN_DECIMALS_def)
  have "hd ip \<noteq> CHR ''-''" "hd ip \<noteq> CHR ''+''" "ip \<noteq> []"
    using show_nat_digits [of "a div 10 ^ 6"] show_nat_not_Nil [of "a div 10 ^ 6"]
    unfolding ip_def by (cases "show_nat (a div 10 ^ 6)"; auto simp: is_digit_def)+
  then obtain c cs where "ip = c # cs" "c \<noteq> CHR ''-''" "c \<noteq> CHR ''+''"
    by (cases ip) auto
  then show ?thesis
    using p by (auto simp: parse_decimal_def ca from_units_def PICOIN_UNIT_def a_def)
qed

lemma units_to_float_eq: "units_to_float u = fl (of_int u / 1000000)"
  by (simp add: units_to_float_def parse_canonical_amount from_units_def PICOIN_UNIT_def)

lemma is_float_units_to_float [simp]: "is_float (units_to_float u)"
  by (simp add: units_to_float_eq)

lemma units_to_float_0 [simp]: "units_to_float 0 = 0"
  by (simp add: units_to_float_eq)

lemma units_to_float_mono: "u \<le> v \<Longrightarrow> units_to_float u \<le> units_to_float v"
  unfolding units_to_float_eq by (intro fl_mono divide_right_mono) simp_all

lemma units_to_float_nonneg [simp]: "0 \<le> units_to_float u \<longleftrightarrow> 0 \<le> u"
proof
  assume nn: "0 \<le> units_to_float u"
  show "0 \<le> u"
  proof (rule ccontr)
    assume "\<not> 0 \<le> u"
    then have "0 < fl (- (of_int u / 1000000))" by (intro fl_pos) simp
    with nn show False by (simp add: units_to_float_eq fl_minus)
  qed
qed (simp add: units_to_float_eq fl_nonneg)

section \<open>Floats to units and back\<close>

lemma to_units_FloatA:
  "to_units (FloatA x) =
     (let q = round_half_up (py_repr x * 1000000) in
      if \<bar>q\<bar> \<ge> 10 ^ 28 then Inl InvalidOperation else Inr q)"
  by (simp add: to_units_def decimal_of_def PICOIN_UNIT_def)

lemma to_units_FloatA_cases:
  obtains u where "to_units (FloatA x) = Inr u" | "to_units (FloatA x) = Inl InvalidOperation"
  by (cases "to_units (FloatA x)") (auto simp: to_units_FloatA Let_def split: if_splits)

lemma to_units_0 [simp]: "to_units (FloatA 0) = Inr 0"
  by (simp add: to_units_FloatA)

lemma to_units_minus:
  "to_units (FloatA x) = Inr u \<Longrightarrow> to_units (FloatA (- x)) = Inr (- u)"
  by (auto simp: to_units_FloatA Let_def py_repr_minus round_half_up_minus split: if_splits)

text \<open>A float close enough to an exact unit count converts to that count.\<close>

lemma to_units_near:
  assumes "is_float x" and "\<bar>x * 1000000 - of_int u\<bar> \<le> 1 / 4" and "\<bar>u\<bar> \<le> 10 ^ 15"
  shows "to_units (FloatA x) = Inr u"
proof -
  have u: "\<bar>of_int u :: rat\<bar> \<le> 1000000000000000"
  proof -
    have "\<bar>u\<bar> \<le> 1000000000000000" using assms(3) by simp
    then have "(of_int \<bar>u\<bar> :: rat) \<le> of_int 1000000000000000" by (simp only: of_int_le_iff)
    then show ?thesis by simp
  qed
  have r: "\<bar>py_repr x - x\<bar> \<le> \<bar>x\<bar> / 4503599627370496"
    by (rule py_repr_err) (rule assms)
  have "\<bar>py_repr x * 1000000 - of_int u\<bar> < 1 / 2"
    using r u assms(2) by linarith
  then have "round_half_up (py_repr x * 1000000) = u"
    by (rule round_half_up_near)
  moreover have "\<not> \<bar>u\<bar> \<ge> 10 ^ 28"
    using assms(3) by simp
  ultimately show ?thesis
    by (simp add: to_units_FloatA)
qed

lemma units_to_float_err:
  assumes "\<bar>u\<bar> \<le> 10 ^ 15"
  shows "\<bar>units_to_float u * 1000000 - of_int u\<bar> \<le> 1 / 8"
proof -
  have "\<bar>u\<bar> \<le> 1000000000000000" using assms by simp
  then have "(of_int \<bar>u\<bar> :: rat) \<le> of_int 1000000000000000" by (simp only: of_int_le_iff)
  then have "\<bar>of_int u :: rat\<bar> \<le> 1000000000000000" by simp
  moreover have "\<bar>units_to_float u - of_int u / 1000000\<bar> \<le> \<bar>of_int u / 1000000\<bar> / 9007199254740992"
    unfolding units_to_float_eq by (rule fl_err_num)
  ultimately show ?thesis by linarith
qed

lemma to_units_units_to_float [simp]:
  assumes "\<bar>u\<bar> \<le> 10 ^ 15"
  shows "to_units (FloatA (units_to_float u)) = Inr u"
  by (rule to_units_near) (use units_to_float_err [OF assms] assms in \<open>auto intro: order_trans\<close>)

lemma units_from_db_consistent:
  assumes "\<bar>u\<bar> \<le> 10 ^ 15"
  shows "units_from_db (FloatA (units_to_float u)) (Some u) = Inr u"
  using assms by (simp add: units_from_db_def)

text \<open>Whatever the row holds, an accepted unit column that is not zero agrees with the amount.\<close>

lemma units_from_db_accepts:
  assumes "units_from_db a (Some p) = Inr u"
  shows "to_units a = Inr u \<and> (p = u \<or> p = 0)"
  using assms
  by (cases "to_units a"; cases "projl (to_units a)")
     (auto simp: units_from_db_def split: if_splits err.splits)

lemma to_units_mono:
  assumes "to_units (DecA x) = Inr u" and "to_units (DecA y) = Inr v" and "x \<le> y"
  shows "u \<le> v"
  using assms
  by (auto simp: to_units_def decimal_of_def Let_def PICOIN_UNIT_def split: if_splits
      intro!: round_half_up_mono)


lemma canonical_amount_strip: "str_strip (canonical_amount u) = canonical_amount u"
proof -
  let ?s = "canonical_amount u"
  define fp where "fp = pad_digits 6 (show_nat (nat \<bar>u\<bar> mod 10 ^ 6))"
  have len: "length (show_nat (nat \<bar>u\<bar> mod 10 ^ 6)) \<le> 6" by (rule length_show_nat) simp_all
  have fp: "list_all is_digit fp" "fp \<noteq> []"
    using pad_digits_props [OF len] show_nat_digits unfolding fp_def by fastforce+
  have sp: "\<not> is_space c" if "is_digit c \<or> c = CHR ''-''" for c
    using that by (auto simp: is_space_def is_digit_def)
  have "last ?s = last fp" using fp by (simp add: canonical_amount_def Let_def PICOIN_DECIMALS_def fp_def)
  then have l: "\<not> is_space (last ?s)" using fp sp by (metis last_in_set list_all_iff)
  have "\<not> is_space (hd ?s)"
  proof (cases "u < 0")
    case False
    then have "hd ?s = hd (show_nat (nat \<bar>u\<bar> div 10 ^ 6))"
      by (simp add: canonical_amount_def Let_def PICOIN_DECIMALS_def)
    then show ?thesis
      using sp show_nat_digits by (metis hd_in_set list_all_iff show_nat_not_Nil)
  qed (simp add: canonical_amount_def Let_def sp)
  moreover have "?s \<noteq> []" by (simp add: canonical_amount_def Let_def)
  ultimately show ?thesis
    using l by (simp add: str_strip_def dropWhile_eq_self hd_rev)
qed

lemma to_units_canonical [simp]:
  assumes "\<bar>u\<bar> \<le> 10 ^ 15"
  shows "to_units (StrA (canonical_amount u)) = Inr u"
proof -
  have "from_units u * of_int PICOIN_UNIT = of_int u" by (simp add: from_units_def PICOIN_UNIT_def)
  then show ?thesis
    using assms by (simp add: to_units_def decimal_of_def canonical_amount_strip parse_canonical_amount)
qed

section \<open>Properties\<close>

text \<open>C13: a unit count within the exact range survives every representation the program gives it:
  the float column, the canonical decimal text, and the pair of columns of a database row.\<close>

theorem units_round_trip:
  assumes "\<bar>u\<bar> \<le> 10 ^ 15"
  shows "to_units (FloatA (units_to_float u)) = Inr u \<and>
    to_units (StrA (canonical_amount u)) = Inr u \<and>
    units_from_db (FloatA (units_to_float u)) (Some u) = Inr u"
  using assms units_from_db_consistent by simp

theorem units_round_trip_witness:
  "to_units (FloatA (units_to_float 3141600)) = Inr 3141600 \<and>
    to_units (StrA (canonical_amount 3141600)) = Inr 3141600 \<and>
    units_from_db (FloatA (units_to_float 3141600)) (Some 3141600) = Inr 3141600"
  using units_round_trip [of 3141600] by simp

end
