(* ===== verification/Economics.thy ===== *)
theory Economics
  imports Money
begin

text \<open>
  \<open>app/core/network_profiles.py\<close>, the protocol constants of \<open>app/core/settings.py\<close> and
  \<open>app/core/economics.py\<close>: how a block reward is divided among the miner, the validators,
  the science compute reserve and the scientific development treasury.

  Constants that settings reads from the environment are fields of \<open>settings\<close>, with the
  code's defaults in \<open>default_settings\<close>. Decimal arithmetic on unit counts is exact here:
  with the 28-digit context it is exact for totals below \<open>10 ^ 24\<close> units.
\<close>

section \<open>Network profiles\<close>

datatype chain_id = ChainStr string | ChainInt int

record NetworkProfile =
  np_name :: string
  np_network_id :: string
  np_chain_id :: chain_id
  np_protocol_version :: string
  np_genesis_supply :: pyfloat
  np_faucet_allowed_networks :: "string list"
  np_required_validator_approvals :: nat
  np_base_reward :: pyfloat
  np_validator_reward_percent :: pyfloat
  np_proof_of_pi_reward_percent :: pyfloat
  np_science_compute_reward_percent :: pyfloat
  np_scientific_development_reward_percent :: pyfloat
  np_min_validator_stake :: pyfloat
  np_validator_slash_invalid_signature :: pyfloat

definition network_profile ::
  "string \<Rightarrow> string \<Rightarrow> chain_id \<Rightarrow> string \<Rightarrow> pyfloat \<Rightarrow> string list \<Rightarrow> NetworkProfile" where
  "network_profile name nid cid ver supply faucet =
     \<lparr>np_name = name, np_network_id = nid, np_chain_id = cid, np_protocol_version = ver,
      np_genesis_supply = supply, np_faucet_allowed_networks = faucet,
      np_required_validator_approvals = 3, np_base_reward = fl 3.1416,
      np_validator_reward_percent = fl 0.10, np_proof_of_pi_reward_percent = fl 0.80,
      np_science_compute_reward_percent = fl 0.07, np_scientific_development_reward_percent = fl 0.03,
      np_min_validator_stake = fl 31.416, np_validator_slash_invalid_signature = fl 3.1416\<rparr>"

definition LOCAL_PROFILE :: NetworkProfile where
  "LOCAL_PROFILE = network_profile ''local'' ''local'' (ChainStr ''picoin-local-testnet'') ''0.18''
     (fl 3.1416) [''local'']"

definition PUBLIC_TESTNET_PROFILE :: NetworkProfile where
  "PUBLIC_TESTNET_PROFILE =
     (network_profile ''public-testnet'' ''public-testnet'' (ChainStr ''picoin-public-testnet-v018'')
       ''0.18'' (fl 3.1416) [''local'', ''public-testnet''])
     \<lparr>np_required_validator_approvals := 2\<rparr>"

definition MAINNET_PROFILE :: NetworkProfile where
  "MAINNET_PROFILE = network_profile ''mainnet'' ''picoin-mainnet-v1'' (ChainInt 314159) ''1.0'' 300 []"

definition NETWORK_PROFILES :: "(string \<times> NetworkProfile) list" where
  "NETWORK_PROFILES =
     [(''local'', LOCAL_PROFILE), (''public-testnet'', PUBLIC_TESTNET_PROFILE),
      (''mainnet'', MAINNET_PROFILE), (''picoin-mainnet-v1'', MAINNET_PROFILE)]"

definition profile_for_network :: "string \<Rightarrow> NetworkProfile" where
  "profile_for_network network_id =
     (let given = (if network_id = [] then ''local'' else network_id);
          c = str_lower (str_strip given);
          cleaned = (if c = [] then ''local'' else c) in
      case map_of NETWORK_PROFILES cleaned of
        Some p \<Rightarrow> p
      | None \<Rightarrow> network_profile cleaned cleaned (ChainStr (''picoin-'' @ cleaned @ ''-testnet''))
          (np_protocol_version LOCAL_PROFILE) (np_genesis_supply LOCAL_PROFILE) [])"

section \<open>Settings\<close>

record settings =
  st_profile :: NetworkProfile
  st_mempool_tx_ttl_seconds :: int
  st_mempool_max_fee :: pyfloat
  st_max_transactions_per_block :: int
  st_min_tx_fee_units :: int
  st_max_mempool_txs :: int
  st_max_mempool_txs_per_account :: int
  st_max_tx_size_bytes :: int
  st_block_maturity_depth :: nat
  st_science_max_reward_per_job :: pyfloat
  st_science_max_payout_per_epoch :: pyfloat
  st_science_max_pending_per_requester :: pyfloat
  st_treasury_wallet :: string
  st_governance_wallet :: string
  st_science_reserve_authorized_signers :: "string list"

definition default_settings :: settings where
  "default_settings =
     \<lparr>st_profile = LOCAL_PROFILE, st_mempool_tx_ttl_seconds = 3600, st_mempool_max_fee = fl 31.416,
      st_max_transactions_per_block = 100, st_min_tx_fee_units = 0, st_max_mempool_txs = 10000,
      st_max_mempool_txs_per_account = 100, st_max_tx_size_bytes = 16384,
      st_block_maturity_depth = 2, st_science_max_reward_per_job = fl 314.16,
      st_science_max_payout_per_epoch = fl 3141.6, st_science_max_pending_per_requester = fl 314.16,
      st_treasury_wallet = ''picoin_scientific_development_wallet'',
      st_governance_wallet = ''picoin_governance_multisig'',
      st_science_reserve_authorized_signers = [''signer-1'', ''signer-2'']\<rparr>"

definition PROOF_OF_PI_REWARD_PERCENT :: pyfloat where
  "PROOF_OF_PI_REWARD_PERCENT = np_proof_of_pi_reward_percent LOCAL_PROFILE"

definition VALIDATOR_REWARD_PERCENT_OF_BLOCK :: pyfloat where
  "VALIDATOR_REWARD_PERCENT_OF_BLOCK = np_validator_reward_percent LOCAL_PROFILE"

definition SCIENCE_COMPUTE_REWARD_PERCENT_OF_BLOCK :: pyfloat where
  "SCIENCE_COMPUTE_REWARD_PERCENT_OF_BLOCK = np_science_compute_reward_percent LOCAL_PROFILE"

definition SCIENTIFIC_DEVELOPMENT_REWARD_PERCENT_OF_BLOCK :: pyfloat where
  "SCIENTIFIC_DEVELOPMENT_REWARD_PERCENT_OF_BLOCK =
     np_scientific_development_reward_percent LOCAL_PROFILE"

text \<open>Every profile, configured or made up for an unknown network, has the same percentages.\<close>

lemma profile_percentages:
  "np_proof_of_pi_reward_percent (profile_for_network n) = PROOF_OF_PI_REWARD_PERCENT"
  "np_validator_reward_percent (profile_for_network n) = VALIDATOR_REWARD_PERCENT_OF_BLOCK"
  "np_science_compute_reward_percent (profile_for_network n) = SCIENCE_COMPUTE_REWARD_PERCENT_OF_BLOCK"
  "np_scientific_development_reward_percent (profile_for_network n) =
     SCIENTIFIC_DEVELOPMENT_REWARD_PERCENT_OF_BLOCK"
  by (simp_all add: profile_for_network_def NETWORK_PROFILES_def Let_def LOCAL_PROFILE_def
      PUBLIC_TESTNET_PROFILE_def MAINNET_PROFILE_def network_profile_def
      PROOF_OF_PI_REWARD_PERCENT_def VALIDATOR_REWARD_PERCENT_OF_BLOCK_def
      SCIENCE_COMPUTE_REWARD_PERCENT_OF_BLOCK_def SCIENTIFIC_DEVELOPMENT_REWARD_PERCENT_OF_BLOCK_def)

definition SCIENCE_RESERVE_ACCOUNT_ID :: string where
  "SCIENCE_RESERVE_ACCOUNT_ID = ''science_compute_reserve''"

definition SCIENTIFIC_DEVELOPMENT_TREASURY_ACCOUNT_ID :: string where
  "SCIENTIFIC_DEVELOPMENT_TREASURY_ACCOUNT_ID = ''scientific_development_treasury''"

definition SCIENTIFIC_DEVELOPMENT_UNLOCK_INTERVAL_DAYS :: int where
  "SCIENTIFIC_DEVELOPMENT_UNLOCK_INTERVAL_DAYS = 90"

definition SCIENCE_RESERVE_GOVERNANCE_TIMELOCK_SECONDS :: int where
  "SCIENCE_RESERVE_GOVERNANCE_TIMELOCK_SECONDS = 24 * 60 * 60"

definition SCIENCE_RESERVE_GOVERNANCE_MULTISIG_THRESHOLD :: nat where
  "SCIENCE_RESERVE_GOVERNANCE_MULTISIG_THRESHOLD = 2"

definition SCIENCE_BASE_MONTHLY_QUOTA_UNITS :: int where
  "SCIENCE_BASE_MONTHLY_QUOTA_UNITS = 100"

definition SCIENCE_ALLOW_SELF_WORK :: bool where
  "SCIENCE_ALLOW_SELF_WORK = False"

definition GENESIS_ACCOUNT_ID :: string where
  "GENESIS_ACCOUNT_ID = ''genesis''"

section \<open>Shares of the block reward\<close>

record protocol_params =
  base_reward :: pyfloat

definition BASIS_POINTS :: int where "BASIS_POINTS = 10000"

definition basis_points :: "pyfloat \<Rightarrow> int" where
  "basis_points percent = round_half_up (py_repr percent * of_int BASIS_POINTS)"

definition percent_units :: "int \<Rightarrow> pyfloat \<Rightarrow> int" where
  "percent_units total_units percent =
     (let bps = basis_points percent in
      round_half_up (of_int total_units * of_int bps / of_int BASIS_POINTS))"

definition PROOF_OF_PI_REWARD_BPS :: int where
  "PROOF_OF_PI_REWARD_BPS = basis_points PROOF_OF_PI_REWARD_PERCENT"

definition VALIDATOR_REWARD_BPS :: int where
  "VALIDATOR_REWARD_BPS = basis_points VALIDATOR_REWARD_PERCENT_OF_BLOCK"

definition SCIENCE_COMPUTE_REWARD_BPS :: int where
  "SCIENCE_COMPUTE_REWARD_BPS = basis_points SCIENCE_COMPUTE_REWARD_PERCENT_OF_BLOCK"

definition SCIENTIFIC_DEVELOPMENT_REWARD_BPS :: int where
  "SCIENTIFIC_DEVELOPMENT_REWARD_BPS = basis_points SCIENTIFIC_DEVELOPMENT_REWARD_PERCENT_OF_BLOCK"

definition total_block_reward_units :: "protocol_params \<Rightarrow> int result" where
  "total_block_reward_units params = to_units (FloatA (base_reward params))"

definition miner_reward_units :: "protocol_params \<Rightarrow> int result" where
  "miner_reward_units params = bindE (total_block_reward_units params) (\<lambda>t.
     Inr (percent_units t PROOF_OF_PI_REWARD_PERCENT))"

definition validator_reward_pool_units :: "protocol_params \<Rightarrow> int result" where
  "validator_reward_pool_units params = bindE (total_block_reward_units params) (\<lambda>t.
     Inr (percent_units t VALIDATOR_REWARD_PERCENT_OF_BLOCK))"

definition science_reserve_units_from_total :: "int \<Rightarrow> int" where
  "science_reserve_units_from_total total_units = percent_units total_units SCIENCE_COMPUTE_REWARD_PERCENT_OF_BLOCK"

definition scientific_development_units_from_total :: "int \<Rightarrow> int" where
  "scientific_development_units_from_total total_units =
     percent_units total_units SCIENTIFIC_DEVELOPMENT_REWARD_PERCENT_OF_BLOCK"

definition total_units_from_miner_reward_units :: "int \<Rightarrow> int" where
  "total_units_from_miner_reward_units miner_units =
     round_half_up (of_int miner_units * of_int BASIS_POINTS / of_int PROOF_OF_PI_REWARD_BPS)"

definition reward_units_to_float :: "int \<Rightarrow> pyfloat" where
  "reward_units_to_float u = units_to_float u"

lemma percent_constants:
  "PROOF_OF_PI_REWARD_PERCENT = fl (8 / 10)"
  "VALIDATOR_REWARD_PERCENT_OF_BLOCK = fl (1 / 10)"
  "SCIENCE_COMPUTE_REWARD_PERCENT_OF_BLOCK = fl (7 / 100)"
  "SCIENTIFIC_DEVELOPMENT_REWARD_PERCENT_OF_BLOCK = fl (3 / 100)"
  by (simp_all add: PROOF_OF_PI_REWARD_PERCENT_def VALIDATOR_REWARD_PERCENT_OF_BLOCK_def
      SCIENCE_COMPUTE_REWARD_PERCENT_OF_BLOCK_def SCIENTIFIC_DEVELOPMENT_REWARD_PERCENT_OF_BLOCK_def
      LOCAL_PROFILE_def network_profile_def)

lemma basis_points_values:
  "basis_points PROOF_OF_PI_REWARD_PERCENT = 8000"
  "basis_points VALIDATOR_REWARD_PERCENT_OF_BLOCK = 1000"
  "basis_points SCIENCE_COMPUTE_REWARD_PERCENT_OF_BLOCK = 700"
  "basis_points SCIENTIFIC_DEVELOPMENT_REWARD_PERCENT_OF_BLOCK = 300"
  unfolding percent_constants by code_simp+

lemma percent_units_values:
  "percent_units t PROOF_OF_PI_REWARD_PERCENT = round_half_up (of_int t * 8 / 10)"
  "percent_units t VALIDATOR_REWARD_PERCENT_OF_BLOCK = round_half_up (of_int t / 10)"
  "percent_units t SCIENCE_COMPUTE_REWARD_PERCENT_OF_BLOCK = round_half_up (of_int t * 7 / 100)"
  "percent_units t SCIENTIFIC_DEVELOPMENT_REWARD_PERCENT_OF_BLOCK = round_half_up (of_int t * 3 / 100)"
  by (simp_all add: percent_units_def basis_points_values BASIS_POINTS_def Let_def mult.commute)

lemma total_units_from_miner_eq:
  "total_units_from_miner_reward_units m = round_half_up (of_int m * 10 / 8)"
  by (simp add: total_units_from_miner_reward_units_def PROOF_OF_PI_REWARD_BPS_def
      basis_points_values BASIS_POINTS_def)

text \<open>A whole number of cents of the total leaves no remainder in any share.\<close>

lemma percent_units_exact:
  assumes "t = 100 * n"
  shows "percent_units t PROOF_OF_PI_REWARD_PERCENT = 80 * n"
    and "percent_units t VALIDATOR_REWARD_PERCENT_OF_BLOCK = 10 * n"
    and "percent_units t SCIENCE_COMPUTE_REWARD_PERCENT_OF_BLOCK = 7 * n"
    and "percent_units t SCIENTIFIC_DEVELOPMENT_REWARD_PERCENT_OF_BLOCK = 3 * n"
proof -
  have e: "(of_int t * 8 / 10 :: rat) = of_int (80 * n)" "(of_int t / 10 :: rat) = of_int (10 * n)"
    "(of_int t * 7 / 100 :: rat) = of_int (7 * n)" "(of_int t * 3 / 100 :: rat) = of_int (3 * n)"
    using assms by simp_all
  show "percent_units t PROOF_OF_PI_REWARD_PERCENT = 80 * n"
    "percent_units t VALIDATOR_REWARD_PERCENT_OF_BLOCK = 10 * n"
    "percent_units t SCIENCE_COMPUTE_REWARD_PERCENT_OF_BLOCK = 7 * n"
    "percent_units t SCIENTIFIC_DEVELOPMENT_REWARD_PERCENT_OF_BLOCK = 3 * n"
    unfolding percent_units_values e by (rule round_half_up_of_int)+
qed

lemma percent_units_nonneg:
  assumes "0 \<le> t"
  shows "0 \<le> percent_units t PROOF_OF_PI_REWARD_PERCENT"
    and "0 \<le> percent_units t VALIDATOR_REWARD_PERCENT_OF_BLOCK"
    and "0 \<le> percent_units t SCIENCE_COMPUTE_REWARD_PERCENT_OF_BLOCK"
    and "0 \<le> percent_units t SCIENTIFIC_DEVELOPMENT_REWARD_PERCENT_OF_BLOCK"
  using assms round_half_up_mono [of 0] by (simp_all add: percent_units_values)


section \<open>Properties\<close>

text \<open>C12: the four shares of a block reward are non-negative and add up to the reward when it is a
  whole number of hundreds of units, as the configured reward is; otherwise rounding creates or
  loses at most two units.\<close>

theorem block_reward_split:
  assumes "0 \<le> t"
  shows "0 \<le> percent_units t PROOF_OF_PI_REWARD_PERCENT \<and>
    0 \<le> percent_units t VALIDATOR_REWARD_PERCENT_OF_BLOCK \<and>
    0 \<le> science_reserve_units_from_total t \<and> 0 \<le> scientific_development_units_from_total t \<and>
    (let shares = percent_units t PROOF_OF_PI_REWARD_PERCENT +
       percent_units t VALIDATOR_REWARD_PERCENT_OF_BLOCK +
       science_reserve_units_from_total t + scientific_development_units_from_total t in
     \<bar>shares - t\<bar> \<le> 2 \<and> (t mod 100 = 0 \<longrightarrow> shares = t))"
proof -
  note defs = science_reserve_units_from_total_def scientific_development_units_from_total_def
  let ?a = "percent_units t PROOF_OF_PI_REWARD_PERCENT"
  let ?b = "percent_units t VALIDATOR_REWARD_PERCENT_OF_BLOCK"
  let ?c = "percent_units t SCIENCE_COMPUTE_REWARD_PERCENT_OF_BLOCK"
  let ?d = "percent_units t SCIENTIFIC_DEVELOPMENT_REWARD_PERCENT_OF_BLOCK"
  have "\<bar>of_int ?a - of_int t * 8 / 10 :: rat\<bar> \<le> 1 / 2" "\<bar>of_int ?b - of_int t / 10 :: rat\<bar> \<le> 1 / 2"
    "\<bar>of_int ?c - of_int t * 7 / 100 :: rat\<bar> \<le> 1 / 2" "\<bar>of_int ?d - of_int t * 3 / 100 :: rat\<bar> \<le> 1 / 2"
    unfolding percent_units_values by (rule round_half_up_err)+
  then have "\<bar>of_int ?a + of_int ?b + of_int ?c + of_int ?d - of_int t :: rat\<bar> \<le> 2" by linarith
  then have "(of_int \<bar>?a + ?b + ?c + ?d - t\<bar> :: rat) \<le> of_int 2" by simp
  then have e: "\<bar>?a + ?b + ?c + ?d - t\<bar> \<le> 2" by (simp only: of_int_le_iff)
  have x: "?a + ?b + ?c + ?d = t" if "t mod 100 = 0"
  proof -
    have "t = 100 * (t div 100)" using that by (simp add: mod_eq_0_iff_dvd)
    then show ?thesis using percent_units_exact [of t "t div 100"] by linarith
  qed
  show ?thesis
    unfolding defs Let_def using percent_units_nonneg [OF assms] e x by blast
qed

theorem block_reward_split_witness:
  "percent_units 3141600 PROOF_OF_PI_REWARD_PERCENT +
       percent_units 3141600 VALIDATOR_REWARD_PERCENT_OF_BLOCK +
       science_reserve_units_from_total 3141600 + scientific_development_units_from_total 3141600 = 3141600"
  using block_reward_split [of 3141600] by (simp add: Let_def)

text \<open>From the miner's share the program reconstructs the whole reward to within one unit,
  exactly when the reward is a multiple of five units.\<close>

theorem total_units_from_miner_share:
  "\<bar>total_units_from_miner_reward_units (percent_units t PROOF_OF_PI_REWARD_PERCENT) - t\<bar> \<le> 1 \<and>
   (t mod 5 = 0 \<longrightarrow>
     total_units_from_miner_reward_units (percent_units t PROOF_OF_PI_REWARD_PERCENT) = t)"
proof
  let ?m = "percent_units t PROOF_OF_PI_REWARD_PERCENT"
  let ?r = "total_units_from_miner_reward_units ?m"
  have "\<bar>of_int ?m - of_int t * 8 / 10 :: rat\<bar> \<le> 1 / 2" "\<bar>of_int ?r - of_int ?m * 10 / 8 :: rat\<bar> \<le> 1 / 2"
    unfolding percent_units_values total_units_from_miner_eq by (rule round_half_up_err)+
  then have "\<bar>of_int ?r - of_int t :: rat\<bar> < 2" by linarith
  then have "(of_int \<bar>?r - t\<bar> :: rat) < of_int 2" by simp
  then show "\<bar>?r - t\<bar> \<le> 1" by (simp only: of_int_less_iff)
  show "t mod 5 = 0 \<longrightarrow> ?r = t"
  proof
    assume "t mod 5 = 0"
    then have t: "t = 5 * (t div 5)" by presburger
    have "(of_int t * 8 / 10 :: rat) = of_int (4 * (t div 5))" by (subst t) simp
    then have m: "?m = 4 * (t div 5)" unfolding percent_units_values by (simp only: round_half_up_of_int)
    have "(of_int ?m * 10 / 8 :: rat) = of_int t" by (subst (2) t) (simp add: m)
    then show "?r = t" unfolding total_units_from_miner_eq by (simp only: round_half_up_of_int)
  qed
qed

theorem total_units_from_miner_share_witness:
  "total_units_from_miner_reward_units (percent_units 3141600 PROOF_OF_PI_REWARD_PERCENT) = 3141600"
  using total_units_from_miner_share [of 3141600] by simp

end
