(* ===== verification/Ledger.thy ===== *)
theory Ledger
  imports Economics
begin

text \<open>
  The ledger: the tables \<open>balances\<close> and \<open>ledger_entries\<close> of \<open>app/db/database.py\<close> and
  the functions that post to them, one per service module: \<open>_apply_reward_ledger_entry\<close>
  (rewards), \<open>_apply_ledger_entry\<close> (treasury, science, mining), \<open>_apply_account_delta\<close>
  (transactions, consensus replay). The keyword arguments they share are the record
  \<open>posting\<close>. They differ in who may go negative, in how the account type is kept and in how
  the amount is rounded.

  The locale \<open>ledger_post\<close> is the contract the clients rely on: a successful posting adds
  the posted units to one account, appends one entry that records them and leaves everything
  else alone; it is interpreted below on all six implementations. \<open>ledger_ok\<close> is the
  invariant of the two tables: one row per account, the float column is the rendering of the
  unit column, and every balance is the sum of the account's entries.

  Timestamps are integers (microseconds); foreign keys are not modelled.
\<close>

section \<open>Tables\<close>

record balance_row =
  b_account_id :: string
  b_account_type :: string
  b_balance :: pyfloat
  b_balance_units :: int
  b_updated_at :: int

record ledger_entry =
  le_account_id :: string
  le_account_type :: string
  le_amount :: pyfloat
  le_amount_units :: int
  le_balance_after :: pyfloat
  le_balance_after_units :: int
  le_entry_type :: string
  le_block_height :: "int option"
  le_related_id :: "string option"
  le_description :: "string option"
  le_created_at :: int

record db_ledger =
  balances :: "balance_row list"
  ledger_entries :: "ledger_entry list"

text \<open>The keyword arguments of the posting functions.\<close>

record posting =
  p_account_id :: string
  p_account_type :: string
  p_amount :: pyfloat
  p_entry_type :: string
  p_block_height :: "int option"
  p_related_id :: "string option"
  p_description :: "string option"

definition find_balance :: "string \<Rightarrow> 'a db_ledger_scheme \<Rightarrow> balance_row option" where
  "find_balance a db = tbl_find b_account_id a (balances db)"

section \<open>The posting functions\<close>

definition ensure_balance_account ::
  "string \<Rightarrow> string \<Rightarrow> int \<Rightarrow> 'a db_ledger_scheme \<Rightarrow> 'a db_ledger_scheme" where
  "ensure_balance_account a ty now db =
     db\<lparr>balances := tbl_upsert b_account_id id
       \<lparr>b_account_id = a, b_account_type = ty, b_balance = 0, b_balance_units = 0, b_updated_at = now\<rparr>
       (balances db)\<rparr>"

text \<open>\<open>SELECT balance, balance_units\<close> after the account is ensured, then \<open>units_from_db\<close>.\<close>

definition current_units :: "string \<Rightarrow> 'a db_ledger_scheme \<Rightarrow> int result" where
  "current_units a db = (case find_balance a db of
     None \<Rightarrow> Inl TypeError
   | Some r \<Rightarrow> units_from_db (FloatA (b_balance r)) (Some (b_balance_units r)))"

definition update_balance ::
  "string \<Rightarrow> pyfloat \<Rightarrow> int \<Rightarrow> int \<Rightarrow> 'a db_ledger_scheme \<Rightarrow> 'a db_ledger_scheme" where
  "update_balance a bal units ts db =
     db\<lparr>balances := tbl_update (\<lambda>r. b_account_id r = a)
       (\<lambda>r. r\<lparr>b_balance := bal, b_balance_units := units, b_updated_at := ts\<rparr>) (balances db)\<rparr>"

definition upsert_balance ::
  "string \<Rightarrow> string \<Rightarrow> pyfloat \<Rightarrow> int \<Rightarrow> int \<Rightarrow> 'a db_ledger_scheme \<Rightarrow> 'a db_ledger_scheme" where
  "upsert_balance a ty bal units ts db =
     (let new = \<lparr>b_account_id = a, b_account_type = ty, b_balance = bal,
                 b_balance_units = units, b_updated_at = ts\<rparr> in
      db\<lparr>balances := tbl_upsert b_account_id (\<lambda>r. new) new (balances db)\<rparr>)"

definition insert_ledger_entry ::
  "posting \<Rightarrow> pyfloat \<Rightarrow> int \<Rightarrow> pyfloat \<Rightarrow> int \<Rightarrow> int \<Rightarrow> 'a db_ledger_scheme \<Rightarrow> 'a db_ledger_scheme" where
  "insert_ledger_entry p amount units bal_after units_after ts db =
     db\<lparr>ledger_entries := ledger_entries db @
       [\<lparr>le_account_id = p_account_id p, le_account_type = p_account_type p, le_amount = amount,
         le_amount_units = units, le_balance_after = bal_after, le_balance_after_units = units_after,
         le_entry_type = p_entry_type p, le_block_height = p_block_height p,
         le_related_id = p_related_id p, le_description = p_description p, le_created_at = ts\<rparr>]\<rparr>"

text \<open>\<open>rewards._apply_reward_ledger_entry\<close>: the entry type is fixed, no floor.\<close>

definition apply_reward_ledger_entry ::
  "int \<Rightarrow> posting \<Rightarrow> 'a db_ledger_scheme \<Rightarrow> 'a db_ledger_scheme result" where
  "apply_reward_ledger_entry timestamp p db =
     (let db1 = ensure_balance_account (p_account_id p) (p_account_type p) timestamp db in
      bindE (to_units (FloatA (p_amount p))) (\<lambda>amount_units.
      bindE (current_units (p_account_id p) db1) (\<lambda>cur.
        let after_units = cur + amount_units; after = units_to_float after_units;
            db2 = update_balance (p_account_id p) after after_units timestamp db1 in
        Inr (insert_ledger_entry (p\<lparr>p_entry_type := ''block_reward''\<rparr>)
               (units_to_float amount_units) amount_units after after_units timestamp db2))))"

text \<open>\<open>mining._apply_ledger_entry\<close>: no floor, \<open>timestamp or utc_now()\<close>.\<close>

definition mining_apply_ledger_entry ::
  "int \<Rightarrow> int option \<Rightarrow> posting \<Rightarrow> 'a db_ledger_scheme \<Rightarrow> 'a db_ledger_scheme result" where
  "mining_apply_ledger_entry now ts p db =
     (let db1 = ensure_balance_account (p_account_id p) (p_account_type p) now db in
      bindE (to_units (FloatA (p_amount p))) (\<lambda>amount_units.
      bindE (current_units (p_account_id p) db1) (\<lambda>cur.
        let after_units = cur + amount_units; after = units_to_float after_units;
            timestamp = (case ts of Some t \<Rightarrow> t | None \<Rightarrow> now);
            db2 = update_balance (p_account_id p) after after_units timestamp db1 in
        Inr (insert_ledger_entry p (units_to_float amount_units) amount_units after after_units
               timestamp db2))))"

text \<open>\<open>treasury._apply_ledger_entry\<close>: the amount is rounded to eight places and recorded as
  such; a negative balance is refused.\<close>

definition treasury_apply_ledger_entry ::
  "int \<Rightarrow> int option \<Rightarrow> posting \<Rightarrow> 'a db_ledger_scheme \<Rightarrow> 'a db_ledger_scheme result" where
  "treasury_apply_ledger_entry now ts p db =
     (let amount = py_round 8 (p_amount p) in
      bindE (to_units (FloatA amount)) (\<lambda>amount_units.
      let db1 = ensure_balance_account (p_account_id p) (p_account_type p) now db in
      bindE (current_units (p_account_id p) db1) (\<lambda>cur.
        let after_units = cur + amount_units; after = units_to_float after_units in
        if after_units < 0
        then Inl (TreasuryError 409 ''treasury operation would create a negative balance'')
        else
          let timestamp = (case ts of Some t \<Rightarrow> t | None \<Rightarrow> now);
              db2 = update_balance (p_account_id p) after after_units timestamp db1 in
          Inr (insert_ledger_entry p amount amount_units after after_units timestamp db2))))"

definition science_apply_ledger_entry ::
  "int \<Rightarrow> posting \<Rightarrow> 'a db_ledger_scheme \<Rightarrow> 'a db_ledger_scheme result" where
  "science_apply_ledger_entry now p db =
     (let db1 = ensure_balance_account (p_account_id p) (p_account_type p) now db in
      bindE (to_units (FloatA (p_amount p))) (\<lambda>amount_units.
      bindE (current_units (p_account_id p) db1) (\<lambda>cur.
        let after_units = cur + amount_units; after = units_to_float after_units in
        if after_units < 0
        then Inl (ScienceError 409 ''science ledger operation would create a negative balance'')
        else
          let db2 = update_balance (p_account_id p) after after_units now db1 in
          Inr (insert_ledger_entry p (units_to_float amount_units) amount_units after after_units
                 now db2))))"

text \<open>\<open>transactions._apply_account_delta\<close>: a missing row counts as zero and the account type
  is overwritten.\<close>

definition previous_units :: "string \<Rightarrow> 'a db_ledger_scheme \<Rightarrow> int result" where
  "previous_units a db = (case find_balance a db of
     None \<Rightarrow> Inr 0
   | Some r \<Rightarrow> units_from_db (FloatA (b_balance r)) (Some (b_balance_units r)))"

definition apply_account_delta ::
  "int \<Rightarrow> posting \<Rightarrow> 'a db_ledger_scheme \<Rightarrow> 'a db_ledger_scheme result" where
  "apply_account_delta timestamp p db =
     bindE (to_units (FloatA (p_amount p))) (\<lambda>amount_units.
     bindE (previous_units (p_account_id p) db) (\<lambda>previous.
       let after_units = previous + amount_units; after = units_to_float after_units in
       if after_units < 0
       then Inl (TransactionExecutionError (''negative balance for '' @ p_account_id p))
       else
         let db1 = upsert_balance (p_account_id p) (p_account_type p) after after_units timestamp db in
         Inr (insert_ledger_entry p (units_to_float amount_units) amount_units after after_units
                timestamp db1)))"

text \<open>\<open>consensus._apply_account_delta\<close>: the same without the floor.\<close>

definition consensus_apply_account_delta ::
  "int \<Rightarrow> posting \<Rightarrow> 'a db_ledger_scheme \<Rightarrow> 'a db_ledger_scheme result" where
  "consensus_apply_account_delta timestamp p db =
     bindE (to_units (FloatA (p_amount p))) (\<lambda>amount_units.
     bindE (previous_units (p_account_id p) db) (\<lambda>previous.
       let after_units = previous + amount_units; after = units_to_float after_units;
           db1 = upsert_balance (p_account_id p) (p_account_type p) after after_units timestamp db in
       Inr (insert_ledger_entry p (units_to_float amount_units) amount_units after after_units
              timestamp db1)))"

section \<open>The invariant\<close>

text \<open>The abstract ledger: what each account holds.\<close>

definition acct_units :: "'a db_ledger_scheme \<Rightarrow> string \<Rightarrow> int" where
  "acct_units db a = (case find_balance a db of None \<Rightarrow> 0 | Some r \<Rightarrow> b_balance_units r)"

definition entry_sum :: "string \<Rightarrow> ledger_entry list \<Rightarrow> int" where
  "entry_sum a es = (\<Sum>e\<leftarrow>es. if le_account_id e = a then le_amount_units e else 0)"

definition total_units :: "'a db_ledger_scheme \<Rightarrow> int" where
  "total_units db = (\<Sum>r\<leftarrow>balances db. b_balance_units r)"

definition row_ok :: "balance_row \<Rightarrow> bool" where
  "row_ok r \<longleftrightarrow> b_balance r = units_to_float (b_balance_units r)"

definition ledger_ok :: "'a db_ledger_scheme \<Rightarrow> bool" where
  "ledger_ok db \<longleftrightarrow>
     distinct (map b_account_id (balances db)) \<and>
     list_all row_ok (balances db) \<and>
     (\<forall>a \<in> set (map b_account_id (balances db) @ map le_account_id (ledger_entries db)).
        acct_units db a = entry_sum a (ledger_entries db))"

text \<open>The invariant and the abstract ledger depend on the two tables only.\<close>

lemma ledger_cong:
  assumes "balances db = balances db'" and "ledger_entries db = ledger_entries db'"
  shows "ledger_ok db \<longleftrightarrow> ledger_ok db'" and "acct_units db = acct_units db'"
    and "total_units db = total_units db'"
  using assms by (simp_all add: ledger_ok_def acct_units_def find_balance_def total_units_def fun_eq_iff)

lemma entry_sum_append [simp]: "entry_sum a (xs @ ys) = entry_sum a xs + entry_sum a ys"
  by (simp add: entry_sum_def)

lemma entry_sum_single [simp]:
  "entry_sum a [e] = (if le_account_id e = a then le_amount_units e else 0)"
  by (simp add: entry_sum_def)

lemma entry_sum_notin: "a \<notin> le_account_id ` set es \<Longrightarrow> entry_sum a es = 0"
  by (induction es) (auto simp: entry_sum_def)

lemma ledger_ok_audit: "ledger_ok db \<Longrightarrow> acct_units db a = entry_sum a (ledger_entries db)"
proof (cases "a \<in> set (map b_account_id (balances db) @ map le_account_id (ledger_entries db))")
  case False
  then have "find_balance a db = None" "a \<notin> le_account_id ` set (ledger_entries db)"
    by (auto simp: find_balance_def tbl_find_None)
  then show ?thesis by (simp add: acct_units_def entry_sum_notin)
qed (auto simp: ledger_ok_def)

lemma ledger_okI:
  assumes "distinct (map b_account_id (balances db))" and "list_all row_ok (balances db)"
    and "\<And>a. acct_units db a = entry_sum a (ledger_entries db)"
  shows "ledger_ok db"
  using assms by (simp add: ledger_ok_def)

lemma ledger_okD:
  assumes "ledger_ok db"
  shows "distinct (map b_account_id (balances db))" and "list_all row_ok (balances db)"
  using assms by (auto simp: ledger_ok_def)

text \<open>Reading a consistent row gives its unit column or fails; within the bound it succeeds.\<close>

lemma units_from_db_row:
  assumes "row_ok r" and "units_from_db (FloatA (b_balance r)) (Some (b_balance_units r)) = Inr u"
  shows "u = b_balance_units r"
  using units_from_db_accepts [OF assms(2)] assms(1) by (auto simp: row_ok_def)

lemma units_from_db_row_in_range:
  assumes "row_ok r" and "\<bar>b_balance_units r\<bar> \<le> 10 ^ 15"
  shows "units_from_db (FloatA (b_balance r)) (Some (b_balance_units r)) = Inr (b_balance_units r)"
  using assms by (simp add: row_ok_def units_from_db_consistent)

lemma previous_units_ok:
  assumes "list_all row_ok (balances db)"
  shows "previous_units a db = Inr u \<Longrightarrow> u = acct_units db a"
    and "\<bar>acct_units db a\<bar> \<le> 10 ^ 15 \<Longrightarrow> previous_units a db = Inr (acct_units db a)"
  using assms
  by (auto simp: previous_units_def acct_units_def find_balance_def list_all_iff
      units_from_db_row_in_range split: option.splits
      dest!: tbl_find_in intro: units_from_db_row)

lemma find_balance_ensure:
  "find_balance a' (ensure_balance_account a ty now db) =
     (if a' = a \<and> find_balance a db = None
      then Some \<lparr>b_account_id = a, b_account_type = ty, b_balance = 0, b_balance_units = 0, b_updated_at = now\<rparr>
      else find_balance a' db)"
  by (auto simp: find_balance_def ensure_balance_account_def tbl_find_upsert split: option.splits)

lemma ensure_balance_account_simps [simp]:
  "acct_units (ensure_balance_account a ty now db) = acct_units db"
  "ledger_entries (ensure_balance_account a ty now db) = ledger_entries db"
  "db_ledger.more (ensure_balance_account a ty now db) = db_ledger.more db"
  by (auto simp: acct_units_def find_balance_ensure fun_eq_iff split: option.splits)
     (auto simp: ensure_balance_account_def)

lemma tbl_upsert_id_rows:
  "list_all P rows \<Longrightarrow> P r \<Longrightarrow> list_all P (tbl_upsert key id r rows)"
  by (auto simp: tbl_upsert_def list_all_iff set_tbl_update)

lemma ensure_balance_account_rows:
  assumes "distinct (map b_account_id (balances db))" and "list_all row_ok (balances db)"
  shows "distinct (map b_account_id (balances (ensure_balance_account a ty now db)))"
    and "list_all row_ok (balances (ensure_balance_account a ty now db))"
  using assms by (auto simp: ensure_balance_account_def row_ok_def
      intro!: distinct_tbl_upsert tbl_upsert_id_rows)

lemma ensure_balance_account_ok:
  "ledger_ok db \<Longrightarrow> ledger_ok (ensure_balance_account a ty now db)"
  by (rule ledger_okI) (auto simp: ledger_ok_audit intro!: ensure_balance_account_rows dest: ledger_okD)

lemma current_units_ensured:
  "current_units a (ensure_balance_account a ty now db) = previous_units a db"
  by (auto simp: current_units_def previous_units_def find_balance_ensure units_from_db_def
      split: option.splits)


section \<open>What a posting does\<close>

text \<open>
  The specification of one posting of \<open>u\<close> units to account \<open>a\<close>: the abstract ledger changes
  at \<open>a\<close> only, one entry is appended that records the change and the new balance, the total
  moves by \<open>u\<close>, and the other tables of the database are untouched.
\<close>

definition ledger_step :: "string \<Rightarrow> int \<Rightarrow> 'a db_ledger_scheme \<Rightarrow> 'a db_ledger_scheme \<Rightarrow> bool" where
  "ledger_step a u db db' \<longleftrightarrow>
     acct_units db' = (acct_units db)(a := acct_units db a + u) \<and>
     (\<exists>e. ledger_entries db' = ledger_entries db @ [e] \<and> le_account_id e = a \<and>
        le_amount_units e = u \<and> le_balance_after_units e = acct_units db' a) \<and>
     total_units db' = total_units db + u \<and>
     db_ledger.more db' = db_ledger.more db \<and>
     distinct (map b_account_id (balances db')) \<and> list_all row_ok (balances db')"

lemma ledger_step_ok:
  assumes "ledger_ok db" and "ledger_step a u db db'"
  shows "ledger_ok db'"
  using assms by (intro ledger_okI) (auto simp: ledger_step_def ledger_ok_audit)

lemma upsert_balance_find:
  "find_balance a' (upsert_balance a ty bal units ts db) =
     (if a' = a then Some \<lparr>b_account_id = a, b_account_type = ty, b_balance = bal,
        b_balance_units = units, b_updated_at = ts\<rparr> else find_balance a' db)"
  by (auto simp: find_balance_def upsert_balance_def Let_def tbl_find_upsert split: option.splits)

lemma update_balance_find:
  "find_balance a' (update_balance a bal units ts db) =
     (if a' = a then map_option (\<lambda>r. r\<lparr>b_balance := bal, b_balance_units := units, b_updated_at := ts\<rparr>)
        (find_balance a db) else find_balance a' db)"
  by (cases "tbl_find b_account_id a' (balances db)")
     (auto simp: find_balance_def update_balance_def tbl_find_update dest: tbl_find_key)

lemma list_all_tbl_update:
  "list_all P rows \<Longrightarrow> (\<And>r. r \<in> set rows \<Longrightarrow> p r \<Longrightarrow> P (f r)) \<Longrightarrow> list_all P (tbl_update p f rows)"
  by (auto simp: list_all_iff set_tbl_update)

lemma upsert_balance_step:
  assumes d: "distinct (map b_account_id (balances db))" and r: "list_all row_ok (balances db)"
    and u: "units = acct_units db (p_account_id p) + u" and a: "p_account_id p = a" "p_account_id q = a"
  shows "ledger_step a u db (insert_ledger_entry q amt u bal units ts
           (upsert_balance a ty (units_to_float units) units ts db))"
proof -
  let ?new = "\<lparr>b_account_id = a, b_account_type = ty, b_balance = units_to_float units,
      b_balance_units = units, b_updated_at = ts\<rparr>"
  let ?db = "upsert_balance a ty (units_to_float units) units ts db"
  have acct: "acct_units ?db = (acct_units db)(a := units)"
    by (auto simp: acct_units_def upsert_balance_find fun_eq_iff)
  have tot: "total_units ?db = total_units db + u"
  proof (cases "find_balance a db")
    case None
    then show ?thesis
      using u a by (simp add: total_units_def upsert_balance_def tbl_upsert_def Let_def
          find_balance_def acct_units_def)
  next
    case (Some r0)
    then show ?thesis
      using sum_list_tbl_update_one [of b_account_id "balances db" a r0 b_balance_units "\<lambda>_. ?new"] d u a
      by (simp add: total_units_def upsert_balance_def tbl_upsert_def Let_def
          find_balance_def acct_units_def)
  qed
  have "distinct (map b_account_id (balances ?db))"
    using d by (auto simp: upsert_balance_def Let_def intro!: distinct_tbl_upsert)
  moreover have "list_all row_ok (balances ?db)"
    using r by (auto simp: upsert_balance_def Let_def tbl_upsert_def row_ok_def
        intro!: list_all_tbl_update)
  ultimately show ?thesis
    using acct tot u a
    by (simp add: ledger_step_def insert_ledger_entry_def acct_units_def find_balance_def
        total_units_def fun_eq_iff) (simp add: upsert_balance_def Let_def)
qed

lemma update_balance_step:
  assumes d: "distinct (map b_account_id (balances db))" and r: "list_all row_ok (balances db)"
    and u: "units = acct_units db (p_account_id p) + u" and a: "p_account_id p = a" "p_account_id q = a"
    and f: "find_balance a db = Some r0"
  shows "ledger_step a u db (insert_ledger_entry q amt u bal units ts
           (update_balance a (units_to_float units) units ts db))"
proof -
  let ?f = "\<lambda>r. r\<lparr>b_balance := units_to_float units, b_balance_units := units, b_updated_at := ts\<rparr>"
  let ?db = "update_balance a (units_to_float units) units ts db"
  have acct: "acct_units ?db = (acct_units db)(a := units)"
    using f by (auto simp: acct_units_def update_balance_find fun_eq_iff)
  have tot: "total_units ?db = total_units db + u"
    using sum_list_tbl_update_one [of b_account_id "balances db" a r0 b_balance_units ?f] d u a f
    by (simp add: total_units_def update_balance_def find_balance_def acct_units_def)
  have "map b_account_id (balances ?db) = map b_account_id (balances db)"
    unfolding update_balance_def by (simp add: map_tbl_update)
  then have "distinct (map b_account_id (balances ?db))"
    using d by simp
  moreover have "list_all row_ok (balances ?db)"
    using r by (auto simp: update_balance_def row_ok_def intro!: list_all_tbl_update)
  ultimately show ?thesis
    using acct tot u a
    by (simp add: ledger_step_def insert_ledger_entry_def acct_units_def find_balance_def
        total_units_def fun_eq_iff) (simp add: update_balance_def)
qed

lemma total_units_ensure: "total_units (ensure_balance_account a ty now db) = total_units db"
  by (simp add: total_units_def ensure_balance_account_def tbl_upsert_def)

lemma ledger_step_ensure:
  "ledger_step a u (ensure_balance_account b ty now db) db' \<longleftrightarrow> ledger_step a u db db'"
  by (simp add: ledger_step_def total_units_ensure)

lemma ensured_found: "\<exists>r. find_balance a (ensure_balance_account a ty now db) = Some r"
  by (auto simp: find_balance_ensure)

lemma ensure_update_step:
  assumes ok: "ledger_ok db" and u: "units = acct_units db a + u" and a: "p_account_id q = a"
  shows "ledger_step a u db (insert_ledger_entry q amt u bal units ts
           (update_balance a (units_to_float units) units ts (ensure_balance_account a ty now db)))"
proof -
  let ?db = "ensure_balance_account a ty now db"
  obtain r0 where "find_balance a ?db = Some r0" using ensured_found by blast
  moreover have "distinct (map b_account_id (balances ?db))" "list_all row_ok (balances ?db)"
    using ensure_balance_account_rows ledger_okD [OF ok] by blast+
  ultimately have "ledger_step a u ?db (insert_ledger_entry q amt u bal units ts
           (update_balance a (units_to_float units) units ts ?db))"
    using u a by (intro update_balance_step [where p = q]) auto
  then show ?thesis
    by (simp only: ledger_step_ensure)
qed

section \<open>The posting contract\<close>

text \<open>
  \<open>post\<close> is the service's posting function, \<open>amount\<close> the units a posting is worth to it,
  \<open>refuses\<close> the balances it will not write.
\<close>

locale ledger_post =
  fixes post :: "posting \<Rightarrow> 'a db_ledger_scheme \<Rightarrow> 'a db_ledger_scheme result"
    and amount :: "posting \<Rightarrow> int result"
    and refuses :: "int \<Rightarrow> bool"
  assumes post_step: "ledger_ok db \<Longrightarrow> post p db = Inr db' \<Longrightarrow>
      \<exists>u. amount p = Inr u \<and> \<not> refuses (acct_units db (p_account_id p) + u) \<and>
          ledger_step (p_account_id p) u db db'"
    and post_succeeds: "ledger_ok db \<Longrightarrow> amount p = Inr u \<Longrightarrow>
      \<bar>acct_units db (p_account_id p)\<bar> \<le> 10 ^ 15 \<Longrightarrow>
      \<not> refuses (acct_units db (p_account_id p) + u) \<Longrightarrow> \<exists>db'. post p db = Inr db'"
begin

lemma post_ok: "ledger_ok db \<Longrightarrow> post p db = Inr db' \<Longrightarrow> ledger_ok db'"
  using post_step ledger_step_ok by blast

lemma post_more: "ledger_ok db \<Longrightarrow> post p db = Inr db' \<Longrightarrow> db_ledger.more db' = db_ledger.more db"
  using post_step by (auto simp: ledger_step_def)

lemma post_other:
  "ledger_ok db \<Longrightarrow> post p db = Inr db' \<Longrightarrow> a \<noteq> p_account_id p \<Longrightarrow> acct_units db' a = acct_units db a"
  using post_step by (fastforce simp: ledger_step_def)

lemma post_amount:
  assumes "ledger_ok db" and "post p db = Inr db'" and "amount p = Inr u"
  shows "acct_units db' = (acct_units db)(p_account_id p := acct_units db (p_account_id p) + u)"
    and "total_units db' = total_units db + u"
  using post_step [OF assms(1,2)] assms(3) by (auto simp: ledger_step_def)

lemma posts_ok: "ledger_ok db \<Longrightarrow> foldE post ps db = Inr db' \<Longrightarrow> ledger_ok db'"
  by (rule foldE_invariant [where P = ledger_ok and f = post]) (auto intro: post_ok)

lemma posts_total:
  assumes "ledger_ok db" and "foldE post ps db = Inr db'"
  shows "total_units db' = total_units db + (\<Sum>p\<leftarrow>ps. projr (amount p))"
  using assms
proof (induction ps arbitrary: db)
  case (Cons p ps)
  then obtain db1 where s: "post p db = Inr db1" "foldE post ps db1 = Inr db'" by auto
  obtain u where "amount p = Inr u" "ledger_step (p_account_id p) u db db1"
    using post_step [OF Cons.prems(1) s(1)] by blast
  then show ?case
    using Cons.IH [OF post_ok [OF Cons.prems(1) s(1)] s(2)] by (simp add: ledger_step_def)
qed simp

lemma transfer_conserves:
  assumes "ledger_ok db" and "post p db = Inr db1" and "post q db1 = Inr db2"
    and "amount p = Inr (- u)" and "amount q = Inr u"
  shows "total_units db2 = total_units db" and "ledger_ok db2"
    and "acct_units db2 =
      (let m = (acct_units db)(p_account_id p := acct_units db (p_account_id p) - u) in
       m(p_account_id q := m (p_account_id q) + u))"
  using post_amount [OF assms(1,2,4)] post_amount [OF post_ok [OF assms(1,2)] assms(3,5)]
    post_ok [OF post_ok [OF assms(1,2)] assms(3)]
  by (simp_all add: Let_def)

end

text \<open>The services that refuse a negative balance keep every balance non-negative.\<close>

locale floored_ledger_post = ledger_post post amount refuses
  for post :: "posting \<Rightarrow> 'a db_ledger_scheme \<Rightarrow> 'a db_ledger_scheme result"
    and amount :: "posting \<Rightarrow> int result"
    and refuses :: "int \<Rightarrow> bool" +
  assumes refuses_negative: "b < 0 \<Longrightarrow> refuses b"
begin

lemma post_nonneg:
  assumes "ledger_ok db" and "post p db = Inr db'" and "\<And>a. 0 \<le> acct_units db a"
  shows "0 \<le> acct_units db' a"
proof -
  obtain u where "\<not> refuses (acct_units db (p_account_id p) + u)"
    "ledger_step (p_account_id p) u db db'"
    using post_step [OF assms(1,2)] by blast
  moreover from this have "0 \<le> acct_units db (p_account_id p) + u"
    using refuses_negative by force
  ultimately show ?thesis
    using assms(3) by (auto simp: ledger_step_def)
qed

lemma posts_nonneg:
  assumes "ledger_ok db" and "foldE post ps db = Inr db'" and "\<And>a. 0 \<le> acct_units db a"
  shows "0 \<le> acct_units db' a"
proof -
  have "ledger_ok db' \<and> (\<forall>a. 0 \<le> acct_units db' a)"
    by (rule foldE_invariant [where P = "\<lambda>s. ledger_ok s \<and> (\<forall>a. 0 \<le> acct_units s a)", OF _ _ assms(2)])
       (use assms(1,3) post_ok post_nonneg in blast)+
  then show ?thesis by blast
qed

lemma overdraft_refused:
  assumes "ledger_ok db" and "amount p = Inr u" and "acct_units db (p_account_id p) + u < 0"
  shows "\<exists>e. post p db = Inl e"
  using post_step [OF assms(1)] refuses_negative assms(2,3)
  by (cases "post p db") fastforce+

end


section \<open>The implementations meet the contract\<close>

definition posted_units :: "posting \<Rightarrow> int result" where
  "posted_units p = to_units (FloatA (p_amount p))"

definition treasury_posted_units :: "posting \<Rightarrow> int result" where
  "treasury_posted_units p = to_units (FloatA (py_round 8 (p_amount p)))"

definition never :: "int \<Rightarrow> bool" where "never b = False"

definition negative :: "int \<Rightarrow> bool" where "negative b \<longleftrightarrow> b < 0"

lemmas post_defs = apply_reward_ledger_entry_def mining_apply_ledger_entry_def
  treasury_apply_ledger_entry_def science_apply_ledger_entry_def apply_account_delta_def
  consensus_apply_account_delta_def posted_units_def treasury_posted_units_def
  never_def negative_def Let_def current_units_ensured

lemmas read_units = previous_units_ok(1) [OF ledger_okD(2)] previous_units_ok(2) [OF ledger_okD(2)]

interpretation rewards_post: ledger_post "apply_reward_ledger_entry ts" posted_units never for ts
proof
  fix db db' :: "'a db_ledger_scheme" and p :: posting and u :: int
  assume ok: "ledger_ok db"
  show "\<exists>u. posted_units p = Inr u \<and> \<not> never (acct_units db (p_account_id p) + u) \<and>
      ledger_step (p_account_id p) u db db'" if "apply_reward_ledger_entry ts p db = Inr db'"
    using that ok by (auto simp: post_defs dest!: read_units(1) [OF ok] intro!: ensure_update_step)
  show "\<exists>db'. apply_reward_ledger_entry ts p db = Inr db'"
    if "posted_units p = Inr u" "\<bar>acct_units db (p_account_id p)\<bar> \<le> 10 ^ 15"
    using that by (auto simp: post_defs read_units(2) [OF ok])
qed

interpretation mining_post: ledger_post "mining_apply_ledger_entry now ts" posted_units never for now ts
proof
  fix db db' :: "'a db_ledger_scheme" and p :: posting and u :: int
  assume ok: "ledger_ok db"
  show "\<exists>u. posted_units p = Inr u \<and> \<not> never (acct_units db (p_account_id p) + u) \<and>
      ledger_step (p_account_id p) u db db'" if "mining_apply_ledger_entry now ts p db = Inr db'"
    using that ok by (auto simp: post_defs dest!: read_units(1) [OF ok] intro!: ensure_update_step)
  show "\<exists>db'. mining_apply_ledger_entry now ts p db = Inr db'"
    if "posted_units p = Inr u" "\<bar>acct_units db (p_account_id p)\<bar> \<le> 10 ^ 15"
    using that by (auto simp: post_defs read_units(2) [OF ok])
qed

interpretation consensus_post: ledger_post "consensus_apply_account_delta ts" posted_units never for ts
proof
  fix db db' :: "'a db_ledger_scheme" and p :: posting and u :: int
  assume ok: "ledger_ok db"
  show "\<exists>u. posted_units p = Inr u \<and> \<not> never (acct_units db (p_account_id p) + u) \<and>
      ledger_step (p_account_id p) u db db'" if "consensus_apply_account_delta ts p db = Inr db'"
    using that ledger_okD [OF ok]
    by (auto simp: post_defs dest!: read_units(1) [OF ok] intro!: upsert_balance_step)
  show "\<exists>db'. consensus_apply_account_delta ts p db = Inr db'"
    if "posted_units p = Inr u" "\<bar>acct_units db (p_account_id p)\<bar> \<le> 10 ^ 15"
    using that by (auto simp: post_defs read_units(2) [OF ok])
qed

interpretation treasury_post: floored_ledger_post "treasury_apply_ledger_entry now ts"
  treasury_posted_units negative for now ts
proof
  fix db db' :: "'a db_ledger_scheme" and p :: posting and u b :: int
  show "b < 0 \<Longrightarrow> negative b" by (simp add: negative_def)
  assume ok: "ledger_ok db"
  show "\<exists>u. treasury_posted_units p = Inr u \<and> \<not> negative (acct_units db (p_account_id p) + u) \<and>
      ledger_step (p_account_id p) u db db'" if "treasury_apply_ledger_entry now ts p db = Inr db'"
    using that ok by (auto simp: post_defs dest!: read_units(1) [OF ok] intro!: ensure_update_step
        split: if_splits)
  show "\<exists>db'. treasury_apply_ledger_entry now ts p db = Inr db'"
    if "treasury_posted_units p = Inr u" "\<bar>acct_units db (p_account_id p)\<bar> \<le> 10 ^ 15"
      "\<not> negative (acct_units db (p_account_id p) + u)"
    using that by (auto simp: post_defs read_units(2) [OF ok])
qed

interpretation science_post: floored_ledger_post "science_apply_ledger_entry now" posted_units negative for now
proof
  fix db db' :: "'a db_ledger_scheme" and p :: posting and u b :: int
  show "b < 0 \<Longrightarrow> negative b" by (simp add: negative_def)
  assume ok: "ledger_ok db"
  show "\<exists>u. posted_units p = Inr u \<and> \<not> negative (acct_units db (p_account_id p) + u) \<and>
      ledger_step (p_account_id p) u db db'" if "science_apply_ledger_entry now p db = Inr db'"
    using that ok by (auto simp: post_defs dest!: read_units(1) [OF ok] intro!: ensure_update_step
        split: if_splits)
  show "\<exists>db'. science_apply_ledger_entry now p db = Inr db'"
    if "posted_units p = Inr u" "\<bar>acct_units db (p_account_id p)\<bar> \<le> 10 ^ 15"
      "\<not> negative (acct_units db (p_account_id p) + u)"
    using that by (auto simp: post_defs read_units(2) [OF ok])
qed

interpretation tx_post: floored_ledger_post "apply_account_delta ts" posted_units negative for ts
proof
  fix db db' :: "'a db_ledger_scheme" and p :: posting and u b :: int
  show "b < 0 \<Longrightarrow> negative b" by (simp add: negative_def)
  assume ok: "ledger_ok db"
  show "\<exists>u. posted_units p = Inr u \<and> \<not> negative (acct_units db (p_account_id p) + u) \<and>
      ledger_step (p_account_id p) u db db'" if "apply_account_delta ts p db = Inr db'"
    using that ledger_okD [OF ok]
    by (auto simp: post_defs dest!: read_units(1) [OF ok] intro!: upsert_balance_step split: if_splits)
  show "\<exists>db'. apply_account_delta ts p db = Inr db'"
    if "posted_units p = Inr u" "\<bar>acct_units db (p_account_id p)\<bar> \<le> 10 ^ 15"
      "\<not> negative (acct_units db (p_account_id p) + u)"
    using that by (auto simp: post_defs read_units(2) [OF ok])
qed


section \<open>Properties\<close>

lemma ledger_stepD:
  assumes "ledger_ok db" and "ledger_step a u db db'"
  shows "ledger_ok db' \<and> (\<forall>b. b \<noteq> a \<longrightarrow> acct_units db' b = acct_units db b) \<and>
    (\<exists>e. ledger_entries db' = ledger_entries db @ [e] \<and> le_account_id e = a \<and>
      acct_units db' a = acct_units db a + le_amount_units e \<and>
      le_balance_after_units e = acct_units db' a)"
  using assms ledger_step_ok [OF assms] by (auto simp: ledger_step_def)

text \<open>C7: whichever of the six posting functions is called, if it succeeds then every balance is
  still the sum of its entries and agrees with its float column, no other account has moved, and
  exactly one entry has been appended, which records the change and the new balance.\<close>

theorem posting_keeps_audit:
  assumes "ledger_ok db"
    and "apply_reward_ledger_entry ts p db = Inr db' \<or> mining_apply_ledger_entry now ts_opt p db = Inr db' \<or>
      treasury_apply_ledger_entry now ts_opt p db = Inr db' \<or> science_apply_ledger_entry now p db = Inr db' \<or>
      apply_account_delta ts p db = Inr db' \<or> consensus_apply_account_delta ts p db = Inr db'"
  shows "ledger_ok db' \<and> (\<forall>b. b \<noteq> p_account_id p \<longrightarrow> acct_units db' b = acct_units db b) \<and>
    (\<exists>e. ledger_entries db' = ledger_entries db @ [e] \<and> le_account_id e = p_account_id p \<and>
      acct_units db' (p_account_id p) = acct_units db (p_account_id p) + le_amount_units e \<and>
      le_balance_after_units e = acct_units db' (p_account_id p))"
proof -
  have "\<exists>u. ledger_step (p_account_id p) u db db'"
    using assms rewards_post.post_step mining_post.post_step treasury_post.post_step
      science_post.post_step tx_post.post_step consensus_post.post_step by metis
  then show ?thesis using ledger_stepD [OF assms(1)] by blast
qed

definition example_ledger :: db_ledger where
  "example_ledger = \<lparr>balances = [], ledger_entries = []\<rparr>"

definition example_posting :: "string \<Rightarrow> int \<Rightarrow> posting" where
  "example_posting a u = \<lparr>p_account_id = a, p_account_type = ''wallet'', p_amount = units_to_float u,
     p_entry_type = ''transfer'', p_block_height = Some 1, p_related_id = None, p_description = None\<rparr>"

lemma example_ledger_facts [simp]:
  "ledger_ok example_ledger" "acct_units example_ledger a = 0" "total_units example_ledger = 0"
  by (simp_all add: example_ledger_def ledger_ok_def acct_units_def find_balance_def total_units_def)

lemma posted_units_example [simp]:
  "p_account_id (example_posting a u) = a"
  "\<bar>u\<bar> \<le> 10 ^ 15 \<Longrightarrow> posted_units (example_posting a u) = Inr u"
  by (simp_all add: example_posting_def posted_units_def)

theorem posting_keeps_audit_witness:
  "\<exists>db'. apply_account_delta 7 (example_posting ''PIA'' 500) example_ledger = Inr db' \<and>
     ledger_ok db' \<and> acct_units db' ''PIB'' = 0"
proof -
  obtain db' where "apply_account_delta 7 (example_posting ''PIA'' 500) example_ledger = Inr db'"
    using tx_post.post_succeeds [of example_ledger "example_posting ''PIA'' 500" 500 7]
    by (auto simp: negative_def)
  then show ?thesis
    using posting_keeps_audit [of example_ledger 7 "example_posting ''PIA'' 500" db'] by auto
qed

text \<open>A transfer between two accounts through \<open>_apply_account_delta\<close>, a debit followed by a
  credit of the same units, conserves the total of all balances, moves exactly that many units,
  and leaves no balance negative.\<close>

theorem account_delta_transfer:
  assumes "ledger_ok db" and "\<forall>a. 0 \<le> acct_units db a"
    and "apply_account_delta ts p db = Inr db1" and "apply_account_delta ts' q db1 = Inr db2"
    and "posted_units p = Inr (- u)" and "posted_units q = Inr u"
    and "p_account_id p \<noteq> p_account_id q"
  shows "total_units db2 = total_units db \<and> ledger_ok db2 \<and> (\<forall>a. 0 \<le> acct_units db2 a) \<and>
    acct_units db2 (p_account_id p) = acct_units db (p_account_id p) - u \<and>
    acct_units db2 (p_account_id q) = acct_units db (p_account_id q) + u \<and>
    u \<le> acct_units db (p_account_id p)"
proof -
  have ok1: "ledger_ok db1" by (rule tx_post.post_ok [OF assms(1,3)])
  have n1: "0 \<le> acct_units db1 a" for a
    by (rule tx_post.post_nonneg [OF assms(1,3)]) (use assms(2) in blast)
  have n2: "0 \<le> acct_units db2 a" for a
    by (rule tx_post.post_nonneg [OF ok1 assms(4) n1])
  note a1 = tx_post.post_amount [OF assms(1,3,5)] and a2 = tx_post.post_amount [OF ok1 assms(4,6)]
  show ?thesis
    using a1 a2 n1 [of "p_account_id p"] n2 tx_post.post_ok [OF ok1 assms(4)] assms(7) by auto
qed

theorem account_delta_transfer_witness:
  "\<exists>db db1 db2. apply_account_delta 7 (example_posting ''PIA'' 500) example_ledger = Inr db \<and>
     apply_account_delta 8 (example_posting ''PIA'' (- 200)) db = Inr db1 \<and>
     apply_account_delta 8 (example_posting ''PIB'' 200) db1 = Inr db2 \<and>
     acct_units db2 ''PIA'' = 300 \<and> acct_units db2 ''PIB'' = 200 \<and> total_units db2 = 500"
proof -
  let ?p = "example_posting ''PIA'' 500" and ?q = "example_posting ''PIA'' (- 200)"
    and ?r = "example_posting ''PIB'' 200"
  obtain db where db: "apply_account_delta 7 ?p example_ledger = Inr db"
    using tx_post.post_succeeds [of example_ledger ?p 500 7] by (auto simp: negative_def)
  have ok: "ledger_ok db" "acct_units db = (acct_units example_ledger)(''PIA'' := 500)" "total_units db = 500"
    using tx_post.post_ok [OF _ db] tx_post.post_amount [OF _ db, of 500] by (auto simp: fun_eq_iff)
  obtain db1 where db1: "apply_account_delta 8 ?q db = Inr db1"
    using tx_post.post_succeeds [of db ?q "- 200" 8] ok by (auto simp: negative_def)
  have ok1: "ledger_ok db1" "acct_units db1 ''PIB'' = 0"
    using tx_post.post_ok [OF _ db1] tx_post.post_amount [OF _ db1, of "- 200"] ok by auto
  obtain db2 where db2: "apply_account_delta 8 ?r db1 = Inr db2"
    using tx_post.post_succeeds [of db1 ?r 200 8] ok1 by (auto simp: negative_def)
  show ?thesis
    using account_delta_transfer [OF ok(1) _ db1 db2, of 200] db db1 db2 ok by auto
qed

end
