(* ===== verification/Rewards.thy ===== *)
theory Rewards
  imports Ledger
begin

text \<open>
  \<open>app/services/rewards.py\<close>: block rewards wait \<open>BLOCK_MATURITY_DEPTH\<close> blocks before they
  reach the ledger. The table \<open>rewards\<close> extends the database record; \<open>mature_block_rewards\<close>
  is the pass that pays what is due at a height.

  Lemmas: the pass pays each due reward once and in order, leaves the others alone, keeps the
  ledger invariant, and does nothing when it is run again at the same height.
\<close>

record reward_row =
  r_id :: nat
  r_miner_id :: string
  r_block_height :: int
  r_amount :: pyfloat
  r_amount_units :: int
  r_account_id :: "string option"
  r_account_type :: "string option"
  r_status :: string
  r_matures_at_height :: "int option"
  r_matured_at :: "int option"
  r_related_id :: "string option"
  r_reason :: string
  r_created_at :: int

record db_rewards = db_ledger +
  rewards :: "reward_row list"

text \<open>The keyword arguments of \<open>record_miner_block_reward\<close>.\<close>

record reward_args =
  ra_miner_id :: string
  ra_account_id :: string
  ra_account_type :: string
  ra_block_height :: int
  ra_amount :: pyfloat
  ra_reason :: string
  ra_related_id :: "string option"
  ra_description :: string

record reward_receipt =
  rr_reward_id :: nat
  rr_status :: string
  rr_matures_at_height :: int
  rr_matured :: bool

definition fresh_reward_id :: "'a db_rewards_scheme \<Rightarrow> nat" where
  "fresh_reward_id db = foldr max (map r_id (rewards db)) 0 + 1"

definition record_miner_block_reward ::
  "nat \<Rightarrow> reward_args \<Rightarrow> int \<Rightarrow> 'a db_rewards_scheme \<Rightarrow> (reward_receipt \<times> 'a db_rewards_scheme) result" where
  "record_miner_block_reward maturity_depth a timestamp db =
     (let is_mature = (maturity_depth = 0);
          status = (if is_mature then ''mature'' else ''immature'');
          matures = (if is_mature then ra_block_height a else ra_block_height a + int maturity_depth);
          matured_at = (if is_mature then Some timestamp else None);
          db1 = ensure_balance_account (ra_account_id a) (ra_account_type a) timestamp db in
      bindE (to_units (FloatA (ra_amount a))) (\<lambda>units.
      let rid = fresh_reward_id db1;
          db2 = db1\<lparr>rewards := rewards db1 @
            [\<lparr>r_id = rid, r_miner_id = ra_miner_id a, r_block_height = ra_block_height a,
              r_amount = ra_amount a, r_amount_units = units, r_account_id = Some (ra_account_id a),
              r_account_type = Some (ra_account_type a), r_status = status,
              r_matures_at_height = Some matures, r_matured_at = matured_at,
              r_related_id = ra_related_id a, r_reason = ra_reason a, r_created_at = timestamp\<rparr>]\<rparr> in
      bindE (if is_mature
             then apply_reward_ledger_entry timestamp
               \<lparr>p_account_id = ra_account_id a, p_account_type = ra_account_type a,
                p_amount = ra_amount a, p_entry_type = ''block_reward'',
                p_block_height = Some (ra_block_height a), p_related_id = ra_related_id a,
                p_description = Some (ra_description a)\<rparr> db2
             else Inr db2) (\<lambda>db3.
      Inr (\<lparr>rr_reward_id = rid, rr_status = status, rr_matures_at_height = matures,
            rr_matured = is_mature\<rparr>, db3))))"

section \<open>The maturing pass\<close>

definition reward_due :: "int \<Rightarrow> reward_row \<Rightarrow> bool" where
  "reward_due height r \<longleftrightarrow> r_status r = ''immature'' \<and>
     (case r_matures_at_height r of None \<Rightarrow> False | Some m \<Rightarrow> m \<le> height)"

text \<open>\<open>ORDER BY matures_at_height ASC, id ASC\<close>.\<close>

definition due_rewards :: "int \<Rightarrow> 'a db_rewards_scheme \<Rightarrow> reward_row list" where
  "due_rewards height db =
     sort_key (\<lambda>r. case r_matures_at_height r of None \<Rightarrow> 0 | Some m \<Rightarrow> m)
       (sort_key r_id (filter (reward_due height) (rewards db)))"

definition reward_account :: "reward_row \<Rightarrow> string" where
  "reward_account r = str_or (r_account_id r) (r_miner_id r)"

definition reward_account_type :: "reward_row \<Rightarrow> string" where
  "reward_account_type r = str_or (r_account_type r)
     (if starts_with ''PI'' (reward_account r) then ''wallet'' else ''miner'')"

definition reward_units :: "reward_row \<Rightarrow> int result" where
  "reward_units r = (if r_amount_units r \<noteq> 0 then Inr (r_amount_units r)
     else to_units (FloatA (r_amount r)))"

definition reward_related :: "reward_row \<Rightarrow> string" where
  "reward_related r = str_or (r_related_id r) (''reward:'' @ show_nat (r_id r))"

definition reward_entry_exists :: "string \<Rightarrow> string \<Rightarrow> int \<Rightarrow> 'a db_ledger_scheme \<Rightarrow> bool" where
  "reward_entry_exists account related units db =
     list_ex (\<lambda>e. le_entry_type e = ''block_reward'' \<and> le_account_id e = account \<and>
       le_related_id e = Some related \<and> le_amount_units e = units) (ledger_entries db)"

definition mark_mature :: "int \<Rightarrow> nat \<Rightarrow> 'a db_rewards_scheme \<Rightarrow> 'a db_rewards_scheme" where
  "mark_mature timestamp rid db =
     db\<lparr>rewards := tbl_update (\<lambda>r. r_id r = rid)
       (\<lambda>r. r\<lparr>r_status := ''mature'', r_matured_at := Some timestamp\<rparr>) (rewards db)\<rparr>"

definition reward_posting :: "int \<Rightarrow> reward_row \<Rightarrow> int \<Rightarrow> posting" where
  "reward_posting height r units =
     \<lparr>p_account_id = reward_account r, p_account_type = reward_account_type r,
      p_amount = units_to_float units, p_entry_type = ''block_reward'',
      p_block_height = Some height, p_related_id = Some (reward_related r),
      p_description = Some (''matured miner block reward from block '' @ show_int (r_block_height r))\<rparr>"

text \<open>The body of the loop; the state carries \<open>matured_count\<close> and \<open>matured_units\<close>.\<close>

definition mature_reward ::
  "int \<Rightarrow> int \<Rightarrow> reward_row \<Rightarrow> 'a db_rewards_scheme \<times> nat \<times> int \<Rightarrow>
   ('a db_rewards_scheme \<times> nat \<times> int) result" where
  "mature_reward height timestamp r st = (case st of (db, count, sum_units) \<Rightarrow>
     bindE (reward_units r) (\<lambda>units.
     bindE (if reward_entry_exists (reward_account r) (reward_related r) units db then Inr db
            else apply_reward_ledger_entry timestamp (reward_posting height r units) db) (\<lambda>db1.
     Inr (mark_mature timestamp (r_id r) db1, count + 1, sum_units + units))))"

record matured_summary =
  ms_matured_count :: nat
  ms_matured_amount :: pyfloat
  ms_matured_units :: int

definition mature_block_rewards ::
  "int \<Rightarrow> int \<Rightarrow> 'a db_rewards_scheme \<Rightarrow> (matured_summary \<times> 'a db_rewards_scheme) result" where
  "mature_block_rewards current_height timestamp db =
     bindE (foldE (mature_reward current_height timestamp) (due_rewards current_height db) (db, 0, 0))
       (\<lambda>(db1, count, sum_units).
          Inr (\<lparr>ms_matured_count = count, ms_matured_amount = units_to_float sum_units,
                ms_matured_units = sum_units\<rparr>, db1))"

record immature_total =
  it_immature_rewards :: pyfloat
  it_immature_rewards_units :: int
  it_immature_reward_count :: nat

definition immature_reward_total_for_account :: "string \<Rightarrow> 'a db_rewards_scheme \<Rightarrow> immature_total" where
  "immature_reward_total_for_account account db =
     (let rs = filter (\<lambda>r. r_account_id r = Some account \<and> r_status r = ''immature'') (rewards db);
          total_units = (\<Sum>r\<leftarrow>rs. r_amount_units r) in
      \<lparr>it_immature_rewards = units_to_float total_units, it_immature_rewards_units = total_units,
       it_immature_reward_count = length rs\<rparr>)"

section \<open>One reward\<close>

lemma set_due_rewards: "set (due_rewards h db) = {r \<in> set (rewards db). reward_due h r}"
  by (auto simp: due_rewards_def)

lemma distinct_due_rewards:
  assumes "distinct (map r_id (rewards db))"
  shows "distinct (map r_id (due_rewards h db))"
proof -
  have "distinct (filter (reward_due h) (rewards db))" "inj_on r_id (set (rewards db))"
    using assms by (auto simp: distinct_map)
  then have "distinct (due_rewards h db)" by (simp add: due_rewards_def)
  moreover have "inj_on r_id (set (due_rewards h db))"
    using \<open>inj_on r_id (set (rewards db))\<close> by (rule inj_on_subset) (auto simp: set_due_rewards)
  ultimately show ?thesis by (simp add: distinct_map)
qed

lemma ledger_ok_mark_mature [simp]: "ledger_ok (mark_mature ts i db) = ledger_ok db"
  by (simp add: ledger_ok_def mark_mature_def acct_units_def find_balance_def)

lemma mark_mature_simps [simp]:
  "acct_units (mark_mature ts i db) = acct_units db"
  "ledger_entries (mark_mature ts i db) = ledger_entries db"
  "balances (mark_mature ts i db) = balances db"
  "total_units (mark_mature ts i db) = total_units db"
  by (simp_all add: mark_mature_def acct_units_def find_balance_def total_units_def fun_eq_iff)

lemma post_rewards:
  assumes "ledger_ok db" and "apply_reward_ledger_entry ts p db = Inr db'"
  shows "rewards db' = rewards db"
  using rewards_post.post_more [OF assms] by (cases db; cases db') (simp add: db_ledger.defs db_rewards.defs)

text \<open>The row a matured reward is left as.\<close>

definition matured_row :: "int \<Rightarrow> reward_row \<Rightarrow> reward_row" where
  "matured_row timestamp r = r\<lparr>r_status := ''mature'', r_matured_at := Some timestamp\<rparr>"

lemma matured_row_simps [simp]:
  "r_id (matured_row ts r) = r_id r" "\<not> reward_due h (matured_row ts r)"
  "matured_row ts (matured_row ts r) = matured_row ts r"
  by (simp_all add: matured_row_def reward_due_def)

lemma rewards_mark_mature:
  "rewards (mark_mature ts i db) = map (\<lambda>r. if r_id r = i then matured_row ts r else r) (rewards db)"
  by (simp add: mark_mature_def tbl_update_def matured_row_def)

lemma mature_reward_step:
  assumes "ledger_ok db" and "mature_reward h ts r (db, c, t) = Inr (db', c', t')"
  shows "ledger_ok db'" and "c' = c + 1" and "reward_units r = Inr (t' - t)"
    and "rewards db' = map (\<lambda>x. if r_id x = r_id r then matured_row ts x else x) (rewards db)"
  using assms
  by (auto simp: mature_reward_def rewards_mark_mature post_rewards split: if_splits
      intro: rewards_post.post_ok)

lemma mature_fold:
  assumes "ledger_ok db" and "foldE (mature_reward h ts) rs (db, c, t) = Inr (db', c', t')"
  shows "ledger_ok db' \<and> c' = c + length rs \<and>
    rewards db' = map (\<lambda>x. if r_id x \<in> r_id ` set rs then matured_row ts x else x) (rewards db)"
  using assms
proof (induction rs arbitrary: db c t)
  case (Cons r rs)
  then obtain db1 c1 t1 where s: "mature_reward h ts r (db, c, t) = Inr (db1, c1, t1)"
    "foldE (mature_reward h ts) rs (db1, c1, t1) = Inr (db', c', t')" by auto
  note m = mature_reward_step [OF Cons.prems(1) s(1)]
  show ?case
    using Cons.IH [OF m(1) s(2)] m by auto
qed simp

section \<open>The whole pass\<close>

lemma apply_reward_entry:
  assumes "apply_reward_ledger_entry ts p db = Inr db'"
  shows "\<exists>e. ledger_entries db' = ledger_entries db @ [e] \<and> le_account_id e = p_account_id p \<and>
    le_related_id e = p_related_id p \<and> le_entry_type e = ''block_reward''"
  using assms
  by (auto simp: apply_reward_ledger_entry_def Let_def insert_ledger_entry_def update_balance_def)

lemma due_sum_step:
  "(\<Sum>x\<leftarrow>r # rs. if reward_account x = a then r_amount_units x else 0) =
     (if reward_account r = a then r_amount_units r else 0) +
     (\<Sum>x\<leftarrow>rs. if reward_account x = a then r_amount_units x else 0)"
  by simp

lemma mature_fold_pays:
  assumes "ledger_ok db"
    and "\<And>r. r \<in> set rs \<Longrightarrow> 0 < r_amount_units r"
    and "\<And>a. 0 \<le> acct_units db a"
    and "\<And>a. acct_units db a + (\<Sum>r\<leftarrow>rs. r_amount_units r) \<le> 10 ^ 15"
    and "distinct (map (\<lambda>r. (reward_account r, reward_related r)) rs)"
    and "\<And>r. r \<in> set rs \<Longrightarrow>
      \<not> reward_entry_exists (reward_account r) (reward_related r) (r_amount_units r) db"
  shows "\<exists>db'. foldE (mature_reward h ts) rs (db, c, t) =
      Inr (db', c + length rs, t + (\<Sum>r\<leftarrow>rs. r_amount_units r)) \<and>
    (\<forall>a. acct_units db' a = acct_units db a +
      (\<Sum>r\<leftarrow>rs. if reward_account r = a then r_amount_units r else 0))"
  using assms
proof (induction rs arbitrary: db c t)
  case (Cons r rs)
  let ?u = "r_amount_units r" and ?a = "reward_account r"
  let ?p = "reward_posting h r ?u"
  have pos: "0 \<le> (\<Sum>r\<leftarrow>rs. r_amount_units r)"
    using Cons.prems(2) by (intro sum_list_nonneg) (auto simp: less_imp_le)
  have u: "0 < ?u" "?u \<le> 10 ^ 15" "acct_units db ?a \<le> 10 ^ 15"
    using Cons.prems(2) [of r] Cons.prems(3) [of ?a] Cons.prems(4) [of ?a] pos by auto
  have amt: "posted_units ?p = Inr ?u"
    using u by (simp add: posted_units_def reward_posting_def)
  obtain db1 where post: "apply_reward_ledger_entry ts ?p db = Inr db1"
    using rewards_post.post_succeeds [OF Cons.prems(1) amt, where ts = ts] u Cons.prems(3) [of ?a]
    by (auto simp: reward_posting_def never_def)
  have acct: "acct_units db1 = (acct_units db)(?a := acct_units db ?a + ?u)"
    using rewards_post.post_amount(1) [OF Cons.prems(1) post amt] by (simp add: reward_posting_def)
  let ?db = "mark_mature ts (r_id r) db1"
  have step: "mature_reward h ts r (db, c, t) = Inr (?db, c + 1, t + ?u)"
    using u Cons.prems(6) [of r] post by (simp add: mature_reward_def reward_units_def)
  obtain e where e: "ledger_entries db1 = ledger_entries db @ [e]" "le_account_id e = ?a"
    "le_related_id e = Some (reward_related r)"
    using apply_reward_entry [OF post] by (auto simp: reward_posting_def)
  have "\<exists>db'. foldE (mature_reward h ts) rs (?db, c + 1, t + ?u) =
      Inr (db', c + 1 + length rs, t + ?u + (\<Sum>r\<leftarrow>rs. r_amount_units r)) \<and>
    (\<forall>a. acct_units db' a = acct_units ?db a +
      (\<Sum>r\<leftarrow>rs. if reward_account r = a then r_amount_units r else 0))"
  proof (rule Cons.IH)
    show "ledger_ok ?db" using rewards_post.post_ok [OF Cons.prems(1) post] by simp
    show "acct_units ?db a + (\<Sum>r\<leftarrow>rs. r_amount_units r) \<le> 10 ^ 15" for a
      using Cons.prems(4) [of a] u by (auto simp: acct)
    show "0 \<le> acct_units ?db a" for a
      using Cons.prems(3) [of a] u by (auto simp: acct)
    show "\<not> reward_entry_exists (reward_account x) (reward_related x) (r_amount_units x) ?db"
      if "x \<in> set rs" for x
      using Cons.prems(5) Cons.prems(6) [of x] that e by (auto simp: reward_entry_exists_def)
  qed (use Cons.prems in auto)
  then show ?case using step acct by auto
qed simp

lemma mature_pass_effect:
  assumes ok: "ledger_ok db" and ids: "distinct (map r_id (rewards db))"
    and pass: "mature_block_rewards height ts db = Inr (s, db')"
  shows "rewards db' = map (\<lambda>r. if reward_due height r then matured_row ts r else r) (rewards db)"
    and "ledger_ok db'" and "ms_matured_count s = length (filter (reward_due height) (rewards db))"
    and "due_rewards height db' = []"
proof -
  obtain c t where f: "foldE (mature_reward height ts) (due_rewards height db) (db, 0, 0) = Inr (db', c, t)"
    and s: "ms_matured_count s = c"
    using pass by (auto simp: mature_block_rewards_def)
  note m = mature_fold [OF ok f]
  have "r_id r \<in> r_id ` set (due_rewards height db) \<longleftrightarrow> reward_due height r" if "r \<in> set (rewards db)" for r
    using ids that by (auto simp: set_due_rewards distinct_map dest: inj_onD)
  then show r: "rewards db' = map (\<lambda>r. if reward_due height r then matured_row ts r else r) (rewards db)"
    using m by auto
  show "ledger_ok db'" using m by blast
  show "ms_matured_count s = length (filter (reward_due height) (rewards db))"
    using m s by (simp add: due_rewards_def)
  have "filter (reward_due height) (rewards db') = []"
    by (auto simp: r filter_empty_conv)
  then show "due_rewards height db' = []" by (simp add: due_rewards_def)
qed

text \<open>The sum of the due rewards of one account.\<close>

definition due_units :: "int \<Rightarrow> 'a db_rewards_scheme \<Rightarrow> string \<Rightarrow> int" where
  "due_units height db a =
     (\<Sum>r\<leftarrow>rewards db. if reward_due height r \<and> reward_account r = a then r_amount_units r else 0)"

lemma sum_list_filter_if:
  "(\<Sum>r\<leftarrow>filter P xs. if Q r then f r else (0::int)) = (\<Sum>r\<leftarrow>xs. if P r \<and> Q r then f r else 0)"
  by (induction xs) auto

lemma sum_list_sort_key: "(\<Sum>r\<leftarrow>sort_key k xs. f r) = (\<Sum>r\<leftarrow>xs. (f r :: int))"
proof (induction xs)
  case (Cons x xs)
  have "(\<Sum>r\<leftarrow>insort_key k x ys. f r) = f x + (\<Sum>r\<leftarrow>ys. f r)" for ys
    by (induction ys) auto
  then show ?case using Cons by simp
qed simp

lemma sum_due:
  "(\<Sum>r\<leftarrow>due_rewards h db. if reward_account r = a then r_amount_units r else 0) = due_units h db a"
  by (simp add: due_rewards_def sum_list_sort_key sum_list_filter_if due_units_def)

lemma mature_pass_pays:
  assumes "ledger_ok db"
    and "\<forall>r \<in> set (due_rewards height db). 0 < r_amount_units r \<and>
      \<not> reward_entry_exists (reward_account r) (reward_related r) (r_amount_units r) db"
    and "distinct (map (\<lambda>r. (reward_account r, reward_related r)) (due_rewards height db))"
    and "\<forall>a. 0 \<le> acct_units db a \<and>
      acct_units db a + (\<Sum>r\<leftarrow>due_rewards height db. r_amount_units r) \<le> 10 ^ 15"
  shows "\<exists>s db'. mature_block_rewards height ts db = Inr (s, db') \<and>
    ms_matured_units s = (\<Sum>r\<leftarrow>due_rewards height db. r_amount_units r) \<and>
    (\<forall>a. acct_units db' a = acct_units db a + due_units height db a)"
  using mature_fold_pays [of db "due_rewards height db" height ts 0 0] assms
  by (fastforce simp: mature_block_rewards_def sum_due)

section \<open>Properties\<close>

text \<open>C8: a maturing pass marks exactly the rewards that are due at the height, keeps the ledger
  invariant, and a second pass at the same height finds nothing to pay and changes nothing.\<close>

theorem mature_block_rewards_effect:
  assumes "ledger_ok db" and "distinct (map r_id (rewards db))"
    and "mature_block_rewards height ts db = Inr (s, db')"
  shows "rewards db' = map (\<lambda>r. if reward_due height r then matured_row ts r else r) (rewards db) \<and>
    ledger_ok db' \<and> ms_matured_count s = length (filter (reward_due height) (rewards db)) \<and>
    mature_block_rewards height ts' db' =
      Inr (\<lparr>ms_matured_count = 0, ms_matured_amount = 0, ms_matured_units = 0\<rparr>, db')"
  using mature_pass_effect [OF assms] by (simp add: mature_block_rewards_def)

definition example_rewards :: db_rewards where
  "example_rewards = \<lparr>balances = [], ledger_entries = [], rewards =
     [\<lparr>r_id = 1, r_miner_id = ''m1'', r_block_height = 10, r_amount = fl 2.51328, r_amount_units = 2513280,
       r_account_id = Some ''PIA'', r_account_type = Some ''wallet'', r_status = ''immature'',
       r_matures_at_height = Some 12, r_matured_at = None, r_related_id = None, r_reason = ''block'',
       r_created_at = 0\<rparr>,
      \<lparr>r_id = 2, r_miner_id = ''m2'', r_block_height = 11, r_amount = fl 2.51328, r_amount_units = 2513280,
       r_account_id = None, r_account_type = None, r_status = ''immature'',
       r_matures_at_height = Some 13, r_matured_at = None, r_related_id = None, r_reason = ''block'',
       r_created_at = 1\<rparr>]\<rparr>"

lemma example_rewards_facts:
  "ledger_ok example_rewards" "distinct (map r_id (rewards example_rewards))"
  "acct_units example_rewards a = 0"
  "due_rewards 12 example_rewards = [hd (rewards example_rewards)]"
  "\<not> reward_entry_exists a b u example_rewards"
  "r_amount_units (hd (rewards example_rewards)) = 2513280"
  by (simp_all add: example_rewards_def ledger_ok_def acct_units_def find_balance_def
      reward_entry_exists_def due_rewards_def reward_due_def)

lemma example_rewards_pass:
  "\<exists>s db'. mature_block_rewards 12 99 example_rewards = Inr (s, db')"
  using mature_pass_pays [of example_rewards 12 99]
  by (simp add: example_rewards_facts) blast

theorem mature_block_rewards_effect_witness:
  "\<exists>s db'. mature_block_rewards 12 99 example_rewards = Inr (s, db') \<and>
     ledger_ok db' \<and> ms_matured_count s = 1"
proof -
  obtain s db' where p: "mature_block_rewards 12 99 example_rewards = Inr (s, db')"
    using example_rewards_pass by blast
  have "length (filter (reward_due 12) (rewards example_rewards)) = 1"
    by (simp add: example_rewards_def reward_due_def)
  then show ?thesis
    using mature_block_rewards_effect [OF example_rewards_facts(1,2) p] p by auto
qed

text \<open>C9: when the due rewards have not been paid before and no balance outgrows the range in which
  floats are exact, the pass succeeds, every account receives exactly the sum of its due
  rewards, and the summary reports the total.\<close>

theorem mature_block_rewards_pays:
  assumes "ledger_ok db"
    and "\<forall>r \<in> set (due_rewards height db). 0 < r_amount_units r \<and>
      \<not> reward_entry_exists (reward_account r) (reward_related r) (r_amount_units r) db"
    and "distinct (map (\<lambda>r. (reward_account r, reward_related r)) (due_rewards height db))"
    and "\<forall>a. 0 \<le> acct_units db a \<and>
      acct_units db a + (\<Sum>r\<leftarrow>due_rewards height db. r_amount_units r) \<le> 10 ^ 15"
  shows "\<exists>s db'. mature_block_rewards height ts db = Inr (s, db') \<and>
    ms_matured_units s = (\<Sum>r\<leftarrow>due_rewards height db. r_amount_units r) \<and>
    (\<forall>a. acct_units db' a = acct_units db a + due_units height db a)"
  by (rule mature_pass_pays [OF assms])

theorem mature_block_rewards_pays_witness:
  "\<exists>s db'. mature_block_rewards 12 99 example_rewards = Inr (s, db') \<and>
     acct_units db' ''PIA'' = 2513280 \<and> acct_units db' ''m2'' = 0"
proof -
  have d: "due_units 12 example_rewards ''PIA'' = 2513280" "due_units 12 example_rewards ''m2'' = 0"
    by (simp_all add: due_units_def example_rewards_def reward_due_def reward_account_def str_or_def)
  show ?thesis
    using mature_block_rewards_pays [of example_rewards 12 99] d
    by (simp add: example_rewards_facts) metis
qed

end
