(* ===== verification/Clock.thy ===== *)
theory Clock
  imports Prelude
begin

text \<open>
  Time. A timestamp is the number of microseconds since 1970-01-01T00:00:00Z; \<open>isoformat\<close> and
  \<open>fromisoformat\<close> are inverse on the UTC timestamps the node writes, and their texts sort like
  the numbers, so the texts are not modelled. \<open>utc_now()\<close> is an argument of the operations; one
  operation reads the clock once. The accounting periods are calendar periods: \<open>civil_from_days\<close>
  gives year, month and day in the proleptic Gregorian calendar, and from it come the quarter of
  \<open>treasury._current_quarter_epoch\<close> and the month of \<open>science.current_epoch\<close>.
\<close>

definition SECOND :: int where "SECOND = 1000000"

definition DAY :: int where "DAY = 86400 * SECOND"

definition civil_from_days :: "int \<Rightarrow> int \<times> int \<times> int" where
  "civil_from_days days =
     (let z = days + 719468;
          era = z div 146097;
          doe = z mod 146097;
          yoe = (doe - doe div 1460 + doe div 36524 - doe div 146096) div 365;
          doy = doe - (365 * yoe + yoe div 4 - yoe div 100);
          mp = (5 * doy + 2) div 153;
          d = doy - (153 * mp + 2) div 5 + 1;
          m = (if mp < 10 then mp + 3 else mp - 9);
          y = yoe + era * 400 + (if m \<le> 2 then 1 else 0) in
      (y, m, d))"

definition pad2 :: "int \<Rightarrow> string" where
  "pad2 n = (if n < 10 then ''0'' @ show_int n else show_int n)"

definition current_quarter_epoch :: "int \<Rightarrow> string" where
  "current_quarter_epoch now = (case civil_from_days (now div DAY) of (y, m, d) \<Rightarrow>
     show_int y @ ''-Q'' @ show_int ((m - 1) div 3 + 1))"

text \<open>\<open>strftime("%Y-%m")\<close>.\<close>

definition current_epoch :: "int \<Rightarrow> string" where
  "current_epoch now = (case civil_from_days (now div DAY) of (y, m, d) \<Rightarrow>
     show_int y @ ''-'' @ pad2 m)"

lemma DAY_pos [simp]: "0 < DAY" "0 \<le> DAY"
  by (simp_all add: DAY_def SECOND_def)

text \<open>Sample dates: the epoch, a leap day, the end of a year.\<close>

lemma civil_from_days_samples:
  "civil_from_days 0 = (1970, 1, 1)"
  "civil_from_days 19782 = (2024, 2, 29)"
  "civil_from_days 20088 = (2024, 12, 31)"
  "current_quarter_epoch (20088 * DAY) = ''2024-Q4''"
  "current_epoch (19782 * DAY) = ''2024-02''"
  by code_simp+

end
