(* ===== verification/Treasury.thy ===== *)
theory Treasury
  imports Rewards Clock
begin

text \<open>
  \<open>app/services/treasury.py\<close>: the scientific development treasury. Every block accrues a share
  into the epoch of the current quarter; an epoch's funds unlock 90 days after the epoch row was
  created; unlocked funds can be claimed by the governance wallet to the treasury wallet. The row
  of the table \<open>scientific_development_treasury\<close> is an option (the module uses a single id),
  the JSON payloads of \<open>science_events\<close> are kept as key-value lists.

  Lemmas: what a successful claim requires and moves, that a claim cannot be repeated, and that
  no operation releases an epoch before its unlock time.
\<close>

section \<open>Tables\<close>

record treasury_row =
  t_total_accumulated :: pyfloat
  t_total_claimed :: pyfloat
  t_locked_balance :: pyfloat
  t_unlocked_balance :: pyfloat
  t_current_epoch :: string
  t_epoch_start_block :: int
  t_epoch_end_block :: int
  t_next_unlock_at :: int
  t_last_claim_at :: "int option"
  t_treasury_wallet :: string
  t_governance_wallet :: string
  t_created_at :: int
  t_updated_at :: int

record epoch_row =
  ep_epoch :: string
  ep_start_block :: int
  ep_end_block :: int
  ep_locked_amount :: pyfloat
  ep_unlocked_amount :: pyfloat
  ep_claimed_amount :: pyfloat
  ep_unlock_at :: int
  ep_status :: string
  ep_created_at :: int
  ep_updated_at :: int

record claim_row =
  c_claim_id :: string
  c_amount :: pyfloat
  c_claim_to :: string
  c_requested_by :: string
  c_created_at :: int

datatype payload_value = PStr string | PFloat pyfloat | PInt int | PStrs "string list" | PNull

record science_event =
  ev_event_type :: string
  ev_address :: "string option"
  ev_job_id :: "string option"
  ev_payload :: "(string \<times> payload_value) list"
  ev_created_at :: int

record db_treasury = db_rewards +
  treasury :: "treasury_row option"
  treasury_epochs :: "epoch_row list"
  treasury_claims :: "claim_row list"
  science_events :: "science_event list"

definition record_science_event ::
  "string \<Rightarrow> string option \<Rightarrow> string option \<Rightarrow> (string \<times> payload_value) list \<Rightarrow> int \<Rightarrow>
   'a db_treasury_scheme \<Rightarrow> 'a db_treasury_scheme" where
  "record_science_event event_type address job_id payload ts db =
     db\<lparr>science_events := science_events db @
       [\<lparr>ev_event_type = event_type, ev_address = address, ev_job_id = job_id,
         ev_payload = payload, ev_created_at = ts\<rparr>]\<rparr>"

section \<open>Rows\<close>

definition ensure_treasury :: "settings \<Rightarrow> int \<Rightarrow> 'a db_treasury_scheme \<Rightarrow> 'a db_treasury_scheme" where
  "ensure_treasury S now db =
     db\<lparr>treasury := Some (case treasury db of
         None \<Rightarrow> \<lparr>t_total_accumulated = 0, t_total_claimed = 0, t_locked_balance = 0,
           t_unlocked_balance = 0, t_current_epoch = ''bootstrap'', t_epoch_start_block = 0,
           t_epoch_end_block = 0, t_next_unlock_at = now, t_last_claim_at = None,
           t_treasury_wallet = st_treasury_wallet S, t_governance_wallet = st_governance_wallet S,
           t_created_at = now, t_updated_at = now\<rparr>
       | Some t \<Rightarrow> t\<lparr>t_treasury_wallet := st_treasury_wallet S,
           t_governance_wallet := st_governance_wallet S, t_updated_at := now\<rparr>)\<rparr>"

definition treasury_row_of :: "settings \<Rightarrow> int \<Rightarrow> 'a db_treasury_scheme \<Rightarrow> treasury_row \<times> 'a db_treasury_scheme" where
  "treasury_row_of S now db = (let db1 = ensure_treasury S now db in (the (treasury db1), db1))"

definition ensure_epoch ::
  "string \<Rightarrow> int \<Rightarrow> int \<Rightarrow> int \<Rightarrow> 'a db_treasury_scheme \<Rightarrow> epoch_row \<times> 'a db_treasury_scheme" where
  "ensure_epoch epoch block_height unlock_at now db =
     (let new = \<lparr>ep_epoch = epoch, ep_start_block = block_height, ep_end_block = block_height,
            ep_locked_amount = 0, ep_unlocked_amount = 0, ep_claimed_amount = 0,
            ep_unlock_at = unlock_at, ep_status = ''locked'', ep_created_at = now, ep_updated_at = now\<rparr>;
          eps = tbl_upsert ep_epoch id new (treasury_epochs db) in
      (the (tbl_find ep_epoch epoch eps), db\<lparr>treasury_epochs := eps\<rparr>))"

definition epoch_locked :: "epoch_row \<Rightarrow> bool" where
  "epoch_locked e \<longleftrightarrow> ep_status e = ''locked'' \<and> 0 < ep_locked_amount e"

definition earliest_locked_unlock_at :: "'a db_treasury_scheme \<Rightarrow> int option" where
  "earliest_locked_unlock_at db =
     (case sort_key ep_unlock_at (filter epoch_locked (treasury_epochs db)) of
        [] \<Rightarrow> None | e # _ \<Rightarrow> Some (ep_unlock_at e))"

definition clean_treasury_address :: "string \<Rightarrow> string result" where
  "clean_treasury_address address =
     (let value = str_strip address in
      if value = [] then Inl (TreasuryError 400 ''address is required'')
      else if length value > 128 then Inl (TreasuryError 400 ''address is too long'')
      else Inr value)"

definition balance_amount :: "string \<Rightarrow> 'a db_treasury_scheme \<Rightarrow> pyfloat" where
  "balance_amount a db = (case find_balance a db of None \<Rightarrow> 0 | Some r \<Rightarrow> py_round 8 (b_balance r))"

definition update_treasury :: "(treasury_row \<Rightarrow> treasury_row) \<Rightarrow> 'a db_treasury_scheme \<Rightarrow> 'a db_treasury_scheme" where
  "update_treasury f db = db\<lparr>treasury := map_option f (treasury db)\<rparr>"

section \<open>Unlocking\<close>

text \<open>The loop over the locked epochs, with \<open>total_unlocked\<close> as the accumulator.\<close>

definition unlock_epoch ::
  "int \<Rightarrow> epoch_row \<Rightarrow> 'a db_treasury_scheme \<times> pyfloat \<Rightarrow> 'a db_treasury_scheme \<times> pyfloat" where
  "unlock_epoch now row st = (case st of (db, total_unlocked) \<Rightarrow>
     if now < ep_unlock_at row then (db, total_unlocked)
     else
       let amount = py_round 8 (ep_locked_amount row) in
       (db\<lparr>treasury_epochs := tbl_update (\<lambda>e. ep_epoch e = ep_epoch row)
          (\<lambda>e. e\<lparr>ep_locked_amount := 0, ep_unlocked_amount := fadd (ep_unlocked_amount e) amount,
                 ep_status := ''unlocked'', ep_updated_at := now\<rparr>) (treasury_epochs db)\<rparr>,
        py_round 8 (fadd total_unlocked amount)))"

definition unlock_matured_epochs :: "int \<Rightarrow> 'a db_treasury_scheme \<Rightarrow> 'a db_treasury_scheme" where
  "unlock_matured_epochs now db =
     (case fold (unlock_epoch now) (filter epoch_locked (treasury_epochs db)) (db, 0) of
        (db1, total_unlocked) \<Rightarrow>
          if 0 < total_unlocked then
            update_treasury (\<lambda>t. t\<lparr>
              t_locked_balance := max 0 (fsub (t_locked_balance t) total_unlocked),
              t_unlocked_balance := fadd (t_unlocked_balance t) total_unlocked,
              t_next_unlock_at := (case earliest_locked_unlock_at db1 of None \<Rightarrow> t_next_unlock_at t | Some u \<Rightarrow> u),
              t_updated_at := now\<rparr>) db1
          else db1)"

section \<open>Accrual\<close>

definition scientific_development_amount :: "pyfloat \<Rightarrow> pyfloat result" where
  "scientific_development_amount block_reward =
     bindE (to_units (FloatA block_reward)) (\<lambda>u.
       Inr (reward_units_to_float (scientific_development_units_from_total u)))"

text \<open>The row an accrual leaves in the current epoch.\<close>

definition accrue_row :: "pyfloat \<Rightarrow> int \<Rightarrow> int \<Rightarrow> epoch_row \<Rightarrow> epoch_row" where
  "accrue_row amount block_height now e =
     e\<lparr>ep_locked_amount := fadd (ep_locked_amount e) amount,
       ep_end_block := max (ep_end_block e) block_height, ep_status := ''locked'', ep_updated_at := now\<rparr>"

text \<open>The statements before the ledger posting.\<close>

definition accrue_tables ::
  "settings \<Rightarrow> int \<Rightarrow> int \<Rightarrow> pyfloat \<Rightarrow> 'a db_treasury_scheme \<Rightarrow> 'a db_treasury_scheme" where
  "accrue_tables S now block_height amount db =
     (let epoch = current_quarter_epoch now;
          unlock_at = now + SCIENTIFIC_DEVELOPMENT_UNLOCK_INTERVAL_DAYS * DAY;
          db1 = ensure_treasury S now db;
          (row, db2) = ensure_epoch epoch block_height unlock_at now db1;
          next_unlock_at = (case earliest_locked_unlock_at db2 of None \<Rightarrow> ep_unlock_at row | Some x \<Rightarrow> x);
          db3 = db2\<lparr>treasury_epochs := tbl_update (\<lambda>e. ep_epoch e = epoch)
             (accrue_row amount block_height now) (treasury_epochs db2)\<rparr> in
      update_treasury (\<lambda>t. t\<lparr>t_total_accumulated := fadd (t_total_accumulated t) amount,
        t_locked_balance := fadd (t_locked_balance t) amount, t_current_epoch := epoch,
        t_epoch_start_block := ep_start_block row, t_epoch_end_block := block_height,
        t_next_unlock_at := next_unlock_at, t_updated_at := now\<rparr>) db3)"

definition accrual_posting :: "int \<Rightarrow> pyfloat \<Rightarrow> posting" where
  "accrual_posting block_height amount =
     \<lparr>p_account_id = SCIENTIFIC_DEVELOPMENT_TREASURY_ACCOUNT_ID,
      p_account_type = ''scientific_development_treasury'', p_amount = amount,
      p_entry_type = ''scientific_development_treasury_accrual'',
      p_block_height = Some block_height, p_related_id = Some (''block:'' @ show_int block_height),
      p_description = Some ''scientific development fund time-locked accrual''\<rparr>"

definition record_scientific_development_treasury_for_block ::
  "settings \<Rightarrow> int \<Rightarrow> int \<Rightarrow> pyfloat \<Rightarrow> 'a db_treasury_scheme \<Rightarrow> (pyfloat \<times> 'a db_treasury_scheme) result" where
  "record_scientific_development_treasury_for_block S now block_height block_reward db =
     bindE (to_units (FloatA block_reward)) (\<lambda>u.
     let amount_units = scientific_development_units_from_total u;
         amount = reward_units_to_float amount_units in
     if amount_units \<le> 0 then Inr (0, db)
     else
       bindE (treasury_apply_ledger_entry now None (accrual_posting block_height amount)
                (accrue_tables S now block_height amount db)) (\<lambda>db1.
       Inr (amount, db1)))"

section \<open>Reading and claiming\<close>

record treasury_view =
  tv_row :: treasury_row
  tv_claimable :: pyfloat
  tv_unlock_interval_days :: int
  tv_reward_percent :: pyfloat
  tv_history :: "epoch_row list"
  tv_claim :: "claim_row option"

definition decode_treasury :: "treasury_row \<Rightarrow> epoch_row list \<Rightarrow> treasury_view" where
  "decode_treasury t history =
     \<lparr>tv_row = t\<lparr>t_total_accumulated := py_round 8 (t_total_accumulated t),
        t_total_claimed := py_round 8 (t_total_claimed t),
        t_locked_balance := py_round 8 (t_locked_balance t),
        t_unlocked_balance := py_round 8 (t_unlocked_balance t)\<rparr>,
      tv_claimable = py_round 8 (t_unlocked_balance t),
      tv_unlock_interval_days = SCIENTIFIC_DEVELOPMENT_UNLOCK_INTERVAL_DAYS,
      tv_reward_percent = SCIENTIFIC_DEVELOPMENT_REWARD_PERCENT_OF_BLOCK,
      tv_history = history, tv_claim = None\<rparr>"

text \<open>\<open>ORDER BY created_at DESC LIMIT 12\<close>.\<close>

definition treasury_history :: "nat \<Rightarrow> 'a db_treasury_scheme \<Rightarrow> epoch_row list" where
  "treasury_history limit db = take limit (sort_key (\<lambda>e. - ep_created_at e) (treasury_epochs db))"

definition get_scientific_development_treasury ::
  "settings \<Rightarrow> int \<Rightarrow> 'a db_treasury_scheme \<Rightarrow> treasury_view \<times> 'a db_treasury_scheme" where
  "get_scientific_development_treasury S now db =
     (let db1 = unlock_matured_epochs now db; (t, db2) = treasury_row_of S now db1 in
      (decode_treasury t (treasury_history 12 db2), db2))"

definition claim_epochs :: "int \<Rightarrow> epoch_row list \<Rightarrow> epoch_row list" where
  "claim_epochs now = tbl_update (\<lambda>e. 0 < ep_unlocked_amount e)
     (\<lambda>e. e\<lparr>ep_claimed_amount := fadd (ep_claimed_amount e) (ep_unlocked_amount e),
            ep_unlocked_amount := 0, ep_status := ''claimed'', ep_updated_at := now\<rparr>)"

text \<open>The caller's id, or a random one.\<close>

definition claim_id_of :: "string option \<Rightarrow> string \<Rightarrow> string" where
  "claim_id_of claim_id fresh = str_or claim_id (''treasury_claim_'' @ fresh)"

text \<open>The two ledger postings of a claim.\<close>

definition claim_debit :: "pyfloat \<Rightarrow> string \<Rightarrow> posting" where
  "claim_debit amount claim_id =
     \<lparr>p_account_id = SCIENTIFIC_DEVELOPMENT_TREASURY_ACCOUNT_ID,
      p_account_type = ''scientific_development_treasury'', p_amount = - amount,
      p_entry_type = ''scientific_development_treasury_claim'', p_block_height = None,
      p_related_id = Some claim_id, p_description = Some ''scientific development treasury claim debit''\<rparr>"

definition claim_credit :: "pyfloat \<Rightarrow> string \<Rightarrow> string \<Rightarrow> posting" where
  "claim_credit amount claim_id claim_to =
     \<lparr>p_account_id = claim_to, p_account_type = ''treasury_wallet'', p_amount = amount,
      p_entry_type = ''scientific_development_treasury_claim'', p_block_height = None,
      p_related_id = Some claim_id, p_description = Some ''scientific development treasury claim''\<rparr>"

text \<open>
  \<open>claim_scientific_development_treasury_in_connection\<close>; \<open>fresh\<close> is the random id
  used when the caller gives none, \<open>ts\<close> the optional timestamp.
\<close>

definition claim_treasury ::
  "settings \<Rightarrow> int \<Rightarrow> string \<Rightarrow> string option \<Rightarrow> string option \<Rightarrow> string option \<Rightarrow> int option \<Rightarrow>
   'a db_treasury_scheme \<Rightarrow> (treasury_view \<times> 'a db_treasury_scheme) result" where
  "claim_treasury S clock fresh requested_by0 claim_to0 claim_id0 ts db =
     bindE (clean_treasury_address (str_or requested_by0 (st_governance_wallet S))) (\<lambda>requested_by.
     bindE (clean_treasury_address (str_or claim_to0 (st_treasury_wallet S))) (\<lambda>claim_to.
     if requested_by \<noteq> st_governance_wallet S
     then Inl (TreasuryError 403 ''treasury claim requires configured governance wallet'')
     else if claim_to \<noteq> st_treasury_wallet S
     then Inl (TreasuryError 403 ''treasury claim destination must match configured treasury wallet'')
     else
       let now = (case ts of Some t \<Rightarrow> t | None \<Rightarrow> clock);
           db1 = unlock_matured_epochs now db;
           (t, db2) = treasury_row_of S clock db1;
           amount = py_round 8 (t_unlocked_balance t) in
       if amount \<le> 0 then Inl (TreasuryError 423 ''treasury funds are locked'')
       else if balance_amount SCIENTIFIC_DEVELOPMENT_TREASURY_ACCOUNT_ID db2 < amount
       then Inl (TreasuryError 500 ''treasury ledger balance is lower than unlocked treasury balance'')
       else
         let claim_id = claim_id_of claim_id0 fresh in
         bindE (treasury_apply_ledger_entry clock (Some now) (claim_debit amount claim_id) db2) (\<lambda>db3.
         bindE (treasury_apply_ledger_entry clock (Some now) (claim_credit amount claim_id claim_to) db3) (\<lambda>db4.
         let claim = \<lparr>c_claim_id = claim_id, c_amount = amount, c_claim_to = claim_to,
                      c_requested_by = requested_by, c_created_at = now\<rparr> in
         bindE (tbl_insert c_claim_id ''scientific_development_treasury_claims'' claim (treasury_claims db4)) (\<lambda>cs.
         let db5 = db4\<lparr>treasury_claims := cs\<rparr>;
             db6 = db5\<lparr>treasury_epochs := claim_epochs now (treasury_epochs db5)\<rparr>;
             db7 = update_treasury (\<lambda>t. t\<lparr>t_total_claimed := fadd (t_total_claimed t) amount,
               t_unlocked_balance := 0, t_last_claim_at := Some now, t_updated_at := now\<rparr>) db6;
             db8 = record_science_event ''ScientificTreasuryClaimed'' (Some requested_by) None
               [(''amount'', PFloat amount), (''claim_to'', PStr claim_to), (''claim_id'', PStr claim_id)] now db7;
             (t', db9) = treasury_row_of S clock db8 in
         Inr ((decode_treasury t' (treasury_history 12 db9))\<lparr>tv_claim := Some claim\<rparr>, db9))))))"

section \<open>What unlocking changes\<close>

definition epoch_view :: "epoch_row \<Rightarrow> string \<times> int" where
  "epoch_view e = (ep_epoch e, ep_unlock_at e)"

text \<open>
  The effect of unlocking on one row, which is what the loop does to each row when epochs are
  distinct.
\<close>

definition unlocked_row :: "int \<Rightarrow> epoch_row \<Rightarrow> epoch_row" where
  "unlocked_row now e =
     (if epoch_locked e \<and> ep_unlock_at e \<le> now
      then e\<lparr>ep_locked_amount := 0,
             ep_unlocked_amount := fadd (ep_unlocked_amount e) (py_round 8 (ep_locked_amount e)),
             ep_status := ''unlocked'', ep_updated_at := now\<rparr>
      else e)"

lemma unlock_epoch_simps:
  "treasury_epochs (fst (unlock_epoch now r (db, t))) =
     (if now < ep_unlock_at r then treasury_epochs db
      else tbl_update (\<lambda>e. ep_epoch e = ep_epoch r)
          (\<lambda>e. e\<lparr>ep_locked_amount := 0, ep_unlocked_amount := fadd (ep_unlocked_amount e) (py_round 8 (ep_locked_amount r)),
                 ep_status := ''unlocked'', ep_updated_at := now\<rparr>) (treasury_epochs db))"
  "fst (unlock_epoch now r (db, t)) = db\<lparr>treasury_epochs := treasury_epochs (fst (unlock_epoch now r (db, t)))\<rparr>"
  by (simp_all add: unlock_epoch_def Let_def)

lemma fold_unlock:
  assumes "distinct (map ep_epoch (treasury_epochs db))" and "distinct rs"
    and "set rs \<subseteq> set (treasury_epochs db)" and "\<And>r. r \<in> set rs \<Longrightarrow> epoch_locked r"
  shows "\<exists>t'. fold (unlock_epoch now) rs (db, t) =
    (db\<lparr>treasury_epochs := map (\<lambda>e. if e \<in> set rs then unlocked_row now e else e) (treasury_epochs db)\<rparr>, t')"
  using assms
proof (induction rs arbitrary: db t)
  case (Cons r rs)
  have inj: "inj_on ep_epoch (set (treasury_epochs db))" using Cons.prems(1) by (simp add: distinct_map)
  let ?f = "\<lambda>e. if e = r then unlocked_row now e else e"
  obtain t1 where one: "unlock_epoch now r (db, t) = (db\<lparr>treasury_epochs := map ?f (treasury_epochs db)\<rparr>, t1)"
  proof (cases "now < ep_unlock_at r")
    case True
    have "map ?f (treasury_epochs db) = treasury_epochs db"
      by (rule map_idI) (use True in \<open>auto simp: unlocked_row_def\<close>)
    then show ?thesis using True that by (simp add: unlock_epoch_def)
  next
    case False
    have k: "ep_epoch e = ep_epoch r \<longleftrightarrow> e = r" if "e \<in> set (treasury_epochs db)" for e
      using inj that Cons.prems(3) by (auto dest: inj_onD)
    show ?thesis
    proof (rule that)
      show "unlock_epoch now r (db, t) = (db\<lparr>treasury_epochs := map ?f (treasury_epochs db)\<rparr>,
          py_round 8 (fadd t (py_round 8 (ep_locked_amount r))))"
        using False Cons.prems(4) [of r] k
        by (auto simp: unlock_epoch_def Let_def tbl_update_def unlocked_row_def intro!: arg_cong [where f = "\<lambda>x. db\<lparr>treasury_epochs := x\<rparr>"])
    qed
  qed
  let ?db = "db\<lparr>treasury_epochs := map ?f (treasury_epochs db)\<rparr>"
  have ep: "ep_epoch (?f e) = ep_epoch e" for e by (simp add: unlocked_row_def)
  have "distinct (map ep_epoch (treasury_epochs ?db))"
    using Cons.prems(1) by (simp add: o_def ep del: if_distrib)
  moreover have "set rs \<subseteq> set (treasury_epochs ?db)"
    using Cons.prems(2,3) by (auto simp: image_iff)
  ultimately obtain t' where f: "fold (unlock_epoch now) rs (?db, t1) =
      (?db\<lparr>treasury_epochs := map (\<lambda>e. if e \<in> set rs then unlocked_row now e else e) (treasury_epochs ?db)\<rparr>, t')"
    using Cons.IH [of ?db t1] Cons.prems by auto
  have notin: "unlocked_row now r \<notin> set rs \<or> unlocked_row now r = r"
  proof (cases "unlocked_row now r = r")
    case False
    then have "\<not> epoch_locked (unlocked_row now r)"
      by (auto simp: unlocked_row_def epoch_locked_def split: if_splits)
    then show ?thesis using Cons.prems(4) by auto
  qed simp
  have "map (\<lambda>e. if e \<in> set rs then unlocked_row now e else e) (map ?f (treasury_epochs db)) =
      map (\<lambda>e. if e \<in> set (r # rs) then unlocked_row now e else e) (treasury_epochs db)"
    using notin Cons.prems(2) by auto
  then show ?case using one f by auto
qed simp

text \<open>Unlocking rewrites the epochs row by row and may update the treasury row, nothing else.\<close>

lemma unlock_matured_epochs_form:
  assumes "distinct (map ep_epoch (treasury_epochs db))"
  obtains f where "unlock_matured_epochs now db =
    update_treasury f (db\<lparr>treasury_epochs := map (unlocked_row now) (treasury_epochs db)\<rparr>)"
proof -
  let ?rs = "filter epoch_locked (treasury_epochs db)"
  have d: "distinct ?rs" using assms by (simp add: distinct_map)
  obtain t' where f: "fold (unlock_epoch now) ?rs (db, 0) =
    (db\<lparr>treasury_epochs := map (\<lambda>e. if e \<in> set ?rs then unlocked_row now e else e) (treasury_epochs db)\<rparr>, t')"
    using fold_unlock [OF assms d, where now = now and t = 0] by (metis filter_is_subset mem_Collect_eq set_filter)
  have m: "map (\<lambda>e. if e \<in> set ?rs then unlocked_row now e else e) (treasury_epochs db) =
      map (unlocked_row now) (treasury_epochs db)"
    by (rule map_cong) (simp_all add: unlocked_row_def)
  have "update_treasury id x = x" for x :: "'a db_treasury_scheme"
    by (simp add: update_treasury_def option.map_id)
  then show thesis
    using that unfolding unlock_matured_epochs_def f m prod.case by metis
qed

lemma update_treasury_simps [simp]:
  "balances (update_treasury f db) = balances db"
  "ledger_entries (update_treasury f db) = ledger_entries db"
  "rewards (update_treasury f db) = rewards db"
  "treasury (update_treasury f db) = map_option f (treasury db)"
  "treasury_epochs (update_treasury f db) = treasury_epochs db"
  "treasury_claims (update_treasury f db) = treasury_claims db"
  "science_events (update_treasury f db) = science_events db"
  "db_treasury.more (update_treasury f db) = db_treasury.more db"
  by (simp_all add: update_treasury_def)

lemma unlock_matured_epochs_simps:
  assumes "distinct (map ep_epoch (treasury_epochs db))"
  shows "treasury_epochs (unlock_matured_epochs now db) = map (unlocked_row now) (treasury_epochs db)"
    and "balances (unlock_matured_epochs now db) = balances db"
    and "ledger_entries (unlock_matured_epochs now db) = ledger_entries db"
    and "rewards (unlock_matured_epochs now db) = rewards db"
    and "treasury_claims (unlock_matured_epochs now db) = treasury_claims db"
    and "science_events (unlock_matured_epochs now db) = science_events db"
    and "db_treasury.more (unlock_matured_epochs now db) = db_treasury.more db"
  by (rule unlock_matured_epochs_form [OF assms, of now]; simp)+

lemma ensure_treasury_simps [simp]:
  "balances (ensure_treasury S now db) = balances db"
  "ledger_entries (ensure_treasury S now db) = ledger_entries db"
  "rewards (ensure_treasury S now db) = rewards db"
  "treasury_epochs (ensure_treasury S now db) = treasury_epochs db"
  "treasury_claims (ensure_treasury S now db) = treasury_claims db"
  "science_events (ensure_treasury S now db) = science_events db"
  "db_treasury.more (ensure_treasury S now db) = db_treasury.more db"
  by (simp_all add: ensure_treasury_def)

lemma record_science_event_simps [simp]:
  "balances (record_science_event a b c d e db) = balances db"
  "ledger_entries (record_science_event a b c d e db) = ledger_entries db"
  "rewards (record_science_event a b c d e db) = rewards db"
  "treasury (record_science_event a b c d e db) = treasury db"
  "treasury_epochs (record_science_event a b c d e db) = treasury_epochs db"
  "treasury_claims (record_science_event a b c d e db) = treasury_claims db"
  "db_treasury.more (record_science_event a b c d e db) = db_treasury.more db"
  by (simp_all add: record_science_event_def)

lemma treasury_post_fields:
  assumes "ledger_ok (db :: 'a db_treasury_scheme)" and "treasury_apply_ledger_entry now ts p db = Inr db'"
  shows "treasury db' = treasury db" and "treasury_epochs db' = treasury_epochs db"
    and "treasury_claims db' = treasury_claims db" and "science_events db' = science_events db"
    and "db_treasury.more db' = db_treasury.more db" and "rewards db' = rewards db"
  using treasury_post.post_more [OF assms]
  by (cases db; cases db'; simp add: db_ledger.defs db_rewards.defs db_treasury.defs)+

section \<open>The invariant\<close>

text \<open>
  \<open>T\<close> is the latest time the treasury was operated at. Every epoch that still holds locked
  funds has status \<open>locked\<close>, so no funds are stranded, and funds that are unlocked passed their
  unlock time.
\<close>

definition epoch_ok :: "int \<Rightarrow> epoch_row \<Rightarrow> bool" where
  "epoch_ok T e \<longleftrightarrow> 0 \<le> ep_locked_amount e \<and> 0 \<le> ep_unlocked_amount e \<and>
     (ep_status e = ''locked'' \<or> ep_locked_amount e = 0) \<and>
     (0 < ep_unlocked_amount e \<longrightarrow> ep_unlock_at e \<le> T)"

definition treasury_ok :: "int \<Rightarrow> 'a db_treasury_scheme \<Rightarrow> bool" where
  "treasury_ok T db \<longleftrightarrow> ledger_ok db \<and> distinct (map ep_epoch (treasury_epochs db)) \<and>
     list_all (epoch_ok T) (treasury_epochs db)"

lemma py_round_nonneg: "0 \<le> x \<Longrightarrow> 0 \<le> py_round n x"
  using py_round_mono [of 0 x n] by simp

lemma fadd_nonneg: "0 \<le> x \<Longrightarrow> 0 \<le> y \<Longrightarrow> 0 \<le> fadd x y"
  by (simp add: fadd_def fl_nonneg)

lemma unlocked_row_simps [simp]:
  "ep_epoch (unlocked_row now e) = ep_epoch e" "ep_unlock_at (unlocked_row now e) = ep_unlock_at e"
  by (simp_all add: unlocked_row_def)

lemma unlocked_row_ok: "epoch_ok T e \<Longrightarrow> T \<le> now \<Longrightarrow> epoch_ok now (unlocked_row now e)"
  by (auto simp: epoch_ok_def unlocked_row_def py_round_nonneg fadd_nonneg)

text \<open>After unlocking at \<open>now\<close>, no locked epoch is due.\<close>

lemma unlocked_row_not_due: "epoch_locked (unlocked_row now e) \<Longrightarrow> now < ep_unlock_at e"
  by (auto simp: unlocked_row_def epoch_locked_def split: if_splits)

lemma unlock_matured_epochs_ok:
  assumes "treasury_ok T db" and "T \<le> now"
  shows "treasury_ok now (unlock_matured_epochs now db)"
proof -
  have d: "distinct (map ep_epoch (treasury_epochs db))" using assms by (simp add: treasury_ok_def)
  note u = unlock_matured_epochs_simps [OF d, of now]
  have "ledger_ok (unlock_matured_epochs now db)"
    using assms(1) u(2,3) ledger_cong(1) [of "unlock_matured_epochs now db" db] by (simp add: treasury_ok_def)
  then show ?thesis
    using assms d u(1) unlocked_row_ok by (auto simp: treasury_ok_def list_all_iff o_def)
qed

text \<open>A claimed row: when its epoch is unlocked it held no locked funds.\<close>

lemma claim_epochs_ok:
  assumes "list_all (epoch_ok now) eps" and "list_all (\<lambda>e. epoch_locked e \<longrightarrow> now < ep_unlock_at e) eps"
  shows "list_all (epoch_ok now) (claim_epochs now eps)"
proof -
  have "epoch_ok now (e\<lparr>ep_claimed_amount := x, ep_unlocked_amount := 0, ep_status := ''claimed'',
      ep_updated_at := now\<rparr>)"
    if "epoch_ok now e" "epoch_locked e \<longrightarrow> now < ep_unlock_at e" "0 < ep_unlocked_amount e" for e x
    using that by (auto simp: epoch_ok_def epoch_locked_def order_less_le)
  then show ?thesis
    using assms by (auto simp: list_all_iff claim_epochs_def set_tbl_update)
qed

lemma map_claim_epochs: "map ep_epoch (claim_epochs now eps) = map ep_epoch eps"
  by (simp add: claim_epochs_def map_tbl_update)

section \<open>What a claim did\<close>

definition claim_time :: "int \<Rightarrow> int option \<Rightarrow> int" where
  "claim_time clock ts = (case ts of Some t \<Rightarrow> t | None \<Rightarrow> clock)"

lemma claim_treasury_cases:
  assumes "claim_treasury S clock fresh rb ct cid ts db = Inr (v, db')"
  obtains t db3 db4 claim t' where
    "str_strip (str_or rb (st_governance_wallet S)) = st_governance_wallet S"
    "str_strip (str_or ct (st_treasury_wallet S)) = st_treasury_wallet S"
    "treasury (ensure_treasury S clock (unlock_matured_epochs (claim_time clock ts) db)) = Some t"
    "tv_claim v = Some claim" "c_amount claim = py_round 8 (t_unlocked_balance t)" "0 < c_amount claim"
    "c_requested_by claim = st_governance_wallet S" "c_claim_to claim = st_treasury_wallet S"
    "c_created_at claim = claim_time clock ts"
    "treasury_apply_ledger_entry clock (Some (claim_time clock ts)) (claim_debit (c_amount claim) (c_claim_id claim))
       (ensure_treasury S clock (unlock_matured_epochs (claim_time clock ts) db)) = Inr db3"
    "treasury_apply_ledger_entry clock (Some (claim_time clock ts))
       (claim_credit (c_amount claim) (c_claim_id claim) (st_treasury_wallet S)) db3 = Inr db4"
    "balances db' = balances db4" "ledger_entries db' = ledger_entries db4"
    "treasury_epochs db' = claim_epochs (claim_time clock ts) (treasury_epochs db4)"
    "treasury_claims db' = treasury_claims db4 @ [claim]"
    "treasury db' = Some t'" "t_unlocked_balance t' = 0 \<or> treasury db4 = None"
proof -
  let ?now = "claim_time clock ts"
  let ?db2 = "ensure_treasury S clock (unlock_matured_epochs ?now db)"
  obtain t where t: "treasury ?db2 = Some t" by (simp add: ensure_treasury_def)
  have row: "treasury_row_of S c x = (the (treasury (ensure_treasury S c x)), ensure_treasury S c x)"
    for c and x :: "'a db_treasury_scheme"
    by (simp add: treasury_row_of_def Let_def)
  have ct: "(case ts of None \<Rightarrow> clock | Some t \<Rightarrow> t) = ?now" by (simp add: claim_time_def)
  have ens: "\<exists>t'. treasury (ensure_treasury S clock x) = Some t' \<and>
      (\<forall>u. treasury x = Some u \<longrightarrow> t_unlocked_balance t' = t_unlocked_balance u)"
    for x :: "'a db_treasury_scheme"
    by (cases "treasury x") (simp_all add: ensure_treasury_def)
  from assms show thesis
    unfolding claim_treasury_def Let_def ct row
    by (auto simp: clean_treasury_address_def Let_def t tbl_insert_eq_Inr
        split: if_splits dest!: tbl_find_None [THEN iffD1]
        intro!: that [OF _ _ t])
       (use ens in \<open>fastforce simp: ensure_treasury_def\<close>)+
qed

text \<open>The units a claim moves.\<close>

lemma claim_units:
  "treasury_posted_units (claim_credit x c w) = Inr u \<Longrightarrow> treasury_posted_units (claim_debit x c) = Inr (- u)"
  by (simp add: treasury_posted_units_def claim_credit_def claim_debit_def py_round_minus to_units_minus)

lemma ledger_ok_unlocked:
  assumes "treasury_ok T db"
  shows "ledger_ok (ensure_treasury S clock (unlock_matured_epochs now db))"
    and "acct_units (ensure_treasury S clock (unlock_matured_epochs now db)) = acct_units db"
    and "total_units (ensure_treasury S clock (unlock_matured_epochs now db)) = total_units db"
proof -
  have "distinct (map ep_epoch (treasury_epochs db))" using assms by (simp add: treasury_ok_def)
  note u = unlock_matured_epochs_simps [OF this, of now]
  have b: "balances (ensure_treasury S clock (unlock_matured_epochs now db)) = balances db"
    "ledger_entries (ensure_treasury S clock (unlock_matured_epochs now db)) = ledger_entries db"
    using u by simp_all
  show "ledger_ok (ensure_treasury S clock (unlock_matured_epochs now db))"
    using ledger_cong(1) [OF b] assms by (simp add: treasury_ok_def)
  show "acct_units (ensure_treasury S clock (unlock_matured_epochs now db)) = acct_units db"
    "total_units (ensure_treasury S clock (unlock_matured_epochs now db)) = total_units db"
    using ledger_cong(2,3) [OF b] by simp_all
qed

lemma claim_treasury_effect:
  assumes ok: "treasury_ok T db" and T: "T \<le> claim_time clock ts"
    and claim: "claim_treasury S clock fresh rb ct cid ts db = Inr (v, db')"
  shows "treasury_ok (claim_time clock ts) db'"
    and "\<exists>c u. tv_claim v = Some c \<and> treasury_claims db' = treasury_claims db @ [c] \<and>
      c_requested_by c = st_governance_wallet S \<and> c_claim_to c = st_treasury_wallet S \<and>
      0 < c_amount c \<and> to_units (FloatA (py_round 8 (c_amount c))) = Inr u \<and>
      total_units db' = total_units db \<and>
      u \<le> acct_units db SCIENTIFIC_DEVELOPMENT_TREASURY_ACCOUNT_ID \<and>
      acct_units db' =
        (let m = (acct_units db)(SCIENTIFIC_DEVELOPMENT_TREASURY_ACCOUNT_ID :=
            acct_units db SCIENTIFIC_DEVELOPMENT_TREASURY_ACCOUNT_ID - u) in
         m(st_treasury_wallet S := m (st_treasury_wallet S) + u))"
    and "treasury_epochs db' =
      claim_epochs (claim_time clock ts) (map (unlocked_row (claim_time clock ts)) (treasury_epochs db))"
    and "\<exists>t. treasury db' = Some t \<and> t_unlocked_balance t = 0"
    and "str_strip (str_or rb (st_governance_wallet S)) = st_governance_wallet S"
    and "str_strip (str_or ct (st_treasury_wallet S)) = st_treasury_wallet S"
proof -
  let ?now = "claim_time clock ts"
  obtain t db3 db4 c t' where f:
    "str_strip (str_or rb (st_governance_wallet S)) = st_governance_wallet S"
    "str_strip (str_or ct (st_treasury_wallet S)) = st_treasury_wallet S"
    "treasury (ensure_treasury S clock (unlock_matured_epochs ?now db)) = Some t"
    "tv_claim v = Some c" "0 < c_amount c"
    "c_requested_by c = st_governance_wallet S" "c_claim_to c = st_treasury_wallet S"
    "treasury_apply_ledger_entry clock (Some ?now) (claim_debit (c_amount c) (c_claim_id c))
       (ensure_treasury S clock (unlock_matured_epochs ?now db)) = Inr db3"
    "treasury_apply_ledger_entry clock (Some ?now)
       (claim_credit (c_amount c) (c_claim_id c) (st_treasury_wallet S)) db3 = Inr db4"
    "balances db' = balances db4" "ledger_entries db' = ledger_entries db4"
    "treasury_epochs db' = claim_epochs ?now (treasury_epochs db4)"
    "treasury_claims db' = treasury_claims db4 @ [c]"
    "treasury db' = Some t'" "t_unlocked_balance t' = 0 \<or> treasury db4 = None"
    using claim_treasury_cases [OF claim] by metis
  let ?db2 = "ensure_treasury S clock (unlock_matured_epochs ?now db)"
  have d: "distinct (map ep_epoch (treasury_epochs db))" using ok by (simp add: treasury_ok_def)
  note u = unlock_matured_epochs_simps [OF d, of ?now]
  note l2 = ledger_ok_unlocked [OF ok, of S clock ?now]
  have l3: "ledger_ok db3" by (rule treasury_post.post_ok [OF l2(1) f(8)])
  have l4: "ledger_ok db4" by (rule treasury_post.post_ok [OF l3 f(9)])
  note p3 = treasury_post_fields [OF l2(1) f(8)] and p4 = treasury_post_fields [OF l3 f(9)]
  show eps: "treasury_epochs db' = claim_epochs ?now (map (unlocked_row ?now) (treasury_epochs db))"
    using f(12) p3(2) p4(2) u(1) by simp
  have "list_all (epoch_ok ?now) (map (unlocked_row ?now) (treasury_epochs db))"
    using ok T unlocked_row_ok by (auto simp: treasury_ok_def list_all_iff)
  moreover have "list_all (\<lambda>e. epoch_locked e \<longrightarrow> ?now < ep_unlock_at e) (map (unlocked_row ?now) (treasury_epochs db))"
    using unlocked_row_not_due by (auto simp: list_all_iff)
  ultimately have "list_all (epoch_ok ?now) (treasury_epochs db')"
    unfolding eps by (rule claim_epochs_ok)
  then show "treasury_ok ?now db'"
    using ledger_cong(1) [OF f(10,11)] l4 d by (simp add: treasury_ok_def eps map_claim_epochs o_def)
  obtain w where w: "treasury_posted_units (claim_credit (c_amount c) (c_claim_id c) (st_treasury_wallet S)) = Inr w"
    using treasury_post.post_step [OF l3 f(9)] by blast
  note a3 = treasury_post.post_amount [OF l2(1) f(8) claim_units [OF w]]
  note a4 = treasury_post.post_amount [OF l3 f(9) w]
  have floor: "0 \<le> acct_units ?db2 SCIENTIFIC_DEVELOPMENT_TREASURY_ACCOUNT_ID - w"
    using treasury_post.post_step [OF l2(1) f(8)] claim_units [OF w]
    by (auto simp: negative_def claim_debit_def)
  have acc: "p_account_id (claim_debit x y) = SCIENTIFIC_DEVELOPMENT_TREASURY_ACCOUNT_ID"
    "p_account_id (claim_credit x y z) = z" for x y z
    by (simp_all add: claim_debit_def claim_credit_def)
  have au: "acct_units db' = acct_units db4" "total_units db' = total_units db4"
    using ledger_cong(2,3) [OF f(10,11)] by simp_all
  show "\<exists>c u. tv_claim v = Some c \<and> treasury_claims db' = treasury_claims db @ [c] \<and>
      c_requested_by c = st_governance_wallet S \<and> c_claim_to c = st_treasury_wallet S \<and>
      0 < c_amount c \<and> to_units (FloatA (py_round 8 (c_amount c))) = Inr u \<and>
      total_units db' = total_units db \<and>
      u \<le> acct_units db SCIENTIFIC_DEVELOPMENT_TREASURY_ACCOUNT_ID \<and>
      acct_units db' =
        (let m = (acct_units db)(SCIENTIFIC_DEVELOPMENT_TREASURY_ACCOUNT_ID :=
            acct_units db SCIENTIFIC_DEVELOPMENT_TREASURY_ACCOUNT_ID - u) in
         m(st_treasury_wallet S := m (st_treasury_wallet S) + u))"
    by (rule exI [of _ c], rule exI [of _ w])
       (use f w p3(3) p4(3) u(5) a3 a4 au l2 floor in
         \<open>simp add: Let_def acc treasury_posted_units_def claim_credit_def\<close>)
  show "\<exists>t. treasury db' = Some t \<and> t_unlocked_balance t = 0"
    using f(14,15) p3(1) p4(1) f(3) by auto
qed (use claim_treasury_cases [OF claim] in metis)+

section \<open>Accrual\<close>

lemma rounding_sum_bound:
  "z \<le> (1::rat) / 200000000 + (y + 1 / 200000000) / 9007199254740992 \<Longrightarrow> y \<le> 1000000001 \<Longrightarrow>
    z \<le> 1 / 8200000"
  by (simp add: field_simps)

lemma units_near_py_round:
  assumes "\<bar>u\<bar> \<le> 10 ^ 15"
  shows "to_units (FloatA (py_round 8 (units_to_float u))) = Inr u"
proof (rule to_units_near)
  let ?x = "units_to_float u"
  have "\<bar>u\<bar> \<le> 1000000000000000" using assms by simp
  then have "(of_int \<bar>u\<bar> :: rat) \<le> of_int 1000000000000000" by (simp only: of_int_le_iff)
  then have u: "\<bar>of_int u :: rat\<bar> \<le> 1000000000000000" by simp
  have x: "\<bar>?x * 1000000 - of_int u\<bar> \<le> 1 / 8" by (rule units_to_float_err [OF assms])
  have "\<bar>py_round 8 ?x - ?x\<bar> \<le> 1 / 200000000 + (\<bar>?x\<bar> + 1 / 200000000) / 9007199254740992"
    using py_round_err [of 8 ?x] by simp
  moreover have "\<bar>?x\<bar> \<le> 1000000001" using u x by linarith
  ultimately have "\<bar>py_round 8 ?x - ?x\<bar> \<le> 1 / 8200000" by (rule rounding_sum_bound)
  then show "\<bar>py_round 8 ?x * 1000000 - of_int u\<bar> \<le> 1 / 4"
    using x by linarith
qed (use assms in auto)

definition block_share :: "pyfloat \<Rightarrow> int result" where
  "block_share block_reward = bindE (to_units (FloatA block_reward)) (\<lambda>u.
     Inr (scientific_development_units_from_total u))"

lemma ensure_epoch_eq:
  assumes "ensure_epoch ep h ua now db = (row, db')"
  shows "balances db' = balances db" and "ledger_entries db' = ledger_entries db"
    and "tbl_find ep_epoch ep (treasury_epochs db') = Some row"
    and "treasury_epochs db' = (if tbl_find ep_epoch ep (treasury_epochs db) = None
      then treasury_epochs db @ [row] else treasury_epochs db)"
    and "tbl_find ep_epoch ep (treasury_epochs db) = None \<Longrightarrow> ep_unlock_at row = ua \<and>
      ep_locked_amount row = 0 \<and> ep_unlocked_amount row = 0"
  using assms
  by (auto simp: ensure_epoch_def Let_def tbl_upsert_def tbl_find_append split: option.splits)

lemma accrued_row_ok:
  assumes "epoch_ok T e" and "T \<le> now" and "0 \<le> x"
  shows "epoch_ok now (e\<lparr>ep_locked_amount := fadd (ep_locked_amount e) x, ep_end_block := b,
    ep_status := ''locked'', ep_updated_at := u\<rparr>)"
  using assms by (auto simp: epoch_ok_def fadd_nonneg)

lemma epoch_ok_mono: "epoch_ok T e \<Longrightarrow> T \<le> now \<Longrightarrow> epoch_ok now e"
  by (auto simp: epoch_ok_def)

lemma accrue_tables_effect:
  fixes db :: "'a db_treasury_scheme"
  assumes en: "ensure_epoch (current_quarter_epoch now) h
      (now + SCIENTIFIC_DEVELOPMENT_UNLOCK_INTERVAL_DAYS * DAY) now (ensure_treasury S now db) = (row, db2)"
  shows "balances (accrue_tables S now h x db) = balances db"
    and "ledger_entries (accrue_tables S now h x db) = ledger_entries db"
    and "treasury_epochs (accrue_tables S now h x db) =
      tbl_update (\<lambda>e. ep_epoch e = current_quarter_epoch now) (accrue_row x h now) (treasury_epochs db2)"
  using ensure_epoch_eq(1,2) [OF en] by (simp_all add: accrue_tables_def Let_def en)

lemma accrual_effect:
  fixes db :: "'a db_treasury_scheme"
  assumes ok: "treasury_ok T db" and T: "T \<le> now"
    and acc: "record_scientific_development_treasury_for_block S now h br db = Inr (amount, db')"
    and share: "block_share br = Inr u" "0 < u" "u \<le> 10 ^ 15"
  shows "treasury_ok now db'" and "amount = units_to_float u"
    and "acct_units db' = (acct_units db)(SCIENTIFIC_DEVELOPMENT_TREASURY_ACCOUNT_ID :=
      acct_units db SCIENTIFIC_DEVELOPMENT_TREASURY_ACCOUNT_ID + u)"
    and "\<exists>row. (if tbl_find ep_epoch (current_quarter_epoch now) (treasury_epochs db) = None
          then ep_unlock_at row = now + SCIENTIFIC_DEVELOPMENT_UNLOCK_INTERVAL_DAYS * DAY
          else row \<in> set (treasury_epochs db)) \<and>
        accrue_row amount h now row \<in> set (treasury_epochs db')"
    and "\<And>e. e \<in> set (treasury_epochs db) \<Longrightarrow> ep_epoch e \<noteq> current_quarter_epoch now \<Longrightarrow>
      e \<in> set (treasury_epochs db')"
proof -
  let ?ep = "current_quarter_epoch now" and ?x = "units_to_float u"
  let ?ua = "now + SCIENTIFIC_DEVELOPMENT_UNLOCK_INTERVAL_DAYS * DAY"
  obtain row db2 where en: "ensure_epoch ?ep h ?ua now (ensure_treasury S now db) = (row, db2)" by force
  note find = ensure_epoch_eq(3) [OF en, unfolded ensure_treasury_simps]
    and rows = ensure_epoch_eq(4) [OF en, unfolded ensure_treasury_simps]
    and fresh = ensure_epoch_eq(5) [OF en, unfolded ensure_treasury_simps]
  define db4 where "db4 = accrue_tables S now h ?x db"
  define eps where "eps = tbl_update (\<lambda>e. ep_epoch e = ?ep) (accrue_row ?x h now) (treasury_epochs db2)"
  note tables = accrue_tables_effect [OF en, of ?x, folded db4_def]
  obtain w where w: "to_units (FloatA br) = Inr w" "scientific_development_units_from_total w = u"
    using share(1) by (auto simp: block_share_def)
  have post: "treasury_apply_ledger_entry now None (accrual_posting h ?x) db4 = Inr db'"
    and am: "amount = ?x"
    using acc share(2)
    by (auto simp: record_scientific_development_treasury_for_block_def Let_def w
        reward_units_to_float_def db4_def)
  show "amount = ?x" by (rule am)
  have l4: "ledger_ok db4" using ok ledger_cong(1) [OF tables(1,2)] by (simp add: treasury_ok_def)
  have pu: "treasury_posted_units (accrual_posting h ?x) = Inr u"
    using share by (simp add: treasury_posted_units_def accrual_posting_def units_near_py_round)
  show "acct_units db' = (acct_units db)(SCIENTIFIC_DEVELOPMENT_TREASURY_ACCOUNT_ID :=
      acct_units db SCIENTIFIC_DEVELOPMENT_TREASURY_ACCOUNT_ID + u)"
    using treasury_post.post_amount(1) [OF l4 post pu] ledger_cong(2) [OF tables(1,2)]
    by (simp add: accrual_posting_def)
  have eps': "treasury_epochs db' = eps"
    using treasury_post_fields(2) [OF l4 post] tables(3) by (simp add: eps_def)
  have row_in: "row \<in> set (treasury_epochs db2)" "ep_epoch row = ?ep"
    using find by (auto dest: tbl_find_in tbl_find_key)
  have ok2: "list_all (epoch_ok now) (treasury_epochs db2)" "distinct (map ep_epoch (treasury_epochs db2))"
    using ok rows fresh epoch_ok_mono [OF _ T] row_in
    by (auto simp: treasury_ok_def list_all_iff epoch_ok_def tbl_find_None split: if_splits)
  have "list_all (epoch_ok now) eps"
    unfolding eps_def accrue_row_def [abs_def] using ok2(1) share
    by (intro list_all_tbl_update accrued_row_ok [where T = now]) (auto simp: list_all_iff)
  moreover have "map ep_epoch eps = map ep_epoch (treasury_epochs db2)"
    unfolding eps_def by (rule map_tbl_update) (simp add: accrue_row_def)
  ultimately show "treasury_ok now db'"
    using treasury_post.post_ok [OF l4 post] ok2(2) by (simp add: treasury_ok_def eps')
  show "\<exists>row. (if tbl_find ep_epoch ?ep (treasury_epochs db) = None
          then ep_unlock_at row = ?ua else row \<in> set (treasury_epochs db)) \<and>
        accrue_row amount h now row \<in> set (treasury_epochs db')"
    using rows fresh row_in by (intro exI [of _ row]) (auto simp: eps' eps_def set_tbl_update am split: if_splits)
  show "e \<in> set (treasury_epochs db')" if "e \<in> set (treasury_epochs db)" "ep_epoch e \<noteq> ?ep" for e
    using that rows by (auto simp: eps' eps_def set_tbl_update image_iff split: if_splits intro!: bexI [of _ e])
qed

lemma claim_accounts [simp]:
  "p_account_id (claim_debit x y) = SCIENTIFIC_DEVELOPMENT_TREASURY_ACCOUNT_ID"
  "p_account_id (claim_credit x y z) = z"
  by (simp_all add: claim_debit_def claim_credit_def)

text \<open>
  \<open>claimable S clock now db u\<close>: at \<open>now\<close> the treasury has unlocked funds worth \<open>u\<close> units and
  the ledger account covers them.
\<close>

definition claimable :: "settings \<Rightarrow> int \<Rightarrow> int \<Rightarrow> 'a db_treasury_scheme \<Rightarrow> int \<Rightarrow> bool" where
  "claimable S clock now db u =
     (case treasury (ensure_treasury S clock (unlock_matured_epochs now db)) of None \<Rightarrow> False
      | Some t \<Rightarrow>
          (let a = py_round 8 (t_unlocked_balance t) in
           0 < a \<and> a \<le> balance_amount SCIENTIFIC_DEVELOPMENT_TREASURY_ACCOUNT_ID db \<and>
           to_units (FloatA (py_round 8 a)) = Inr u \<and>
           u \<le> acct_units db SCIENTIFIC_DEVELOPMENT_TREASURY_ACCOUNT_ID))"

lemma claim_succeeds:
  assumes ok: "treasury_ok T db" and c: "claimable S clock (claim_time clock ts) db u" and u: "0 \<le> u"
    and w: "clean_treasury_address (str_or rb (st_governance_wallet S)) = Inr (st_governance_wallet S)"
      "clean_treasury_address (str_or ct (st_treasury_wallet S)) = Inr (st_treasury_wallet S)"
    and bounds: "\<bar>acct_units db SCIENTIFIC_DEVELOPMENT_TREASURY_ACCOUNT_ID\<bar> \<le> 10 ^ 15"
      "0 \<le> acct_units db (st_treasury_wallet S)" "acct_units db (st_treasury_wallet S) \<le> 10 ^ 15"
    and new: "tbl_find c_claim_id (claim_id_of cid fresh) (treasury_claims db) = None"
    and ne: "st_treasury_wallet S \<noteq> SCIENTIFIC_DEVELOPMENT_TREASURY_ACCOUNT_ID"
  shows "\<exists>v db'. claim_treasury S clock fresh rb ct cid ts db = Inr (v, db')"
proof -
  let ?now = "claim_time clock ts" and ?cid = "claim_id_of cid fresh"
  let ?db2 = "ensure_treasury S clock (unlock_matured_epochs ?now db)"
  obtain t where t: "treasury ?db2 = Some t" by (simp add: ensure_treasury_def)
  define a where "a = py_round 8 (t_unlocked_balance t)"
  have d: "distinct (map ep_epoch (treasury_epochs db))" using ok by (simp add: treasury_ok_def)
  note un = unlock_matured_epochs_simps [OF d, of ?now]
  have ca: "0 < a" "a \<le> balance_amount SCIENTIFIC_DEVELOPMENT_TREASURY_ACCOUNT_ID db"
    "to_units (FloatA (py_round 8 a)) = Inr u"
    "u \<le> acct_units db SCIENTIFIC_DEVELOPMENT_TREASURY_ACCOUNT_ID"
    using c t by (simp_all add: claimable_def Let_def a_def)
  have bal: "balance_amount SCIENTIFIC_DEVELOPMENT_TREASURY_ACCOUNT_ID ?db2 =
      balance_amount SCIENTIFIC_DEVELOPMENT_TREASURY_ACCOUNT_ID db"
    by (simp add: balance_amount_def find_balance_def un)
  note l2 = ledger_ok_unlocked [OF ok, of S clock ?now]
  have pu: "treasury_posted_units (claim_credit a ?cid (st_treasury_wallet S)) = Inr u"
    using ca by (simp add: treasury_posted_units_def claim_credit_def)
  obtain db3 where db3: "treasury_apply_ledger_entry clock (Some ?now) (claim_debit a ?cid) ?db2 = Inr db3"
    using treasury_post.post_succeeds [OF l2(1) claim_units [OF pu], of clock "Some ?now"] l2 ca bounds
    by (auto simp: negative_def)
  have l3: "ledger_ok db3" by (rule treasury_post.post_ok [OF l2(1) db3])
  have w3: "acct_units db3 (st_treasury_wallet S) = acct_units db (st_treasury_wallet S)"
    using treasury_post.post_other [OF l2(1) db3] l2(2) ne by simp
  obtain db4 where db4: "treasury_apply_ledger_entry clock (Some ?now)
      (claim_credit a ?cid (st_treasury_wallet S)) db3 = Inr db4"
    using treasury_post.post_succeeds [OF l3 pu, of clock "Some ?now"] w3 bounds u
    by (auto simp: negative_def)
  have cs: "tbl_find c_claim_id ?cid (treasury_claims db4) = None"
    using new treasury_post_fields(3) [OF l2(1) db3] treasury_post_fields(3) [OF l3 db4] un(5) by simp
  have ct: "(case ts of None \<Rightarrow> clock | Some t \<Rightarrow> t) = ?now" by (simp add: claim_time_def)
  have row: "treasury_row_of S clock (unlock_matured_epochs ?now db) = (t, ?db2)"
    using t by (simp add: treasury_row_of_def Let_def)
  show ?thesis
    unfolding claim_treasury_def w bindE_simps ct row Let_def prod.case a_def [symmetric] bal
    using ca(1,2) by (simp add: db3 db4 tbl_insert_def cs split_beta)
qed

section \<open>An example state\<close>

definition example_treasury :: db_treasury where
  "example_treasury = \<lparr>
     balances = [\<lparr>b_account_id = ''scientific_development_treasury'',
       b_account_type = ''scientific_development_treasury'', b_balance = 2,
       b_balance_units = 2000000, b_updated_at = 0\<rparr>],
     ledger_entries = [\<lparr>le_account_id = ''scientific_development_treasury'',
       le_account_type = ''scientific_development_treasury'', le_amount = 2,
       le_amount_units = 2000000, le_balance_after = 2, le_balance_after_units = 2000000,
       le_entry_type = ''scientific_development_treasury_accrual'', le_block_height = Some 1,
       le_related_id = Some ''block:1'', le_description = None, le_created_at = 0\<rparr>],
     rewards = [],
     treasury = Some \<lparr>t_total_accumulated = 2, t_total_claimed = 0,
       t_locked_balance = 2, t_unlocked_balance = 0, t_current_epoch = ''1970-Q1'',
       t_epoch_start_block = 1, t_epoch_end_block = 1, t_next_unlock_at = 90 * DAY,
       t_last_claim_at = None, t_treasury_wallet = ''w'',
       t_governance_wallet = ''g'', t_created_at = 0, t_updated_at = 0\<rparr>,
     treasury_epochs = [\<lparr>ep_epoch = ''1970-Q1'', ep_start_block = 1, ep_end_block = 1,
       ep_locked_amount = 2, ep_unlocked_amount = 0, ep_claimed_amount = 0,
       ep_unlock_at = 90 * DAY, ep_status = ''locked'', ep_created_at = 0, ep_updated_at = 0\<rparr>],
     treasury_claims = [], science_events = []\<rparr>"

definition example_claim :: "(treasury_view \<times> db_treasury) result" where
  "example_claim = claim_treasury default_settings (91 * DAY) ''0123'' None None None None example_treasury"

lemma two_picoin_float: "units_to_float 2000000 = 2"
  by (simp add: units_to_float_eq) code_simp

lemma two_picoin:
  "py_round 8 2 = 2" "py_round 8 (- 2) = - 2" "fadd 0 2 = 2"
  "to_units (FloatA 2) = Inr 2000000" "to_units (FloatA (- 2)) = Inr (- 2000000)"
  by code_simp+

lemma default_wallets:
  "st_governance_wallet default_settings = ''picoin_governance_multisig''"
  "st_treasury_wallet default_settings = ''picoin_scientific_development_wallet''"
  "str_strip ''picoin_governance_multisig'' = ''picoin_governance_multisig''"
  "str_strip ''picoin_scientific_development_wallet'' = ''picoin_scientific_development_wallet''"
  by (simp_all add: default_settings_def str_strip_def is_space_def)

lemma example_treasury_ok: "treasury_ok 0 example_treasury"
  by (simp add: treasury_ok_def example_treasury_def ledger_ok_def acct_units_def find_balance_def
      entry_sum_def row_ok_def two_picoin_float epoch_ok_def)

lemma unlock_single:
  assumes "treasury_epochs db = [e]" and "epoch_locked e" and "ep_unlock_at e \<le> now"
    and "treasury db = Some t" and "py_round 8 (ep_locked_amount e) = x" and "py_round 8 (fadd 0 x) = x" and "0 < x"
  shows "\<exists>t'. treasury (ensure_treasury S clock (unlock_matured_epochs now db)) = Some t' \<and>
    t_unlocked_balance t' = fadd (t_unlocked_balance t) x"
proof -
  define db1 where "db1 = fst (unlock_epoch now e (db, 0))"
  have "snd (unlock_epoch now e (db, 0)) = x"
    using assms(3) by (simp add: unlock_epoch_def Let_def assms(5,6))
  then have "unlock_epoch now e (db, 0) = (db1, x)" by (simp add: db1_def prod_eq_iff)
  then have f: "fold (unlock_epoch now) (filter epoch_locked (treasury_epochs db)) (db, 0) = (db1, x)"
    by (simp add: assms(1,2))
  have t1: "treasury db1 = Some t"
    unfolding db1_def by (subst unlock_epoch_simps(2)) (simp add: assms(4))
  obtain t' where "treasury (unlock_matured_epochs now db) = Some t'"
    "t_unlocked_balance t' = fadd (t_unlocked_balance t) x"
    unfolding unlock_matured_epochs_def f prod.case using assms(7) by (simp add: t1)
  then show ?thesis by (simp add: ensure_treasury_def)
qed

definition example_epoch :: epoch_row where
  "example_epoch = hd (treasury_epochs example_treasury)"

definition example_row :: treasury_row where
  "example_row = the (treasury example_treasury)"

lemma example_treasury_rows:
  "treasury_epochs example_treasury = [example_epoch]" "epoch_locked example_epoch"
  "treasury example_treasury = Some example_row" "ep_unlock_at example_epoch = 90 * DAY"
  "ep_locked_amount example_epoch = 2" "t_unlocked_balance example_row = 0"
  by (simp_all add: example_treasury_def example_epoch_def example_row_def epoch_locked_def)

lemma example_claimable:
  "claimable default_settings (91 * DAY) (91 * DAY) example_treasury 2000000"
proof -
  have "90 * DAY \<le> 91 * DAY" by (simp add: DAY_def SECOND_def)
  then have "\<exists>t'. treasury (ensure_treasury default_settings (91 * DAY)
      (unlock_matured_epochs (91 * DAY) example_treasury)) = Some t' \<and> t_unlocked_balance t' = fadd 0 2"
    using unlock_single [OF example_treasury_rows(1,2) _ example_treasury_rows(3), where x = 2] example_treasury_rows two_picoin by simp
  moreover have "balance_amount SCIENTIFIC_DEVELOPMENT_TREASURY_ACCOUNT_ID example_treasury = 2"
    "acct_units example_treasury SCIENTIFIC_DEVELOPMENT_TREASURY_ACCOUNT_ID = 2000000"
    by (simp_all add: balance_amount_def find_balance_def acct_units_def example_treasury_def
        SCIENTIFIC_DEVELOPMENT_TREASURY_ACCOUNT_ID_def two_picoin)
  ultimately show ?thesis
    by (auto simp: claimable_def two_picoin Let_def)
qed

lemma example_accounts:
  "acct_units example_treasury SCIENTIFIC_DEVELOPMENT_TREASURY_ACCOUNT_ID = 2000000"
  "acct_units example_treasury ''picoin_scientific_development_wallet'' = 0"
  "treasury_claims example_treasury = []"
  by (simp_all add: acct_units_def find_balance_def example_treasury_def
      SCIENTIFIC_DEVELOPMENT_TREASURY_ACCOUNT_ID_def)

lemma example_claim_succeeds: "\<exists>v db'. example_claim = Inr (v, db')"
  unfolding example_claim_def
  by (rule claim_succeeds [OF example_treasury_ok, where u = 2000000])
     (simp_all add: claim_time_def example_claimable clean_treasury_address_def str_or_def default_wallets
       example_accounts, simp add: SCIENTIFIC_DEVELOPMENT_TREASURY_ACCOUNT_ID_def)

section \<open>Properties\<close>

text \<open>C14: a claim succeeds only for the configured governance wallet and only towards the configured
  treasury wallet; it then records the claim, moves exactly its units from the treasury account
  to the wallet out of funds the account holds, creates no supply, and leaves nothing unlocked.\<close>

theorem claim_treasury_authorised:
  assumes "treasury_ok T db" and "T \<le> claim_time clock ts"
    and "claim_treasury S clock fresh rb ct cid ts db = Inr (v, db')"
  shows "str_strip (str_or rb (st_governance_wallet S)) = st_governance_wallet S \<and>
    str_strip (str_or ct (st_treasury_wallet S)) = st_treasury_wallet S \<and>
    (\<exists>t. treasury db' = Some t \<and> t_unlocked_balance t = 0) \<and>
    (\<exists>c u. tv_claim v = Some c \<and> treasury_claims db' = treasury_claims db @ [c] \<and>
      c_requested_by c = st_governance_wallet S \<and> c_claim_to c = st_treasury_wallet S \<and>
      0 < c_amount c \<and> to_units (FloatA (py_round 8 (c_amount c))) = Inr u \<and>
      total_units db' = total_units db \<and>
      u \<le> acct_units db SCIENTIFIC_DEVELOPMENT_TREASURY_ACCOUNT_ID \<and>
      acct_units db' =
        (let m = (acct_units db)(SCIENTIFIC_DEVELOPMENT_TREASURY_ACCOUNT_ID :=
            acct_units db SCIENTIFIC_DEVELOPMENT_TREASURY_ACCOUNT_ID - u) in
         m(st_treasury_wallet S := m (st_treasury_wallet S) + u)))"
  using claim_treasury_effect(2,4,5,6) [OF assms] by blast

theorem claim_treasury_authorised_witness:
  "\<exists>v db'. example_claim = Inr (v, db') \<and> total_units db' = total_units example_treasury \<and>
     (\<exists>t. treasury db' = Some t \<and> t_unlocked_balance t = 0)"
proof -
  obtain v db' where *: "example_claim = Inr (v, db')" using example_claim_succeeds by blast
  show ?thesis
    using claim_treasury_authorised [OF example_treasury_ok _ *[unfolded example_claim_def]] *
    by (auto simp: claim_time_def)
qed

text \<open>Right after a successful claim the same claim is refused with status 423, whatever claim
  id it carries: there is nothing left to pay twice.\<close>

theorem claim_treasury_not_repeatable:
  assumes "treasury_ok T db" and "T \<le> claim_time clock ts"
    and "claim_treasury S clock fresh rb ct cid ts db = Inr (v, db')"
  shows "claim_treasury S clock' fresh' rb ct cid' (Some (claim_time clock ts)) db' =
    Inl (TreasuryError 423 ''treasury funds are locked'')"
proof -
  let ?now = "claim_time clock ts"
  note e = claim_treasury_effect [OF assms]
  obtain t where t: "treasury db' = Some t" "t_unlocked_balance t = 0" using e(4) by blast
  have "list_all (\<lambda>x. epoch_locked x \<longrightarrow> ?now < ep_unlock_at x) (treasury_epochs db')"
    unfolding e(3) using unlocked_row_not_due
    by (auto simp: list_all_iff claim_epochs_def set_tbl_update epoch_locked_def)
  then have skip: "unlock_epoch ?now r st = st" if "r \<in> set (filter epoch_locked (treasury_epochs db'))" for r st
    using that by (cases st) (auto simp: list_all_iff unlock_epoch_def)
  have "fold (unlock_epoch ?now) rs st = st" if "set rs \<subseteq> set (filter epoch_locked (treasury_epochs db'))" for rs st
    using that by (induction rs) (simp_all add: skip)
  then have f: "fold (unlock_epoch ?now) (filter epoch_locked (treasury_epochs db')) (db', 0) = (db', 0)"
    by blast
  have "unlock_matured_epochs ?now db' = db'"
    unfolding unlock_matured_epochs_def f by simp
  moreover have "clean_treasury_address (str_or rb (st_governance_wallet S)) = Inr (st_governance_wallet S)"
    "clean_treasury_address (str_or ct (st_treasury_wallet S)) = Inr (st_treasury_wallet S)"
    using assms(3) e(5,6) by (auto simp: claim_treasury_def clean_treasury_address_def Let_def split: if_splits)
  ultimately show ?thesis
    using t by (simp add: claim_treasury_def treasury_row_of_def ensure_treasury_def Let_def)
qed

theorem claim_treasury_not_repeatable_witness:
  "\<exists>v db'. example_claim = Inr (v, db') \<and>
     claim_treasury default_settings (91 * DAY) ''4567'' None None None (Some (91 * DAY)) db' =
       Inl (TreasuryError 423 ''treasury funds are locked'')"
proof -
  obtain v db' where *: "example_claim = Inr (v, db')" using example_claim_succeeds by blast
  show ?thesis
    using claim_treasury_not_repeatable [OF example_treasury_ok _ *[unfolded example_claim_def],
        where clock' = "91 * DAY" and fresh' = "''4567''" and cid' = None] *
    by (intro exI [of _ v] exI [of _ db'] conjI) (simp_all add: claim_time_def)
qed

text \<open>An epoch whose unlock time lies ahead keeps its row, funds included, through an unlocking
  pass and through a successful claim.\<close>

theorem treasury_time_lock:
  assumes "treasury_ok T db" and "T \<le> claim_time clock ts"
    and "e \<in> set (treasury_epochs db)" and "claim_time clock ts < ep_unlock_at e"
  shows "e \<in> set (treasury_epochs (unlock_matured_epochs (claim_time clock ts) db)) \<and>
    (\<forall>v db'. claim_treasury S clock fresh rb ct cid ts db = Inr (v, db') \<longrightarrow> e \<in> set (treasury_epochs db'))"
proof -
  let ?now = "claim_time clock ts"
  have d: "distinct (map ep_epoch (treasury_epochs db))" using assms(1) by (simp add: treasury_ok_def)
  have same: "unlocked_row ?now e = e" using assms(4) by (simp add: unlocked_row_def)
  then have in_u: "e \<in> set (map (unlocked_row ?now) (treasury_epochs db))"
    using assms(3) by (metis image_eqI image_set)
  have "epoch_ok T e" using assms(1,3) by (simp add: treasury_ok_def list_all_iff)
  then have "\<not> 0 < ep_unlocked_amount e" using assms(2,4) by (auto simp: epoch_ok_def)
  then have "e \<in> set (treasury_epochs db')"
    if "claim_treasury S clock fresh rb ct cid ts db = Inr (v, db')" for v db'
    unfolding claim_treasury_effect(3) [OF assms(1,2) that] claim_epochs_def set_tbl_update
    using in_u by (auto simp: image_iff intro!: bexI [of _ e])
  then show ?thesis
    using in_u unlock_matured_epochs_simps(1) [OF d, of ?now] by simp
qed

theorem treasury_time_lock_witness:
  "hd (treasury_epochs example_treasury) \<in>
     set (treasury_epochs (unlock_matured_epochs (89 * DAY) example_treasury))"
  using treasury_time_lock [OF example_treasury_ok, of "89 * DAY" None "example_epoch"]
  by (simp add: claim_time_def example_treasury_rows DAY_def SECOND_def)

text \<open>A block's accrual credits the treasury account with the block's share, adds it to the
  epoch of the current quarter, which a first accrual locks for 90 days, leaves the other epochs
  alone, and keeps the invariant that locked funds are in locked epochs and unlocked funds have
  passed their time.\<close>

theorem treasury_accrual:
  assumes "treasury_ok T db" and "T \<le> now"
    and "record_scientific_development_treasury_for_block S now h br db = Inr (amount, db')"
    and "block_share br = Inr u" and "0 < u" and "u \<le> 10 ^ 15"
  shows "treasury_ok now db' \<and> amount = units_to_float u \<and>
    acct_units db' = (acct_units db)(SCIENTIFIC_DEVELOPMENT_TREASURY_ACCOUNT_ID :=
      acct_units db SCIENTIFIC_DEVELOPMENT_TREASURY_ACCOUNT_ID + u) \<and>
    (\<exists>row. (if tbl_find ep_epoch (current_quarter_epoch now) (treasury_epochs db) = None
          then ep_unlock_at row = now + SCIENTIFIC_DEVELOPMENT_UNLOCK_INTERVAL_DAYS * DAY
          else row \<in> set (treasury_epochs db)) \<and>
        accrue_row amount h now row \<in> set (treasury_epochs db')) \<and>
    (\<forall>e \<in> set (treasury_epochs db). ep_epoch e \<noteq> current_quarter_epoch now \<longrightarrow> e \<in> set (treasury_epochs db'))"
  using accrual_effect [OF assms] by blast

lemma default_reward_units: "to_units (FloatA (fl 3.1416)) = Inr 3141600"
  by code_simp

lemma block_share_default: "block_share (fl 3.1416) = Inr 94248"
  using percent_units_exact(4) [of 3141600 31416]
  by (simp add: block_share_def default_reward_units [simplified] scientific_development_units_from_total_def)

definition empty_treasury :: db_treasury where
  "empty_treasury = \<lparr>balances = [], ledger_entries = [], rewards = [], treasury = None,
     treasury_epochs = [], treasury_claims = [], science_events = []\<rparr>"

lemma empty_treasury_ok: "treasury_ok 0 empty_treasury"
  by (simp add: treasury_ok_def empty_treasury_def ledger_ok_def)

lemma accrual_succeeds:
  assumes "treasury_ok T db" and "block_share br = Inr u" and "0 < u" and "u \<le> 10 ^ 15"
    and "0 \<le> acct_units db SCIENTIFIC_DEVELOPMENT_TREASURY_ACCOUNT_ID"
    and "acct_units db SCIENTIFIC_DEVELOPMENT_TREASURY_ACCOUNT_ID \<le> 10 ^ 15"
  shows "\<exists>a db'. record_scientific_development_treasury_for_block S now h br db = Inr (a, db')"
proof -
  let ?x = "units_to_float u"
  obtain row db2 where en: "ensure_epoch (current_quarter_epoch now) h
      (now + SCIENTIFIC_DEVELOPMENT_UNLOCK_INTERVAL_DAYS * DAY) now (ensure_treasury S now db) = (row, db2)" by force
  note tables = accrue_tables_effect [OF en, of ?x]
  obtain w where w: "to_units (FloatA br) = Inr w" "scientific_development_units_from_total w = u"
    using assms(2) by (auto simp: block_share_def)
  have "treasury_posted_units (accrual_posting h ?x) = Inr u"
    using assms(3,4) by (simp add: treasury_posted_units_def accrual_posting_def units_near_py_round)
  then have "\<exists>db'. treasury_apply_ledger_entry now None (accrual_posting h ?x) (accrue_tables S now h ?x db) = Inr db'"
    using treasury_post.post_succeeds [of "accrue_tables S now h ?x db" "accrual_posting h ?x" u]
      ledger_cong [OF tables(1,2)] assms
    by (auto simp: treasury_ok_def negative_def accrual_posting_def)
  then show ?thesis
    using assms(3) w by (auto simp: record_scientific_development_treasury_for_block_def reward_units_to_float_def)
qed

theorem treasury_accrual_witness:
  "\<exists>a db'. record_scientific_development_treasury_for_block default_settings 5 1 (fl 3.1416) empty_treasury =
       Inr (a, db') \<and> treasury_ok 5 db' \<and>
     acct_units db' SCIENTIFIC_DEVELOPMENT_TREASURY_ACCOUNT_ID = 94248"
proof -
  have z: "acct_units empty_treasury x = 0" for x
    by (simp add: empty_treasury_def acct_units_def find_balance_def)
  obtain a db' where *: "record_scientific_development_treasury_for_block default_settings 5 1 (fl 3.1416)
      empty_treasury = Inr (a, db')"
    using accrual_succeeds [OF empty_treasury_ok block_share_default, where S = default_settings
        and now = 5 and h = 1] z by fastforce
  show ?thesis
    using treasury_accrual [OF empty_treasury_ok _ * block_share_default] * by (simp add: z)
qed

end
