(* ===== verification/Governance.thy ===== *)
theory Governance
  imports Treasury
begin

text \<open>
  The governance of the science compute reserve in \<open>app/services/science.py\<close>: a state machine
  over the single row of \<open>science_reserve_governance\<close>. Activation is proposed by an authorised
  signer, approved by others, and executed after a timelock; an authorised signer can pause and
  unpause. The JSON columns \<open>approvals\<close> and \<open>authorized_signers\<close> are lists.

  \<open>gov_reach\<close> is the set of tables the operations reach from an empty one, with the times of
  the proposals made on the way; the times of operations need not be ordered, as they are a node's
  clock or a block's timestamp. Lemmas: approvals are distinct and authorised, payouts are enabled
  only in the active, unpaused state, and activation was backed by two approvals and came a day
  after a proposal.
\<close>

record governance_row =
  g_status :: string
  g_activation_requested_at :: "int option"
  g_activation_available_at :: "int option"
  g_activated_at :: "int option"
  g_approvals :: "string list"
  g_authorized_signers :: "string list"
  g_payouts_enabled :: bool
  g_emergency_paused :: bool
  g_updated_at :: int

record db_governance = db_treasury +
  science_governance :: "governance_row option"

definition SCIENCE_RESERVE_LOCKED_STATUS :: string where
  "SCIENCE_RESERVE_LOCKED_STATUS = ''RESERVE_LOCKED''"

definition SCIENCE_RESERVE_PENDING_STATUS :: string where
  "SCIENCE_RESERVE_PENDING_STATUS = ''L2_PENDING''"

definition SCIENCE_RESERVE_ACTIVE_STATUS :: string where
  "SCIENCE_RESERVE_ACTIVE_STATUS = ''L2_ACTIVE''"

definition SCIENCE_RESERVE_PAUSED_STATUS :: string where
  "SCIENCE_RESERVE_PAUSED_STATUS = ''EMERGENCY_PAUSED''"

section \<open>Operations\<close>

definition clean_science_address :: "string \<Rightarrow> string result" where
  "clean_science_address address =
     (let value = str_strip address in
      if value = [] then Inl (ScienceError 400 ''address is required'')
      else if length value > 128 then Inl (ScienceError 400 ''address is too long'')
      else Inr value)"

definition initial_governance :: "settings \<Rightarrow> int \<Rightarrow> governance_row" where
  "initial_governance S now =
     \<lparr>g_status = SCIENCE_RESERVE_LOCKED_STATUS, g_activation_requested_at = None,
      g_activation_available_at = None, g_activated_at = None, g_approvals = [],
      g_authorized_signers = st_science_reserve_authorized_signers S, g_payouts_enabled = False,
      g_emergency_paused = False, g_updated_at = now\<rparr>"

definition science_reserve_governance ::
  "settings \<Rightarrow> int \<Rightarrow> 'a db_governance_scheme \<Rightarrow> governance_row \<times> 'a db_governance_scheme" where
  "science_reserve_governance S now db = (case science_governance db of
     Some g \<Rightarrow> (g, db)
   | None \<Rightarrow> (initial_governance S now, db\<lparr>science_governance := Some (initial_governance S now)\<rparr>))"

definition authorized_signers :: "settings \<Rightarrow> governance_row \<Rightarrow> string list" where
  "authorized_signers S g = (if g_authorized_signers g \<noteq> [] then g_authorized_signers g
     else st_science_reserve_authorized_signers S)"

definition require_authorized_signer :: "settings \<Rightarrow> governance_row \<Rightarrow> string \<Rightarrow> unit result" where
  "require_authorized_signer S g signer =
     guardE (\<not> (authorized_signers S g \<noteq> [] \<and> signer \<notin> set (authorized_signers S g)))
       (ScienceError 403 ''signer is not authorized for science reserve governance'')"

record governance_view =
  gv_row :: governance_row
  gv_threshold :: nat
  gv_timelock_seconds :: int

definition decode_governance :: "settings \<Rightarrow> governance_row \<Rightarrow> governance_view" where
  "decode_governance S g =
     \<lparr>gv_row = g\<lparr>g_authorized_signers := authorized_signers S g\<rparr>,
      gv_threshold = SCIENCE_RESERVE_GOVERNANCE_MULTISIG_THRESHOLD,
      gv_timelock_seconds = SCIENCE_RESERVE_GOVERNANCE_TIMELOCK_SECONDS\<rparr>"

definition add_approval :: "string \<Rightarrow> string list \<Rightarrow> string list" where
  "add_approval signer approvals = (if signer \<in> set approvals then approvals else approvals @ [signer])"

definition set_governance :: "governance_row \<Rightarrow> 'a db_governance_scheme \<Rightarrow> 'a db_governance_scheme" where
  "set_governance g db = db\<lparr>science_governance := Some g\<rparr>"

text \<open>\<open>timestamp or utc_now()\<close>.\<close>

definition op_time :: "int \<Rightarrow> int option \<Rightarrow> int" where
  "op_time clock ts = (case ts of Some t \<Rightarrow> t | None \<Rightarrow> clock)"

definition propose_science_reserve_activation ::
  "settings \<Rightarrow> int \<Rightarrow> int option \<Rightarrow> string \<Rightarrow> 'a db_governance_scheme \<Rightarrow>
   (governance_view \<times> 'a db_governance_scheme) result" where
  "propose_science_reserve_activation S clock ts signer0 db =
     bindE (clean_science_address signer0) (\<lambda>signer.
     case science_reserve_governance S clock db of (g, db1) \<Rightarrow>
     if g_status g = SCIENCE_RESERVE_ACTIVE_STATUS
     then Inl (ScienceError 409 ''science reserve is already active'')
     else bindE (require_authorized_signer S g signer) (\<lambda>_.
       let approvals = add_approval signer (g_approvals g);
           now = op_time clock ts;
           available_at = now + SCIENCE_RESERVE_GOVERNANCE_TIMELOCK_SECONDS * SECOND;
           g' = g\<lparr>g_status := SCIENCE_RESERVE_PENDING_STATUS, g_activation_requested_at := Some now,
                  g_activation_available_at := Some available_at, g_approvals := approvals,
                  g_payouts_enabled := False, g_updated_at := now\<rparr>;
           db2 = record_science_event ''ScienceReserveActivationProposed'' (Some signer) None
             [(''status'', PStr SCIENCE_RESERVE_PENDING_STATUS), (''activation_available_at'', PInt available_at),
              (''approvals'', PStrs approvals),
              (''threshold'', PInt (int SCIENCE_RESERVE_GOVERNANCE_MULTISIG_THRESHOLD))] clock
             (set_governance g' db1) in
       Inr (decode_governance S g', db2)))"

definition approve_science_reserve_activation ::
  "settings \<Rightarrow> int \<Rightarrow> int option \<Rightarrow> string \<Rightarrow> 'a db_governance_scheme \<Rightarrow>
   (governance_view \<times> 'a db_governance_scheme) result" where
  "approve_science_reserve_activation S clock ts signer0 db =
     bindE (clean_science_address signer0) (\<lambda>signer.
     case science_reserve_governance S clock db of (g, db1) \<Rightarrow>
     if g_status g = SCIENCE_RESERVE_ACTIVE_STATUS
     then Inl (ScienceError 409 ''science reserve is already active'')
     else if g_activation_requested_at g = None
     then Inl (ScienceError 409 ''science reserve activation has not been proposed'')
     else bindE (require_authorized_signer S g signer) (\<lambda>_.
       let approvals = add_approval signer (g_approvals g);
           g' = g\<lparr>g_approvals := approvals, g_updated_at := op_time clock ts\<rparr>;
           db2 = record_science_event ''ScienceReserveActivationApproved'' (Some signer) None
             [(''approvals'', PStrs approvals),
              (''threshold'', PInt (int SCIENCE_RESERVE_GOVERNANCE_MULTISIG_THRESHOLD))] clock
             (set_governance g' db1) in
       Inr (decode_governance S g', db2)))"

definition execute_science_reserve_activation ::
  "settings \<Rightarrow> int \<Rightarrow> int option \<Rightarrow> 'a db_governance_scheme \<Rightarrow>
   (governance_view \<times> 'a db_governance_scheme) result" where
  "execute_science_reserve_activation S clock ts db =
     (case science_reserve_governance S clock db of (g, db1) \<Rightarrow>
     if g_status g = SCIENCE_RESERVE_ACTIVE_STATUS then Inr (decode_governance S g, db1)
     else case g_activation_available_at g of
       None \<Rightarrow> Inl (ScienceError 409 ''science reserve activation has not been proposed'')
     | Some available_at \<Rightarrow>
       if length (g_approvals g) < SCIENCE_RESERVE_GOVERNANCE_MULTISIG_THRESHOLD
       then Inl (ScienceError 409 ''science reserve activation lacks multisig approvals'')
       else
         let now = op_time clock ts in
         if now < available_at
         then Inl (ScienceError 423 ''science reserve activation timelock active'')
         else
           let g' = g\<lparr>g_status := SCIENCE_RESERVE_ACTIVE_STATUS, g_activated_at := Some now,
                      g_payouts_enabled := True, g_emergency_paused := False, g_updated_at := now\<rparr>;
               db2 = record_science_event ''ScienceReserveActivated'' None None
                 [(''status'', PStr SCIENCE_RESERVE_ACTIVE_STATUS), (''approvals'', PStrs (g_approvals g))]
                 clock (set_governance g' db1);
               db3 = record_science_event ''ScienceReserveUnlocked'' None None
                 [(''status'', PStr SCIENCE_RESERVE_ACTIVE_STATUS), (''payouts_enabled'', PInt 1)] clock db2 in
           Inr (decode_governance S g', db3))"

definition pause_science_reserve ::
  "settings \<Rightarrow> int \<Rightarrow> int option \<Rightarrow> string \<Rightarrow> 'a db_governance_scheme \<Rightarrow>
   (governance_view \<times> 'a db_governance_scheme) result" where
  "pause_science_reserve S clock ts signer0 db =
     bindE (clean_science_address signer0) (\<lambda>signer.
     case science_reserve_governance S clock db of (g, db1) \<Rightarrow>
     bindE (require_authorized_signer S g signer) (\<lambda>_.
       let g' = g\<lparr>g_status := SCIENCE_RESERVE_PAUSED_STATUS, g_emergency_paused := True,
                  g_payouts_enabled := False, g_updated_at := op_time clock ts\<rparr>;
           db2 = record_science_event ''ScienceReservePaused'' (Some signer) None
             [(''status'', PStr SCIENCE_RESERVE_PAUSED_STATUS)] clock (set_governance g' db1) in
       Inr (decode_governance S g', db2)))"

definition unpause_science_reserve ::
  "settings \<Rightarrow> int \<Rightarrow> int option \<Rightarrow> string \<Rightarrow> 'a db_governance_scheme \<Rightarrow>
   (governance_view \<times> 'a db_governance_scheme) result" where
  "unpause_science_reserve S clock ts signer0 db =
     bindE (clean_science_address signer0) (\<lambda>signer.
     case science_reserve_governance S clock db of (g, db1) \<Rightarrow>
     bindE (require_authorized_signer S g signer) (\<lambda>_.
       let activated = (g_activated_at g \<noteq> None);
           next_status = (if activated then SCIENCE_RESERVE_ACTIVE_STATUS else SCIENCE_RESERVE_LOCKED_STATUS);
           g' = g\<lparr>g_status := next_status, g_emergency_paused := False,
                  g_payouts_enabled := activated, g_updated_at := op_time clock ts\<rparr>;
           db2 = record_science_event ''ScienceReserveUnpaused'' (Some signer) None
             [(''status'', PStr next_status), (''payouts_enabled'', PInt (if activated then 1 else 0))]
             clock (set_governance g' db1) in
       Inr (decode_governance S g', db2)))"

definition get_science_reserve_governance ::
  "settings \<Rightarrow> int \<Rightarrow> 'a db_governance_scheme \<Rightarrow> governance_view \<times> 'a db_governance_scheme" where
  "get_science_reserve_governance S now db =
     (case science_reserve_governance S now db of (g, db1) \<Rightarrow> (decode_governance S g, db1))"

text \<open>The guards of the payout path.\<close>

definition require_science_payouts_enabled :: "governance_row \<Rightarrow> unit result" where
  "require_science_payouts_enabled g =
     (if g_status g \<noteq> SCIENCE_RESERVE_ACTIVE_STATUS
      then Inl (ScienceError 423 ''science compute reserve is locked until L2 marketplace activation'')
      else if g_emergency_paused g
      then Inl (ScienceError 423 ''science compute reserve is emergency paused'')
      else if \<not> g_payouts_enabled g
      then Inl (ScienceError 423 ''science compute reserve payouts are disabled'')
      else Inr ())"

section \<open>The state machine\<close>

datatype gov_action = Propose string | Approve string | Execute | Pause string | Unpause string

definition gov_apply ::
  "settings \<Rightarrow> int \<Rightarrow> int option \<Rightarrow> gov_action \<Rightarrow> 'a db_governance_scheme \<Rightarrow>
   (governance_view \<times> 'a db_governance_scheme) result" where
  "gov_apply S clock ts a db = (case a of
     Propose s \<Rightarrow> propose_science_reserve_activation S clock ts s db
   | Approve s \<Rightarrow> approve_science_reserve_activation S clock ts s db
   | Execute \<Rightarrow> execute_science_reserve_activation S clock ts db
   | Pause s \<Rightarrow> pause_science_reserve S clock ts s db
   | Unpause s \<Rightarrow> unpause_science_reserve S clock ts s db)"

text \<open>\<open>gov_reach S ps db\<close>: the operations lead from an empty table to \<open>db\<close>, with
  proposals made at the times \<open>ps\<close>.\<close>

inductive gov_reach :: "settings \<Rightarrow> int list \<Rightarrow> 'a db_governance_scheme \<Rightarrow> bool" for S where
  init: "science_governance db = None \<Longrightarrow> gov_reach S [] db"
| step: "gov_reach S ps db \<Longrightarrow> gov_apply S clock ts a db = Inr (v, db') \<Longrightarrow>
    gov_reach S (case a of Propose s \<Rightarrow> op_time clock ts # ps | _ \<Rightarrow> ps) db'"

inductive_cases gov_reach_cases: "gov_reach S ps db"

definition TIMELOCK :: int where
  "TIMELOCK = SCIENCE_RESERVE_GOVERNANCE_TIMELOCK_SECONDS * SECOND"

definition gov_inv :: "settings \<Rightarrow> int list \<Rightarrow> governance_row \<Rightarrow> bool" where
  "gov_inv S ps g \<longleftrightarrow>
     g_authorized_signers g = st_science_reserve_authorized_signers S \<and>
     distinct (g_approvals g) \<and>
     (st_science_reserve_authorized_signers S \<noteq> [] \<longrightarrow>
        set (g_approvals g) \<subseteq> set (st_science_reserve_authorized_signers S)) \<and>
     (g_payouts_enabled g \<longrightarrow> g_status g = SCIENCE_RESERVE_ACTIVE_STATUS) \<and>
     (g_status g = SCIENCE_RESERVE_ACTIVE_STATUS \<longrightarrow>
        g_payouts_enabled g \<and> \<not> g_emergency_paused g \<and> g_activated_at g \<noteq> None) \<and>
     (\<forall>v. g_activation_available_at g = Some v \<longrightarrow> v - TIMELOCK \<in> set ps) \<and>
     (\<forall>a. g_activated_at g = Some a \<longrightarrow> (\<exists>p \<in> set ps. p + TIMELOCK \<le> a) \<and>
        SCIENCE_RESERVE_GOVERNANCE_MULTISIG_THRESHOLD \<le> length (g_approvals g))"

lemma status_distinct [simp]:
  "SCIENCE_RESERVE_PENDING_STATUS \<noteq> SCIENCE_RESERVE_ACTIVE_STATUS"
  "SCIENCE_RESERVE_PAUSED_STATUS \<noteq> SCIENCE_RESERVE_ACTIVE_STATUS"
  "SCIENCE_RESERVE_LOCKED_STATUS \<noteq> SCIENCE_RESERVE_ACTIVE_STATUS"
  by (simp_all add: SCIENCE_RESERVE_PENDING_STATUS_def SCIENCE_RESERVE_ACTIVE_STATUS_def
      SCIENCE_RESERVE_PAUSED_STATUS_def SCIENCE_RESERVE_LOCKED_STATUS_def)

lemma set_governance_simps [simp]:
  "science_governance (set_governance g db) = Some g"
  "science_governance (record_science_event a b c d e db) = science_governance db"
  by (simp_all add: set_governance_def record_science_event_def)

lemma add_approval_props:
  "distinct xs \<Longrightarrow> distinct (add_approval s xs)" "set (add_approval s xs) = insert s (set xs)"
  "length xs \<le> length (add_approval s xs)"
  by (auto simp: add_approval_def)

lemma initial_governance_inv: "gov_inv S [] (initial_governance S t)"
  by (simp add: gov_inv_def initial_governance_def)

text \<open>The row an operation reads: the stored one or the initial one.\<close>

definition gov_row :: "settings \<Rightarrow> int \<Rightarrow> 'a db_governance_scheme \<Rightarrow> governance_row" where
  "gov_row S clock db = fst (science_reserve_governance S clock db)"

lemma gov_row_stored: "science_governance (snd (science_reserve_governance S clock db)) = Some (gov_row S clock db)"
  by (auto simp: science_reserve_governance_def gov_row_def split: option.splits)

lemma signer_authorized:
  assumes "gov_inv S ps g" and "require_authorized_signer S g s = Inr u"
  shows "st_science_reserve_authorized_signers S \<noteq> [] \<longrightarrow> s \<in> set (st_science_reserve_authorized_signers S)"
  using assms by (auto simp: gov_inv_def require_authorized_signer_def authorized_signers_def split: if_splits)

lemma gov_row_obtain:
  obtains db1 where "science_reserve_governance S clock db = (gov_row S clock db, db1)"
    and "science_governance db1 = Some (gov_row S clock db)"
  using gov_row_stored [of S clock db] by (cases "science_reserve_governance S clock db") (auto simp: gov_row_def)

text \<open>What each operation writes.\<close>

lemma propose_writes:
  assumes "propose_science_reserve_activation S clock ts s0 db = Inr (v, db')" and "g = gov_row S clock db" and "now = op_time clock ts"
  shows "\<exists>s. require_authorized_signer S g s = Inr () \<and> g_status g \<noteq> SCIENCE_RESERVE_ACTIVE_STATUS \<and>
    science_governance db' = Some (g\<lparr>g_status := SCIENCE_RESERVE_PENDING_STATUS,
      g_activation_requested_at := Some now, g_activation_available_at := Some (now + TIMELOCK),
      g_approvals := add_approval s (g_approvals g), g_payouts_enabled := False, g_updated_at := now\<rparr>)"
proof -
  obtain db1 where sg: "science_reserve_governance S clock db = (g, db1)"
    using gov_row_obtain assms(2) by metis
  show ?thesis
    using assms(1,3) by (auto simp: propose_science_reserve_activation_def Let_def sg TIMELOCK_def
        split: if_splits)
qed

lemma approve_writes:
  assumes "approve_science_reserve_activation S clock ts s0 db = Inr (v, db')" and "g = gov_row S clock db" and "now = op_time clock ts"
  shows "\<exists>s. require_authorized_signer S g s = Inr () \<and> g_status g \<noteq> SCIENCE_RESERVE_ACTIVE_STATUS \<and>
    science_governance db' = Some (g\<lparr>g_approvals := add_approval s (g_approvals g), g_updated_at := now\<rparr>)"
proof -
  obtain db1 where sg: "science_reserve_governance S clock db = (g, db1)"
    using gov_row_obtain assms(2) by metis
  show ?thesis
    using assms(1,3) by (auto simp: approve_science_reserve_activation_def Let_def sg split: if_splits)
qed

lemma execute_writes:
  assumes "execute_science_reserve_activation S clock ts db = Inr (v, db')" and "g = gov_row S clock db" and "now = op_time clock ts"
  shows "science_governance db' = Some g \<and> g_status g = SCIENCE_RESERVE_ACTIVE_STATUS \<or>
    (\<exists>x. g_activation_available_at g = Some x \<and> x \<le> now \<and>
      SCIENCE_RESERVE_GOVERNANCE_MULTISIG_THRESHOLD \<le> length (g_approvals g) \<and>
      science_governance db' = Some (g\<lparr>g_status := SCIENCE_RESERVE_ACTIVE_STATUS, g_activated_at := Some now,
        g_payouts_enabled := True, g_emergency_paused := False, g_updated_at := now\<rparr>))"
proof -
  obtain db1 where sg: "science_reserve_governance S clock db = (g, db1)" "science_governance db1 = Some g"
    using gov_row_obtain assms(2) by metis
  show ?thesis
    using assms(1,3) sg(2) by (auto simp: execute_science_reserve_activation_def Let_def sg(1)
        split: if_splits option.splits)
qed

lemma pause_writes:
  assumes "pause_science_reserve S clock ts s0 db = Inr (v, db')" and "g = gov_row S clock db" and "now = op_time clock ts"
  shows "science_governance db' = Some (g\<lparr>g_status := SCIENCE_RESERVE_PAUSED_STATUS,
    g_emergency_paused := True, g_payouts_enabled := False, g_updated_at := now\<rparr>)"
proof -
  obtain db1 where sg: "science_reserve_governance S clock db = (g, db1)"
    using gov_row_obtain assms(2) by metis
  show ?thesis
    using assms(1,3) by (auto simp: pause_science_reserve_def Let_def sg)
qed

lemma unpause_writes:
  assumes "unpause_science_reserve S clock ts s0 db = Inr (v, db')" and "g = gov_row S clock db" and "now = op_time clock ts"
  shows "science_governance db' = Some (g\<lparr>
    g_status := (if g_activated_at g \<noteq> None then SCIENCE_RESERVE_ACTIVE_STATUS else SCIENCE_RESERVE_LOCKED_STATUS),
    g_emergency_paused := False, g_payouts_enabled := (g_activated_at g \<noteq> None), g_updated_at := now\<rparr>)"
proof -
  obtain db1 where sg: "science_reserve_governance S clock db = (g, db1)"
    using gov_row_obtain assms(2) by metis
  show ?thesis
    using assms(1,3) by (auto simp: unpause_science_reserve_def Let_def sg)
qed

lemma add_approval_inv:
  assumes "gov_inv S ps g" and "require_authorized_signer S g s = Inr u"
  shows "gov_inv S ps (g\<lparr>g_approvals := add_approval s (g_approvals g)\<rparr>)"
proof -
  have "SCIENCE_RESERVE_GOVERNANCE_MULTISIG_THRESHOLD \<le> length (g_approvals g) \<Longrightarrow>
      SCIENCE_RESERVE_GOVERNANCE_MULTISIG_THRESHOLD \<le> length (add_approval s (g_approvals g))"
    using add_approval_props(3) order_trans by blast
  then show ?thesis
    using assms(1) signer_authorized [OF assms] by (simp add: gov_inv_def add_approval_props)
qed

text \<open>The row after a proposal satisfies the invariant with the proposal's time recorded.\<close>

lemma propose_inv:
  assumes "gov_inv S ps g" and "g_status g \<noteq> SCIENCE_RESERVE_ACTIVE_STATUS"
  shows "gov_inv S (now # ps) (g\<lparr>g_status := SCIENCE_RESERVE_PENDING_STATUS,
    g_activation_requested_at := Some now, g_activation_available_at := Some (now + TIMELOCK),
    g_payouts_enabled := False, g_updated_at := u\<rparr>)"
  using assms by (auto simp: gov_inv_def)

lemma execute_inv:
  assumes "gov_inv S ps g" and "g_activation_available_at g = Some x" and "x \<le> now"
    and "SCIENCE_RESERVE_GOVERNANCE_MULTISIG_THRESHOLD \<le> length (g_approvals g)"
  shows "gov_inv S ps (g\<lparr>g_status := SCIENCE_RESERVE_ACTIVE_STATUS, g_activated_at := Some now,
    g_payouts_enabled := True, g_emergency_paused := False, g_updated_at := u\<rparr>)"
proof -
  have "x - TIMELOCK \<in> set ps" using assms(1,2) by (simp add: gov_inv_def)
  then have "\<exists>p \<in> set ps. p + TIMELOCK \<le> now" using assms(3) by (intro bexI [of _ "x - TIMELOCK"]) simp_all
  then show ?thesis using assms(1,2,4) by (simp add: gov_inv_def)
qed

lemma gov_apply_inv:
  assumes inv: "gov_inv S ps (gov_row S clock db)" and step: "gov_apply S clock ts a db = Inr (v, db')"
  shows "\<exists>g'. science_governance db' = Some g' \<and>
    gov_inv S (case a of Propose s \<Rightarrow> op_time clock ts # ps | _ \<Rightarrow> ps) g'"
proof -
  define g where "g = gov_row S clock db"
  define now where "now = op_time clock ts"
  have i: "gov_inv S ps g" using inv by (simp add: g_def)
  show ?thesis
  proof (cases a)
    case (Propose s0)
    have "propose_science_reserve_activation S clock ts s0 db = Inr (v, db')"
      using step by (simp add: Propose gov_apply_def)
    from propose_writes [OF this g_def now_def] obtain s where s: "require_authorized_signer S g s = Inr ()"
      "g_status g \<noteq> SCIENCE_RESERVE_ACTIVE_STATUS"
      "science_governance db' = Some (g\<lparr>g_status := SCIENCE_RESERVE_PENDING_STATUS,
        g_activation_requested_at := Some now, g_activation_available_at := Some (now + TIMELOCK),
        g_approvals := add_approval s (g_approvals g), g_payouts_enabled := False, g_updated_at := now\<rparr>)"
      by blast
    then show ?thesis
      using propose_inv [OF add_approval_inv [OF i s(1)], of now now] by (simp add: Propose now_def gov_inv_def)
  next
    case (Approve s0)
    have "approve_science_reserve_activation S clock ts s0 db = Inr (v, db')"
      using step by (simp add: Approve gov_apply_def)
    from approve_writes [OF this g_def now_def] obtain s where s: "require_authorized_signer S g s = Inr ()"
      "science_governance db' = Some (g\<lparr>g_approvals := add_approval s (g_approvals g), g_updated_at := now\<rparr>)"
      by blast
    then show ?thesis
      using add_approval_inv [OF i s(1)] by (simp add: Approve gov_inv_def)
  next
    case Execute
    have "execute_science_reserve_activation S clock ts db = Inr (v, db')"
      using step by (simp add: Execute gov_apply_def)
    from execute_writes [OF this g_def now_def] show ?thesis
      using i execute_inv [OF i] by (auto simp: Execute)
  next
    case (Pause s0)
    have "pause_science_reserve S clock ts s0 db = Inr (v, db')"
      using step by (simp add: Pause gov_apply_def)
    from pause_writes [OF this g_def now_def] show ?thesis
      using i by (simp add: Pause gov_inv_def)
  next
    case (Unpause s0)
    have "unpause_science_reserve S clock ts s0 db = Inr (v, db')"
      using step by (simp add: Unpause gov_apply_def)
    from unpause_writes [OF this g_def now_def] show ?thesis
      using i by (simp add: Unpause gov_inv_def)
  qed
qed

lemma gov_row_None: "science_governance db = None \<Longrightarrow> gov_row S clock db = initial_governance S clock"
  by (simp add: gov_row_def science_reserve_governance_def)

lemma gov_row_Some: "science_governance db = Some g \<Longrightarrow> gov_row S clock db = g"
  by (simp add: gov_row_def science_reserve_governance_def)

lemma gov_reach_inv: "gov_reach S ps db \<Longrightarrow> gov_inv S ps (gov_row S clock db)"
proof (induction arbitrary: clock rule: gov_reach.induct)
  case (init db)
  show ?case
    unfolding gov_row_None [OF init.hyps] by (rule initial_governance_inv)
next
  case (step ps db c ts a v db')
  show ?case
    using gov_apply_inv [OF step.IH step.hyps(2)] gov_row_Some by metis
qed

section \<open>Properties\<close>

text \<open>C15: in every table the governance operations reach, the payout guards pass only when at least
  two different authorised signers approved and the activation came 24 hours after some proposal.\<close>

theorem payouts_enabled_governed:
  assumes "gov_reach S ps db" and "science_governance db = Some g"
    and "require_science_payouts_enabled g = Inr ()" and "st_science_reserve_authorized_signers S \<noteq> []"
  shows "distinct (g_approvals g) \<and>
    set (g_approvals g) \<subseteq> set (st_science_reserve_authorized_signers S) \<and> 2 \<le> length (g_approvals g) \<and>
    (\<exists>a. g_activated_at g = Some a \<and> (\<exists>p \<in> set ps. p + 24 * 60 * 60 * SECOND \<le> a))"
proof -
  have i: "gov_inv S ps g" using gov_reach_inv [OF assms(1)] gov_row_Some [OF assms(2)] by metis
  have "g_status g = SCIENCE_RESERVE_ACTIVE_STATUS"
    using assms(3) by (auto simp: require_science_payouts_enabled_def split: if_splits)
  then obtain a where "g_activated_at g = Some a" using i by (auto simp: gov_inv_def)
  then show ?thesis
    using i assms(4) by (simp add: gov_inv_def TIMELOCK_def SCIENCE_RESERVE_GOVERNANCE_TIMELOCK_SECONDS_def
        SCIENCE_RESERVE_GOVERNANCE_MULTISIG_THRESHOLD_def)
qed

text \<open>What the operations return when their guards hold.\<close>

lemma propose_succeeds:
  assumes "clean_science_address s0 = Inr s" and "g = gov_row S clock db"
    and "g_status g \<noteq> SCIENCE_RESERVE_ACTIVE_STATUS" and "require_authorized_signer S g s = Inr ()"
  shows "\<exists>v db'. propose_science_reserve_activation S clock ts s0 db = Inr (v, db') \<and>
    science_governance db' = Some (g\<lparr>g_status := SCIENCE_RESERVE_PENDING_STATUS,
      g_activation_requested_at := Some (op_time clock ts),
      g_activation_available_at := Some (op_time clock ts + TIMELOCK),
      g_approvals := add_approval s (g_approvals g), g_payouts_enabled := False,
      g_updated_at := op_time clock ts\<rparr>)"
proof -
  obtain db1 where sg: "science_reserve_governance S clock db = (g, db1)"
    using gov_row_obtain assms(2) by metis
  show ?thesis
    by (simp add: propose_science_reserve_activation_def Let_def sg assms(1,3,4) TIMELOCK_def)
qed

lemma approve_succeeds:
  assumes "clean_science_address s0 = Inr s" and "g = gov_row S clock db"
    and "g_status g \<noteq> SCIENCE_RESERVE_ACTIVE_STATUS" and "g_activation_requested_at g \<noteq> None"
    and "require_authorized_signer S g s = Inr ()"
  shows "\<exists>v db'. approve_science_reserve_activation S clock ts s0 db = Inr (v, db') \<and>
    science_governance db' =
      Some (g\<lparr>g_approvals := add_approval s (g_approvals g), g_updated_at := op_time clock ts\<rparr>)"
proof -
  obtain db1 where sg: "science_reserve_governance S clock db = (g, db1)"
    using gov_row_obtain assms(2) by metis
  show ?thesis
    using assms(4) by (simp add: approve_science_reserve_activation_def Let_def sg assms(1,3,5))
qed

lemma execute_succeeds:
  assumes "g = gov_row S clock db" and "g_status g \<noteq> SCIENCE_RESERVE_ACTIVE_STATUS"
    and "g_activation_available_at g = Some x" and "x \<le> op_time clock ts"
    and "SCIENCE_RESERVE_GOVERNANCE_MULTISIG_THRESHOLD \<le> length (g_approvals g)"
  shows "\<exists>v db'. execute_science_reserve_activation S clock ts db = Inr (v, db') \<and>
    science_governance db' = Some (g\<lparr>g_status := SCIENCE_RESERVE_ACTIVE_STATUS,
      g_activated_at := Some (op_time clock ts), g_payouts_enabled := True, g_emergency_paused := False,
      g_updated_at := op_time clock ts\<rparr>)"
proof -
  obtain db1 where sg: "science_reserve_governance S clock db = (g, db1)"
    using gov_row_obtain assms(1) by metis
  show ?thesis
    using assms(4,5) by (simp add: execute_science_reserve_activation_def Let_def sg assms(2,3) not_less)
qed

lemma pause_succeeds:
  assumes "clean_science_address s0 = Inr s" and "g = gov_row S clock db"
    and "require_authorized_signer S g s = Inr ()"
  shows "\<exists>v db'. pause_science_reserve S clock ts s0 db = Inr (v, db') \<and>
    science_governance db' = Some (g\<lparr>g_status := SCIENCE_RESERVE_PAUSED_STATUS,
      g_emergency_paused := True, g_payouts_enabled := False, g_updated_at := op_time clock ts\<rparr>)"
proof -
  obtain db1 where sg: "science_reserve_governance S clock db = (g, db1)"
    using gov_row_obtain assms(2) by metis
  show ?thesis
    by (simp add: pause_science_reserve_def Let_def sg assms(1,3))
qed

text \<open>The reserve is activated by a proposal of signer 1 at time 0, an approval of signer 2 and an
  execution a day later.\<close>

definition empty_governance :: db_governance where
  "empty_governance = \<lparr>balances = [], ledger_entries = [], rewards = [], treasury = None,
     treasury_epochs = [], treasury_claims = [], science_events = [], science_governance = None\<rparr>"

lemma default_signers:
  "clean_science_address ''signer-1'' = Inr ''signer-1''" "clean_science_address ''signer-2'' = Inr ''signer-2''"
  "st_science_reserve_authorized_signers default_settings = [''signer-1'', ''signer-2'']"
  by (simp_all add: clean_science_address_def default_settings_def, code_simp+)

lemma default_authorized:
  assumes "g_authorized_signers g = st_science_reserve_authorized_signers default_settings"
  shows "require_authorized_signer default_settings g ''signer-1'' = Inr ()"
    and "require_authorized_signer default_settings g ''signer-2'' = Inr ()"
  using assms by (simp_all add: require_authorized_signer_def authorized_signers_def default_signers)

lemma activated_reachable:
  "\<exists>(db :: db_governance) g. gov_reach default_settings [0] db \<and> science_governance db = Some g \<and>
    g_status g = SCIENCE_RESERVE_ACTIVE_STATUS \<and> g_payouts_enabled g \<and> \<not> g_emergency_paused g \<and>
    g_authorized_signers g = st_science_reserve_authorized_signers default_settings \<and>
    g_activation_available_at g = Some TIMELOCK \<and> g_approvals g = [''signer-1'', ''signer-2'']"
proof -
  let ?S = default_settings
  have r0: "gov_reach ?S [] empty_governance"
    by (rule gov_reach.init) (simp add: empty_governance_def)
  define g0 where "g0 = gov_row ?S 0 empty_governance"
  have g0: "g0 = initial_governance ?S 0"
    unfolding g0_def by (rule gov_row_None) (simp add: empty_governance_def)
  have a0: "g_authorized_signers g0 = st_science_reserve_authorized_signers ?S"
    "g_status g0 \<noteq> SCIENCE_RESERVE_ACTIVE_STATUS" "g_approvals g0 = []"
    by (simp_all add: g0 initial_governance_def)
  obtain v1 db1 g1 where p: "propose_science_reserve_activation ?S 0 None ''signer-1'' empty_governance = Inr (v1, db1)"
    and g1: "science_governance db1 = Some g1" "g_status g1 \<noteq> SCIENCE_RESERVE_ACTIVE_STATUS"
      "g_authorized_signers g1 = st_science_reserve_authorized_signers ?S" "g_approvals g1 = [''signer-1'']"
      "g_activation_requested_at g1 \<noteq> None" "g_activation_available_at g1 = Some TIMELOCK"
    using propose_succeeds [OF default_signers(1) g0_def a0(2) default_authorized(1) [OF a0(1)], of None] a0
    by (fastforce simp: op_time_def add_approval_def)
  have r1: "gov_reach ?S [0] db1"
    using gov_reach.step [OF r0, of 0 None "Propose ''signer-1''" v1 db1] p by (simp add: gov_apply_def op_time_def)
  obtain v2 db2 g2 where q: "approve_science_reserve_activation ?S 1 None ''signer-2'' db1 = Inr (v2, db2)"
    and g2: "science_governance db2 = Some g2" "g_status g2 \<noteq> SCIENCE_RESERVE_ACTIVE_STATUS"
      "g_authorized_signers g2 = st_science_reserve_authorized_signers ?S"
      "g_approvals g2 = [''signer-1'', ''signer-2'']" "g_activation_available_at g2 = Some TIMELOCK"
    using approve_succeeds [OF default_signers(2) gov_row_Some [OF g1(1), symmetric] g1(2,5)
        default_authorized(2) [OF g1(3)], of 1 None] g1
    by (fastforce simp: op_time_def add_approval_def)
  have r2: "gov_reach ?S [0] db2"
    using gov_reach.step [OF r1, of 1 None "Approve ''signer-2''" v2 db2] q by (simp add: gov_apply_def)
  obtain v3 db3 g3 where e: "execute_science_reserve_activation ?S TIMELOCK None db2 = Inr (v3, db3)"
    and g3: "science_governance db3 = Some g3" "g3 = g2\<lparr>g_status := SCIENCE_RESERVE_ACTIVE_STATUS,
      g_activated_at := Some TIMELOCK, g_payouts_enabled := True, g_emergency_paused := False,
      g_updated_at := TIMELOCK\<rparr>"
    using execute_succeeds [OF gov_row_Some [OF g2(1), symmetric] g2(2,5), of TIMELOCK None] g2
    by (fastforce simp: op_time_def SCIENCE_RESERVE_GOVERNANCE_MULTISIG_THRESHOLD_def)
  have "gov_reach ?S [0] db3"
    using gov_reach.step [OF r2, of TIMELOCK None Execute v3 db3] e by (simp add: gov_apply_def)
  then show ?thesis using g3 g2 by (intro exI [of _ db3] exI [of _ g3]) simp
qed

theorem payouts_enabled_governed_witness:
  "\<exists>(db :: db_governance) g a. gov_reach default_settings [0] db \<and> science_governance db = Some g \<and>
     require_science_payouts_enabled g = Inr () \<and> 2 \<le> length (g_approvals g) \<and>
     g_activated_at g = Some a \<and> 24 * 60 * 60 * SECOND \<le> a"
proof -
  obtain db :: db_governance and g where r: "gov_reach default_settings [0] db" "science_governance db = Some g"
    "g_status g = SCIENCE_RESERVE_ACTIVE_STATUS" "g_payouts_enabled g" "\<not> g_emergency_paused g"
    using activated_reachable by blast
  then have e: "require_science_payouts_enabled g = Inr ()" by (simp add: require_science_payouts_enabled_def)
  show ?thesis
    using payouts_enabled_governed [OF r(1,2) e] r(1,2) e by (fastforce simp: default_signers(3))
qed

text \<open>C16: an emergency pause does not hold. After an authorised signer has paused an activated
  reserve, anyone may call execute: it needs no signer, the old approvals and the old timelock are
  still in the row, and it enables the payouts again.\<close>

theorem pause_undone_by_execute:
  assumes "gov_reach S ps db" and "science_governance db = Some g"
    and "g_status g = SCIENCE_RESERVE_PAUSED_STATUS" and "g_activation_available_at g = Some x"
    and "x \<le> op_time clock ts" and "2 \<le> length (g_approvals g)"
  shows "\<exists>v db' g'. execute_science_reserve_activation S clock ts db = Inr (v, db') \<and> gov_reach S ps db' \<and>
    science_governance db' = Some g' \<and> require_science_payouts_enabled g' = Inr () \<and>
    g_approvals g' = g_approvals g"
proof -
  obtain v db' where e: "execute_science_reserve_activation S clock ts db = Inr (v, db')"
    "science_governance db' = Some (g\<lparr>g_status := SCIENCE_RESERVE_ACTIVE_STATUS,
      g_activated_at := Some (op_time clock ts), g_payouts_enabled := True, g_emergency_paused := False,
      g_updated_at := op_time clock ts\<rparr>)"
    using execute_succeeds [OF gov_row_Some [OF assms(2), symmetric, of S clock] _ assms(4,5)] assms(3,6)
    by (auto simp: SCIENCE_RESERVE_GOVERNANCE_MULTISIG_THRESHOLD_def)
  have "gov_reach S ps db'"
    using gov_reach.step [OF assms(1), of clock ts Execute v db'] e(1) by (simp add: gov_apply_def)
  then show ?thesis
    using e by (simp add: require_science_payouts_enabled_def)
qed

theorem pause_undone_by_execute_witness:
  "\<exists>(db :: db_governance) g db' g' v. gov_reach default_settings [0] db \<and> science_governance db = Some g \<and>
     g_emergency_paused g \<and> execute_science_reserve_activation default_settings TIMELOCK None db = Inr (v, db') \<and>
     science_governance db' = Some g' \<and> require_science_payouts_enabled g' = Inr ()"
proof -
  let ?S = default_settings
  obtain db0 :: db_governance and g0 where r: "gov_reach ?S [0] db0" "science_governance db0 = Some g0"
    "g_authorized_signers g0 = st_science_reserve_authorized_signers ?S"
    "g_activation_available_at g0 = Some TIMELOCK" "g_approvals g0 = [''signer-1'', ''signer-2'']"
    using activated_reachable by blast
  obtain v db g where p: "pause_science_reserve ?S TIMELOCK None ''signer-1'' db0 = Inr (v, db)"
    "science_governance db = Some g" "g = g0\<lparr>g_status := SCIENCE_RESERVE_PAUSED_STATUS,
      g_emergency_paused := True, g_payouts_enabled := False, g_updated_at := TIMELOCK\<rparr>"
    using pause_succeeds [OF default_signers(1) gov_row_Some [OF r(2), symmetric] default_authorized(1) [OF r(3)],
        of TIMELOCK None] by (auto simp: op_time_def)
  have r': "gov_reach ?S [0] db"
    using gov_reach.step [OF r(1), of TIMELOCK None "Pause ''signer-1''" v db] p by (simp add: gov_apply_def)
  have "\<exists>v db' g'. execute_science_reserve_activation ?S TIMELOCK None db = Inr (v, db') \<and> gov_reach ?S [0] db' \<and>
      science_governance db' = Some g' \<and> require_science_payouts_enabled g' = Inr () \<and>
      g_approvals g' = g_approvals g"
    by (rule pause_undone_by_execute [OF r' p(2), where x = TIMELOCK]) (simp_all add: p(3) r(4,5) op_time_def)
  moreover have "g_emergency_paused g" by (simp add: p(3))
  ultimately show ?thesis using r' p(2) by blast
qed

end
