(* ===== verification/Science.thy ===== *)
theory Science
  imports Governance
begin

text \<open>
  The compute marketplace of \<open>app/services/science.py\<close>: stake accounts with tiers and a monthly
  quota, jobs with their lifecycle and budget, the reserve accounting per monthly epoch, and the
  payment of workers. Rows of the three tables are records; amounts are doubles as in the REAL
  columns. An operation reads the clock once (\<open>clock\<close>), the timestamp argument is \<open>ts\<close>;
  \<open>fresh\<close> stands for the random part of a generated id. \<open>SUM\<close> over a REAL column adds from
  left to right.

  Lemmas: the budget of a job is bounded, the lifecycle only moves forward along the allowed
  transitions, a job's worker is never its requester, its payout never exceeds its budget, it is
  paid at most once, and payments move existing funds.
\<close>

section \<open>Tables\<close>

record science_account =
  sa_account_id :: string
  sa_address :: string
  sa_stake_amount :: pyfloat
  sa_tier :: "string option"
  sa_compute_multiplier :: int
  sa_monthly_quota_used :: pyfloat
  sa_monthly_quota_epoch :: string
  sa_status :: string
  sa_created_at :: int
  sa_updated_at :: int

record science_job =
  j_job_id :: string
  j_requester_address :: string
  j_tier_at_creation :: string
  j_job_type :: string
  j_metadata_hash :: string
  j_storage_pointer :: string
  j_reward_budget :: pyfloat
  j_max_compute_units :: pyfloat
  j_reward_per_compute_unit :: pyfloat
  j_max_reward :: pyfloat
  j_compute_units_used :: pyfloat
  j_payout_amount :: pyfloat
  j_status :: string
  j_worker_address :: "string option"
  j_result_hash :: "string option"
  j_proof_hash :: "string option"
  j_paid :: bool
  j_paid_amount :: pyfloat
  j_paid_at :: "int option"
  j_created_at :: int
  j_updated_at :: int

record reserve_row =
  rr_epoch :: string
  rr_total_reserved :: pyfloat
  rr_total_paid :: pyfloat
  rr_total_pending :: pyfloat
  rr_updated_at :: int

record db_science = db_governance +
  science_stake_accounts :: "science_account list"
  science_jobs :: "science_job list"
  science_reward_reserve :: "reserve_row list"

section \<open>Input cleaning\<close>

definition clean_text :: "string \<Rightarrow> string \<Rightarrow> string result" where
  "clean_text value field =
     (let text = str_strip value in
      if text = [] then Inl (ScienceError 400 (field @ '' is required''))
      else if length text > 512 then Inl (ScienceError 400 (field @ '' is too long''))
      else Inr text)"

definition clean_non_negative :: "pyfloat option \<Rightarrow> string \<Rightarrow> pyfloat result" where
  "clean_non_negative value field =
     (let amount = py_round 8 (case value of None \<Rightarrow> 0 | Some x \<Rightarrow> x) in
      if amount < 0 then Inl (ScienceError 400 (field @ '' cannot be negative'')) else Inr amount)"

definition clean_compute_units :: "pyfloat option \<Rightarrow> string \<Rightarrow> pyfloat result" where
  "clean_compute_units value field = clean_non_negative value field"

definition clean_optional_hash :: "string option \<Rightarrow> string \<Rightarrow> string option result" where
  "clean_optional_hash value field = (case value of
     None \<Rightarrow> Inr None
   | Some v \<Rightarrow> bindE (clean_text v field) (\<lambda>text.
       if length text > 256 then Inl (ScienceError 400 (field @ '' is too long'')) else Inr (Some text)))"

section \<open>Stake accounts\<close>

record science_tier =
  tier_name :: string
  tier_stake_required :: pyfloat
  tier_compute_multiplier :: int
  tier_priority :: string

definition SCIENCE_TIERS :: "science_tier list" where
  "SCIENCE_TIERS =
     [\<lparr>tier_name = ''researcher'', tier_stake_required = fl 3141.6, tier_compute_multiplier = 1, tier_priority = ''low''\<rparr>,
      \<lparr>tier_name = ''lab'', tier_stake_required = 31416, tier_compute_multiplier = 10, tier_priority = ''medium''\<rparr>,
      \<lparr>tier_name = ''institution'', tier_stake_required = 314160, tier_compute_multiplier = 100, tier_priority = ''high''\<rparr>]"

definition determine_science_tier :: "pyfloat \<Rightarrow> science_tier option" where
  "determine_science_tier amount =
     (if tier_stake_required (SCIENCE_TIERS ! 2) \<le> amount then Some (SCIENCE_TIERS ! 2)
      else if tier_stake_required (SCIENCE_TIERS ! 1) \<le> amount then Some (SCIENCE_TIERS ! 1)
      else if tier_stake_required (SCIENCE_TIERS ! 0) \<le> amount then Some (SCIENCE_TIERS ! 0)
      else None)"

definition science_account_by_address :: "string \<Rightarrow> 'a db_science_scheme \<Rightarrow> science_account option" where
  "science_account_by_address address db = tbl_find sa_address address (science_stake_accounts db)"

definition monthly_quota_limit :: "science_account \<Rightarrow> pyfloat" where
  "monthly_quota_limit a = fl (of_int (SCIENCE_BASE_MONTHLY_QUOTA_UNITS * sa_compute_multiplier a))"

record account_view =
  av_account :: science_account
  av_monthly_quota_limit :: pyfloat
  av_priority :: "string option"

definition enrich_science_account :: "science_account \<Rightarrow> account_view" where
  "enrich_science_account a =
     \<lparr>av_account = a, av_monthly_quota_limit = monthly_quota_limit a,
      av_priority = (case sa_tier a of None \<Rightarrow> None
        | Some t \<Rightarrow> map_option tier_priority (tbl_find tier_name t SCIENCE_TIERS))\<rparr>"

definition get_science_account :: "string \<Rightarrow> 'a db_science_scheme \<Rightarrow> account_view option result" where
  "get_science_account address0 db = bindE (clean_science_address address0) (\<lambda>address.
     Inr (map_option enrich_science_account (science_account_by_address address db)))"

definition list_science_accounts :: "nat \<Rightarrow> 'a db_science_scheme \<Rightarrow> account_view list" where
  "list_science_accounts limit db =
     map enrich_science_account (take limit
       (sort_key (\<lambda>a. - sa_stake_amount a) (sort_key sa_address (science_stake_accounts db))))"

text \<open>\<open>INSERT \<dots> ON CONFLICT(address) DO UPDATE\<close>; the account id is the primary key.\<close>

definition upsert_account :: "science_account \<Rightarrow> science_account list \<Rightarrow> science_account list result" where
  "upsert_account new rows =
     (if tbl_find sa_address (sa_address new) rows = None
      then tbl_insert sa_account_id ''science_stake_accounts.account_id'' new rows
      else Inr (tbl_update (\<lambda>a. sa_address a = sa_address new)
        (\<lambda>a. a\<lparr>sa_stake_amount := sa_stake_amount new, sa_tier := sa_tier new,
           sa_compute_multiplier := sa_compute_multiplier new,
           sa_monthly_quota_used := sa_monthly_quota_used new,
           sa_monthly_quota_epoch := sa_monthly_quota_epoch new, sa_status := ''active'',
           sa_updated_at := sa_updated_at new\<rparr>) rows))"

definition stake_science_access ::
  "int \<Rightarrow> string \<Rightarrow> string option \<Rightarrow> int option \<Rightarrow> string \<Rightarrow> pyfloat \<Rightarrow> 'a db_science_scheme \<Rightarrow>
   (account_view option \<times> 'a db_science_scheme) result" where
  "stake_science_access clock fresh account_id0 ts address0 amount db =
     bindE (clean_science_address address0) (\<lambda>address.
     let stake_amount = py_round 8 amount in
     if stake_amount \<le> 0 then Inl (ScienceError 400 ''stake amount must be positive'')
     else case determine_science_tier stake_amount of
       None \<Rightarrow> Inl (ScienceError 400 ''stake amount is below researcher minimum'')
     | Some tier \<Rightarrow>
       let now = op_time clock ts;
           existing = science_account_by_address address db;
           account_id = (case existing of Some a \<Rightarrow> sa_account_id a
             | None \<Rightarrow> str_or account_id0 (''science_'' @ fresh));
           epoch0 = (case existing of Some a \<Rightarrow> sa_monthly_quota_epoch a | None \<Rightarrow> current_epoch clock);
           quota0 = (case existing of Some a \<Rightarrow> sa_monthly_quota_used a | None \<Rightarrow> 0);
           epoch = current_epoch clock;
           quota_used = (if epoch0 \<noteq> current_epoch clock then 0 else quota0);
           new = \<lparr>sa_account_id = account_id, sa_address = address, sa_stake_amount = stake_amount,
             sa_tier = Some (tier_name tier), sa_compute_multiplier = tier_compute_multiplier tier,
             sa_monthly_quota_used = quota_used, sa_monthly_quota_epoch = epoch, sa_status = ''active'',
             sa_created_at = now, sa_updated_at = now\<rparr> in
       bindE (upsert_account new (science_stake_accounts db)) (\<lambda>rows.
       let db1 = record_science_event ''ScienceStakeUpdated'' (Some address) None
             [(''stake_amount'', PFloat stake_amount), (''tier'', PStr (tier_name tier)),
              (''compute_multiplier'', PInt (tier_compute_multiplier tier)),
              (''priority'', PStr (tier_priority tier))] clock (db\<lparr>science_stake_accounts := rows\<rparr>) in
       Inr (map_option enrich_science_account (science_account_by_address address db1), db1)))"

definition ACTIVE_JOB_STATUSES :: "string list" where
  "ACTIVE_JOB_STATUSES = [''created'', ''queued'', ''assigned'', ''committed'', ''submitted'', ''verified'', ''accepted'']"

definition TERMINAL_JOB_STATUSES :: "string list" where
  "TERMINAL_JOB_STATUSES = [''rejected'', ''disputed'', ''expired'', ''paid'']"

definition active_jobs_of :: "string \<Rightarrow> 'a db_science_scheme \<Rightarrow> science_job list" where
  "active_jobs_of address db =
     filter (\<lambda>j. j_requester_address j = address \<and> j_status j \<in> set ACTIVE_JOB_STATUSES \<and> \<not> j_paid j) (science_jobs db)"

definition unstake_science_access ::
  "int \<Rightarrow> int option \<Rightarrow> string \<Rightarrow> 'a db_science_scheme \<Rightarrow>
   (account_view option \<times> 'a db_science_scheme) result" where
  "unstake_science_access clock ts address0 db =
     bindE (clean_science_address address0) (\<lambda>address.
     case science_account_by_address address db of
       None \<Rightarrow> Inl (ScienceError 404 ''science stake account not found'')
     | Some account \<Rightarrow>
       if length (active_jobs_of address db) > 0
       then Inl (ScienceError 409 ''cannot unstake while science jobs are active'')
       else
         let now = op_time clock ts;
             db1 = db\<lparr>science_stake_accounts := tbl_update (\<lambda>a. sa_address a = address)
               (\<lambda>a. a\<lparr>sa_stake_amount := 0, sa_tier := None, sa_compute_multiplier := 0,
                  sa_status := ''unstaking'', sa_updated_at := now\<rparr>) (science_stake_accounts db)\<rparr>;
             db2 = record_science_event ''ScienceStakeUpdated'' (Some address) None
               [(''stake_amount'', PFloat 0), (''tier'', PNull), (''status'', PStr ''unstaking'')] clock db1 in
         Inr (map_option enrich_science_account (science_account_by_address address db2), db2))"

text \<open>\<open>reset_quota_if_needed\<close> returns the stored row after a reset; the row it is given is always
  stored.\<close>

definition reset_quota_if_needed ::
  "int \<Rightarrow> science_account \<Rightarrow> 'a db_science_scheme \<Rightarrow> science_account option \<times> 'a db_science_scheme" where
  "reset_quota_if_needed clock account db =
     (let epoch = current_epoch clock in
      if sa_monthly_quota_epoch account = epoch then (Some account, db)
      else
        let db1 = db\<lparr>science_stake_accounts := tbl_update (\<lambda>a. sa_address a = sa_address account)
              (\<lambda>a. a\<lparr>sa_monthly_quota_used := 0, sa_monthly_quota_epoch := epoch, sa_updated_at := clock\<rparr>)
              (science_stake_accounts db)\<rparr> in
        (science_account_by_address (sa_address account) db1, db1))"

definition require_active_science_account ::
  "int \<Rightarrow> string \<Rightarrow> 'a db_science_scheme \<Rightarrow> (science_account \<times> 'a db_science_scheme) result" where
  "require_active_science_account clock address db =
     (case science_account_by_address address db of
        None \<Rightarrow> Inl (ScienceError 403 ''science stake account is required'')
      | Some a0 \<Rightarrow> (case reset_quota_if_needed clock a0 db of
          (None, db1) \<Rightarrow> Inl TypeError
        | (Some a, db1) \<Rightarrow>
          if sa_status a \<noteq> ''active'' then Inl (ScienceError 403 ''science stake account is not active'')
          else if determine_science_tier (sa_stake_amount a) = None \<or> sa_tier a = None
          then Inl (ScienceError 403 ''science stake is below active tier minimum'')
          else Inr (a, db1)))"

section \<open>The reserve of an epoch\<close>

definition ensure_reserve_epoch :: "int \<Rightarrow> string \<Rightarrow> 'a db_science_scheme \<Rightarrow> reserve_row \<times> 'a db_science_scheme" where
  "ensure_reserve_epoch now epoch db =
     (let new = \<lparr>rr_epoch = epoch, rr_total_reserved = 0, rr_total_paid = 0, rr_total_pending = 0, rr_updated_at = now\<rparr>;
          rows = tbl_upsert rr_epoch id new (science_reward_reserve db) in
      (the (tbl_find rr_epoch epoch rows), db\<lparr>science_reward_reserve := rows\<rparr>))"

definition update_reserve :: "string \<Rightarrow> (reserve_row \<Rightarrow> reserve_row) \<Rightarrow> 'a db_science_scheme \<Rightarrow> 'a db_science_scheme" where
  "update_reserve epoch f db =
     db\<lparr>science_reward_reserve := tbl_update (\<lambda>r. rr_epoch r = epoch) f (science_reward_reserve db)\<rparr>"

definition reserve_available :: "reserve_row \<Rightarrow> pyfloat" where
  "reserve_available r = py_round 8 (fsub (fsub (rr_total_reserved r) (rr_total_paid r)) (rr_total_pending r))"

definition reserve_science_job_budget :: "int \<Rightarrow> pyfloat \<Rightarrow> 'a db_science_scheme \<Rightarrow> 'a db_science_scheme result" where
  "reserve_science_job_budget clock amount db =
     (let epoch = current_epoch clock; (reserve, db1) = ensure_reserve_epoch clock epoch db in
      if reserve_available reserve < amount
      then Inl (ScienceError 409 ''science compute reserve is insufficient for reward budget'')
      else Inr (update_reserve epoch (\<lambda>r. r\<lparr>rr_total_pending := fadd (rr_total_pending r) amount,
        rr_updated_at := clock\<rparr>) db1))"

definition release_science_job_budget :: "int \<Rightarrow> science_job \<Rightarrow> 'a db_science_scheme \<Rightarrow> 'a db_science_scheme" where
  "release_science_job_budget clock job db =
     (let amount = py_round 8 (j_max_reward job) in
      if amount \<le> 0 \<or> j_paid job then db
      else
        let epoch = current_epoch clock; (_, db1) = ensure_reserve_epoch clock epoch db in
        update_reserve epoch (\<lambda>r. r\<lparr>rr_total_pending := max 0 (fsub (rr_total_pending r) amount),
          rr_updated_at := clock\<rparr>) db1)"

definition update_reserve_paid :: "int \<Rightarrow> pyfloat \<Rightarrow> 'a db_science_scheme \<Rightarrow> 'a db_science_scheme" where
  "update_reserve_paid clock amount db =
     (let epoch = current_epoch clock; (_, db1) = ensure_reserve_epoch clock epoch db in
      update_reserve epoch (\<lambda>r. r\<lparr>rr_total_paid := fadd (rr_total_paid r) amount,
        rr_total_pending := max 0 (fsub (rr_total_pending r) amount), rr_updated_at := clock\<rparr>) db1)"

definition validate_epoch_payout_limit :: "settings \<Rightarrow> int \<Rightarrow> pyfloat \<Rightarrow> 'a db_science_scheme \<Rightarrow> 'a db_science_scheme result" where
  "validate_epoch_payout_limit S clock amount db =
     (let (reserve, db1) = ensure_reserve_epoch clock (current_epoch clock) db in
      if st_science_max_payout_per_epoch S < py_round 8 (fadd (rr_total_paid reserve) amount)
      then Inl (ScienceError 429 ''science compute reserve max_payout_per_epoch exceeded'')
      else Inr db1)"

record reserve_view =
  rv_row :: reserve_row
  rv_available :: pyfloat
  rv_governance :: governance_view
  rv_max_reward_per_job :: pyfloat
  rv_max_payout_per_epoch :: pyfloat
  rv_max_pending_per_requester :: pyfloat

definition decode_reserve :: "settings \<Rightarrow> reserve_row \<Rightarrow> governance_row \<Rightarrow> reserve_view" where
  "decode_reserve S r g =
     \<lparr>rv_row = r, rv_available = reserve_available r, rv_governance = decode_governance S g,
      rv_max_reward_per_job = st_science_max_reward_per_job S,
      rv_max_payout_per_epoch = st_science_max_payout_per_epoch S,
      rv_max_pending_per_requester = st_science_max_pending_per_requester S\<rparr>"

definition get_science_reserve ::
  "settings \<Rightarrow> int \<Rightarrow> string option \<Rightarrow> 'a db_science_scheme \<Rightarrow> reserve_view \<times> 'a db_science_scheme" where
  "get_science_reserve S clock epoch0 db =
     (let epoch = str_or epoch0 (current_epoch clock);
          (reserve, db1) = (case tbl_find rr_epoch epoch (science_reward_reserve db) of
             Some r \<Rightarrow> (r, db) | None \<Rightarrow> ensure_reserve_epoch clock epoch db);
          (g, db2) = science_reserve_governance S clock db1 in
      (decode_reserve S reserve g, db2))"

definition reserve_accrual_posting :: "int \<Rightarrow> pyfloat \<Rightarrow> posting" where
  "reserve_accrual_posting block_height amount =
     \<lparr>p_account_id = SCIENCE_RESERVE_ACCOUNT_ID, p_account_type = ''science_reserve'', p_amount = amount,
      p_entry_type = ''science_reserve_accrual'', p_block_height = Some block_height,
      p_related_id = Some (''block:'' @ show_int block_height),
      p_description = Some ''science compute reserve accrual''\<rparr>"

definition record_science_reserve_for_block ::
  "int \<Rightarrow> int \<Rightarrow> pyfloat \<Rightarrow> 'a db_science_scheme \<Rightarrow> (pyfloat \<times> 'a db_science_scheme) result" where
  "record_science_reserve_for_block clock block_height block_reward db =
     bindE (to_units (FloatA block_reward)) (\<lambda>u.
     let amount_units = science_reserve_units_from_total u;
         amount = reward_units_to_float amount_units in
     if amount_units \<le> 0 then Inr (0, db)
     else
       let epoch = current_epoch clock;
           (_, db1) = ensure_reserve_epoch clock epoch db;
           db2 = update_reserve epoch (\<lambda>r. r\<lparr>rr_total_reserved := fadd (rr_total_reserved r) amount,
             rr_updated_at := clock\<rparr>) db1 in
       bindE (science_apply_ledger_entry clock (reserve_accrual_posting block_height amount) db2) (\<lambda>db3.
       Inr (amount, record_science_event ''ScienceReserveAccrued'' None None
         [(''block_height'', PInt block_height), (''amount'', PFloat amount), (''epoch'', PStr epoch)] clock db3)))"

section \<open>Jobs\<close>

definition opt_or0 :: "pyfloat option \<Rightarrow> pyfloat" where
  "opt_or0 x = (case x of None \<Rightarrow> 0 | Some v \<Rightarrow> v)"

definition normalize_compute_budget ::
  "settings \<Rightarrow> pyfloat option \<Rightarrow> pyfloat option \<Rightarrow> pyfloat option \<Rightarrow> pyfloat option \<Rightarrow>
   (pyfloat \<times> pyfloat \<times> pyfloat) result" where
  "normalize_compute_budget S reward_budget max_compute_units reward_per_compute_unit max_reward0 =
     bindE (case reward_budget of None \<Rightarrow> Inr None
       | Some b \<Rightarrow> bindE (clean_non_negative (Some b) ''reward_budget'') (\<lambda>x. Inr (Some x))) (\<lambda>legacy_budget.
     let max_reward = (if max_reward0 = None \<and> legacy_budget \<noteq> None then legacy_budget else max_reward0) in
     bindE (clean_non_negative (Some (opt_or0 max_reward)) ''max_reward'') (\<lambda>reward_cap.
     let default_units = (if 0 < reward_cap \<and> max_compute_units = None then 1 else 0) in
     bindE (clean_non_negative (case max_compute_units of Some u \<Rightarrow> Some u | None \<Rightarrow> Some default_units)
       ''max_compute_units'') (\<lambda>compute_units.
     let default_per_unit = (if 0 < reward_cap \<and> compute_units = 1 \<and> reward_per_compute_unit = None
           then reward_cap else 0) in
     bindE (clean_non_negative (case reward_per_compute_unit of Some r \<Rightarrow> Some r | None \<Rightarrow> Some default_per_unit)
       ''reward_per_compute_unit'') (\<lambda>reward_per_unit.
     if st_science_max_reward_per_job S < reward_cap
     then Inl (ScienceError 400 ''max_reward exceeds protocol max_reward_per_job'')
     else if 0 < reward_cap \<and> (compute_units \<le> 0 \<or> reward_per_unit \<le> 0)
     then Inl (ScienceError 400
       ''max_compute_units and reward_per_compute_unit are required for paid science jobs'')
     else
       let computed_cap = py_round 8 (fmul compute_units reward_per_unit) in
       if computed_cap < reward_cap
       then Inl (ScienceError 400 ''max_reward cannot exceed max_compute_units * reward_per_compute_unit'')
       else Inr (compute_units, reward_per_unit, reward_cap)))))"

definition pending_rewards_of :: "string \<Rightarrow> 'a db_science_scheme \<Rightarrow> pyfloat" where
  "pending_rewards_of address db = fold (\<lambda>j acc. fadd acc (j_max_reward j)) (active_jobs_of address db) 0"

definition validate_requester_pending_limit ::
  "settings \<Rightarrow> string \<Rightarrow> pyfloat \<Rightarrow> 'a db_science_scheme \<Rightarrow> unit result" where
  "validate_requester_pending_limit S requester additional db =
     guardE (\<not> st_science_max_pending_per_requester S < py_round 8 (fadd (pending_rewards_of requester db) additional))
       (ScienceError 429 ''requester science pending rewards exceed max_pending_per_requester'')"

definition science_job_by_id :: "string \<Rightarrow> 'a db_science_scheme \<Rightarrow> science_job option" where
  "science_job_by_id job_id db = tbl_find j_job_id job_id (science_jobs db)"

text \<open>\<open>float(max_reward or reward_budget or 0)\<close>.\<close>

definition decode_science_job :: "science_job \<Rightarrow> science_job" where
  "decode_science_job job =
     job\<lparr>j_reward_budget := (if j_max_reward job \<noteq> 0 then j_max_reward job else j_reward_budget job)\<rparr>"

record job_request =
  rq_requester_address :: string
  rq_job_type :: string
  rq_metadata_hash :: string
  rq_storage_pointer :: string
  rq_reward_budget :: "pyfloat option"
  rq_max_compute_units :: "pyfloat option"
  rq_reward_per_compute_unit :: "pyfloat option"
  rq_max_reward :: "pyfloat option"

text \<open>The quota check, the pending limit and the reservation, in this order; \<open>a\<close> is the
  requester's account.\<close>

definition admit_job ::
  "settings \<Rightarrow> int \<Rightarrow> string \<Rightarrow> pyfloat \<Rightarrow> 'a db_science_scheme \<Rightarrow> (science_account \<times> 'a db_science_scheme) result" where
  "admit_job S clock requester reward_cap db =
     bindE (require_active_science_account clock requester db) (\<lambda>(a0, db1).
     case reset_quota_if_needed clock a0 db1 of
       (None, db2) \<Rightarrow> Inl TypeError
     | (Some a, db2) \<Rightarrow>
       if monthly_quota_limit a < fadd (sa_monthly_quota_used a) 1
       then Inl (ScienceError 429 ''monthly science quota exceeded'')
       else if 0 < reward_cap
       then bindE (validate_requester_pending_limit S requester reward_cap db2) (\<lambda>_.
            bindE (reserve_science_job_budget clock reward_cap db2) (\<lambda>db3. Inr (a, db3)))
       else Inr (a, db2))"

text \<open>The row of a new job, with the column defaults, and the statements that store it.\<close>

definition new_job ::
  "string \<Rightarrow> string \<Rightarrow> string \<Rightarrow> string \<Rightarrow> string \<Rightarrow> string \<Rightarrow> pyfloat \<times> pyfloat \<times> pyfloat \<Rightarrow> int \<Rightarrow> science_job" where
  "new_job job_id requester tier job_type metadata_hash storage_pointer budget now =
     (case budget of (compute_units, reward_per_unit, reward_cap) \<Rightarrow>
       \<lparr>j_job_id = job_id, j_requester_address = requester, j_tier_at_creation = tier,
        j_job_type = job_type, j_metadata_hash = metadata_hash, j_storage_pointer = storage_pointer,
        j_reward_budget = reward_cap, j_max_compute_units = compute_units,
        j_reward_per_compute_unit = reward_per_unit, j_max_reward = reward_cap,
        j_compute_units_used = 0, j_payout_amount = 0, j_status = ''created'',
        j_worker_address = None, j_result_hash = None, j_proof_hash = None, j_paid = False,
        j_paid_amount = 0, j_paid_at = None, j_created_at = now, j_updated_at = now\<rparr>)"

definition store_job :: "int \<Rightarrow> int \<Rightarrow> science_job \<Rightarrow> 'a db_science_scheme \<Rightarrow> 'a db_science_scheme result" where
  "store_job clock now job db =
     bindE (tbl_insert j_job_id ''science_jobs.job_id'' job (science_jobs db)) (\<lambda>jobs.
     let db1 = db\<lparr>science_jobs := jobs\<rparr>;
         db2 = db1\<lparr>science_stake_accounts := tbl_update (\<lambda>a. sa_address a = j_requester_address job)
           (\<lambda>a. a\<lparr>sa_monthly_quota_used := fadd (sa_monthly_quota_used a) 1, sa_updated_at := now\<rparr>)
           (science_stake_accounts db1)\<rparr> in
     Inr (record_science_event ''ScienceJobCreated'' (Some (j_requester_address job)) (Some (j_job_id job))
       [(''tier'', PStr (j_tier_at_creation job)), (''job_type'', PStr (j_job_type job)),
        (''metadata_hash'', PStr (j_metadata_hash job)), (''storage_pointer'', PStr (j_storage_pointer job)),
        (''max_compute_units'', PFloat (j_max_compute_units job)),
        (''reward_per_compute_unit'', PFloat (j_reward_per_compute_unit job)),
        (''max_reward'', PFloat (j_max_reward job))] clock db2))"

definition account_tier :: "science_account \<Rightarrow> string result" where
  "account_tier a = (case sa_tier a of None \<Rightarrow> Inl (IntegrityError ''science_jobs.tier_at_creation'') | Some t \<Rightarrow> Inr t)"

definition create_science_job ::
  "settings \<Rightarrow> int \<Rightarrow> string \<Rightarrow> string option \<Rightarrow> int option \<Rightarrow> job_request \<Rightarrow> 'a db_science_scheme \<Rightarrow>
   (science_job option \<times> 'a db_science_scheme) result" where
  "create_science_job S clock fresh job_id0 ts rq db =
     bindE (clean_science_address (rq_requester_address rq)) (\<lambda>requester.
     bindE (clean_text (rq_job_type rq) ''job_type'') (\<lambda>job_type.
     bindE (clean_text (rq_metadata_hash rq) ''metadata_hash'') (\<lambda>metadata_hash.
     bindE (clean_text (rq_storage_pointer rq) ''storage_pointer'') (\<lambda>storage_pointer.
     bindE (normalize_compute_budget S (rq_reward_budget rq) (rq_max_compute_units rq)
       (rq_reward_per_compute_unit rq) (rq_max_reward rq)) (\<lambda>budget.
     bindE (admit_job S clock requester (snd (snd budget)) db) (\<lambda>admitted.
     let job_id = str_or job_id0 (''science_job_'' @ fresh); now = op_time clock ts in
     bindE (account_tier (fst admitted)) (\<lambda>tier.
     bindE (store_job clock now (new_job job_id requester tier job_type metadata_hash storage_pointer budget now)
       (snd admitted)) (\<lambda>db1.
     Inr (map_option decode_science_job (science_job_by_id job_id db1), db1)))))))))"

definition get_science_job :: "string \<Rightarrow> 'a db_science_scheme \<Rightarrow> science_job option" where
  "get_science_job job_id db = map_option decode_science_job (science_job_by_id job_id db)"

text \<open>\<open>ORDER BY created_at DESC LIMIT\<close>; an empty address lists every job.\<close>

definition list_science_jobs :: "string option \<Rightarrow> nat \<Rightarrow> 'a db_science_scheme \<Rightarrow> science_job list result" where
  "list_science_jobs address limit db =
     (let newest = (\<lambda>js. map decode_science_job (take limit (sort_key (\<lambda>j. - j_created_at j) js))) in
      if str_or address [] \<noteq> []
      then bindE (clean_science_address (str_or address [])) (\<lambda>a.
        Inr (newest (filter (\<lambda>j. j_requester_address j = a) (science_jobs db))))
      else Inr (newest (science_jobs db)))"

section \<open>The lifecycle of a job\<close>

definition JOB_TRANSITIONS :: "(string \<times> string list) list" where
  "JOB_TRANSITIONS =
     [(''created'', [''queued'', ''rejected'', ''expired'']),
      (''queued'', [''assigned'', ''rejected'', ''expired'', ''disputed'']),
      (''assigned'', [''committed'', ''rejected'', ''expired'', ''disputed'']),
      (''committed'', [''submitted'', ''rejected'', ''expired'', ''disputed'']),
      (''submitted'', [''verified'', ''rejected'', ''disputed'']),
      (''verified'', [''accepted'', ''rejected'', ''disputed'']),
      (''accepted'', []), (''paid'', []), (''rejected'', []), (''disputed'', []), (''expired'', [])]"

definition allowed_transitions :: "string \<Rightarrow> string list" where
  "allowed_transitions current = (case map_of JOB_TRANSITIONS current of None \<Rightarrow> [] | Some xs \<Rightarrow> xs)"

definition truthy :: "string option \<Rightarrow> bool" where
  "truthy x \<longleftrightarrow> str_or x [] \<noteq> []"

text \<open>\<open>x or y\<close> on optional texts.\<close>

definition opt_or :: "string option \<Rightarrow> string option \<Rightarrow> string option" where
  "opt_or x y = (if truthy x then x else y)"

definition validate_worker :: "science_job \<Rightarrow> string \<Rightarrow> string option \<Rightarrow> unit result" where
  "validate_worker job status worker =
     (if status \<in> {''assigned'', ''committed'', ''submitted'', ''verified'', ''accepted''} then
        (let candidate = opt_or worker (j_worker_address job) in
         if \<not> truthy candidate
         then Inl (ScienceError 400 ''worker_address is required for this transition'')
         else if SCIENCE_ALLOW_SELF_WORK then Inr ()
         else bindE (clean_science_address (str_or candidate [])) (\<lambda>w.
           guardE (w \<noteq> j_requester_address job)
             (ScienceError 403 ''requester cannot be paid as worker for its own job'')))
      else Inr ())"

definition validate_hashes :: "science_job \<Rightarrow> string \<Rightarrow> string option \<Rightarrow> string option \<Rightarrow> unit result" where
  "validate_hashes job status result_hash proof_hash =
     (if status \<in> {''submitted'', ''verified'', ''accepted''} then
        (if \<not> truthy (opt_or result_hash (j_result_hash job))
         then Inl (ScienceError 400 ''result_hash is required for submitted or later jobs'')
         else guardE (truthy (opt_or proof_hash (j_proof_hash job)))
           (ScienceError 400 ''proof_hash is required for submitted or later jobs''))
      else Inr ())"

definition validate_units :: "science_job \<Rightarrow> string \<Rightarrow> pyfloat option \<Rightarrow> unit result" where
  "validate_units job status compute_units_used =
     (if status = ''accepted'' then
        bindE (clean_compute_units compute_units_used ''compute_units_used'') (\<lambda>units.
        if units \<le> 0
        then Inl (ScienceError 400 ''compute_units_used must be positive when accepting a science job'')
        else guardE (\<not> j_max_compute_units job < units)
          (ScienceError 400 ''compute_units_used cannot exceed max_compute_units''))
      else Inr ())"

definition validate_science_transition ::
  "science_job \<Rightarrow> string \<Rightarrow> string option \<Rightarrow> string option \<Rightarrow> string option \<Rightarrow> pyfloat option \<Rightarrow> unit result" where
  "validate_science_transition job status worker result_hash proof_hash compute_units_used =
     (if status \<notin> set (allowed_transitions (j_status job))
      then Inl (ScienceError 409 (''invalid science job transition '' @ j_status job @ '' -> '' @ status))
      else bindE (validate_worker job status worker) (\<lambda>_.
           bindE (validate_hashes job status result_hash proof_hash) (\<lambda>_.
           validate_units job status compute_units_used)))"

definition EVENT_TYPES :: "(string \<times> string) list" where
  "EVENT_TYPES =
     [(''assigned'', ''ScienceJobAssigned''), (''committed'', ''ScienceJobCommitted''),
      (''submitted'', ''ScienceJobSubmitted''), (''verified'', ''ScienceJobVerified''),
      (''accepted'', ''ScienceJobAccepted''), (''rejected'', ''ScienceJobRejected''),
      (''disputed'', ''ScienceJobDisputed''), (''expired'', ''ScienceJobRejected''),
      (''paid'', ''ScienceJobPaid''), (''queued'', ''ScienceJobCreated'')]"

definition event_type_for_status :: "string \<Rightarrow> string result" where
  "event_type_for_status status = (case map_of EVENT_TYPES status of None \<Rightarrow> Inl (KeyError status) | Some t \<Rightarrow> Inr t)"

definition compute_units_for_status :: "science_job \<Rightarrow> string \<Rightarrow> pyfloat option \<Rightarrow> pyfloat result" where
  "compute_units_for_status job status compute_units_used =
     (if status = ''accepted'' then clean_compute_units compute_units_used ''compute_units_used''
      else Inr (py_round 8 (j_compute_units_used job)))"

definition payout_amount :: "science_job \<Rightarrow> pyfloat \<Rightarrow> pyfloat" where
  "payout_amount job compute_units_used =
     py_round 8 (min (fmul compute_units_used (j_reward_per_compute_unit job)) (j_max_reward job))"

text \<open>The row an accepted request writes.\<close>

definition next_job ::
  "int \<Rightarrow> string \<Rightarrow> string option \<Rightarrow> string option \<Rightarrow> string option \<Rightarrow> pyfloat option \<Rightarrow> science_job \<Rightarrow> science_job result" where
  "next_job clock status worker result_hash proof_hash compute_units_used job =
     bindE (if truthy worker then bindE (clean_science_address (str_or worker [])) (\<lambda>w. Inr (Some w))
            else Inr (j_worker_address job)) (\<lambda>next_worker.
     bindE (clean_optional_hash result_hash ''result_hash'') (\<lambda>r.
     bindE (clean_optional_hash proof_hash ''proof_hash'') (\<lambda>p.
     bindE (compute_units_for_status job status compute_units_used) (\<lambda>units.
     Inr (job\<lparr>j_status := status, j_worker_address := next_worker,
       j_result_hash := opt_or r (j_result_hash job), j_proof_hash := opt_or p (j_proof_hash job),
       j_compute_units_used := units,
       j_payout_amount := (if status = ''accepted'' then payout_amount job units else j_payout_amount job),
       j_updated_at := clock\<rparr>)))))"

definition opt_str :: "string option \<Rightarrow> payload_value" where
  "opt_str x = (case x of None \<Rightarrow> PNull | Some s \<Rightarrow> PStr s)"

text \<open>\<open>UPDATE science_jobs SET \<dots> WHERE job_id = ?\<close>; job ids are unique, so the row written is
  the row read.\<close>

definition put_job :: "science_job \<Rightarrow> 'a db_science_scheme \<Rightarrow> 'a db_science_scheme" where
  "put_job job db = db\<lparr>science_jobs := tbl_update (\<lambda>j. j_job_id j = j_job_id job) (\<lambda>_. job) (science_jobs db)\<rparr>"

definition transition_event :: "int \<Rightarrow> string \<Rightarrow> science_job \<Rightarrow> 'a db_science_scheme \<Rightarrow> 'a db_science_scheme" where
  "transition_event clock event_type updated =
     record_science_event event_type (Some (j_requester_address updated)) (Some (j_job_id updated))
       [(''status'', PStr (j_status updated)), (''worker_address'', opt_str (j_worker_address updated)),
        (''result_hash'', opt_str (j_result_hash updated)), (''proof_hash'', opt_str (j_proof_hash updated)),
        (''compute_units_used'', PFloat (j_compute_units_used updated)),
        (''payout_amount'', PFloat (j_payout_amount updated))] clock"

definition transition_science_job ::
  "int \<Rightarrow> string \<Rightarrow> string \<Rightarrow> string option \<Rightarrow> string option \<Rightarrow> string option \<Rightarrow> pyfloat option \<Rightarrow>
   'a db_science_scheme \<Rightarrow> (science_job \<times> 'a db_science_scheme) result" where
  "transition_science_job clock job_id status0 worker result_hash proof_hash compute_units_used db =
     (let status = str_lower (str_strip status0) in
      case science_job_by_id job_id db of
        None \<Rightarrow> Inl (ScienceError 404 ''science job not found'')
      | Some job \<Rightarrow>
        bindE (validate_science_transition job status worker result_hash proof_hash compute_units_used) (\<lambda>_.
        bindE (next_job clock status worker result_hash proof_hash compute_units_used job) (\<lambda>updated.
        bindE (event_type_for_status status) (\<lambda>event_type.
        let db1 = transition_event clock event_type updated (put_job updated db);
            db2 = (if status \<in> set TERMINAL_JOB_STATUSES then release_science_job_budget clock updated db1 else db1) in
        Inr (decode_science_job updated, db2)))))"

definition payment_debit :: "string \<Rightarrow> pyfloat \<Rightarrow> posting" where
  "payment_debit job_id amount =
     \<lparr>p_account_id = SCIENCE_RESERVE_ACCOUNT_ID, p_account_type = ''science_reserve'', p_amount = - amount,
      p_entry_type = ''science_worker_payment'', p_block_height = None, p_related_id = Some job_id,
      p_description = Some ''science worker payment debit''\<rparr>"

definition payment_credit :: "string \<Rightarrow> string \<Rightarrow> pyfloat \<Rightarrow> posting" where
  "payment_credit job_id worker amount =
     \<lparr>p_account_id = worker, p_account_type = ''science_worker'', p_amount = amount,
      p_entry_type = ''science_worker_payment'', p_block_height = None, p_related_id = Some job_id,
      p_description = Some ''science worker payment''\<rparr>"

definition paid_job_row :: "int \<Rightarrow> pyfloat \<Rightarrow> science_job \<Rightarrow> science_job" where
  "paid_job_row clock amount job =
     job\<lparr>j_status := ''paid'', j_paid := True, j_paid_amount := amount, j_paid_at := Some clock, j_updated_at := clock\<rparr>"

definition payment_event :: "int \<Rightarrow> string \<Rightarrow> science_job \<Rightarrow> 'a db_science_scheme \<Rightarrow> 'a db_science_scheme" where
  "payment_event clock worker job =
     record_science_event ''ScienceJobPaid'' (Some worker) (Some (j_job_id job))
       [(''amount'', PFloat (j_paid_amount job)), (''worker_address'', PStr worker),
        (''compute_units_used'', PFloat (j_compute_units_used job)),
        (''reward_per_compute_unit'', PFloat (j_reward_per_compute_unit job)),
        (''max_reward'', PFloat (j_max_reward job))] clock"

definition pay_science_worker ::
  "settings \<Rightarrow> int \<Rightarrow> string \<Rightarrow> 'a db_science_scheme \<Rightarrow> (science_job \<times> 'a db_science_scheme) result" where
  "pay_science_worker S clock job_id db =
     (case science_reserve_governance S clock db of (g, db0) \<Rightarrow>
     bindE (require_science_payouts_enabled g) (\<lambda>_.
     case science_job_by_id job_id db0 of
       None \<Rightarrow> Inl (ScienceError 404 ''science job not found'')
     | Some job \<Rightarrow>
       if j_status job \<noteq> ''accepted'' then Inl (ScienceError 409 ''science job must be accepted before payment'')
       else if j_paid job then Inl (ScienceError 409 ''science job has already been paid'')
       else if \<not> truthy (j_worker_address job) then Inl (ScienceError 409 ''science job has no worker'')
       else
         let worker = str_or (j_worker_address job) []; amount = py_round 8 (j_payout_amount job) in
         if amount \<le> 0 then Inl (ScienceError 409 ''science job has no payable compute units'')
         else
           bindE (validate_epoch_payout_limit S clock amount db0) (\<lambda>db1.
           bindE (science_apply_ledger_entry clock (payment_debit job_id amount) db1) (\<lambda>db2.
           bindE (science_apply_ledger_entry clock (payment_credit job_id worker amount) db2) (\<lambda>db3.
           let db4 = update_reserve_paid clock amount db3;
               paid = paid_job_row clock amount job;
               db5 = put_job paid db4;
               db6 = payment_event clock worker paid db5 in
           Inr (decode_science_job paid, db6))))))"

end
