(* ===== verification/ScienceProps.thy ===== *)
theory ScienceProps
  imports Science
begin

text \<open>
  Correctness of the science marketplace: the invariant of its tables over every state the
  operations reach, the lifecycle of jobs, and payments.
\<close>

section \<open>Rounding\<close>

text \<open>Rounding to eight digits is idempotent on amounts below ten million.\<close>

lemma round_half_even_near:
  assumes "\<bar>x - of_int i\<bar> < 1 / 2"
  shows "round_half_even x = i"
proof -
  have "\<bar>of_int (round_half_even x) - x\<bar> \<le> 1 / 2" by (rule round_half_even_err)
  then have "\<bar>of_int (round_half_even x - i) :: rat\<bar> < 1" using assms unfolding of_int_diff by linarith
  then show ?thesis by linarith
qed

lemma py_round_idem:
  assumes "\<bar>x\<bar> \<le> 10 ^ 7"
  shows "py_round 8 (py_round 8 x) = py_round 8 x"
proof -
  define k where "k = round_half_even (x * 10 ^ 8)"
  define q :: rat where "q = of_int k / 100000000"
  have y: "py_round 8 x = fl q" by (simp add: py_round_def q_def k_def)
  have "\<bar>of_int k - x * 100000000\<bar> \<le> 1 / 2" using round_half_even_err [of "x * 10 ^ 8"] by (simp add: k_def)
  then have "of_int k - x * 100000000 \<le> 1 / 2" "x * 100000000 - of_int k \<le> 1 / 2" by linarith+
  moreover have "x \<le> 10000000" "- 10000000 \<le> x" using assms by simp_all
  ultimately have "(of_int k :: rat) \<le> 1000000000000001" "- 1000000000000001 \<le> (of_int k :: rat)" by linarith+
  then have k: "\<bar>of_int k :: rat\<bar> \<le> 1000000000000001" by linarith
  have "\<bar>fl q - q\<bar> \<le> \<bar>q\<bar> / 9007199254740992" by (rule fl_err_num)
  then have "\<bar>fl q * 100000000 - of_int k\<bar> \<le> \<bar>of_int k\<bar> / 9007199254740992"
    by (simp add: q_def abs_le_iff field_simps)
  also have "\<dots> < 1 / 2" using k by simp
  finally have "round_half_even (fl q * 10 ^ 8) = k" by (intro round_half_even_near) simp
  then have "py_round 8 (fl q) = fl (of_int k / 10 ^ 8)" by (simp add: py_round_def)
  then show ?thesis by (simp add: y q_def)
qed

lemma fmul_nonneg: "0 \<le> x \<Longrightarrow> 0 \<le> y \<Longrightarrow> 0 \<le> fmul x y"
  by (simp add: fmul_def fl_nonneg)

lemma clean_non_negative_Inr:
  "clean_non_negative v f = Inr x \<longleftrightarrow> x = py_round 8 (opt_or0 v) \<and> 0 \<le> x"
  by (auto simp: clean_non_negative_def opt_or0_def Let_def)

section \<open>The budget of a job\<close>

lemma normalize_compute_budget_bounds:
  assumes "normalize_compute_budget S rb mu rp mr = Inr (units, per_unit, cap)"
  shows "0 \<le> units" "0 \<le> per_unit" "0 \<le> cap" "cap \<le> st_science_max_reward_per_job S"
    and "cap \<le> py_round 8 (fmul units per_unit)" and "0 < cap \<Longrightarrow> 0 < units \<and> 0 < per_unit"
    and "\<exists>x. cap = py_round 8 x"
  using assms by (auto simp: normalize_compute_budget_def Let_def clean_non_negative_Inr split: if_splits)

section \<open>The invariant\<close>

definition WORKER_STATUSES :: "string list" where
  "WORKER_STATUSES = [''assigned'', ''committed'', ''submitted'', ''verified'', ''accepted'', ''paid'']"

text \<open>What every stored job satisfies.\<close>

definition job_ok :: "settings \<Rightarrow> science_job \<Rightarrow> bool" where
  "job_ok S j \<longleftrightarrow>
     j_status j \<in> set ACTIVE_JOB_STATUSES \<union> set TERMINAL_JOB_STATUSES \<and>
     (j_paid j \<longleftrightarrow> j_status j = ''paid'') \<and>
     0 \<le> j_max_reward j \<and> j_max_reward j \<le> st_science_max_reward_per_job S \<and>
     py_round 8 (j_max_reward j) = j_max_reward j \<and> 0 \<le> j_reward_per_compute_unit j \<and>
     0 \<le> j_payout_amount j \<and> j_payout_amount j \<le> j_max_reward j \<and>
     (\<forall>w. j_worker_address j = Some w \<longrightarrow> clean_science_address w = Inr w) \<and>
     (j_status j \<in> set WORKER_STATUSES \<longrightarrow>
        (\<exists>w. j_worker_address j = Some w \<and> w \<noteq> j_requester_address j)) \<and>
     (j_status j \<in> {''submitted'', ''verified'', ''accepted'', ''paid''} \<longrightarrow>
        truthy (j_result_hash j) \<and> truthy (j_proof_hash j)) \<and>
     (j_status j \<in> {''accepted'', ''paid''} \<longrightarrow>
        0 < j_compute_units_used j \<and> j_compute_units_used j \<le> j_max_compute_units j) \<and>
     (j_paid j \<longrightarrow> 0 < j_paid_amount j \<and> j_paid_amount j \<le> j_max_reward j)"

definition reserve_ok :: "settings \<Rightarrow> reserve_row \<Rightarrow> bool" where
  "reserve_ok S r \<longleftrightarrow> 0 \<le> rr_total_pending r \<and> 0 \<le> rr_total_paid r \<and>
     py_round 8 (rr_total_paid r) \<le> st_science_max_payout_per_epoch S"

definition science_inv :: "settings \<Rightarrow> 'a db_science_scheme \<Rightarrow> bool" where
  "science_inv S db \<longleftrightarrow> ledger_ok db \<and>
     distinct (map j_job_id (science_jobs db)) \<and> list_all (job_ok S) (science_jobs db) \<and>
     distinct (map rr_epoch (science_reward_reserve db)) \<and> list_all (reserve_ok S) (science_reward_reserve db)"

text \<open>The limits the invariant relies on: a reward cap of at most ten million coins per job, and a
  payout cap that is not negative.\<close>

definition limits_ok :: "settings \<Rightarrow> bool" where
  "limits_ok S \<longleftrightarrow> st_science_max_reward_per_job S \<le> 10 ^ 7 \<and> 0 \<le> st_science_max_payout_per_epoch S"

lemma science_inv_cong:
  assumes "balances db = balances db'" "ledger_entries db = ledger_entries db'"
    "science_jobs db = science_jobs db'" "science_reward_reserve db = science_reward_reserve db'"
  shows "science_inv S db \<longleftrightarrow> science_inv S db'"
  using assms ledger_cong(1) [of db db'] by (simp add: science_inv_def)

lemma science_post_fields:
  assumes "ledger_ok (db :: 'a db_science_scheme)" and "science_apply_ledger_entry now p db = Inr db'"
  shows "science_jobs db' = science_jobs db" and "science_reward_reserve db' = science_reward_reserve db"
    and "science_stake_accounts db' = science_stake_accounts db"
    and "science_governance db' = science_governance db"
  using science_post.post_more [OF assms]
  by (cases db; cases db'; simp add: db_ledger.defs db_rewards.defs db_treasury.defs db_governance.defs db_science.defs)+

lemma record_science_event_fields [simp]:
  "balances (record_science_event a b c d e db) = balances db"
  "ledger_entries (record_science_event a b c d e db) = ledger_entries db"
  "science_jobs (record_science_event a b c d e (db :: 'a db_science_scheme)) = science_jobs db"
  "science_reward_reserve (record_science_event a b c d e (db :: 'a db_science_scheme)) = science_reward_reserve db"
  "science_stake_accounts (record_science_event a b c d e (db :: 'a db_science_scheme)) = science_stake_accounts db"
  by (simp_all add: record_science_event_def)

lemma event_fields [simp]:
  "balances (transition_event t e j db) = balances db"
  "ledger_entries (transition_event t e j db) = ledger_entries db"
  "science_jobs (transition_event t e j db) = science_jobs db"
  "science_reward_reserve (transition_event t e j db) = science_reward_reserve db"
  "balances (payment_event t w j db) = balances db"
  "ledger_entries (payment_event t w j db) = ledger_entries db"
  "science_jobs (payment_event t w j db) = science_jobs db"
  "science_reward_reserve (payment_event t w j db) = science_reward_reserve db"
  "science_governance (payment_event t w j db) = science_governance db"
  by (simp_all add: transition_event_def payment_event_def)

lemma put_job_fields [simp]:
  "balances (put_job j db) = balances db" "ledger_entries (put_job j db) = ledger_entries db"
  "science_reward_reserve (put_job j db) = science_reward_reserve db"
  "science_governance (put_job j db) = science_governance db"
  by (simp_all add: put_job_def)

lemma update_reserve_fields [simp]:
  "balances (update_reserve e f db) = balances db" "ledger_entries (update_reserve e f db) = ledger_entries db"
  "science_jobs (update_reserve e f db) = science_jobs db"
  "science_governance (update_reserve e f db) = science_governance db"
  "science_stake_accounts (update_reserve e f db) = science_stake_accounts db"
  by (simp_all add: update_reserve_def)

lemma ensure_reserve_epoch_fields:
  assumes "ensure_reserve_epoch now epoch db = (r, db')"
  shows "balances db' = balances db" "ledger_entries db' = ledger_entries db" "science_jobs db' = science_jobs db"
    and "science_governance db' = science_governance db" "science_stake_accounts db' = science_stake_accounts db"
    and "science_reward_reserve db' = tbl_upsert rr_epoch id
      \<lparr>rr_epoch = epoch, rr_total_reserved = 0, rr_total_paid = 0, rr_total_pending = 0, rr_updated_at = now\<rparr>
      (science_reward_reserve db)"
    and "tbl_find rr_epoch epoch (science_reward_reserve db') = Some r"
proof -
  show "balances db' = balances db" "ledger_entries db' = ledger_entries db" "science_jobs db' = science_jobs db"
    "science_governance db' = science_governance db" "science_stake_accounts db' = science_stake_accounts db"
    "science_reward_reserve db' = tbl_upsert rr_epoch id
      \<lparr>rr_epoch = epoch, rr_total_reserved = 0, rr_total_paid = 0, rr_total_pending = 0, rr_updated_at = now\<rparr>
      (science_reward_reserve db)"
    using assms by (auto simp: ensure_reserve_epoch_def Let_def)
  show "tbl_find rr_epoch epoch (science_reward_reserve db') = Some r"
    using assms by (auto simp: ensure_reserve_epoch_def Let_def tbl_find_upsert split: option.splits)
qed

text \<open>Writing a reserve row that stays within its limits keeps the invariant.\<close>

lemma ensure_reserve_inv:
  assumes "science_inv S db" and "limits_ok S" and e: "ensure_reserve_epoch now epoch db = (r, db')"
  shows "science_inv S db'" and "reserve_ok S r"
proof -
  note f = ensure_reserve_epoch_fields [OF e]
  have "list_all (reserve_ok S) (science_reward_reserve db')"
    using assms(1,2) unfolding f(6) by (intro tbl_upsert_id_rows) (auto simp: science_inv_def reserve_ok_def limits_ok_def)
  moreover have "distinct (map rr_epoch (science_reward_reserve db'))"
    using assms(1) unfolding f(6) by (intro distinct_tbl_upsert) (auto simp: science_inv_def)
  ultimately show "science_inv S db'"
    using assms(1) f(3) ledger_cong(1) [OF f(1,2)] by (simp add: science_inv_def)
  then show "reserve_ok S r"
    using f(7) tbl_find_in by (fastforce simp: science_inv_def list_all_iff)
qed

lemma update_reserve_inv:
  assumes "science_inv S db" and "\<And>r. r \<in> set (science_reward_reserve db) \<Longrightarrow> rr_epoch r = epoch \<Longrightarrow> reserve_ok S r \<Longrightarrow> reserve_ok S (f r)"
    and "\<And>r. rr_epoch (f r) = rr_epoch r"
  shows "science_inv S (update_reserve epoch f db)"
proof -
  have "map rr_epoch (tbl_update (\<lambda>r. rr_epoch r = epoch) f (science_reward_reserve db)) = map rr_epoch (science_reward_reserve db)"
    by (rule map_tbl_update) (simp add: assms(3))
  moreover have "list_all (reserve_ok S) (tbl_update (\<lambda>r. rr_epoch r = epoch) f (science_reward_reserve db))"
    using assms(1,2) by (intro list_all_tbl_update) (auto simp: science_inv_def list_all_iff)
  ultimately show ?thesis
    using assms(1) ledger_cong(1) [of db "update_reserve epoch f db"] by (simp add: science_inv_def update_reserve_def)
qed

lemma put_job_inv:
  assumes "science_inv S db" and "job_ok S j"
  shows "science_inv S (put_job j db)"
proof -
  have "map j_job_id (tbl_update (\<lambda>j'. j_job_id j' = j_job_id j) (\<lambda>_. j) (science_jobs db)) = map j_job_id (science_jobs db)"
    by (rule map_tbl_update) simp
  moreover have "list_all (job_ok S) (tbl_update (\<lambda>j'. j_job_id j' = j_job_id j) (\<lambda>_. j) (science_jobs db))"
    using assms by (intro list_all_tbl_update) (auto simp: science_inv_def)
  ultimately show ?thesis
    using assms(1) ledger_cong(1) [of db "put_job j db"] by (simp add: science_inv_def put_job_def)
qed

section \<open>Transitions\<close>

text \<open>The position of a status in the lifecycle.\<close>

definition STATUS_ORDER :: "string list" where
  "STATUS_ORDER = [''created'', ''queued'', ''assigned'', ''committed'', ''submitted'', ''verified'']"

definition job_rank :: "string \<Rightarrow> nat" where
  "job_rank s = (case map_of (zip STATUS_ORDER [0..<6]) s of Some n \<Rightarrow> n | None \<Rightarrow> 6)"

lemma allowed_transition_cases:
  assumes "t \<in> set (allowed_transitions s)"
  shows "s \<in> set ACTIVE_JOB_STATUSES \<and> s \<noteq> ''accepted''" and "t \<in> set ACTIVE_JOB_STATUSES \<union> set TERMINAL_JOB_STATUSES"
    and "t \<noteq> ''paid''" and "job_rank s < job_rank t" and "job_rank t \<le> 6"
    and "t \<in> {''committed'', ''submitted'', ''verified'', ''accepted''} \<Longrightarrow> s \<in> set WORKER_STATUSES"
  using assms by (auto simp: allowed_transitions_def JOB_TRANSITIONS_def ACTIVE_JOB_STATUSES_def
      TERMINAL_JOB_STATUSES_def job_rank_def STATUS_ORDER_def WORKER_STATUSES_def upt_rec split: if_splits)

lemma clean_idem: "clean_science_address a = Inr w \<Longrightarrow> clean_science_address w = Inr w"
  by (auto simp: clean_science_address_def Let_def split: if_splits)

lemma clean_not_Nil: "clean_science_address a = Inr w \<Longrightarrow> w \<noteq> []"
  by (auto simp: clean_science_address_def Let_def split: if_splits)

lemma truthy_simps [simp]: "\<not> truthy None" "truthy (Some s) \<longleftrightarrow> s \<noteq> []"
  by (simp_all add: truthy_def str_or_def)

lemma truthy_opt_or [simp]: "truthy (opt_or x y) \<longleftrightarrow> truthy x \<or> truthy y"
  by (simp add: opt_or_def)

lemma clean_optional_hash_truthy:
  "clean_optional_hash v f = Inr r \<Longrightarrow> truthy r \<longleftrightarrow> v \<noteq> None"
  by (auto simp: clean_optional_hash_def clean_text_def Let_def split: option.splits if_splits)

lemma str_or_Some [simp]: "s \<noteq> [] \<Longrightarrow> str_or (Some s) d = s"
  by (simp add: str_or_def)

text \<open>The worker a transition stores passed the self-work check.\<close>

lemma next_worker_ok:
  assumes "validate_worker job status worker = Inr u" and "next_job clock status worker r p c job = Inr job'"
    and "\<forall>w. j_worker_address job = Some w \<longrightarrow> clean_science_address w = Inr w"
  shows "\<forall>w. j_worker_address job' = Some w \<longrightarrow> clean_science_address w = Inr w"
    and "status \<in> {''assigned'', ''committed'', ''submitted'', ''verified'', ''accepted''} \<Longrightarrow>
      \<exists>w. j_worker_address job' = Some w \<and> w \<noteq> j_requester_address job'"
proof -
  have nw: "if truthy worker then \<exists>w. clean_science_address (str_or worker []) = Inr w \<and> j_worker_address job' = Some w
        else j_worker_address job' = j_worker_address job"
    and rq: "j_requester_address job' = j_requester_address job"
    using assms(2) by (auto simp: next_job_def split: if_splits)
  then show "\<forall>w. j_worker_address job' = Some w \<longrightarrow> clean_science_address w = Inr w"
    using assms(3) by (auto simp: clean_idem split: if_splits)
  assume "status \<in> {''assigned'', ''committed'', ''submitted'', ''verified'', ''accepted''}"
  then obtain w where w: "truthy (opt_or worker (j_worker_address job))"
    "clean_science_address (str_or (opt_or worker (j_worker_address job)) []) = Inr w" "w \<noteq> j_requester_address job"
    using assms(1) by (auto simp: validate_worker_def Let_def SCIENCE_ALLOW_SELF_WORK_def split: if_splits)
  show "\<exists>w. j_worker_address job' = Some w \<and> w \<noteq> j_requester_address job'"
  proof (cases "truthy worker")
    case True
    then show ?thesis using nw w rq by (auto simp: opt_or_def)
  next
    case False
    then obtain w0 where "j_worker_address job = Some w0" "w0 \<noteq> []"
      using w(1) by (cases "j_worker_address job") auto
    then show ?thesis using nw w(2,3) rq False assms(3) by (auto simp: opt_or_def)
  qed
qed

lemma next_hashes_ok:
  assumes "validate_hashes job status r p = Inr u" and "next_job clock status worker r p c job = Inr job'"
    and "status \<in> {''submitted'', ''verified'', ''accepted''}"
  shows "truthy (j_result_hash job') \<and> truthy (j_proof_hash job')"
proof -
  obtain r' p' where h: "clean_optional_hash r ''result_hash'' = Inr r'" "clean_optional_hash p ''proof_hash'' = Inr p'"
    "j_result_hash job' = opt_or r' (j_result_hash job)" "j_proof_hash job' = opt_or p' (j_proof_hash job)"
    using assms(2) by (auto simp: next_job_def)
  have "truthy r \<Longrightarrow> truthy r'" "truthy p \<Longrightarrow> truthy p'"
    using clean_optional_hash_truthy [OF h(1)] clean_optional_hash_truthy [OF h(2)] by auto
  then show ?thesis
    using assms(1,3) h(3,4) by (auto simp: validate_hashes_def split: if_splits)
qed

lemma next_units_ok:
  assumes "validate_units job status c = Inr u" and "next_job clock status worker r p c job = Inr job'"
    and "0 \<le> j_reward_per_compute_unit job" and "0 \<le> j_max_reward job"
    and "py_round 8 (j_max_reward job) = j_max_reward job"
  shows "status = ''accepted'' \<Longrightarrow> 0 < j_compute_units_used job' \<and> j_compute_units_used job' \<le> j_max_compute_units job' \<and>
      0 \<le> j_payout_amount job' \<and> j_payout_amount job' \<le> j_max_reward job'"
    and "status \<noteq> ''accepted'' \<Longrightarrow> j_payout_amount job' = j_payout_amount job"
proof -
  assume st: "status = ''accepted''"
  define units where "units = j_compute_units_used job'"
  have pay: "j_payout_amount job' = py_round 8 (min (fmul units (j_reward_per_compute_unit job)) (j_max_reward job))"
    and nn: "0 < units" "units \<le> j_max_compute_units job"
    and same: "j_max_compute_units job' = j_max_compute_units job" "j_max_reward job' = j_max_reward job"
    using assms(1,2) st by (auto simp: next_job_def validate_units_def compute_units_for_status_def payout_amount_def
        clean_compute_units_def units_def Let_def split: if_splits)
  have "0 \<le> j_payout_amount job'"
    unfolding pay using nn assms(3,4) by (intro py_round_nonneg) (simp add: fmul_nonneg)
  moreover have "j_payout_amount job' \<le> py_round 8 (j_max_reward job)"
    unfolding pay by (rule py_round_mono) simp
  ultimately show "0 < j_compute_units_used job' \<and> j_compute_units_used job' \<le> j_max_compute_units job' \<and>
      0 \<le> j_payout_amount job' \<and> j_payout_amount job' \<le> j_max_reward job'"
    using nn same assms(5) by (simp add: units_def)
next
  assume "status \<noteq> ''accepted''"
  then show "j_payout_amount job' = j_payout_amount job" using assms(2) by (auto simp: next_job_def)
qed

lemma next_job_fields:
  assumes "next_job clock status worker r p c job = Inr job'"
  shows "j_status job' = status" "j_job_id job' = j_job_id job" "j_requester_address job' = j_requester_address job"
    "j_max_reward job' = j_max_reward job" "j_reward_per_compute_unit job' = j_reward_per_compute_unit job"
    "j_paid job' = j_paid job" "j_paid_amount job' = j_paid_amount job"
    "j_max_compute_units job' = j_max_compute_units job"
  using assms by (auto simp: next_job_def)

lemma transition_keeps_job_ok:
  assumes ok: "job_ok S job" and v: "validate_science_transition job status worker r p c = Inr u"
    and n: "next_job clock status worker r p c job = Inr job'"
  shows "job_ok S job'" and "status \<in> set (allowed_transitions (j_status job))"
proof -
  have t: "status \<in> set (allowed_transitions (j_status job))" and vw: "validate_worker job status worker = Inr ()"
    and vh: "validate_hashes job status r p = Inr ()" and vu: "validate_units job status c = Inr ()"
    using v by (auto simp: validate_science_transition_def split: if_splits)
  note f = next_job_fields [OF n] and a = allowed_transition_cases [OF t]
  have o: "\<forall>w. j_worker_address job = Some w \<longrightarrow> clean_science_address w = Inr w" "0 \<le> j_reward_per_compute_unit job"
    "0 \<le> j_max_reward job" "py_round 8 (j_max_reward job) = j_max_reward job"
    "0 \<le> j_payout_amount job" "j_payout_amount job \<le> j_max_reward job" "\<not> j_paid job"
    using ok a(1) by (auto simp: job_ok_def ACTIVE_JOB_STATUSES_def)
  note w = next_worker_ok [OF vw n o(1)] and h = next_hashes_ok [OF vh n] and k = next_units_ok [OF vu n o(2-4)]
  have ws: "status \<in> set WORKER_STATUSES \<Longrightarrow> status \<in> {''assigned'', ''committed'', ''submitted'', ''verified'', ''accepted''}"
    using a(3) by (auto simp: WORKER_STATUSES_def)
  have pay: "0 \<le> j_payout_amount job'" "j_payout_amount job' \<le> j_max_reward job'"
    using k o(5,6) f(4) by (cases "status = ''accepted''"; simp)+
  show "job_ok S job'"
    unfolding job_ok_def f using a(2,3) o w(1) w(2) [OF ws] h k(1) pay ok f
    by (simp add: job_ok_def)
  show "status \<in> set (allowed_transitions (j_status job))" by (rule t)
qed

text \<open>What a successful transition does to the tables.\<close>

lemma release_fields [simp]:
  "science_jobs (release_science_job_budget clock j d) = science_jobs d"
  "balances (release_science_job_budget clock j d) = balances d"
  "ledger_entries (release_science_job_budget clock j d) = ledger_entries d"
  "science_governance (release_science_job_budget clock j d) = science_governance d"
proof -
  obtain r d1 where e: "ensure_reserve_epoch clock (current_epoch clock) d = (r, d1)" by force
  note f = ensure_reserve_epoch_fields(1-4) [OF e]
  show "science_jobs (release_science_job_budget clock j d) = science_jobs d"
    "balances (release_science_job_budget clock j d) = balances d"
    "ledger_entries (release_science_job_budget clock j d) = ledger_entries d"
    "science_governance (release_science_job_budget clock j d) = science_governance d"
    by (simp_all add: release_science_job_budget_def Let_def e f)
qed

definition after_transition :: "int \<Rightarrow> string \<Rightarrow> science_job \<Rightarrow> 'a db_science_scheme \<Rightarrow> 'a db_science_scheme" where
  "after_transition clock status job db =
     (if status \<in> set TERMINAL_JOB_STATUSES then release_science_job_budget clock job db else db)"

lemma transition_effect:
  assumes "transition_science_job clock job_id status0 worker r p c db = Inr (v, db')"
    and status: "status = str_lower (str_strip status0)"
  obtains job job' e where "science_job_by_id job_id db = Some job"
    "validate_science_transition job status worker r p c = Inr ()"
    "next_job clock status worker r p c job = Inr job'" "v = decode_science_job job'"
    "db' = after_transition clock status job' (transition_event clock e job' (put_job job' db))"
proof (cases "science_job_by_id job_id db")
  case None
  then show thesis using assms(1) by (simp add: transition_science_job_def)
next
  case (Some job)
  let ?v = "validate_science_transition job status worker r p c" and ?n = "next_job clock status worker r p c job"
  have "bindE ?v (\<lambda>_. bindE ?n (\<lambda>job'. bindE (event_type_for_status status) (\<lambda>e.
      Inr (decode_science_job job', after_transition clock status job' (transition_event clock e job' (put_job job' db)))))) =
      Inr (v, db')"
    using assms(1) by (simp only: transition_science_job_def Let_def status Some option.case after_transition_def)
  then obtain u job' e where "?v = Inr u" "?n = Inr job'" "(decode_science_job job',
      after_transition clock status job' (transition_event clock e job' (put_job job' db))) = (v, db')"
    unfolding bindE_eq_Inr sum.inject by blast
  then show thesis using that [OF Some, of job' e] by simp
qed

lemma release_inv:
  assumes "science_inv S db" and "limits_ok S"
  shows "science_inv S (release_science_job_budget clock job db)"
proof -
  obtain r db1 where e: "ensure_reserve_epoch clock (current_epoch clock) db = (r, db1)" by force
  have "science_inv S (update_reserve (current_epoch clock) (\<lambda>r. r\<lparr>rr_total_pending :=
      max 0 (fsub (rr_total_pending r) x), rr_updated_at := clock\<rparr>) db1)" for x
    by (rule update_reserve_inv [OF ensure_reserve_inv(1) [OF assms e]]) (simp_all add: reserve_ok_def)
  then show ?thesis
    using assms(1) by (simp add: release_science_job_budget_def Let_def e)
qed

lemma transition_inv:
  assumes inv: "science_inv S db" and lim: "limits_ok S"
    and t: "transition_science_job clock job_id status0 worker r p c db = Inr (v, db')"
  shows "science_inv S db'"
proof -
  define status where "status = str_lower (str_strip status0)"
  obtain job job' e where j: "science_job_by_id job_id db = Some job"
    "validate_science_transition job status worker r p c = Inr ()" "next_job clock status worker r p c job = Inr job'"
    and db': "db' = after_transition clock status job' (transition_event clock e job' (put_job job' db))"
    using transition_effect [OF t status_def] by metis
  have "job_ok S job"
    using inv j(1) tbl_find_in by (fastforce simp: science_inv_def science_job_by_id_def list_all_iff)
  then have "science_inv S (put_job job' db)"
    using put_job_inv [OF inv] transition_keeps_job_ok(1) [OF _ j(2,3)] by blast
  then have i: "science_inv S (transition_event clock e job' (put_job job' db))"
    using science_inv_cong [of "transition_event clock e job' (put_job job' db)" "put_job job' db" S] by simp
  then show ?thesis unfolding db' after_transition_def using release_inv [OF i lim] i by simp
qed

section \<open>Creation\<close>

lemma reset_quota_fields:
  assumes "reset_quota_if_needed clock a db = (r, db')"
  shows "balances db' = balances db" "ledger_entries db' = ledger_entries db" "science_jobs db' = science_jobs db"
    and "science_reward_reserve db' = science_reward_reserve db" "science_governance db' = science_governance db"
  using assms by (auto simp: reset_quota_if_needed_def Let_def split: if_splits)

lemma require_active_fields:
  assumes "require_active_science_account clock address db = Inr (a, db')"
  shows "balances db' = balances db" "ledger_entries db' = ledger_entries db" "science_jobs db' = science_jobs db"
    and "science_reward_reserve db' = science_reward_reserve db" "science_governance db' = science_governance db"
proof -
  obtain a0 where a0: "science_account_by_address address db = Some a0"
    using assms by (cases "science_account_by_address address db") (simp_all add: require_active_science_account_def)
  obtain r db1 where r: "reset_quota_if_needed clock a0 db = (r, db1)" by force
  have "db' = db1"
    using assms by (cases r) (simp_all add: require_active_science_account_def a0 r split: if_splits)
  then show "balances db' = balances db" "ledger_entries db' = ledger_entries db" "science_jobs db' = science_jobs db"
    "science_reward_reserve db' = science_reward_reserve db" "science_governance db' = science_governance db"
    using reset_quota_fields [OF r] by simp_all
qed

lemma reserve_budget_inv:
  assumes "science_inv S db" and "limits_ok S" and "0 < amount"
    and "reserve_science_job_budget clock amount db = Inr db'"
  shows "science_inv S db'" and "science_jobs db' = science_jobs db"
proof -
  obtain r db1 where e: "ensure_reserve_epoch clock (current_epoch clock) db = (r, db1)" by force
  have db': "db' = update_reserve (current_epoch clock)
      (\<lambda>r. r\<lparr>rr_total_pending := fadd (rr_total_pending r) amount, rr_updated_at := clock\<rparr>) db1"
    using assms(4) by (simp add: reserve_science_job_budget_def e Let_def split: if_splits)
  show "science_inv S db'"
    unfolding db' using assms(3)
    by (intro update_reserve_inv [OF ensure_reserve_inv(1) [OF assms(1,2) e]])
       (simp_all add: reserve_ok_def fadd_def fl_nonneg)
  show "science_jobs db' = science_jobs db" unfolding db' using ensure_reserve_epoch_fields(3) [OF e] by simp
qed

lemma admit_job_inv:
  assumes "science_inv S db" and "limits_ok S" and "admit_job S clock requester cap db = Inr (a, db')"
  shows "science_inv S db'" and "science_jobs db' = science_jobs db"
proof -
  obtain a0 db1 where a0: "require_active_science_account clock requester db = Inr (a0, db1)"
    using assms(3) by (auto simp: admit_job_def)
  obtain r db2 where r: "reset_quota_if_needed clock a0 db1 = (r, db2)" by force
  note f = require_active_fields [OF a0] reset_quota_fields [OF r]
  have i2: "science_inv S db2" using assms(1) science_inv_cong [of db2 db S] f by simp
  have "db' = db2 \<or> 0 < cap \<and> reserve_science_job_budget clock cap db2 = Inr db'"
    using assms(3) by (cases r) (auto simp: admit_job_def a0 r split: if_splits)
  then show "science_inv S db'" "science_jobs db' = science_jobs db"
    using reserve_budget_inv [OF i2 assms(2)] i2 f by auto
qed

text \<open>A new job starts its lifecycle with a bounded budget.\<close>

lemma created_job_ok:
  assumes "limits_ok S" and "normalize_compute_budget S rb mu rp mr = Inr (units, per_unit, cap)"
    and "j_status job = ''created''" "j_worker_address job = None" "\<not> j_paid job" "j_payout_amount job = 0"
    "j_max_reward job = cap" "j_reward_per_compute_unit job = per_unit"
  shows "job_ok S job"
proof -
  note b = normalize_compute_budget_bounds [OF assms(2)]
  obtain x where x: "cap = py_round 8 x" using b(7) by blast
  have "\<bar>x\<bar> \<le> 10 ^ 7 \<or> \<not> \<bar>x\<bar> \<le> 10 ^ 7" by blast
  have "py_round 8 cap = cap"
  proof (cases "\<bar>x\<bar> \<le> 10 ^ 7")
    case True
    then show ?thesis unfolding x by (rule py_round_idem)
  next
    case False
    have "py_round 8 (10 ^ 7) = (10 ^ 7 :: rat)" by code_simp
    have "cap \<le> 10 ^ 7" using b(4) assms(1) by (simp add: limits_ok_def)
    show ?thesis
    proof (cases "x < 0")
      case True
      then have "cap \<le> 0" unfolding x using py_round_mono [of x 0 8] by simp
      then show ?thesis using b(3) by (simp add: order_antisym)
    next
      case f: False
      then have "py_round 8 (10 ^ 7) \<le> cap" unfolding x using False by (intro py_round_mono) simp
      then have "cap = 10 ^ 7" using \<open>cap \<le> 10 ^ 7\<close> \<open>py_round 8 (10 ^ 7) = (10 ^ 7 :: rat)\<close> by simp
      then show ?thesis using \<open>py_round 8 (10 ^ 7) = (10 ^ 7 :: rat)\<close> by simp
    qed
  qed
  then show ?thesis
    using assms b by (simp add: job_ok_def ACTIVE_JOB_STATUSES_def WORKER_STATUSES_def)
qed

lemma store_job_inv:
  assumes "science_inv S db" and "job_ok S job" and st: "store_job clock now job db = Inr db'"
  shows "science_inv S db'"
proof -
  obtain jobs where j: "tbl_insert j_job_id ''science_jobs.job_id'' job (science_jobs db) = Inr jobs"
    using st by (auto simp: store_job_def)
  have d: "balances db' = balances db" "ledger_entries db' = ledger_entries db" "science_jobs db' = jobs"
    "science_reward_reserve db' = science_reward_reserve db"
    using st by (auto simp: store_job_def j Let_def)
  show ?thesis
    using assms(1,2) ledger_cong(1) [OF d(1,2)] distinct_tbl_insert [OF _ j] d j
    by (auto simp: science_inv_def tbl_insert_eq_Inr)
qed

lemma create_inv:
  assumes inv: "science_inv S db" and lim: "limits_ok S"
    and c: "create_science_job S clock fresh job_id0 ts rq db = Inr (v, db')"
  shows "science_inv S db'"
proof -
  from c obtain requester job_type mh sp budget adm tier db1 where
    n: "normalize_compute_budget S (rq_reward_budget rq) (rq_max_compute_units rq)
       (rq_reward_per_compute_unit rq) (rq_max_reward rq) = Inr budget"
    and a: "admit_job S clock requester (snd (snd budget)) db = Inr adm"
    and st: "store_job clock (op_time clock ts) (new_job (str_or job_id0 (''science_job_'' @ fresh)) requester tier job_type mh sp
      budget (op_time clock ts)) (snd adm) = Inr db1"
    and d: "(map_option decode_science_job (science_job_by_id (str_or job_id0 (''science_job_'' @ fresh)) db1), db1) = (v, db')"
    unfolding create_science_job_def bindE_eq_Inr Let_def sum.inject by blast
  obtain units per_unit cap where b: "budget = (units, per_unit, cap)" by (cases budget)
  have ok: "job_ok S (new_job i q t ty m s budget now)" for i q t ty m s now
    by (rule created_job_ok [OF lim n [unfolded b]]) (simp_all add: new_job_def b)
  have "admit_job S clock requester cap db = Inr (fst adm, snd adm)" using a b by simp
  from store_job_inv [OF admit_job_inv(1) [OF inv lim this] ok st] show ?thesis using d by simp
qed

section \<open>Payment\<close>

lemma governance_fields:
  assumes "science_reserve_governance S clock db = (g, db0)"
  shows "balances db0 = balances db" "ledger_entries db0 = ledger_entries db"
    "science_jobs (db0 :: 'a db_science_scheme) = science_jobs db" "science_reward_reserve db0 = science_reward_reserve db"
    "science_governance db0 = Some g"
  using assms by (auto simp: science_reserve_governance_def split: option.splits)

lemma validate_limit_inv:
  assumes "science_inv S db" and "limits_ok S" and "0 < amount"
    and "validate_epoch_payout_limit S clock amount db = Inr db'"
  shows "science_inv S db'" and "science_jobs db' = science_jobs db" and "science_governance db' = science_governance db"
    and "balances db' = balances db" and "ledger_entries db' = ledger_entries db"
    and "\<exists>r. tbl_find rr_epoch (current_epoch clock) (science_reward_reserve db') = Some r \<and>
      py_round 8 (fadd (rr_total_paid r) amount) \<le> st_science_max_payout_per_epoch S"
proof -
  obtain r db1 where e: "ensure_reserve_epoch clock (current_epoch clock) db = (r, db1)" by force
  have db': "db' = db1" and r: "py_round 8 (fadd (rr_total_paid r) amount) \<le> st_science_max_payout_per_epoch S"
    using assms(4) by (auto simp: validate_epoch_payout_limit_def e split: if_splits)
  note f = ensure_reserve_epoch_fields [OF e]
  show "science_inv S db'" unfolding db' by (rule ensure_reserve_inv(1) [OF assms(1,2) e])
  show "science_jobs db' = science_jobs db" "science_governance db' = science_governance db"
    "balances db' = balances db" "ledger_entries db' = ledger_entries db"
    by (simp_all add: db' f)
  show "\<exists>r. tbl_find rr_epoch (current_epoch clock) (science_reward_reserve db') = Some r \<and>
      py_round 8 (fadd (rr_total_paid r) amount) \<le> st_science_max_payout_per_epoch S"
    using f(7) r by (simp add: db')
qed

lemma update_paid_inv:
  assumes "science_inv S db" and "limits_ok S" and "0 < amount"
    and r: "tbl_find rr_epoch (current_epoch clock) (science_reward_reserve db) = Some r"
      "py_round 8 (fadd (rr_total_paid r) amount) \<le> st_science_max_payout_per_epoch S"
  shows "science_inv S (update_reserve_paid clock amount db)"
    and "science_jobs (update_reserve_paid clock amount db) = science_jobs db"
    and "balances (update_reserve_paid clock amount db) = balances db"
    and "ledger_entries (update_reserve_paid clock amount db) = ledger_entries db"
    and "science_governance (update_reserve_paid clock amount db) = science_governance db"
proof -
  obtain r' db1 where e: "ensure_reserve_epoch clock (current_epoch clock) db = (r', db1)" by force
  note f = ensure_reserve_epoch_fields [OF e]
  have rows: "science_reward_reserve db1 = science_reward_reserve db"
    unfolding f(6) using r(1) by (simp add: tbl_upsert_def)
  have i1: "science_inv S db1" by (rule ensure_reserve_inv(1) [OF assms(1,2) e])
  then have d: "distinct (map rr_epoch (science_reward_reserve db1))" by (simp add: science_inv_def)
  have u: "update_reserve_paid clock amount db = update_reserve (current_epoch clock)
      (\<lambda>r. r\<lparr>rr_total_paid := fadd (rr_total_paid r) amount,
        rr_total_pending := max 0 (fsub (rr_total_pending r) amount), rr_updated_at := clock\<rparr>) db1"
    by (simp add: update_reserve_paid_def e Let_def)
  show "science_inv S (update_reserve_paid clock amount db)"
    unfolding u
  proof (rule update_reserve_inv [OF i1])
    fix x assume x: "x \<in> set (science_reward_reserve db1)" "rr_epoch x = current_epoch clock" "reserve_ok S x"
    then have "x = r" using tbl_find_distinct [OF d x(1)] r(1) rows by simp
    then show "reserve_ok S (x\<lparr>rr_total_paid := fadd (rr_total_paid x) amount,
        rr_total_pending := max 0 (fsub (rr_total_pending x) amount), rr_updated_at := clock\<rparr>)"
      using x(3) r(2) assms(3) by (simp add: reserve_ok_def fadd_def fl_nonneg)
  qed simp
  show "science_jobs (update_reserve_paid clock amount db) = science_jobs db"
    "balances (update_reserve_paid clock amount db) = balances db"
    "ledger_entries (update_reserve_paid clock amount db) = ledger_entries db"
    "science_governance (update_reserve_paid clock amount db) = science_governance db"
    by (simp_all add: u f)
qed

text \<open>The steps of a successful payment.\<close>

lemma pay_steps:
  assumes "pay_science_worker S clock job_id db = Inr (v, db')"
  obtains g db0 job worker amount db1 db2 db3 where "science_reserve_governance S clock db = (g, db0)"
    "require_science_payouts_enabled g = Inr ()" "science_job_by_id job_id db0 = Some job"
    "j_status job = ''accepted''" "\<not> j_paid job" "j_worker_address job = Some worker" "worker \<noteq> []"
    "amount = py_round 8 (j_payout_amount job)" "0 < amount"
    "validate_epoch_payout_limit S clock amount db0 = Inr db1"
    "science_apply_ledger_entry clock (payment_debit job_id amount) db1 = Inr db2"
    "science_apply_ledger_entry clock (payment_credit job_id worker amount) db2 = Inr db3"
    "v = decode_science_job (paid_job_row clock amount job)"
    "db' = payment_event clock worker (paid_job_row clock amount job)
      (put_job (paid_job_row clock amount job) (update_reserve_paid clock amount db3))"
proof -
  obtain g db0 where g: "science_reserve_governance S clock db = (g, db0)" by force
  have en: "require_science_payouts_enabled g = Inr ()"
    using assms by (auto simp: pay_science_worker_def g)
  obtain job where job: "science_job_by_id job_id db0 = Some job"
    using assms by (cases "science_job_by_id job_id db0") (simp_all add: pay_science_worker_def g en)
  have st: "j_status job = ''accepted''"
    using assms by (cases "j_status job = ''accepted''") (simp_all add: pay_science_worker_def g en job)
  have np: "\<not> j_paid job" and tr: "truthy (j_worker_address job)"
    using assms by (simp_all add: pay_science_worker_def g en job st split: if_splits)
  obtain worker where w: "j_worker_address job = Some worker" "worker \<noteq> []"
    using tr by (cases "j_worker_address job") auto
  let ?amount = "py_round 8 (j_payout_amount job)"
  have pos: "0 < ?amount"
    using assms by (cases "0 < ?amount") (simp_all add: pay_science_worker_def g en job st np w Let_def)
  let ?paid = "paid_job_row clock ?amount job"
  have "bindE (validate_epoch_payout_limit S clock ?amount db0) (\<lambda>db1.
      bindE (science_apply_ledger_entry clock (payment_debit job_id ?amount) db1) (\<lambda>db2.
      bindE (science_apply_ledger_entry clock (payment_credit job_id worker ?amount) db2) (\<lambda>db3.
      Inr (decode_science_job ?paid,
        payment_event clock worker ?paid (put_job ?paid (update_reserve_paid clock ?amount db3)))))) = Inr (v, db')"
    using assms pos np by (simp only: pay_science_worker_def g en job st w prod.case option.case bindE_simps Let_def
        truthy_simps str_or_Some not_le [symmetric] if_False not_not if_True simp_thms)
  then obtain db1 db2 db3 where s: "validate_epoch_payout_limit S clock ?amount db0 = Inr db1"
    "science_apply_ledger_entry clock (payment_debit job_id ?amount) db1 = Inr db2"
    "science_apply_ledger_entry clock (payment_credit job_id worker ?amount) db2 = Inr db3"
    "(decode_science_job ?paid,
        payment_event clock worker ?paid (put_job ?paid (update_reserve_paid clock ?amount db3))) = (v, db')"
    unfolding bindE_eq_Inr sum.inject by blast
  show thesis
    by (rule that [OF g en job st np w refl pos s(1-3)]) (use s(4) in simp_all)
qed

lemma paid_job_ok:
  assumes "job_ok S job" and "limits_ok S" and "j_status job = ''accepted''" and "0 < py_round 8 (j_payout_amount job)"
  shows "job_ok S (paid_job_row clock (py_round 8 (j_payout_amount job)) job)"
proof -
  have "py_round 8 (j_payout_amount job) \<le> py_round 8 (j_max_reward job)"
    using assms(1) by (intro py_round_mono) (simp add: job_ok_def)
  then have "py_round 8 (j_payout_amount job) \<le> j_max_reward job" using assms(1) by (simp add: job_ok_def)
  then show ?thesis
    using assms by (simp add: job_ok_def paid_job_row_def ACTIVE_JOB_STATUSES_def TERMINAL_JOB_STATUSES_def WORKER_STATUSES_def)
qed

lemma pay_inv:
  assumes inv: "science_inv S db" and lim: "limits_ok S" and p: "pay_science_worker S clock job_id db = Inr (v, db')"
  shows "science_inv S db'"
  using p
proof (rule pay_steps)
  fix g db0 job worker amount db1 db2 db3
  assume g: "science_reserve_governance S clock db = (g, db0)" and job: "science_job_by_id job_id db0 = Some job"
    and st: "j_status job = ''accepted''" and am: "amount = py_round 8 (j_payout_amount job)" "0 < amount"
    and v: "validate_epoch_payout_limit S clock amount db0 = Inr db1"
    and l: "science_apply_ledger_entry clock (payment_debit job_id amount) db1 = Inr db2"
      "science_apply_ledger_entry clock (payment_credit job_id worker amount) db2 = Inr db3"
    and db': "db' = payment_event clock worker (paid_job_row clock amount job)
      (put_job (paid_job_row clock amount job) (update_reserve_paid clock amount db3))"
  have i0: "science_inv S db0" using inv science_inv_cong [of db0 db S] governance_fields [OF g] by simp
  note vi = validate_limit_inv [OF i0 lim am(2) v]
  have k1: "ledger_ok db1" using vi(1) by (simp add: science_inv_def)
  have k2: "ledger_ok db2" by (rule science_post.post_ok [OF k1 l(1)])
  have k3: "ledger_ok db3" by (rule science_post.post_ok [OF k2 l(2)])
  have i3: "science_inv S db3"
    using vi(1) k3 science_post_fields [OF k1 l(1)] science_post_fields [OF k2 l(2)] by (simp add: science_inv_def)
  obtain r where r: "tbl_find rr_epoch (current_epoch clock) (science_reward_reserve db3) = Some r"
    "py_round 8 (fadd (rr_total_paid r) amount) \<le> st_science_max_payout_per_epoch S"
    using vi(6) science_post_fields(2) [OF k1 l(1)] science_post_fields(2) [OF k2 l(2)] by auto
  have "job_ok S job"
    using i0 job tbl_find_in by (fastforce simp: science_inv_def science_job_by_id_def list_all_iff)
  then have ok: "job_ok S (paid_job_row clock amount job)" using paid_job_ok lim st am by blast
  show "science_inv S db'"
    unfolding db' using put_job_inv [OF update_paid_inv(1) [OF i3 lim am(2) r] ok] science_inv_cong
    by (metis event_fields(5,6,7,8))
qed

section \<open>The other operations\<close>

lemma stake_inv:
  assumes "science_inv S db" and "stake_science_access clock fresh aid ts address amount db = Inr (v, db')"
  shows "science_inv S db'"
proof -
  have "balances db' = balances db \<and> ledger_entries db' = ledger_entries db \<and> science_jobs db' = science_jobs db \<and>
      science_reward_reserve db' = science_reward_reserve db"
    using assms(2) by (auto simp: stake_science_access_def Let_def split: if_splits option.splits)
  then show ?thesis using assms(1) science_inv_cong [of db' db S] by simp
qed

lemma unstake_inv:
  assumes "science_inv S db" and "unstake_science_access clock ts address db = Inr (v, db')"
  shows "science_inv S db'"
proof -
  have "balances db' = balances db \<and> ledger_entries db' = ledger_entries db \<and> science_jobs db' = science_jobs db \<and>
      science_reward_reserve db' = science_reward_reserve db"
    using assms(2) by (auto simp: unstake_science_access_def Let_def split: if_splits option.splits)
  then show ?thesis using assms(1) science_inv_cong [of db' db S] by simp
qed

lemma set_governance_fields [simp]:
  "balances (set_governance g db) = balances db" "ledger_entries (set_governance g db) = ledger_entries db"
  "science_jobs (set_governance g (db :: 'a db_science_scheme)) = science_jobs db"
  "science_reward_reserve (set_governance g (db :: 'a db_science_scheme)) = science_reward_reserve db"
  by (simp_all add: set_governance_def)

lemma gov_apply_fields:
  assumes "gov_apply S clock ts a (db :: 'a db_science_scheme) = Inr (v, db')"
  shows "balances db' = balances db \<and> ledger_entries db' = ledger_entries db \<and> science_jobs db' = science_jobs db \<and>
    science_reward_reserve db' = science_reward_reserve db"
proof -
  obtain g db0 where g: "science_reserve_governance S clock db = (g, db0)" by force
  note f = governance_fields(1-4) [OF g]
  show ?thesis
    using assms f
    by (cases a) (auto simp: gov_apply_def propose_science_reserve_activation_def
        approve_science_reserve_activation_def execute_science_reserve_activation_def pause_science_reserve_def
        unpause_science_reserve_def g Let_def split: if_splits option.splits)
qed

lemma accrual_inv:
  assumes inv: "science_inv S db" and lim: "limits_ok S"
    and a: "record_science_reserve_for_block clock h br db = Inr (v, db')"
  shows "science_inv S db'"
proof (cases "db' = db")
  case False
  obtain r db1 where e: "ensure_reserve_epoch clock (current_epoch clock) db = (r, db1)" by force
  define db2 where "db2 = (\<lambda>x. update_reserve (current_epoch clock) (\<lambda>r. r\<lparr>rr_total_reserved := fadd (rr_total_reserved r) x,
    rr_updated_at := clock\<rparr>) db1)"
  obtain u where u: "to_units (FloatA br) = Inr u"
    using a by (auto simp: record_science_reserve_for_block_def)
  define x where "x = reward_units_to_float (science_reserve_units_from_total u)"
  have "\<not> science_reserve_units_from_total u \<le> 0"
    using a False by (auto simp: record_science_reserve_for_block_def u)
  then have "bindE (science_apply_ledger_entry clock (reserve_accrual_posting h x) (db2 x)) (\<lambda>db3.
      Inr (x, record_science_event ''ScienceReserveAccrued'' None None
        [(''block_height'', PInt h), (''amount'', PFloat x), (''epoch'', PStr (current_epoch clock))] clock db3)) = Inr (v, db')"
    using a by (simp only: record_science_reserve_for_block_def u bindE_simps Let_def e prod.case if_False x_def db2_def)
  then obtain db3 where l: "science_apply_ledger_entry clock (reserve_accrual_posting h x) (db2 x) = Inr db3"
    and db': "db' = record_science_event ''ScienceReserveAccrued'' None None
        [(''block_height'', PInt h), (''amount'', PFloat x), (''epoch'', PStr (current_epoch clock))] clock db3"
    unfolding bindE_eq_Inr sum.inject prod.inject by blast
  have i2: "science_inv S (db2 x)"
    unfolding db2_def by (rule update_reserve_inv [OF ensure_reserve_inv(1) [OF inv lim e]]) (simp_all add: reserve_ok_def)
  then have k2: "ledger_ok (db2 x)" by (simp add: science_inv_def)
  have "science_inv S db3"
    using i2 science_post.post_ok [OF k2 l] science_post_fields [OF k2 l] by (simp add: science_inv_def)
  then show ?thesis unfolding db' using science_inv_cong [of _ db3 S] record_science_event_fields(1-4) by metis
qed (use inv in simp)

section \<open>Reachable states\<close>

datatype science_op =
    Stake string "string option" "int option" string pyfloat
  | Unstake "int option" string
  | CreateJob string "string option" "int option" job_request
  | Transition string string "string option" "string option" "string option" "pyfloat option"
  | Pay string
  | AccrueReserve int pyfloat
  | Govern "int option" gov_action

definition drop_view :: "('v \<times> 'd) result \<Rightarrow> 'd result" where
  "drop_view m = bindE m (\<lambda>x. Inr (snd x))"

definition science_apply :: "settings \<Rightarrow> int \<Rightarrow> science_op \<Rightarrow> 'a db_science_scheme \<Rightarrow> 'a db_science_scheme result" where
  "science_apply S clock op db = (case op of
     Stake fresh account_id ts address amount \<Rightarrow> drop_view (stake_science_access clock fresh account_id ts address amount db)
   | Unstake ts address \<Rightarrow> drop_view (unstake_science_access clock ts address db)
   | CreateJob fresh job_id ts rq \<Rightarrow> drop_view (create_science_job S clock fresh job_id ts rq db)
   | Transition job_id status worker r p c \<Rightarrow> drop_view (transition_science_job clock job_id status worker r p c db)
   | Pay job_id \<Rightarrow> drop_view (pay_science_worker S clock job_id db)
   | AccrueReserve h br \<Rightarrow> drop_view (record_science_reserve_for_block clock h br db)
   | Govern ts a \<Rightarrow> drop_view (gov_apply S clock ts a db))"

inductive science_reach :: "settings \<Rightarrow> 'a db_science_scheme \<Rightarrow> bool" for S where
  start: "science_jobs db = [] \<Longrightarrow> science_reward_reserve db = [] \<Longrightarrow> ledger_ok db \<Longrightarrow> science_reach S db"
| step: "science_reach S db \<Longrightarrow> science_apply S clock op db = Inr db' \<Longrightarrow> science_reach S db'"

lemma drop_view_Inr: "drop_view m = Inr d \<longleftrightarrow> (\<exists>v. m = Inr (v, d))"
  by (cases m) (auto simp: drop_view_def)

lemma science_apply_inv:
  assumes "science_inv S db" and "limits_ok S" and "science_apply S clock op db = Inr db'"
  shows "science_inv S db'"
proof (cases op)
  case (Stake fresh account_id ts address amount)
  then show ?thesis using assms stake_inv by (auto simp: science_apply_def drop_view_Inr)
next
  case (Unstake ts address)
  then show ?thesis using assms unstake_inv by (auto simp: science_apply_def drop_view_Inr)
next
  case (CreateJob fresh job_id ts rq)
  then show ?thesis using assms create_inv by (auto simp: science_apply_def drop_view_Inr)
next
  case (Transition job_id status worker r p c)
  then show ?thesis using assms transition_inv by (auto simp: science_apply_def drop_view_Inr)
next
  case (Pay job_id)
  then show ?thesis using assms pay_inv by (auto simp: science_apply_def drop_view_Inr)
next
  case (AccrueReserve h br)
  then show ?thesis using assms accrual_inv by (auto simp: science_apply_def drop_view_Inr)
next
  case (Govern ts a)
  then obtain v where "gov_apply S clock ts a db = Inr (v, db')"
    using assms(3) by (auto simp: science_apply_def drop_view_Inr)
  from gov_apply_fields [OF this] show ?thesis using assms(1) science_inv_cong [of db' db S] by simp
qed

lemma science_reach_inv: "science_reach S db \<Longrightarrow> limits_ok S \<Longrightarrow> science_inv S db"
proof (induction rule: science_reach.induct)
  case (start db)
  then show ?case by (simp add: science_inv_def)
next
  case (step db clock op db')
  show ?case by (rule science_apply_inv [OF step.IH [OF step.prems] step.prems step.hyps(2)])
qed

section \<open>Properties\<close>

text \<open>C17: in every state the science operations reach, a job's payout and payment are at most its
  reward cap, which is at most the protocol's; from acceptance on it has a worker who is not its
  requester, both hashes and positive compute units within its maximum; it is marked paid exactly
  in status paid; and the payments of an epoch stay within the epoch's limit.\<close>

theorem science_state_wellformed:
  assumes "science_reach S db" and "limits_ok S"
  shows "(\<forall>j \<in> set (science_jobs db).
      j_payout_amount j \<le> j_max_reward j \<and> j_max_reward j \<le> st_science_max_reward_per_job S \<and>
      (j_paid j \<longleftrightarrow> j_status j = ''paid'') \<and> (j_paid j \<longrightarrow> j_paid_amount j \<le> j_max_reward j) \<and>
      (j_status j = ''accepted'' \<or> j_status j = ''paid'' \<longrightarrow>
        (\<exists>w. j_worker_address j = Some w \<and> w \<noteq> j_requester_address j) \<and>
        truthy (j_result_hash j) \<and> truthy (j_proof_hash j) \<and>
        0 < j_compute_units_used j \<and> j_compute_units_used j \<le> j_max_compute_units j)) \<and>
    (\<forall>r \<in> set (science_reward_reserve db). 0 \<le> rr_total_pending r \<and>
      py_round 8 (rr_total_paid r) \<le> st_science_max_payout_per_epoch S) \<and>
    distinct (map j_job_id (science_jobs db)) \<and> ledger_ok db"
  using science_reach_inv [OF assms]
  by (auto simp: science_inv_def list_all_iff job_ok_def reserve_ok_def WORKER_STATUSES_def)

text \<open>A requester with a stake account creates a job without a reward.\<close>

definition example_science :: db_science where
  "example_science = \<lparr>balances = [], ledger_entries = [], rewards = [], treasury = None,
     treasury_epochs = [], treasury_claims = [], science_events = [], science_governance = None,
     science_stake_accounts = [\<lparr>sa_account_id = ''a1'', sa_address = ''PIA'', sa_stake_amount = 31416,
       sa_tier = Some ''lab'', sa_compute_multiplier = 10, sa_monthly_quota_used = 0,
       sa_monthly_quota_epoch = current_epoch 0, sa_status = ''active'', sa_created_at = 0, sa_updated_at = 0\<rparr>],
     science_jobs = [], science_reward_reserve = []\<rparr>"

definition example_request :: job_request where
  "example_request = \<lparr>rq_requester_address = ''PIA'', rq_job_type = ''t'', rq_metadata_hash = ''m'',
     rq_storage_pointer = ''s'', rq_reward_budget = None, rq_max_compute_units = None,
     rq_reward_per_compute_unit = None, rq_max_reward = None\<rparr>"

lemma lab_tier: "determine_science_tier 31416 \<noteq> None"
  by code_simp

lemma quota_float: "fl 1000 = 1000" "fadd 0 1 = 1" "fmul 0 0 = 0"
  by code_simp+

lemma default_reward_cap: "0 \<le> st_science_max_reward_per_job default_settings"
  "limits_ok default_settings"
  by (simp_all add: default_settings_def limits_ok_def, code_simp+)

lemma example_job_created:
  "\<exists>v db'. create_science_job default_settings 0 ''x'' (Some ''job-1'') (Some 5) example_request example_science = Inr (v, db') \<and>
    map j_job_id (science_jobs db') = [''job-1'']"
proof -
  have n: "normalize_compute_budget default_settings None None None None = Inr (0, 0, 0)"
    using default_reward_cap(1)
    by (simp add: normalize_compute_budget_def clean_non_negative_def opt_or0_def Let_def quota_float not_less)
  have c: "clean_science_address ''PIA'' = Inr ''PIA''" "clean_text ''t'' f = Inr ''t''" "clean_text ''m'' f = Inr ''m''"
    "clean_text ''s'' f = Inr ''s''" for f
    by (simp_all add: clean_science_address_def clean_text_def Let_def str_strip_def is_space_def)
  define a where "a = hd (science_stake_accounts example_science)"
  have ac: "science_account_by_address ''PIA'' example_science = Some a"
    "sa_monthly_quota_epoch a = current_epoch 0" "sa_status a = ''active''" "sa_tier a = Some ''lab''"
    "sa_stake_amount a = 31416" "sa_monthly_quota_used a = 0" "sa_compute_multiplier a = 10"
    by (simp_all add: science_account_by_address_def example_science_def a_def)
  have ad: "admit_job default_settings 0 ''PIA'' 0 example_science = Inr (a, example_science)"
    using lab_tier by (simp add: admit_job_def require_active_science_account_def reset_quota_if_needed_def ac
        monthly_quota_limit_def SCIENCE_BASE_MONTHLY_QUOTA_UNITS_def quota_float)
  have j: "science_jobs example_science = []" by (simp add: example_science_def)
  show ?thesis
    by (simp add: create_science_job_def example_request_def c n ad account_tier_def ac store_job_def tbl_insert_def j
        new_job_def str_or_def op_time_def Let_def)
qed

theorem science_state_wellformed_witness:
  "\<exists>(db :: db_science) j. science_reach default_settings db \<and> science_jobs db = [j] \<and>
     j_payout_amount j \<le> j_max_reward j \<and> ledger_ok db"
proof -
  obtain v db where c: "create_science_job default_settings 0 ''x'' (Some ''job-1'') (Some 5) example_request example_science = Inr (v, db)"
    "map j_job_id (science_jobs db) = [''job-1'']"
    using example_job_created by (elim exE conjE) (rule that)
  have "science_reach default_settings example_science"
    by (rule science_reach.start) (simp_all add: example_science_def ledger_ok_def)
  then have r: "science_reach default_settings db"
    by (rule science_reach.step [where op = "CreateJob ''x'' (Some ''job-1'') (Some 5) example_request" and clock = 0])
       (simp add: science_apply_def drop_view_Inr c)
  obtain j where "science_jobs db = [j]" using c(2) by auto
  then show ?thesis using science_state_wellformed [OF r default_reward_cap(2)] r by auto
qed

text \<open>A request to change a job, and what one successful request does.\<close>

type_synonym job_change = "int \<times> string \<times> string option \<times> string option \<times> string option \<times> pyfloat option"

definition change_job :: "string \<Rightarrow> job_change \<Rightarrow> 'a db_science_scheme \<Rightarrow> 'a db_science_scheme result" where
  "change_job job_id req db = (case req of (clock, status, worker, r, p, c) \<Rightarrow>
     drop_view (transition_science_job clock job_id status worker r p c db))"

lemma change_job_rank:
  assumes "change_job job_id req db = Inr db'"
  obtains job job' where "science_job_by_id job_id db = Some job" "science_job_by_id job_id db' = Some job'"
    "j_status job' \<in> set (allowed_transitions (j_status job))" "j_requester_address job' = j_requester_address job"
    "j_max_reward job' = j_max_reward job"
proof -
  obtain clock s0 w r p c where req: "req = (clock, s0, w, r, p, c)" by (cases req)
  obtain v where t: "transition_science_job clock job_id s0 w r p c db = Inr (v, db')"
    using assms by (auto simp: change_job_def req drop_view_Inr)
  define status where "status = str_lower (str_strip s0)"
  obtain job job' e where j: "science_job_by_id job_id db = Some job"
    "validate_science_transition job status w r p c = Inr ()" "next_job clock status w r p c job = Inr job'"
    and db': "db' = after_transition clock status job' (transition_event clock e job' (put_job job' db))"
    using transition_effect [OF t status_def] by metis
  note f = next_job_fields [OF j(3)]
  have id: "j_job_id job = job_id" using j(1) tbl_find_key by (fastforce simp: science_job_by_id_def)
  have "science_jobs db' = science_jobs (put_job job' db)"
    unfolding db' after_transition_def by simp
  then have "science_job_by_id job_id db' = Some job'"
    using j(1) f(2) id by (simp add: science_job_by_id_def put_job_def tbl_find_update)
  moreover have "j_status job' \<in> set (allowed_transitions (j_status job))"
    using j(2) f(1) by (auto simp: validate_science_transition_def split: if_splits)
  ultimately show thesis using that j(1) f(3,4) by blast
qed

lemma change_jobs:
  assumes "foldE (change_job job_id) reqs db = Inr db'" and "science_job_by_id job_id db = Some job"
  shows "\<exists>job'. science_job_by_id job_id db' = Some job' \<and> j_requester_address job' = j_requester_address job \<and>
    j_max_reward job' = j_max_reward job \<and> (reqs = [] \<longrightarrow> job' = job) \<and>
    length reqs + job_rank (j_status job) \<le> job_rank (j_status job') \<and> (reqs \<noteq> [] \<longrightarrow> job_rank (j_status job') \<le> 6)"
  using assms
proof (induction reqs arbitrary: db job)
  case Nil
  then show ?case by simp
next
  case (Cons req reqs)
  obtain db1 where c: "change_job job_id req db = Inr db1" and rest: "foldE (change_job job_id) reqs db1 = Inr db'"
    using Cons.prems(1) by auto
  obtain job1 where j1: "science_job_by_id job_id db1 = Some job1"
    "j_status job1 \<in> set (allowed_transitions (j_status job))" "j_requester_address job1 = j_requester_address job"
    "j_max_reward job1 = j_max_reward job"
    using change_job_rank [OF c] Cons.prems(2) by (metis option.inject)
  note a = allowed_transition_cases(4,5) [OF j1(2)]
  obtain job' where "science_job_by_id job_id db' = Some job'" "j_requester_address job' = j_requester_address job1"
    "j_max_reward job' = j_max_reward job1" "reqs = [] \<longrightarrow> job' = job1"
    "length reqs + job_rank (j_status job1) \<le> job_rank (j_status job')" "reqs \<noteq> [] \<longrightarrow> job_rank (j_status job') \<le> 6"
    using Cons.IH [OF rest j1(1)] by blast
  then show ?case using a j1(3,4) by (intro exI [of _ job']) auto
qed

text \<open>C18: transitions move a job strictly forward: the job's owner and budget never change, and no
  sequence of requests makes more than six transitions on a job, nor any on an accepted, paid,
  rejected, disputed or expired one.\<close>

theorem job_transitions_terminate:
  assumes "foldE (change_job job_id) reqs db = Inr db'" and "science_job_by_id job_id db = Some job"
  shows "(\<exists>job'. science_job_by_id job_id db' = Some job' \<and> j_requester_address job' = j_requester_address job \<and>
      j_max_reward job' = j_max_reward job) \<and> length reqs \<le> 6 \<and>
    (j_status job \<in> set (''accepted'' # TERMINAL_JOB_STATUSES) \<longrightarrow> reqs = [])"
proof -
  obtain job' where j: "science_job_by_id job_id db' = Some job'" "j_requester_address job' = j_requester_address job"
    "j_max_reward job' = j_max_reward job" "length reqs + job_rank (j_status job) \<le> job_rank (j_status job')"
    "reqs \<noteq> [] \<longrightarrow> job_rank (j_status job') \<le> 6"
    using change_jobs [OF assms] by blast
  have rank: "j_status job \<in> set (''accepted'' # TERMINAL_JOB_STATUSES) \<Longrightarrow> job_rank (j_status job) = 6"
    by (auto simp: TERMINAL_JOB_STATUSES_def job_rank_def STATUS_ORDER_def upt_rec)
  have len: "reqs \<noteq> [] \<Longrightarrow> length reqs + job_rank (j_status job) \<le> 6" using j(4,5) by linarith
  have "length reqs \<le> 6"
  proof (cases "reqs = []")
    case False
    then show ?thesis using len by linarith
  qed simp
  moreover have "reqs = []" if "j_status job \<in> set (''accepted'' # TERMINAL_JOB_STATUSES)"
  proof (rule ccontr)
    assume "reqs \<noteq> []"
    then show False using len rank [OF that] by (cases reqs) simp_all
  qed
  ultimately show ?thesis using j(1-3) by blast
qed

text \<open>A created job is queued.\<close>

definition example_job :: science_job where
  "example_job = (new_job ''job-1'' ''PIA'' ''lab'' ''t'' ''m'' ''s'' (0, 0, 0) 5)"

definition example_queue :: db_science where
  "example_queue = example_science\<lparr>science_jobs := [example_job]\<rparr>"

lemma example_transition:
  "\<exists>db'. foldE (change_job ''job-1'') [(6, ''queued'', None, None, None, None)] example_queue = Inr db'"
proof -
  have st: "str_lower (str_strip ''queued'') = ''queued''" by code_simp
  have q: "science_job_by_id ''job-1'' example_queue = Some example_job" "j_status example_job = ''created''"
    by (simp_all add: example_queue_def science_job_by_id_def example_job_def new_job_def)
  show ?thesis
    by (simp add: change_job_def transition_science_job_def st q validate_science_transition_def allowed_transitions_def
        JOB_TRANSITIONS_def validate_worker_def validate_hashes_def validate_units_def next_job_def
        compute_units_for_status_def event_type_for_status_def EVENT_TYPES_def TERMINAL_JOB_STATUSES_def drop_view_def
        clean_optional_hash_def Let_def)
qed

theorem job_transitions_terminate_witness:
  "\<exists>db' job'. foldE (change_job ''job-1'') [(6, ''queued'', None, None, None, None)] example_queue = Inr db' \<and>
     science_job_by_id ''job-1'' db' = Some job' \<and> j_requester_address job' = ''PIA''"
proof -
  obtain db' where f: "foldE (change_job ''job-1'') [(6, ''queued'', None, None, None, None)] example_queue = Inr db'"
    using example_transition by (elim exE) (rule that)
  have q: "science_job_by_id ''job-1'' example_queue = Some example_job" "j_requester_address example_job = ''PIA''"
    by (simp_all add: example_queue_def science_job_by_id_def example_job_def new_job_def)
  obtain job' where "science_job_by_id ''job-1'' db' = Some job'" "j_requester_address job' = j_requester_address example_job"
    using job_transitions_terminate [OF f q(1)] by (elim conjE exE) (rule that)
  then show ?thesis using f q(2) by (intro exI conjI) simp_all
qed

section \<open>Payments\<close>

lemma update_paid_fields [simp]:
  "science_jobs (update_reserve_paid clock x d) = science_jobs d"
  "balances (update_reserve_paid clock x d) = balances d"
  "ledger_entries (update_reserve_paid clock x d) = ledger_entries d"
proof -
  obtain r d1 where e: "ensure_reserve_epoch clock (current_epoch clock) d = (r, d1)" by force
  note f = ensure_reserve_epoch_fields(1-3) [OF e]
  show "science_jobs (update_reserve_paid clock x d) = science_jobs d"
    "balances (update_reserve_paid clock x d) = balances d"
    "ledger_entries (update_reserve_paid clock x d) = ledger_entries d"
    by (simp_all add: update_reserve_paid_def Let_def e f)
qed

lemma payment_units:
  "posted_units (payment_credit i w x) = Inr u \<Longrightarrow> posted_units (payment_debit i x) = Inr (- u)"
  by (simp add: posted_units_def payment_credit_def payment_debit_def to_units_minus)

text \<open>C19: in a state that satisfies the invariant, a payment is made only while payouts are enabled, for an accepted unpaid job; it moves
  exactly the units of the rounded payout, which the reserve account held, to the job's worker and
  creates no supply; the job is then paid, and a second payment of it is refused.\<close>

theorem pay_science_worker_once:
  assumes "science_inv S db" and "limits_ok S" and "pay_science_worker S clock job_id db = Inr (v, db')"
  shows "\<exists>job worker u. science_job_by_id job_id db = Some job \<and> j_status job = ''accepted'' \<and>
    j_worker_address job = Some worker \<and> worker \<noteq> j_requester_address job \<and>
    to_units (FloatA (py_round 8 (j_payout_amount job))) = Inr u \<and>
    u \<le> acct_units db SCIENCE_RESERVE_ACCOUNT_ID \<and> total_units db' = total_units db \<and>
    acct_units db' = (let m = (acct_units db)(SCIENCE_RESERVE_ACCOUNT_ID := acct_units db SCIENCE_RESERVE_ACCOUNT_ID - u) in
      m(worker := m worker + u)) \<and>
    (\<exists>e. pay_science_worker S clock' job_id db' = Inl e)"
  using assms(3)
proof (rule pay_steps)
  fix g db0 job worker amount db1 db2 db3
  assume g: "science_reserve_governance S clock db = (g, db0)" and job0: "science_job_by_id job_id db0 = Some job"
    and st: "j_status job = ''accepted''" and w: "j_worker_address job = Some worker"
    and am: "amount = py_round 8 (j_payout_amount job)" "0 < amount"
    and v: "validate_epoch_payout_limit S clock amount db0 = Inr db1"
    and l: "science_apply_ledger_entry clock (payment_debit job_id amount) db1 = Inr db2"
      "science_apply_ledger_entry clock (payment_credit job_id worker amount) db2 = Inr db3"
    and db': "db' = payment_event clock worker (paid_job_row clock amount job)
      (put_job (paid_job_row clock amount job) (update_reserve_paid clock amount db3))"
  note gf = governance_fields [OF g]
  note inv = assms(1)
  have i0: "science_inv S db0" using inv science_inv_cong [of db0 db S] gf by simp
  note vi = validate_limit_inv [OF i0 assms(2) am(2) v]
  have k1: "ledger_ok db1" using vi(1) by (simp add: science_inv_def)
  have k2: "ledger_ok db2" by (rule science_post.post_ok [OF k1 l(1)])
  obtain u where u: "posted_units (payment_credit job_id worker amount) = Inr u"
    using science_post.post_step [OF k2 l(2)] by blast
  note du = payment_units [OF u]
  note tr = science_post.transfer_conserves [OF k1 l du u]
  have eqs: "balances db' = balances db3" "ledger_entries db' = ledger_entries db3" by (simp_all add: db')
  have same1: "acct_units db1 = acct_units db" "total_units db1 = total_units db"
    using ledger_cong(2,3) [of db1 db] vi(4,5) gf(1,2) by simp_all
  have "\<not> negative (acct_units db1 SCIENCE_RESERVE_ACCOUNT_ID + - u)"
    using science_post.post_step [OF k1 l(1)] du by (auto simp: payment_debit_def)
  then have le: "u \<le> acct_units db SCIENCE_RESERVE_ACCOUNT_ID" by (simp add: negative_def same1)
  have m: "acct_units db' = (let m = (acct_units db)(SCIENCE_RESERVE_ACCOUNT_ID := acct_units db SCIENCE_RESERVE_ACCOUNT_ID - u) in
      m(worker := m worker + u))" "total_units db' = total_units db"
    using tr ledger_cong(2,3) [OF eqs] same1 by (simp_all add: payment_debit_def payment_credit_def)
  have job: "science_job_by_id job_id db = Some job" using job0 gf(3) by (simp add: science_job_by_id_def)
  then have "job_ok S job" using inv tbl_find_in by (fastforce simp: science_inv_def science_job_by_id_def list_all_iff)
  then have nw: "worker \<noteq> j_requester_address job" using st w by (simp add: job_ok_def WORKER_STATUSES_def)
  have id: "j_job_id job = job_id" using job tbl_find_key by (fastforce simp: science_job_by_id_def)
  have "science_jobs db3 = science_jobs db"
    using science_post_fields(1) [OF k1 l(1)] science_post_fields(1) [OF k2 l(2)] vi(2) gf(3) by simp
  then have paid: "science_job_by_id job_id db' = Some (paid_job_row clock amount job)"
    using job id by (simp add: db' science_job_by_id_def put_job_def tbl_find_update paid_job_row_def)
  obtain g' db0' where g': "science_reserve_governance S clock' db' = (g', db0')" by force
  have "science_job_by_id job_id db0' = Some (paid_job_row clock amount job)"
    using paid governance_fields(3) [OF g'] by (simp add: science_job_by_id_def)
  then have "\<exists>e. pay_science_worker S clock' job_id db' = Inl e"
    by (cases "require_science_payouts_enabled g'") (simp_all add: pay_science_worker_def g' paid_job_row_def)
  then show ?thesis
    using job st w nw u le m am(1)
    by (intro exI [of _ job] exI [of _ worker] exI [of _ u] conjI) (simp_all add: posted_units_def payment_credit_def)
qed

text \<open>A state with an accepted job of worker \<open>PIW\<close>: one coin payable out of a budget of two, two
  coins in the reserve account, both still pending.\<close>

definition payable_job :: science_job where
  "payable_job = (new_job ''job-1'' ''PIA'' ''lab'' ''t'' ''m'' ''s'' (2, 1, 2) 5)
     \<lparr>j_status := ''accepted'', j_worker_address := Some ''PIW'', j_result_hash := Some ''r'',
      j_proof_hash := Some ''p'', j_compute_units_used := 1, j_payout_amount := 1\<rparr>"

definition active_governance :: governance_row where
  "active_governance = (initial_governance default_settings 0)\<lparr>g_status := SCIENCE_RESERVE_ACTIVE_STATUS,
     g_payouts_enabled := True\<rparr>"

definition payable :: db_science where
  "payable = example_science\<lparr>
     balances := [\<lparr>b_account_id = SCIENCE_RESERVE_ACCOUNT_ID, b_account_type = ''science_reserve'', b_balance = 2,
       b_balance_units = 2000000, b_updated_at = 0\<rparr>],
     ledger_entries := [\<lparr>le_account_id = SCIENCE_RESERVE_ACCOUNT_ID, le_account_type = ''science_reserve'',
       le_amount = 2, le_amount_units = 2000000, le_balance_after = 2, le_balance_after_units = 2000000,
       le_entry_type = ''science_reserve_accrual'', le_block_height = Some 1, le_related_id = None,
       le_description = None, le_created_at = 0\<rparr>],
     science_governance := Some active_governance, science_jobs := [payable_job],
     science_reward_reserve := [\<lparr>rr_epoch = current_epoch 0, rr_total_reserved = 2, rr_total_paid = 0,
       rr_total_pending = 2, rr_updated_at = 0\<rparr>]\<rparr>"

lemma small_floats:
  "py_round 8 1 = 1" "fadd 0 1 = 1" "fsub 2 1 = 1" "to_units (FloatA 1) = Inr 1000000"
  "1 \<le> st_science_max_payout_per_epoch default_settings" "2 \<le> st_science_max_reward_per_job default_settings"
  by (simp_all add: default_settings_def, code_simp+)

lemma payable_inv: "science_inv default_settings payable"
proof -
  have "job_ok default_settings payable_job"
    using small_floats(6) by (simp add: job_ok_def payable_job_def new_job_def ACTIVE_JOB_STATUSES_def
        WORKER_STATUSES_def two_picoin clean_science_address_def str_strip_def is_space_def Let_def)
  moreover have "reserve_ok default_settings \<lparr>rr_epoch = current_epoch 0, rr_total_reserved = 2, rr_total_paid = 0,
       rr_total_pending = 2, rr_updated_at = 0\<rparr>"
    using small_floats(5) by (simp add: reserve_ok_def)
  ultimately show ?thesis
    by (simp add: science_inv_def payable_def ledger_ok_def acct_units_def find_balance_def entry_sum_def row_ok_def
        two_picoin_float)
qed

text \<open>When the guards of a payment hold and the reserve account has the funds, it succeeds.\<close>

lemma pay_succeeds:
  assumes "science_governance db = Some g" "require_science_payouts_enabled g = Inr ()"
    "science_job_by_id job_id db = Some job" "j_status job = ''accepted''" "\<not> j_paid job"
    "j_worker_address job = Some worker" "worker \<noteq> []" "worker \<noteq> SCIENCE_RESERVE_ACCOUNT_ID"
    "0 < py_round 8 (j_payout_amount job)" "to_units (FloatA (py_round 8 (j_payout_amount job))) = Inr u" "0 \<le> u"
    "validate_epoch_payout_limit S clock (py_round 8 (j_payout_amount job)) db = Inr db1"
    "science_inv S db" "limits_ok S" "u \<le> acct_units db SCIENCE_RESERVE_ACCOUNT_ID"
    "acct_units db SCIENCE_RESERVE_ACCOUNT_ID \<le> 10 ^ 15" "0 \<le> acct_units db worker" "acct_units db worker \<le> 10 ^ 15"
  shows "\<exists>v db'. pay_science_worker S clock job_id db = Inr (v, db')"
proof -
  let ?x = "py_round 8 (j_payout_amount job)"
  note vi = validate_limit_inv [OF assms(13,14,9,12)]
  have k1: "ledger_ok db1" using vi(1) by (simp add: science_inv_def)
  have a1: "acct_units db1 = acct_units db" using ledger_cong(2) vi(4,5) by metis
  have u: "posted_units (payment_credit job_id worker ?x) = Inr u"
    using assms(10) by (simp add: posted_units_def payment_credit_def)
  obtain db2 where l1: "science_apply_ledger_entry clock (payment_debit job_id ?x) db1 = Inr db2"
    using science_post.post_succeeds [OF k1 payment_units [OF u]] assms(11,15,16) a1
    by (auto simp: payment_debit_def negative_def)
  have k2: "ledger_ok db2" by (rule science_post.post_ok [OF k1 l1])
  have a2: "acct_units db2 worker = acct_units db worker"
    using science_post.post_other [OF k1 l1, of worker] assms(8) a1 by (simp add: payment_debit_def)
  obtain db3 where l2: "science_apply_ledger_entry clock (payment_credit job_id worker ?x) db2 = Inr db3"
    using science_post.post_succeeds [OF k2 u] assms(11,17,18) a2 by (auto simp: payment_credit_def negative_def)
  have "science_reserve_governance S clock db = (g, db)" using assms(1) by (simp add: science_reserve_governance_def)
  then show ?thesis
    using assms(2-7,9,12) l1 l2 by (simp add: pay_science_worker_def Let_def not_le)
qed

lemma payable_facts:
  "science_governance payable = Some active_governance" "science_job_by_id ''job-1'' payable = Some payable_job"
  "j_status payable_job = ''accepted''" "\<not> j_paid payable_job" "j_worker_address payable_job = Some ''PIW''"
  "j_payout_amount payable_job = 1" "j_max_reward payable_job = 2"
  "acct_units payable SCIENCE_RESERVE_ACCOUNT_ID = 2000000" "acct_units payable ''PIW'' = 0"
  "science_reward_reserve payable = [\<lparr>rr_epoch = current_epoch 0, rr_total_reserved = 2, rr_total_paid = 0,
       rr_total_pending = 2, rr_updated_at = 0\<rparr>]"
  "require_science_payouts_enabled active_governance = Inr ()"
  by (simp_all add: payable_def payable_job_def new_job_def acct_units_def find_balance_def science_job_by_id_def
      SCIENCE_RESERVE_ACCOUNT_ID_def active_governance_def initial_governance_def require_science_payouts_enabled_def)

lemma payable_paid: "\<exists>v db'. pay_science_worker default_settings 0 ''job-1'' payable = Inr (v, db')"
proof -
  have "validate_epoch_payout_limit default_settings 0 1 payable = Inr payable"
    using small_floats(5) by (simp add: validate_epoch_payout_limit_def ensure_reserve_epoch_def Let_def tbl_upsert_def
        payable_facts small_floats not_less)
  then show ?thesis
    using pay_succeeds [where g = active_governance and job = payable_job and worker = "''PIW''" and u = 1000000
        and db = payable and S = default_settings and clock = 0 and job_id = "''job-1''" and ?db1.0 = payable]
      payable_facts small_floats payable_inv default_reward_cap(2) by (simp add: SCIENCE_RESERVE_ACCOUNT_ID_def)
qed

theorem pay_science_worker_once_witness:
  "\<exists>v db' e. pay_science_worker default_settings 0 ''job-1'' payable = Inr (v, db') \<and>
     total_units db' = total_units payable \<and> pay_science_worker default_settings 1 ''job-1'' db' = Inl e"
proof -
  obtain v db' where p: "pay_science_worker default_settings 0 ''job-1'' payable = Inr (v, db')"
    using payable_paid by (elim exE) (rule that)
  show ?thesis
    using pay_science_worker_once [OF payable_inv default_reward_cap(2) p, of 1] p by (elim exE conjE) (intro exI conjI)
qed

lemma ensure_reserve_find:
  assumes "ensure_reserve_epoch now e db = (r', db1)" and "tbl_find rr_epoch e (science_reward_reserve db) = Some r"
  shows "science_reward_reserve db1 = science_reward_reserve db"
  using ensure_reserve_epoch_fields(6) [OF assms(1)] assms(2) by (simp add: tbl_upsert_def)

text \<open>C20: a payment gives back only what it pays. It subtracts the amount paid from the pending total
  of the current epoch (and adds it to the paid total), so when the job's budget was pending there,
  the difference between the budget and the payment is still counted as pending after the job is
  settled; that is a positive amount whenever the job is paid less than its budget.\<close>

theorem payment_leaks_reservation:
  assumes "science_inv S db" and "limits_ok S" and "pay_science_worker S clock job_id db = Inr (v, db')"
    and "science_job_by_id job_id db = Some job"
    and "tbl_find rr_epoch (current_epoch clock) (science_reward_reserve db) = Some r"
  shows "\<exists>r'. tbl_find rr_epoch (current_epoch clock) (science_reward_reserve db') = Some r' \<and>
    rr_total_paid r' = fadd (rr_total_paid r) (py_round 8 (j_payout_amount job)) \<and>
    rr_total_pending r' = max 0 (fsub (rr_total_pending r) (py_round 8 (j_payout_amount job))) \<and>
    (j_max_reward job \<le> rr_total_pending r \<longrightarrow>
       fsub (j_max_reward job) (py_round 8 (j_payout_amount job)) \<le> rr_total_pending r' \<and>
       (py_round 8 (j_payout_amount job) < j_max_reward job \<longrightarrow> 0 < rr_total_pending r')) \<and>
    (\<exists>paid. science_job_by_id job_id db' = Some paid \<and> j_status paid = ''paid'')"
  using assms(3)
proof (rule pay_steps)
  fix g db0 job' worker amount db1 db2 db3
  assume g: "science_reserve_governance S clock db = (g, db0)" and job0: "science_job_by_id job_id db0 = Some job'"
    and am: "amount = py_round 8 (j_payout_amount job')" "0 < amount"
    and v: "validate_epoch_payout_limit S clock amount db0 = Inr db1"
    and l: "science_apply_ledger_entry clock (payment_debit job_id amount) db1 = Inr db2"
      "science_apply_ledger_entry clock (payment_credit job_id worker amount) db2 = Inr db3"
    and db': "db' = payment_event clock worker (paid_job_row clock amount job')
      (put_job (paid_job_row clock amount job') (update_reserve_paid clock amount db3))"
  note gf = governance_fields [OF g]
  have job: "job' = job" using job0 gf(3) assms(4) by (simp add: science_job_by_id_def)
  have i0: "science_inv S db0" using assms(1) science_inv_cong [of db0 db S] gf by simp
  have k1: "ledger_ok db1" using validate_limit_inv(1) [OF i0 assms(2) am(2) v] by (simp add: science_inv_def)
  have k2: "ledger_ok db2" by (rule science_post.post_ok [OF k1 l(1)])
  obtain r0 d0 where e0: "ensure_reserve_epoch clock (current_epoch clock) db0 = (r0, d0)" by force
  have d0: "db1 = d0" using v by (auto simp: validate_epoch_payout_limit_def e0 split: if_splits)
  have rows1: "science_reward_reserve db1 = science_reward_reserve db" "science_jobs db1 = science_jobs db"
    unfolding d0 using ensure_reserve_find [OF e0] ensure_reserve_epoch_fields(3) [OF e0] assms(5) gf(3,4) by simp_all
  have rows3: "science_reward_reserve db3 = science_reward_reserve db" "science_jobs db3 = science_jobs db"
    using science_post_fields(1,2) [OF k1 l(1)] science_post_fields(1,2) [OF k2 l(2)] rows1 by simp_all
  obtain r3 d3 where e3: "ensure_reserve_epoch clock (current_epoch clock) db3 = (r3, d3)" by force
  have rows: "science_reward_reserve d3 = science_reward_reserve db"
    using ensure_reserve_find [OF e3, of r] rows3(1) assms(5) by simp
  have id: "j_job_id job = job_id" using assms(4) tbl_find_key by (fastforce simp: science_job_by_id_def)
  let ?p = "max 0 (fsub (rr_total_pending r) amount)"
  have "tbl_find rr_epoch (current_epoch clock) (science_reward_reserve (update_reserve_paid clock amount db3)) =
      Some (r\<lparr>rr_total_paid := fadd (rr_total_paid r) amount, rr_total_pending := ?p, rr_updated_at := clock\<rparr>)"
    using assms(5) tbl_find_key [OF assms(5)]
    by (simp add: update_reserve_paid_def e3 Let_def update_reserve_def tbl_find_update rows)
  moreover have "science_job_by_id job_id db' = Some (paid_job_row clock amount job)"
    using assms(4) id rows3(2) by (simp add: db' job science_job_by_id_def put_job_def tbl_find_update paid_job_row_def)
  moreover have left: "fsub (j_max_reward job) amount \<le> fsub (rr_total_pending r) amount" if "j_max_reward job \<le> rr_total_pending r"
    using that by (simp add: fsub_def fl_mono)
  moreover have "0 < ?p" if "j_max_reward job \<le> rr_total_pending r" "amount < j_max_reward job"
  proof -
    have "0 < fsub (j_max_reward job) amount" using that(2) by (simp add: fsub_def fl_pos)
    with left [OF that(1)] show ?thesis by (simp add: less_max_iff_disj)
  qed
  ultimately show ?thesis
    using am(1) job by (simp add: db' paid_job_row_def le_max_iff_disj)
qed

theorem payment_leaks_reservation_witness:
  "\<exists>v db' r'. pay_science_worker default_settings 0 ''job-1'' payable = Inr (v, db') \<and>
     tbl_find rr_epoch (current_epoch 0) (science_reward_reserve db') = Some r' \<and> 0 < rr_total_pending r'"
proof -
  obtain v db' where p: "pay_science_worker default_settings 0 ''job-1'' payable = Inr (v, db')"
    using payable_paid by (elim exE) (rule that)
  define r where "r = hd (science_reward_reserve payable)"
  have r: "tbl_find rr_epoch (current_epoch 0) (science_reward_reserve payable) = Some r"
    and le: "j_max_reward payable_job \<le> rr_total_pending r" "py_round 8 (j_payout_amount payable_job) < j_max_reward payable_job"
    by (simp_all add: r_def payable_facts small_floats)
  obtain r' where "tbl_find rr_epoch (current_epoch 0) (science_reward_reserve db') = Some r'" "0 < rr_total_pending r'"
    using payment_leaks_reservation [OF payable_inv default_reward_cap(2) p payable_facts(2) r] le by blast
  then show ?thesis using p by (intro exI conjI)
qed

end
