(* ===== verification/Wallet.thy ===== *)
theory Wallet
  imports Economics
begin

text \<open>
  \<open>app/services/wallet.py\<close>: addresses derived from public keys, and the payload a transaction
  signature covers. The digest \<open>sha256_text\<close>, the digest of a serialised payload and the
  Ed25519 verification of the \<open>cryptography\<close> package are the fields of \<open>crypto\<close>; what is
  assumed of the digest is that it is a text of 64 hexadecimal digits. A wallet accepts a
  transaction hash if it is the digest of one of the historical renderings of the payload
  (\<open>transaction_signature_payload_candidates\<close>).

  Lemmas: an address derived from a key is valid and matches the key; the rendering the program
  produces is among the candidates, and every candidate carries the payload's sender, recipient,
  nonce and type.
\<close>

section \<open>Addresses\<close>

definition ADDRESS_PREFIX :: string where "ADDRESS_PREFIX = ''PI''"

definition ADDRESS_HASH_LENGTH :: nat where "ADDRESS_HASH_LENGTH = 38"

definition ADDRESS_CHECKSUM_LENGTH :: nat where "ADDRESS_CHECKSUM_LENGTH = 8"

text \<open>The character class \<open>[0-9A-F]\<close>.\<close>

definition hex_upper :: "char \<Rightarrow> bool" where
  "hex_upper c \<longleftrightarrow> (let n = of_char c :: nat in 48 \<le> n \<and> n \<le> 57 \<or> 65 \<le> n \<and> n \<le> 70)"

text \<open>\<open>fullmatch\<close> of \<open>PI[0-9A-F]{n}\<close>.\<close>

definition address_pattern :: "nat \<Rightarrow> string \<Rightarrow> bool" where
  "address_pattern n s \<longleftrightarrow> length s = 2 + n \<and> take 2 s = ADDRESS_PREFIX \<and> list_all hex_upper (drop 2 s)"

definition address_checksum :: "(string \<Rightarrow> string) \<Rightarrow> string \<Rightarrow> string" where
  "address_checksum H body = take ADDRESS_CHECKSUM_LENGTH (str_upper (H body))"

definition legacy_address_from_public_key :: "(string \<Rightarrow> string) \<Rightarrow> string \<Rightarrow> string" where
  "legacy_address_from_public_key H public_key =
     ADDRESS_PREFIX @ take ADDRESS_HASH_LENGTH (str_upper (H public_key))"

definition address_from_public_key :: "(string \<Rightarrow> string) \<Rightarrow> string \<Rightarrow> string" where
  "address_from_public_key H public_key =
     (let body = drop (length ADDRESS_PREFIX) (legacy_address_from_public_key H public_key) in
      ADDRESS_PREFIX @ body @ address_checksum H body)"

definition is_valid_address :: "(string \<Rightarrow> string) \<Rightarrow> string option \<Rightarrow> bool" where
  "is_valid_address H address = (case address of
     None \<Rightarrow> False
   | Some a \<Rightarrow>
     let normalized = str_upper (str_strip a) in
     if address_pattern ADDRESS_HASH_LENGTH normalized then True
     else if \<not> address_pattern (ADDRESS_HASH_LENGTH + ADDRESS_CHECKSUM_LENGTH) normalized then False
     else
       let body = take ADDRESS_HASH_LENGTH (drop (length ADDRESS_PREFIX) normalized);
           checksum = drop (length normalized - ADDRESS_CHECKSUM_LENGTH) normalized in
       checksum = address_checksum H body)"

definition address_matches_public_key :: "(string \<Rightarrow> string) \<Rightarrow> string option \<Rightarrow> string option \<Rightarrow> bool" where
  "address_matches_public_key H address public_key = (case public_key of
     None \<Rightarrow> False
   | Some pk \<Rightarrow>
     if \<not> is_valid_address H address then False
     else
       let normalized = str_upper (str_strip (case address of Some a \<Rightarrow> a | None \<Rightarrow> [])) in
       normalized \<in> {address_from_public_key H pk, legacy_address_from_public_key H pk})"

definition normalize_chain_id :: "chain_id \<Rightarrow> chain_id" where
  "normalize_chain_id value = (case value of
     ChainInt i \<Rightarrow> ChainInt i
   | ChainStr s \<Rightarrow>
     let cleaned = str_strip s in
     if cleaned \<noteq> [] \<and> list_all is_digit cleaned then ChainInt (int (digits_val 0 cleaned)) else ChainStr cleaned)"

record wallet =
  w_version :: int
  w_name :: string
  w_address :: string
  w_public_key :: string
  w_private_key :: string
  w_network_id :: string
  w_chain_id :: chain_id
  w_created_at :: int

text \<open>\<open>create_wallet\<close> with the generated key pair as an argument. \<open>chain_id or CHAIN_ID\<close> falls
  back on a zero or empty chain id.\<close>

definition chain_truthy :: "chain_id \<Rightarrow> bool" where
  "chain_truthy c = (case c of ChainStr s \<Rightarrow> s \<noteq> [] | ChainInt i \<Rightarrow> i \<noteq> 0)"

definition create_wallet ::
  "(string \<Rightarrow> string) \<Rightarrow> settings \<Rightarrow> int \<Rightarrow> string \<times> string \<Rightarrow> string \<Rightarrow> string option \<Rightarrow> chain_id option \<Rightarrow> wallet" where
  "create_wallet H S clock keypair name network_id chain_id =
     (case keypair of (private_key, public_key) \<Rightarrow>
     \<lparr>w_version = 1, w_name = name, w_address = address_from_public_key H public_key,
      w_public_key = public_key, w_private_key = private_key,
      w_network_id = str_or network_id (np_network_id (st_profile S)),
      w_chain_id = normalize_chain_id (case chain_id of
        None \<Rightarrow> np_chain_id (st_profile S)
      | Some c \<Rightarrow> if chain_truthy c then c else np_chain_id (st_profile S)),
      w_created_at = clock\<rparr>)"

section \<open>The signed payload\<close>

text \<open>The dictionary \<open>unsigned_transaction_payload\<close> builds, and its renderings. An absent key is
  \<open>None\<close>; the inner option of \<open>u_recipient\<close> is the null recipient. \<open>'p\<close> is the type of
  the application payload.\<close>

record 'p unsigned_tx =
  u_amount :: amount
  u_amount_units :: "int option"
  u_chain_id :: chain_id
  u_fee :: amount
  u_fee_units :: "int option"
  u_network_id :: string
  u_nonce :: int
  u_payload :: 'p
  u_recipient :: "string option option"
  u_sender :: string
  u_timestamp :: string
  u_tx_type :: string

definition unsigned_transaction_payload ::
  "string \<Rightarrow> string \<Rightarrow> int \<Rightarrow> amount \<Rightarrow> string option \<Rightarrow> amount \<Rightarrow> 'p \<Rightarrow> string \<Rightarrow> string \<Rightarrow> chain_id \<Rightarrow>
   'p unsigned_tx result" where
  "unsigned_transaction_payload tx_type sender nonce fee recipient amount payload timestamp network_id chain_id =
     bindE (to_units amount) (\<lambda>amount_units.
     bindE (to_units fee) (\<lambda>fee_units.
     Inr \<lparr>u_amount = StrA (canonical_amount amount_units), u_amount_units = Some amount_units,
        u_chain_id = chain_id, u_fee = StrA (canonical_amount fee_units), u_fee_units = Some fee_units,
        u_network_id = network_id, u_nonce = nonce, u_payload = payload, u_recipient = Some recipient,
        u_sender = sender, u_timestamp = timestamp, u_tx_type = tx_type\<rparr>))"

definition ends_with :: "string \<Rightarrow> string \<Rightarrow> bool" where
  "ends_with suf s \<longleftrightarrow> length suf \<le> length s \<and> drop (length s - length suf) s = suf"

definition chop :: "nat \<Rightarrow> string \<Rightarrow> string" where
  "chop n s = take (length s - n) s"

text \<open>The last dot splits \<open>prefix\<close> into whole and fraction (\<open>rsplit('.', 1)\<close>).\<close>

definition rsplit_dot :: "string \<Rightarrow> string \<times> string" where
  "rsplit_dot s =
     (let fraction = rev (takeWhile (\<lambda>c. c \<noteq> CHR ''.'') (rev s)) in
      (take (length s - length fraction - 1) s, fraction))"

definition rstrip0 :: "string \<Rightarrow> string" where
  "rstrip0 s = rev (dropWhile (\<lambda>c. c = CHR ''0'') (rev s))"

definition compact_variants :: "string \<Rightarrow> string \<Rightarrow> string list" where
  "compact_variants suffix value =
     (if ends_with suffix value \<and> CHR ''.'' \<in> set (chop (length suffix) value) then
        (let (whole, fraction) = rsplit_dot (chop (length suffix) value); trimmed = rstrip0 fraction in
         if trimmed = [] then []
         else
           let compact = whole @ ''.'' @ trimmed @ suffix in
           [compact, if ends_with ''Z'' compact then chop 1 compact @ ''+00:00'' else chop 6 compact @ ''Z''])
      else [])"

definition timestamp_variants :: "string \<Rightarrow> string list" where
  "timestamp_variants value =
     value #
     (if ends_with ''Z'' value then [chop 1 value @ ''+00:00'']
      else if ends_with ''+00:00'' value then [chop 6 value @ ''Z''] else []) @
     compact_variants ''Z'' value @ compact_variants ''+00:00'' value"

definition chain_id_variants :: "chain_id \<Rightarrow> chain_id list" where
  "chain_id_variants value = value # (case value of
     ChainInt i \<Rightarrow> [ChainStr (show_int i)]
   | ChainStr s \<Rightarrow> if s \<noteq> [] \<and> list_all is_digit s then [ChainInt (int (digits_val 0 s))] else [])"

definition money_variants :: "amount \<Rightarrow> int option \<Rightarrow> amount list" where
  "money_variants value units = value # (case units of
     None \<Rightarrow> [] | Some u \<Rightarrow> [FloatA (units_to_float u), StrA (canonical_amount u)])"

definition unit_modes :: "'p unsigned_tx \<Rightarrow> 'p unsigned_tx list" where
  "unit_modes payload = payload #
     (if u_amount_units payload \<noteq> None \<or> u_fee_units payload \<noteq> None
      then [payload\<lparr>u_amount_units := None, u_fee_units := None\<rparr>] else [])"

definition recipient_modes :: "'p unsigned_tx \<Rightarrow> 'p unsigned_tx list" where
  "recipient_modes payload = payload #
     (if u_recipient payload = Some None then [payload\<lparr>u_recipient := None\<rparr>] else [])"

text \<open>The nested loops; \<open>seen\<close> drops a rendering that was already added, the first occurrence
  stays.\<close>

definition transaction_signature_payload_candidates :: "'p unsigned_tx \<Rightarrow> 'p unsigned_tx list" where
  "transaction_signature_payload_candidates base =
     rev (remdups (rev
       [recipient_payload.
          timestamp \<leftarrow> timestamp_variants (u_timestamp base),
          chain_id \<leftarrow> chain_id_variants (u_chain_id base),
          amount \<leftarrow> money_variants (u_amount base) (u_amount_units base),
          fee \<leftarrow> money_variants (u_fee base) (u_fee_units base),
          unit_payload \<leftarrow> unit_modes (base\<lparr>u_amount := amount, u_chain_id := chain_id, u_fee := fee,
                                          u_timestamp := timestamp\<rparr>),
          recipient_payload \<leftarrow> recipient_modes unit_payload]))"

text \<open>What the node uses of \<open>hashlib\<close>, \<open>json\<close> and \<open>cryptography\<close>: the digest of a text, the
  digest of the JSON text of \<open>{"public_key": \<dots>, "tx": \<dots>}\<close>, and the verification of a
  signature over the JSON text of a payload.\<close>

record 'p crypto =
  sha256_text :: "string \<Rightarrow> string"
  payload_digest :: "'p unsigned_tx \<Rightarrow> string \<Rightarrow> string"
  verify_signature :: "string \<Rightarrow> 'p unsigned_tx \<Rightarrow> string \<Rightarrow> bool"

definition transaction_hash :: "'p crypto \<Rightarrow> 'p unsigned_tx \<Rightarrow> string \<Rightarrow> string" where
  "transaction_hash C unsigned_payload public_key = payload_digest C unsigned_payload public_key"

definition matching_transaction_signature_payload ::
  "'p crypto \<Rightarrow> 'p unsigned_tx \<Rightarrow> string \<Rightarrow> string \<Rightarrow> 'p unsigned_tx option" where
  "matching_transaction_signature_payload C unsigned_payload public_key tx_hash =
     List.find (\<lambda>candidate. transaction_hash C candidate public_key = tx_hash)
       (transaction_signature_payload_candidates unsigned_payload)"

section \<open>Derived addresses\<close>

text \<open>The shape of a SHA-256 hex digest.\<close>

definition hex_digits :: "char set" where
  "hex_digits = set ''0123456789abcdef''"

definition hex_digest :: "(string \<Rightarrow> string) \<Rightarrow> bool" where
  "hex_digest H \<longleftrightarrow> (\<forall>s. length (H s) = 64 \<and> set (H s) \<subseteq> hex_digits)"

lemma hex_upper_upper: "c \<in> hex_digits \<Longrightarrow> hex_upper (char_upper c)"
  by (auto simp: hex_digits_def hex_upper_def char_upper_def Let_def)

lemma char_upper_hex: "hex_upper c \<Longrightarrow> char_upper c = c"
  by (auto simp: hex_upper_def char_upper_def Let_def)

lemma hex_not_space: "hex_upper c \<Longrightarrow> \<not> is_space c"
  by (auto simp: hex_upper_def is_space_def Let_def)

lemma str_upper_hex: "list_all hex_upper s \<Longrightarrow> str_upper s = s"
  by (induction s) (auto simp: str_upper_def char_upper_hex)

lemma str_strip_id: "s \<noteq> [] \<Longrightarrow> \<not> is_space (hd s) \<Longrightarrow> \<not> is_space (last s) \<Longrightarrow> str_strip s = s"
  by (simp add: str_strip_def dropWhile_eq_self hd_rev)

lemma str_upper_append: "str_upper (s @ t) = str_upper s @ str_upper t"
  by (simp add: str_upper_def)

lemma str_upper_prefix: "str_upper ADDRESS_PREFIX = ADDRESS_PREFIX"
  by (simp add: str_upper_def ADDRESS_PREFIX_def char_upper_def)

text \<open>An address made of the prefix and hexadecimal digits is in normal form.\<close>

lemma normal_address:
  assumes "list_all hex_upper t" and "t \<noteq> []"
  shows "str_upper (str_strip (ADDRESS_PREFIX @ t)) = ADDRESS_PREFIX @ t"
proof -
  have "\<not> is_space (last t)" using assms hex_not_space by (simp add: list_all_iff)
  then have "str_strip (ADDRESS_PREFIX @ t) = ADDRESS_PREFIX @ t"
    using assms(2) by (intro str_strip_id) (simp_all add: ADDRESS_PREFIX_def is_space_def)
  then show ?thesis by (simp add: str_upper_append str_upper_prefix str_upper_hex assms(1))
qed

lemma digest_hex:
  assumes "hex_digest H"
  shows "list_all hex_upper (take n (str_upper (H s)))" and "n \<le> 64 \<Longrightarrow> length (take n (str_upper (H s))) = n"
proof -
  have "list_all hex_upper (str_upper (H s))"
    unfolding list_all_iff str_upper_def
  proof
    fix c assume "c \<in> set (map char_upper (H s))"
    then obtain d where "d \<in> set (H s)" "c = char_upper d" by auto
    then show "hex_upper c" using assms hex_upper_upper by (auto simp: hex_digest_def)
  qed
  then show "list_all hex_upper (take n (str_upper (H s)))"
    by (auto simp: list_all_iff dest: in_set_takeD)
  show "n \<le> 64 \<Longrightarrow> length (take n (str_upper (H s))) = n" using assms by (simp add: hex_digest_def str_upper_def)
qed

lemma address_pattern_prefix:
  "address_pattern n (ADDRESS_PREFIX @ t) \<longleftrightarrow> length t = n \<and> list_all hex_upper t"
  by (auto simp: address_pattern_def ADDRESS_PREFIX_def)

section \<open>The renderings of a payload\<close>

lemma remdups_snoc: "\<exists>zs. remdups (ys @ [b]) = zs @ [b]"
  by (induction ys) auto

lemma rev_remdups_Cons: "\<exists>zs. rev (remdups (rev (b # xs))) = b # zs"
proof -
  have "\<exists>ws. remdups (rev xs @ [b]) = ws @ [b]" by (rule remdups_snoc)
  then obtain ws where ws: "remdups (rev xs @ [b]) = ws @ [b]" ..
  have "rev (remdups (rev (b # xs))) = b # rev ws"
    by (simp only: rev.simps rev_append append_Nil append_Cons ws)
  then show ?thesis ..
qed

text \<open>The first rendering is the payload itself.\<close>

lemma candidates_hd: "\<exists>zs. transaction_signature_payload_candidates base = base # zs"
proof -
  have b: "base\<lparr>u_amount := u_amount base, u_chain_id := u_chain_id base, u_fee := u_fee base,
      u_timestamp := u_timestamp base\<rparr> = base" by simp
  show ?thesis
    unfolding transaction_signature_payload_candidates_def timestamp_variants_def chain_id_variants_def
      money_variants_def unit_modes_def recipient_modes_def
    by (simp only: list.map concat.simps append_Cons append_Nil b rev_remdups_Cons)
qed

text \<open>A hash computed from the payload is found at once.\<close>

lemma matching_own_payload:
  "payload_digest C u pk = h \<Longrightarrow> matching_transaction_signature_payload C u pk h = Some u"
  using candidates_hd [of u] by (auto simp: matching_transaction_signature_payload_def transaction_hash_def)

lemma base_is_candidate: "base \<in> set (transaction_signature_payload_candidates base)"
  using candidates_hd [of base] by auto

text \<open>What every rendering keeps of the payload.\<close>

lemma candidate_fields:
  assumes "c \<in> set (transaction_signature_payload_candidates base)"
  shows "u_sender c = u_sender base" "u_nonce c = u_nonce base" "u_tx_type c = u_tx_type base"
    "u_payload c = u_payload base" "u_network_id c = u_network_id base"
    "u_amount c \<in> set (money_variants (u_amount base) (u_amount_units base))"
    "u_fee c \<in> set (money_variants (u_fee base) (u_fee_units base))"
    "u_recipient c = u_recipient base \<or> u_recipient base = Some None \<and> u_recipient c = None"
    "u_timestamp c \<in> set (timestamp_variants (u_timestamp base))"
    "u_chain_id c \<in> set (chain_id_variants (u_chain_id base))"
    "u_amount_units c = u_amount_units base \<and> u_fee_units c = u_fee_units base \<or>
     u_amount_units c = None \<and> u_fee_units c = None"
  using assms unfolding transaction_signature_payload_candidates_def set_rev set_remdups set_concat set_map
  by (auto simp: unit_modes_def recipient_modes_def split: if_splits)

section \<open>Properties\<close>

text \<open>Both address forms of a key.\<close>

lemma derived_addresses:
  assumes "hex_digest H"
  shows "is_valid_address H (Some (address_from_public_key H pk)) \<and>
    address_matches_public_key H (Some (address_from_public_key H pk)) (Some pk) \<and>
    is_valid_address H (Some (legacy_address_from_public_key H pk)) \<and>
    address_matches_public_key H (Some (legacy_address_from_public_key H pk)) (Some pk) \<and>
    length (address_from_public_key H pk) = 48"
proof -
  define body where "body = take 38 (str_upper (H pk))"
  define checksum where "checksum = take 8 (str_upper (H body))"
  have b: "list_all hex_upper body" "length body = 38" "list_all hex_upper checksum" "length checksum = 8"
    using digest_hex [OF assms] by (simp_all add: body_def checksum_def)
  have legacy: "legacy_address_from_public_key H pk = ADDRESS_PREFIX @ body"
    by (simp add: legacy_address_from_public_key_def body_def ADDRESS_HASH_LENGTH_def)
  have full: "address_from_public_key H pk = ADDRESS_PREFIX @ body @ checksum"
    by (simp add: address_from_public_key_def legacy address_checksum_def checksum_def ADDRESS_CHECKSUM_LENGTH_def)
  have ne: "body \<noteq> []" "body @ checksum \<noteq> []" using b(2) by auto
  have nl: "str_upper (str_strip (ADDRESS_PREFIX @ body)) = ADDRESS_PREFIX @ body"
    by (rule normal_address [OF b(1) ne(1)])
  have nf: "str_upper (str_strip (ADDRESS_PREFIX @ body @ checksum)) = ADDRESS_PREFIX @ body @ checksum"
    using b by (intro normal_address ne(2)) simp
  have l2: "length ADDRESS_PREFIX = 2" by (simp add: ADDRESS_PREFIX_def)
  have v1: "is_valid_address H (Some (ADDRESS_PREFIX @ body))"
    using b by (simp add: is_valid_address_def nl address_pattern_prefix ADDRESS_HASH_LENGTH_def)
  have v2: "is_valid_address H (Some (ADDRESS_PREFIX @ body @ checksum))"
    using b by (simp add: is_valid_address_def nf address_pattern_prefix ADDRESS_HASH_LENGTH_def
        ADDRESS_CHECKSUM_LENGTH_def l2 address_checksum_def checksum_def [symmetric] Let_def)
  show ?thesis
    using v1 v2 b l2 by (simp add: legacy full address_matches_public_key_def nl nf Let_def)
qed

lemma derived_address_matches:
  "hex_digest H \<Longrightarrow> address_matches_public_key H (Some (address_from_public_key H pk)) (Some pk)"
  using derived_addresses by blast

text \<open>The address a key pair yields is valid and belongs to its key, in both address formats, when
  digests are texts of 64 hexadecimal digits.\<close>

theorem derived_address_valid:
  assumes "hex_digest H"
  shows "is_valid_address H (Some (address_from_public_key H pk)) \<and>
    address_matches_public_key H (Some (address_from_public_key H pk)) (Some pk) \<and>
    is_valid_address H (Some (legacy_address_from_public_key H pk)) \<and>
    address_matches_public_key H (Some (legacy_address_from_public_key H pk)) (Some pk) \<and>
    length (address_from_public_key H pk) = 48"
  using derived_addresses [OF assms] .

theorem derived_address_valid_witness:
  "is_valid_address (\<lambda>s. replicate 64 CHR ''a'')
     (Some (address_from_public_key (\<lambda>s. replicate 64 CHR ''a'') ''key''))"
  using derived_address_valid [of "\<lambda>s. replicate 64 CHR ''a''" "''key''"] by (simp add: hex_digest_def hex_digits_def)

text \<open>C21: a transaction hash is accepted exactly when it is the digest of a rendering of the payload,
  the hash \<open>sign_transaction\<close> computes is accepted, and the rendering found differs from the payload in
  notation only: sender, nonce, type, network and application payload are the same, the recipient too
  except that a missing one may be left out, and amount, fee, timestamp and chain identifier are one of
  the listed notations of theirs, the unit counts both kept or both left out.\<close>

theorem matching_payload_sound:
  "(matching_transaction_signature_payload C u pk h = None \<longleftrightarrow>
      (\<forall>c \<in> set (transaction_signature_payload_candidates u). transaction_hash C c pk \<noteq> h)) \<and>
   matching_transaction_signature_payload C u pk (transaction_hash C u pk) \<noteq> None \<and>
   (\<forall>c. matching_transaction_signature_payload C u pk h = Some c \<longrightarrow>
      transaction_hash C c pk = h \<and> u_sender c = u_sender u \<and> u_nonce c = u_nonce u \<and>
      u_tx_type c = u_tx_type u \<and> u_network_id c = u_network_id u \<and> u_payload c = u_payload u \<and>
      (u_recipient c = u_recipient u \<or> u_recipient u = Some None \<and> u_recipient c = None) \<and>
      u_amount c \<in> set (money_variants (u_amount u) (u_amount_units u)) \<and>
      u_fee c \<in> set (money_variants (u_fee u) (u_fee_units u)) \<and>
      u_timestamp c \<in> set (timestamp_variants (u_timestamp u)) \<and>
      u_chain_id c \<in> set (chain_id_variants (u_chain_id u)) \<and>
      (u_amount_units c = u_amount_units u \<and> u_fee_units c = u_fee_units u \<or>
       u_amount_units c = None \<and> u_fee_units c = None))"
proof (intro conjI allI impI)
  show "matching_transaction_signature_payload C u pk h = None \<longleftrightarrow>
      (\<forall>c \<in> set (transaction_signature_payload_candidates u). transaction_hash C c pk \<noteq> h)"
    by (auto simp: matching_transaction_signature_payload_def find_None_iff)
  show "matching_transaction_signature_payload C u pk (transaction_hash C u pk) \<noteq> None"
    using base_is_candidate [of u] by (auto simp: matching_transaction_signature_payload_def find_None_iff)
  fix c assume "matching_transaction_signature_payload C u pk h = Some c"
  then have c: "c \<in> set (transaction_signature_payload_candidates u)" and h: "transaction_hash C c pk = h"
    by (auto simp: matching_transaction_signature_payload_def find_Some_iff in_set_conv_nth)
  show "transaction_hash C c pk = h" by (rule h)
  note f = candidate_fields [OF c]
  show "u_sender c = u_sender u" "u_nonce c = u_nonce u" "u_tx_type c = u_tx_type u" "u_network_id c = u_network_id u"
    "u_payload c = u_payload u" "u_recipient c = u_recipient u \<or> u_recipient u = Some None \<and> u_recipient c = None"
    "u_amount c \<in> set (money_variants (u_amount u) (u_amount_units u))"
    "u_fee c \<in> set (money_variants (u_fee u) (u_fee_units u))"
    "u_timestamp c \<in> set (timestamp_variants (u_timestamp u))" "u_chain_id c \<in> set (chain_id_variants (u_chain_id u))"
    "u_amount_units c = u_amount_units u \<and> u_fee_units c = u_fee_units u \<or>
     u_amount_units c = None \<and> u_fee_units c = None"
    by (rule f)+
qed

theorem matching_payload_sound_witness:
  "\<exists>C :: unit crypto. \<exists>u c. matching_transaction_signature_payload C u ''pk'' (transaction_hash C u ''pk'') = Some c \<and>
     u_nonce c = u_nonce u"
proof -
  define C :: "unit crypto" where "C = \<lparr>sha256_text = (\<lambda>s. s), payload_digest = (\<lambda>u pk. u_sender u @ pk),
    verify_signature = (\<lambda>_ _ _. True)\<rparr>"
  define u :: "unit unsigned_tx" where "u = \<lparr>u_amount = StrA ''1.000000'', u_amount_units = Some 1000000,
    u_chain_id = ChainInt 1, u_fee = StrA ''0.000000'', u_fee_units = Some 0, u_network_id = ''local'', u_nonce = 1,
    u_payload = (), u_recipient = Some None, u_sender = ''PIA'', u_timestamp = ''t'', u_tx_type = ''transfer''\<rparr>"
  obtain c where "matching_transaction_signature_payload C u ''pk'' (transaction_hash C u ''pk'') = Some c"
    using matching_payload_sound [of C u "''pk''" "transaction_hash C u ''pk''"] by blast
  then show ?thesis
    using matching_payload_sound [of C u "''pk''" "transaction_hash C u ''pk''"] by blast
qed

end
