(* ===== verification/Json.thy ===== *)
theory Json
  imports Money
begin

text \<open>
  \<open>canonical_json\<close> of \<open>app/core/crypto.py\<close>: \<open>json.dumps\<close> with sorted keys and no
  blanks, on the values whose hashes the program compares; \<open>float_text\<close> is \<open>repr\<close> of a
  float. Characters are the code
  points below 256; \<open>ensure_ascii\<close> escapes those from 127 on. The lemmas show that the string
  encoding is prefix-free, so that an object with string members determines them; this is what
  makes hash equality meaningful for the Merkle trees built on top. \<open>hash_result\<close> is the
  digest a miner commits to.
\<close>

datatype json = JNull | JBool bool | JInt int | JFloat pyfloat | JStr string | JList "json list"
  | JObj "(string \<times> json) list"

definition hex_lower :: "nat \<Rightarrow> char" where
  "hex_lower n = (if n < 10 then char_of (48 + n) else char_of (87 + n))"

definition quote_c :: char where "quote_c = CHR 0x22"

definition bslash :: char where "bslash = CHR 0x5C"

text \<open>One character of \<open>json.encoder.py_encode_basestring_ascii\<close>.\<close>

definition esc_char :: "char \<Rightarrow> string" where
  "esc_char c = (let n = of_char c :: nat in
     if n = 34 then [bslash, quote_c]
     else if n = 92 then [bslash, bslash]
     else if n = 10 then [bslash, CHR ''n'']
     else if n = 13 then [bslash, CHR ''r'']
     else if n = 9 then [bslash, CHR ''t'']
     else if n = 8 then [bslash, CHR ''b'']
     else if n = 12 then [bslash, CHR ''f'']
     else if n < 32 \<or> 126 < n
     then [bslash, CHR ''u'', CHR ''0'', CHR ''0'', hex_lower (n div 16), hex_lower (n mod 16)]
     else [c])"

definition esc_string :: "string \<Rightarrow> string" where
  "esc_string s = concat (map esc_char s)"

definition json_str :: "string \<Rightarrow> string" where
  "json_str s = quote_c # esc_string s @ [quote_c]"

fun join_comma :: "string list \<Rightarrow> string" where
  "join_comma [] = []"
| "join_comma [s] = s"
| "join_comma (s # t # ts) = s @ CHR '','' # join_comma (t # ts)"

text \<open>
  \<open>float.__repr__\<close>: the digits of the shortest decimal that reads back, with an exponent below
  \<open>1e-04\<close> and from \<open>1e+16\<close> on.
\<close>

definition decimal_exponent :: "rat \<Rightarrow> int" where
  "decimal_exponent a =
     (case List.find (\<lambda>e. 10 powi e \<le> a \<and> a < 10 powi (e + 1)) [- 330..310] of Some e \<Rightarrow> e | None \<Rightarrow> 0)"

definition decimal_digits :: "rat \<Rightarrow> string" where
  "decimal_digits m =
     (case List.find (\<lambda>j. snd (quotient_of (m * 10 ^ j)) = 1) [0..<25] of
        Some j \<Rightarrow> show_nat (nat \<lfloor>m * 10 ^ j\<rfloor>) | None \<Rightarrow> [])"

definition fixed_text :: "string \<Rightarrow> int \<Rightarrow> string" where
  "fixed_text ds e =
     (if e < 0 then ''0.'' @ replicate (nat (- e - 1)) CHR ''0'' @ ds
      else let n = nat (e + 1) in
        if length ds \<le> n then ds @ replicate (n - length ds) CHR ''0'' @ ''.0''
        else take n ds @ ''.'' @ drop n ds)"

definition exponent_text :: "string \<Rightarrow> int \<Rightarrow> string" where
  "exponent_text ds e =
     hd ds # (if tl ds = [] then [] else CHR ''.'' # tl ds) @ ''e'' @ (if e < 0 then ''-'' else ''+'') @
     (if \<bar>e\<bar> < 10 then ''0'' else []) @ show_int \<bar>e\<bar>"

definition float_text :: "pyfloat \<Rightarrow> string" where
  "float_text x =
     (if x = 0 then ''0.0''
      else let a = \<bar>py_repr x\<bar>; e = decimal_exponent a; ds = decimal_digits (a / 10 powi e) in
        (if x < 0 then ''-'' else []) @ (if - 4 \<le> e \<and> e < 16 then fixed_text ds e else exponent_text ds e))"

fun canonical_json :: "json \<Rightarrow> string" where
  "canonical_json JNull = ''null''"
| "canonical_json (JBool b) = (if b then ''true'' else ''false'')"
| "canonical_json (JInt i) = show_int i"
| "canonical_json (JFloat x) = float_text x"
| "canonical_json (JStr s) = json_str s"
| "canonical_json (JList xs) = ''['' @ join_comma (map canonical_json xs) @ '']''"
| "canonical_json (JObj kvs) = ''{'' @
     join_comma (map snd (sort_key fst
       (map (\<lambda>(k, v). (k, json_str k @ CHR '':'' # canonical_json v)) kvs))) @ ''}''"

text \<open>\<open>hash_result(segment, range_start, range_end, algorithm)\<close>; \<open>H\<close> is the SHA-256 hex
  digest of \<open>hashlib\<close>.\<close>

definition hash_result ::
  "(string \<Rightarrow> string) \<Rightarrow> string \<Rightarrow> int \<Rightarrow> int \<Rightarrow> string \<Rightarrow> string" where
  "hash_result H segment range_start range_end algorithm =
     H (canonical_json (JObj [(''algorithm'', JStr algorithm), (''range_end'', JInt range_end),
       (''range_start'', JInt range_start), (''segment'', JStr segment)]))"

section \<open>The encoding of strings is prefix-free\<close>

definition hex_val :: "char \<Rightarrow> nat" where
  "hex_val c = (let n = of_char c :: nat in if n < 58 then n - 48 else n - 87)"

lemma hex_val_lower [simp]: "n < 16 \<Longrightarrow> hex_val (hex_lower n) = n"
  by (auto simp: hex_val_def hex_lower_def Let_def)

text \<open>Reading one escaped character back.\<close>

definition unesc_char :: "string \<Rightarrow> char \<times> string" where
  "unesc_char s =
     (if hd s = bslash then
        (let k = s ! 1 in
         if k = CHR ''u'' then (char_of (16 * hex_val (s ! 4) + hex_val (s ! 5)), drop 6 s)
         else (if k = CHR ''n'' then char_of (10::nat) else if k = CHR ''r'' then char_of (13::nat)
               else if k = CHR ''t'' then char_of (9::nat) else if k = CHR ''b'' then char_of (8::nat)
               else if k = CHR ''f'' then char_of (12::nat) else k, drop 2 s))
      else (hd s, drop 1 s))"

lemma of_char_less [simp]: "(of_char c :: nat) < 256"
  by (metis of_char_mod_256 mod_less_divisor zero_less_numeral)

lemma unesc_esc: "unesc_char (esc_char c @ r) = (c, r)"
proof -
  define n where "n = (of_char c :: nat)"
  have c: "c = char_of n" by (simp add: n_def)
  have n: "n < 256" by (simp add: n_def)
  have b: "bslash = CHR 0x5C" "quote_c = CHR 0x22" by (simp_all add: bslash_def quote_c_def)
  consider "n \<in> {34, 92, 10, 13, 9, 8, 12}"
    | "n \<notin> {34, 92, 10, 13, 9, 8, 12}" "n < 32 \<or> 126 < n"
    | "n \<notin> {34, 92, 10, 13, 9, 8, 12}" "\<not> (n < 32 \<or> 126 < n)" by blast
  then show ?thesis
  proof cases
    case 1
    then show ?thesis
      unfolding esc_char_def Let_def n_def [symmetric] by (auto simp: unesc_char_def b c) code_simp+
  next
    case 2
    then have e: "esc_char c = [bslash, CHR ''u'', CHR ''0'', CHR ''0'', hex_lower (n div 16), hex_lower (n mod 16)]"
      unfolding esc_char_def Let_def n_def [symmetric] by auto
    have "n div 16 < 16" using n by (simp add: less_mult_imp_div_less)
    then show ?thesis by (simp add: e unesc_char_def) (simp add: c bslash_def)
  next
    case 3
    then have e: "esc_char c = [c]"
      unfolding esc_char_def Let_def n_def [symmetric] by auto
    have "c \<noteq> bslash" using 3 by (auto simp: n_def bslash_def)
    then show ?thesis by (simp add: e unesc_char_def)
  qed
qed

lemma esc_char_hd: "\<exists>d ds. esc_char c = d # ds \<and> d \<noteq> quote_c"
  by (auto simp: esc_char_def Let_def bslash_def quote_c_def)

lemma esc_string_simps [simp]:
  "esc_string [] = []" "esc_string (c # s) = esc_char c @ esc_string s"
  by (simp_all add: esc_string_def)

lemma esc_string_prefix_free:
  "esc_string s @ quote_c # r = esc_string s' @ quote_c # r' \<Longrightarrow> s = s' \<and> r = r'"
proof (induction s arbitrary: s')
  case Nil
  show ?case
  proof (cases s')
    case (Cons c t)
    then show ?thesis using Nil.prems esc_char_hd [of c] by auto
  qed (use Nil in simp)
next
  case (Cons c s)
  show ?case
  proof (cases s')
    case Nil
    then show ?thesis using Cons.prems esc_char_hd [of c] by auto
  next
    case (Cons c' t)
    then have e: "esc_char c @ (esc_string s @ quote_c # r) = esc_char c' @ (esc_string t @ quote_c # r')"
      using Cons.prems by simp
    then have "unesc_char (esc_char c @ (esc_string s @ quote_c # r)) =
        unesc_char (esc_char c' @ (esc_string t @ quote_c # r'))" by simp
    then have "c = c'" "esc_string s @ quote_c # r = esc_string t @ quote_c # r'"
      unfolding unesc_esc by simp_all
    then show ?thesis using Cons Cons.IH [of t] by simp
  qed
qed

lemma json_str_prefix_free: "json_str s @ r = json_str s' @ r' \<longleftrightarrow> s = s' \<and> r = r'"
  using esc_string_prefix_free [of s r s' r'] by (auto simp: json_str_def)

lemma json_str_inject [simp]: "json_str s = json_str s' \<longleftrightarrow> s = s'"
  using json_str_prefix_free [of s "[]" s' "[]"] by simp

end
