(* ===== verification/TxRules.thy ===== *)
theory TxRules
  imports ScienceProps Wallet Json
begin

text \<open>
  The rules a transaction must satisfy before it enters a block
  (\<open>_transaction_rejection_reason\<close> and its helpers in \<open>app/services/transactions.py\<close>), with
  the tables they read. A transaction is the dictionary \<open>decode_mempool_transaction\<close> yields or
  a peer sends: amounts may be floats, integers or texts, the unit counts may be missing. The
  application payload maps keys to the scalar values of JSON; a container stands for itself only as
  \<open>VOther\<close> and is read as no text. What the node takes from its surroundings is a field of
  \<open>node_env\<close>: settings, cryptography, \<open>datetime.fromisoformat\<close> (\<open>None\<close> is its ValueError),
  the clock and its text.
\<close>

section \<open>Transactions and tables\<close>

datatype pvalue = VNull | VBool bool | VInt int | VFloat pyfloat | VText string | VOther

type_synonym payload = "(string \<times> pvalue) list"

record tx =
  x_tx_hash :: string
  x_tx_type :: string
  x_sender :: string
  x_recipient :: "string option"
  x_amount :: amount
  x_amount_units :: "int option"
  x_nonce :: int
  x_fee :: amount
  x_fee_units :: "int option"
  x_payload :: payload
  x_public_key :: string
  x_signature :: string
  x_timestamp :: string
  x_network_id :: "string option"
  x_chain_id :: "chain_id option"

record nonce_row =
  an_account_id :: string
  an_nonce :: int
  an_updated_at :: int

record mempool_row =
  m_tx_hash :: string
  m_tx_type :: string
  m_sender :: string
  m_recipient :: "string option"
  m_amount :: pyfloat
  m_amount_units :: int
  m_nonce :: int
  m_fee :: pyfloat
  m_fee_units :: int
  m_payload :: "payload unsigned_tx"
  m_public_key :: string
  m_signature :: string
  m_status :: string
  m_selected_task_id :: "string option"
  m_selected_block_height :: "int option"
  m_mempool_snapshot_id :: "string option"
  m_selected_at :: "int option"
  m_confirmed_at :: "int option"
  m_released_at :: "int option"
  m_failure_reason :: "string option"
  m_propagated :: bool
  m_block_height :: "int option"
  m_rejection_reason :: "string option"
  m_expires_at :: int
  m_created_at :: int
  m_updated_at :: int

record validator_row =
  v_validator_id :: string
  v_name :: string
  v_public_key :: string
  v_reward_address :: "string option"
  v_registered_at :: int
  v_accepted_jobs :: int
  v_trust_score :: pyfloat
  v_last_seen_at :: "int option"
  v_stake_locked :: pyfloat
  v_wallet_stake_locked :: pyfloat
  v_stake_owner_address :: "string option"
  v_is_banned :: bool
  v_enabled :: bool
  v_online_status :: string
  v_sync_status :: string
  v_reason_if_not_eligible :: "string option"
  v_protocol_version :: string
  v_rejected_jobs :: int
  v_invalid_results :: int
  v_cooldown_until :: "int option"
  v_total_validation_ms :: int
  v_slashed_amount :: pyfloat
  v_node_id :: "string option"
  v_advertised_address :: "string option"

record db_chain = db_science +
  account_nonces :: "nonce_row list"
  mempool_transactions :: "mempool_row list"
  validators :: "validator_row list"

record node_env =
  ne_settings :: settings
  ne_crypto :: "payload crypto"
  ne_iso :: "string \<Rightarrow> int option"
  ne_clock :: int
  ne_now_iso :: string

definition SUPPORTED_BLOCK_TX_TYPES :: "string list" where
  "SUPPORTED_BLOCK_TX_TYPES = [''transfer'', ''stake'', ''unstake'', ''science_job_create'',
     ''governance_action'', ''treasury_claim'', ''faucet'']"

definition NETWORK_ID :: "node_env \<Rightarrow> string" where
  "NETWORK_ID E = np_network_id (st_profile (ne_settings E))"

definition CHAIN_ID :: "node_env \<Rightarrow> chain_id" where
  "CHAIN_ID E = np_chain_id (st_profile (ne_settings E))"

definition FAUCET_MAX_AMOUNT :: pyfloat where "FAUCET_MAX_AMOUNT = fl 3.1416"

definition FAUCET_RATE_LIMIT_WINDOW_SECONDS :: int where "FAUCET_RATE_LIMIT_WINDOW_SECONDS = 60 * 60"

definition FAUCET_RATE_LIMIT_MAX_REQUESTS :: nat where "FAUCET_RATE_LIMIT_MAX_REQUESTS = 3"

section \<open>Reading a transaction\<close>

text \<open>\<open>float(x)\<close> on an amount.\<close>

definition py_float :: "amount \<Rightarrow> pyfloat result" where
  "py_float v = (case v of
     FloatA x \<Rightarrow> Inr x
   | IntA i \<Rightarrow> Inr (fl (of_int i))
   | DecA d \<Rightarrow> Inr (fl d)
   | NoneA \<Rightarrow> Inl TypeError
   | StrA s \<Rightarrow> (case parse_decimal (str_strip s) of
       Some d \<Rightarrow> Inr (fl d) | None \<Rightarrow> Inl (ValueError ''could not convert string to float'')))"

text \<open>\<open>str(payload.get(key) or "")\<close>.\<close>

definition payload_text :: "string \<Rightarrow> payload \<Rightarrow> string" where
  "payload_text key p = (case map_of p key of
     Some (VText s) \<Rightarrow> s
   | Some (VInt i) \<Rightarrow> if i = 0 then [] else show_int i
   | Some (VFloat x) \<Rightarrow> if x = 0 then [] else float_text x
   | Some (VBool True) \<Rightarrow> ''True''
   | _ \<Rightarrow> [])"

text \<open>\<open>payload.get(key)\<close> where a number is expected.\<close>

definition payload_num :: "string \<Rightarrow> payload \<Rightarrow> pyfloat option result" where
  "payload_num key p = (case map_of p key of
     None \<Rightarrow> Inr None
   | Some VNull \<Rightarrow> Inr None
   | Some (VBool b) \<Rightarrow> Inr (Some (if b then 1 else 0))
   | Some (VInt i) \<Rightarrow> Inr (Some (fl (of_int i)))
   | Some (VFloat x) \<Rightarrow> Inr (Some x)
   | Some (VText s) \<Rightarrow> if s = [] then Inr (Some 0) else bindE (py_float (StrA s)) (\<lambda>x. Inr (Some x))
   | Some VOther \<Rightarrow> Inl TypeError)"

definition tx_amount_units :: "tx \<Rightarrow> int result" where
  "tx_amount_units tx = (case x_amount_units tx of Some u \<Rightarrow> Inr u | None \<Rightarrow> to_units (x_amount tx))"

definition tx_fee_units :: "tx \<Rightarrow> int result" where
  "tx_fee_units tx = (case x_fee_units tx of Some u \<Rightarrow> Inr u | None \<Rightarrow> to_units (x_fee tx))"

text \<open>\<open>round(float(tx.get("amount", 0)), 8)\<close>, and the same for the fee.\<close>

definition tx_amount :: "tx \<Rightarrow> pyfloat result" where
  "tx_amount tx = bindE (py_float (x_amount tx)) (\<lambda>x. Inr (py_round 8 x))"

definition tx_fee :: "tx \<Rightarrow> pyfloat result" where
  "tx_fee tx = bindE (py_float (x_fee tx)) (\<lambda>x. Inr (py_round 8 x))"

definition decode_mempool_transaction :: "mempool_row \<Rightarrow> tx" where
  "decode_mempool_transaction row =
     (let u = m_payload row;
          amount_units = (case u_amount_units u of Some a \<Rightarrow> a | None \<Rightarrow> m_amount_units row);
          fee_units = (case u_fee_units u of Some f \<Rightarrow> f | None \<Rightarrow> m_fee_units row) in
      \<lparr>x_tx_hash = m_tx_hash row, x_tx_type = u_tx_type u, x_sender = u_sender u,
       x_recipient = (case u_recipient u of Some r \<Rightarrow> r | None \<Rightarrow> m_recipient row),
       x_amount = FloatA (units_to_float amount_units), x_amount_units = Some amount_units,
       x_nonce = u_nonce u, x_fee = FloatA (units_to_float fee_units), x_fee_units = Some fee_units,
       x_payload = u_payload u, x_public_key = m_public_key row, x_signature = m_signature row,
       x_timestamp = u_timestamp u, x_network_id = Some (u_network_id u), x_chain_id = Some (u_chain_id u)\<rparr>)"

definition total_debit_units :: "tx \<Rightarrow> int result" where
  "total_debit_units tx =
     (if x_tx_type tx \<in> {''transfer'', ''stake''} then
        bindE (tx_amount_units tx) (\<lambda>a. bindE (tx_fee_units tx) (\<lambda>f. Inr (a + f)))
      else if x_tx_type tx = ''faucet'' then Inr 0
      else tx_fee_units tx)"

definition total_debit :: "tx \<Rightarrow> pyfloat result" where
  "total_debit tx = bindE (total_debit_units tx) (\<lambda>u. Inr (units_to_float u))"

text \<open>\<open>canonical_transaction_timestamp\<close>: a final Z is read as an offset of zero.\<close>

definition tx_timestamp :: "node_env \<Rightarrow> tx \<Rightarrow> int result" where
  "tx_timestamp E tx =
     (let t = x_timestamp tx; t' = (if ends_with ''Z'' t then chop 1 t @ ''+00:00'' else t) in
      case ne_iso E t' of Some n \<Rightarrow> Inr n | None \<Rightarrow> Inl (ValueError ''Invalid isoformat string''))"

definition canonical_transaction_expires_at :: "node_env \<Rightarrow> tx \<Rightarrow> int result" where
  "canonical_transaction_expires_at E tx =
     bindE (tx_timestamp E tx) (\<lambda>t. Inr (t + st_mempool_tx_ttl_seconds (ne_settings E) * SECOND))"

definition unsigned_from_tx :: "node_env \<Rightarrow> tx \<Rightarrow> payload unsigned_tx result" where
  "unsigned_from_tx E tx =
     bindE (tx_amount_units tx) (\<lambda>a. bindE (tx_fee_units tx) (\<lambda>f.
     unsigned_transaction_payload (x_tx_type tx) (x_sender tx) (x_nonce tx) (StrA (canonical_amount f))
       (x_recipient tx) (StrA (canonical_amount a)) (x_payload tx)
       (if x_timestamp tx = [] then ne_now_iso E else x_timestamp tx)
       (case x_network_id tx of Some n \<Rightarrow> n | None \<Rightarrow> NETWORK_ID E)
       (case x_chain_id tx of Some c \<Rightarrow> c | None \<Rightarrow> CHAIN_ID E)))"

definition chain_text :: "chain_id \<Rightarrow> string" where
  "chain_text c = (case c of ChainStr s \<Rightarrow> s | ChainInt i \<Rightarrow> show_int i)"

definition chain_matches :: "node_env \<Rightarrow> tx \<Rightarrow> bool" where
  "chain_matches E tx \<longleftrightarrow> x_network_id tx = Some (NETWORK_ID E) \<and>
     (case x_chain_id tx of None \<Rightarrow> chain_text (CHAIN_ID E) = ''None'' | Some c \<Rightarrow> chain_text c = chain_text (CHAIN_ID E))"

text \<open>The \<open>except\<close> clause catches every error of the modelled calls but decimal's
  \<open>InvalidOperation\<close>.\<close>

definition is_signature_valid :: "node_env \<Rightarrow> tx \<Rightarrow> bool result" where
  "is_signature_valid E tx = (case unsigned_from_tx E tx of
     Inl InvalidOperation \<Rightarrow> Inl InvalidOperation
   | Inl _ \<Rightarrow> Inr False
   | Inr u \<Rightarrow> (case matching_transaction_signature_payload (ne_crypto E) u (x_public_key tx) (x_tx_hash tx) of
       None \<Rightarrow> Inr False
     | Some signature_payload \<Rightarrow> Inr (chain_matches E tx \<and>
         address_matches_public_key (sha256_text (ne_crypto E)) (Some (x_sender tx)) (Some (x_public_key tx)) \<and>
         verify_signature (ne_crypto E) (x_public_key tx) signature_payload (x_signature tx))))"

section \<open>Balances and nonces\<close>

definition balance_units_of :: "string \<Rightarrow> 'a db_chain_scheme \<Rightarrow> int result" where
  "balance_units_of a db = (case find_balance a db of
     None \<Rightarrow> Inr 0 | Some r \<Rightarrow> units_from_db (FloatA (b_balance r)) (Some (b_balance_units r)))"

definition balance_of :: "string \<Rightarrow> 'a db_chain_scheme \<Rightarrow> pyfloat result" where
  "balance_of a db = bindE (balance_units_of a db) (\<lambda>u. Inr (units_to_float u))"

definition max_or_0 :: "int list \<Rightarrow> int" where
  "max_or_0 xs = (if xs = [] then 0 else Max (set xs))"

definition confirmed_nonce :: "string \<Rightarrow> 'a db_chain_scheme \<Rightarrow> int" where
  "confirmed_nonce a db =
     (let stored = (case tbl_find an_account_id a (account_nonces db) of Some r \<Rightarrow> an_nonce r | None \<Rightarrow> 0);
          mempool_nonce = max_or_0 (map m_nonce (filter (\<lambda>m. m_sender m = a \<and> m_status m = ''confirmed'')
            (mempool_transactions db))) in
      max stored mempool_nonce)"

text \<open>The first nonce from \<open>start\<close> that no transaction in one of the statuses uses; the loop runs
  at most once per row.\<close>

fun skip_consumed :: "nat \<Rightarrow> int \<Rightarrow> int list \<Rightarrow> int" where
  "skip_consumed 0 n consumed = n"
| "skip_consumed (Suc k) n consumed = (if n \<in> set consumed then skip_consumed k (n + 1) consumed else n)"

definition next_nonce_after_statuses :: "string \<Rightarrow> int \<Rightarrow> string list \<Rightarrow> 'a db_chain_scheme \<Rightarrow> int" where
  "next_nonce_after_statuses a start statuses db =
     (if statuses = [] then start
      else
        let consumed = map m_nonce (filter (\<lambda>m. m_sender m = a \<and> start \<le> m_nonce m \<and> m_status m \<in> set statuses)
              (mempool_transactions db)) in
        skip_consumed (length consumed) start consumed)"

definition ACTIVE_NONCE_STATUSES :: "string list" where
  "ACTIVE_NONCE_STATUSES = [''pending'', ''propagated'', ''selected'', ''released'']"

definition CONSUMED_TERMINAL_NONCE_STATUSES :: "string list" where
  "CONSUMED_TERMINAL_NONCE_STATUSES = []"

definition next_selectable_nonce :: "string \<Rightarrow> int option \<Rightarrow> 'a db_chain_scheme \<Rightarrow> int" where
  "next_selectable_nonce a start db =
     next_nonce_after_statuses a (case start of Some n \<Rightarrow> n | None \<Rightarrow> confirmed_nonce a db + 1)
       CONSUMED_TERMINAL_NONCE_STATUSES db"

record nonce_status =
  ns_address :: string
  ns_confirmed_nonce :: int
  ns_pending_nonce :: int
  ns_next_nonce :: int
  ns_pending_count :: nat

text \<open>\<open>MAX(CASE WHEN active THEN nonce ELSE 0 END)\<close> over the sender's rows.\<close>

definition get_wallet_nonce_status :: "string \<Rightarrow> 'a db_chain_scheme \<Rightarrow> nonce_status" where
  "get_wallet_nonce_status address db =
     (let mine = filter (\<lambda>m. m_sender m = address) (mempool_transactions db);
          active = (\<lambda>m. m_status m \<in> set ACTIVE_NONCE_STATUSES);
          confirmed = confirmed_nonce address db in
      \<lparr>ns_address = address, ns_confirmed_nonce = confirmed,
       ns_pending_nonce = max_or_0 (map (\<lambda>m. if active m then m_nonce m else 0) mine),
       ns_next_nonce = next_nonce_after_statuses address (confirmed + 1)
         (ACTIVE_NONCE_STATUSES @ CONSUMED_TERMINAL_NONCE_STATUSES) db,
       ns_pending_count = length (filter active mine)\<rparr>)"

definition record_confirmed_nonce :: "string \<Rightarrow> int \<Rightarrow> int \<Rightarrow> 'a db_chain_scheme \<Rightarrow> 'a db_chain_scheme" where
  "record_confirmed_nonce a nonce ts db =
     db\<lparr>account_nonces := tbl_upsert an_account_id
       (\<lambda>r. r\<lparr>an_nonce := (if an_nonce r < nonce then nonce else an_nonce r), an_updated_at := ts\<rparr>)
       \<lparr>an_account_id = a, an_nonce = nonce, an_updated_at = ts\<rparr> (account_nonces db)\<rparr>"

section \<open>Rejection reasons\<close>

text \<open>A rule returns \<open>None\<close> when the transaction is acceptable, else the reason.\<close>

definition basic_transaction_rejection_reason :: "node_env \<Rightarrow> tx \<Rightarrow> string option result" where
  "basic_transaction_rejection_reason E tx =
     (if x_tx_type tx \<notin> set SUPPORTED_BLOCK_TX_TYPES
      then Inr (Some ''unsupported transaction type for block execution'')
      else bindE (is_signature_valid E tx) (\<lambda>ok.
        if \<not> ok then Inr (Some ''invalid transaction signature'')
        else if \<not> chain_matches E tx then Inr (Some ''transaction network or chain mismatch'')
        else bindE (tx_fee_units tx) (\<lambda>f.
          if f < st_min_tx_fee_units (ne_settings E) then Inr (Some ''transaction fee below minimum'')
          else bindE (tx_amount_units tx) (\<lambda>a.
            if a < 0 then Inr (Some ''amount must be non-negative'') else Inr None))))"

definition transfer_rejection_reason :: "node_env \<Rightarrow> tx \<Rightarrow> string option result" where
  "transfer_rejection_reason E tx = bindE (tx_amount_units tx) (\<lambda>a.
     if a \<le> 0 then Inr (Some ''transfer amount must be positive'')
     else if \<not> is_valid_address (sha256_text (ne_crypto E)) (x_recipient tx)
     then Inr (Some ''transfer transaction requires a valid PI recipient'')
     else Inr None)"

text \<open>\<open>reserved\<close>: the timestamps of the sender's faucet transactions selected earlier.\<close>

definition faucet_rejection_reason ::
  "node_env \<Rightarrow> tx \<Rightarrow> (string \<Rightarrow> int list) \<Rightarrow> 'a db_chain_scheme \<Rightarrow> string option result" where
  "faucet_rejection_reason E tx reserved db =
     (if NETWORK_ID E \<notin> set (np_faucet_allowed_networks (st_profile (ne_settings E)))
      then Inr (Some (''faucet is disabled on network '' @ NETWORK_ID E))
      else bindE (tx_amount tx) (\<lambda>amount.
        if amount \<le> 0 then Inr (Some ''faucet amount must be positive'')
        else if FAUCET_MAX_AMOUNT < amount then Inr (Some ''faucet amount exceeds max 3.1416'')
        else if x_recipient tx \<notin> {None, Some [], Some (x_sender tx)}
        then Inr (Some ''faucet transaction recipient must be empty or sender'')
        else bindE (tx_fee tx) (\<lambda>fee.
          if fee \<noteq> 0 then Inr (Some ''faucet transaction fee must be zero'')
          else bindE (balance_of GENESIS_ACCOUNT_ID db) (\<lambda>genesis_balance.
            if genesis_balance < amount then Inr (Some ''genesis faucet balance is insufficient'')
            else bindE (tx_timestamp E tx) (\<lambda>ts.
              let window_start = ts - FAUCET_RATE_LIMIT_WINDOW_SECONDS * SECOND;
                  recent = length (filter (\<lambda>e. le_account_id e = x_sender tx \<and>
                    le_entry_type e = ''faucet_credit'' \<and> window_start \<le> le_created_at e) (ledger_entries db));
                  reserved_count = length (filter (\<lambda>t. window_start \<le> t \<and> t \<le> ts) (reserved (x_sender tx))) in
              if FAUCET_RATE_LIMIT_MAX_REQUESTS \<le> recent + reserved_count
              then Inr (Some ''faucet rate limit exceeded for account'') else Inr None)))))"

definition stake_type :: "tx \<Rightarrow> string" where
  "stake_type tx =
     (let given = payload_text ''stake_type'' (x_payload tx); alt = payload_text ''type'' (x_payload tx) in
      str_lower (str_strip (if given \<noteq> [] then given else if alt \<noteq> [] then alt else ''science'')))"

definition is_validator_stake_tx :: "tx \<Rightarrow> bool" where
  "is_validator_stake_tx tx \<longleftrightarrow> stake_type tx = ''validator''"

definition validator_stake_validator_id :: "tx \<Rightarrow> string" where
  "validator_stake_validator_id tx =
     (let given = payload_text ''validator_id'' (x_payload tx) in
      str_strip (if given \<noteq> [] then given else str_or (x_recipient tx) []))"

definition find_validator :: "string \<Rightarrow> 'a db_chain_scheme \<Rightarrow> validator_row option" where
  "find_validator vid db = tbl_find v_validator_id vid (validators db)"

definition validator_owner :: "validator_row \<Rightarrow> string" where
  "validator_owner v = str_strip (str_or (v_stake_owner_address v) [])"

definition validator_stake_rejection_reason ::
  "tx \<Rightarrow> bool \<Rightarrow> 'a db_chain_scheme \<Rightarrow> string option result" where
  "validator_stake_rejection_reason tx allow_missing_registration db =
     bindE (tx_amount_units tx) (\<lambda>a.
     if a \<le> 0 then Inr (Some ''validator stake amount must be positive'')
     else
       let vid = validator_stake_validator_id tx in
       if \<not> starts_with ''validator_'' vid then Inr (Some ''validator stake requires validator_id'')
       else (case find_validator vid db of
         None \<Rightarrow> if allow_missing_registration then Inr None
                 else Inr (Some ''validator stake requires registered validator'')
       | Some v \<Rightarrow> bindE (to_units (FloatA (v_wallet_stake_locked v))) (\<lambda>wallet_units.
           if 0 < wallet_units \<and> validator_owner v \<noteq> [] \<and> validator_owner v \<noteq> x_sender tx
           then Inr (Some ''validator stake owner mismatch'') else Inr None)))"

definition stake_rejection_reason :: "tx \<Rightarrow> bool \<Rightarrow> 'a db_chain_scheme \<Rightarrow> string option result" where
  "stake_rejection_reason tx allow_missing_registration db =
     (if stake_type tx = ''validator'' then validator_stake_rejection_reason tx allow_missing_registration db
      else if stake_type tx \<noteq> ''science'' then Inr (Some ''unsupported stake_type'')
      else bindE (tx_amount tx) (\<lambda>amount.
        if amount \<le> 0 then Inr (Some ''stake amount must be positive'')
        else
          let existing = (case science_account_by_address (x_sender tx) db of
                Some a \<Rightarrow> sa_stake_amount a | None \<Rightarrow> 0) in
          if determine_science_tier (fadd existing amount) = None
          then Inr (Some ''science stake is below researcher minimum'') else Inr None))"

definition validator_unstake_row :: "tx \<Rightarrow> 'a db_chain_scheme \<Rightarrow> validator_row option" where
  "validator_unstake_row tx db =
     (let vid = validator_stake_validator_id tx in
      if \<not> starts_with ''validator_'' vid then None else find_validator vid db)"

definition min_validator_stake_units :: "node_env \<Rightarrow> int result" where
  "min_validator_stake_units E = to_units (FloatA (np_min_validator_stake (st_profile (ne_settings E))))"

definition validator_unstake_amount_units :: "node_env \<Rightarrow> tx \<Rightarrow> validator_row \<Rightarrow> int result" where
  "validator_unstake_amount_units E tx v =
     bindE (tx_amount_units tx) (\<lambda>requested_units.
     bindE (to_units (FloatA (v_stake_locked v))) (\<lambda>stake_units.
     bindE (to_units (FloatA (v_wallet_stake_locked v))) (\<lambda>wallet_units.
     if 0 < requested_units then Inr requested_units
     else if v_enabled v \<and> \<not> v_is_banned v
     then bindE (min_validator_stake_units E) (\<lambda>m. Inr (min wallet_units (max 0 (stake_units - m))))
     else Inr wallet_units)))"

definition validator_unstake_rejection_reason :: "node_env \<Rightarrow> tx \<Rightarrow> 'a db_chain_scheme \<Rightarrow> string option result" where
  "validator_unstake_rejection_reason E tx db = (case validator_unstake_row tx db of
     None \<Rightarrow> Inr (Some ''validator unstake requires registered validator'')
   | Some v \<Rightarrow>
     if validator_owner v = [] then Inr (Some ''validator stake owner is not set'')
     else if validator_owner v \<noteq> x_sender tx then Inr (Some ''validator unstake requires stake owner wallet'')
     else bindE (to_units (FloatA (v_stake_locked v))) (\<lambda>stake_units.
       bindE (to_units (FloatA (v_wallet_stake_locked v))) (\<lambda>wallet_units.
       if stake_units \<le> 0 then Inr (Some ''validator has no locked stake'')
       else if wallet_units \<le> 0 then Inr (Some ''validator has no wallet-backed stake'')
       else bindE (validator_unstake_amount_units E tx v) (\<lambda>amount_units.
         if amount_units \<le> 0 then Inr (Some ''validator stake has no withdrawable excess'')
         else if wallet_units < amount_units
         then Inr (Some ''validator unstake amount exceeds wallet-backed stake'')
         else bindE (min_validator_stake_units E) (\<lambda>m.
           let remaining = stake_units - amount_units; active = (v_enabled v \<and> \<not> v_is_banned v) in
           if active \<and> 0 < remaining \<and> remaining < m
           then Inr (Some ''disable validator before unstaking below minimum'')
           else if active \<and> remaining = 0 then Inr (Some ''disable validator before full unstake'')
           else bindE (balance_units_of (v_validator_id v) db) (\<lambda>b.
             if b < amount_units then Inr (Some ''validator stake ledger balance is insufficient'')
             else Inr None))))))"

definition science_stake_account_id :: "string \<Rightarrow> string" where
  "science_stake_account_id sender = ''science_stake:'' @ sender"

definition unstake_rejection_reason :: "node_env \<Rightarrow> tx \<Rightarrow> 'a db_chain_scheme \<Rightarrow> string option result" where
  "unstake_rejection_reason E tx db =
     (if stake_type tx = ''validator'' then validator_unstake_rejection_reason E tx db
      else if stake_type tx \<noteq> ''science'' then Inr (Some ''unsupported stake_type'')
      else bindE (tx_amount tx) (\<lambda>requested.
        case science_account_by_address (x_sender tx) db of
          None \<Rightarrow> Inr (Some ''active science stake is required'')
        | Some a \<Rightarrow>
          if sa_stake_amount a \<le> 0 then Inr (Some ''active science stake is required'')
          else
            let locked = py_round 8 (sa_stake_amount a) in
            if requested \<notin> {0, locked} then Inr (Some ''partial science unstake is not supported'')
            else bindE (balance_of (science_stake_account_id (x_sender tx)) db) (\<lambda>stake_balance.
              if stake_balance < locked then Inr (Some ''science stake ledger balance is insufficient'')
              else if length (active_jobs_of (x_sender tx) db) > 0
              then Inr (Some ''cannot unstake while science jobs are active'')
              else Inr None)))"

definition science_job_budget_from_payload :: "settings \<Rightarrow> payload \<Rightarrow> (pyfloat \<times> pyfloat \<times> pyfloat) result" where
  "science_job_budget_from_payload S p =
     bindE (payload_num ''reward_budget'' p) (\<lambda>rb. bindE (payload_num ''max_compute_units'' p) (\<lambda>mu.
     bindE (payload_num ''reward_per_compute_unit'' p) (\<lambda>rp. bindE (payload_num ''max_reward'' p) (\<lambda>mr.
     normalize_compute_budget S rb mu rp mr))))"

text \<open>The explicit id, or one derived from the transaction hash.\<close>

definition science_job_id :: "tx \<Rightarrow> string" where
  "science_job_id tx =
     (let explicit = str_strip (payload_text ''job_id'' (x_payload tx)) in
      if explicit \<noteq> [] then explicit else ''science_job_'' @ take 16 (x_tx_hash tx))"

definition treasury_claim_id :: "tx \<Rightarrow> string" where
  "treasury_claim_id tx =
     (let explicit = str_strip (payload_text ''claim_id'' (x_payload tx)) in
      if explicit \<noteq> [] then explicit else ''treasury_claim_'' @ take 16 (x_tx_hash tx))"

definition missing_job_fields :: "payload \<Rightarrow> string list" where
  "missing_job_fields p = filter (\<lambda>k. map_of p k = None) [''job_type'', ''metadata_hash'', ''storage_pointer'']"

definition science_job_create_rejection_reason :: "node_env \<Rightarrow> tx \<Rightarrow> 'a db_chain_scheme \<Rightarrow> string option result" where
  "science_job_create_rejection_reason E tx db =
     (let missing = missing_job_fields (x_payload tx); S = ne_settings E; epoch = current_epoch (ne_clock E) in
      if missing \<noteq> [] then Inr (Some (''missing science job fields: '' @ concat (map (\<lambda>k. k @ '' '') missing)))
      else case science_account_by_address (x_sender tx) db of
        None \<Rightarrow> Inr (Some ''active science stake is required'')
      | Some a \<Rightarrow>
        if sa_status a \<noteq> ''active'' \<or> \<not> truthy (sa_tier a) then Inr (Some ''active science stake is required'')
        else case science_job_budget_from_payload S (x_payload tx) of
          Inl (ScienceError code detail) \<Rightarrow> Inr (Some detail)
        | Inl e \<Rightarrow> Inl e
        | Inr (_, _, reward_cap) \<Rightarrow>
          let quota_used = (if sa_monthly_quota_epoch a \<noteq> epoch then 0 else sa_monthly_quota_used a) in
          if monthly_quota_limit a < fadd quota_used 1 then Inr (Some ''monthly science quota exceeded'')
          else if reward_cap \<le> 0 then Inr None
          else if st_science_max_pending_per_requester S < py_round 8 (fadd (pending_rewards_of (x_sender tx) db) reward_cap)
          then Inr (Some ''requester science pending rewards exceed max_pending_per_requester'')
          else
            let available = (case tbl_find rr_epoch epoch (science_reward_reserve db) of
                  None \<Rightarrow> 0 | Some r \<Rightarrow> reserve_available r) in
            if available < reward_cap then Inr (Some ''science compute reserve is insufficient for reward budget'')
            else if science_job_by_id (science_job_id tx) db \<noteq> None then Inr (Some ''science job already exists'')
            else Inr None)"

definition SCIENCE_RESERVE_GOVERNANCE_ACTIONS :: "string list" where
  "SCIENCE_RESERVE_GOVERNANCE_ACTIONS = [''propose_activation'', ''approve_activation'',
     ''execute_activation'', ''pause'', ''unpause'']"

text \<open>\<open>_science_governance_row\<close> inserts a row without authorised signers when there is none.\<close>

definition science_governance_row :: "int \<Rightarrow> 'a db_chain_scheme \<Rightarrow> governance_row \<times> 'a db_chain_scheme" where
  "science_governance_row now db = (case science_governance db of
     Some g \<Rightarrow> (g, db)
   | None \<Rightarrow>
     let g = \<lparr>g_status = SCIENCE_RESERVE_LOCKED_STATUS, g_activation_requested_at = None,
           g_activation_available_at = None, g_activated_at = None, g_approvals = [],
           g_authorized_signers = [], g_payouts_enabled = False, g_emergency_paused = False,
           g_updated_at = now\<rparr> in
     (g, db\<lparr>science_governance := Some g\<rparr>))"

definition governance_action :: "tx \<Rightarrow> string" where
  "governance_action tx = str_lower (str_strip (payload_text ''action'' (x_payload tx)))"

text \<open>\<open>int(payload.get("threshold") or 2)\<close>.\<close>

definition payload_threshold :: "payload \<Rightarrow> int result" where
  "payload_threshold p = (case map_of p ''threshold'' of
     Some (VInt i) \<Rightarrow> Inr (if i = 0 then 2 else i)
   | Some (VFloat x) \<Rightarrow> Inr (if x = 0 then 2 else if 0 \<le> x then \<lfloor>x\<rfloor> else \<lceil>x\<rceil>)
   | Some (VBool True) \<Rightarrow> Inr 1
   | Some (VText s) \<Rightarrow> if s = [] then Inr 2
       else if list_all is_digit (str_strip s) \<and> str_strip s \<noteq> [] then Inr (int (digits_val 0 (str_strip s)))
       else Inl (ValueError ''invalid literal for int()'')
   | Some VOther \<Rightarrow> Inl TypeError
   | _ \<Rightarrow> Inr 2)"

definition governance_state_reason :: "node_env \<Rightarrow> tx \<Rightarrow> governance_row \<Rightarrow> string option result" where
  "governance_state_reason E tx g =
     (let action = governance_action tx in
      if action = ''propose_activation'' then
        Inr (if g_status g = SCIENCE_RESERVE_ACTIVE_STATUS then Some ''science reserve is already active'' else None)
      else if action = ''approve_activation'' then
        Inr (if g_status g = SCIENCE_RESERVE_ACTIVE_STATUS then Some ''science reserve is already active''
             else if g_activation_requested_at g = None
             then Some ''science reserve activation has not been proposed'' else None)
      else if action = ''execute_activation'' then
        (if g_status g = SCIENCE_RESERVE_ACTIVE_STATUS then Inr None
         else case g_activation_available_at g of
           None \<Rightarrow> Inr (Some ''science reserve activation has not been proposed'')
         | Some available_at \<Rightarrow> bindE (payload_threshold (x_payload tx)) (\<lambda>threshold.
             if int (length (g_approvals g)) < threshold
             then Inr (Some ''science reserve activation lacks multisig approvals'')
             else (case ne_iso E (x_timestamp tx) of
               None \<Rightarrow> Inl (ValueError ''Invalid isoformat string'')
             | Some tx_time \<Rightarrow> Inr (if tx_time < available_at
                 then Some ''science reserve activation timelock active'' else None))))
      else Inr None)"

definition governance_action_rejection_reason ::
  "node_env \<Rightarrow> tx \<Rightarrow> 'a db_chain_scheme \<Rightarrow> (string option \<times> 'a db_chain_scheme) result" where
  "governance_action_rejection_reason E tx db =
     (if str_lower (str_strip (payload_text ''scope'' (x_payload tx))) \<noteq> ''science_reserve''
      then Inr (Some ''unsupported governance scope'', db)
      else if governance_action tx \<notin> set SCIENCE_RESERVE_GOVERNANCE_ACTIONS
      then Inr (Some ''unsupported science reserve governance action'', db)
      else case science_governance_row (ne_clock E) db of (g, db1) \<Rightarrow>
        if g_authorized_signers g \<noteq> [] \<and> x_sender tx \<notin> set (g_authorized_signers g)
        then Inr (Some ''signer is not authorized for science reserve governance'', db1)
        else bindE (governance_state_reason E tx g) (\<lambda>reason. Inr (reason, db1)))"

text \<open>\<open>_treasury_row\<close> inserts the initial row when there is none.\<close>

definition tx_treasury_row :: "settings \<Rightarrow> int \<Rightarrow> 'a db_chain_scheme \<Rightarrow> treasury_row \<times> 'a db_chain_scheme" where
  "tx_treasury_row S now db = (case treasury db of
     Some t \<Rightarrow> (t, db)
   | None \<Rightarrow> (let db1 = ensure_treasury S now db in (the (treasury db1), db1)))"

definition matured_treasury_locked_amount :: "int \<Rightarrow> 'a db_chain_scheme \<Rightarrow> pyfloat" where
  "matured_treasury_locked_amount tx_time db =
     fold (\<lambda>e total_locked. if ep_unlock_at e \<le> tx_time then py_round 8 (fadd total_locked (ep_locked_amount e)) else total_locked)
       (filter epoch_locked (treasury_epochs db)) 0"

definition treasury_claim_rejection_reason ::
  "node_env \<Rightarrow> tx \<Rightarrow> 'a db_chain_scheme \<Rightarrow> (string option \<times> 'a db_chain_scheme) result" where
  "treasury_claim_rejection_reason E tx db =
     (let S = ne_settings E; given = payload_text ''claim_to'' (x_payload tx);
          claim_to = str_strip (if given \<noteq> [] then given else st_treasury_wallet S) in
      if x_sender tx \<noteq> st_governance_wallet S
      then Inr (Some ''treasury claim requires configured governance wallet'', db)
      else if claim_to \<noteq> st_treasury_wallet S
      then Inr (Some ''treasury claim destination must match configured treasury wallet'', db)
      else case tx_treasury_row S (ne_clock E) db of (t, db1) \<Rightarrow>
        (case ne_iso E (x_timestamp tx) of
           None \<Rightarrow> Inl (ValueError ''Invalid isoformat string'')
         | Some tx_time \<Rightarrow>
           let unlocked = py_round 8 (t_unlocked_balance t);
               claimable = py_round 8 (fadd unlocked (matured_treasury_locked_amount tx_time db1)) in
           if claimable \<le> 0 then Inr (Some ''treasury funds are locked'', db1)
           else bindE (balance_of SCIENTIFIC_DEVELOPMENT_TREASURY_ACCOUNT_ID db1) (\<lambda>current_balance.
             if current_balance < claimable
             then Inr (Some ''treasury ledger balance is lower than unlocked treasury balance'', db1)
             else if tbl_find c_claim_id (treasury_claim_id tx) (treasury_claims db1) \<noteq> None
             then Inr (Some ''treasury claim already exists'', db1)
             else Inr (None, db1))))"

text \<open>The dispatch on the transaction type; rules that do not write keep the database.\<close>

definition keep_db :: "'d \<Rightarrow> string option result \<Rightarrow> (string option \<times> 'd) result" where
  "keep_db db m = bindE m (\<lambda>r. Inr (r, db))"

definition type_rejection_reason ::
  "node_env \<Rightarrow> tx \<Rightarrow> (string \<Rightarrow> int list) \<Rightarrow> bool \<Rightarrow> 'a db_chain_scheme \<Rightarrow> (string option \<times> 'a db_chain_scheme) result" where
  "type_rejection_reason E tx reserved allow_missing_registration db =
     (let ty = x_tx_type tx in
      if ty = ''transfer'' then keep_db db (transfer_rejection_reason E tx)
      else if ty = ''stake'' then keep_db db (stake_rejection_reason tx allow_missing_registration db)
      else if ty = ''unstake'' then keep_db db (unstake_rejection_reason E tx db)
      else if ty = ''science_job_create'' then keep_db db (science_job_create_rejection_reason E tx db)
      else if ty = ''governance_action'' then governance_action_rejection_reason E tx db
      else if ty = ''treasury_claim'' then treasury_claim_rejection_reason E tx db
      else if ty = ''faucet'' then keep_db db (faucet_rejection_reason E tx reserved db)
      else Inr (None, db))"

type_synonym nonces = "string \<Rightarrow> int option"

definition expected_nonce_of :: "string \<Rightarrow> nonces \<Rightarrow> 'a db_chain_scheme \<Rightarrow> int" where
  "expected_nonce_of sender expected db = (case expected sender of
     Some n \<Rightarrow> n | None \<Rightarrow> next_selectable_nonce sender None db)"

text \<open>The result also carries the map of expected nonces, which a tolerated nonce gap updates.\<close>

definition transaction_rejection_reason ::
  "node_env \<Rightarrow> tx \<Rightarrow> nonces \<Rightarrow> (string \<Rightarrow> int list) \<Rightarrow> bool \<Rightarrow> bool \<Rightarrow> 'a db_chain_scheme \<Rightarrow>
   (string option \<times> nonces \<times> 'a db_chain_scheme) result" where
  "transaction_rejection_reason E tx expected reserved allow_nonce_gap allow_missing_registration db =
     (if x_tx_type tx \<notin> set SUPPORTED_BLOCK_TX_TYPES
      then Inr (Some ''unsupported transaction type for block execution'', expected, db)
      else bindE (is_signature_valid E tx) (\<lambda>ok.
      if \<not> ok then Inr (Some ''invalid transaction signature'', expected, db)
      else bindE (tx_fee_units tx) (\<lambda>fee_units.
      if fee_units < 0 then Inr (Some ''fee must be non-negative'', expected, db)
      else
        let n = expected_nonce_of (x_sender tx) expected db; gap = (allow_nonce_gap \<and> n < x_nonce tx) in
        if x_nonce tx \<noteq> n \<and> \<not> gap then Inr (Some (''invalid nonce, expected '' @ show_int n), expected, db)
        else
          let expected' = (if x_nonce tx \<noteq> n then expected(x_sender tx \<mapsto> x_nonce tx) else expected) in
          bindE (balance_of (x_sender tx) db) (\<lambda>balance.
          bindE (total_debit tx) (\<lambda>debit.
          if balance < debit then Inr (Some ''insufficient balance'', expected', db)
          else bindE (type_rejection_reason E tx reserved allow_missing_registration db) (\<lambda>(reason, db1).
            Inr (reason, expected', db1)))))))"

end
