(* ===== verification/Merkle.thy ===== *)
theory Merkle
  imports Json
begin

text \<open>
  \<open>app/core/merkle.py\<close>: the Merkle tree over the hexadecimal digits of Pi that a miner
  commits to, its root, the proof for one position and its verification; and
  \<open>transactions.merkle_root\<close> with \<open>transaction_commitment\<close>'s use of it, the tree over
  transaction hashes that a block commits to. \<open>H\<close> is \<open>hashlib\<close>'s SHA-256 hex digest, a
  parameter of every definition; what a theorem needs of it is injectivity on the strings that
  are hashed, which it names explicitly.

  Lemmas: a proof for a position of the segment verifies against the root; a digit that
  verifies against the root of a segment is the digit of the segment; two lists of hashes of
  the same length with the same transaction root are equal, and the root alone does not
  determine the length.
\<close>

section \<open>The digit tree\<close>

record proof_item =
  pi_side :: string
  pi_hash :: string

definition leaf_text :: "int \<Rightarrow> string \<Rightarrow> string" where
  "leaf_text position digit =
     canonical_json (JObj [(''digit'', JStr (str_upper digit)), (''position'', JInt position)])"

definition parent_text :: "string \<Rightarrow> string \<Rightarrow> string" where
  "parent_text left right = canonical_json (JObj [(''left'', JStr left), (''right'', JStr right)])"

definition leaf_hash :: "(string \<Rightarrow> string) \<Rightarrow> int \<Rightarrow> string \<Rightarrow> string" where
  "leaf_hash H position digit = H (leaf_text position digit)"

definition parent_hash :: "(string \<Rightarrow> string) \<Rightarrow> string \<Rightarrow> string \<Rightarrow> string" where
  "parent_hash H left right = H (parent_text left right)"

text \<open>One round of the \<open>for index in range(0, len(current), 2)\<close> loop; an odd element is paired
  with itself.\<close>

fun next_layer :: "(string \<Rightarrow> string) \<Rightarrow> string list \<Rightarrow> string list" where
  "next_layer H [] = []"
| "next_layer H [left] = [parent_hash H left left]"
| "next_layer H (left # right # rest) = parent_hash H left right # next_layer H rest"

lemma length_next_layer: "length (next_layer H xs) = (length xs + 1) div 2"
  by (induction H xs rule: next_layer.induct) auto

function layers_from :: "(string \<Rightarrow> string) \<Rightarrow> string list \<Rightarrow> string list list" where
  "layers_from H current =
     (if length current > 1 then current # layers_from H (next_layer H current) else [current])"
  by auto
termination
  by (relation "measure (\<lambda>(H, current). length current)") (auto simp: length_next_layer)

declare layers_from.simps [simp del]

definition leaves :: "(string \<Rightarrow> string) \<Rightarrow> string \<Rightarrow> int \<Rightarrow> string list" where
  "leaves H segment range_start =
     map (\<lambda>(index, digit). leaf_hash H (range_start + int index) [digit])
       (enumerate 0 (str_upper segment))"

definition build_merkle_layers :: "(string \<Rightarrow> string) \<Rightarrow> string \<Rightarrow> int \<Rightarrow> string list list result" where
  "build_merkle_layers H segment range_start =
     (if segment = [] then Inl (ValueError ''segment cannot be empty'')
      else Inr (layers_from H (leaves H segment range_start)))"

definition merkle_root :: "(string \<Rightarrow> string) \<Rightarrow> string \<Rightarrow> int \<Rightarrow> string result" where
  "merkle_root H segment range_start =
     bindE (build_merkle_layers H segment range_start) (\<lambda>layers. Inr (hd (last layers)))"

text \<open>The loop over \<open>layers[:-1]\<close>.\<close>

fun proof_items :: "string list list \<Rightarrow> nat \<Rightarrow> proof_item list" where
  "proof_items [] index = []"
| "proof_items (layer # rest) index =
     (let sibling0 = (if index mod 2 \<noteq> 0 then index - 1 else index + 1);
          sibling = (if length layer \<le> sibling0 then index else sibling0) in
      \<lparr>pi_side = (if sibling < index then ''left'' else ''right''), pi_hash = layer ! sibling\<rparr>
      # proof_items rest (index div 2))"

definition merkle_proof ::
  "(string \<Rightarrow> string) \<Rightarrow> string \<Rightarrow> int \<Rightarrow> int \<Rightarrow> proof_item list result" where
  "merkle_proof H segment range_start position =
     (if position < range_start \<or> position \<ge> range_start + int (length segment)
      then Inl (ValueError ''position is outside segment range'')
      else bindE (build_merkle_layers H segment range_start) (\<lambda>layers.
             Inr (proof_items (butlast layers) (nat (position - range_start)))))"

fun climb :: "(string \<Rightarrow> string) \<Rightarrow> string \<Rightarrow> proof_item list \<Rightarrow> string option" where
  "climb H current [] = Some current"
| "climb H current (item # items) =
     (if pi_side item = ''left'' then climb H (parent_hash H (pi_hash item) current) items
      else if pi_side item = ''right'' then climb H (parent_hash H current (pi_hash item)) items
      else None)"

definition verify_merkle_proof ::
  "(string \<Rightarrow> string) \<Rightarrow> int \<Rightarrow> string \<Rightarrow> proof_item list \<Rightarrow> string \<Rightarrow> bool" where
  "verify_merkle_proof H position digit items expected_root =
     (climb H (leaf_hash H position digit) items = Some expected_root)"

section \<open>The transaction tree\<close>

text \<open>\<open>EMPTY_TX_MERKLE_ROOT\<close> is the digest of the empty JSON list.\<close>

definition canonical_empty_tx_merkle_root :: "(string \<Rightarrow> string) \<Rightarrow> string" where
  "canonical_empty_tx_merkle_root H = H (canonical_json (JList []))"

text \<open>\<open>while len(level) > 1\<close>; appending the last element to an odd level and pairing is
  \<open>next_layer\<close>.\<close>

function reduce_level :: "(string \<Rightarrow> string) \<Rightarrow> string list \<Rightarrow> string list" where
  "reduce_level H level = (if length level > 1 then reduce_level H (next_layer H level) else level)"
  by auto
termination
  by (relation "measure (\<lambda>(H, level). length level)") (auto simp: length_next_layer)

declare reduce_level.simps [simp del]

definition tx_merkle_root :: "(string \<Rightarrow> string) \<Rightarrow> string list \<Rightarrow> string" where
  "tx_merkle_root H tx_hashes =
     (if tx_hashes = [] then canonical_empty_tx_merkle_root H else hd (reduce_level H tx_hashes))"

definition selected_tx_hashes_hash :: "(string \<Rightarrow> string) \<Rightarrow> string list \<Rightarrow> string" where
  "selected_tx_hashes_hash H tx_hashes = H (canonical_json (JList (map JStr tx_hashes)))"

section \<open>The texts determine their contents\<close>

lemma leaf_text_eq:
  "leaf_text position digit =
     ''{'' @ json_str ''digit'' @ '':'' @ json_str (str_upper digit) @ '','' @
     json_str ''position'' @ '':'' @ show_int position @ ''}''"
  by (simp add: leaf_text_def)

lemma parent_text_eq:
  "parent_text left right =
     ''{'' @ json_str ''left'' @ '':'' @ json_str left @ '','' @
     json_str ''right'' @ '':'' @ json_str right @ ''}''"
  by (simp add: parent_text_def)

lemma show_int_inject: "show_int i = show_int j \<longleftrightarrow> i = j"
proof -
  have n: "hd (show_nat k) \<noteq> CHR ''-''" for k
    using show_nat_digits [of k] show_nat_not_Nil [of k]
    by (cases "show_nat k") (auto simp: is_digit_def)
  show ?thesis
    using n [of "nat i"] n [of "nat j"]
    by (auto simp: show_int_def show_nat_inject) (metis list.sel(1) n)+
qed

lemma leaf_text_inject:
  "leaf_text p d = leaf_text p' d' \<longleftrightarrow> p = p' \<and> str_upper d = str_upper d'"
  by (auto simp: leaf_text_eq json_str_prefix_free show_int_inject)

lemma parent_text_inject: "parent_text l r = parent_text l' r' \<longleftrightarrow> l = l' \<and> r = r'"
  by (auto simp: parent_text_eq json_str_prefix_free)

lemma leaf_text_neq_parent_text: "leaf_text p d \<noteq> parent_text l r"
  by (simp add: leaf_text_eq parent_text_eq json_str_def esc_char_def)


section \<open>Layers\<close>

fun layer_texts :: "string list \<Rightarrow> string list" where
  "layer_texts [] = []"
| "layer_texts [left] = [parent_text left left]"
| "layer_texts (left # right # rest) = parent_text left right # layer_texts rest"

definition leaf_texts :: "string \<Rightarrow> int \<Rightarrow> string list" where
  "leaf_texts segment range_start =
     map (\<lambda>(index, digit). leaf_text (range_start + int index) [digit]) (enumerate 0 (str_upper segment))"

lemma next_layer_texts: "next_layer H xs = map H (layer_texts xs)"
  by (induction xs rule: layer_texts.induct) (auto simp: parent_hash_def)

lemma leaves_texts: "leaves H segment rs = map H (leaf_texts segment rs)"
  by (auto simp: leaves_def leaf_texts_def leaf_hash_def)

lemma next_layer_Suc: "(next_layer H ^^ Suc j) xs = map H (layer_texts ((next_layer H ^^ j) xs))"
  by (simp add: next_layer_texts)

lemma layer_texts_parent: "t \<in> set (layer_texts xs) \<Longrightarrow> \<exists>l \<in> set xs. \<exists>r \<in> set xs. t = parent_text l r"
  by (induction xs rule: layer_texts.induct) auto

lemma leaf_texts_leaf: "t \<in> set (leaf_texts segment rs) \<Longrightarrow> \<exists>p d. t = leaf_text p d"
  by (auto simp: leaf_texts_def)

lemma next_layer_nth:
  "2 * h < length xs \<Longrightarrow> next_layer H xs ! h =
     parent_hash H (xs ! (2 * h)) (if 2 * h + 1 < length xs then xs ! (2 * h + 1) else xs ! (2 * h))"
proof (induction H xs arbitrary: h rule: next_layer.induct)
  case (3 H left right rest)
  then show ?case by (cases h) simp_all
qed simp_all

lemma layers_from_not_Nil [simp]: "layers_from H cur \<noteq> []"
  by (subst layers_from.simps) simp

lemma layers_from_unfold:
  "length cur > 1 \<Longrightarrow> layers_from H cur = cur # layers_from H (next_layer H cur)"
  "\<not> length cur > 1 \<Longrightarrow> layers_from H cur = [cur]"
  by (subst layers_from.simps, simp)+

text \<open>Climbing with the items of the proof for index \<open>i\<close> ends at the root.\<close>

lemma climb_proof_items:
  assumes "i < length cur"
  shows "climb H (cur ! i) (proof_items (butlast (layers_from H cur)) i) =
    Some (hd (last (layers_from H cur)))"
  using assms
proof (induction H cur arbitrary: i rule: layers_from.induct)
  case (1 H cur)
  show ?case
  proof (cases "length cur > 1")
    case False
    then have "i = 0" "cur \<noteq> []" using 1(2) by auto
    then show ?thesis using False by (simp add: layers_from_unfold hd_conv_nth)
  next
    case True
    have half: "i div 2 < length (next_layer H cur)"
      using 1(2) by (simp add: length_next_layer)
    have step: "next_layer H cur ! (i div 2) =
        (if i mod 2 \<noteq> 0 then parent_hash H (cur ! (i - 1)) (cur ! i)
         else parent_hash H (cur ! i) (if i + 1 < length cur then cur ! (i + 1) else cur ! i))"
    proof (cases "i mod 2 = 0")
      case True
      then have "2 * (i div 2) = i" by presburger
      then show ?thesis using next_layer_nth [of "i div 2" cur H] True 1(2) by simp
    next
      case False
      then have "2 * (i div 2) = i - 1" "i - 1 + 1 = i" by presburger+
      then show ?thesis using next_layer_nth [of "i div 2" cur H] False 1(2) by simp
    qed
    have "climb H (cur ! i) (proof_items (butlast (layers_from H cur)) i) =
        climb H (next_layer H cur ! (i div 2))
          (proof_items (butlast (layers_from H (next_layer H cur))) (i div 2))"
      using 1(2) step by (simp add: layers_from_unfold(1) [OF True] Let_def) (auto simp: not_le le_Suc_eq)
    then show ?thesis
      using True 1(1) [OF True half] by (simp add: layers_from_unfold)
  qed
qed

lemma length_leaves [simp]: "length (leaves H segment rs) = length segment"
  by (simp add: leaves_def str_upper_def)

lemma char_upper_idem [simp]: "char_upper (char_upper c) = char_upper c"
  by (auto simp: char_upper_def Let_def)

lemma str_upper_idem [simp]: "str_upper (str_upper s) = str_upper s"
  by (simp add: str_upper_def)

lemma leaves_nth:
  "i < length segment \<Longrightarrow> leaves H segment rs ! i = leaf_hash H (rs + int i) [segment ! i]"
  by (simp add: leaves_def nth_enumerate_eq str_upper_def leaf_hash_def leaf_text_def)

section \<open>Soundness\<close>

text \<open>Every text hashed while the tree over a segment is built, and while a proof is checked.\<close>

definition tree_texts :: "(string \<Rightarrow> string) \<Rightarrow> string \<Rightarrow> int \<Rightarrow> string list" where
  "tree_texts H segment range_start = leaf_texts segment range_start @
     concat (map layer_texts (butlast (layers_from H (leaves H segment range_start))))"

fun climb_texts :: "(string \<Rightarrow> string) \<Rightarrow> string \<Rightarrow> proof_item list \<Rightarrow> string list" where
  "climb_texts H current [] = []"
| "climb_texts H current (item # items) =
     (let text = (if pi_side item = ''left'' then parent_text (pi_hash item) current
                  else parent_text current (pi_hash item)) in
      text # climb_texts H (H text) items)"

definition proof_texts :: "(string \<Rightarrow> string) \<Rightarrow> int \<Rightarrow> string \<Rightarrow> proof_item list \<Rightarrow> string list" where
  "proof_texts H position digit items =
     leaf_text position digit # climb_texts H (leaf_hash H position digit) items"

lemma climb_append:
  "climb H c (xs @ ys) = (case climb H c xs of None \<Rightarrow> None | Some c' \<Rightarrow> climb H c' ys)"
  by (induction xs arbitrary: c) auto

lemma climb_texts_append:
  "climb H c xs = Some c' \<Longrightarrow> climb_texts H c (xs @ ys) = climb_texts H c xs @ climb_texts H c' ys"
  by (induction xs arbitrary: c) (auto simp: parent_hash_def Let_def split: if_splits)

lemma climb_sound:
  assumes "climb H (H lt) items = Some v" and lt: "lt = leaf_text p d"
    and "v \<in> set ((next_layer H ^^ k) (map H lts))"
    and lts: "\<And>t. t \<in> set lts \<Longrightarrow> \<exists>p d. t = leaf_text p d"
    and inj: "inj_on H T" and T: "set lts \<subseteq> T" "lt \<in> T"
    and "\<And>j. j < k \<Longrightarrow> set (layer_texts ((next_layer H ^^ j) (map H lts))) \<subseteq> T"
    and "set (climb_texts H (H lt) items) \<subseteq> T"
  shows "lt \<in> set lts"
  using assms(1,3,8,9)
proof (induction items arbitrary: v k rule: rev_induct)
  case Nil
  then have v: "v = H lt" by simp
  show ?case
  proof (cases k)
    case 0
    then obtain t where "t \<in> set lts" "H t = H lt" using Nil v by auto
    then show ?thesis using inj_onD [OF inj] T by blast
  next
    case (Suc j)
    then obtain t where t: "t \<in> set (layer_texts ((next_layer H ^^ j) (map H lts)))" "H t = H lt"
      using Nil.prems(2) v unfolding Suc next_layer_Suc by auto
    then have "t = lt" using inj_onD [OF inj] T Nil.prems(3) [of j] Suc by blast
    then show ?thesis using layer_texts_parent [OF t(1)] lt leaf_text_neq_parent_text by metis
  qed
next
  case (snoc item items)
  then obtain c where c: "climb H (H lt) items = Some c" "climb H c [item] = Some v"
    by (auto simp: climb_append split: option.splits)
  define pt where "pt = (if pi_side item = ''left'' then parent_text (pi_hash item) c
      else parent_text c (pi_hash item))"
  have v: "v = H pt" using c(2) by (auto simp: pt_def parent_hash_def split: if_splits)
  have texts: "pt \<in> T" "set (climb_texts H (H lt) items) \<subseteq> T"
    using snoc.prems(4) climb_texts_append [OF c(1)] by (auto simp: pt_def)
  show ?case
  proof (cases k)
    case 0
    then obtain t where "t \<in> set lts" "H t = H pt" using snoc.prems(2) v by auto
    then have "pt \<in> set lts" using inj_onD [OF inj] T texts by blast
    then show ?thesis using lts leaf_text_neq_parent_text by (metis pt_def)
  next
    case (Suc j)
    then obtain t where t: "t \<in> set (layer_texts ((next_layer H ^^ j) (map H lts)))" "H t = H pt"
      using snoc.prems(2) v unfolding Suc next_layer_Suc by auto
    then have "t = pt" using inj_onD [OF inj] texts snoc.prems(3) [of j] Suc by blast
    then have "c \<in> set ((next_layer H ^^ j) (map H lts))"
      using layer_texts_parent [OF t(1)] by (auto simp: pt_def parent_text_inject split: if_splits)
    then show ?thesis
      using snoc.IH [OF c(1), of j] snoc.prems(3) texts(2) Suc by simp
  qed
qed

lemma layers_from_funpow:
  "cur \<noteq> [] \<Longrightarrow> \<exists>k. last (layers_from H cur) = (next_layer H ^^ k) cur \<and>
     length (last (layers_from H cur)) = 1 \<and>
     butlast (layers_from H cur) = map (\<lambda>j. (next_layer H ^^ j) cur) [0..<k]"
proof (induction H cur rule: layers_from.induct)
  case (1 H cur)
  show ?case
  proof (cases "length cur > 1")
    case False
    then have "length cur = 1" using 1(2) by (cases cur) auto
    then show ?thesis using False by (intro exI [of _ 0]) (simp add: layers_from_unfold)
  next
    case True
    then have "next_layer H cur \<noteq> []" by (auto simp: length_next_layer simp flip: length_0_conv)
    then obtain k where k: "last (layers_from H (next_layer H cur)) = (next_layer H ^^ k) (next_layer H cur)"
      "length (last (layers_from H (next_layer H cur))) = 1"
      "butlast (layers_from H (next_layer H cur)) = map (\<lambda>j. (next_layer H ^^ j) (next_layer H cur)) [0..<k]"
      using 1(1) [OF True] by blast
    have "map (\<lambda>j. (next_layer H ^^ j) cur) [0..<Suc k] =
        cur # map (\<lambda>j. (next_layer H ^^ j) (next_layer H cur)) [0..<k]"
      by (simp add: upt_conv_Cons map_Suc_upt [symmetric] del: upt_Suc) (simp add: funpow_swap1)
    then show ?thesis
      using True k by (intro exI [of _ "Suc k"]) (simp add: layers_from_unfold funpow_swap1 del: upt_Suc)
  qed
qed


section \<open>Binding of the transaction root\<close>

lemma reduce_level_layers: "reduce_level H level = last (layers_from H level)"
proof (induction H level rule: reduce_level.induct)
  case (1 H level)
  then show ?case
    by (cases "length level > 1") (simp_all add: reduce_level.simps [of H level] layers_from_unfold)
qed

definition tx_tree_texts :: "(string \<Rightarrow> string) \<Rightarrow> string list \<Rightarrow> string list" where
  "tx_tree_texts H hashes = concat (map layer_texts (butlast (layers_from H hashes)))"

lemma layer_texts_inject:
  "length xs = length ys \<Longrightarrow> layer_texts xs = layer_texts ys \<Longrightarrow> xs = ys"
proof (induction xs arbitrary: ys rule: layer_texts.induct)
  case (2 l)
  then show ?case by (cases ys) (auto simp: parent_text_inject)
next
  case (3 l r rest)
  then obtain a b zs where "ys = a # b # zs" by (cases ys; cases "tl ys") auto
  then show ?case using 3 by (auto simp: parent_text_inject)
qed simp

lemma root_binding:
  assumes "length xs = length ys" and "xs \<noteq> []"
    and "hd (last (layers_from H xs)) = hd (last (layers_from H ys))"
    and "inj_on H (set (tx_tree_texts H xs) \<union> set (tx_tree_texts H ys))"
  shows "xs = ys"
  using assms
proof (induction H xs arbitrary: ys rule: layers_from.induct)
  case (1 H xs)
  show ?case
  proof (cases "length xs > 1")
    case False
    then obtain x where x: "xs = [x]" using 1(3) by (cases xs; cases "tl xs") auto
    then obtain y where y: "ys = [y]" using 1(2) by (cases ys; cases "tl ys") auto
    show ?thesis using 1(4) by (simp add: x y layers_from.simps)
  next
    case True
    then have len: "length ys > 1" using 1(2) by simp
    have texts: "tx_tree_texts H xs = layer_texts xs @ tx_tree_texts H (next_layer H xs)"
      "tx_tree_texts H ys = layer_texts ys @ tx_tree_texts H (next_layer H ys)"
      using True len by (simp_all add: tx_tree_texts_def layers_from_unfold)
    have "next_layer H xs = next_layer H ys"
    proof (rule 1(1) [OF True])
      show "length (next_layer H xs) = length (next_layer H ys)" using 1(2) by (simp add: length_next_layer)
      show "next_layer H xs \<noteq> []" using True by (auto simp: length_next_layer simp flip: length_0_conv)
      show "hd (last (layers_from H (next_layer H xs))) = hd (last (layers_from H (next_layer H ys)))"
        using 1(4) True len by (simp add: layers_from_unfold)
      show "inj_on H (set (tx_tree_texts H (next_layer H xs)) \<union> set (tx_tree_texts H (next_layer H ys)))"
        by (rule inj_on_subset [OF 1(5)]) (auto simp: texts)
    qed
    moreover have "inj_on H (set (layer_texts xs) \<union> set (layer_texts ys))"
      by (rule inj_on_subset [OF 1(5)]) (auto simp: texts)
    ultimately have "layer_texts xs = layer_texts ys"
      by (simp add: next_layer_texts inj_on_map_eq_map)
    then show ?thesis using 1(2) layer_texts_inject by blast
  qed
qed

section \<open>Properties\<close>

lemma built_proof_verifies:
  assumes "range_start \<le> position" and "position < range_start + int (length segment)"
    and "str_upper digit = str_upper [segment ! nat (position - range_start)]"
  shows "\<exists>rh items. merkle_root H segment range_start = Inr rh \<and>
    merkle_proof H segment range_start position = Inr items \<and>
    verify_merkle_proof H position digit items rh"
proof -
  define i where "i = nat (position - range_start)"
  have i: "i < length segment" "range_start + int i = position" "segment \<noteq> []"
    using assms(1,2) by (auto simp: i_def)
  have "leaf_hash H position digit = leaves H segment range_start ! i"
    using assms(3) i by (simp add: leaves_nth leaf_hash_def leaf_text_def i_def)
  then show ?thesis
    using climb_proof_items [of i "leaves H segment range_start" H] i assms(1,2)
    by (simp add: merkle_root_def merkle_proof_def build_merkle_layers_def verify_merkle_proof_def i_def)
qed

text \<open>C11: a position of the segment always has a proof, and the proof verifies, with the digit of
  the segment at that position in either letter case, against the root of the segment.\<close>

theorem merkle_proof_complete:
  assumes "range_start \<le> position" and "position < range_start + int (length segment)"
    and "str_upper digit = str_upper [segment ! nat (position - range_start)]"
  shows "\<exists>rh items. merkle_root H segment range_start = Inr rh \<and>
    merkle_proof H segment range_start position = Inr items \<and>
    verify_merkle_proof H position digit items rh"
  using assms by (rule built_proof_verifies)

lemma example_digit: "str_upper ''A'' = str_upper [''3a7'' ! nat (6 - 5)]"
  by code_simp

theorem merkle_proof_complete_witness:
  "\<exists>rh items. merkle_root id ''3a7'' 5 = Inr rh \<and> merkle_proof id ''3a7'' 5 6 = Inr items \<and>
     verify_merkle_proof id 6 ''A'' items rh"
  by (rule merkle_proof_complete [OF _ _ example_digit]) simp_all

text \<open>C10: whatever proof is offered, if it verifies a digit at a position against the root of a
  segment then the position lies in the segment and the digit is the segment's digit there,
  provided the digest has no collision among the texts hashed in the two computations.\<close>

theorem merkle_proof_sound:
  assumes "merkle_root H segment range_start = Inr rh"
    and "verify_merkle_proof H position digit items rh"
    and "inj_on H (set (tree_texts H segment range_start) \<union> set (proof_texts H position digit items))"
  shows "range_start \<le> position \<and> position < range_start + int (length segment) \<and>
    str_upper digit = str_upper [segment ! nat (position - range_start)]"
proof -
  let ?lts = "leaf_texts segment range_start"
  have ne: "segment \<noteq> []" and rh: "rh = hd (last (layers_from H (map H ?lts)))"
    using assms(1) by (auto simp: merkle_root_def build_merkle_layers_def leaves_texts split: if_splits)
  have "map H ?lts \<noteq> []" using ne by (simp add: leaf_texts_def enumerate_eq_zip str_upper_def)
  then obtain k where k: "last (layers_from H (map H ?lts)) = (next_layer H ^^ k) (map H ?lts)"
    "length (last (layers_from H (map H ?lts))) = 1"
    "butlast (layers_from H (map H ?lts)) = map (\<lambda>j. (next_layer H ^^ j) (map H ?lts)) [0..<k]"
    using layers_from_funpow by blast
  have mem: "rh \<in> set ((next_layer H ^^ k) (map H ?lts))"
    using k(1,2) rh by (metis hd_in_set length_0_conv zero_neq_one)
  have "leaf_text position digit \<in> set ?lts"
    by (rule climb_sound [OF _ refl mem leaf_texts_leaf assms(3)])
       (use assms(2) k(3) in \<open>auto simp: verify_merkle_proof_def leaf_hash_def tree_texts_def
          proof_texts_def leaves_texts\<close>)
  then obtain i where "i < length segment" "leaf_text position digit =
      leaf_text (range_start + int i) [str_upper segment ! i]"
    by (auto simp: leaf_texts_def in_set_enumerate_eq str_upper_def)
  then show ?thesis
    by (simp add: leaf_text_inject) (simp add: str_upper_def)
qed

theorem merkle_proof_sound_witness:
  "\<exists>rh items. merkle_root id ''3a7'' 5 = Inr rh \<and> verify_merkle_proof id 6 ''A'' items rh \<and>
     5 \<le> (6::int) \<and> 6 < 5 + int (length ''3a7'') \<and>
     str_upper ''A'' = str_upper [''3a7'' ! nat (6 - 5)]"
proof -
  obtain rh items where *: "merkle_root id ''3a7'' 5 = Inr rh" "verify_merkle_proof id 6 ''A'' items rh"
    using built_proof_verifies [OF _ _ example_digit, of id] by auto
  show ?thesis
    using merkle_proof_sound [OF *] * by auto
qed

text \<open>Two blocks with as many transactions and the same transaction root list the same
  transactions in the same order, provided the digest has no collision among the texts hashed;
  the count matters: duplicating the last of an odd number of transactions keeps the root.\<close>

theorem tx_merkle_root_binding:
  assumes "length xs = length ys" and "tx_merkle_root H xs = tx_merkle_root H ys"
    and "inj_on H (set (tx_tree_texts H xs) \<union> set (tx_tree_texts H ys))"
  shows "xs = ys \<and> tx_merkle_root H [a, b, c] = tx_merkle_root H [a, b, c, c]"
proof
  show "xs = ys"
  proof (cases "xs = []")
    case False
    then have "ys \<noteq> []" using assms(1) by auto
    then show ?thesis
      using root_binding [OF assms(1) False _ assms(3)] assms(2) False
      by (simp add: tx_merkle_root_def reduce_level_layers)
  qed (use assms(1) in simp)
  show "tx_merkle_root H [a, b, c] = tx_merkle_root H [a, b, c, c]"
    by (simp add: tx_merkle_root_def reduce_level.simps)
qed

theorem tx_merkle_root_binding_witness:
  "[''t1'', ''t2''] = [''t1'', ''t2''] \<and>
     tx_merkle_root id [''a'', ''b'', ''c''] = tx_merkle_root id [''a'', ''b'', ''c'', ''c'']"
  by (rule tx_merkle_root_binding) simp_all

end
