(* ===== verification/Mempool.thy ===== *)
theory Mempool
  imports TxRules Merkle
begin

text \<open>
  The mempool side of \<open>app/services/transactions.py\<close>: choosing the transactions a mining task
  commits to (\<open>select_transactions_for_task\<close>), freezing and releasing them
  (\<open>freeze_transactions_for_task\<close>, \<open>freeze_transactions_for_competitive_round_task\<close>,
  \<open>release_selected_transactions\<close>), reading a snapshot back, and importing the transactions of
  a received block (\<open>ensure_block_transactions_in_mempool\<close>). The columns that hold JSON lists of
  hashes are lists. \<open>db_mempool\<close> adds the tables \<open>tasks\<close> and \<open>task_tx_snapshots\<close>.

  Lemmas: the selection loop terminates because every repeated pass selects a transaction; what
  it selects is pending, distinct, signed, within the limit, has consecutive nonces per sender and
  is covered by the sender's balance; a frozen snapshot reads back as the frozen transactions; a
  release clears exactly the rows of its task.
\<close>

section \<open>Tables\<close>

record task_row =
  tk_task_id :: string
  tk_miner_id :: string
  tk_range_start :: int
  tk_range_end :: int
  tk_algorithm :: string
  tk_status :: string
  tk_assignment_seed :: "string option"
  tk_assignment_mode :: "string option"
  tk_competitive_round_height :: "int option"
  tk_competitive_round_previous_hash :: "string option"
  tk_protocol_params_id :: "int option"
  tk_created_at :: int
  tk_expires_at :: "int option"
  tk_submitted_at :: "string option"
  tk_stale_at :: "string option"
  tk_stale_reason :: "string option"
  tk_mempool_snapshot_id :: "string option"
  tk_selected_tx_hashes :: "string list"
  tk_tx_merkle_root :: string
  tk_tx_count :: int
  tk_tx_fee_total_units :: int
  tk_selected_tx_hashes_hash :: "string option"
  tk_compute_ms :: "int option"

record snapshot_row =
  sn_snapshot_id :: string
  sn_task_id :: string
  sn_block_height :: int
  sn_tx_hashes :: "string list"
  sn_tx_merkle_root :: string
  sn_tx_count :: int
  sn_tx_fee_total_units :: int
  sn_created_at :: int

record db_mempool = db_chain +
  tasks :: "task_row list"
  task_tx_snapshots :: "snapshot_row list"

definition update_mempool ::
  "(mempool_row \<Rightarrow> bool) \<Rightarrow> (mempool_row \<Rightarrow> mempool_row) \<Rightarrow> 'a db_chain_scheme \<Rightarrow> 'a db_chain_scheme" where
  "update_mempool p f db = db\<lparr>mempool_transactions := tbl_update p f (mempool_transactions db)\<rparr>"

definition fail_transaction :: "int \<Rightarrow> string \<Rightarrow> string \<Rightarrow> 'a db_chain_scheme \<Rightarrow> 'a db_chain_scheme" where
  "fail_transaction clock tx_hash reason db =
     update_mempool (\<lambda>m. m_tx_hash m = tx_hash)
       (\<lambda>m. m\<lparr>m_status := ''failed'', m_failure_reason := Some reason, m_rejection_reason := Some reason,
          m_updated_at := clock\<rparr>) db"

definition reject_transaction :: "int \<Rightarrow> string \<Rightarrow> string \<Rightarrow> 'a db_chain_scheme \<Rightarrow> 'a db_chain_scheme" where
  "reject_transaction clock tx_hash reason db =
     update_mempool (\<lambda>m. m_tx_hash m = tx_hash \<and> m_status m \<in> {''pending'', ''propagated''})
       (\<lambda>m. m\<lparr>m_status := ''rejected'', m_rejection_reason := Some reason, m_updated_at := clock\<rparr>) db"

section \<open>Selection\<close>

text \<open>The local variables of \<open>select_transactions_for_task\<close>.\<close>

record 'd selection =
  sel_expected :: nonces
  sel_reserved :: "string \<Rightarrow> int"
  sel_faucet :: "string \<Rightarrow> int list"
  sel_txs :: "tx list"
  sel_progress :: bool
  sel_db :: 'd

definition pending_rows :: "'a db_chain_scheme \<Rightarrow> mempool_row list" where
  "pending_rows db = sort_key (\<lambda>m. - m_fee_units m)
     (sort_key m_tx_hash (filter (\<lambda>m. m_status m = ''pending'') (mempool_transactions db)))"

definition fail_selected :: "node_env \<Rightarrow> tx \<Rightarrow> string \<Rightarrow> 'a db_chain_scheme selection \<Rightarrow> 'a db_chain_scheme selection" where
  "fail_selected E tx reason st =
     st\<lparr>sel_db := fail_transaction (ne_clock E) (x_tx_hash tx) reason (sel_db st)\<rparr>"

text \<open>The statements after the guards: the transaction is taken if the sender's balance covers it
  together with what was reserved before.\<close>

definition faucet_times :: "node_env \<Rightarrow> tx \<Rightarrow> int list result" where
  "faucet_times E tx = (if x_tx_type tx = ''faucet'' then bindE (tx_timestamp E tx) (\<lambda>t. Inr [t]) else Inr [])"

definition taken :: "tx \<Rightarrow> int \<Rightarrow> int list \<Rightarrow> 'a db_chain_scheme selection \<Rightarrow> 'a db_chain_scheme selection" where
  "taken tx debit stamps st =
     (let sender = x_sender tx in
      st\<lparr>sel_txs := sel_txs st @ [tx],
         sel_expected := (sel_expected st)(sender \<mapsto> next_selectable_nonce sender (Some (x_nonce tx + 1)) (sel_db st)),
         sel_reserved := (sel_reserved st)(sender := sel_reserved st sender + debit),
         sel_faucet := (sel_faucet st)(sender := sel_faucet st sender @ stamps),
         sel_progress := True\<rparr>)"

definition take_transaction ::
  "node_env \<Rightarrow> tx \<Rightarrow> 'a db_chain_scheme selection \<Rightarrow> 'a db_chain_scheme selection result" where
  "take_transaction E tx st =
     bindE (total_debit_units tx) (\<lambda>debit.
     bindE (balance_units_of (x_sender tx) (sel_db st)) (\<lambda>balance.
     if balance < sel_reserved st (x_sender tx) + debit then Inr st
     else bindE (faucet_times E tx) (\<lambda>stamps. Inr (taken tx debit stamps st))))"

text \<open>The check of the transaction whose nonce is the expected one.\<close>

definition select_expected ::
  "node_env \<Rightarrow> tx \<Rightarrow> 'a db_chain_scheme selection \<Rightarrow> 'a db_chain_scheme selection result" where
  "select_expected E tx st =
     bindE (transaction_rejection_reason E tx (sel_expected st) (sel_faucet st) False False (sel_db st))
       (\<lambda>(semantic, expected, db1).
         let st1 = st\<lparr>sel_expected := expected, sel_db := db1\<rparr> in
         case semantic of
           Some reason \<Rightarrow> Inr (fail_selected E tx reason st1)
         | None \<Rightarrow> take_transaction E tx st1)"

text \<open>The body of the inner loop; a full selection leaves the remaining rows unread (\<open>break\<close>).\<close>

definition select_row ::
  "node_env \<Rightarrow> nat \<Rightarrow> mempool_row \<Rightarrow> 'a db_chain_scheme selection \<Rightarrow> 'a db_chain_scheme selection result" where
  "select_row E max_count row st =
     (let tx = decode_mempool_transaction row in
      if max_count \<le> length (sel_txs st) \<or> x_tx_hash tx \<in> x_tx_hash ` set (sel_txs st) then Inr st
      else if x_tx_type tx \<notin> set SUPPORTED_BLOCK_TX_TYPES
      then Inr (fail_selected E tx ''unsupported transaction type for block execution'' st)
      else bindE (basic_transaction_rejection_reason E tx) (\<lambda>basic. case basic of
        Some reason \<Rightarrow> Inr (fail_selected E tx reason st)
      | None \<Rightarrow>
        let n = expected_nonce_of (x_sender tx) (sel_expected st) (sel_db st) in
        if x_nonce tx < n then Inr (fail_selected E tx (''invalid nonce, expected '' @ show_int n) st)
        else if n < x_nonce tx then Inr st
        else select_expected E tx st))"

definition select_pass ::
  "node_env \<Rightarrow> nat \<Rightarrow> mempool_row list \<Rightarrow> 'a db_chain_scheme selection \<Rightarrow> 'a db_chain_scheme selection result" where
  "select_pass E max_count rows st = foldE (select_row E max_count) rows (st\<lparr>sel_progress := False\<rparr>)"

lemma taken_simps [simp]:
  "sel_txs (taken tx debit stamps st) = sel_txs st @ [tx]"
  "sel_progress (taken tx debit stamps st)"
  "sel_db (taken tx debit stamps st) = sel_db st"
  by (simp_all add: taken_def Let_def)

lemma fail_selected_simps [simp]:
  "sel_txs (fail_selected E tx reason st) = sel_txs st"
  "sel_progress (fail_selected E tx reason st) = sel_progress st"
  "sel_expected (fail_selected E tx reason st) = sel_expected st"
  "sel_reserved (fail_selected E tx reason st) = sel_reserved st"
  "sel_faucet (fail_selected E tx reason st) = sel_faucet st"
  "sel_db (fail_selected E tx reason st) = fail_transaction (ne_clock E) (x_tx_hash tx) reason (sel_db st)"
  by (simp_all add: fail_selected_def)

lemma take_transaction_cases:
  assumes "take_transaction E tx st = Inr st'"
  shows "st' = st \<or> (\<exists>debit balance stamps. total_debit_units tx = Inr debit \<and>
      balance_units_of (x_sender tx) (sel_db st) = Inr balance \<and>
      sel_reserved st (x_sender tx) + debit \<le> balance \<and> st' = taken tx debit stamps st)"
proof -
  obtain debit where d: "total_debit_units tx = Inr debit"
    using assms unfolding take_transaction_def bindE_eq_Inr by blast
  obtain balance where b: "balance_units_of (x_sender tx) (sel_db st) = Inr balance"
    using assms unfolding take_transaction_def bindE_eq_Inr by blast
  show ?thesis
    using assms unfolding take_transaction_def d b bindE_simps
    by (auto simp only: d b sum.inject bindE_eq_Inr not_less split: if_splits)
qed

lemma not_notin: "x \<in> A \<Longrightarrow> \<not> x \<notin> A"
  by simp

text \<open>A row is left out, or failed, or passes to the check of an expected nonce.\<close>

lemma select_row_cases:
  fixes st :: "'a db_chain_scheme selection"
  assumes "select_row E max_count row st = Inr st'" and tx: "tx = decode_mempool_transaction row"
  obtains "st' = st" | reason where "st' = fail_selected E tx reason st"
  | "length (sel_txs st) < max_count" "x_tx_hash tx \<notin> x_tx_hash ` set (sel_txs st)"
    "basic_transaction_rejection_reason E tx = Inr None"
    "x_nonce tx = expected_nonce_of (x_sender tx) (sel_expected st) (sel_db st)"
    "select_expected E tx st = Inr st'"
proof -
  note r = assms(1) [unfolded select_row_def tx [symmetric] Let_def]
  consider "max_count \<le> length (sel_txs st) \<or> x_tx_hash tx \<in> x_tx_hash ` set (sel_txs st)"
    | "\<not> (max_count \<le> length (sel_txs st) \<or> x_tx_hash tx \<in> x_tx_hash ` set (sel_txs st))"
      "x_tx_type tx \<notin> set SUPPORTED_BLOCK_TX_TYPES"
    | "\<not> (max_count \<le> length (sel_txs st) \<or> x_tx_hash tx \<in> x_tx_hash ` set (sel_txs st))"
      "x_tx_type tx \<in> set SUPPORTED_BLOCK_TX_TYPES" by blast
  then show ?thesis
  proof cases
    case 1
    then show ?thesis using r that(1) by (simp only: if_True sum.inject)
  next
    case 2
    then show ?thesis using r that(2) by (simp only: if_True if_False not_False_eq_True sum.inject) blast
  next
    case 3
    note r3 = r [unfolded if_not_P [OF 3(1)] if_not_P [OF not_notin [OF 3(2)]]]
    then obtain basic where b: "basic_transaction_rejection_reason E tx = Inr basic"
      unfolding bindE_eq_Inr by blast
    show ?thesis
    proof (cases basic)
      case (Some reason)
      then show ?thesis using r3 that(2) by (simp only: b bindE_simps option.case sum.inject) blast
    next
      case None
      then show ?thesis
        using r3 3 that b by (simp only: b bindE_simps option.case sum.inject split: if_splits) (blast | linarith | force)+
    qed
  qed
qed

text \<open>Every pass that selects something makes the selection longer, so the loop ends.\<close>

lemma select_expected_txs:
  assumes "select_expected E tx st = Inr st'"
  shows "sel_txs st' = sel_txs st \<and> sel_progress st' = sel_progress st \<or>
    sel_txs st' = sel_txs st @ [tx] \<and> sel_progress st'"
proof -
  obtain semantic expected db1 where "transaction_rejection_reason E tx (sel_expected st) (sel_faucet st)
      False False (sel_db st) = Inr (semantic, expected, db1)"
    using assms unfolding select_expected_def bindE_eq_Inr by auto
  note s = assms [unfolded select_expected_def this bindE_simps prod.case Let_def]
  show ?thesis
  proof (cases semantic)
    case None
    then show ?thesis
      using take_transaction_cases [OF s [unfolded None option.case]] by fastforce
  next
    case (Some reason)
    then show ?thesis using s by auto
  qed
qed

lemma select_row_txs:
  assumes "select_row E max_count row st = Inr st'"
  shows "sel_txs st' = sel_txs st \<and> sel_progress st' = sel_progress st \<or>
    sel_txs st' = sel_txs st @ [decode_mempool_transaction row] \<and> sel_progress st'"
proof (rule select_row_cases [OF assms refl])
  assume "select_expected E (decode_mempool_transaction row) st = Inr st'"
  then show ?thesis by (rule select_expected_txs)
qed simp_all

lemma select_rows_longer:
  assumes "foldE (select_row E max_count) rows st = Inr st'"
  shows "length (sel_txs st) \<le> length (sel_txs st') \<and>
    (sel_progress st' \<longrightarrow> sel_progress st \<or> length (sel_txs st) < length (sel_txs st'))"
  using assms
proof (induction rows arbitrary: st)
  case (Cons row rows)
  then obtain st1 where r: "select_row E max_count row st = Inr st1"
    and l: "foldE (select_row E max_count) rows st1 = Inr st'" by auto
  show ?case using select_row_txs [OF r] Cons.IH [OF l] by auto
qed simp

lemma select_pass_longer:
  assumes "select_pass E max_count rows st = Inr st'" and "sel_progress st'"
  shows "length (sel_txs st) < length (sel_txs st')"
  using select_rows_longer [OF assms(1) [unfolded select_pass_def]] assms(2) by simp

lemma bindE_cong [fundef_cong]:
  "m = m' \<Longrightarrow> (\<And>x. m' = Inr x \<Longrightarrow> f x = g x) \<Longrightarrow> bindE m f = bindE m' g"
  by (cases m') auto

function select_passes ::
  "node_env \<Rightarrow> nat \<Rightarrow> mempool_row list \<Rightarrow> 'a db_chain_scheme selection \<Rightarrow> 'a db_chain_scheme selection result" where
  "select_passes E max_count rows st =
     (if sel_progress st \<and> length (sel_txs st) < max_count
      then bindE (select_pass E max_count rows st) (\<lambda>st'. select_passes E max_count rows st')
      else Inr st)"
  by auto
termination
  by (relation "measure (\<lambda>(E, max_count, rows, st).
        if sel_progress st then Suc (max_count - length (sel_txs st)) else 0)")
     (auto dest!: select_pass_longer)

declare select_passes.simps [simp del]

definition initial_selection :: "'d \<Rightarrow> 'd selection" where
  "initial_selection db = \<lparr>sel_expected = Map.empty, sel_reserved = (\<lambda>_. 0), sel_faucet = (\<lambda>_. []),
     sel_txs = [], sel_progress = True, sel_db = db\<rparr>"

definition select_transactions_for_task ::
  "node_env \<Rightarrow> int \<Rightarrow> int \<Rightarrow> 'a db_chain_scheme \<Rightarrow> (tx list \<times> 'a db_chain_scheme) result" where
  "select_transactions_for_task E max_count chain_height db =
     (if max_count \<le> 0 then Inr ([], db)
      else bindE (select_passes E (nat max_count) (pending_rows db) (initial_selection db))
        (\<lambda>st. Inr (sel_txs st, sel_db st)))"

section \<open>What the rules write\<close>

text \<open>Checking a transaction writes nothing but the initial governance and treasury rows.\<close>

lemma governance_rule_writes:
  assumes "governance_action_rejection_reason E tx db = Inr (r, db')"
  shows "\<exists>g. db' = db\<lparr>science_governance := g\<rparr>"
proof -
  obtain g db1 where g: "science_governance_row (ne_clock E) db = (g, db1)" by force
  have w: "\<exists>g. db1 = db\<lparr>science_governance := g\<rparr>" "\<exists>g. db = db\<lparr>science_governance := g\<rparr>"
    using g by (auto simp: science_governance_row_def Let_def split: option.splits
        intro: exI [of _ "science_governance db"])
  have "db' = db \<or> db' = db1"
    using assms unfolding governance_action_rejection_reason_def g prod.case
    by (simp only: sum.inject prod.inject bindE_eq_Inr split: if_splits) (blast | simp)+
  then show ?thesis using w by blast
qed

lemma treasury_rule_writes:
  assumes "treasury_claim_rejection_reason E tx db = Inr (r, db')"
  shows "\<exists>t. db' = db\<lparr>treasury := t\<rparr>"
proof -
  obtain t db1 where t: "tx_treasury_row (ne_settings E) (ne_clock E) db = (t, db1)" by force
  have w: "\<exists>t. db1 = db\<lparr>treasury := t\<rparr>" "\<exists>t. db = db\<lparr>treasury := t\<rparr>"
    using t by (auto simp: tx_treasury_row_def ensure_treasury_def Let_def split: option.splits
        intro: exI [of _ "treasury db"])
  have "db' = db \<or> db' = db1"
    using assms unfolding treasury_claim_rejection_reason_def t prod.case Let_def
    by (auto split: if_splits option.splits)
  then show ?thesis using w by blast
qed

lemma keep_db_Inr: "keep_db db m = Inr (r, db') \<longleftrightarrow> m = Inr r \<and> db' = db"
  by (auto simp: keep_db_def)

lemma type_rule_writes:
  assumes "type_rejection_reason E tx reserved allow db = Inr (r, db')"
  shows "\<exists>g t. db' = db\<lparr>treasury := t, science_governance := g\<rparr>"
proof -
  have same: "\<exists>g t. db = db\<lparr>treasury := t, science_governance := g\<rparr>"
    by (rule exI [of _ "science_governance db"], rule exI [of _ "treasury db"]) simp
  consider "db' = db" | "governance_action_rejection_reason E tx db = Inr (r, db')"
    | "treasury_claim_rejection_reason E tx db = Inr (r, db')"
    using assms unfolding type_rejection_reason_def Let_def
    by (simp only: keep_db_Inr sum.inject prod.inject split: if_splits) (blast+)?
  then show ?thesis
  proof cases
    case 1
    then show ?thesis using same by simp
  next
    case 2
    then obtain g where "db' = db\<lparr>science_governance := g\<rparr>" using governance_rule_writes by blast
    then show ?thesis by (intro exI [of _ g] exI [of _ "treasury db"]) simp
  next
    case 3
    then obtain t where "db' = db\<lparr>treasury := t\<rparr>" using treasury_rule_writes by blast
    then show ?thesis by (intro exI [of _ "science_governance db"] exI [of _ t]) simp
  qed
qed

text \<open>An accepted transaction carries the expected nonce, or a later one where gaps are allowed.\<close>

lemma rejection_reason_cases:
  assumes "transaction_rejection_reason E tx expected reserved gap allow db = Inr (r, expected', db')"
  shows "(\<exists>g t. db' = db\<lparr>treasury := t, science_governance := g\<rparr>)"
    and "\<not> gap \<Longrightarrow> expected' = expected"
    and "r = None \<Longrightarrow> is_signature_valid E tx = Inr True \<and> x_tx_type tx \<in> set SUPPORTED_BLOCK_TX_TYPES \<and>
      type_rejection_reason E tx reserved allow db = Inr (None, db') \<and>
      (x_nonce tx = expected_nonce_of (x_sender tx) expected db \<or>
       gap \<and> expected_nonce_of (x_sender tx) expected db < x_nonce tx)"
proof -
  have same: "\<exists>g t. db = db\<lparr>treasury := t, science_governance := g\<rparr>"
    by (rule exI [of _ "science_governance db"], rule exI [of _ "treasury db"]) simp
  have c: "(db' = db \<and> r \<noteq> None \<or> type_rejection_reason E tx reserved allow db = Inr (r, db') \<and>
       is_signature_valid E tx = Inr True \<and> x_tx_type tx \<in> set SUPPORTED_BLOCK_TX_TYPES \<and>
       (x_nonce tx = expected_nonce_of (x_sender tx) expected db \<or>
        gap \<and> expected_nonce_of (x_sender tx) expected db < x_nonce tx)) \<and>
      (expected' = expected \<or> gap)"
    using assms unfolding transaction_rejection_reason_def Let_def
    by (auto split: if_splits)
  show "\<exists>g t. db' = db\<lparr>treasury := t, science_governance := g\<rparr>"
    using c same type_rule_writes by blast
  show "\<not> gap \<Longrightarrow> expected' = expected" using c by blast
  show "r = None \<Longrightarrow> is_signature_valid E tx = Inr True \<and> x_tx_type tx \<in> set SUPPORTED_BLOCK_TX_TYPES \<and>
      type_rejection_reason E tx reserved allow db = Inr (None, db') \<and>
      (x_nonce tx = expected_nonce_of (x_sender tx) expected db \<or>
       gap \<and> expected_nonce_of (x_sender tx) expected db < x_nonce tx)"
    using c by blast
qed

section \<open>What a selection keeps\<close>

text \<open>The mempool during a selection: some pending rows have failed, nothing else has changed.\<close>

definition row_failed :: "mempool_row \<Rightarrow> mempool_row \<Rightarrow> bool" where
  "row_failed m m' \<longleftrightarrow> m' = m \<or> m_status m = ''pending'' \<and> m_status m' = ''failed'' \<and>
     m_tx_hash m' = m_tx_hash m \<and> decode_mempool_transaction m' = decode_mempool_transaction m"

definition mempool_failed :: "mempool_row list \<Rightarrow> mempool_row list \<Rightarrow> bool" where
  "mempool_failed = list_all2 row_failed"

lemma decode_status_irrelevant [simp]:
  "decode_mempool_transaction (m\<lparr>m_status := s\<rparr>) = decode_mempool_transaction m"
  "decode_mempool_transaction (m\<lparr>m_selected_task_id := a\<rparr>) = decode_mempool_transaction m"
  "decode_mempool_transaction (m\<lparr>m_selected_block_height := h\<rparr>) = decode_mempool_transaction m"
  "decode_mempool_transaction (m\<lparr>m_mempool_snapshot_id := a\<rparr>) = decode_mempool_transaction m"
  "decode_mempool_transaction (m\<lparr>m_selected_at := h\<rparr>) = decode_mempool_transaction m"
  "decode_mempool_transaction (m\<lparr>m_released_at := h\<rparr>) = decode_mempool_transaction m"
  "decode_mempool_transaction (m\<lparr>m_failure_reason := a\<rparr>) = decode_mempool_transaction m"
  "decode_mempool_transaction (m\<lparr>m_rejection_reason := a\<rparr>) = decode_mempool_transaction m"
  "decode_mempool_transaction (m\<lparr>m_updated_at := t\<rparr>) = decode_mempool_transaction m"
  by (simp_all add: decode_mempool_transaction_def Let_def cong: option.case_cong)

lemma decode_hash [simp]: "x_tx_hash (decode_mempool_transaction m) = m_tx_hash m"
  by (simp add: decode_mempool_transaction_def Let_def)

lemma mempool_failed_refl: "mempool_failed ms ms"
  by (simp add: mempool_failed_def row_failed_def list_all2_same)

lemma mempool_failed_maps:
  assumes "mempool_failed ms ms'"
  shows "map m_tx_hash ms' = map m_tx_hash ms"
    and "map decode_mempool_transaction ms' = map decode_mempool_transaction ms"
    and "filter (\<lambda>m. m_status m = ''confirmed'') ms' = filter (\<lambda>m. m_status m = ''confirmed'') ms"
  using assms unfolding mempool_failed_def
  by (induction rule: list_all2_induct) (auto simp: row_failed_def)

lemma failed_row:
  assumes "row_failed m m'" and "m_status m = ''pending'' \<or> m_tx_hash m' \<noteq> h"
  shows "row_failed m (if m_tx_hash m' = h then m'\<lparr>m_status := ''failed'', m_failure_reason := Some r,
     m_rejection_reason := Some r, m_updated_at := t\<rparr> else m')"
  using assms by (auto simp: row_failed_def)

lemma mempool_failed_step:
  assumes f: "mempool_failed ms (mempool_transactions db)" and d: "distinct (map m_tx_hash ms)"
    and m: "m \<in> set ms" "m_status m = ''pending''"
  shows "mempool_failed ms (mempool_transactions (fail_transaction clock (m_tx_hash m) r db))"
proof -
  have h: "m_status x = ''pending''" if "x \<in> set ms" "m_tx_hash x = m_tx_hash m" for x
    using that d m by (metis distinct_map inj_onD)
  let ?g = "\<lambda>y. if m_tx_hash y = m_tx_hash m then y\<lparr>m_status := ''failed'', m_failure_reason := Some r,
      m_rejection_reason := Some r, m_updated_at := clock\<rparr> else y"
  have "list_all2 (\<lambda>x y. row_failed x (?g y)) ms (mempool_transactions db)"
  proof (rule list.rel_mono_strong [OF f [unfolded mempool_failed_def]])
    fix x y assume "x \<in> set ms" and xy: "row_failed x y"
    then have "m_status x = ''pending'' \<or> m_tx_hash y \<noteq> m_tx_hash m" using h by (auto simp: row_failed_def)
    then show "row_failed x (?g y)" by (rule failed_row [OF xy])
  qed
  then show ?thesis
    by (simp add: mempool_failed_def fail_transaction_def update_mempool_def tbl_update_def list_all2_map2)
qed

text \<open>What the selection reads of the database: it stays as it was.\<close>

definition same_accounts :: "'a db_chain_scheme \<Rightarrow> 'a db_chain_scheme \<Rightarrow> bool" where
  "same_accounts db0 db \<longleftrightarrow> balances db = balances db0 \<and> ledger_entries db = ledger_entries db0 \<and>
     account_nonces db = account_nonces db0 \<and>
     mempool_failed (mempool_transactions db0) (mempool_transactions db) \<and> db_chain.more db = db_chain.more db0"

lemma same_accounts_reads:
  assumes "same_accounts db0 db"
  shows "confirmed_nonce a db = confirmed_nonce a db0" and "balance_units_of a db = balance_units_of a db0"
proof -
  have "filter (\<lambda>m. m_sender m = a \<and> m_status m = ''confirmed'') (mempool_transactions db) =
      filter (\<lambda>m. m_sender m = a \<and> m_status m = ''confirmed'') (mempool_transactions db0)"
    (is "filter ?p _ = _")
  proof -
    let ?c = "\<lambda>m. m_status m = ''confirmed''" and ?s = "\<lambda>m. m_sender m = a"
    have p: "filter ?p ms = filter ?s (filter ?c ms)" for ms by (simp add: conj_commute)
    have "filter ?c (mempool_transactions db) = filter ?c (mempool_transactions db0)"
      using assms by (intro mempool_failed_maps(3)) (simp add: same_accounts_def)
    then show ?thesis by (simp only: p)
  qed
  then show "confirmed_nonce a db = confirmed_nonce a db0"
    using assms by (simp add: confirmed_nonce_def same_accounts_def)
  show "balance_units_of a db = balance_units_of a db0"
    using assms by (simp add: balance_units_of_def find_balance_def same_accounts_def)
qed

lemma same_accounts_written:
  "same_accounts db0 db \<Longrightarrow> same_accounts db0 (db\<lparr>treasury := t, science_governance := g\<rparr>)"
  by (simp add: same_accounts_def)

lemma next_selectable_nonce_eq:
  "next_selectable_nonce a None db = confirmed_nonce a db + 1"
  "next_selectable_nonce a (Some n) db = n"
  by (simp_all add: next_selectable_nonce_def next_nonce_after_statuses_def CONSUMED_TERMINAL_NONCE_STATUSES_def)

definition txs_of :: "string \<Rightarrow> tx list \<Rightarrow> tx list" where
  "txs_of s txs = filter (\<lambda>tx. x_sender tx = s) txs"

definition debits_of :: "string \<Rightarrow> tx list \<Rightarrow> int" where
  "debits_of s txs = (\<Sum>tx\<leftarrow>txs_of s txs. projr (total_debit_units tx))"

text \<open>The invariant of the loop, per sender: the selected nonces run from the first free one to the
  expected one, and the reserved debits are those of the selected transactions.\<close>

definition sender_inv :: "'a db_chain_scheme \<Rightarrow> string \<Rightarrow> nonces \<Rightarrow> (string \<Rightarrow> int) \<Rightarrow> tx list \<Rightarrow> bool" where
  "sender_inv db0 s expected reserved txs \<longleftrightarrow>
     (let n0 = confirmed_nonce s db0 + 1 in
      (case expected s of None \<Rightarrow> txs_of s txs = []
       | Some n \<Rightarrow> map x_nonce (txs_of s txs) = [n0 .. n - 1] \<and> n0 \<le> n) \<and>
      reserved s = debits_of s txs \<and>
      (txs_of s txs \<noteq> [] \<longrightarrow> (\<exists>b. balance_units_of s db0 = Inr b \<and> debits_of s txs \<le> b)))"

definition selection_inv ::
  "node_env \<Rightarrow> 'a db_chain_scheme \<Rightarrow> nat \<Rightarrow> 'a db_chain_scheme selection \<Rightarrow> bool" where
  "selection_inv E db0 k st \<longleftrightarrow>
     same_accounts db0 (sel_db st) \<and> length (sel_txs st) \<le> k \<and> distinct (map x_tx_hash (sel_txs st)) \<and>
     (\<forall>tx \<in> set (sel_txs st). basic_transaction_rejection_reason E tx = Inr None \<and>
        (\<exists>m \<in> set (mempool_transactions db0). m_status m = ''pending'' \<and> tx = decode_mempool_transaction m)) \<and>
     (\<forall>s. sender_inv db0 s (sel_expected st) (sel_reserved st) (sel_txs st))"

lemma sender_nonces:
  assumes "sender_inv db0 s expected reserved txs"
  shows "map x_nonce (txs_of s txs) =
    [confirmed_nonce s db0 + 1 .. confirmed_nonce s db0 + int (length (txs_of s txs))]"
proof (cases "expected s")
  case None
  then show ?thesis using assms by (simp add: sender_inv_def Let_def)
next
  case (Some n)
  then have m: "map x_nonce (txs_of s txs) = [confirmed_nonce s db0 + 1 .. n - 1]" "confirmed_nonce s db0 + 1 \<le> n"
    using assms by (simp_all add: sender_inv_def Let_def)
  have "length (txs_of s txs) = nat (n - 1 - confirmed_nonce s db0)"
    using arg_cong [OF m(1), of length] by simp
  then show ?thesis using m by simp
qed

lemma upto_snoc: "(i::int) \<le> j \<Longrightarrow> [i .. j] = [i .. j - 1] @ [j]"
  by (rule upto_rec2)

lemma sender_inv_taken:
  assumes i: "\<forall>s. sender_inv db0 s expected reserved txs"
    and n: "x_nonce tx = (case expected (x_sender tx) of Some n \<Rightarrow> n | None \<Rightarrow> confirmed_nonce (x_sender tx) db0 + 1)"
    and d: "total_debit_units tx = Inr debit" and b: "balance_units_of (x_sender tx) db0 = Inr b"
    and le: "reserved (x_sender tx) + debit \<le> b"
  shows "sender_inv db0 s (expected(x_sender tx \<mapsto> x_nonce tx + 1))
     (reserved(x_sender tx := reserved (x_sender tx) + debit)) (txs @ [tx])"
proof (cases "s = x_sender tx")
  case True
  have s: "sender_inv db0 s expected reserved txs" using i by blast
  have "map x_nonce (txs_of s (txs @ [tx])) = [confirmed_nonce s db0 + 1 .. x_nonce tx] \<and>
      confirmed_nonce s db0 + 1 \<le> x_nonce tx"
    using s n True by (cases "expected s")
      (auto simp: sender_inv_def txs_of_def Let_def upto_snoc)
  then show ?thesis
    using s d b le True by (auto simp: sender_inv_def Let_def debits_of_def txs_of_def)
next
  case False
  then have "txs_of s (txs @ [tx]) = txs_of s txs" "debits_of s (txs @ [tx]) = debits_of s txs"
    by (simp_all add: txs_of_def debits_of_def)
  then show ?thesis using i [rule_format, of s] False by (simp add: sender_inv_def Let_def cong: option.case_cong)
qed

lemma selection_inv_fail:
  assumes i: "selection_inv E db0 k st" and d: "distinct (map m_tx_hash (mempool_transactions db0))"
    and m: "m \<in> set (mempool_transactions db0)" "m_status m = ''pending''"
  shows "selection_inv E db0 k (fail_selected E (decode_mempool_transaction m) reason st)"
proof -
  have "same_accounts db0 (fail_transaction (ne_clock E) (m_tx_hash m) reason (sel_db st))"
    using mempool_failed_step [OF _ d m, of "sel_db st"] i
    by (simp add: selection_inv_def same_accounts_def) (simp add: fail_transaction_def update_mempool_def)
  then show ?thesis using i by (simp add: selection_inv_def)
qed

lemma expected_nonce_same:
  assumes "same_accounts db0 db"
  shows "expected_nonce_of s expected db =
     (case expected s of Some n \<Rightarrow> n | None \<Rightarrow> confirmed_nonce s db0 + 1)"
  using same_accounts_reads(1) [OF assms]
  by (simp add: expected_nonce_of_def next_selectable_nonce_eq cong: option.case_cong)

lemma selection_inv_taken:
  assumes i: "selection_inv E db0 k st" and m: "m \<in> set (mempool_transactions db0)" "m_status m = ''pending''"
    and tx: "tx = decode_mempool_transaction m"
    and g: "length (sel_txs st) < k" "x_tx_hash tx \<notin> x_tx_hash ` set (sel_txs st)"
      "basic_transaction_rejection_reason E tx = Inr None"
      "x_nonce tx = expected_nonce_of (x_sender tx) (sel_expected st) (sel_db st)"
    and d: "total_debit_units tx = Inr debit" and b: "balance_units_of (x_sender tx) (sel_db st) = Inr b"
    and le: "sel_reserved st (x_sender tx) + debit \<le> b"
  shows "selection_inv E db0 k (taken tx debit stamps st)"
proof -
  have sa: "same_accounts db0 (sel_db st)"
    and si: "\<forall>s. sender_inv db0 s (sel_expected st) (sel_reserved st) (sel_txs st)"
    using i by (simp_all add: selection_inv_def)
  have n: "x_nonce tx = (case sel_expected st (x_sender tx) of Some n \<Rightarrow> n | None \<Rightarrow> confirmed_nonce (x_sender tx) db0 + 1)"
    using g(4) expected_nonce_same [OF sa] by simp
  have "sender_inv db0 s ((sel_expected st)(x_sender tx \<mapsto> x_nonce tx + 1))
     ((sel_reserved st)(x_sender tx := sel_reserved st (x_sender tx) + debit)) (sel_txs st @ [tx])" for s
    by (rule sender_inv_taken [OF si n d _ le]) (use b same_accounts_reads(2) [OF sa] in simp)
  then have "\<forall>s. sender_inv db0 s (sel_expected (taken tx debit stamps st)) (sel_reserved (taken tx debit stamps st))
     (sel_txs st @ [tx])"
    by (simp add: taken_def Let_def next_selectable_nonce_eq)
  moreover have "\<exists>m \<in> set (mempool_transactions db0). m_status m = ''pending'' \<and> tx = decode_mempool_transaction m"
    using m tx by blast
  ultimately show ?thesis
    using i g by (auto simp: selection_inv_def)
qed

lemma select_row_inv:
  assumes i: "selection_inv E db0 k st" and r: "select_row E k m st = Inr st'"
    and d: "distinct (map m_tx_hash (mempool_transactions db0))"
    and m: "m \<in> set (mempool_transactions db0)" "m_status m = ''pending''"
  shows "selection_inv E db0 k st'"
proof (rule select_row_cases [OF r refl])
  let ?tx = "decode_mempool_transaction m"
  show "selection_inv E db0 k st'" if "st' = st" using i that by simp
  show "selection_inv E db0 k st'" if "st' = fail_selected E ?tx reason st" for reason
    using selection_inv_fail [OF i d m] that by simp
  assume g: "length (sel_txs st) < k" "x_tx_hash ?tx \<notin> x_tx_hash ` set (sel_txs st)"
    "basic_transaction_rejection_reason E ?tx = Inr None"
    "x_nonce ?tx = expected_nonce_of (x_sender ?tx) (sel_expected st) (sel_db st)"
    and e: "select_expected E ?tx st = Inr st'"
  obtain semantic expected db1 where c: "transaction_rejection_reason E ?tx (sel_expected st) (sel_faucet st)
      False False (sel_db st) = Inr (semantic, expected, db1)"
    using e unfolding select_expected_def bindE_eq_Inr by auto
  obtain gov t where db1: "db1 = (sel_db st)\<lparr>treasury := t, science_governance := gov\<rparr>"
    using rejection_reason_cases(1) [OF c] by blast
  define st1 where "st1 = st\<lparr>sel_expected := expected, sel_db := db1\<rparr>"
  have ex: "expected = sel_expected st" using rejection_reason_cases(2) [OF c] by simp
  have "same_accounts db0 db1"
    unfolding db1 by (rule same_accounts_written) (use i in \<open>simp add: selection_inv_def\<close>)
  then have i1: "selection_inv E db0 k st1" using i by (simp add: st1_def ex selection_inv_def)
  note e1 = e [unfolded select_expected_def c bindE_simps prod.case Let_def, folded st1_def]
  show "selection_inv E db0 k st'"
  proof (cases semantic)
    case (Some reason)
    then show ?thesis using e1 selection_inv_fail [OF i1 d m] by auto
  next
    case None
    have same: "same_accounts db0 (sel_db st)" "same_accounts db0 (sel_db st1)"
      using i i1 by (simp_all add: selection_inv_def)
    have n: "x_nonce ?tx = expected_nonce_of (x_sender ?tx) (sel_expected st1) (sel_db st1)"
      using g(4) expected_nonce_same [OF same(1)] expected_nonce_same [OF same(2)] by (simp add: st1_def ex)
    have g1: "length (sel_txs st1) < k" "x_tx_hash ?tx \<notin> x_tx_hash ` set (sel_txs st1)"
      using g(1,2) by (simp_all add: st1_def)
    show ?thesis
      using take_transaction_cases [OF e1 [unfolded None option.case]]
        selection_inv_taken [OF i1 m refl g1 g(3) n] i1 by blast
  qed
qed

lemma pending_rowsD: "m \<in> set (pending_rows db) \<Longrightarrow> m \<in> set (mempool_transactions db) \<and> m_status m = ''pending''"
  by (simp add: pending_rows_def)

lemma select_pass_inv:
  assumes "selection_inv E db0 k st" and "select_pass E k (pending_rows db0) st = Inr st'"
    and "distinct (map m_tx_hash (mempool_transactions db0))"
  shows "selection_inv E db0 k st'"
proof (rule foldE_invariant [where P = "selection_inv E db0 k", OF _ _ assms(2) [unfolded select_pass_def]])
  show "selection_inv E db0 k (st\<lparr>sel_progress := False\<rparr>)" using assms(1) by (simp add: selection_inv_def)
qed (use select_row_inv [OF _ _ assms(3)] pending_rowsD in blast)

lemma select_passes_inv:
  assumes "selection_inv E db0 k st" and "select_passes E k (pending_rows db0) st = Inr st'"
    and "distinct (map m_tx_hash (mempool_transactions db0))"
  shows "selection_inv E db0 k st'"
  using assms
proof (induction E k "pending_rows db0" st rule: select_passes.induct)
  case (1 E k st)
  note s = 1(3) [unfolded select_passes.simps [of E k "pending_rows db0" st]]
  show ?case
  proof (cases "sel_progress st \<and> length (sel_txs st) < k")
    case True
    then obtain st1 where p: "select_pass E k (pending_rows db0) st = Inr st1"
      "select_passes E k (pending_rows db0) st1 = Inr st'" using s by auto
    show ?thesis by (rule 1(1) [OF True p(1) select_pass_inv [OF 1(2) p(1) 1(4)] p(2) 1(4)])
  next
    case False
    then show ?thesis using s 1(2) by auto
  qed
qed

lemma initial_selection_inv: "selection_inv E db k (initial_selection db)"
  by (simp add: selection_inv_def initial_selection_def same_accounts_def mempool_failed_refl
      sender_inv_def Let_def txs_of_def debits_of_def)

lemma selection_inv_result:
  assumes "distinct (map m_tx_hash (mempool_transactions db))"
    and "select_transactions_for_task E max_count chain_height db = Inr (txs, db')"
  shows "\<exists>st. selection_inv E db (nat max_count) st \<and> txs = sel_txs st \<and> db' = sel_db st"
proof (cases "max_count \<le> 0")
  case True
  then show ?thesis
    using assms(2) initial_selection_inv [of E db "nat max_count"]
    by (intro exI [of _ "initial_selection db"])
       (simp_all add: select_transactions_for_task_def initial_selection_def)
next
  case False
  then obtain st where "select_passes E (nat max_count) (pending_rows db) (initial_selection db) = Inr st"
    and r: "txs = sel_txs st" "db' = sel_db st"
    using assms(2) by (auto simp: select_transactions_for_task_def)
  then have "selection_inv E db (nat max_count) st"
    by (intro select_passes_inv [OF initial_selection_inv _ assms(1)])
  then show ?thesis using r by blast
qed

section \<open>Stored transactions verify\<close>

text \<open>Decoding the stored payload and rebuilding the unsigned payload gives it back.\<close>

lemma unsigned_from_decoded:
  assumes "u = m_payload m" and "u_amount_units u = Some a" and "u_amount u = StrA (canonical_amount a)"
    and "u_fee_units u = Some f" and "u_fee u = StrA (canonical_amount f)"
    and "\<bar>a\<bar> \<le> 10 ^ 15" and "\<bar>f\<bar> \<le> 10 ^ 15" and "u_recipient u = Some r" and "u_timestamp u \<noteq> []"
  shows "unsigned_from_tx E (decode_mempool_transaction m) = Inr u"
  using assms by (cases u)
    (simp add: unsigned_from_tx_def decode_mempool_transaction_def Let_def tx_amount_units_def tx_fee_units_def
      unsigned_transaction_payload_def)

lemma unsigned_payload_fields:
  assumes "unsigned_transaction_payload ty sender nonce fee recipient amount payload timestamp network chain = Inr u"
  shows "\<exists>a f. to_units amount = Inr a \<and> to_units fee = Inr f \<and> u_amount_units u = Some a \<and>
    u_amount u = StrA (canonical_amount a) \<and> u_fee_units u = Some f \<and> u_fee u = StrA (canonical_amount f) \<and>
    u_recipient u = Some recipient \<and> u_timestamp u = timestamp \<and> u_sender u = sender \<and>
    u_network_id u = network \<and> u_chain_id u = chain \<and> u_tx_type u = ty \<and> u_nonce u = nonce"
  using assms by (auto simp: unsigned_transaction_payload_def)

lemma valid_signatureI:
  assumes "unsigned_from_tx E tx = Inr u" and "payload_digest (ne_crypto E) u (x_public_key tx) = x_tx_hash tx"
    and "chain_matches E tx" and "verify_signature (ne_crypto E) (x_public_key tx) u (x_signature tx)"
    and "address_matches_public_key (sha256_text (ne_crypto E)) (Some (x_sender tx)) (Some (x_public_key tx))"
  shows "is_signature_valid E tx = Inr True"
  using assms matching_own_payload [OF assms(2)] by (simp add: is_signature_valid_def)

text \<open>A transaction built by \<open>unsigned_transaction_payload\<close> for this network, hashed and signed
  with the key its sender address derives from, and stored in the mempool, decodes to a transaction
  that passes the signature check: storing and reading back loses nothing the signature covers.\<close>

theorem stored_transaction_verifies:
  assumes "unsigned_transaction_payload ty sender nonce fee recipient amount payload timestamp
      (NETWORK_ID E) (CHAIN_ID E) = Inr u"
    and "to_units amount = Inr a" and "\<bar>a\<bar> \<le> 10 ^ 15" and "to_units fee = Inr f" and "\<bar>f\<bar> \<le> 10 ^ 15"
    and "timestamp \<noteq> []" and "m_payload m = u" and "m_public_key m = pk"
    and "m_tx_hash m = transaction_hash (ne_crypto E) u pk"
    and "verify_signature (ne_crypto E) pk u (m_signature m)"
    and "hex_digest (sha256_text (ne_crypto E))"
    and "sender = address_from_public_key (sha256_text (ne_crypto E)) pk"
  shows "is_signature_valid E (decode_mempool_transaction m) = Inr True \<and>
    x_sender (decode_mempool_transaction m) = sender \<and> x_nonce (decode_mempool_transaction m) = nonce \<and>
    tx_amount_units (decode_mempool_transaction m) = Inr a \<and> tx_fee_units (decode_mempool_transaction m) = Inr f"
proof -
  let ?tx = "decode_mempool_transaction m"
  obtain a' f' where "to_units amount = Inr a'" "to_units fee = Inr f'"
    and uu: "u_amount_units u = Some a'" "u_amount u = StrA (canonical_amount a')" "u_fee_units u = Some f'"
      "u_fee u = StrA (canonical_amount f')" "u_recipient u = Some recipient" "u_timestamp u = timestamp"
      "u_sender u = sender" "u_network_id u = NETWORK_ID E" "u_chain_id u = CHAIN_ID E" "u_nonce u = nonce"
    using unsigned_payload_fields [OF assms(1)] by blast
  then have af: "a' = a" "f' = f" using assms(2,4) by simp_all
  have un: "unsigned_from_tx E ?tx = Inr u"
    by (rule unsigned_from_decoded [OF assms(7) [symmetric] uu(1-4)]) (use af uu assms in simp_all)
  have fields: "x_public_key ?tx = pk" "x_signature ?tx = m_signature m" "x_sender ?tx = sender"
    "x_network_id ?tx = Some (NETWORK_ID E)" "x_chain_id ?tx = Some (CHAIN_ID E)" "x_nonce ?tx = nonce"
    "x_amount_units ?tx = Some a" "x_fee_units ?tx = Some f"
    using uu af assms(7,8) by (simp_all add: decode_mempool_transaction_def Let_def)
  have adr: "address_matches_public_key (sha256_text (ne_crypto E)) (Some sender) (Some pk)"
    using derived_address_matches [OF assms(11)] assms(12) by simp
  have "is_signature_valid E ?tx = Inr True"
    by (rule valid_signatureI [OF un]) (use fields adr assms in \<open>simp_all add: chain_matches_def transaction_hash_def\<close>)
  then show ?thesis using fields by (simp add: tx_amount_units_def tx_fee_units_def)
qed

section \<open>Selection: properties\<close>

text \<open>A node with a toy cryptography, one funded wallet and one pending transfer.\<close>

definition example_crypto :: "payload crypto" where
  "example_crypto = \<lparr>sha256_text = (\<lambda>s. replicate 64 CHR ''a''),
     payload_digest = (\<lambda>u pk. ''h'' @ show_int (u_nonce u)), verify_signature = (\<lambda>_ _ _. True)\<rparr>"

definition example_env :: node_env where
  "example_env = \<lparr>ne_settings = default_settings, ne_crypto = example_crypto, ne_iso = (\<lambda>_. Some 0),
     ne_clock = 0, ne_now_iso = ''t''\<rparr>"

definition alice :: string where "alice = ''PI'' @ replicate 46 CHR ''A''"

definition bob :: string where "bob = ''PI'' @ replicate 38 CHR ''0''"

definition example_unsigned :: "payload unsigned_tx" where
  "example_unsigned = \<lparr>u_amount = StrA (canonical_amount 1000000), u_amount_units = Some 1000000, u_chain_id = CHAIN_ID example_env,
     u_fee = StrA (canonical_amount 10), u_fee_units = Some 10, u_network_id = NETWORK_ID example_env, u_nonce = 1,
     u_payload = [], u_recipient = Some (Some bob), u_sender = alice, u_timestamp = ''t'', u_tx_type = ''transfer''\<rparr>"

definition example_row :: mempool_row where
  "example_row = \<lparr>m_tx_hash = ''h1'', m_tx_type = ''transfer'', m_sender = alice, m_recipient = Some bob,
     m_amount = 1, m_amount_units = 1000000, m_nonce = 1, m_fee = units_to_float 10, m_fee_units = 10,
     m_payload = example_unsigned, m_public_key = ''key'', m_signature = ''sig'', m_status = ''pending'',
     m_selected_task_id = None, m_selected_block_height = None, m_mempool_snapshot_id = None,
     m_selected_at = None, m_confirmed_at = None, m_released_at = None, m_failure_reason = None,
     m_propagated = True, m_block_height = None, m_rejection_reason = None, m_expires_at = 9,
     m_created_at = 0, m_updated_at = 0\<rparr>"

definition example_chain :: "int \<Rightarrow> 'a \<Rightarrow> 'a db_chain_scheme" where
  "example_chain funds more_tables = \<lparr>
     balances = [\<lparr>b_account_id = alice, b_account_type = ''wallet'', b_balance = units_to_float funds,
       b_balance_units = funds, b_updated_at = 0\<rparr>],
     ledger_entries = [\<lparr>le_account_id = alice, le_account_type = ''wallet'', le_amount = units_to_float funds,
       le_amount_units = funds, le_balance_after = units_to_float funds, le_balance_after_units = funds,
       le_entry_type = ''faucet_credit'', le_block_height = None, le_related_id = None, le_description = None,
       le_created_at = 0\<rparr>],
     rewards = [], treasury = None, treasury_epochs = [], treasury_claims = [], science_events = [],
     science_governance = None, science_stake_accounts = [], science_jobs = [], science_reward_reserve = [],
     account_nonces = [], mempool_transactions = [example_row], validators = [], \<dots> = more_tables\<rparr>"

lemma code_upper_a: "char_upper CHR ''a'' = CHR ''A''"
  by code_simp

lemma alice_address: "address_from_public_key (sha256_text (ne_crypto example_env)) pk = alice"
proof -
  have up: "str_upper (replicate n CHR ''a'') = replicate n CHR ''A''" for n
    using code_upper_a by (simp add: str_upper_def)
  have H: "sha256_text (ne_crypto example_env) = (\<lambda>s. replicate 64 CHR ''a'')"
    by (simp add: example_env_def example_crypto_def)
  have "legacy_address_from_public_key (sha256_text (ne_crypto example_env)) pk = ADDRESS_PREFIX @ replicate 38 CHR ''A''"
    by (simp only: legacy_address_from_public_key_def H up ADDRESS_HASH_LENGTH_def take_replicate) simp
  moreover have "address_checksum (sha256_text (ne_crypto example_env)) s = replicate 8 CHR ''A''" for s
    by (simp only: address_checksum_def H up ADDRESS_CHECKSUM_LENGTH_def take_replicate) simp
  moreover have "replicate 38 CHR ''A'' @ replicate 8 CHR ''A'' = replicate 46 CHR ''A''"
    by (simp only: replicate_add [symmetric]) simp
  moreover have "drop (length ADDRESS_PREFIX) (ADDRESS_PREFIX @ xs) = xs" for xs by simp
  moreover have "alice = ADDRESS_PREFIX @ replicate 46 CHR ''A''" by (simp only: alice_def ADDRESS_PREFIX_def)
  ultimately show ?thesis by (simp only: address_from_public_key_def Let_def)
qed

lemma example_hex: "hex_digest (sha256_text (ne_crypto example_env))"
  by (simp add: hex_digest_def example_env_def example_crypto_def hex_digits_def)

lemma example_unsigned_built:
  "unsigned_transaction_payload ''transfer'' alice 1 (StrA (canonical_amount 10)) (Some bob)
     (StrA (canonical_amount 1000000)) [] ''t'' (NETWORK_ID example_env) (CHAIN_ID example_env) = Inr example_unsigned"
  by (simp add: unsigned_transaction_payload_def example_unsigned_def)

text \<open>C22: what a task's selection yields. The transactions are at most \<open>max_count\<close> pending rows
  with distinct hashes that pass the basic checks; each sender's nonces are exactly the next free
  ones, in order and without a gap; each sender's debits together stay within the sender's balance;
  and the selection changes no balance, ledger entry or confirmed nonce.\<close>

theorem selection_sound:
  fixes db :: "'a db_chain_scheme"
  assumes "distinct (map m_tx_hash (mempool_transactions db))"
    and "select_transactions_for_task E max_count chain_height db = Inr (txs, db')"
  shows "int (length txs) \<le> max 0 max_count \<and> distinct (map x_tx_hash txs) \<and>
    (\<forall>tx \<in> set txs. basic_transaction_rejection_reason E tx = Inr None \<and>
       (\<exists>m \<in> set (mempool_transactions db). m_status m = ''pending'' \<and> tx = decode_mempool_transaction m)) \<and>
    (\<forall>s. map x_nonce (txs_of s txs) =
       [confirmed_nonce s db + 1 .. confirmed_nonce s db + int (length (txs_of s txs))]) \<and>
    (\<forall>s. txs_of s txs \<noteq> [] \<longrightarrow> (\<exists>b. balance_units_of s db = Inr b \<and> debits_of s txs \<le> b)) \<and>
    balances db' = balances db \<and> ledger_entries db' = ledger_entries db \<and>
    (\<forall>s. confirmed_nonce s db' = confirmed_nonce s db)"
proof -
  obtain st where i: "selection_inv E db (nat max_count) st" and r: "txs = sel_txs st" "db' = sel_db st"
    using selection_inv_result [OF assms] by blast
  have n: "map x_nonce (txs_of s txs) =
      [confirmed_nonce s db + 1 .. confirmed_nonce s db + int (length (txs_of s txs))]" for s
  proof -
    have "sender_inv db s (sel_expected st) (sel_reserved st) txs" using i r by (simp add: selection_inv_def)
    then show ?thesis by (rule sender_nonces)
  qed
  have d: "\<exists>b. balance_units_of s db = Inr b \<and> debits_of s txs \<le> b" if "txs_of s txs \<noteq> []" for s
  proof -
    have "sender_inv db s (sel_expected st) (sel_reserved st) txs" using i r by (simp add: selection_inv_def)
    then show ?thesis using that by (simp add: sender_inv_def Let_def)
  qed
  have sa: "same_accounts db db'" using i r by (simp add: selection_inv_def)
  show ?thesis
    using i n d sa same_accounts_reads(1) [OF sa] r
    by (auto simp: selection_inv_def same_accounts_def)
qed

definition example_tx :: tx where
  "example_tx = decode_mempool_transaction example_row"

lemma example_tx_fields [simp]:
  "x_tx_hash example_tx = ''h1''" "x_tx_type example_tx = ''transfer''" "x_sender example_tx = alice"
  "x_recipient example_tx = Some bob" "x_nonce example_tx = 1" "x_amount_units example_tx = Some 1000000"
  "x_fee_units example_tx = Some 10" "x_amount example_tx = FloatA (units_to_float 1000000)"
  "x_fee example_tx = FloatA (units_to_float 10)"
  by (simp_all add: example_tx_def example_row_def example_unsigned_def decode_mempool_transaction_def)

lemma example_units [simp]:
  "tx_amount_units example_tx = Inr 1000000" "tx_fee_units example_tx = Inr 10"
  "total_debit_units example_tx = Inr 1000010" "total_debit example_tx = Inr (units_to_float 1000010)"
  by (simp_all add: tx_amount_units_def tx_fee_units_def total_debit_units_def total_debit_def)

lemma show_int_1: "show_int 1 = ''1''"
  by code_simp

theorem stored_transaction_verifies_witness:
  "is_signature_valid example_env (decode_mempool_transaction example_row) = Inr True \<and>
   tx_amount_units (decode_mempool_transaction example_row) = Inr 1000000"
  using stored_transaction_verifies [OF example_unsigned_built, of 1000000 10 example_row "''key''"]
  by (simp add: example_hex alice_address) (simp add: example_row_def example_env_def example_crypto_def
      transaction_hash_def example_unsigned_def show_int_1)

lemma example_signature [simp]: "is_signature_valid example_env example_tx = Inr True"
proof (rule valid_signatureI)
  show "unsigned_from_tx example_env example_tx = Inr example_unsigned"
    unfolding example_tx_def
    by (rule unsigned_from_decoded [where a = 1000000 and f = 10 and r = "Some bob"])
       (simp_all add: example_row_def example_unsigned_def)
  show "chain_matches example_env example_tx"
    by (simp add: chain_matches_def example_tx_def decode_mempool_transaction_def example_row_def example_unsigned_def)
  show "address_matches_public_key (sha256_text (ne_crypto example_env)) (Some (x_sender example_tx))
      (Some (x_public_key example_tx))"
    using derived_address_matches [OF example_hex] by (simp add: alice_address)
qed (simp_all add: example_tx_def decode_mempool_transaction_def example_row_def example_env_def example_crypto_def
    example_unsigned_def show_int_1)

lemma example_chain_matches [simp]: "chain_matches example_env example_tx"
  by (simp add: chain_matches_def example_tx_def decode_mempool_transaction_def example_row_def example_unsigned_def)

lemma example_supported: "''transfer'' \<in> set SUPPORTED_BLOCK_TX_TYPES"
  by (simp add: SUPPORTED_BLOCK_TX_TYPES_def)

lemma example_basic: "basic_transaction_rejection_reason example_env example_tx = Inr None"
  by (simp add: basic_transaction_rejection_reason_def example_supported)
     (simp add: example_env_def default_settings_def)

lemma bob_valid: "is_valid_address H (Some bob)"
proof -
  have "str_upper (str_strip (ADDRESS_PREFIX @ replicate 38 CHR ''0'')) = ADDRESS_PREFIX @ replicate 38 CHR ''0''"
    by (rule normal_address) (simp_all add: list_all_iff hex_upper_def)
  then have "str_upper (str_strip bob) = ADDRESS_PREFIX @ replicate 38 CHR ''0''"
    by (simp add: bob_def ADDRESS_PREFIX_def)
  then show ?thesis
    by (simp add: is_valid_address_def address_pattern_prefix list_all_iff hex_upper_def ADDRESS_HASH_LENGTH_def)
qed

lemma example_chain_mempool [simp]: "mempool_transactions (example_chain funds x) = [example_row]"
  by (simp add: example_chain_def)

lemma example_find_balance: "find_balance a (example_chain funds x) = (if a = alice then Some
    \<lparr>b_account_id = alice, b_account_type = ''wallet'', b_balance = units_to_float funds,
     b_balance_units = funds, b_updated_at = 0\<rparr> else None)"
  by (auto simp: find_balance_def example_chain_def)

lemma example_balance: "\<bar>funds\<bar> \<le> 10 ^ 15 \<Longrightarrow> balance_units_of alice (example_chain funds x) = Inr funds"
  by (simp add: balance_units_of_def example_find_balance units_from_db_consistent)

lemma example_nonce: "confirmed_nonce alice (example_chain funds x) = 0"
  by (simp add: confirmed_nonce_def example_chain_def example_row_def max_or_0_def)

lemma example_accepted:
  assumes "1000010 \<le> funds" and "funds \<le> 10 ^ 15" and "expected alice = None"
  shows "transaction_rejection_reason example_env example_tx expected reserved gap allow (example_chain funds x) =
    Inr (None, expected, example_chain funds x)"
proof -
  have "type_rejection_reason example_env example_tx reserved allow (example_chain funds x) = Inr (None, example_chain funds x)"
    by (simp add: type_rejection_reason_def transfer_rejection_reason_def bob_valid keep_db_def)
  moreover have "expected_nonce_of alice expected (example_chain funds x) = 1"
    using assms(3) by (simp add: expected_nonce_of_def next_selectable_nonce_eq example_nonce)
  moreover have "balance_of alice (example_chain funds x) = Inr (units_to_float funds)"
    using assms by (simp add: balance_of_def example_balance)
  moreover have "\<not> units_to_float funds < units_to_float 1000010"
    using units_to_float_mono [OF assms(1)] by simp
  ultimately show ?thesis by (simp add: transaction_rejection_reason_def example_supported)
qed

lemma example_selected:
  "\<exists>db'. select_transactions_for_task example_env 10 0 (example_chain 5000000 x) = Inr ([example_tx], db')"
proof -
  let ?db = "example_chain 5000000 x"
  define st1 where "st1 = taken example_tx 1000010 [] ((initial_selection ?db)\<lparr>sel_progress := False\<rparr>)"
  have rows: "pending_rows ?db = [example_row]"
    by (simp add: pending_rows_def example_chain_def example_row_def)
  have t: "take_transaction example_env example_tx ((initial_selection ?db)\<lparr>sel_progress := False\<rparr>) = Inr st1"
    by (simp add: take_transaction_def initial_selection_def example_balance faucet_times_def st1_def)
  have e: "select_expected example_env example_tx ((initial_selection ?db)\<lparr>sel_progress := False\<rparr>) = Inr st1"
    using t by (simp add: select_expected_def initial_selection_def example_accepted)
  have "select_row example_env 10 example_row ((initial_selection ?db)\<lparr>sel_progress := False\<rparr>) = Inr st1"
    using e by (simp add: select_row_def example_tx_def [symmetric] example_basic example_supported Let_def)
       (simp add: initial_selection_def expected_nonce_of_def next_selectable_nonce_eq example_nonce)
  then have p1: "select_pass example_env 10 [example_row] (initial_selection ?db) = Inr st1"
    by (simp add: select_pass_def)
  have p2: "select_pass example_env 10 [example_row] st1 = Inr (st1\<lparr>sel_progress := False\<rparr>)"
    by (simp add: select_pass_def select_row_def example_tx_def [symmetric] st1_def initial_selection_def Let_def)
  have t1: "sel_txs st1 = [example_tx]" "sel_progress st1" by (simp_all add: st1_def initial_selection_def)
  have "select_passes example_env 10 [example_row] (initial_selection ?db) = select_passes example_env 10 [example_row] st1"
    by (subst select_passes.simps) (simp add: p1, simp add: initial_selection_def)
  also have "\<dots> = select_passes example_env 10 [example_row] (st1\<lparr>sel_progress := False\<rparr>)"
    by (subst select_passes.simps) (simp add: p2 t1)
  also have "\<dots> = Inr (st1\<lparr>sel_progress := False\<rparr>)" by (subst select_passes.simps) simp
  finally have "select_passes example_env 10 [example_row] (initial_selection ?db) = Inr (st1\<lparr>sel_progress := False\<rparr>)" .
  then show ?thesis
    by (simp add: select_transactions_for_task_def rows t1)
qed

theorem selection_sound_witness:
  "\<exists>db'. select_transactions_for_task example_env 10 0 (example_chain 5000000 ()) = Inr ([example_tx], db') \<and>
     confirmed_nonce alice db' = 0"
proof -
  obtain db' where s: "select_transactions_for_task example_env 10 0 (example_chain 5000000 ()) = Inr ([example_tx], db')"
    using example_selected [where x = "()"] by (elim exE) (rule that)
  have "distinct (map m_tx_hash (mempool_transactions (example_chain 5000000 ())))" by simp
  from selection_sound [OF this s, THEN conjunct2, THEN conjunct2, THEN conjunct2, THEN conjunct2, THEN conjunct2,
      THEN conjunct2, THEN conjunct2, THEN spec, of alice]
  have "confirmed_nonce alice db' = 0" by (simp only: example_nonce)
  with s show ?thesis by blast
qed

end
