(* ===== verification/Snapshots.thy ===== *)
theory Snapshots
  imports Mempool
begin

text \<open>
  What \<open>app/services/transactions.py\<close> does with a selection: the commitment a block header
  carries, the snapshot stored for a mining task and its reuse in a competitive round, loading it
  back, releasing it when the task ends, and importing the transactions of a received block.
  ISO timestamps are integers; \<open>released\<close> and \<open>expired\<close> are the counters
  \<open>release_selected_transactions\<close> returns.

  Lemmas: a frozen snapshot loads as the selected transactions and its commitment is theirs; a
  release, one UPDATE per row, is one update of exactly the task's rows; an import keeps every
  confirmed row and lets no second transaction take a confirmed nonce.
\<close>

section \<open>Commitments\<close>

record tx_commitment =
  cm_tx_count :: int
  cm_tx_hashes :: "string list"
  cm_tx_merkle_root :: string
  cm_selected_tx_hashes_hash :: string
  cm_tx_fee_total_units :: int
  cm_fee_reward :: pyfloat

definition fee_total :: "tx list \<Rightarrow> int result" where
  "fee_total txs = foldE (\<lambda>tx acc. bindE (tx_fee_units tx) (\<lambda>f. Inr (acc + f))) txs 0"

definition commitment_of :: "(string \<Rightarrow> string) \<Rightarrow> string list \<Rightarrow> string \<Rightarrow> int \<Rightarrow> tx_commitment" where
  "commitment_of H tx_hashes root_hash fee_units =
     \<lparr>cm_tx_count = int (length tx_hashes), cm_tx_hashes = tx_hashes, cm_tx_merkle_root = root_hash,
      cm_selected_tx_hashes_hash = selected_tx_hashes_hash H tx_hashes, cm_tx_fee_total_units = fee_units,
      cm_fee_reward = units_to_float fee_units\<rparr>"

definition transaction_commitment :: "(string \<Rightarrow> string) \<Rightarrow> tx list \<Rightarrow> tx_commitment result" where
  "transaction_commitment H transactions =
     (let tx_hashes = map x_tx_hash transactions in
      bindE (fee_total transactions) (\<lambda>fee_units.
      Inr (commitment_of H tx_hashes (tx_merkle_root H tx_hashes) fee_units)))"

section \<open>Snapshots\<close>

definition snapshot_id_for_task :: "(string \<Rightarrow> string) \<Rightarrow> string \<Rightarrow> int \<Rightarrow> tx_commitment \<Rightarrow> string" where
  "snapshot_id_for_task H task_id block_height c =
     H (canonical_json (JObj [(''block_height'', JInt block_height), (''task_id'', JStr task_id),
       (''tx_hashes'', JList (map JStr (cm_tx_hashes c))), (''tx_merkle_root'', JStr (cm_tx_merkle_root c)),
       (''tx_fee_total_units'', JInt (cm_tx_fee_total_units c))]))"

text \<open>\<open>UPDATE tasks SET \<dots> WHERE task_id = ?\<close>.\<close>

definition stamp_task :: "string \<Rightarrow> string \<Rightarrow> tx_commitment \<Rightarrow> 'a db_mempool_scheme \<Rightarrow> 'a db_mempool_scheme" where
  "stamp_task task_id snapshot_id c db =
     db\<lparr>tasks := tbl_update (\<lambda>t. tk_task_id t = task_id)
       (\<lambda>t. t\<lparr>tk_mempool_snapshot_id := Some snapshot_id, tk_selected_tx_hashes := cm_tx_hashes c,
          tk_tx_merkle_root := cm_tx_merkle_root c, tk_tx_count := cm_tx_count c,
          tk_tx_fee_total_units := cm_tx_fee_total_units c,
          tk_selected_tx_hashes_hash := Some (cm_selected_tx_hashes_hash c)\<rparr>) (tasks db)\<rparr>"

record tx_snapshot =
  ts_snapshot_id :: string
  ts_task_id :: string
  ts_block_height :: "int option"
  ts_commitment :: tx_commitment

text \<open>\<open>ON CONFLICT(task_id) DO UPDATE\<close>; the snapshot id is the primary key.\<close>

definition upsert_snapshot :: "snapshot_row \<Rightarrow> snapshot_row list \<Rightarrow> snapshot_row list result" where
  "upsert_snapshot new rows =
     (if sn_snapshot_id new \<in> sn_snapshot_id ` {r \<in> set rows. sn_task_id r \<noteq> sn_task_id new}
      then Inl (IntegrityError ''task_tx_snapshots.snapshot_id'')
      else Inr (tbl_upsert sn_task_id (\<lambda>_. new) new rows))"

definition store_task_tx_snapshot ::
  "(string \<Rightarrow> string) \<Rightarrow> string \<Rightarrow> int \<Rightarrow> tx_commitment \<Rightarrow> int \<Rightarrow> 'a db_mempool_scheme \<Rightarrow>
   (tx_snapshot \<times> 'a db_mempool_scheme) result" where
  "store_task_tx_snapshot H task_id block_height c timestamp db =
     (let snapshot_id = snapshot_id_for_task H task_id block_height c;
          new = \<lparr>sn_snapshot_id = snapshot_id, sn_task_id = task_id, sn_block_height = block_height,
            sn_tx_hashes = cm_tx_hashes c, sn_tx_merkle_root = cm_tx_merkle_root c,
            sn_tx_count = cm_tx_count c, sn_tx_fee_total_units = cm_tx_fee_total_units c,
            sn_created_at = timestamp\<rparr> in
      bindE (upsert_snapshot new (task_tx_snapshots db)) (\<lambda>rows.
      Inr (\<lparr>ts_snapshot_id = snapshot_id, ts_task_id = task_id, ts_block_height = Some block_height, ts_commitment = c\<rparr>,
           stamp_task task_id snapshot_id c (db\<lparr>task_tx_snapshots := rows\<rparr>))))"

definition apply_task_tx_snapshot ::
  "string \<Rightarrow> string \<Rightarrow> tx_commitment \<Rightarrow> 'a db_mempool_scheme \<Rightarrow> tx_snapshot \<times> 'a db_mempool_scheme" where
  "apply_task_tx_snapshot task_id snapshot_id c db =
     (\<lparr>ts_snapshot_id = snapshot_id, ts_task_id = task_id, ts_block_height = None, ts_commitment = c\<rparr>,
      stamp_task task_id snapshot_id c db)"

definition mark_selected ::
  "string \<Rightarrow> int \<Rightarrow> string \<Rightarrow> int \<Rightarrow> string \<Rightarrow> 'a db_chain_scheme \<Rightarrow> 'a db_chain_scheme" where
  "mark_selected task_id block_height snapshot_id timestamp tx_hash db =
     update_mempool (\<lambda>m. m_tx_hash m = tx_hash \<and> m_status m = ''pending'')
       (\<lambda>m. m\<lparr>m_status := ''selected'', m_selected_task_id := Some task_id,
          m_selected_block_height := Some block_height, m_mempool_snapshot_id := Some snapshot_id,
          m_selected_at := Some timestamp, m_released_at := None, m_failure_reason := None,
          m_updated_at := timestamp\<rparr>) db"

definition freeze_transactions_for_task ::
  "node_env \<Rightarrow> string \<Rightarrow> int \<Rightarrow> int \<Rightarrow> int option \<Rightarrow> 'a db_mempool_scheme \<Rightarrow> (tx_snapshot \<times> 'a db_mempool_scheme) result" where
  "freeze_transactions_for_task E task_id block_height max_count ts db =
     (let timestamp = op_time (ne_clock E) ts; H = sha256_text (ne_crypto E) in
      bindE (select_transactions_for_task E max_count (block_height - 1) db) (\<lambda>(transactions, db1).
      bindE (transaction_commitment H transactions) (\<lambda>c.
      bindE (store_task_tx_snapshot H task_id block_height c timestamp db1) (\<lambda>(snapshot, db2).
      Inr (snapshot, fold (mark_selected task_id block_height (ts_snapshot_id snapshot) timestamp)
        (cm_tx_hashes c) db2)))))"

section \<open>Competitive rounds\<close>

record frozen_snapshot =
  fz_snapshot :: tx_snapshot
  fz_reused :: bool
  fz_source_task_id :: "string option"
  fz_source_snapshot_id :: "string option"

text \<open>The oldest snapshot of another task of the same round.\<close>

definition round_snapshot :: "int \<Rightarrow> string \<Rightarrow> string \<Rightarrow> 'a db_mempool_scheme \<Rightarrow> snapshot_row option" where
  "round_snapshot block_height seed task_id db =
     (let in_round = (\<lambda>r. sn_block_height r = block_height \<and> sn_task_id r \<noteq> task_id \<and>
            (case tbl_find tk_task_id (sn_task_id r) (tasks db) of None \<Rightarrow> False
             | Some t \<Rightarrow> tk_assignment_mode t = Some ''competitive_round'' \<and> tk_assignment_seed t = Some seed)) in
      case sort_key sn_created_at (sort_key sn_task_id (filter in_round (task_tx_snapshots db))) of
        [] \<Rightarrow> None | r # _ \<Rightarrow> Some r)"

definition freeze_transactions_for_competitive_round_task ::
  "node_env \<Rightarrow> string \<Rightarrow> int \<Rightarrow> string option \<Rightarrow> int \<Rightarrow> int option \<Rightarrow> 'a db_mempool_scheme \<Rightarrow>
   (frozen_snapshot \<times> 'a db_mempool_scheme) result" where
  "freeze_transactions_for_competitive_round_task E task_id block_height assignment_seed max_count ts db =
     (let seed = str_strip (str_or assignment_seed []); H = sha256_text (ne_crypto E) in
      case (if seed = [] then None else round_snapshot block_height seed task_id db) of
        Some source \<Rightarrow>
          let tx_hashes = sn_tx_hashes source;
              root_hash = (if sn_tx_merkle_root source = [] then tx_merkle_root H tx_hashes
                else sn_tx_merkle_root source);
              c = commitment_of H tx_hashes root_hash (sn_tx_fee_total_units source);
              (snapshot, db1) = apply_task_tx_snapshot task_id (sn_snapshot_id source) c db in
          Inr (\<lparr>fz_snapshot = snapshot\<lparr>ts_block_height := Some block_height\<rparr>, fz_reused = True,
                fz_source_task_id = Some (sn_task_id source), fz_source_snapshot_id = Some (sn_snapshot_id source)\<rparr>, db1)
      | None \<Rightarrow>
          bindE (freeze_transactions_for_task E task_id block_height max_count ts db) (\<lambda>(snapshot, db1).
          Inr (\<lparr>fz_snapshot = snapshot, fz_reused = False, fz_source_task_id = None, fz_source_snapshot_id = None\<rparr>, db1)))"

section \<open>Loading and releasing\<close>

record snapshot_view =
  sv_row :: snapshot_row
  sv_tx_hashes :: "string list"
  sv_selected_tx_hashes_hash :: string
  sv_tx_count :: int
  sv_tx_fee_total_units :: int

definition view_snapshot :: "(string \<Rightarrow> string) \<Rightarrow> snapshot_row \<Rightarrow> snapshot_view" where
  "view_snapshot H row =
     \<lparr>sv_row = row, sv_tx_hashes = sn_tx_hashes row,
      sv_selected_tx_hashes_hash = selected_tx_hashes_hash H (sn_tx_hashes row),
      sv_tx_count = (if sn_tx_count row = 0 then int (length (sn_tx_hashes row)) else sn_tx_count row),
      sv_tx_fee_total_units = sn_tx_fee_total_units row\<rparr>"

text \<open>The snapshot of the task itself, else the one its row refers to.\<close>

definition task_snapshot_row :: "string \<Rightarrow> 'a db_mempool_scheme \<Rightarrow> snapshot_row option" where
  "task_snapshot_row task_id db = (case tbl_find sn_task_id task_id (task_tx_snapshots db) of
     Some r \<Rightarrow> Some r
   | None \<Rightarrow> (case tbl_find tk_task_id task_id (tasks db) of
       None \<Rightarrow> None
     | Some t \<Rightarrow> (case tk_mempool_snapshot_id t of
         None \<Rightarrow> None | Some sid \<Rightarrow> tbl_find sn_snapshot_id sid (task_tx_snapshots db))))"

definition get_task_tx_snapshot ::
  "(string \<Rightarrow> string) \<Rightarrow> string \<Rightarrow> 'a db_mempool_scheme \<Rightarrow> snapshot_view option" where
  "get_task_tx_snapshot H task_id db = map_option (view_snapshot H) (task_snapshot_row task_id db)"

definition find_mempool :: "string \<Rightarrow> 'a db_chain_scheme \<Rightarrow> mempool_row option" where
  "find_mempool tx_hash db = tbl_find m_tx_hash tx_hash (mempool_transactions db)"

definition load_transactions :: "string list \<Rightarrow> 'a db_chain_scheme \<Rightarrow> tx list result" where
  "load_transactions tx_hashes db = foldE (\<lambda>tx_hash transactions. case find_mempool tx_hash db of
     None \<Rightarrow> Inl (TransactionExecutionError (''snapshot transaction missing: '' @ tx_hash))
   | Some row \<Rightarrow> Inr (transactions @ [decode_mempool_transaction row])) tx_hashes []"

definition load_snapshot_transactions ::
  "(string \<Rightarrow> string) \<Rightarrow> string \<Rightarrow> 'a db_mempool_scheme \<Rightarrow> tx list result" where
  "load_snapshot_transactions H task_id db = (case get_task_tx_snapshot H task_id db of
     None \<Rightarrow> Inr [] | Some v \<Rightarrow> load_transactions (sv_tx_hashes v) db)"

definition selected_for :: "string \<Rightarrow> mempool_row \<Rightarrow> bool" where
  "selected_for task_id m \<longleftrightarrow> m_selected_task_id m = Some task_id \<and> m_status m = ''selected''"

text \<open>The row a release writes; an expired transaction does not return to the mempool.\<close>

definition released_row :: "int \<Rightarrow> string \<Rightarrow> bool \<Rightarrow> mempool_row \<Rightarrow> mempool_row" where
  "released_row timestamp reason expired m =
     m\<lparr>m_status := (if expired then ''expired'' else ''pending''), m_selected_task_id := None,
       m_selected_block_height := None, m_mempool_snapshot_id := None, m_released_at := Some timestamp,
       m_failure_reason := Some reason,
       m_rejection_reason := (if expired then Some ''ttl expired'' else m_rejection_reason m),
       m_updated_at := timestamp\<rparr>"

definition release_one ::
  "int \<Rightarrow> string \<Rightarrow> mempool_row \<Rightarrow> (nat \<times> nat) \<times> 'a db_chain_scheme \<Rightarrow> (nat \<times> nat) \<times> 'a db_chain_scheme" where
  "release_one timestamp reason row acc = (case acc of ((released, expired), db) \<Rightarrow>
     let is_expired = (m_expires_at row < timestamp);
         db1 = update_mempool (\<lambda>m. m_tx_hash m = m_tx_hash row) (released_row timestamp reason is_expired) db in
     (if is_expired then (released, Suc expired) else (Suc released, expired), db1))"

definition release_selected_transactions ::
  "int \<Rightarrow> string \<Rightarrow> string \<Rightarrow> int option \<Rightarrow> 'a db_chain_scheme \<Rightarrow> (nat \<times> nat) \<times> 'a db_chain_scheme" where
  "release_selected_transactions clock task_id reason ts db =
     (let rows = sort_key m_tx_hash (filter (selected_for task_id) (mempool_transactions db)) in
      fold (release_one (op_time clock ts) reason) rows ((0, 0), db))"

section \<open>Transactions of a received block\<close>

definition imported_row :: "node_env \<Rightarrow> int \<Rightarrow> tx \<Rightarrow> payload unsigned_tx \<Rightarrow> int \<Rightarrow> int \<Rightarrow> mempool_row" where
  "imported_row E timestamp tx u amount_units fee_units =
     \<lparr>m_tx_hash = x_tx_hash tx, m_tx_type = x_tx_type tx, m_sender = x_sender tx, m_recipient = x_recipient tx,
      m_amount = units_to_float amount_units, m_amount_units = amount_units, m_nonce = x_nonce tx,
      m_fee = units_to_float fee_units, m_fee_units = fee_units, m_payload = u, m_public_key = x_public_key tx,
      m_signature = x_signature tx, m_status = ''pending'', m_selected_task_id = None,
      m_selected_block_height = None, m_mempool_snapshot_id = None, m_selected_at = None,
      m_confirmed_at = None, m_released_at = None, m_failure_reason = None, m_propagated = True,
      m_block_height = None, m_rejection_reason = None, m_expires_at = timestamp,
      m_created_at = timestamp, m_updated_at = timestamp\<rparr>"

definition insert_mempool :: "mempool_row \<Rightarrow> 'a db_chain_scheme \<Rightarrow> 'a db_chain_scheme result" where
  "insert_mempool row db =
     (if find_mempool (m_tx_hash row) db \<noteq> None then Inl (IntegrityError ''mempool_transactions.tx_hash'')
      else if (\<exists>m \<in> set (mempool_transactions db). m_sender m = m_sender row \<and> m_nonce m = m_nonce row)
      then Inl (IntegrityError ''mempool_transactions.sender, mempool_transactions.nonce'')
      else Inr (db\<lparr>mempool_transactions := mempool_transactions db @ [row]\<rparr>))"

definition nonce_conflict :: "tx \<Rightarrow> 'a db_chain_scheme \<Rightarrow> mempool_row option" where
  "nonce_conflict tx db =
     List.find (\<lambda>m. m_sender m = x_sender tx \<and> m_nonce m = x_nonce tx) (mempool_transactions db)"

definition confirmed_in_block :: "mempool_row \<Rightarrow> bool" where
  "confirmed_in_block m \<longleftrightarrow> m_status m = ''confirmed'' \<and> m_block_height m \<noteq> None"

text \<open>A row that holds the nonce without being confirmed in a block is deleted.\<close>

definition clear_nonce :: "tx \<Rightarrow> 'a db_chain_scheme \<Rightarrow> 'a db_chain_scheme result" where
  "clear_nonce tx db = (case nonce_conflict tx db of
     None \<Rightarrow> Inr db
   | Some c \<Rightarrow>
     if confirmed_in_block c
     then Inl (TransactionExecutionError ''canonical block transaction conflicts with confirmed sender nonce'')
     else Inr (db\<lparr>mempool_transactions := filter (\<lambda>m. m_tx_hash m \<noteq> m_tx_hash c) (mempool_transactions db)\<rparr>))"

definition ensure_one ::
  "node_env \<Rightarrow> int \<Rightarrow> tx \<Rightarrow> 'a db_chain_scheme \<Rightarrow> 'a db_chain_scheme result" where
  "ensure_one E timestamp tx db =
     bindE (is_signature_valid E tx) (\<lambda>ok.
     if \<not> ok then Inl (TransactionExecutionError (''invalid signature for block transaction '' @ x_tx_hash tx))
     else if find_mempool (x_tx_hash tx) db \<noteq> None then Inr db
     else bindE (clear_nonce tx db) (\<lambda>db1.
       bindE (unsigned_from_tx E tx) (\<lambda>u.
       bindE (tx_amount_units tx) (\<lambda>a. bindE (tx_fee_units tx) (\<lambda>f.
       insert_mempool (imported_row E timestamp tx u a f) db1)))))"

definition ensure_block_transactions_in_mempool ::
  "node_env \<Rightarrow> tx list \<Rightarrow> int option \<Rightarrow> 'a db_chain_scheme \<Rightarrow> 'a db_chain_scheme result" where
  "ensure_block_transactions_in_mempool E transactions ts db =
     foldE (ensure_one E (op_time (ne_clock E) ts)) transactions db"

section \<open>Freezing and loading\<close>

definition same_transactions :: "mempool_row list \<Rightarrow> mempool_row list \<Rightarrow> bool" where
  "same_transactions ms ms' \<longleftrightarrow> map m_tx_hash ms' = map m_tx_hash ms \<and>
     map decode_mempool_transaction ms' = map decode_mempool_transaction ms"

lemma same_transactions_find:
  assumes "same_transactions ms ms'" and "distinct (map m_tx_hash ms)" and "m \<in> set ms"
  shows "\<exists>m'. tbl_find m_tx_hash (m_tx_hash m) ms' = Some m' \<and>
    decode_mempool_transaction m' = decode_mempool_transaction m"
proof -
  have eq: "map m_tx_hash ms' = map m_tx_hash ms" "map decode_mempool_transaction ms' = map decode_mempool_transaction ms"
    using assms(1) by (simp_all add: same_transactions_def)
  obtain i where i: "i < length ms" "m = ms ! i" using assms(3) by (auto simp: in_set_conv_nth)
  have len: "length ms' = length ms" using eq(1) map_eq_imp_length_eq by blast
  have h: "m_tx_hash (ms' ! i) = m_tx_hash m" using arg_cong [OF eq(1), of "\<lambda>xs. xs ! i"] i len by simp
  have d: "decode_mempool_transaction (ms' ! i) = decode_mempool_transaction m"
    using arg_cong [OF eq(2), of "\<lambda>xs. xs ! i"] i len by simp
  have "ms' ! i \<in> set ms'" using i len by simp
  then have "tbl_find m_tx_hash (m_tx_hash (ms' ! i)) ms' = Some (ms' ! i)"
    by (intro tbl_find_distinct) (simp_all add: eq assms(2))
  then show ?thesis using h d by auto
qed

lemma same_transactions_trans:
  "same_transactions a b \<Longrightarrow> same_transactions b c \<Longrightarrow> same_transactions a c"
  by (simp add: same_transactions_def)

lemma same_transactions_update:
  assumes "\<And>m. m_tx_hash (f m) = m_tx_hash m"
    and "\<And>m. decode_mempool_transaction (f m) = decode_mempool_transaction m"
  shows "same_transactions ms (tbl_update p f ms)"
  using assms by (simp add: same_transactions_def tbl_update_def)

lemma mark_selected_fields:
  fixes db :: "'a db_mempool_scheme"
  shows "same_transactions (mempool_transactions db) (mempool_transactions (mark_selected t h sid ts x db))"
    and "tasks (mark_selected t h sid ts x db) = tasks db"
    and "task_tx_snapshots (mark_selected t h sid ts x db) = task_tx_snapshots db"
  by (auto simp: mark_selected_def update_mempool_def intro!: same_transactions_update)

lemma fold_mark_selected:
  fixes db :: "'a db_mempool_scheme"
  shows "same_transactions (mempool_transactions db) (mempool_transactions (fold (mark_selected t h sid ts) xs db)) \<and>
   tasks (fold (mark_selected t h sid ts) xs db) = tasks db \<and>
   task_tx_snapshots (fold (mark_selected t h sid ts) xs db) = task_tx_snapshots db"
proof (induction xs arbitrary: db)
  case Nil
  show ?case by (simp add: same_transactions_def)
next
  case (Cons x xs)
  show ?case
    using Cons.IH [of "mark_selected t h sid ts x db"] mark_selected_fields(2,3) [of t h sid ts x db]
      same_transactions_trans [OF mark_selected_fields(1) [of db t h sid ts x]]
    by simp
qed

lemma load_transactions_acc:
  assumes "\<forall>tx \<in> set txs. \<exists>m. find_mempool (x_tx_hash tx) db = Some m \<and> decode_mempool_transaction m = tx"
  shows "foldE (\<lambda>tx_hash transactions. case find_mempool tx_hash db of
     None \<Rightarrow> Inl (TransactionExecutionError (''snapshot transaction missing: '' @ tx_hash))
   | Some row \<Rightarrow> Inr (transactions @ [decode_mempool_transaction row])) (map x_tx_hash txs) acc = Inr (acc @ txs)"
  using assms by (induction txs arbitrary: acc) auto

lemma load_transactions_found:
  "\<forall>tx \<in> set txs. \<exists>m. find_mempool (x_tx_hash tx) db = Some m \<and> decode_mempool_transaction m = tx \<Longrightarrow>
   load_transactions (map x_tx_hash txs) db = Inr txs"
  unfolding load_transactions_def by (simp only: load_transactions_acc append_Nil)

lemma upsert_snapshot_find:
  "upsert_snapshot new rows = Inr rows' \<Longrightarrow> tbl_find sn_task_id (sn_task_id new) rows' = Some new"
  by (auto simp: upsert_snapshot_def tbl_find_upsert split: if_splits option.splits)

lemma store_snapshot_effect:
  assumes "store_task_tx_snapshot H task_id h c ts db = Inr (snap, db')"
  shows "ts_commitment snap = c \<and> mempool_transactions db' = mempool_transactions db \<and>
    balances db' = balances db \<and>
    (\<exists>r. task_snapshot_row task_id db' = Some r \<and> sn_tx_hashes r = cm_tx_hashes c)"
proof -
  define new where "new = \<lparr>sn_snapshot_id = snapshot_id_for_task H task_id h c, sn_task_id = task_id,
      sn_block_height = h, sn_tx_hashes = cm_tx_hashes c, sn_tx_merkle_root = cm_tx_merkle_root c,
      sn_tx_count = cm_tx_count c, sn_tx_fee_total_units = cm_tx_fee_total_units c, sn_created_at = ts\<rparr>"
  have n: "sn_task_id new = task_id" "sn_tx_hashes new = cm_tx_hashes c" by (simp_all add: new_def)
  obtain rows where u: "upsert_snapshot new (task_tx_snapshots db) = Inr rows"
    using assms unfolding store_task_tx_snapshot_def Let_def new_def [symmetric] bindE_eq_Inr by (elim exE conjE)
  have "snap = \<lparr>ts_snapshot_id = snapshot_id_for_task H task_id h c, ts_task_id = task_id,
      ts_block_height = Some h, ts_commitment = c\<rparr>"
    "db' = stamp_task task_id (snapshot_id_for_task H task_id h c) c (db\<lparr>task_tx_snapshots := rows\<rparr>)"
    using assms unfolding store_task_tx_snapshot_def Let_def new_def [symmetric] u bindE_simps sum.inject prod.inject
    by simp_all
  then show ?thesis
    using upsert_snapshot_find [OF u] n by (simp add: stamp_task_def task_snapshot_row_def)
qed

text \<open>A frozen snapshot reads back: loading the task's snapshot right after the freeze gives
  exactly the transactions that were selected, in order, and the stored commitment is theirs.\<close>

theorem frozen_snapshot_reloads:
  assumes "distinct (map m_tx_hash (mempool_transactions db))"
    and "freeze_transactions_for_task E task_id block_height max_count ts db = Inr (snapshot, db')"
  shows "\<exists>txs db1. select_transactions_for_task E max_count (block_height - 1) db = Inr (txs, db1) \<and>
    load_snapshot_transactions (sha256_text (ne_crypto E)) task_id db' = Inr txs \<and>
    transaction_commitment (sha256_text (ne_crypto E)) txs = Inr (ts_commitment snapshot) \<and>
    cm_tx_hashes (ts_commitment snapshot) = map x_tx_hash txs"
proof -
  let ?H = "sha256_text (ne_crypto E)"
  obtain txs db1 c db2 where s: "select_transactions_for_task E max_count (block_height - 1) db = Inr (txs, db1)"
    and c: "transaction_commitment ?H txs = Inr c"
    and st: "store_task_tx_snapshot ?H task_id block_height c (op_time (ne_clock E) ts) db1 = Inr (snapshot, db2)"
    and d': "db' = fold (mark_selected task_id block_height (ts_snapshot_id snapshot) (op_time (ne_clock E) ts))
        (cm_tx_hashes c) db2"
    using assms(2) unfolding freeze_transactions_for_task_def Let_def by auto
  have ch: "cm_tx_hashes c = map x_tx_hash txs"
    using c by (auto simp: transaction_commitment_def commitment_of_def Let_def)
  obtain st' where i: "selection_inv E db (nat max_count) st'" "txs = sel_txs st'" "db1 = sel_db st'"
    using selection_inv_result [OF assms(1) s] by blast
  have m1: "same_transactions (mempool_transactions db) (mempool_transactions db1)"
    using i mempool_failed_maps by (auto simp: selection_inv_def same_accounts_def same_transactions_def)
  note eff = store_snapshot_effect [OF st]
  have m2: "same_transactions (mempool_transactions db2) (mempool_transactions db')"
    and mo: "tasks db' = tasks db2" "task_tx_snapshots db' = task_tx_snapshots db2"
    unfolding d' by (simp_all only: fold_mark_selected)
  have same: "same_transactions (mempool_transactions db) (mempool_transactions db')"
    using m1 m2 eff by (auto intro: same_transactions_trans)
  have ball: "\<forall>tx \<in> set txs. \<exists>m \<in> set (mempool_transactions db). tx = decode_mempool_transaction m"
    using i(1) unfolding selection_inv_def i(2) by (elim conjE) fast
  have "\<exists>m. find_mempool (x_tx_hash tx) db' = Some m \<and> decode_mempool_transaction m = tx" if tx: "tx \<in> set txs" for tx
  proof -
    obtain m where "m \<in> set (mempool_transactions db)" "tx = decode_mempool_transaction m"
      using ball [rule_format, OF tx] by (elim bexE) (rule that)
    then show ?thesis using same_transactions_find [OF same assms(1)] by (auto simp: find_mempool_def)
  qed
  then have "load_transactions (cm_tx_hashes c) db' = Inr txs" by (simp add: ch load_transactions_found)
  moreover have "task_snapshot_row task_id db' = task_snapshot_row task_id db2"
    by (simp only: task_snapshot_row_def mo)
  ultimately have "load_snapshot_transactions ?H task_id db' = Inr txs"
    using eff by (auto simp: load_snapshot_transactions_def get_task_tx_snapshot_def view_snapshot_def)
  then show ?thesis using s c eff ch by auto
qed

definition example_mempool :: db_mempool where
  "example_mempool = example_chain 5000000 \<lparr>tasks = [], task_tx_snapshots = []\<rparr>"

theorem frozen_snapshot_reloads_witness:
  "\<exists>snapshot db'. freeze_transactions_for_task example_env ''task'' 1 10 None example_mempool = Inr (snapshot, db') \<and>
     load_snapshot_transactions (sha256_text (ne_crypto example_env)) ''task'' db' = Inr [example_tx]"
proof -
  have d: "distinct (map m_tx_hash (mempool_transactions example_mempool))"
    by (simp add: example_mempool_def)
  have "\<exists>db1. select_transactions_for_task example_env 10 0 example_mempool = Inr ([example_tx], db1)"
    unfolding example_mempool_def by (rule example_selected)
  then obtain db1 where s: "select_transactions_for_task example_env 10 0 example_mempool = Inr ([example_tx], db1)" ..
  have "db_chain.more db1 = db_chain.more example_mempool"
    using selection_inv_result [OF d s] by (auto simp: selection_inv_def same_accounts_def)
  then have r: "task_tx_snapshots db1 = []"
    by (cases db1) (simp add: example_mempool_def example_chain_def)
  have "\<exists>c. transaction_commitment (sha256_text (ne_crypto example_env)) [example_tx] = Inr c"
    by (simp add: transaction_commitment_def fee_total_def Let_def)
  then obtain snapshot db' where
    f: "freeze_transactions_for_task example_env ''task'' 1 10 None example_mempool = Inr (snapshot, db')"
    using s r by (auto simp: freeze_transactions_for_task_def store_task_tx_snapshot_def upsert_snapshot_def Let_def)
  from frozen_snapshot_reloads [OF d f] show ?thesis using s f by auto
qed

section \<open>Releasing\<close>

text \<open>The bulk update a release amounts to, for a set of hashes.\<close>

definition release_rows :: "int \<Rightarrow> string \<Rightarrow> string set \<Rightarrow> mempool_row list \<Rightarrow> mempool_row list" where
  "release_rows timestamp reason hashes ms =
     map (\<lambda>m. if m_tx_hash m \<in> hashes then released_row timestamp reason (m_expires_at m < timestamp) m else m) ms"

lemma released_row_simps [simp]:
  "m_tx_hash (released_row ts reason e m) = m_tx_hash m"
  "m_expires_at (released_row ts reason e m) = m_expires_at m"
  "m_status (released_row ts reason e m) = (if e then ''expired'' else ''pending'')"
  "m_selected_task_id (released_row ts reason e m) = None"
  by (simp_all add: released_row_def)

lemma release_rows_step:
  assumes "h \<notin> A" and "\<forall>m \<in> set ms. m_tx_hash m = h \<longrightarrow> m_expires_at m = x"
  shows "release_rows ts reason A (tbl_update (\<lambda>m. m_tx_hash m = h) (released_row ts reason (x < ts)) ms) =
    release_rows ts reason (insert h A) ms"
  using assms by (auto simp: release_rows_def tbl_update_def)

lemma update_mempool_simps [simp]:
  "mempool_transactions (update_mempool p f db) = tbl_update p f (mempool_transactions db)"
  by (simp add: update_mempool_def)

lemma release_fold:
  assumes "distinct (map m_tx_hash rs)"
    and "\<forall>r \<in> set rs. \<forall>m \<in> set (mempool_transactions db). m_tx_hash m = m_tx_hash r \<longrightarrow> m_expires_at m = m_expires_at r"
  shows "fold (release_one ts reason) rs ((a, b), db) =
    ((a + length (filter (\<lambda>r. \<not> m_expires_at r < ts) rs), b + length (filter (\<lambda>r. m_expires_at r < ts) rs)),
     db\<lparr>mempool_transactions := release_rows ts reason (m_tx_hash ` set rs) (mempool_transactions db)\<rparr>)"
  using assms
proof (induction rs arbitrary: a b db)
  case Nil
  show ?case by (simp add: release_rows_def)
next
  case (Cons r rs)
  define db1 where "db1 = update_mempool (\<lambda>m. m_tx_hash m = m_tx_hash r)
      (released_row ts reason (m_expires_at r < ts)) db"
  have one: "release_one ts reason r ((a, b), db) =
      ((if m_expires_at r < ts then (a, Suc b) else (Suc a, b)), db1)"
    by (simp add: release_one_def db1_def Let_def)
  have "\<forall>r' \<in> set rs. \<forall>m \<in> set (mempool_transactions db1). m_tx_hash m = m_tx_hash r' \<longrightarrow> m_expires_at m = m_expires_at r'"
    using Cons.prems(2) by (auto simp: db1_def set_tbl_update)
  note ih = Cons.IH [OF _ this]
  have rows: "release_rows ts reason (m_tx_hash ` set rs) (mempool_transactions db1) =
      release_rows ts reason (m_tx_hash ` set (r # rs)) (mempool_transactions db)"
    using Cons.prems release_rows_step [of "m_tx_hash r" "m_tx_hash ` set rs" "mempool_transactions db" "m_expires_at r"]
    by (simp add: db1_def)
  have "db1\<lparr>mempool_transactions := ms\<rparr> = db\<lparr>mempool_transactions := ms\<rparr>" for ms
    by (simp add: db1_def update_mempool_def)
  then show ?case
    using Cons.prems(1) by (simp add: one ih rows)
qed

lemma selected_hash:
  assumes "distinct (map m_tx_hash ms)" and "m \<in> set ms"
  shows "m_tx_hash m \<in> m_tx_hash ` {r \<in> set ms. selected_for task_id r} \<longleftrightarrow> selected_for task_id m"
  using assms by (auto simp: distinct_map dest: inj_onD)

text \<open>\<open>release_selected_transactions\<close>, which updates row after row, does one thing: every row
  selected for the task goes back to pending, or to expired when its time is over, and loses its
  task; every other row and table stays; and the two counters add up to the rows released.\<close>

theorem release_clears_task:
  assumes "distinct (map m_tx_hash (mempool_transactions db))"
    and "release_selected_transactions clock task_id reason ts db = ((released, expired), db')"
  shows "db' = db\<lparr>mempool_transactions := map (\<lambda>m. if selected_for task_id m
       then released_row (op_time clock ts) reason (m_expires_at m < op_time clock ts) m else m) (mempool_transactions db)\<rparr> \<and>
    released + expired = length (filter (selected_for task_id) (mempool_transactions db)) \<and>
    filter (selected_for task_id) (mempool_transactions db') = []"
proof -
  let ?ms = "mempool_transactions db" and ?t = "op_time clock ts"
  let ?rows = "sort_key m_tx_hash (filter (selected_for task_id) ?ms)"
  have d: "distinct (map m_tx_hash ?rows)"
    using assms(1) by (auto simp: distinct_map inj_on_def)
  have "\<forall>r \<in> set ?rows. \<forall>m \<in> set ?ms. m_tx_hash m = m_tx_hash r \<longrightarrow> m_expires_at m = m_expires_at r"
    using assms(1) by (auto simp: distinct_map dest: inj_onD)
  note f = release_fold [OF d this, of ?t reason 0 0]
  have rows: "release_rows ?t reason (m_tx_hash ` set ?rows) ?ms = map (\<lambda>m. if selected_for task_id m
      then released_row ?t reason (m_expires_at m < ?t) m else m) ?ms"
    using selected_hash [OF assms(1)] by (auto simp: release_rows_def)
  have db': "db' = db\<lparr>mempool_transactions := release_rows ?t reason (m_tx_hash ` set ?rows) ?ms\<rparr>"
    and cnt: "released = length (filter (\<lambda>r. \<not> m_expires_at r < ?t) ?rows)"
      "expired = length (filter (\<lambda>r. m_expires_at r < ?t) ?rows)"
    using assms(2) f by (simp_all add: release_selected_transactions_def)
  have "released + expired = length ?rows"
    using sum_length_filter_compl [of "\<lambda>r. m_expires_at r < ?t" ?rows] cnt by simp
  then show ?thesis
    using db' unfolding rows by (auto simp: filter_empty_conv selected_for_def)
qed

theorem release_clears_task_witness:
  "\<exists>db'. release_selected_transactions 5 ''task'' ''stale'' None
     (update_mempool (\<lambda>_. True) (\<lambda>m. m\<lparr>m_status := ''selected'', m_selected_task_id := Some ''task''\<rparr>) example_mempool) =
     ((1, 0), db') \<and> filter (selected_for ''task'') (mempool_transactions db') = []"
proof -
  define D where "D = update_mempool (\<lambda>_. True)
      (\<lambda>m. m\<lparr>m_status := ''selected'', m_selected_task_id := Some ''task''\<rparr>) example_mempool"
  have ms: "mempool_transactions D = [example_row\<lparr>m_status := ''selected'', m_selected_task_id := Some ''task''\<rparr>]"
    by (simp add: D_def example_mempool_def)
  have "\<exists>db'. release_selected_transactions 5 ''task'' ''stale'' None D = ((1, 0), db')"
    by (simp add: release_selected_transactions_def ms selected_for_def release_one_def Let_def op_time_def)
       (simp add: example_row_def)
  then obtain db' where r: "release_selected_transactions 5 ''task'' ''stale'' None D = ((1, 0), db')" ..
  have "distinct (map m_tx_hash (mempool_transactions D))" by (simp add: ms)
  from release_clears_task [OF this r] show ?thesis using r unfolding D_def by blast
qed

section \<open>Importing a block\<close>

text \<open>The keys of the table: the primary key and \<open>UNIQUE(sender, nonce)\<close>.\<close>

definition mempool_keys :: "'a db_chain_scheme \<Rightarrow> bool" where
  "mempool_keys db \<longleftrightarrow> distinct (map m_tx_hash (mempool_transactions db)) \<and>
     distinct (map (\<lambda>m. (m_sender m, m_nonce m)) (mempool_transactions db))"

text \<open>One transaction: its row is present, a nonce confirmed in a block is never taken again, and
  confirmed rows stay.\<close>

definition import_step :: "tx \<Rightarrow> 'a db_chain_scheme \<Rightarrow> 'a db_chain_scheme \<Rightarrow> bool" where
  "import_step tx db db' \<longleftrightarrow> mempool_keys db' \<and>
     (\<forall>m \<in> set (mempool_transactions db). confirmed_in_block m \<longrightarrow> m \<in> set (mempool_transactions db')) \<and>
     m_tx_hash ` set (mempool_transactions db') \<subseteq> insert (x_tx_hash tx) (m_tx_hash ` set (mempool_transactions db)) \<and>
     (x_tx_hash tx \<notin> m_tx_hash ` set (mempool_transactions db) \<longrightarrow>
        (\<forall>m \<in> set (mempool_transactions db). confirmed_in_block m \<longrightarrow>
           (m_sender m, m_nonce m) \<noteq> (x_sender tx, x_nonce tx)))"

lemma clear_nonce_effect:
  assumes k: "mempool_keys db" and c: "clear_nonce tx db = Inr db'"
  shows "(\<exists>P. mempool_transactions db' = filter P (mempool_transactions db)) \<and>
    (\<forall>m \<in> set (mempool_transactions db). confirmed_in_block m \<longrightarrow> m \<in> set (mempool_transactions db') \<and>
       (m_sender m, m_nonce m) \<noteq> (x_sender tx, x_nonce tx))"
proof (cases "nonce_conflict tx db")
  case None
  then have "db' = db" "\<forall>m \<in> set (mempool_transactions db). (m_sender m, m_nonce m) \<noteq> (x_sender tx, x_nonce tx)"
    using c [unfolded clear_nonce_def None option.case] None by (auto simp: nonce_conflict_def find_None_iff)
  then show ?thesis by (auto intro: exI [of _ "\<lambda>_. True"])
next
  case (Some x)
  then have x: "x \<in> set (mempool_transactions db)" "m_sender x = x_sender tx" "m_nonce x = x_nonce tx"
    by (auto simp: nonce_conflict_def find_Some_iff)
  have nx: "\<not> confirmed_in_block x" and
    d: "mempool_transactions db' = filter (\<lambda>m. m_tx_hash m \<noteq> m_tx_hash x) (mempool_transactions db)"
    using c Some by (auto simp: clear_nonce_def split: if_splits)
  have "m = x" if "m \<in> set (mempool_transactions db)" "m_sender m = m_sender x" "m_nonce m = m_nonce x" for m
    using k that x(1) by (auto simp: mempool_keys_def distinct_map dest: inj_onD)
  then have own: "(m_sender m, m_nonce m) = (x_sender tx, x_nonce tx) \<Longrightarrow> m = x" if "m \<in> set (mempool_transactions db)" for m
    using that x by simp
  have hash: "m_tx_hash m = m_tx_hash x \<Longrightarrow> m = x" if "m \<in> set (mempool_transactions db)" for m
    using k that x(1) by (auto simp: mempool_keys_def distinct_map dest: inj_onD)
  have "\<forall>m \<in> set (mempool_transactions db). confirmed_in_block m \<longrightarrow> m \<in> set (mempool_transactions db') \<and>
       (m_sender m, m_nonce m) \<noteq> (x_sender tx, x_nonce tx)"
  proof (intro ballI impI)
    fix m assume m: "m \<in> set (mempool_transactions db)" "confirmed_in_block m"
    then have "m \<noteq> x" using nx by metis
    then show "m \<in> set (mempool_transactions db') \<and> (m_sender m, m_nonce m) \<noteq> (x_sender tx, x_nonce tx)"
      using m(1) own [OF m(1)] hash [OF m(1)] d by (simp only: set_filter mem_Collect_eq) metis
  qed
  then show ?thesis using d by blast
qed

lemma insert_mempool_effect:
  assumes "insert_mempool row db = Inr db'" and "mempool_keys db"
  shows "mempool_keys db' \<and> mempool_transactions db' = mempool_transactions db @ [row]"
proof -
  have h: "m_tx_hash row \<notin> m_tx_hash ` set (mempool_transactions db)"
    and n: "(m_sender row, m_nonce row) \<notin> (\<lambda>m. (m_sender m, m_nonce m)) ` set (mempool_transactions db)"
    and d: "db' = db\<lparr>mempool_transactions := mempool_transactions db @ [row]\<rparr>"
    using assms(1) by (auto simp: insert_mempool_def find_mempool_def tbl_find_None image_iff split: if_splits)
  then show ?thesis using assms(2) by (simp add: mempool_keys_def)
qed

lemma ensure_one_effect:
  assumes k: "mempool_keys db" and e: "ensure_one E ts tx db = Inr db'"
  shows "is_signature_valid E tx = Inr True \<and> import_step tx db db'"
proof -
  have ok: "is_signature_valid E tx = Inr True"
    using e by (auto simp: ensure_one_def split: if_splits)
  note e1 = e [unfolded ensure_one_def ok bindE_simps]
  show ?thesis
  proof (cases "find_mempool (x_tx_hash tx) db = None")
    case False
    then have "db' = db" "x_tx_hash tx \<in> m_tx_hash ` set (mempool_transactions db)"
      using e1 tbl_find_None [of m_tx_hash "x_tx_hash tx" "mempool_transactions db"] by (auto simp: find_mempool_def)
    then show ?thesis using k ok by (auto simp: import_step_def)
  next
    case True
    then obtain db1 u a f where c: "clear_nonce tx db = Inr db1"
      and i: "insert_mempool (imported_row E ts tx u a f) db1 = Inr db'"
      using e1 by auto
    note ce = clear_nonce_effect [OF k c]
    obtain P where P: "mempool_transactions db1 = filter P (mempool_transactions db)" using ce by blast
    have k1: "mempool_keys db1" using k by (simp add: mempool_keys_def P distinct_map_filter)
    have "mempool_keys db'" "mempool_transactions db' = mempool_transactions db1 @ [imported_row E ts tx u a f]"
      using insert_mempool_effect [OF i k1] by simp_all
    moreover have "m_tx_hash (imported_row E ts tx u a f) = x_tx_hash tx" by (simp add: imported_row_def)
    ultimately show ?thesis using ok ce P by (auto simp: import_step_def)
  qed
qed

text \<open>Importing the transactions of a received block: every one is validly signed, the table's
  keys stay unique, rows confirmed in a block are kept as they are, and a transaction that was not
  already known cannot carry a sender nonce that is confirmed in a block.\<close>

theorem import_keeps_confirmed:
  assumes "mempool_keys db" and "distinct (map x_tx_hash transactions)"
    and "ensure_block_transactions_in_mempool E transactions ts db = Inr db'"
  shows "mempool_keys db' \<and>
    (\<forall>m \<in> set (mempool_transactions db). confirmed_in_block m \<longrightarrow> m \<in> set (mempool_transactions db')) \<and>
    (\<forall>tx \<in> set transactions. is_signature_valid E tx = Inr True \<and>
       (x_tx_hash tx \<in> m_tx_hash ` set (mempool_transactions db) \<or>
        (\<forall>m \<in> set (mempool_transactions db). confirmed_in_block m \<longrightarrow>
           (m_sender m, m_nonce m) \<noteq> (x_sender tx, x_nonce tx))))"
  using assms unfolding ensure_block_transactions_in_mempool_def
proof (induction transactions arbitrary: db)
  case (Cons tx txs)
  then obtain db1 where e: "ensure_one E (op_time (ne_clock E) ts) tx db = Inr db1"
    and r: "foldE (ensure_one E (op_time (ne_clock E) ts)) txs db1 = Inr db'" by auto
  have one: "is_signature_valid E tx = Inr True" "import_step tx db db1"
    using ensure_one_effect [OF Cons.prems(1) e] by simp_all
  have rest: "mempool_keys db1" "distinct (map x_tx_hash txs)" "x_tx_hash tx \<notin> x_tx_hash ` set txs"
    using one Cons.prems(2) by (auto simp: import_step_def)
  note ih = Cons.IH [OF rest(1,2) r]
  have keep: "\<forall>m \<in> set (mempool_transactions db). confirmed_in_block m \<longrightarrow> m \<in> set (mempool_transactions db1)"
    and sub: "m_tx_hash ` set (mempool_transactions db1) \<subseteq> insert (x_tx_hash tx) (m_tx_hash ` set (mempool_transactions db))"
    and own: "x_tx_hash tx \<in> m_tx_hash ` set (mempool_transactions db) \<or>
        (\<forall>m \<in> set (mempool_transactions db). confirmed_in_block m \<longrightarrow>
           (m_sender m, m_nonce m) \<noteq> (x_sender tx, x_nonce tx))"
    using one(2) unfolding import_step_def by blast+
  have later: "x_tx_hash t \<in> m_tx_hash ` set (mempool_transactions db) \<or>
      (\<forall>m \<in> set (mempool_transactions db). confirmed_in_block m \<longrightarrow>
         (m_sender m, m_nonce m) \<noteq> (x_sender t, x_nonce t))" if t: "t \<in> set txs" for t
  proof -
    have "x_tx_hash t \<noteq> x_tx_hash tx" using rest(3) t by (metis image_eqI)
    then show ?thesis using ih t keep sub by blast
  qed
  show ?case using ih keep one(1) own later by auto
qed simp

theorem import_keeps_confirmed_witness:
  "\<exists>db'. ensure_block_transactions_in_mempool example_env [example_tx] None
      (example_mempool\<lparr>mempool_transactions := []\<rparr>) = Inr db' \<and> mempool_keys db'"
proof -
  let ?db = "example_mempool\<lparr>mempool_transactions := []\<rparr>"
  have k: "mempool_keys ?db" "distinct (map x_tx_hash [example_tx])" by (simp_all add: mempool_keys_def)
  have u: "\<exists>u. unsigned_from_tx example_env example_tx = Inr u"
    using unsigned_from_decoded [of example_unsigned example_row 1000000 10 "Some bob" example_env]
    by (simp add: example_tx_def example_row_def example_unsigned_def)
  have "\<exists>db'. ensure_block_transactions_in_mempool example_env [example_tx] None ?db = Inr db'"
    using u by (auto simp: ensure_block_transactions_in_mempool_def ensure_one_def find_mempool_def clear_nonce_def
        nonce_conflict_def insert_mempool_def)
  then obtain db' where e: "ensure_block_transactions_in_mempool example_env [example_tx] None ?db = Inr db'" ..
  from import_keeps_confirmed [OF k e] show ?thesis using e by blast
qed

end
