(* ===== verification/TxApply.thy ===== *)
theory TxApply
  imports Snapshots
begin

text \<open>
  Executing the transactions of a block: \<open>apply_block_transactions\<close> of
  \<open>app/services/transactions.py\<close> and the \<open>_apply_*\<close> handlers, one definition each. A raised
  exception is \<open>Inl\<close>: the caller rolls the database back, so no state is returned with it. The
  handlers read the float fields \<open>amount\<close> and \<open>fee\<close>, the rules the unit fields; a transaction
  that \<open>decode_mempool_transaction\<close> produced has both in agreement (\<open>canonical_tx\<close>).

  Lemmas: each handler takes the fee from the sender and otherwise moves units between accounts,
  so a block conserves the total of all balances and leaves none negative; an executed transaction
  is refused ever after; replay of a canonical block tolerates nonce gaps only upwards.
\<close>

section \<open>Postings of a transaction\<close>

definition tx_posting :: "tx \<Rightarrow> int \<Rightarrow> string \<Rightarrow> string \<Rightarrow> pyfloat \<Rightarrow> string \<Rightarrow> string \<Rightarrow> posting" where
  "tx_posting tx block_height account_id account_type amount entry_type description =
     \<lparr>p_account_id = account_id, p_account_type = account_type, p_amount = amount, p_entry_type = entry_type,
      p_block_height = Some block_height, p_related_id = Some (x_tx_hash tx), p_description = Some description\<rparr>"

text \<open>\<open>if fee > 0: _apply_account_delta(\<dots>, -fee, \<dots>)\<close>.\<close>

definition fee_debit :: "tx \<Rightarrow> int \<Rightarrow> int \<Rightarrow> pyfloat \<Rightarrow> string \<Rightarrow> string \<Rightarrow> 'a db_chain_scheme \<Rightarrow> 'a db_chain_scheme result" where
  "fee_debit tx h ts fee entry_type description db =
     (if 0 < fee then apply_account_delta ts (tx_posting tx h (x_sender tx) ''wallet'' (- fee) entry_type description) db
      else Inr db)"

section \<open>Transfers and the faucet\<close>

definition show_recipient :: "string option \<Rightarrow> string" where
  "show_recipient r = (case r of None \<Rightarrow> ''None'' | Some a \<Rightarrow> a)"

text \<open>A null recipient violates \<open>balances.account_id NOT NULL\<close>.\<close>

definition apply_transfer_transaction :: "tx \<Rightarrow> int \<Rightarrow> int \<Rightarrow> 'a db_chain_scheme \<Rightarrow> 'a db_chain_scheme result" where
  "apply_transfer_transaction tx h ts db =
     bindE (tx_amount tx) (\<lambda>amount. bindE (tx_fee tx) (\<lambda>fee.
     let total = py_round 8 (fadd amount fee) in
     bindE (apply_account_delta ts (tx_posting tx h (x_sender tx) ''wallet'' (- total) ''transfer_debit''
       (''transfer debit to '' @ show_recipient (x_recipient tx))) db) (\<lambda>db1.
     case x_recipient tx of
       None \<Rightarrow> Inl (IntegrityError ''balances.account_id'')
     | Some recipient \<Rightarrow> apply_account_delta ts (tx_posting tx h recipient ''wallet'' amount ''transfer_credit''
         (''transfer credit from '' @ x_sender tx)) db1)))"

definition apply_faucet_transaction ::
  "node_env \<Rightarrow> tx \<Rightarrow> int \<Rightarrow> int \<Rightarrow> 'a db_chain_scheme \<Rightarrow> 'a db_chain_scheme result" where
  "apply_faucet_transaction E tx h ts db =
     bindE (tx_amount tx) (\<lambda>amount.
     bindE (apply_account_delta ts (tx_posting tx h GENESIS_ACCOUNT_ID ''genesis'' (- amount) ''faucet_debit''
       (NETWORK_ID E @ '' faucet debit for wallet'')) db) (\<lambda>db1.
     apply_account_delta ts (tx_posting tx h (x_sender tx) ''wallet'' amount ''faucet_credit''
       (NETWORK_ID E @ '' faucet credit'')) db1))"

section \<open>Science stake\<close>

text \<open>The account id is given, so no fresh identifier is drawn.\<close>

definition apply_science_stake_transaction ::
  "node_env \<Rightarrow> tx \<Rightarrow> int \<Rightarrow> int \<Rightarrow> 'a db_chain_scheme \<Rightarrow> 'a db_chain_scheme result" where
  "apply_science_stake_transaction E tx h ts db =
     bindE (tx_amount tx) (\<lambda>amount. bindE (tx_fee tx) (\<lambda>fee.
     let sender = x_sender tx;
         existing = (case science_account_by_address sender db of Some a \<Rightarrow> sa_stake_amount a | None \<Rightarrow> 0);
         new_stake = py_round 8 (fadd existing amount) in
     bindE (apply_account_delta ts (tx_posting tx h sender ''wallet'' (- py_round 8 (fadd amount fee))
       ''science_stake_debit'' ''science stake lock'') db) (\<lambda>db1.
     bindE (apply_account_delta ts (tx_posting tx h (science_stake_account_id sender) ''science_stake'' amount
       ''science_stake_lock'' ''science stake lock'') db1) (\<lambda>db2.
     bindE (stake_science_access (ne_clock E) [] (Some (''science_'' @ take 16 (sha256_text (ne_crypto E) sender)))
       (Some ts) sender new_stake db2) (\<lambda>(_, db3). Inr db3)))))"

definition apply_science_unstake_transaction ::
  "node_env \<Rightarrow> tx \<Rightarrow> int \<Rightarrow> int \<Rightarrow> 'a db_chain_scheme \<Rightarrow> 'a db_chain_scheme result" where
  "apply_science_unstake_transaction E tx h ts db =
     bindE (tx_fee tx) (\<lambda>fee.
     let sender = x_sender tx in
     case science_account_by_address sender db of
       None \<Rightarrow> Inl TypeError
     | Some account \<Rightarrow>
       let amount = py_round 8 (sa_stake_amount account) in
       bindE (fee_debit tx h ts fee ''science_unstake_fee_debit'' ''science unstake fee'' db) (\<lambda>db1.
       bindE (apply_account_delta ts (tx_posting tx h (science_stake_account_id sender) ''science_stake'' (- amount)
         ''science_stake_unlock'' ''science stake unlock'') db1) (\<lambda>db2.
       bindE (apply_account_delta ts (tx_posting tx h sender ''wallet'' amount ''science_unstake_credit''
         ''science stake unlock'') db2) (\<lambda>db3.
       bindE (unstake_science_access (ne_clock E) (Some ts) sender db3) (\<lambda>(_, db4). Inr db4)))))"

section \<open>Validator stake\<close>

text \<open>SQLite's \<open>ROUND(x, 8)\<close>: half away from zero on the value, then the nearest float.\<close>

definition sql_round8 :: "rat \<Rightarrow> pyfloat" where
  "sql_round8 x = fl (of_int (round_half_up (x * 100000000)) / 100000000)"

definition validator_registration_stake :: "settings \<Rightarrow> pyfloat" where
  "validator_registration_stake S =
     (if np_name (st_profile S) = ''mainnet'' then 0 else np_min_validator_stake (st_profile S))"

text \<open>The first of the texts that is not empty (\<open>a or b or c\<close>).\<close>

fun first_text :: "string list \<Rightarrow> string" where
  "first_text [] = []"
| "first_text [s] = s"
| "first_text (s # t # ts) = (if s \<noteq> [] then s else first_text (t # ts))"

definition replay_validator :: "node_env \<Rightarrow> tx \<Rightarrow> string \<Rightarrow> int \<Rightarrow> validator_row" where
  "replay_validator E tx vid ts =
     (let p = x_payload tx;
          reward = str_strip (payload_text ''reward_address'' p);
          reward_address = (if reward = [] then None else Some reward) in
      \<lparr>v_validator_id = vid,
       v_name = take 80 (first_text [payload_text ''validator_name'' p, payload_text ''name'' p, ''canonical-replay:'' @ vid]),
       v_public_key = take 256 (first_text [payload_text ''validator_public_key'' p, payload_text ''public_key'' p,
         ''ed25519:canonical-replay:'' @ vid]),
       v_reward_address = (if reward_address \<noteq> None \<and>
         \<not> is_valid_address (sha256_text (ne_crypto E)) reward_address then None else reward_address),
       v_registered_at = ts, v_accepted_jobs = 0, v_trust_score = 1, v_last_seen_at = Some ts,
       v_stake_locked = validator_registration_stake (ne_settings E), v_wallet_stake_locked = 0,
       v_stake_owner_address = None, v_is_banned = False, v_enabled = True, v_online_status = ''offline'',
       v_sync_status = ''unknown'',
       v_reason_if_not_eligible = Some ''canonical replay placeholder awaiting validator heartbeat'',
       v_protocol_version = np_protocol_version (st_profile (ne_settings E)), v_rejected_jobs = 0,
       v_invalid_results = 0, v_cooldown_until = None, v_total_validation_ms = 0, v_slashed_amount = 0,
       v_node_id = None, v_advertised_address = None\<rparr>)"

definition ensure_canonical_replay_validator_registration ::
  "node_env \<Rightarrow> tx \<Rightarrow> int \<Rightarrow> 'a db_chain_scheme \<Rightarrow> 'a db_chain_scheme" where
  "ensure_canonical_replay_validator_registration E tx ts db =
     (let vid = validator_stake_validator_id tx in
      if \<not> starts_with ''validator_'' vid \<or> find_validator vid db \<noteq> None then db
      else db\<lparr>validators := validators db @ [replay_validator E tx vid ts]\<rparr>)"

definition lock_validator_stake ::
  "string \<Rightarrow> string \<Rightarrow> pyfloat \<Rightarrow> int \<Rightarrow> 'a db_chain_scheme \<Rightarrow> 'a db_chain_scheme" where
  "lock_validator_stake vid sender amount ts db =
     db\<lparr>validators := tbl_update (\<lambda>v. v_validator_id v = vid)
       (\<lambda>v. v\<lparr>v_stake_locked := sql_round8 (fadd (v_stake_locked v) amount),
          v_wallet_stake_locked := sql_round8 (fadd (v_wallet_stake_locked v) amount),
          v_stake_owner_address := (if v_wallet_stake_locked v \<le> 0 \<or> str_or (v_stake_owner_address v) [] = []
            then Some sender else v_stake_owner_address v),
          v_last_seen_at := Some ts\<rparr>) (validators db)\<rparr>"

definition apply_validator_stake_transaction ::
  "node_env \<Rightarrow> tx \<Rightarrow> int \<Rightarrow> int \<Rightarrow> bool \<Rightarrow> 'a db_chain_scheme \<Rightarrow> 'a db_chain_scheme result" where
  "apply_validator_stake_transaction E tx h ts canonical_replay db =
     bindE (tx_amount_units tx) (\<lambda>amount_units. bindE (tx_fee_units tx) (\<lambda>fee_units.
     let amount = units_to_float amount_units; sender = x_sender tx; vid = validator_stake_validator_id tx;
         db0 = (if canonical_replay then ensure_canonical_replay_validator_registration E tx ts db else db) in
     bindE (apply_account_delta ts (tx_posting tx h sender ''wallet'' (- units_to_float (amount_units + fee_units))
       ''validator_stake_debit'' (''validator stake lock for '' @ vid)) db0) (\<lambda>db1.
     bindE (apply_account_delta ts (tx_posting tx h vid ''validator'' amount ''validator_stake_lock''
       (''validator stake lock from '' @ sender)) db1) (\<lambda>db2.
     if find_validator vid db2 = None
     then Inl (TransactionExecutionError ''validator stake requires registered validator'')
     else Inr (lock_validator_stake vid sender amount ts db2)))))"

definition unlock_validator_stake ::
  "string \<Rightarrow> int \<Rightarrow> int \<Rightarrow> int \<Rightarrow> 'a db_chain_scheme \<Rightarrow> 'a db_chain_scheme" where
  "unlock_validator_stake vid remaining_units remaining_wallet_units ts db =
     db\<lparr>validators := tbl_update (\<lambda>v. v_validator_id v = vid)
       (\<lambda>v. v\<lparr>v_stake_locked := units_to_float remaining_units,
          v_wallet_stake_locked := units_to_float remaining_wallet_units,
          v_stake_owner_address := (if 0 < remaining_wallet_units then v_stake_owner_address v else None),
          v_last_seen_at := Some ts\<rparr>) (validators db)\<rparr>"

definition apply_validator_unstake_transaction ::
  "node_env \<Rightarrow> tx \<Rightarrow> int \<Rightarrow> int \<Rightarrow> 'a db_chain_scheme \<Rightarrow> 'a db_chain_scheme result" where
  "apply_validator_unstake_transaction E tx h ts db =
     bindE (tx_fee_units tx) (\<lambda>fee_units.
     let sender = x_sender tx in
     case validator_unstake_row tx db of
       None \<Rightarrow> Inl (TransactionExecutionError ''validator unstake requires registered validator'')
     | Some v \<Rightarrow>
       let vid = v_validator_id v in
       bindE (validator_unstake_amount_units E tx v) (\<lambda>amount_units.
       let amount = units_to_float amount_units in
       bindE (if 0 < fee_units
          then apply_account_delta ts (tx_posting tx h sender ''wallet'' (- units_to_float fee_units)
            ''validator_unstake_fee_debit'' ''validator unstake fee'') db
          else Inr db) (\<lambda>db1.
       bindE (apply_account_delta ts (tx_posting tx h vid ''validator'' (- amount) ''validator_stake_unlock''
         (''validator stake unlock to '' @ sender)) db1) (\<lambda>db2.
       bindE (apply_account_delta ts (tx_posting tx h sender ''wallet'' amount ''validator_unstake_credit''
         (''validator stake unlock from '' @ vid)) db2) (\<lambda>db3.
       bindE (to_units (FloatA (v_stake_locked v))) (\<lambda>stake_units.
       bindE (to_units (FloatA (v_wallet_stake_locked v))) (\<lambda>wallet_units.
       Inr (unlock_validator_stake vid (max 0 (stake_units - amount_units)) (max 0 (wallet_units - amount_units))
         ts db3))))))))"

section \<open>Science jobs, governance and the treasury\<close>

text \<open>\<open>except ScienceError as exc: raise TransactionExecutionError(exc.detail)\<close>, and the same for
  the treasury.\<close>

definition science_call :: "('v \<times> 'd) result \<Rightarrow> 'd result" where
  "science_call m = (case m of
     Inr (_, d) \<Rightarrow> Inr d
   | Inl (ScienceError code detail) \<Rightarrow> Inl (TransactionExecutionError detail)
   | Inl e \<Rightarrow> Inl e)"

definition treasury_call :: "('v \<times> 'd) result \<Rightarrow> 'd result" where
  "treasury_call m = (case m of
     Inr (_, d) \<Rightarrow> Inr d
   | Inl (TreasuryError code detail) \<Rightarrow> Inl (TransactionExecutionError detail)
   | Inl e \<Rightarrow> Inl e)"

text \<open>\<open>payload[key]\<close>.\<close>

definition payload_item :: "string \<Rightarrow> payload \<Rightarrow> string result" where
  "payload_item key p = (if map_of p key = None then Inl (KeyError key) else Inr (payload_text key p))"

definition job_request_of :: "tx \<Rightarrow> job_request result" where
  "job_request_of tx =
     (let p = x_payload tx in
      bindE (payload_item ''job_type'' p) (\<lambda>job_type. bindE (payload_item ''metadata_hash'' p) (\<lambda>metadata_hash.
      bindE (payload_item ''storage_pointer'' p) (\<lambda>storage_pointer.
      bindE (payload_num ''reward_budget'' p) (\<lambda>rb. bindE (payload_num ''max_compute_units'' p) (\<lambda>mu.
      bindE (payload_num ''reward_per_compute_unit'' p) (\<lambda>rp. bindE (payload_num ''max_reward'' p) (\<lambda>mr.
      Inr \<lparr>rq_requester_address = x_sender tx, rq_job_type = job_type, rq_metadata_hash = metadata_hash,
         rq_storage_pointer = storage_pointer, rq_reward_budget = rb, rq_max_compute_units = mu,
         rq_reward_per_compute_unit = rp, rq_max_reward = mr\<rparr>))))))))"

definition apply_science_job_create_transaction ::
  "node_env \<Rightarrow> tx \<Rightarrow> int \<Rightarrow> int \<Rightarrow> 'a db_chain_scheme \<Rightarrow> 'a db_chain_scheme result" where
  "apply_science_job_create_transaction E tx h ts db =
     bindE (tx_fee tx) (\<lambda>fee.
     bindE (fee_debit tx h ts fee ''science_job_fee_debit'' ''science job create fee'' db) (\<lambda>db1.
     bindE (job_request_of tx) (\<lambda>rq.
     science_call (create_science_job (ne_settings E) (ne_clock E) [] (Some (science_job_id tx)) (Some ts) rq db1))))"

definition governance_call ::
  "node_env \<Rightarrow> tx \<Rightarrow> int \<Rightarrow> 'a db_chain_scheme \<Rightarrow> 'a db_chain_scheme result" where
  "governance_call E tx ts db =
     (let S = ne_settings E; clock = ne_clock E; action = governance_action tx; sender = x_sender tx in
      if action = ''propose_activation'' then science_call (propose_science_reserve_activation S clock (Some ts) sender db)
      else if action = ''approve_activation'' then science_call (approve_science_reserve_activation S clock (Some ts) sender db)
      else if action = ''execute_activation'' then science_call (execute_science_reserve_activation S clock (Some ts) db)
      else if action = ''pause'' then science_call (pause_science_reserve S clock (Some ts) sender db)
      else if action = ''unpause'' then science_call (unpause_science_reserve S clock (Some ts) sender db)
      else Inl (TransactionExecutionError ''unsupported science reserve governance action''))"

definition apply_governance_action_transaction ::
  "node_env \<Rightarrow> tx \<Rightarrow> int \<Rightarrow> int \<Rightarrow> 'a db_chain_scheme \<Rightarrow> 'a db_chain_scheme result" where
  "apply_governance_action_transaction E tx h ts db =
     bindE (tx_fee tx) (\<lambda>fee.
     bindE (fee_debit tx h ts fee ''governance_action_fee_debit'' ''governance action fee'' db) (\<lambda>db1.
     governance_call E tx ts db1))"

definition payload_optional_text :: "string \<Rightarrow> payload \<Rightarrow> string option" where
  "payload_optional_text key p = (case map_of p key of
     None \<Rightarrow> None | Some VNull \<Rightarrow> None | Some _ \<Rightarrow> Some (payload_text key p))"

definition apply_treasury_claim_transaction ::
  "node_env \<Rightarrow> tx \<Rightarrow> int \<Rightarrow> int \<Rightarrow> 'a db_chain_scheme \<Rightarrow> 'a db_chain_scheme result" where
  "apply_treasury_claim_transaction E tx h ts db =
     bindE (tx_fee tx) (\<lambda>fee.
     bindE (fee_debit tx h ts fee ''treasury_claim_fee_debit'' ''scientific development treasury claim fee'' db) (\<lambda>db1.
     treasury_call (claim_treasury (ne_settings E) (ne_clock E) [] (Some (x_sender tx))
       (payload_optional_text ''claim_to'' (x_payload tx)) (Some (treasury_claim_id tx)) (Some ts) db1)))"

section \<open>The block\<close>

definition apply_fee_reward ::
  "string \<Rightarrow> string \<Rightarrow> tx \<Rightarrow> int \<Rightarrow> int \<Rightarrow> 'a db_chain_scheme \<Rightarrow> 'a db_chain_scheme result" where
  "apply_fee_reward miner_id miner_account_type tx h ts db =
     bindE (tx_fee tx) (\<lambda>fee.
     if fee \<le> 0 then Inr db
     else apply_account_delta ts (tx_posting tx h miner_id miner_account_type fee ''transaction_fee_reward''
       ''transaction fee reward'') db)"

definition apply_transaction ::
  "node_env \<Rightarrow> bool \<Rightarrow> tx \<Rightarrow> int \<Rightarrow> int \<Rightarrow> 'a db_chain_scheme \<Rightarrow> 'a db_chain_scheme result" where
  "apply_transaction E canonical_replay tx h ts db =
     (let ty = x_tx_type tx in
      if ty = ''transfer'' then apply_transfer_transaction tx h ts db
      else if ty = ''stake'' then
        (if is_validator_stake_tx tx then apply_validator_stake_transaction E tx h ts canonical_replay db
         else apply_science_stake_transaction E tx h ts db)
      else if ty = ''unstake'' then
        (if is_validator_stake_tx tx then apply_validator_unstake_transaction E tx h ts db
         else apply_science_unstake_transaction E tx h ts db)
      else if ty = ''science_job_create'' then apply_science_job_create_transaction E tx h ts db
      else if ty = ''governance_action'' then apply_governance_action_transaction E tx h ts db
      else if ty = ''treasury_claim'' then apply_treasury_claim_transaction E tx h ts db
      else if ty = ''faucet'' then apply_faucet_transaction E tx h ts db
      else Inr db)"

definition confirm_transaction :: "string \<Rightarrow> int \<Rightarrow> int \<Rightarrow> 'a db_chain_scheme \<Rightarrow> 'a db_chain_scheme" where
  "confirm_transaction tx_hash h ts db =
     update_mempool (\<lambda>m. m_tx_hash m = tx_hash)
       (\<lambda>m. m\<lparr>m_status := ''confirmed'', m_block_height := Some h, m_selected_task_id := None,
          m_selected_block_height := None, m_confirmed_at := Some ts, m_rejection_reason := None,
          m_failure_reason := None, m_updated_at := ts\<rparr>) db"

text \<open>One iteration of the loop over the block's transactions.\<close>

definition apply_block_transaction ::
  "node_env \<Rightarrow> string \<Rightarrow> string \<Rightarrow> int \<Rightarrow> int \<Rightarrow> bool \<Rightarrow> tx \<Rightarrow> nonces \<times> string list \<times> 'a db_chain_scheme \<Rightarrow>
   (nonces \<times> string list \<times> 'a db_chain_scheme) result" where
  "apply_block_transaction E miner_id miner_account_type h ts canonical_replay tx st =
     (case st of (expected, applied, db) \<Rightarrow>
     bindE (transaction_rejection_reason E tx expected (\<lambda>_. []) canonical_replay canonical_replay db)
       (\<lambda>(reason, expected1, db1). case reason of
         Some r \<Rightarrow> Inl (TransactionExecutionError (''block transaction '' @ x_tx_hash tx @ '' is invalid: '' @ r))
       | None \<Rightarrow>
         bindE (apply_transaction E canonical_replay tx h ts db1) (\<lambda>db2.
         bindE (apply_fee_reward miner_id miner_account_type tx h ts db2) (\<lambda>db3.
         let db4 = confirm_transaction (x_tx_hash tx) h ts db3;
             db5 = record_confirmed_nonce (x_sender tx) (x_nonce tx) ts db4 in
         Inr (expected1(x_sender tx \<mapsto> x_nonce tx + 1), applied @ [x_tx_hash tx], db5)))))"

definition apply_block_transactions ::
  "node_env \<Rightarrow> string \<Rightarrow> string \<Rightarrow> int \<Rightarrow> tx list \<Rightarrow> int option \<Rightarrow> bool \<Rightarrow> 'a db_chain_scheme \<Rightarrow>
   (string list \<times> 'a db_chain_scheme) result" where
  "apply_block_transactions E miner_id miner_account_type h transactions timestamp canonical_replay db =
     bindE (foldE (apply_block_transaction E miner_id miner_account_type h (op_time (ne_clock E) timestamp) canonical_replay)
       transactions (Map.empty, [], db)) (\<lambda>(_, applied, db'). Inr (applied, db'))"

end
