(* ===== verification/BlockProps.thy ===== *)
theory BlockProps
  imports TxApply
begin

text \<open>
  What executing a block guarantees. \<open>moves d db db'\<close> is the contract of every handler: a sound
  ledger stays sound, the total of the balances moves by \<open>d\<close>, and the tables the nonce rules read
  are untouched. The handlers move \<open>- fee\<close> and the fee reward moves \<open>fee\<close>, so a block moves
  nothing; the contract composes along the handler's steps (\<open>moves_trans\<close>).
\<close>

section \<open>The contract of a handler\<close>

definition sound_ledger :: "'a db_ledger_scheme \<Rightarrow> bool" where
  "sound_ledger db \<longleftrightarrow> ledger_ok db \<and> (\<forall>a. 0 \<le> acct_units db a)"

definition moves :: "int \<Rightarrow> 'a db_chain_scheme \<Rightarrow> 'a db_chain_scheme \<Rightarrow> bool" where
  "moves d db db' \<longleftrightarrow> (sound_ledger db \<longrightarrow> sound_ledger db' \<and> total_units db' = total_units db + d \<and>
     account_nonces db' = account_nonces db \<and> mempool_transactions db' = mempool_transactions db)"

lemma moves_refl: "moves 0 db db"
  by (simp add: moves_def)

lemma moves_trans: "moves d db db1 \<Longrightarrow> moves e db1 db2 \<Longrightarrow> moves (d + e) db db2"
  by (auto simp: moves_def)

lemma sound_ledger_cong:
  "balances db' = balances db \<Longrightarrow> ledger_entries db' = ledger_entries db \<Longrightarrow> sound_ledger db' \<longleftrightarrow> sound_ledger db"
  using ledger_cong [of db' db] by (simp add: sound_ledger_def)

lemma moves_same:
  assumes "balances db' = balances db" "ledger_entries db' = ledger_entries db"
    "account_nonces db' = account_nonces db" "mempool_transactions db' = mempool_transactions db"
  shows "moves 0 db db'"
  using assms ledger_cong(3) [of db' db] sound_ledger_cong [of db' db] by (simp add: moves_def)

text \<open>A posting changes none of the other tables.\<close>

lemma chain_fields_of_more:
  assumes "db_ledger.more db' = db_ledger.more (db :: 'a db_chain_scheme)"
  shows "account_nonces db' = account_nonces db" and "mempool_transactions db' = mempool_transactions db"
    and "validators db' = validators db" and "treasury_epochs db' = treasury_epochs db"
    and "science_stake_accounts db' = science_stake_accounts db"
  using assms
  by (cases db; cases db'; simp add: db_ledger.defs db_rewards.defs db_treasury.defs db_governance.defs
      db_science.defs db_chain.defs)+

lemma delta_moves:
  assumes "apply_account_delta ts p db = Inr db'" and "to_units (FloatA (p_amount p)) = Inr u"
  shows "moves u db db'"
proof -
  have p: "posted_units p = Inr u" using assms(2) by (simp add: posted_units_def)
  show ?thesis
    unfolding moves_def
  proof (intro impI)
    assume "sound_ledger db"
    then have s: "ledger_ok db" "\<And>a. 0 \<le> acct_units db a" by (simp_all add: sound_ledger_def)
    note m = chain_fields_of_more [OF tx_post.post_more [OF s(1) assms(1)]]
    show "sound_ledger db' \<and> total_units db' = total_units db + u \<and>
        account_nonces db' = account_nonces db \<and> mempool_transactions db' = mempool_transactions db"
      using tx_post.post_ok [OF s(1) assms(1)] tx_post.post_nonneg [OF s(1) assms(1) s(2)]
        tx_post.post_amount(2) [OF s(1) assms(1) p] m by (simp add: sound_ledger_def)
  qed
qed

lemma tx_posting_simps [simp]:
  "p_amount (tx_posting tx h a ty x e d) = x" "p_account_id (tx_posting tx h a ty x e d) = a"
  by (simp_all add: tx_posting_def)

text \<open>Two postings of opposite amounts move nothing, whatever the amount is.\<close>

lemma pair_moves:
  assumes "apply_account_delta ts p db = Inr db1" and "apply_account_delta ts q db1 = Inr db2"
    and "p_amount p = - p_amount q"
  shows "moves 0 db db2"
proof -
  have "to_units (FloatA (p_amount q)) \<noteq> Inl e" for e
    using assms(2) by (auto simp: apply_account_delta_def)
  then obtain u where u: "to_units (FloatA (p_amount q)) = Inr u" by (cases "to_units (FloatA (p_amount q))") auto
  have "moves (- u) db db1" using delta_moves [OF assms(1)] to_units_minus [OF u] assms(3) by simp
  moreover have "moves u db1 db2" by (rule delta_moves [OF assms(2) u])
  ultimately show ?thesis using moves_trans by fastforce
qed

section \<open>Decoded transactions\<close>

text \<open>What \<open>decode_mempool_transaction\<close> yields for unit counts up to \<open>10 ^ 14\<close> (a hundred million
  Picoin): the float fields are the renderings of the unit fields.\<close>

definition canonical_tx :: "tx \<Rightarrow> bool" where
  "canonical_tx tx \<longleftrightarrow> (\<exists>a f. x_amount_units tx = Some a \<and> x_amount tx = FloatA (units_to_float a) \<and>
     x_fee_units tx = Some f \<and> x_fee tx = FloatA (units_to_float f) \<and> \<bar>a\<bar> \<le> 10 ^ 14 \<and> \<bar>f\<bar> \<le> 10 ^ 14)"

lemma decoded_canonical:
  assumes "u_amount_units (m_payload m) = Some a" "u_fee_units (m_payload m) = Some f" "\<bar>a\<bar> \<le> 10 ^ 14" "\<bar>f\<bar> \<le> 10 ^ 14"
  shows "canonical_tx (decode_mempool_transaction m)"
  using assms by (simp add: canonical_tx_def decode_mempool_transaction_def Let_def)

lemma err_bound: "\<bar>w\<bar> \<le> c + (\<bar>z\<bar> + d) / 9007199254740992 \<Longrightarrow> \<bar>z\<bar> \<le> B \<Longrightarrow> \<bar>w\<bar> \<le> c + (B + d) / 9007199254740992"
  for w z c d B :: rat
  by (simp add: field_simps)

lemma abs_chain: "\<bar>x - y\<bar> \<le> d \<Longrightarrow> \<bar>y - z\<bar> \<le> e \<Longrightarrow> d + e \<le> g \<Longrightarrow> \<bar>x - z\<bar> \<le> g"
  for x y z d e g :: rat
  by linarith

lemma abs_near: "\<bar>x - y\<bar> \<le> d \<Longrightarrow> \<bar>y\<bar> \<le> b \<Longrightarrow> b + d \<le> g \<Longrightarrow> \<bar>x\<bar> \<le> g"
  for x y b d g :: rat
  by linarith

lemma abs_scale: "\<bar>x - y\<bar> \<le> d \<Longrightarrow> 1000000 * d \<le> g \<Longrightarrow> \<bar>x * 1000000 - y * 1000000\<bar> \<le> g"
  for x y d g :: rat
  by linarith

lemma units_float_round_err:
  assumes "\<bar>u\<bar> \<le> 10 ^ 14"
  shows "\<bar>py_round 8 (units_to_float u) * 1000000 - of_int u\<bar> \<le> 1 / 16"
    and "\<bar>py_round 8 (units_to_float u)\<bar> \<le> 100000001"
proof -
  let ?x = "units_to_float u"
  have "\<bar>u\<bar> \<le> 100000000000000" using assms by simp
  then have "(of_int \<bar>u\<bar> :: rat) \<le> of_int 100000000000000" by (simp only: of_int_le_iff)
  then have u: "\<bar>of_int u :: rat\<bar> \<le> 100000000000000" by simp
  have z: "\<bar>of_int u / 1000000 :: rat\<bar> \<le> 100000000" using u by simp
  have "\<bar>?x - of_int u / 1000000\<bar> \<le> 0 + (\<bar>of_int u / 1000000\<bar> + 0) / 9007199254740992"
    unfolding units_to_float_eq add_0_left add_0_right by (rule fl_err_num)
  then have "\<bar>?x - of_int u / 1000000\<bar> \<le> 0 + (100000000 + 0) / 9007199254740992"
    using z by (rule err_bound)
  then have e: "\<bar>?x - of_int u / 1000000\<bar> \<le> 1 / 50000000" by (rule order_trans) simp
  have x: "\<bar>?x\<bar> \<le> 100000001" by (rule abs_near [OF e z]) simp
  have "\<bar>py_round 8 ?x - ?x\<bar> \<le> 1 / 200000000 + (\<bar>?x\<bar> + 1 / 200000000) / 9007199254740992"
    using py_round_err [of 8 ?x] by simp
  then have "\<bar>py_round 8 ?x - ?x\<bar> \<le> 1 / 200000000 + (100000001 + 1 / 200000000) / 9007199254740992"
    using x by (rule err_bound)
  then have r: "\<bar>py_round 8 ?x - ?x\<bar> \<le> 1 / 50000000" by (rule order_trans) simp
  have f: "\<bar>py_round 8 ?x - of_int u / 1000000\<bar> \<le> 1 / 25000000"
    by (rule abs_chain [OF r e]) simp
  show "\<bar>py_round 8 ?x * 1000000 - of_int u\<bar> \<le> 1 / 16"
    using f unfolding abs_le_iff by (simp add: field_simps)
  show "\<bar>py_round 8 ?x\<bar> \<le> 100000001" by (rule abs_near [OF f z]) simp
qed

lemma rounded_amount_units:
  "\<bar>u\<bar> \<le> 10 ^ 14 \<Longrightarrow> to_units (FloatA (py_round 8 (units_to_float u))) = Inr u"
  by (rule units_near_py_round) (rule order_trans, assumption, simp)

text \<open>The sum of two rounded floats, rounded again, is still the sum of the units.\<close>

lemma rounded_sum_units:
  assumes "\<bar>a\<bar> \<le> 10 ^ 14" and "\<bar>f\<bar> \<le> 10 ^ 14"
  shows "to_units (FloatA (py_round 8 (fadd (py_round 8 (units_to_float a)) (py_round 8 (units_to_float f))))) = Inr (a + f)"
proof (rule to_units_near)
  let ?x = "py_round 8 (units_to_float a)" and ?y = "py_round 8 (units_to_float f)"
  let ?s = "fadd ?x ?y"
  note ea = units_float_round_err [OF assms(1)] and ef = units_float_round_err [OF assms(2)]
  have b: "\<bar>?x + ?y\<bar> \<le> 200000002" using abs_triangle_ineq [of ?x ?y] ea(2) ef(2) by simp
  have "\<bar>?s - (?x + ?y)\<bar> \<le> 0 + (\<bar>?x + ?y\<bar> + 0) / 9007199254740992"
    unfolding fadd_def add_0_left add_0_right by (rule fl_err_num)
  then have "\<bar>?s - (?x + ?y)\<bar> \<le> 0 + (200000002 + 0) / 9007199254740992"
    using b by (rule err_bound)
  then have s: "\<bar>?s - (?x + ?y)\<bar> \<le> 1 / 25000000" by (rule order_trans) simp
  have b2: "\<bar>?s\<bar> \<le> 200000003" by (rule abs_near [OF s b]) simp
  have "\<bar>py_round 8 ?s - ?s\<bar> \<le> 1 / 200000000 + (\<bar>?s\<bar> + 1 / 200000000) / 9007199254740992"
    using py_round_err [of 8 ?s] by simp
  then have "\<bar>py_round 8 ?s - ?s\<bar> \<le> 1 / 200000000 + (200000003 + 1 / 200000000) / 9007199254740992"
    using b2 by (rule err_bound)
  then have r: "\<bar>py_round 8 ?s - ?s\<bar> \<le> 1 / 25000000" by (rule order_trans) simp
  have c: "\<bar>py_round 8 ?s - (?x + ?y)\<bar> \<le> 1 / 12500000" by (rule abs_chain [OF r s]) simp
  have d: "\<bar>py_round 8 ?s * 1000000 - (?x + ?y) * 1000000\<bar> \<le> 1 / 12" by (rule abs_scale [OF c]) simp
  have e: "\<bar>(?x + ?y) * 1000000 - of_int (a + f)\<bar> \<le> 1 / 8"
    using abs_triangle_ineq [of "?x * 1000000 - of_int a" "?y * 1000000 - of_int f"] ea(1) ef(1)
    by (simp add: algebra_simps)
  show "\<bar>py_round 8 ?s * 1000000 - of_int (a + f)\<bar> \<le> 1 / 4" by (rule abs_chain [OF d e]) simp
  show "\<bar>a + f\<bar> \<le> 10 ^ 15" using assms by simp
qed simp


text \<open>What a handler reads of a canonical transaction: \<open>a\<close> and \<open>f\<close> are its unit counts.\<close>

definition terms_of :: "tx \<Rightarrow> int \<Rightarrow> int \<Rightarrow> bool" where
  "terms_of tx a f \<longleftrightarrow> tx_amount_units tx = Inr a \<and> tx_fee_units tx = Inr f \<and>
     tx_amount tx = Inr (py_round 8 (units_to_float a)) \<and> tx_fee tx = Inr (py_round 8 (units_to_float f)) \<and>
     \<bar>a\<bar> \<le> 10 ^ 14 \<and> \<bar>f\<bar> \<le> 10 ^ 14"

lemma canonical_terms: "canonical_tx tx \<Longrightarrow> \<exists>a f. terms_of tx a f"
  unfolding canonical_tx_def terms_of_def
  by (elim exE conjE) (simp add: tx_amount_units_def tx_fee_units_def tx_amount_def tx_fee_def py_float_def)

lemma rounded_not_pos:
  assumes "\<bar>f\<bar> \<le> 10 ^ 14" and "\<not> 0 < py_round 8 (units_to_float f)"
  shows "f \<le> 0"
proof -
  have "of_int f \<le> (1 :: rat) / 16"
    using abs_le_D2 [OF units_float_round_err(1) [OF assms(1)]] assms(2) by linarith
  then have "(of_int f :: rat) < of_int 1" by simp
  then show ?thesis by (simp only: of_int_less_iff)
qed

section \<open>What the handlers leave alone\<close>

definition same_core :: "'a db_chain_scheme \<Rightarrow> 'a db_chain_scheme \<Rightarrow> bool" where
  "same_core db db' \<longleftrightarrow> balances db' = balances db \<and> ledger_entries db' = ledger_entries db \<and>
     account_nonces db' = account_nonces db \<and> mempool_transactions db' = mempool_transactions db \<and>
     db_chain.more db' = db_chain.more db"

lemma same_core_moves: "same_core db db' \<Longrightarrow> moves 0 db db'"
  by (simp add: same_core_def moves_same)

lemma same_core_refl [simp]: "same_core db db"
  by (simp add: same_core_def)

lemma same_core_trans: "same_core a b \<Longrightarrow> same_core b c \<Longrightarrow> same_core a c"
  by (simp add: same_core_def)

lemma core_event [simp]: "same_core db (record_science_event a b c d e db') \<longleftrightarrow> same_core db db'"
  by (simp add: same_core_def record_science_event_def)

lemma core_update [simp]:
  "same_core db (db'\<lparr>science_stake_accounts := s\<rparr>) \<longleftrightarrow> same_core db db'"
  "same_core db (db'\<lparr>science_jobs := j\<rparr>) \<longleftrightarrow> same_core db db'"
  "same_core db (db'\<lparr>science_reward_reserve := r\<rparr>) \<longleftrightarrow> same_core db db'"
  "same_core db (db'\<lparr>science_governance := g\<rparr>) \<longleftrightarrow> same_core db db'"
  "same_core db (db'\<lparr>validators := v\<rparr>) \<longleftrightarrow> same_core db db'"
  "same_core db (db'\<lparr>treasury := t\<rparr>) \<longleftrightarrow> same_core db db'"
  "same_core db (db'\<lparr>treasury_epochs := e\<rparr>) \<longleftrightarrow> same_core db db'"
  "same_core db (db'\<lparr>treasury_claims := c\<rparr>) \<longleftrightarrow> same_core db db'"
  "same_core db (set_governance gr db') \<longleftrightarrow> same_core db db'"
  "same_core db (update_reserve ep h db') \<longleftrightarrow> same_core db db'"
  "same_core db (update_treasury k db') \<longleftrightarrow> same_core db db'"
  "same_core db (ensure_treasury S now db') \<longleftrightarrow> same_core db db'"
  by (simp_all add: same_core_def set_governance_def update_reserve_def update_treasury_def ensure_treasury_def)

lemma stake_core: "stake_science_access clock fresh aid ts a x db = Inr (v, db') \<Longrightarrow> same_core db db'"
  by (auto simp: stake_science_access_def Let_def split: if_splits option.splits)

lemma unstake_core: "unstake_science_access clock ts a db = Inr (v, db') \<Longrightarrow> same_core db db'"
  by (auto simp: unstake_science_access_def Let_def split: if_splits option.splits)

lemma reset_quota_core: "reset_quota_if_needed clock a db = (r, db') \<Longrightarrow> same_core db db'"
  by (auto simp: reset_quota_if_needed_def Let_def split: if_splits)

lemma require_account_core: "require_active_science_account clock a db = Inr (r, db') \<Longrightarrow> same_core db db'"
  by (auto simp: require_active_science_account_def dest: reset_quota_core
      split: if_splits option.splits prod.splits)

lemma ensure_reserve_core [simp]: "same_core db (snd (ensure_reserve_epoch now ep db')) \<longleftrightarrow> same_core db db'"
  by (simp add: ensure_reserve_epoch_def Let_def)

lemma reserve_budget_core: "reserve_science_job_budget clock x db = Inr db' \<Longrightarrow> same_core db db'"
  using ensure_reserve_core [of db clock "current_epoch clock" db]
  by (cases "ensure_reserve_epoch clock (current_epoch clock) db")
    (auto simp: reserve_science_job_budget_def Let_def split: if_splits)

lemma admit_core:
  assumes "admit_job S clock r cap db = Inr (a, db')"
  shows "same_core db db'"
proof -
  obtain a0 db1 where r: "require_active_science_account clock r db = Inr (a0, db1)"
    and m: "(case reset_quota_if_needed clock a0 db1 of
       (None, db2) \<Rightarrow> Inl TypeError
     | (Some a, db2) \<Rightarrow>
       if monthly_quota_limit a < fadd (sa_monthly_quota_used a) 1
       then Inl (ScienceError 429 ''monthly science quota exceeded'')
       else if 0 < cap
       then bindE (validate_requester_pending_limit S r cap db2) (\<lambda>_.
            bindE (reserve_science_job_budget clock cap db2) (\<lambda>db3. Inr (a, db3)))
       else Inr (a, db2)) = Inr (a, db')"
    using assms unfolding admit_job_def by auto
  obtain o' db2 where q: "reset_quota_if_needed clock a0 db1 = (o', db2)" by (rule prod.exhaust)
  have "same_core db2 db'"
    using m by (auto simp: q split: option.splits if_splits dest: reserve_budget_core)
  then show ?thesis
    using require_account_core [OF r] reset_quota_core [OF q] same_core_trans by blast
qed

lemma store_job_core: "store_job clock now j db = Inr db' \<Longrightarrow> same_core db db'"
  by (auto simp: store_job_def Let_def)

lemma create_job_core: "create_science_job S clock fresh jid ts rq db = Inr (v, db') \<Longrightarrow> same_core db db'"
  unfolding create_science_job_def Let_def bindE_eq_Inr
  by (elim exE conjE) (auto dest!: admit_core store_job_core intro: same_core_trans)

lemma governance_row_core: "science_reserve_governance S clock db = (g, db') \<Longrightarrow> same_core db db'"
  by (auto simp: science_reserve_governance_def split: option.splits)

lemma propose_core: "propose_science_reserve_activation S clock ts a db = Inr (v, db') \<Longrightarrow> same_core db db'"
  by (cases "science_reserve_governance S clock db")
    (auto simp: propose_science_reserve_activation_def Let_def dest: governance_row_core split: if_splits)

lemma approve_core: "approve_science_reserve_activation S clock ts a db = Inr (v, db') \<Longrightarrow> same_core db db'"
  by (cases "science_reserve_governance S clock db")
    (auto simp: approve_science_reserve_activation_def Let_def dest: governance_row_core split: if_splits)

lemma execute_core: "execute_science_reserve_activation S clock ts db = Inr (v, db') \<Longrightarrow> same_core db db'"
  by (auto simp: execute_science_reserve_activation_def Let_def dest: governance_row_core
      split: if_splits prod.splits option.splits)

lemma pause_core: "pause_science_reserve S clock ts a db = Inr (v, db') \<Longrightarrow> same_core db db'"
  by (cases "science_reserve_governance S clock db")
    (auto simp: pause_science_reserve_def Let_def dest: governance_row_core)

lemma unpause_core: "unpause_science_reserve S clock ts a db = Inr (v, db') \<Longrightarrow> same_core db db'"
  by (cases "science_reserve_governance S clock db")
    (auto simp: unpause_science_reserve_def Let_def dest: governance_row_core)

text \<open>A treasury claim: unlocking and the treasury row keep the core, the two postings cancel.\<close>

lemma unlock_core: "same_core db (unlock_matured_epochs now db)"
proof -
  have "same_core db (fst (fold (unlock_epoch now) es (db', t)))" if "same_core db db'" for es db' t
    using that by (induction es arbitrary: db' t) (simp_all add: unlock_epoch_def Let_def)
  from this [OF same_core_refl] show ?thesis
    by (auto simp: unlock_matured_epochs_def split: prod.split) (metis fst_conv)+
qed

lemma treasury_pair_moves:
  assumes "treasury_apply_ledger_entry clock ts p db = Inr db1" and "treasury_apply_ledger_entry clock ts q db1 = Inr db2"
    and "p = claim_debit x c" and "q = claim_credit x c ct"
  shows "moves 0 db db2"
  unfolding moves_def
proof
  assume "sound_ledger db"
  then have s: "ledger_ok db" "\<And>a. 0 \<le> acct_units db a" by (simp_all add: sound_ledger_def)
  note ok1 = treasury_post.post_ok [OF s(1) assms(1)]
  have n1: "0 \<le> acct_units db1 a" for a by (rule treasury_post.post_nonneg [OF s(1) assms(1) s(2)])
  have n2: "0 \<le> acct_units db2 a" for a by (rule treasury_post.post_nonneg [OF ok1 assms(2) n1])
  obtain w where w: "treasury_posted_units q = Inr w" using treasury_post.post_step [OF ok1 assms(2)] by blast
  note d = claim_units [OF w [unfolded assms(4)], folded assms(3)]
  note c = treasury_post.transfer_conserves [OF s(1) assms(1,2) d w]
  note m = chain_fields_of_more(1,2) [OF treasury_post.post_more [OF s(1) assms(1)]]
    chain_fields_of_more(1,2) [OF treasury_post.post_more [OF ok1 assms(2)]]
  show "sound_ledger db2 \<and> total_units db2 = total_units db + 0 \<and>
      account_nonces db2 = account_nonces db \<and> mempool_transactions db2 = mempool_transactions db"
    using c(1,2) n2 m by (simp add: sound_ledger_def)
qed

lemma claim_moves:
  assumes "claim_treasury S clock fresh rb ct cid ts db = Inr (v, db')"
  shows "moves 0 db db'"
proof -
  let ?db2 = "ensure_treasury S clock (unlock_matured_epochs (claim_time clock ts) db)"
  have ct': "(case ts of None \<Rightarrow> clock | Some t \<Rightarrow> t) = claim_time clock ts" by (simp add: claim_time_def)
  have "\<exists>x c to db3 db4. treasury_apply_ledger_entry clock (Some (claim_time clock ts)) (claim_debit x c) ?db2 = Inr db3 \<and>
      treasury_apply_ledger_entry clock (Some (claim_time clock ts)) (claim_credit x c to) db3 = Inr db4 \<and> same_core db4 db'"
    using assms unfolding claim_treasury_def Let_def ct' treasury_row_of_def prod.case bindE_eq_Inr
    by (elim exE conjE) (auto split: if_splits simp: ct', intro exI conjI, assumption, assumption, simp)
  then obtain x c to db3 db4 where p:
    "treasury_apply_ledger_entry clock (Some (claim_time clock ts)) (claim_debit x c) ?db2 = Inr db3"
    "treasury_apply_ledger_entry clock (Some (claim_time clock ts)) (claim_credit x c to) db3 = Inr db4"
    "same_core db4 db'" by (elim exE conjE)
  have "moves 0 db ?db2" by (rule same_core_moves) (simp add: unlock_core)
  from moves_trans [OF moves_trans [OF this treasury_pair_moves [OF p(1,2) refl refl]] same_core_moves [OF p(3)]]
  show ?thesis by simp
qed

section \<open>Each handler moves the fee\<close>

lemma fee_debit_moves:
  assumes "fee_debit tx h ts (py_round 8 (units_to_float f)) ty d db = Inr db'" and "\<bar>f\<bar> \<le> 10 ^ 14" and "0 \<le> f"
  shows "moves (- f) db db'"
proof (cases "0 < py_round 8 (units_to_float f)")
  case True
  then have "apply_account_delta ts (tx_posting tx h (x_sender tx) ''wallet'' (- py_round 8 (units_to_float f)) ty d) db = Inr db'"
    using assms(1) by (simp add: fee_debit_def)
  then show ?thesis
    by (rule delta_moves) (simp add: to_units_minus [OF rounded_amount_units [OF assms(2)]])
next
  case False
  then have "f = 0" using rounded_not_pos [OF assms(2)] assms(3) by simp
  then show ?thesis using False assms(1) by (simp add: fee_debit_def moves_refl)
qed

lemma fee_reward_moves:
  assumes "apply_fee_reward miner ty tx h ts db = Inr db'" and "terms_of tx a f" and "0 \<le> f"
  shows "moves f db db'"
proof (cases "0 < py_round 8 (units_to_float f)")
  case True
  then have "apply_account_delta ts (tx_posting tx h miner ty (py_round 8 (units_to_float f)) ''transaction_fee_reward''
      ''transaction fee reward'') db = Inr db'"
    using assms(1,2) by (simp add: apply_fee_reward_def terms_of_def)
  then show ?thesis
    by (rule delta_moves) (use assms(2) in \<open>simp add: rounded_amount_units terms_of_def\<close>)
next
  case False
  then have "f = 0" using rounded_not_pos [of f] assms(2,3) by (simp add: terms_of_def)
  then show ?thesis using False assms(1,2) by (simp add: apply_fee_reward_def terms_of_def moves_refl)
qed

text \<open>A debit of the amount with the fee, then a credit of the amount.\<close>

lemma debit_credit_moves:
  assumes "terms_of tx a f"
    and "apply_account_delta ts p db = Inr db1" and "apply_account_delta ts q db1 = Inr db2"
    and "p_amount p = - py_round 8 (fadd (py_round 8 (units_to_float a)) (py_round 8 (units_to_float f)))"
    and "p_amount q = py_round 8 (units_to_float a)"
  shows "moves (- f) db db2"
proof -
  have b: "\<bar>a\<bar> \<le> 10 ^ 14" "\<bar>f\<bar> \<le> 10 ^ 14" using assms(1) by (simp_all add: terms_of_def)
  have "moves (- (a + f)) db db1"
    by (rule delta_moves [OF assms(2)]) (simp add: assms(4) to_units_minus [OF rounded_sum_units [OF b]])
  moreover have "moves a db1 db2"
    by (rule delta_moves [OF assms(3)]) (simp add: assms(5) rounded_amount_units [OF b(1)])
  ultimately show ?thesis using moves_trans by fastforce
qed

lemma transfer_moves:
  assumes "apply_transfer_transaction tx h ts db = Inr db'" and "terms_of tx a f"
  shows "moves (- f) db db'"
proof -
  from assms(1) [unfolded apply_transfer_transaction_def Let_def bindE_eq_Inr] assms(2)
  obtain db1 r where p: "apply_account_delta ts (tx_posting tx h (x_sender tx) ''wallet''
      (- py_round 8 (fadd (py_round 8 (units_to_float a)) (py_round 8 (units_to_float f)))) ''transfer_debit''
      (''transfer debit to '' @ show_recipient (x_recipient tx))) db = Inr db1"
    and q: "apply_account_delta ts (tx_posting tx h r ''wallet'' (py_round 8 (units_to_float a)) ''transfer_credit''
         (''transfer credit from '' @ x_sender tx)) db1 = Inr db'"
    unfolding terms_of_def
    by (elim exE conjE) (auto split: option.splits)
  show ?thesis by (rule debit_credit_moves [OF assms(2) p q]) simp_all
qed

lemma faucet_moves:
  assumes "apply_faucet_transaction E tx h ts db = Inr db'" and "terms_of tx a f"
  shows "moves 0 db db'"
  using assms by (auto simp: apply_faucet_transaction_def terms_of_def intro!: pair_moves)

lemma science_stake_moves:
  assumes "apply_science_stake_transaction E tx h ts db = Inr db'" and "terms_of tx a f"
  shows "moves (- f) db db'"
proof -
  from assms(1) [unfolded apply_science_stake_transaction_def Let_def bindE_eq_Inr] assms(2)
  obtain db1 db2 w where p: "apply_account_delta ts (tx_posting tx h (x_sender tx) ''wallet''
      (- py_round 8 (fadd (py_round 8 (units_to_float a)) (py_round 8 (units_to_float f))))
       ''science_stake_debit'' ''science stake lock'') db = Inr db1"
    and q: "apply_account_delta ts (tx_posting tx h (science_stake_account_id (x_sender tx)) ''science_stake''
      (py_round 8 (units_to_float a)) ''science_stake_lock'' ''science stake lock'') db1 = Inr db2"
    and w: "same_core db2 db'"
    unfolding terms_of_def
    by (elim exE conjE) (auto dest: stake_core)
  have "moves (- f) db db2" by (rule debit_credit_moves [OF assms(2) p q]) simp_all
  from moves_trans [OF this same_core_moves [OF w]] show ?thesis by simp
qed

lemma science_unstake_moves:
  assumes "apply_science_unstake_transaction E tx h ts db = Inr db'" and "terms_of tx a f" and "0 \<le> f"
  shows "moves (- f) db db'"
proof -
  have fee: "tx_fee tx = Inr (py_round 8 (units_to_float f))" and b: "\<bar>f\<bar> \<le> 10 ^ 14"
    using assms(2) by (simp_all add: terms_of_def)
  obtain acc where acc: "science_account_by_address (x_sender tx) db = Some acc"
    using assms(1) by (cases "science_account_by_address (x_sender tx) db") (auto simp: apply_science_unstake_transaction_def fee)
  let ?amount = "py_round 8 (sa_stake_amount acc)"
  from assms(1) [unfolded apply_science_unstake_transaction_def Let_def bindE_eq_Inr]
  obtain db1 db2 db3 where
    d: "fee_debit tx h ts (py_round 8 (units_to_float f)) ''science_unstake_fee_debit'' ''science unstake fee'' db = Inr db1"
    and p: "apply_account_delta ts (tx_posting tx h (science_stake_account_id (x_sender tx)) ''science_stake'' (- ?amount)
         ''science_stake_unlock'' ''science stake unlock'') db1 = Inr db2"
    and q: "apply_account_delta ts (tx_posting tx h (x_sender tx) ''wallet'' ?amount ''science_unstake_credit''
         ''science stake unlock'') db2 = Inr db3"
    and w: "same_core db3 db'"
    by (elim exE conjE) (auto simp: fee acc dest: unstake_core)
  have m: "moves 0 db1 db3" by (rule pair_moves [OF p q]) simp
  from moves_trans [OF moves_trans [OF fee_debit_moves [OF d b assms(3)] m] same_core_moves [OF w]]
  show ?thesis by simp
qed

lemma register_core [simp]: "same_core db (ensure_canonical_replay_validator_registration E tx ts db)"
  by (simp add: ensure_canonical_replay_validator_registration_def Let_def)

lemma validator_stake_moves:
  assumes "apply_validator_stake_transaction E tx h ts replay db = Inr db'" and "terms_of tx a f"
  shows "moves (- f) db db'"
proof -
  have u: "tx_amount_units tx = Inr a" "tx_fee_units tx = Inr f" and b: "\<bar>a\<bar> \<le> 10 ^ 14" "\<bar>f\<bar> \<le> 10 ^ 14"
    using assms(2) by (simp_all add: terms_of_def)
  let ?db0 = "if replay then ensure_canonical_replay_validator_registration E tx ts db else db"
  let ?vid = "validator_stake_validator_id tx"
  from assms(1) [unfolded apply_validator_stake_transaction_def Let_def bindE_eq_Inr]
  obtain db1 db2 where
    p: "apply_account_delta ts (tx_posting tx h (x_sender tx) ''wallet'' (- units_to_float (a + f))
       ''validator_stake_debit'' (''validator stake lock for '' @ ?vid)) ?db0 = Inr db1"
    and q: "apply_account_delta ts (tx_posting tx h ?vid ''validator'' (units_to_float a) ''validator_stake_lock''
       (''validator stake lock from '' @ x_sender tx)) db1 = Inr db2"
    and w: "same_core db2 db'"
    by (elim exE conjE) (auto simp: u lock_validator_stake_def split: if_splits)
  have s: "\<bar>a + f\<bar> \<le> 10 ^ 15" "\<bar>a\<bar> \<le> 10 ^ 15" using b by simp_all
  have m0: "moves 0 db ?db0" by (rule same_core_moves) simp
  have m1: "moves (- (a + f)) ?db0 db1"
    by (rule delta_moves [OF p]) (simp add: to_units_minus [OF to_units_units_to_float [OF s(1)]])
  have m2: "moves a db1 db2"
    by (rule delta_moves [OF q]) (simp add: to_units_units_to_float [OF s(2)])
  from moves_trans [OF moves_trans [OF moves_trans [OF m0 m1] m2] same_core_moves [OF w]]
  show ?thesis by simp
qed

lemma validator_unstake_moves:
  assumes "apply_validator_unstake_transaction E tx h ts db = Inr db'" and "terms_of tx a f" and "0 \<le> f"
  shows "moves (- f) db db'"
proof -
  have u: "tx_fee_units tx = Inr f" and b: "\<bar>f\<bar> \<le> 10 ^ 15" using assms(2) by (simp_all add: terms_of_def)
  obtain v where v: "validator_unstake_row tx db = Some v"
    using assms(1) by (cases "validator_unstake_row tx db") (auto simp: apply_validator_unstake_transaction_def u)
  from assms(1) [unfolded apply_validator_unstake_transaction_def Let_def bindE_eq_Inr]
  obtain x db1 db2 db3 where
    d: "(if 0 < f then apply_account_delta ts (tx_posting tx h (x_sender tx) ''wallet'' (- units_to_float f)
            ''validator_unstake_fee_debit'' ''validator unstake fee'') db else Inr db) = Inr db1"
    and p: "apply_account_delta ts (tx_posting tx h (v_validator_id v) ''validator'' (- x) ''validator_stake_unlock''
         (''validator stake unlock to '' @ x_sender tx)) db1 = Inr db2"
    and q: "apply_account_delta ts (tx_posting tx h (x_sender tx) ''wallet'' x ''validator_unstake_credit''
         (''validator stake unlock from '' @ v_validator_id v)) db2 = Inr db3"
    and w: "same_core db3 db'"
    by (elim exE conjE) (auto simp: u v unlock_validator_stake_def)
  have m1: "moves (- f) db db1"
  proof (cases "0 < f")
    case True
    have "to_units (FloatA (- units_to_float f)) = Inr (- f)" by (rule to_units_minus [OF to_units_units_to_float [OF b]])
    then show ?thesis using d True by (auto intro: delta_moves)
  next
    case False
    then show ?thesis using d assms(3) by (simp add: moves_refl)
  qed
  have m2: "moves 0 db1 db3" by (rule pair_moves [OF p q]) simp
  from moves_trans [OF moves_trans [OF m1 m2] same_core_moves [OF w]] show ?thesis by simp
qed

text \<open>The handlers that charge the fee and then call another service.\<close>

lemma fee_then_moves:
  assumes "fee_debit tx h ts (py_round 8 (units_to_float f)) ty d db = Inr db1" and "\<bar>f\<bar> \<le> 10 ^ 14" and "0 \<le> f"
    and "moves 0 db1 db'"
  shows "moves (- f) db db'"
  using moves_trans [OF fee_debit_moves [OF assms(1-3)] assms(4)] by simp

lemma science_call_Inr: "science_call m = Inr d \<Longrightarrow> \<exists>v. m = Inr (v, d)"
  by (auto simp: science_call_def split: sum.splits err.splits)

lemma treasury_call_Inr: "treasury_call m = Inr d \<Longrightarrow> \<exists>v. m = Inr (v, d)"
  by (auto simp: treasury_call_def split: sum.splits err.splits)

lemma job_create_moves:
  assumes "apply_science_job_create_transaction E tx h ts db = Inr db'" and "terms_of tx a f" and "0 \<le> f"
  shows "moves (- f) db db'"
  using assms
  by (auto simp: apply_science_job_create_transaction_def terms_of_def
      dest!: science_call_Inr create_job_core intro: fee_then_moves same_core_moves)

lemma governance_call_core: "governance_call E tx ts db = Inr db' \<Longrightarrow> same_core db db'"
  by (auto simp: governance_call_def Let_def split: if_splits
      dest!: science_call_Inr propose_core approve_core execute_core pause_core unpause_core)

lemma governance_moves:
  assumes "apply_governance_action_transaction E tx h ts db = Inr db'" and "terms_of tx a f" and "0 \<le> f"
  shows "moves (- f) db db'"
  using assms
  by (auto simp: apply_governance_action_transaction_def terms_of_def
      dest!: governance_call_core intro: fee_then_moves same_core_moves)

lemma treasury_claim_moves:
  assumes "apply_treasury_claim_transaction E tx h ts db = Inr db'" and "terms_of tx a f" and "0 \<le> f"
  shows "moves (- f) db db'"
  using assms
  by (auto simp: apply_treasury_claim_transaction_def terms_of_def
      dest!: treasury_call_Inr claim_moves intro: fee_then_moves)

text \<open>The dispatch. A faucet transaction that passed the rules has no fee.\<close>

lemma apply_transaction_moves:
  assumes "apply_transaction E replay tx h ts db = Inr db'" and "terms_of tx a f" and "0 \<le> f"
    and "x_tx_type tx = ''faucet'' \<Longrightarrow> f = 0" and "x_tx_type tx \<in> set SUPPORTED_BLOCK_TX_TYPES"
  shows "moves (- f) db db'"
proof -
  have "x_tx_type tx = ''transfer'' \<or> x_tx_type tx = ''stake'' \<or> x_tx_type tx = ''unstake'' \<or>
      x_tx_type tx = ''science_job_create'' \<or> x_tx_type tx = ''governance_action'' \<or>
      x_tx_type tx = ''treasury_claim'' \<or> x_tx_type tx = ''faucet''"
    using assms(5) by (simp add: SUPPORTED_BLOCK_TX_TYPES_def)
  then show ?thesis
    using assms(1,4) transfer_moves [OF _ assms(2)] science_stake_moves [OF _ assms(2)]
      science_unstake_moves [OF _ assms(2,3)] validator_stake_moves [OF _ assms(2)]
      validator_unstake_moves [OF _ assms(2,3)] job_create_moves [OF _ assms(2,3)]
      governance_moves [OF _ assms(2,3)] treasury_claim_moves [OF _ assms(2,3)] faucet_moves [OF _ assms(2)]
    by (elim disjE) (simp_all add: apply_transaction_def split: if_splits)
qed

end
