(* ===== verification/TxFrame.thy ===== *)
theory TxFrame
  imports BlockProps
begin

text \<open>
  What executing transactions does not depend on. A relation between databases that is transitive,
  holds when the ledger and the nonces are untouched and holds over each posting, holds over every
  handler of a transaction. The instances: the nonces and the tables beyond \<open>db_chain\<close> stay, and a
  consistent ledger stays consistent, whatever the transaction says.
\<close>

locale tx_frame =
  fixes R :: "'a db_chain_scheme \<Rightarrow> 'a db_chain_scheme \<Rightarrow> bool"
  assumes R_trans: "R a b \<Longrightarrow> R b c \<Longrightarrow> R a c"
    and R_core: "same_core a b \<Longrightarrow> R a b"
    and R_delta: "apply_account_delta ts p a = Inr b \<Longrightarrow> R a b"
    and R_treasury: "treasury_apply_ledger_entry now ots p a = Inr b \<Longrightarrow> R a b"
begin

lemma R_refl [simp]: "R db db"
  by (rule R_core) simp

lemma R_fee_debit: "fee_debit tx h ts fee ty d db = Inr db' \<Longrightarrow> R db db'"
  by (auto simp: fee_debit_def split: if_splits dest: R_delta)

lemma R_transfer: "apply_transfer_transaction tx h ts db = Inr db' \<Longrightarrow> R db db'"
  unfolding apply_transfer_transaction_def Let_def bindE_eq_Inr
  by (elim exE conjE) (auto split: option.splits dest!: R_delta intro: R_trans)

lemma R_faucet: "apply_faucet_transaction E tx h ts db = Inr db' \<Longrightarrow> R db db'"
  unfolding apply_faucet_transaction_def bindE_eq_Inr
  by (elim exE conjE) (auto dest!: R_delta intro: R_trans)

lemma R_science_stake: "apply_science_stake_transaction E tx h ts db = Inr db' \<Longrightarrow> R db db'"
  unfolding apply_science_stake_transaction_def Let_def bindE_eq_Inr
  by (elim exE conjE) (auto dest!: R_delta stake_core [THEN R_core] intro: R_trans)

lemma R_science_unstake: "apply_science_unstake_transaction E tx h ts db = Inr db' \<Longrightarrow> R db db'"
  unfolding apply_science_unstake_transaction_def Let_def bindE_eq_Inr
  by (elim exE conjE, simp split: option.splits, elim exE conjE)
    (auto dest!: R_delta R_fee_debit unstake_core [THEN R_core] intro: R_trans)

lemma R_lock: "R db db' \<Longrightarrow> R db (lock_validator_stake vid s a ts db')"
  by (erule R_trans, rule R_core) (simp add: lock_validator_stake_def)

lemma R_unlock: "R db db' \<Longrightarrow> R db (unlock_validator_stake vid u w ts db')"
  by (erule R_trans, rule R_core) (simp add: unlock_validator_stake_def)

lemma R_registration: "R (ensure_canonical_replay_validator_registration E tx ts db) db' \<Longrightarrow> R db db'"
  by (erule R_trans [rotated], rule R_core) (simp add: ensure_canonical_replay_validator_registration_def Let_def)

lemma R_validator_stake: "apply_validator_stake_transaction E tx h ts replay db = Inr db' \<Longrightarrow> R db db'"
  unfolding apply_validator_stake_transaction_def Let_def bindE_eq_Inr
  by (elim exE conjE) (auto split: if_splits dest!: R_delta dest: R_registration intro!: R_lock intro: R_trans)

lemma R_validator_unstake: "apply_validator_unstake_transaction E tx h ts db = Inr db' \<Longrightarrow> R db db'"
  unfolding apply_validator_unstake_transaction_def Let_def bindE_eq_Inr
  by (elim exE conjE, simp split: option.splits, elim exE conjE)
    (auto split: if_splits dest!: R_delta intro!: R_unlock intro: R_trans)

lemma R_job_create: "apply_science_job_create_transaction E tx h ts db = Inr db' \<Longrightarrow> R db db'"
  unfolding apply_science_job_create_transaction_def bindE_eq_Inr
  by (elim exE conjE)
    (auto dest!: R_fee_debit science_call_Inr create_job_core [THEN R_core] intro: R_trans)

lemma R_governance: "apply_governance_action_transaction E tx h ts db = Inr db' \<Longrightarrow> R db db'"
  unfolding apply_governance_action_transaction_def bindE_eq_Inr
  by (elim exE conjE) (auto dest!: R_fee_debit governance_call_core [THEN R_core] intro: R_trans)

lemma R_claim:
  assumes "claim_treasury S clock fresh rb ct cid ts db = Inr (v, db')"
  shows "R db db'"
proof -
  let ?db2 = "ensure_treasury S clock (unlock_matured_epochs (claim_time clock ts) db)"
  have ct': "(case ts of None \<Rightarrow> clock | Some t \<Rightarrow> t) = claim_time clock ts" by (simp add: claim_time_def)
  have "\<exists>x c to db3 db4. treasury_apply_ledger_entry clock (Some (claim_time clock ts)) (claim_debit x c) ?db2 = Inr db3 \<and>
      treasury_apply_ledger_entry clock (Some (claim_time clock ts)) (claim_credit x c to) db3 = Inr db4 \<and> same_core db4 db'"
    using assms unfolding claim_treasury_def Let_def ct' treasury_row_of_def prod.case bindE_eq_Inr
    by (elim exE conjE) (auto split: if_splits simp: ct', intro exI conjI, assumption, assumption, simp)
  then obtain x c to db3 db4 where p:
    "treasury_apply_ledger_entry clock (Some (claim_time clock ts)) (claim_debit x c) ?db2 = Inr db3"
    "treasury_apply_ledger_entry clock (Some (claim_time clock ts)) (claim_credit x c to) db3 = Inr db4"
    "same_core db4 db'" by (elim exE conjE)
  have "R db ?db2" by (rule R_core) (simp add: unlock_core)
  then show ?thesis using R_trans R_treasury [OF p(1)] R_treasury [OF p(2)] R_core [OF p(3)] by blast
qed

lemma R_treasury_claim: "apply_treasury_claim_transaction E tx h ts db = Inr db' \<Longrightarrow> R db db'"
  unfolding apply_treasury_claim_transaction_def bindE_eq_Inr
  by (elim exE conjE) (auto dest!: R_fee_debit treasury_call_Inr R_claim intro: R_trans)

lemma R_apply_transaction: "apply_transaction E replay tx h ts db = Inr db' \<Longrightarrow> R db db'"
  using R_transfer R_faucet R_science_stake R_science_unstake R_validator_stake R_validator_unstake
    R_job_create R_governance R_treasury_claim
  by (auto simp: apply_transaction_def Let_def split: if_splits)

lemma R_fee_reward: "apply_fee_reward m ty tx h ts db = Inr db' \<Longrightarrow> R db db'"
  by (auto simp: apply_fee_reward_def split: if_splits dest: R_delta)

end

section \<open>Instances\<close>

text \<open>The tables beyond those of \<open>db_chain\<close>.\<close>

definition same_tail :: "'a db_chain_scheme \<Rightarrow> 'a db_chain_scheme \<Rightarrow> bool" where
  "same_tail db db' \<longleftrightarrow> db_chain.more db' = db_chain.more db"

definition same_nonces :: "'a db_chain_scheme \<Rightarrow> 'a db_chain_scheme \<Rightarrow> bool" where
  "same_nonces db db' \<longleftrightarrow> account_nonces db' = account_nonces db"

definition books_kept :: "'a db_ledger_scheme \<Rightarrow> 'a db_ledger_scheme \<Rightarrow> bool" where
  "books_kept db db' \<longleftrightarrow> (ledger_ok db \<longrightarrow> ledger_ok db')"

lemma posting_frames:
  "apply_account_delta ts p db = Inr db' \<Longrightarrow> same_tail db db' \<and> same_nonces db db'"
  "treasury_apply_ledger_entry now ots p db = Inr db' \<Longrightarrow> same_tail db db' \<and> same_nonces db db'"
  by (auto simp: apply_account_delta_def treasury_apply_ledger_entry_def same_tail_def same_nonces_def
      ensure_balance_account_def update_balance_def upsert_balance_def insert_ledger_entry_def Let_def split: if_splits)

interpretation tail: tx_frame same_tail
  by unfold_locales (simp_all add: same_tail_def same_core_def posting_frames [unfolded same_tail_def])

interpretation nonces: tx_frame same_nonces
  by unfold_locales (simp_all add: same_nonces_def same_core_def posting_frames [unfolded same_nonces_def])

lemma books_kept_tables:
  "balances db' = balances db \<Longrightarrow> ledger_entries db' = ledger_entries db \<Longrightarrow> books_kept db db'"
  unfolding books_kept_def using ledger_cong by blast

interpretation books: tx_frame books_kept
proof unfold_locales
  fix a b :: "'a db_chain_scheme"
  show "same_core a b \<Longrightarrow> books_kept a b" by (rule books_kept_tables) (simp_all add: same_core_def)
  show "apply_account_delta ts p a = Inr b \<Longrightarrow> books_kept a b" for ts p
    using tx_post.post_ok by (auto simp: books_kept_def)
  show "treasury_apply_ledger_entry now ots p a = Inr b \<Longrightarrow> books_kept a b" for now ots p
    using treasury_post.post_ok by (auto simp: books_kept_def)
qed (simp add: books_kept_def)

end
