(* ===== verification/BlockSafety.thy ===== *)
theory BlockSafety
  imports TxFrame
begin

text \<open>
  What a peer can rely on when a block's transactions have been executed: no unit was created or
  destroyed and no balance is negative, each sender's nonces went up, and none of the executed
  transactions, nor any of the same sender with a smaller nonce, is accepted again.
\<close>

section \<open>One transaction of a block\<close>

lemma rejection_none_fee:
  assumes "transaction_rejection_reason E tx expected reserved gap allow db = Inr (None, expected', db')"
    and "tx_fee_units tx = Inr f"
  shows "0 \<le> f"
  using assms unfolding transaction_rejection_reason_def Let_def
  by (auto split: if_splits)

lemma rejection_none_expected:
  assumes "transaction_rejection_reason E tx expected reserved gap allow db = Inr (None, expected', db')"
  shows "expected'(x_sender tx \<mapsto> n) = expected(x_sender tx \<mapsto> n)"
  using assms unfolding transaction_rejection_reason_def Let_def
  by (auto split: if_splits)

lemma faucet_fee_zero:
  assumes "type_rejection_reason E tx reserved allow db = Inr (None, db')" and "x_tx_type tx = ''faucet''"
    and "terms_of tx a f" and "0 \<le> f"
  shows "f = 0"
proof -
  have "faucet_rejection_reason E tx reserved db = Inr None"
    using assms(1,2) by (auto simp: type_rejection_reason_def keep_db_def)
  then have "py_round 8 (units_to_float f) = 0"
    using assms(3) unfolding faucet_rejection_reason_def terms_of_def
    by (auto split: if_splits)
  then show ?thesis using rounded_not_pos [of f] assms(3,4) by (simp add: terms_of_def)
qed

lemma rejection_core:
  assumes "transaction_rejection_reason E tx expected reserved gap allow db = Inr (r, expected', db')"
  shows "same_core db db'"
  using rejection_reason_cases(1) [OF assms] by (elim exE) simp

text \<open>The parts of a successful iteration.\<close>

lemma apply_block_transaction_cases:
  assumes "apply_block_transaction E miner mty h ts replay tx (e, ap, db) = Inr (e', ap', db')"
  obtains e1 db1 db2 db3 where
    "transaction_rejection_reason E tx e (\<lambda>_. []) replay replay db = Inr (None, e1, db1)"
    "apply_transaction E replay tx h ts db1 = Inr db2"
    "apply_fee_reward miner mty tx h ts db2 = Inr db3"
    "db' = record_confirmed_nonce (x_sender tx) (x_nonce tx) ts (confirm_transaction (x_tx_hash tx) h ts db3)"
    "e' = e(x_sender tx \<mapsto> x_nonce tx + 1)" "ap' = ap @ [x_tx_hash tx]"
proof -
  obtain r e1 db1 where r: "transaction_rejection_reason E tx e (\<lambda>_. []) replay replay db = Inr (r, e1, db1)"
    using assms by (auto simp: apply_block_transaction_def)
  have n: "r = None" using assms by (cases r) (simp_all add: apply_block_transaction_def r)
  note r' = r [unfolded n]
  show thesis
    using assms that [OF r'] rejection_none_expected [OF r']
    by (auto simp: apply_block_transaction_def r' Let_def)
qed

lemma nonce_update_core [simp]:
  "balances (record_confirmed_nonce a n ts db) = balances db"
  "ledger_entries (record_confirmed_nonce a n ts db) = ledger_entries db"
  "balances (confirm_transaction x h ts db) = balances db"
  "ledger_entries (confirm_transaction x h ts db) = ledger_entries db"
  "account_nonces (confirm_transaction x h ts db) = account_nonces db"
  by (simp_all add: record_confirmed_nonce_def confirm_transaction_def update_mempool_def)

lemma block_step_moves:
  fixes db db' :: "'a db_chain_scheme"
  assumes "apply_block_transaction E miner mty h ts replay tx (e, ap, db) = Inr (e', ap', db')"
    and "canonical_tx tx" and "sound_ledger db"
  shows "sound_ledger db'" and "total_units db' = total_units db"
proof -
  obtain a f where t: "terms_of tx a f" using canonical_terms [OF assms(2)] by (elim exE)
  obtain e1 db1 db2 db3 where
    r: "transaction_rejection_reason E tx e (\<lambda>_. []) replay replay db = Inr (None, e1, db1)"
    and x: "apply_transaction E replay tx h ts db1 = Inr db2"
    and w: "apply_fee_reward miner mty tx h ts db2 = Inr db3"
    and d: "db' = record_confirmed_nonce (x_sender tx) (x_nonce tx) ts (confirm_transaction (x_tx_hash tx) h ts db3)"
    by (rule apply_block_transaction_cases [OF assms(1)])
  have f: "0 \<le> f" by (rule rejection_none_fee [OF r]) (use t in \<open>simp add: terms_of_def\<close>)
  note c = rejection_reason_cases(3) [OF r refl]
  have m1: "moves 0 db db1" by (rule same_core_moves [OF rejection_core [OF r]])
  have m2: "moves (- f) db1 db2"
  proof (rule apply_transaction_moves [OF x t f])
    show "f = 0" if "x_tx_type tx = ''faucet''"
      by (rule faucet_fee_zero [OF _ that t f]) (use c in blast)
    show "x_tx_type tx \<in> set SUPPORTED_BLOCK_TX_TYPES" using c by blast
  qed
  have m: "moves 0 db db3"
    using moves_trans [OF moves_trans [OF m1 m2] fee_reward_moves [OF w t f]] by simp
  have b: "balances db' = balances db3" "ledger_entries db' = ledger_entries db3" by (simp_all add: d)
  show "sound_ledger db'" "total_units db' = total_units db"
    using m assms(3) sound_ledger_cong [OF b] ledger_cong(3) [OF b] by (simp_all add: moves_def)
qed

text \<open>The nonces of an iteration, whatever the transaction says and whatever the ledger holds.\<close>

lemma block_step_nonces:
  fixes db db' :: "'a db_chain_scheme"
  assumes "apply_block_transaction E miner mty h ts replay tx (e, ap, db) = Inr (e', ap', db')"
  shows "\<exists>db0 :: 'a db_chain_scheme. account_nonces db0 = account_nonces db \<and> account_nonces db' =
      account_nonces (record_confirmed_nonce (x_sender tx) (x_nonce tx) ts db0)"
proof -
  obtain e1 db1 db2 db3 where
    r: "transaction_rejection_reason E tx e (\<lambda>_. []) replay replay db = Inr (None, e1, db1)"
    and x: "apply_transaction E replay tx h ts db1 = Inr db2"
    and w: "apply_fee_reward miner mty tx h ts db2 = Inr db3"
    and d: "db' = record_confirmed_nonce (x_sender tx) (x_nonce tx) ts (confirm_transaction (x_tx_hash tx) h ts db3)"
    by (rule apply_block_transaction_cases [OF assms])
  have "same_nonces db db3"
    using nonces.R_core [OF rejection_core [OF r]] nonces.R_apply_transaction [OF x] nonces.R_fee_reward [OF w]
      nonces.R_trans by blast
  then show ?thesis
    by (intro exI [of _ "confirm_transaction (x_tx_hash tx) h ts db3"]) (simp add: same_nonces_def d)
qed

section \<open>Nonces\<close>

lemma stored_nonce_confirmed:
  "tbl_find an_account_id a (account_nonces db) = Some r \<Longrightarrow> an_nonce r \<le> confirmed_nonce a db"
  by (simp add: confirmed_nonce_def)

text \<open>\<open>nonce_at_least a k db\<close>: the account's stored nonce is \<open>k\<close> or more.\<close>

definition nonce_at_least :: "string \<Rightarrow> int \<Rightarrow> 'a db_chain_scheme \<Rightarrow> bool" where
  "nonce_at_least a k db \<longleftrightarrow> (case tbl_find an_account_id a (account_nonces db) of None \<Rightarrow> False | Some r \<Rightarrow> k \<le> an_nonce r)"

lemma nonce_at_least_confirmed: "nonce_at_least a k db \<Longrightarrow> k \<le> confirmed_nonce a db"
  by (auto simp: nonce_at_least_def split: option.splits dest: stored_nonce_confirmed)

lemma find_recorded:
  "tbl_find an_account_id a (account_nonces (record_confirmed_nonce s n ts db)) =
     (if a = s then (case tbl_find an_account_id a (account_nonces db) of
        None \<Rightarrow> Some \<lparr>an_account_id = s, an_nonce = n, an_updated_at = ts\<rparr>
      | Some r \<Rightarrow> Some (r\<lparr>an_nonce := (if an_nonce r < n then n else an_nonce r), an_updated_at := ts\<rparr>))
      else tbl_find an_account_id a (account_nonces db))"
  by (simp add: record_confirmed_nonce_def tbl_find_upsert)

lemma record_at_least:
  "nonce_at_least s n (record_confirmed_nonce s n ts db)"
  "nonce_at_least a k db \<Longrightarrow> nonce_at_least a k (record_confirmed_nonce s n ts db)"
  by (auto simp: nonce_at_least_def find_recorded split: option.splits)

lemma nonce_at_least_cong: "account_nonces db' = account_nonces db \<Longrightarrow> nonce_at_least a k db' = nonce_at_least a k db"
  by (simp add: nonce_at_least_def)

text \<open>The loop, from any expected nonces.\<close>

lemma block_fold_sound:
  fixes db db' :: "'a db_chain_scheme"
  assumes "foldE (apply_block_transaction E miner mty h ts replay) txs (e, ap, db) = Inr (e', ap', db')"
    and "list_all canonical_tx txs" and "sound_ledger db"
  shows "sound_ledger db' \<and> total_units db' = total_units db \<and> ap' = ap @ map x_tx_hash txs"
  using assms
proof (induction txs arbitrary: e ap db)
  case (Cons tx txs)
  obtain e1 ap1 db1 where s: "apply_block_transaction E miner mty h ts replay tx (e, ap, db) = Inr (e1, ap1, db1)"
    and r: "foldE (apply_block_transaction E miner mty h ts replay) txs (e1, ap1, db1) = Inr (e', ap', db')"
    using Cons.prems(1) by auto
  have c: "canonical_tx tx" "list_all canonical_tx txs" using Cons.prems(2) by simp_all
  note m = block_step_moves [OF s c(1) Cons.prems(3)]
  have a: "ap1 = ap @ [x_tx_hash tx]" by (rule apply_block_transaction_cases [OF s])
  show ?case using Cons.IH [OF r c(2) m(1)] m(2) a by simp
qed simp

lemma block_fold_nonces_kept:
  fixes db db' :: "'a db_chain_scheme"
  assumes "foldE (apply_block_transaction E miner mty h ts replay) txs (e, ap, db) = Inr (e', ap', db')"
  shows "(\<forall>a k. nonce_at_least a k db \<longrightarrow> nonce_at_least a k db') \<and>
    (\<forall>tx \<in> set txs. nonce_at_least (x_sender tx) (x_nonce tx) db')"
  using assms
proof (induction txs arbitrary: e ap db)
  case (Cons tx txs)
  obtain e1 ap1 db1 where s: "apply_block_transaction E miner mty h ts replay tx (e, ap, db) = Inr (e1, ap1, db1)"
    and r: "foldE (apply_block_transaction E miner mty h ts replay) txs (e1, ap1, db1) = Inr (e', ap', db')"
    using Cons.prems(1) by auto
  obtain db0 :: "'a db_chain_scheme" where n: "account_nonces db0 = account_nonces db"
    "account_nonces db1 = account_nonces (record_confirmed_nonce (x_sender tx) (x_nonce tx) ts db0)"
    using block_step_nonces [OF s] by (elim exE conjE) (rule that)
  have k: "nonce_at_least (x_sender tx) (x_nonce tx) db1"
    "\<And>a k. nonce_at_least a k db \<Longrightarrow> nonce_at_least a k db1"
    unfolding nonce_at_least_cong [OF n(2)] nonce_at_least_cong [OF n(1), symmetric] by (rule record_at_least)+
  show ?case using Cons.IH [OF r] k by simp
qed simp

text \<open>Two transactions of one sender stand in the block in the order of their nonces.\<close>

definition nonces_increase :: "tx list \<Rightarrow> bool" where
  "nonces_increase txs \<longleftrightarrow> sorted_wrt (\<lambda>t u. x_sender t = x_sender u \<longrightarrow> x_nonce t < x_nonce u) txs"

lemma block_fold_nonces:
  assumes "foldE (apply_block_transaction E miner mty h ts replay) txs (e, ap, db) = Inr st'"
  shows "nonces_increase txs \<and> (\<forall>tx \<in> set txs. \<forall>n. e (x_sender tx) = Some n \<longrightarrow> n \<le> x_nonce tx)"
  using assms
proof (induction txs arbitrary: e ap db)
  case (Cons tx txs)
  obtain e1 ap1 db1 where s: "apply_block_transaction E miner mty h ts replay tx (e, ap, db) = Inr (e1, ap1, db1)"
    and r: "foldE (apply_block_transaction E miner mty h ts replay) txs (e1, ap1, db1) = Inr st'"
    using Cons.prems by auto
  obtain e2 db2 where q: "transaction_rejection_reason E tx e (\<lambda>_. []) replay replay db = Inr (None, e2, db2)"
    and e1: "e1 = e(x_sender tx \<mapsto> x_nonce tx + 1)"
    by (rule apply_block_transaction_cases [OF s])
  have ge: "n \<le> x_nonce tx" if "e (x_sender tx) = Some n" for n
    using rejection_reason_cases(3) [OF q refl] that by (auto simp: expected_nonce_of_def)
  note ih = Cons.IH [OF r, unfolded e1]
  have later: "x_nonce tx < x_nonce u" if "u \<in> set txs" "x_sender tx = x_sender u" for u
    using ih that by fastforce
  have "n \<le> x_nonce u" if "u \<in> set txs" "e (x_sender u) = Some n" for u n
    using ih that ge later [OF that(1)] by (cases "x_sender u = x_sender tx") force+
  with ih ge later show ?case by (simp add: nonces_increase_def)
qed (simp add: nonces_increase_def)

text \<open>A transaction whose nonce is confirmed is refused, gaps allowed or not.\<close>

lemma used_nonce_refused:
  assumes "x_nonce tx \<le> confirmed_nonce (x_sender tx) db"
  shows "transaction_rejection_reason E tx Map.empty reserved gap allow db \<noteq> Inr (None, e', db')"
proof
  assume r: "transaction_rejection_reason E tx Map.empty reserved gap allow db = Inr (None, e', db')"
  show False
    using rejection_reason_cases(3) [OF r refl] assms
    by (simp add: expected_nonce_of_def next_selectable_nonce_eq)
qed

lemma apply_block_transactions_fold:
  assumes "apply_block_transactions E miner mty h txs ts replay db = Inr (applied, db')"
  shows "\<exists>e. foldE (apply_block_transaction E miner mty h (op_time (ne_clock E) ts) replay) txs (Map.empty, [], db) =
    Inr (e, applied, db')"
  using assms by (auto simp: apply_block_transactions_def)

section \<open>Which of the two amounts is spent\<close>

text \<open>A transaction as a peer sends it: the unit count is the signed one, the float field differs.\<close>

definition with_amount :: "int \<Rightarrow> tx \<Rightarrow> tx" where
  "with_amount v tx = tx\<lparr>x_amount := FloatA (units_to_float v)\<rparr>"

lemma with_amount_simps [simp]:
  "x_tx_hash (with_amount v tx) = x_tx_hash tx" "x_tx_type (with_amount v tx) = x_tx_type tx"
  "x_sender (with_amount v tx) = x_sender tx" "x_recipient (with_amount v tx) = x_recipient tx"
  "x_amount_units (with_amount v tx) = x_amount_units tx" "x_nonce (with_amount v tx) = x_nonce tx"
  "x_fee (with_amount v tx) = x_fee tx" "x_fee_units (with_amount v tx) = x_fee_units tx"
  "x_payload (with_amount v tx) = x_payload tx" "x_public_key (with_amount v tx) = x_public_key tx"
  "x_signature (with_amount v tx) = x_signature tx" "x_timestamp (with_amount v tx) = x_timestamp tx"
  "x_network_id (with_amount v tx) = x_network_id tx" "x_chain_id (with_amount v tx) = x_chain_id tx"
  "x_amount (with_amount v tx) = FloatA (units_to_float v)"
  by (simp_all add: with_amount_def)

text \<open>Neither the signature check nor the rules of a transfer read the float field.\<close>

lemma rules_ignore_amount:
  assumes "x_amount_units tx = Some a"
  shows "tx_amount_units (with_amount v tx) = tx_amount_units tx"
    and "is_signature_valid E (with_amount v tx) = is_signature_valid E tx"
    and "total_debit (with_amount v tx) = total_debit tx"
proof -
  show a: "tx_amount_units (with_amount v tx) = tx_amount_units tx"
    using assms by (simp add: tx_amount_units_def)
  have f: "tx_fee_units (with_amount v tx) = tx_fee_units tx" by (simp only: tx_fee_units_def with_amount_simps)
  show "total_debit (with_amount v tx) = total_debit tx"
    by (simp add: total_debit_def total_debit_units_def a f)
  have u: "unsigned_from_tx E (with_amount v tx) = unsigned_from_tx E tx"
    unfolding unsigned_from_tx_def a f with_amount_simps ..
  have c: "chain_matches E (with_amount v tx) = chain_matches E tx"
    unfolding chain_matches_def with_amount_simps ..
  show "is_signature_valid E (with_amount v tx) = is_signature_valid E tx"
    unfolding is_signature_valid_def u c with_amount_simps ..
qed

lemma transfer_rules_ignore_amount:
  assumes "x_amount_units tx = Some a" and "x_tx_type tx = ''transfer''"
  shows "transaction_rejection_reason E (with_amount v tx) e reserved gap allow db =
    transaction_rejection_reason E tx e reserved gap allow db"
proof -
  have f: "tx_fee_units (with_amount v tx) = tx_fee_units tx" by (simp only: tx_fee_units_def with_amount_simps)
  have t: "type_rejection_reason E (with_amount v tx) reserved allow db = type_rejection_reason E tx reserved allow db"
    by (simp add: type_rejection_reason_def assms(2) transfer_rejection_reason_def rules_ignore_amount(1) [OF assms(1)])
  show ?thesis
    unfolding transaction_rejection_reason_def f t rules_ignore_amount(2,3) [OF assms(1)] with_amount_simps ..
qed

section \<open>A block on the example chain\<close>

lemma delta_succeeds:
  assumes "sound_ledger db" and "to_units (FloatA (p_amount p)) = Inr u"
    and "acct_units db (p_account_id p) \<le> 10 ^ 15" and "0 \<le> acct_units db (p_account_id p) + u"
  shows "\<exists>db'. apply_account_delta ts p db = Inr db' \<and> sound_ledger db' \<and>
    acct_units db' = (acct_units db)(p_account_id p := acct_units db (p_account_id p) + u)"
proof -
  have s: "ledger_ok db" "\<And>a. 0 \<le> acct_units db a" using assms(1) by (simp_all add: sound_ledger_def)
  have p: "posted_units p = Inr u" using assms(2) by (simp add: posted_units_def)
  have "\<exists>db'. apply_account_delta ts p db = Inr db'"
    by (rule tx_post.post_succeeds [OF s(1) p]) (use assms(3,4) s(2) in \<open>simp_all add: negative_def\<close>)
  then obtain db' where d: "apply_account_delta ts p db = Inr db'" ..
  have "\<forall>a. 0 \<le> acct_units db' a" using tx_post.post_nonneg [OF s(1) d s(2)] by blast
  then show ?thesis
    using d tx_post.post_ok [OF s(1) d] tx_post.post_amount(1) [OF s(1) d p] by (simp add: sound_ledger_def)
qed

text \<open>The fee to the miner; a fee of zero posts nothing.\<close>

lemma fee_reward_succeeds:
  assumes "tx_fee tx = Inr (py_round 8 (units_to_float f))" and "0 \<le> f" and "f \<le> 10 ^ 14"
    and "sound_ledger db" and "acct_units db miner \<le> 10 ^ 15"
  shows "\<exists>db'. apply_fee_reward miner ty tx h ts db = Inr db' \<and> sound_ledger db' \<and>
    acct_units db' = (acct_units db)(miner := acct_units db miner + f)"
proof (cases "py_round 8 (units_to_float f) \<le> 0")
  case True
  then have "\<not> 0 < py_round 8 (units_to_float f)" by (simp only: not_less)
  then have "f = 0" using rounded_not_pos [of f] assms(2,3) by simp
  then show ?thesis
    using True assms(1,4) by (simp add: apply_fee_reward_def)
next
  case False
  let ?w = "tx_posting tx h miner ty (py_round 8 (units_to_float f)) ''transaction_fee_reward'' ''transaction fee reward''"
  have u: "to_units (FloatA (p_amount ?w)) = Inr f"
    unfolding tx_posting_simps by (rule rounded_amount_units) (use assms(2,3) in simp)
  have "\<forall>a. 0 \<le> acct_units db a" using assms(4) by (simp add: sound_ledger_def)
  then have "0 \<le> acct_units db (p_account_id ?w) + f" unfolding tx_posting_simps using assms(2) by (simp add: add_nonneg_nonneg)
  then obtain db' where "apply_account_delta ts ?w db = Inr db'" "sound_ledger db'"
    "acct_units db' = (acct_units db)(p_account_id ?w := acct_units db (p_account_id ?w) + f)"
    using delta_succeeds [OF assms(4) u, of ts] assms(5) by auto
  then show ?thesis
    using False by (simp only: apply_fee_reward_def assms(1) bindE_simps if_False tx_posting_simps) blast
qed

lemma example_canonical: "canonical_tx example_tx"
  by (simp add: canonical_tx_def)

lemma example_terms: "terms_of example_tx 1000000 10"
  by (simp add: terms_of_def tx_amount_def tx_fee_def py_float_def)

lemma example_acct: "acct_units (example_chain funds x) a = (if a = alice then funds else 0)"
  by (simp add: acct_units_def example_find_balance)

lemma example_sound: "0 \<le> funds \<Longrightarrow> sound_ledger (example_chain funds x)"
  by (simp add: sound_ledger_def example_acct) (simp add: ledger_ok_def example_acct, simp add: example_chain_def row_ok_def entry_sum_def)

lemma example_small: "\<forall>a. acct_units (example_chain 5000000 x) a \<le> 10 ^ 14"
  by (simp add: example_acct)

lemma example_total: "total_units (example_chain funds x) = funds"
  by (simp add: total_units_def example_chain_def)

lemma bob_not_alice: "bob \<noteq> alice"
  by (simp add: bob_def alice_def)

lemma amount_unchanged: "x_amount tx = FloatA (units_to_float v) \<Longrightarrow> with_amount v tx = tx"
  by (cases tx) (simp add: with_amount_def)

lemma example_amount_one: "with_amount 1000000 example_tx = example_tx"
  by (rule amount_unchanged) (rule example_tx_fields)

text \<open>A transfer whose signed fields pass the rules executes for any float amount the sender can pay.\<close>

lemma transfer_executes:
  fixes db :: "'a db_chain_scheme"
  assumes "x_tx_type tx = ''transfer''" and "x_recipient tx = Some r" and "x_fee tx = FloatA (units_to_float f)"
    and "sound_ledger db" and "\<forall>x. acct_units db x \<le> 10 ^ 14"
    and "0 \<le> v" and "0 \<le> f" and "v + f \<le> acct_units db (x_sender tx)"
  shows "\<exists>db'. apply_transaction E replay (with_amount v tx) h ts db = Inr db' \<and> sound_ledger db' \<and>
    acct_units db' = (\<lambda>x. acct_units db x - (if x = x_sender tx then v + f else 0) + (if x = r then v else 0))"
proof -
  let ?tx = "with_amount v tx" and ?s = "x_sender tx"
  let ?a = "py_round 8 (units_to_float v)" and ?f = "py_round 8 (units_to_float f)"
  have t: "tx_amount ?tx = Inr ?a" "tx_fee ?tx = Inr ?f"
    by (simp_all add: tx_amount_def tx_fee_def py_float_def assms(3))
  have b: "\<bar>v\<bar> \<le> 10 ^ 14" "\<bar>f\<bar> \<le> 10 ^ 14" using assms(5) [rule_format, of ?s] assms(6-8) by linarith+
  let ?p = "tx_posting ?tx h ?s ''wallet'' (- py_round 8 (fadd ?a ?f)) ''transfer_debit''
    (''transfer debit to '' @ show_recipient (Some r))"
  let ?q = "tx_posting ?tx h r ''wallet'' ?a ''transfer_credit'' (''transfer credit from '' @ ?s)"
  have s: "acct_units db ?s \<le> 10 ^ 15" "0 \<le> acct_units db ?s + - (v + f)"
    using assms(5) [rule_format, of ?s] assms(8) by simp_all
  have u: "to_units (FloatA (p_amount ?p)) = Inr (- (v + f))"
    unfolding tx_posting_simps by (rule to_units_minus) (rule rounded_sum_units [OF b])
  have "\<exists>db1. apply_account_delta ts ?p db = Inr db1 \<and> sound_ledger db1 \<and>
      acct_units db1 = (acct_units db)(p_account_id ?p := acct_units db (p_account_id ?p) + - (v + f))"
    by (rule delta_succeeds [OF assms(4) u]) (simp_all only: tx_posting_simps s)
  then obtain db1 where p: "apply_account_delta ts ?p db = Inr db1" "sound_ledger db1"
    "acct_units db1 = (acct_units db)(?s := acct_units db ?s + - (v + f))"
    unfolding tx_posting_simps by (elim exE conjE) (rule that)
  have w: "to_units (FloatA (p_amount ?q)) = Inr v"
    unfolding tx_posting_simps by (rule rounded_amount_units [OF b(1)])
  have "0 \<le> acct_units db1 r" using p(2) by (simp add: sound_ledger_def)
  moreover have "acct_units db1 r \<le> acct_units db r" using assms(6,7) by (simp add: p(3))
  ultimately have r: "acct_units db1 r \<le> 10 ^ 15" "0 \<le> acct_units db1 r + v"
    using assms(5) [rule_format, of r] assms(6) by simp_all
  have "\<exists>db2. apply_account_delta ts ?q db1 = Inr db2 \<and> sound_ledger db2 \<and>
      acct_units db2 = (acct_units db1)(p_account_id ?q := acct_units db1 (p_account_id ?q) + v)"
    by (rule delta_succeeds [OF p(2) w]) (simp_all only: tx_posting_simps r)
  then obtain db2 where q: "apply_account_delta ts ?q db1 = Inr db2" "sound_ledger db2"
    "acct_units db2 = (acct_units db1)(r := acct_units db1 r + v)"
    unfolding tx_posting_simps by (elim exE conjE) (rule that)
  have "acct_units db2 = (\<lambda>x. acct_units db x - (if x = ?s then v + f else 0) + (if x = r then v else 0))"
    by (simp add: q(3) p(3) fun_eq_iff)
  moreover have "apply_transaction E replay ?tx h ts db = Inr db2"
    by (simp only: apply_transaction_def Let_def with_amount_simps assms(1,2) apply_transfer_transaction_def t
      bindE_simps if_True p(1) option.case q(1) refl)
  ultimately show ?thesis using q(2) by blast
qed

text \<open>What executing a block of one such transfer does to every balance.\<close>

definition transfer_effect :: "string \<Rightarrow> string \<Rightarrow> string \<Rightarrow> int \<Rightarrow> int \<Rightarrow> 'a db_ledger_scheme \<Rightarrow> 'b db_ledger_scheme \<Rightarrow> bool" where
  "transfer_effect sender recipient miner v f db db' \<longleftrightarrow> (\<forall>x. acct_units db' x = acct_units db x -
     (if x = sender then v + f else 0) + (if x = recipient then v else 0) + (if x = miner then f else 0))"

lemma transfer_block_executes:
  fixes db :: "'a db_chain_scheme"
  assumes r: "transaction_rejection_reason E tx Map.empty (\<lambda>_. []) replay replay db = Inr (None, e, db1)"
    and x: "x_tx_type tx = ''transfer''" "x_amount_units tx = Some a" "x_recipient tx = Some r"
    and f: "x_fee_units tx = Some f" "x_fee tx = FloatA (units_to_float f)"
    and s: "sound_ledger db" "\<forall>x. acct_units db x \<le> 10 ^ 14"
    and v: "0 \<le> v" "v + f \<le> acct_units db (x_sender tx)"
  shows "\<exists>db'. apply_block_transactions E miner mty h [with_amount v tx] ts replay db = Inr ([x_tx_hash tx], db') \<and>
    transfer_effect (x_sender tx) r miner v f db db'"
proof -
  let ?t = "op_time (ne_clock E) ts" and ?tx = "with_amount v tx" and ?s = "x_sender tx"
  have f0: "0 \<le> f" by (rule rejection_none_fee [OF r]) (simp add: tx_fee_units_def f(1))
  have same: "same_core db db1" by (rule rejection_core [OF r])
  have l: "balances db1 = balances db" "ledger_entries db1 = ledger_entries db" using same by (simp_all add: same_core_def)
  note cong = ledger_cong(3) [OF l] sound_ledger_cong [OF l]
  have au: "acct_units db1 = acct_units db" by (rule ledger_cong) (rule l)+
  have "\<exists>db2. apply_transaction E replay ?tx h ?t db1 = Inr db2 \<and> sound_ledger db2 \<and>
      acct_units db2 = (\<lambda>x. acct_units db1 x - (if x = ?s then v + f else 0) + (if x = r then v else 0))"
    by (rule transfer_executes [OF x(1,3) f(2)]) (use s v f0 in \<open>simp_all only: au cong simp_thms\<close>)
  then obtain db2 where t: "apply_transaction E replay ?tx h ?t db1 = Inr db2" "sound_ledger db2"
    "acct_units db2 = (\<lambda>x. acct_units db x - (if x = ?s then v + f else 0) + (if x = r then v else 0))"
    unfolding au by (elim exE conjE) (rule that)
  have m: "v + f \<le> 10 ^ 14" using s(2) [rule_format, of ?s] v(2) by linarith
  have "acct_units db2 miner \<le> acct_units db miner + v"
    unfolding t(3) using v(1) f0 by simp
  then have b: "acct_units db2 miner \<le> 10 ^ 15" "f \<le> 10 ^ 14" using s(2) [rule_format, of miner] m v(1) f0 by simp_all
  have fee: "tx_fee ?tx = Inr (py_round 8 (units_to_float f))" by (simp add: tx_fee_def py_float_def f(2))
  obtain db3 where w: "apply_fee_reward miner mty ?tx h ?t db2 = Inr db3"
    "acct_units db3 = (acct_units db2)(miner := acct_units db2 miner + f)"
    using fee_reward_succeeds [OF fee f0 b(2) t(2) b(1), of mty h ?t] by (elim exE conjE) (rule that)
  let ?db' = "record_confirmed_nonce ?s (x_nonce tx) ?t (confirm_transaction (x_tx_hash tx) h ?t db3)"
  have "acct_units ?db' = acct_units db3" by (rule ledger_cong) simp_all
  then have "transfer_effect ?s r miner v f db ?db'"
    by (simp add: transfer_effect_def w(2) t(3))
  moreover have "transaction_rejection_reason E ?tx Map.empty (\<lambda>_. []) replay replay db = Inr (None, e, db1)"
    using r by (simp only: transfer_rules_ignore_amount [OF x(2,1)])
  then have "apply_block_transactions E miner mty h [?tx] ts replay db = Inr ([x_tx_hash tx], ?db')"
    by (simp add: apply_block_transactions_def apply_block_transaction_def t(1) w(1) Let_def)
  ultimately show ?thesis by blast
qed

lemma example_block:
  "\<exists>db'. apply_block_transactions example_env ''miner'' ''miner'' 1 [example_tx] (Some 0) False (example_chain 5000000 x) =
     Inr ([''h1''], db')"
proof -
  have "transaction_rejection_reason example_env example_tx Map.empty (\<lambda>_. []) False False (example_chain 5000000 x) =
      Inr (None, Map.empty, example_chain 5000000 x)"
    by (rule example_accepted) simp_all
  from transfer_block_executes [OF this example_tx_fields(2,6,4,7,9) example_sound example_small, of 1000000 "''miner''" "''miner''" 1 "Some 0"]
  show ?thesis by (simp add: example_amount_one example_acct) blast
qed

section \<open>The guarantees\<close>

text \<open>C1: executing the transactions of a block neither creates nor destroys a unit, as long as the
  ledger is sound (every balance equals the sum of its postings and none is negative) and every
  transaction is canonical (its float amount and fee are those of its unit counts, of at most
  \<open>10 ^ 14\<close> units, as in every transaction the node decodes from its own mempool; the import of a
  peer's block does not check it): the total over all accounts (fees included, which the miner gets)
  is unchanged, the ledger is sound again, and every transaction of the block is reported applied, in
  order.\<close>

theorem block_transactions_conserve:
  fixes db db' :: "'a db_chain_scheme"
  assumes "apply_block_transactions E miner mty h txs ts replay db = Inr (applied, db')"
    and "list_all canonical_tx txs" and "sound_ledger db"
  shows "sound_ledger db' \<and> total_units db' = total_units db \<and> applied = map x_tx_hash txs"
proof -
  from apply_block_transactions_fold [OF assms(1)] obtain e where
    "foldE (apply_block_transaction E miner mty h (op_time (ne_clock E) ts) replay) txs (Map.empty, [], db) =
      Inr (e, applied, db')" ..
  from block_fold_sound [OF this assms(2,3)] show ?thesis by simp
qed

text \<open>C2: replay protection. After a block was executed, each of its transactions, and every other
  transaction of the same sender whose nonce is not larger, is refused by the admission rule, on any
  node and also when nonce gaps are tolerated; and within the block a sender's nonces strictly
  increase, so no transaction is in it twice. Nothing is asked of the transactions, which may be a
  peer's, nor of the ledger.\<close>

theorem executed_transactions_refused:
  fixes db db' :: "'a db_chain_scheme"
  assumes "apply_block_transactions E miner mty h txs ts replay db = Inr (applied, db')"
  shows "nonces_increase txs \<and>
    (\<forall>tx \<in> set txs. \<forall>tx' E' reserved gap allow e db''. x_sender tx' = x_sender tx \<and> x_nonce tx' \<le> x_nonce tx \<longrightarrow>
       transaction_rejection_reason E' tx' Map.empty reserved gap allow db' \<noteq> Inr (None, e, db''))"
proof -
  from apply_block_transactions_fold [OF assms(1)] obtain e where
    f: "foldE (apply_block_transaction E miner mty h (op_time (ne_clock E) ts) replay) txs (Map.empty, [], db) =
      Inr (e, applied, db')" ..
  have "x_nonce tx \<le> confirmed_nonce (x_sender tx) db'" if "tx \<in> set txs" for tx
    using block_fold_nonces_kept [OF f] that nonce_at_least_confirmed by blast
  then show ?thesis
    using block_fold_nonces [OF f] used_nonce_refused by (metis order_trans)
qed

theorem block_transactions_conserve_witness:
  "\<exists>db'. apply_block_transactions example_env ''miner'' ''miner'' 1 [example_tx] (Some 0) False (example_chain 5000000 ()) =
     Inr ([''h1''], db') \<and> sound_ledger db' \<and> total_units db' = 5000000"
proof -
  obtain db' where b: "apply_block_transactions example_env ''miner'' ''miner'' 1 [example_tx] (Some 0) False
      (example_chain 5000000 ()) = Inr ([''h1''], db')" using example_block [of "()"] by (elim exE) (rule that)
  have c: "list_all canonical_tx [example_tx]" by (simp add: example_canonical)
  have "sound_ledger (example_chain 5000000 ())" by (rule example_sound) simp
  note r = block_transactions_conserve [OF b c this]
  have "total_units (example_chain 5000000 ()) = 5000000" by (rule example_total)
  with r have "total_units db' = 5000000" by (simp only:)
  with r b show ?thesis by (intro exI conjI) (assumption, rule conjunct1)
qed

theorem executed_transactions_refused_witness:
  "\<exists>db'. apply_block_transactions example_env ''miner'' ''miner'' 1 [example_tx] (Some 0) False (example_chain 5000000 ()) =
     Inr ([''h1''], db') \<and> (\<forall>e db''. transaction_rejection_reason example_env example_tx Map.empty (\<lambda>_. []) True True db' \<noteq>
       Inr (None, e, db''))"
proof -
  obtain db' where b: "apply_block_transactions example_env ''miner'' ''miner'' 1 [example_tx] (Some 0) False
      (example_chain 5000000 ()) = Inr ([''h1''], db')" using example_block [of "()"] by (elim exE) (rule that)
  from executed_transactions_refused [OF b, THEN conjunct2, THEN bspec, of example_tx]
  have "\<forall>e db''. transaction_rejection_reason example_env example_tx Map.empty (\<lambda>_. []) True True db' \<noteq> Inr (None, e, db'')"
    by (simp only: list.set insertI1 order_refl refl simp_thms)
  with b show ?thesis by (intro exI conjI)
qed

text \<open>C23: on the import path the transactions of a block are a peer's dictionaries, and the handlers
  spend the float field \<open>amount\<close> while the signature and the balance rule cover \<open>amount_units\<close>. Take any
  transfer with a unit count that the rules accept, on any node and any sound ledger of balances of at
  most \<open>10 ^ 14\<close> units, and put any other float amount \<open>v\<close> into it that the sender can pay with the
  fee: the signature and the rules still pass, the signed count is the same, and executing the block
  takes \<open>v\<close> and the fee from the sender and gives \<open>v\<close> to the recipient and the fee to the miner.\<close>

theorem unsigned_amount_is_spent:
  fixes db :: "'a db_chain_scheme"
  assumes "transaction_rejection_reason E tx Map.empty (\<lambda>_. []) replay replay db = Inr (None, e, db1)"
    and "x_tx_type tx = ''transfer''" and "x_amount_units tx = Some a" and "x_recipient tx = Some r"
    and "x_fee_units tx = Some f" and "x_fee tx = FloatA (units_to_float f)"
    and "sound_ledger db" and "\<forall>x. acct_units db x \<le> 10 ^ 14"
    and "0 \<le> v" and "v + f \<le> acct_units db (x_sender tx)"
  shows "is_signature_valid E (with_amount v tx) = Inr True \<and> tx_amount_units (with_amount v tx) = Inr a \<and>
    transaction_rejection_reason E (with_amount v tx) Map.empty (\<lambda>_. []) replay replay db = Inr (None, e, db1) \<and>
    (\<exists>db'. apply_block_transactions E miner mty h [with_amount v tx] ts replay db = Inr ([x_tx_hash tx], db') \<and>
       (\<forall>x. acct_units db' x = acct_units db x - (if x = x_sender tx then v + f else 0) + (if x = r then v else 0) +
          (if x = miner then f else 0)))"
proof (intro conjI)
  show "is_signature_valid E (with_amount v tx) = Inr True"
    using rejection_reason_cases(3) [OF assms(1) refl] by (simp only: rules_ignore_amount(2) [OF assms(3)])
  show "tx_amount_units (with_amount v tx) = Inr a"
    by (simp only: rules_ignore_amount(1) [OF assms(3)]) (simp add: tx_amount_units_def assms(3))
  show "transaction_rejection_reason E (with_amount v tx) Map.empty (\<lambda>_. []) replay replay db = Inr (None, e, db1)"
    unfolding transfer_rules_ignore_amount [OF assms(3,2)] by (rule assms(1))
qed (rule transfer_block_executes [OF assms, unfolded transfer_effect_def])

text \<open>One Picoin was signed, four are spent.\<close>

theorem unsigned_amount_is_spent_witness:
  "tx_amount_units (with_amount 4000000 example_tx) = Inr 1000000 \<and>
   (\<exists>db' :: unit db_chain_scheme. apply_block_transactions example_env ''miner'' ''miner'' 1 [with_amount 4000000 example_tx]
     (Some 0) False (example_chain 5000000 ()) = Inr ([''h1''], db') \<and> acct_units db' bob = 4000000)"
proof -
  have r: "transaction_rejection_reason example_env example_tx Map.empty (\<lambda>_. []) False False (example_chain 5000000 ()) =
      Inr (None, Map.empty, example_chain 5000000 ())"
    by (rule example_accepted) simp_all
  have "sound_ledger (example_chain 5000000 ())" by (rule example_sound) simp
  note u = unsigned_amount_is_spent [OF r example_tx_fields(2,6,4,7,9) this example_small, of 4000000 "''miner''" "''miner''" 1 "Some 0"]
  have "''miner'' \<noteq> bob" by (simp add: bob_def)
  with u bob_not_alice show ?thesis by (auto simp: example_acct)
qed

end
