(* ===== verification/StateRoot.thy ===== *)
theory StateRoot
  imports BlockSafety "HOL-Library.Product_Lexorder" "HOL-Library.Multiset"
begin

text \<open>
  The state root of a block (\<open>app/services/state.py\<close>): the balances folded out of the ledger
  entries up to the block, sorted, as canonical JSON under SHA-256; and the reverse direction, the
  balances and ledger entries a node writes when it starts from a snapshot. A dictionary
  \<open>merged\<close> is the list of its items in insertion order.

  Lemmas: the fold equals a reference definition (the non-zero sums per account and type, in
  order), so the order in which entries were written does not matter; a snapshot restores to itself
  exactly when no account occurs with two types.
\<close>

section \<open>Folding the ledger\<close>

type_synonym balance_key = "string \<times> string"

definition infer_account_type :: "string \<Rightarrow> string" where
  "infer_account_type account_id =
     (if account_id = ''genesis'' then ''genesis''
      else if account_id = ''science_compute_reserve'' then ''science_reserve''
      else if account_id = ''scientific_development_treasury'' then ''scientific_development_treasury''
      else if account_id = ''audit_treasury'' then ''audit''
      else if starts_with ''science_stake:'' account_id then ''science_stake''
      else if starts_with ''PI'' account_id then ''wallet''
      else if starts_with ''validator'' account_id then ''validator''
      else ''miner'')"

text \<open>\<open>account_type or _infer_account_type(account_id)\<close>.\<close>

definition known_type :: "string \<Rightarrow> string \<Rightarrow> string" where
  "known_type account_type account_id = (if account_type \<noteq> [] then account_type else infer_account_type account_id)"

definition entry_key :: "ledger_entry \<Rightarrow> balance_key" where
  "entry_key e = (le_account_id e, known_type (le_account_type e) (le_account_id e))"

definition entry_units :: "ledger_entry \<Rightarrow> int result" where
  "entry_units e = units_from_db (FloatA (le_amount e)) (Some (le_amount_units e))"

text \<open>\<open>merged[key] = merged.get(key, 0) + units\<close>.\<close>

definition add_units :: "'k \<Rightarrow> int \<Rightarrow> ('k \<times> int) list \<Rightarrow> ('k \<times> int) list" where
  "add_units k u merged = tbl_upsert fst (\<lambda>(k, v). (k, v + u)) (k, u) merged"

definition merge_entry :: "ledger_entry \<Rightarrow> (balance_key \<times> int) list \<Rightarrow> (balance_key \<times> int) list result" where
  "merge_entry e merged = bindE (entry_units e) (\<lambda>u. Inr (add_units (entry_key e) u merged))"

text \<open>\<open>ORDER BY block_height ASC, id ASC\<close> and \<open>ORDER BY created_at ASC, id ASC\<close>: rows are in
  id order and the sort is stable.\<close>

definition block_entries :: "int \<Rightarrow> 'a db_ledger_scheme \<Rightarrow> ledger_entry list" where
  "block_entries h db = sort_key (\<lambda>e. case le_block_height e of None \<Rightarrow> 0 | Some b \<Rightarrow> b)
     (filter (\<lambda>e. case le_block_height e of None \<Rightarrow> False | Some b \<Rightarrow> b \<le> h) (ledger_entries db))"

definition loose_entries :: "int \<Rightarrow> 'a db_ledger_scheme \<Rightarrow> ledger_entry list" where
  "loose_entries t db = sort_key le_created_at
     (filter (\<lambda>e. le_block_height e = None \<and> le_created_at e \<le> t) (ledger_entries db))"

definition snapshot_items :: "(balance_key \<times> int) list \<Rightarrow> (balance_key \<times> int) list" where
  "snapshot_items merged = filter (\<lambda>(k, u). u \<noteq> 0) (sort_key fst merged)"

definition canonical_balance_snapshot ::
  "int \<Rightarrow> int option \<Rightarrow> 'a db_ledger_scheme \<Rightarrow> (balance_key \<times> int) list result" where
  "canonical_balance_snapshot h ts db =
     (if h < 0 then Inl (ValueError ''block_height must be >= 0'')
      else bindE (foldE merge_entry (block_entries h db) []) (\<lambda>merged.
        bindE (case ts of None \<Rightarrow> Inr merged | Some t \<Rightarrow> foldE merge_entry (loose_entries t db) merged) (\<lambda>merged'.
        Inr (snapshot_items merged'))))"

text \<open>One item of \<open>balance_snapshot\<close> as the JSON object it is hashed as.\<close>

record balance_item =
  bi_account_id :: string
  bi_account_type :: string
  bi_balance :: string
  bi_balance_units :: int

definition item_of :: "balance_key \<times> int \<Rightarrow> balance_item" where
  "item_of x = \<lparr>bi_account_id = fst (fst x), bi_account_type = snd (fst x),
     bi_balance = canonical_amount (snd x), bi_balance_units = snd x\<rparr>"

definition balance_snapshot :: "int \<Rightarrow> int option \<Rightarrow> 'a db_ledger_scheme \<Rightarrow> balance_item list result" where
  "balance_snapshot h ts db = bindE (canonical_balance_snapshot h ts db) (\<lambda>xs. Inr (map item_of xs))"

definition item_json :: "balance_item \<Rightarrow> json" where
  "item_json i = JObj [(''account_id'', JStr (bi_account_id i)), (''account_type'', JStr (bi_account_type i)),
     (''balance'', JStr (bi_balance i)), (''balance_units'', JInt (bi_balance_units i))]"

definition calculate_state_root ::
  "(string \<Rightarrow> string) \<Rightarrow> int \<Rightarrow> int option \<Rightarrow> 'a db_ledger_scheme \<Rightarrow> string result" where
  "calculate_state_root H h ts db = bindE (balance_snapshot h ts db) (\<lambda>items.
     Inr (H (canonical_json (JObj [(''height'', JInt h), (''balances'', JList (map item_json items))]))))"

definition account_nonce_snapshot :: "'a db_chain_scheme \<Rightarrow> (string \<times> int) list" where
  "account_nonce_snapshot db = sort_key fst
     (map (\<lambda>r. (an_account_id r, an_nonce r)) (filter (\<lambda>r. 0 < an_nonce r) (account_nonces db)))"

section \<open>The reference definition\<close>

text \<open>The entries a snapshot covers, and what they add up to per account and type.\<close>

definition covered :: "int \<Rightarrow> int option \<Rightarrow> ledger_entry \<Rightarrow> bool" where
  "covered h ts e \<longleftrightarrow> (case le_block_height e of Some b \<Rightarrow> b \<le> h
     | None \<Rightarrow> (case ts of None \<Rightarrow> False | Some t \<Rightarrow> le_created_at e \<le> t))"

definition key_total :: "balance_key \<Rightarrow> ledger_entry list \<Rightarrow> int" where
  "key_total k es = (\<Sum>e\<leftarrow>es. if entry_key e = k then projr (entry_units e) else 0)"

definition reference_snapshot :: "ledger_entry list \<Rightarrow> (balance_key \<times> int) list" where
  "reference_snapshot es = map (\<lambda>k. (k, key_total k es)) (sorted_list_of_set {k \<in> entry_key ` set es. key_total k es \<noteq> 0})"

definition item_val :: "'k \<Rightarrow> ('k \<times> int) list \<Rightarrow> int" where
  "item_val k m = (case map_of m k of None \<Rightarrow> 0 | Some v \<Rightarrow> v)"

lemma key_total_append [simp]: "key_total k (es @ fs) = key_total k es + key_total k fs"
  by (simp add: key_total_def)

lemma key_total_Cons: "key_total k (e # es) = (if entry_key e = k then projr (entry_units e) else 0) + key_total k es"
  by (simp add: key_total_def)

lemma key_total_perm: "mset es = mset fs \<Longrightarrow> key_total k es = key_total k fs"
proof -
  let ?f = "\<lambda>e. if entry_key e = k then projr (entry_units e) else 0"
  assume "mset es = mset fs"
  then have "mset (map ?f es) = mset (map ?f fs)" by simp
  then show ?thesis unfolding key_total_def sum_mset_sum_list [symmetric] by (simp only:)
qed

lemma key_total_notin: "k \<notin> entry_key ` set es \<Longrightarrow> key_total k es = 0"
  by (induction es) (auto simp: key_total_def)

lemma map_of_tbl_find: "map_of m k = map_option snd (tbl_find fst k m)"
  by (induction m) auto

lemma add_units_props:
  assumes "distinct (map fst m)"
  shows "distinct (map fst (add_units k u m))" and "fst ` set (add_units k u m) = insert k (fst ` set m)"
    and "item_val k' (add_units k u m) = item_val k' m + (if k' = k then u else 0)"
proof -
  show "distinct (map fst (add_units k u m))"
    unfolding add_units_def by (rule distinct_tbl_upsert) (use assms in auto)
  have f: "tbl_find fst k' (add_units k u m) =
     (if k' = k then (case tbl_find fst k' m of None \<Rightarrow> Some (k, u) | Some r' \<Rightarrow> Some (case r' of (k, v) \<Rightarrow> (k, v + u)))
      else tbl_find fst k' m)" for k'
    unfolding add_units_def by (subst tbl_find_upsert) auto
  then show "item_val k' (add_units k u m) = item_val k' m + (if k' = k then u else 0)"
    by (auto simp: item_val_def map_of_tbl_find split: option.splits)
  have "x \<in> fst ` set (add_units k u m) \<longleftrightarrow> x \<in> insert k (fst ` set m)" for x
    using f [of x] tbl_find_None [of fst x "add_units k u m"] tbl_find_None [of fst x m]
    by (auto split: option.splits if_splits)
  then show "fst ` set (add_units k u m) = insert k (fst ` set m)" by blast
qed

lemma merge_entry_eq [simp]:
  "merge_entry e m = Inr m1 \<longleftrightarrow> (\<exists>u. entry_units e = Inr u \<and> m1 = add_units (entry_key e) u m)"
  by (auto simp: merge_entry_def)

lemma merge_fold:
  assumes "foldE merge_entry es m = Inr m'" and "distinct (map fst m)"
  shows "distinct (map fst m') \<and> fst ` set m' = fst ` set m \<union> entry_key ` set es \<and>
    (\<forall>k. item_val k m' = item_val k m + key_total k es) \<and> (\<forall>e \<in> set es. \<exists>u. entry_units e = Inr u)"
  using assms
proof (induction es arbitrary: m)
  case (Cons e es)
  then obtain u where u: "entry_units e = Inr u" "foldE merge_entry es (add_units (entry_key e) u m) = Inr m'"
    by auto
  note a = add_units_props [OF Cons.prems(2), where k = "entry_key e" and u = u]
  from Cons.IH [OF u(2) a(1)] show ?case
    using a(2,3) u(1) by (auto simp: key_total_Cons)
qed (simp add: key_total_def)

lemma merge_fold_succeeds:
  "\<forall>e \<in> set es. \<exists>u. entry_units e = Inr u \<Longrightarrow> \<exists>m'. foldE merge_entry es m = Inr m'"
  by (induction es arbitrary: m) (auto simp: merge_entry_def)

text \<open>Sorting a dictionary by key.\<close>

lemma sorted_items:
  fixes m :: "('k :: linorder \<times> int) list"
  assumes "distinct (map fst m)"
  shows "sort_key fst m = map (\<lambda>k. (k, item_val k m)) (sorted_list_of_set (fst ` set m))"
proof -
  have v: "x = (fst x, item_val (fst x) m)" if "x \<in> set m" for x
    using that map_of_is_SomeI [OF assms, of "fst x" "snd x"] by (simp add: item_val_def)
  have s: "sorted (map fst (sort_key fst m))" by (rule sorted_sort_key)
  have "mset (map fst (sort_key fst m)) = mset (map fst m)" by simp
  then have d: "distinct (map fst (sort_key fst m))"
    using assms mset_eq_imp_distinct_iff by blast
  have k: "map fst (sort_key fst m) = sorted_list_of_set (fst ` set m)"
    using sorted_list_of_set.idem_if_sorted_distinct [OF s d] by simp
  have "sort_key fst m = map (\<lambda>x. (fst x, item_val (fst x) m)) (sort_key fst m)"
    by (rule map_idI [THEN sym]) (use v in auto)
  also have "\<dots> = map (\<lambda>k. (k, item_val k m)) (map fst (sort_key fst m))" by simp
  finally show ?thesis unfolding k .
qed

lemma filter_sorted_list_of_set:
  fixes A :: "'k :: linorder set"
  assumes "finite A"
  shows "filter P (sorted_list_of_set A) = sorted_list_of_set {x \<in> A. P x}"
proof -
  have "sorted (filter P (sorted_list_of_set A))" "distinct (filter P (sorted_list_of_set A))"
    using sorted_filter [of id "sorted_list_of_set A" P] by simp_all
  note e = sorted_list_of_set.idem_if_sorted_distinct [OF this]
  have "set (filter P (sorted_list_of_set A)) = {x \<in> A. P x}" using assms by simp
  with e show ?thesis by (simp only:)
qed

text \<open>The fold computes the reference snapshot, whatever the order of the entries.\<close>

lemma snapshot_reference:
  assumes "canonical_balance_snapshot h ts db = Inr items"
  shows "0 \<le> h" and "items = reference_snapshot (filter (covered h ts) (ledger_entries db))"
    and "\<forall>e \<in> set (filter (covered h ts) (ledger_entries db)). \<exists>u. entry_units e = Inr u"
proof -
  show h: "0 \<le> h" using assms by (auto simp: canonical_balance_snapshot_def split: if_splits)
  define loose where "loose = (case ts of None \<Rightarrow> [] | Some t \<Rightarrow> loose_entries t db)"
  let ?es = "block_entries h db @ loose" and ?cs = "filter (covered h ts) (ledger_entries db)"
  obtain m where m: "foldE merge_entry ?es [] = Inr m" and items: "items = snapshot_items m"
    using assms h unfolding loose_def
    by (cases ts) (auto simp: canonical_balance_snapshot_def foldE_append)
  have p: "mset ?es = mset ?cs"
  proof -
    have "mset loose = filter_mset (\<lambda>e. le_block_height e = None \<and> covered h ts e) (mset (ledger_entries db))"
      unfolding loose_def by (cases ts)
        (auto simp: loose_entries_def covered_def intro!: filter_mset_cong)
    moreover have "mset (block_entries h db) = filter_mset (\<lambda>e. le_block_height e \<noteq> None \<and> covered h ts e) (mset (ledger_entries db))"
      by (auto simp: block_entries_def covered_def intro!: filter_mset_cong split: option.splits)
    ultimately have "mset ?es = filter_mset (\<lambda>e. le_block_height e \<noteq> None \<and> covered h ts e) (mset (ledger_entries db)) +
        filter_mset (\<lambda>e. le_block_height e = None \<and> covered h ts e) (mset (ledger_entries db))" by simp
    also have "\<dots> = filter_mset (covered h ts) (mset (ledger_entries db))"
      by (rule multiset_eqI) simp
    finally show ?thesis by simp
  qed
  have keys: "entry_key ` set ?es = entry_key ` set ?cs" using p by (metis set_mset_mset)
  note f = merge_fold [OF m, simplified list.map, OF distinct.simps(1) [THEN iffD2, OF TrueI]]
  have d: "distinct (map fst m)" and ks: "fst ` set m = entry_key ` set ?cs"
    using f keys by simp_all
  have v: "item_val k m = key_total k ?cs" for k
    using f [THEN conjunct2, THEN conjunct2, THEN conjunct1, THEN spec, of k]
    unfolding key_total_perm [OF p] by (simp add: item_val_def)
  show "items = reference_snapshot ?cs"
    unfolding items snapshot_items_def reference_snapshot_def sorted_items [OF d] ks v
    by (simp add: filter_map o_def filter_sorted_list_of_set)
  show "\<forall>e \<in> set ?cs. \<exists>u. entry_units e = Inr u"
    using f p by (metis set_mset_mset)
qed

lemma snapshot_succeeds:
  assumes "0 \<le> h" and "\<forall>e \<in> set (filter (covered h ts) (ledger_entries db)). \<exists>u. entry_units e = Inr u"
  shows "canonical_balance_snapshot h ts db = Inr (reference_snapshot (filter (covered h ts) (ledger_entries db)))"
proof -
  have b: "\<forall>e \<in> set (block_entries h db). \<exists>u. entry_units e = Inr u"
    using assms(2) by (auto simp: block_entries_def covered_def split: option.splits)
  have l: "\<forall>e \<in> set (loose_entries t db). \<exists>u. entry_units e = Inr u" if "ts = Some t" for t
    using assms(2) that by (auto simp: loose_entries_def covered_def)
  have "\<exists>items. canonical_balance_snapshot h ts db = Inr items"
  proof -
    obtain m where m: "foldE merge_entry (block_entries h db) [] = Inr m"
      using merge_fold_succeeds [OF b] by blast
    obtain m' where "(case ts of None \<Rightarrow> Inr m | Some t \<Rightarrow> foldE merge_entry (loose_entries t db) m) = Inr m'"
      using merge_fold_succeeds [OF l] by (cases ts) auto
    then show ?thesis using m assms(1) by (simp add: canonical_balance_snapshot_def)
  qed
  then show ?thesis using snapshot_reference(2) by blast
qed

lemma reference_perm: "mset es = mset fs \<Longrightarrow> reference_snapshot es = reference_snapshot fs"
proof -
  assume p: "mset es = mset fs"
  then have "set es = set fs" by (metis set_mset_mset)
  moreover have "key_total k es = key_total k fs" for k by (rule key_total_perm [OF p])
  ultimately show ?thesis by (simp add: reference_snapshot_def)
qed

lemma root_of_snapshot:
  "canonical_balance_snapshot h ts db = canonical_balance_snapshot h ts db' \<Longrightarrow>
    calculate_state_root H h ts db = calculate_state_root H h ts db'"
  by (simp add: calculate_state_root_def balance_snapshot_def)

section \<open>The snapshot and the balances\<close>

text \<open>The float of an entry is the rendering of its units, or one (the treasury's) whose units they are.\<close>

definition entry_consistent :: "ledger_entry \<Rightarrow> bool" where
  "entry_consistent e \<longleftrightarrow> le_amount e = units_to_float (le_amount_units e) \<or>
     to_units (FloatA (le_amount e)) = Inr (le_amount_units e)"

lemma consistent_units: "entry_consistent e \<Longrightarrow> entry_units e = Inr u \<Longrightarrow> u = le_amount_units e"
  using units_from_db_accepts [of "FloatA (le_amount e)" "le_amount_units e" u]
  by (auto simp: entry_units_def entry_consistent_def)

text \<open>A run of postings: each of the six functions, the creation of accounts, and anything that leaves
  the two tables alone.\<close>

inductive posted :: "'a db_ledger_scheme \<Rightarrow> 'a db_ledger_scheme \<Rightarrow> bool" for db0 where
  posted_none: "posted db0 db0"
| posted_account: "posted db0 db \<Longrightarrow> posted db0 (ensure_balance_account a ty now db)"
| posted_tables: "posted db0 db \<Longrightarrow> balances db' = balances db \<Longrightarrow> ledger_entries db' = ledger_entries db \<Longrightarrow> posted db0 db'"
| posted_reward: "posted db0 db \<Longrightarrow> apply_reward_ledger_entry ts p db = Inr db' \<Longrightarrow> posted db0 db'"
| posted_mining: "posted db0 db \<Longrightarrow> mining_apply_ledger_entry now ots p db = Inr db' \<Longrightarrow> posted db0 db'"
| posted_treasury: "posted db0 db \<Longrightarrow> treasury_apply_ledger_entry now ots p db = Inr db' \<Longrightarrow> posted db0 db'"
| posted_science: "posted db0 db \<Longrightarrow> science_apply_ledger_entry now p db = Inr db' \<Longrightarrow> posted db0 db'"
| posted_delta: "posted db0 db \<Longrightarrow> apply_account_delta ts p db = Inr db' \<Longrightarrow> posted db0 db'"
| posted_consensus: "posted db0 db \<Longrightarrow> consensus_apply_account_delta ts p db = Inr db' \<Longrightarrow> posted db0 db'"

definition consistent_books :: "'a db_ledger_scheme \<Rightarrow> bool" where
  "consistent_books db \<longleftrightarrow> ledger_ok db \<and> list_all entry_consistent (ledger_entries db)"

lemmas posting_writes = apply_reward_ledger_entry_def mining_apply_ledger_entry_def treasury_apply_ledger_entry_def
  science_apply_ledger_entry_def apply_account_delta_def consensus_apply_account_delta_def
  ensure_balance_account_def update_balance_def upsert_balance_def insert_ledger_entry_def Let_def

lemma posted_consistent:
  assumes "posted db0 db" and "consistent_books db0"
  shows "consistent_books db"
  using assms
proof induction
  case (posted_tables db db')
  then show ?case using ledger_cong(1) [of db' db] by (simp add: consistent_books_def)
next
  case (posted_account db a ty now)
  then show ?case by (simp add: consistent_books_def ensure_balance_account_ok)
next
  case (posted_reward db ts p db')
  then show ?case using rewards_post.post_ok [of db ts p db']
    by (auto simp: consistent_books_def posting_writes entry_consistent_def)
next
  case (posted_mining db now ots p db')
  then show ?case using mining_post.post_ok [of db now ots p db']
    by (auto simp: consistent_books_def posting_writes entry_consistent_def)
next
  case (posted_treasury db now ots p db')
  then show ?case using treasury_post.post_ok [of db now ots p db']
    by (auto simp: consistent_books_def posting_writes entry_consistent_def split: if_splits)
next
  case (posted_science db now p db')
  then show ?case using science_post.post_ok [of db now p db']
    by (auto simp: consistent_books_def posting_writes entry_consistent_def split: if_splits)
next
  case (posted_delta db ts p db')
  then show ?case using tx_post.post_ok [of db ts p db']
    by (auto simp: consistent_books_def posting_writes entry_consistent_def split: if_splits)
next
  case (posted_consensus db ts p db')
  then show ?case using consensus_post.post_ok [of db ts p db']
    by (auto simp: consistent_books_def posting_writes entry_consistent_def)
qed

definition account_total :: "string \<Rightarrow> (balance_key \<times> int) list \<Rightarrow> int" where
  "account_total a items = (\<Sum>x\<leftarrow>items. if fst (fst x) = a then snd x else 0)"

lemma account_total_sum:
  assumes "finite K" and "\<And>k. k \<notin> K \<Longrightarrow> f k = 0"
  shows "account_total a (map (\<lambda>k. (k, f k)) (sorted_list_of_set {k \<in> K. f k \<noteq> 0})) = (\<Sum>k \<in> K. if fst k = a then f k else 0)"
proof -
  have "account_total a (map (\<lambda>k. (k, f k)) (sorted_list_of_set {k \<in> K. f k \<noteq> 0})) =
      (\<Sum>k \<in> {k \<in> K. f k \<noteq> 0}. if fst k = a then f k else 0)"
    using assms(1) by (simp add: account_total_def o_def sum_list_distinct_conv_sum_set cong: if_cong)
  also have "\<dots> = (\<Sum>k \<in> K. if fst k = a then f k else 0)"
    using assms(1) by (intro sum.mono_neutral_left) auto
  finally show ?thesis .
qed

lemma key_totals_by_account:
  assumes "finite K" and "entry_key ` set es \<subseteq> K"
  shows "(\<Sum>k \<in> K. if fst k = a then key_total k es else 0) =
    (\<Sum>e\<leftarrow>es. if le_account_id e = a then projr (entry_units e) else 0)"
  using assms(2)
proof (induction es)
  case (Cons e es)
  have "(\<Sum>k \<in> K. if fst k = a then (if entry_key e = k then projr (entry_units e) else 0) else 0) =
      (\<Sum>k \<in> K. if entry_key e = k then (if fst k = a then projr (entry_units e) else 0) else 0)"
    by (rule sum.cong) auto
  also have "\<dots> = (if le_account_id e = a then projr (entry_units e) else 0)"
    using assms(1) Cons.prems by (simp add: sum.delta entry_key_def)
  finally have h: "(\<Sum>k \<in> K. if fst k = a then (if entry_key e = k then projr (entry_units e) else 0) else 0) =
      (if le_account_id e = a then projr (entry_units e) else 0)" .
  have "(\<Sum>k \<in> K. if fst k = a then key_total k (e # es) else 0) =
      (\<Sum>k \<in> K. (if fst k = a then (if entry_key e = k then projr (entry_units e) else 0) else 0) +
        (if fst k = a then key_total k es else 0))"
    by (rule sum.cong) (auto simp: key_total_Cons)
  also have "\<dots> = (if le_account_id e = a then projr (entry_units e) else 0) +
      (\<Sum>e\<leftarrow>es. if le_account_id e = a then projr (entry_units e) else 0)"
    using h Cons.IH Cons.prems by (simp add: sum.distrib)
  finally show ?case by simp
qed (simp add: key_total_def cong: if_cong)

lemma snapshot_account_total:
  assumes "canonical_balance_snapshot h ts db = Inr items" and "ledger_ok db"
    and "list_all entry_consistent (ledger_entries db)" and "list_all (covered h ts) (ledger_entries db)"
  shows "account_total a items = acct_units db a"
proof -
  let ?es = "ledger_entries db"
  have f: "filter (covered h ts) ?es = ?es" using assms(4) by (simp add: list_all_iff filter_id_conv)
  note r = snapshot_reference(2,3) [OF assms(1), unfolded f]
  have "account_total a items = (\<Sum>k \<in> entry_key ` set ?es. if fst k = a then key_total k ?es else 0)"
    unfolding r(1) reference_snapshot_def by (rule account_total_sum) (simp_all add: key_total_notin)
  also have "\<dots> = (\<Sum>e\<leftarrow>?es. if le_account_id e = a then projr (entry_units e) else 0)"
    by (rule key_totals_by_account) simp_all
  also have "\<dots> = entry_sum a ?es"
  proof -
    have "projr (entry_units e) = le_amount_units e" if "e \<in> set ?es" for e
      using r(2) assms(3) that consistent_units by (fastforce simp: list_all_iff)
    then show ?thesis unfolding entry_sum_def by (metis (no_types, lifting) map_cong)
  qed
  finally show ?thesis using ledger_ok_audit [OF assms(2)] by simp
qed

section \<open>Restoring a snapshot\<close>

text \<open>\<open>_normalize_snapshot_balances_with_type\<close>: one item per account, with the type of the first
  occurrence. A document item has its unit count.\<close>

definition item_units :: "balance_item \<Rightarrow> int result" where
  "item_units i = units_from_db (if bi_balance i \<noteq> [] then StrA (bi_balance i) else IntA 0) (Some (bi_balance_units i))"

definition item_type :: "balance_item \<Rightarrow> string \<Rightarrow> string" where
  "item_type i account_id =
     (let ty = str_strip (known_type (bi_account_type i) account_id) in if ty \<noteq> [] then ty else ''wallet'')"

definition item_account :: "balance_key \<times> int \<Rightarrow> string" where
  "item_account x = fst (fst x)"

definition merge_item :: "balance_item \<Rightarrow> (balance_key \<times> int) list \<Rightarrow> (balance_key \<times> int) list result" where
  "merge_item i merged =
     (let account_id = str_strip (bi_account_id i) in
      if account_id = [] then Inr merged
      else bindE (item_units i) (\<lambda>u.
        Inr (tbl_upsert item_account (\<lambda>(k, v). (k, v + u)) ((account_id, item_type i account_id), u) merged)))"

definition normalize_snapshot_balances_with_type :: "balance_item list \<Rightarrow> (balance_key \<times> int) list result" where
  "normalize_snapshot_balances_with_type items = bindE (foldE merge_item items []) (\<lambda>merged. Inr (snapshot_items merged))"

definition snapshot_entry ::
  "balance_key \<Rightarrow> int \<Rightarrow> int \<Rightarrow> string \<Rightarrow> int \<Rightarrow> string \<Rightarrow> string \<Rightarrow> int \<Rightarrow> ledger_entry" where
  "snapshot_entry k amount_units balance_after_units entry_type block_height snapshot_hash description ts =
     \<lparr>le_account_id = fst k, le_account_type = snd k, le_amount = units_to_float amount_units,
      le_amount_units = amount_units, le_balance_after = units_to_float balance_after_units,
      le_balance_after_units = balance_after_units, le_entry_type = entry_type, le_block_height = Some block_height,
      le_related_id = Some snapshot_hash, le_description = Some description, le_created_at = ts\<rparr>"

text \<open>\<open>stakes\<close> gives a validator's \<open>wallet_stake_locked_units\<close>, zero when it is not in the
  snapshot.\<close>

definition snapshot_entries ::
  "(string \<Rightarrow> int) \<Rightarrow> int \<Rightarrow> string \<Rightarrow> int \<Rightarrow> balance_key \<times> int \<Rightarrow> ledger_entry list" where
  "snapshot_entries stakes h snapshot_hash ts x = (case x of (k, balance_units) \<Rightarrow>
     if snd k \<noteq> ''validator''
     then [snapshot_entry k balance_units balance_units ''snapshot_state_import'' h snapshot_hash
             ''canonical snapshot state import'' ts]
     else
       let wallet_stake_units = min balance_units (stakes (fst k));
           remaining_units = balance_units - wallet_stake_units in
       (if wallet_stake_units \<noteq> 0
        then [snapshot_entry k wallet_stake_units wallet_stake_units ''validator_stake_lock'' h snapshot_hash
                ''canonical snapshot validator wallet stake import'' ts] else []) @
       (if remaining_units \<noteq> 0
        then [snapshot_entry k remaining_units balance_units ''snapshot_state_import'' h snapshot_hash
                ''canonical snapshot validator state import'' ts] else []))"

definition restored_row :: "int \<Rightarrow> balance_key \<times> int \<Rightarrow> balance_row" where
  "restored_row ts x = \<lparr>b_account_id = fst (fst x), b_account_type = snd (fst x),
     b_balance = units_to_float (snd x), b_balance_units = snd x, b_updated_at = ts\<rparr>"

definition restore_item ::
  "(string \<Rightarrow> int) \<Rightarrow> int \<Rightarrow> string \<Rightarrow> int \<Rightarrow> balance_key \<times> int \<Rightarrow> 'a db_ledger_scheme \<Rightarrow> 'a db_ledger_scheme result" where
  "restore_item stakes h snapshot_hash ts x db =
     bindE (tbl_insert b_account_id ''balances.account_id'' (restored_row ts x) (balances db)) (\<lambda>rows.
     Inr (db\<lparr>balances := rows, ledger_entries := ledger_entries db @ snapshot_entries stakes h snapshot_hash ts x\<rparr>))"

definition restore_snapshot_balances ::
  "(string \<Rightarrow> int) \<Rightarrow> int \<Rightarrow> string \<Rightarrow> int \<Rightarrow> balance_item list \<Rightarrow> 'a db_ledger_scheme \<Rightarrow> 'a db_ledger_scheme result" where
  "restore_snapshot_balances stakes h snapshot_hash ts document_balances db =
     bindE (normalize_snapshot_balances_with_type document_balances) (\<lambda>items.
     foldE (restore_item stakes h snapshot_hash ts) items (db\<lparr>ledger_entries := [], balances := []\<rparr>))"

section \<open>The restored ledger\<close>

text \<open>Items a snapshot can have: trimmed texts, non-zero amounts within the bound of exact floats.\<close>

definition item_ok :: "balance_key \<times> int \<Rightarrow> bool" where
  "item_ok x \<longleftrightarrow> str_strip (fst (fst x)) = fst (fst x) \<and> fst (fst x) \<noteq> [] \<and> str_strip (snd (fst x)) = snd (fst x) \<and>
     snd (fst x) \<noteq> [] \<and> snd x \<noteq> 0 \<and> \<bar>snd x\<bar> \<le> 10 ^ 15"

lemma restore_fold:
  assumes "distinct (map item_account xs)" and "\<forall>x \<in> set xs. item_account x \<notin> b_account_id ` set (balances db)"
  shows "foldE (restore_item stakes h sh ts) xs db = Inr (db\<lparr>balances := balances db @ map (restored_row ts) xs,
    ledger_entries := ledger_entries db @ concat (map (snapshot_entries stakes h sh ts) xs)\<rparr>)"
  using assms
proof (induction xs arbitrary: db)
  case (Cons x xs)
  have k: "b_account_id (restored_row ts y) = item_account y" for y by (simp add: restored_row_def item_account_def)
  have "tbl_find b_account_id (b_account_id (restored_row ts x)) (balances db) = None"
    using Cons.prems(2) by (simp add: tbl_find_None k)
  then have s: "restore_item stakes h sh ts x db = Inr (db\<lparr>balances := balances db @ [restored_row ts x],
      ledger_entries := ledger_entries db @ snapshot_entries stakes h sh ts x\<rparr>)"
    by (simp add: restore_item_def tbl_insert_def)
  show ?case using Cons.prems by (simp add: s, subst Cons.IH) (auto simp: k, metis imageI)
qed simp

lemma snapshot_entries_form:
  assumes "item_ok x" and "\<forall>a. 0 \<le> stakes a" and "e \<in> set (snapshot_entries stakes h sh ts x)"
  shows "\<exists>u after ty d. e = snapshot_entry (fst x) u after ty h sh d ts \<and> \<bar>u\<bar> \<le> 10 ^ 15"
proof -
  obtain k v where x: "x = (k, v)" by (rule prod.exhaust)
  have v: "\<bar>v\<bar> \<le> 10 ^ 15" using assms(1) by (simp add: item_ok_def x)
  have p: "0 \<le> stakes (fst k)" using assms(2) by blast
  then have b: "\<bar>min v (stakes (fst k))\<bar> \<le> 10 ^ 15" "\<bar>v - min v (stakes (fst k))\<bar> \<le> 10 ^ 15"
    using v by (auto simp: min_def)
  from assms(3) have "e \<in> set [snapshot_entry k v v ''snapshot_state_import'' h sh ''canonical snapshot state import'' ts,
      snapshot_entry k (min v (stakes (fst k))) (min v (stakes (fst k))) ''validator_stake_lock'' h sh
        ''canonical snapshot validator wallet stake import'' ts,
      snapshot_entry k (v - min v (stakes (fst k))) v ''snapshot_state_import'' h sh
        ''canonical snapshot validator state import'' ts]"
    unfolding snapshot_entries_def x prod.case Let_def by (simp only: set_append set_simps split: if_splits) blast+
  then show ?thesis using v b unfolding x by (simp only: set_simps insert_iff empty_iff fst_conv) blast
qed

lemma snapshot_entries_props:
  assumes "item_ok x" and "\<forall>a. 0 \<le> stakes a" and "e \<in> set (snapshot_entries stakes h sh ts x)"
  shows "entry_key e = fst x" and "le_block_height e = Some h" and "entry_units e = Inr (le_amount_units e)"
    and "le_account_id e = item_account x"
proof -
  obtain u after ty d where e: "e = snapshot_entry (fst x) u after ty h sh d ts" "\<bar>u\<bar> \<le> 10 ^ 15"
    using snapshot_entries_form [OF assms] by (elim exE conjE)
  have k: "known_type (snd (fst x)) (fst (fst x)) = snd (fst x)" using assms(1) by (simp add: item_ok_def known_type_def)
  show "entry_key e = fst x" "le_block_height e = Some h" "entry_units e = Inr (le_amount_units e)"
    "le_account_id e = item_account x"
    using k units_from_db_consistent [OF e(2)]
    by (simp_all add: e(1) snapshot_entry_def entry_key_def item_account_def entry_units_def)
qed

lemma snapshot_entries_sum: "(\<Sum>e\<leftarrow>snapshot_entries stakes h sh ts x. le_amount_units e) = snd x"
  by (cases x) (simp add: snapshot_entries_def snapshot_entry_def Let_def)

lemma snapshot_entries_Nil: "item_ok x \<Longrightarrow> snapshot_entries stakes h sh ts x \<noteq> []"
  by (cases x) (simp add: snapshot_entries_def Let_def item_ok_def)

lemma snapshot_entries_total:
  assumes "item_ok x" and "\<forall>a. 0 \<le> stakes a"
  shows "key_total k (snapshot_entries stakes h sh ts x) = (if k = fst x then snd x else 0)"
proof -
  note p = snapshot_entries_props [OF assms]
  have m: "map (\<lambda>e. if entry_key e = k then projr (entry_units e) else 0) (snapshot_entries stakes h sh ts x) =
      map (\<lambda>e. if k = fst x then le_amount_units e else 0) (snapshot_entries stakes h sh ts x)"
    by (rule map_cong) (auto simp: p)
  show ?thesis
    unfolding key_total_def m using snapshot_entries_sum [of stakes h sh ts x] by (cases "k = fst x") simp_all
qed

lemma item_val_Cons: "item_val k (x # xs) = (if k = fst x then snd x else item_val k xs)"
  by (cases x) (simp add: item_val_def)

lemma restored_total:
  assumes "list_all item_ok xs" and "\<forall>a. 0 \<le> stakes a" and "distinct (map fst xs)"
  shows "key_total k (concat (map (snapshot_entries stakes h sh ts) xs)) = item_val k xs"
  using assms(1,3)
proof (induction xs)
  case (Cons x xs)
  have n: "item_val (fst x) xs = 0"
    using Cons.prems(2) by (auto simp: item_val_def dest: map_of_SomeD split: option.split)
      (metis Some_eq_map_of_iff fst_conv image_eqI option.distinct(1) weak_map_of_SomeI)
  show ?case
    using Cons n by (simp add: snapshot_entries_total [OF _ assms(2)] item_val_Cons)
qed (simp add: key_total_def item_val_def)

lemma restored_keys:
  assumes "list_all item_ok xs" and "\<forall>a. 0 \<le> stakes a"
  shows "entry_key ` set (concat (map (snapshot_entries stakes h sh ts) xs)) = fst ` set xs"
proof -
  have "entry_key ` set (snapshot_entries stakes h sh ts x) = {fst x}" if "x \<in> set xs" for x
  proof -
    have ok: "item_ok x" using assms(1) that by (simp add: list_all_iff)
    have "\<forall>e \<in> set (snapshot_entries stakes h sh ts x). entry_key e = fst x"
      using snapshot_entries_props(1) [OF ok assms(2)] by blast
    moreover have "set (snapshot_entries stakes h sh ts x) \<noteq> {}" using snapshot_entries_Nil [OF ok] by simp
    ultimately show ?thesis by (simp cong: image_cong_simp add: image_constant_conv)
  qed
  then show ?thesis by (auto simp: image_UN)
qed

lemma sorted_items_fixed:
  fixes m :: "('k :: linorder \<times> int) list"
  assumes "distinct (map fst m)" and "sorted (map fst m)"
  shows "m = map (\<lambda>k. (k, item_val k m)) (sorted_list_of_set (fst ` set m))"
  using sorted_items [OF assms(1)] sorted_sort_id [of "map fst m"] assms(2) by (metis sort_key_id_if_sorted)

lemma distinct_accounts: "distinct (map item_account xs) \<Longrightarrow> distinct (map fst xs)"
proof -
  assume a: "distinct (map item_account xs)"
  have "map item_account xs = map fst (map fst xs)" by (simp add: item_account_def)
  with a have "distinct (map fst (map fst xs))" by (simp only:)
  then show ?thesis by (rule distinct_map [THEN iffD1, THEN conjunct1])
qed

text \<open>A restored node snapshots to exactly what it was restored from.\<close>

lemma restored_snapshot:
  assumes "list_all item_ok xs" and "\<forall>a. 0 \<le> stakes a" and "distinct (map item_account xs)" and "sorted (map fst xs)"
    and "ledger_entries db' = concat (map (snapshot_entries stakes h sh ts) xs)" and "0 \<le> h"
  shows "canonical_balance_snapshot h bt db' = Inr xs"
proof -
  let ?es = "ledger_entries db'"
  have d: "distinct (map fst xs)" by (rule distinct_accounts [OF assms(3)])
  have p: "covered h bt e" "\<exists>u. entry_units e = Inr u" if "e \<in> set ?es" for e
    using that assms(1) snapshot_entries_props(2,3) [OF _ assms(2)] unfolding assms(5)
    by (fastforce simp: list_all_iff covered_def)+
  then have f: "filter (covered h bt) ?es = ?es" by (simp add: filter_id_conv)
  have "canonical_balance_snapshot h bt db' = Inr (reference_snapshot ?es)"
    using snapshot_succeeds [OF assms(6), of bt db'] p(2) unfolding f by blast
  also have "reference_snapshot ?es = xs"
  proof -
    have t: "key_total k ?es = item_val k xs" for k unfolding assms(5) by (rule restored_total [OF assms(1,2) d])
    have k: "entry_key ` set ?es = fst ` set xs" unfolding assms(5) by (rule restored_keys [OF assms(1,2)])
    have "item_val (fst x) xs \<noteq> 0" if "x \<in> set xs" for x
      using that assms(1) map_of_is_SomeI [OF d, of "fst x" "snd x"] by (simp add: item_val_def item_ok_def list_all_iff)
    then have "{k \<in> fst ` set xs. item_val k xs \<noteq> 0} = fst ` set xs" by auto
    then show ?thesis
      unfolding reference_snapshot_def t k using sorted_items_fixed [OF d assms(4)] by simp
  qed
  finally show ?thesis .
qed

lemma restored_ledger_ok:
  assumes "list_all item_ok xs" and "\<forall>a. 0 \<le> stakes a" and "distinct (map item_account xs)"
    and "balances db' = map (restored_row ts) xs"
    and "ledger_entries db' = concat (map (snapshot_entries stakes h sh ts) xs)"
  shows "ledger_ok db'"
proof (rule ledger_okI)
  have k: "map b_account_id (map (restored_row ts) xs) = map item_account xs"
    by (simp add: restored_row_def item_account_def)
  show "distinct (map b_account_id (balances db'))" unfolding assms(4) k by (rule assms(3))
  show "list_all row_ok (balances db')"
    unfolding assms(4) by (simp add: list_all_iff row_ok_def restored_row_def)
  show "acct_units db' a = entry_sum a (ledger_entries db')" for a
  proof -
    have e: "entry_sum a (snapshot_entries stakes h sh ts x) = (if item_account x = a then snd x else 0)" if "item_ok x" for x
    proof -
      have m: "map (\<lambda>e. if le_account_id e = a then le_amount_units e else 0) (snapshot_entries stakes h sh ts x) =
          map (\<lambda>e. if item_account x = a then le_amount_units e else 0) (snapshot_entries stakes h sh ts x)"
        by (rule map_cong) (auto simp: snapshot_entries_props(4) [OF that assms(2)])
      show ?thesis
        unfolding entry_sum_def m using snapshot_entries_sum [of stakes h sh ts x] by (cases "item_account x = a") simp_all
    qed
    have "entry_sum a (concat (map (snapshot_entries stakes h sh ts) xs)) =
        (case find (\<lambda>x. item_account x = a) xs of None \<Rightarrow> 0 | Some x \<Rightarrow> snd x)"
      using assms(1,3)
    proof (induction xs)
      case (Cons x xs)
      have "find (\<lambda>y. item_account y = a) xs = None" if "item_account x = a"
        using Cons.prems(2) that by (simp add: find_None_iff) (metis imageI)
      then show ?case using Cons by (auto simp: e)
    qed (simp add: entry_sum_def)
    moreover have "find_balance a db' = map_option (restored_row ts) (find (\<lambda>x. item_account x = a) xs)"
      unfolding find_balance_def assms(4) tbl_find_def
      by (induction xs) (auto simp: restored_row_def item_account_def)
    ultimately show ?thesis
      by (simp add: acct_units_def assms(5) restored_row_def split: option.split)
  qed
qed

section \<open>Normalising a document\<close>

lemma item_units_of: "\<bar>snd x\<bar> \<le> 10 ^ 15 \<Longrightarrow> item_units (item_of x) = Inr (snd x)"
proof -
  assume b: "\<bar>snd x\<bar> \<le> 10 ^ 15"
  have "canonical_amount (snd x) \<noteq> []"
    using parse_canonical_amount [of "snd x"] by (auto simp: parse_decimal_def parse_unsigned_def)
  then show ?thesis using b by (simp add: item_units_def item_of_def units_from_db_def)
qed

lemma merge_item_of:
  assumes "item_ok x"
  shows "merge_item (item_of x) m = Inr (tbl_upsert item_account (\<lambda>(k, v). (k, v + snd x)) x m)"
proof -
  have u: "item_units (item_of x) = Inr (snd x)" by (rule item_units_of) (use assms in \<open>simp add: item_ok_def\<close>)
  have "item_type (item_of x) (fst (fst x)) = snd (fst x)"
    using assms by (simp add: item_type_def item_of_def known_type_def item_ok_def)
  moreover have "str_strip (bi_account_id (item_of x)) = fst (fst x)"
    using assms by (simp add: item_of_def item_ok_def)
  ultimately show ?thesis
    using assms by (simp add: merge_item_def u item_ok_def)
qed

text \<open>Merging keeps one item per account, and appends the items of new accounts.\<close>

lemma merge_items_fold:
  assumes "list_all item_ok xs" and "distinct (map item_account m)"
  shows "\<exists>m'. foldE merge_item (map item_of xs) m = Inr m' \<and> distinct (map item_account m') \<and>
    (distinct (map item_account (m @ xs)) \<longrightarrow> m' = m @ xs)"
  using assms
proof (induction xs arbitrary: m)
  case (Cons x xs)
  let ?m1 = "tbl_upsert item_account (\<lambda>(k, v). (k, v + snd x)) x m"
  have ok: "item_ok x" "list_all item_ok xs" using Cons.prems(1) by simp_all
  have d: "distinct (map item_account ?m1)"
    by (rule distinct_tbl_upsert [OF _ Cons.prems(2)]) (auto simp: item_account_def)
  have a: "?m1 = m @ [x]" if "distinct (map item_account (m @ x # xs))"
    using that by (auto simp: tbl_upsert_def tbl_find_None [THEN iffD2] split: option.split)
  obtain m' where m': "foldE merge_item (map item_of xs) ?m1 = Inr m'" "distinct (map item_account m')"
    "distinct (map item_account (?m1 @ xs)) \<longrightarrow> m' = ?m1 @ xs"
    using Cons.IH [OF ok(2) d] by (elim exE conjE)
  have "m' = m @ x # xs" if "distinct (map item_account (m @ x # xs))"
  proof -
    have e: "?m1 @ xs = m @ x # xs" using a [OF that] by simp
    show ?thesis using m'(3) that unfolding e by blast
  qed
  moreover have "foldE merge_item (map item_of (x # xs)) m = Inr m'" by (simp add: merge_item_of [OF ok(1)] m'(1))
  ultimately show ?case using m'(2) by blast
qed simp

text \<open>Merged items stay acceptable except for their size, so the bound is asked of the totals.\<close>

lemma snapshot_items_sorted: "sorted (map fst (snapshot_items m))"
  unfolding snapshot_items_def by (rule sorted_filter) (rule sorted_sort_key)

lemma snapshot_items_distinct: "distinct (map item_account m) \<Longrightarrow> distinct (map item_account (snapshot_items m))"
  unfolding snapshot_items_def
  by (rule distinct_map_filter) (metis distinct_map distinct_sort set_sort)

lemma snapshot_items_fixed:
  assumes "sorted (map fst xs)" and "list_all item_ok xs"
  shows "snapshot_items xs = xs"
proof -
  have "sort_key fst xs = xs" using assms(1) by (rule sort_key_id_if_sorted)
  then show ?thesis using assms(2) by (auto simp: snapshot_items_def list_all_iff item_ok_def filter_id_conv)
qed

lemma reference_sorted: "sorted (map fst (reference_snapshot es))" "distinct (map fst (reference_snapshot es))"
  by (simp_all add: reference_snapshot_def o_def)

lemma restore_result:
  assumes "restore_snapshot_balances stakes h sh t docs db0 = Inr db'"
  shows "\<exists>xs. normalize_snapshot_balances_with_type docs = Inr xs \<and> foldE (restore_item stakes h sh t) xs
    (db0\<lparr>ledger_entries := [], balances := []\<rparr>) = Inr db'"
  using assms by (auto simp: restore_snapshot_balances_def)

text \<open>Restoring writes each account under one type, whatever the document holds.\<close>

lemma merge_item_distinct:
  assumes "foldE merge_item is m = Inr m'" and "distinct (map item_account m)"
  shows "distinct (map item_account m')"
proof (rule foldE_invariant [where P = "\<lambda>s. distinct (map item_account s)" and f = merge_item, OF _ assms(2,1)])
  show "distinct (map item_account s')" if "distinct (map item_account s)" "merge_item i s = Inr s'" for i s s'
    using that by (auto simp: merge_item_def Let_def item_account_def split: if_splits intro!: distinct_tbl_upsert)
qed

lemma restored_entries:
  assumes "foldE (restore_item stakes h sh t) xs db = Inr db'"
  shows "ledger_entries db' = ledger_entries db @ concat (map (snapshot_entries stakes h sh t) xs)"
  using assms by (induction xs arbitrary: db) (auto simp: restore_item_def)

lemma snapshot_entries_key:
  assumes "e \<in> set (snapshot_entries stakes h sh ts x)"
  shows "entry_key e = (item_account x, known_type (snd (fst x)) (item_account x))"
  using assms by (auto simp: snapshot_entries_def snapshot_entry_def entry_key_def item_account_def Let_def
      split: prod.splits if_splits)

lemma restored_accounts_distinct:
  assumes "restore_snapshot_balances stakes h sh t docs db0 = Inr db'"
    and "canonical_balance_snapshot h' bt db' = Inr items"
  shows "distinct (map item_account items)"
proof -
  obtain xs m where m: "foldE merge_item docs [] = Inr m" "xs = snapshot_items m"
    and r: "foldE (restore_item stakes h sh t) xs (db0\<lparr>ledger_entries := [], balances := []\<rparr>) = Inr db'"
    using restore_result [OF assms(1)] by (auto simp: normalize_snapshot_balances_with_type_def)
  have d: "distinct (map item_account xs)"
    unfolding m(2) by (rule snapshot_items_distinct) (rule merge_item_distinct [OF m(1)], simp)
  let ?es = "filter (covered h' bt) (ledger_entries db')"
  have key: "\<exists>x \<in> set xs. entry_key e = (item_account x, known_type (snd (fst x)) (item_account x))" if "e \<in> set ?es" for e
  proof -
    have "e \<in> set (ledger_entries db')" using that by simp
    then obtain x where "x \<in> set xs" "e \<in> set (snapshot_entries stakes h sh t x)"
      unfolding restored_entries [OF r] by auto
    then show ?thesis using snapshot_entries_key by blast
  qed
  have inj: "inj_on fst (entry_key ` set ?es)"
  proof (rule inj_onI)
    fix p q assume "p \<in> entry_key ` set ?es" "q \<in> entry_key ` set ?es" and f: "fst p = fst q"
    then obtain x y where xy: "x \<in> set xs" "y \<in> set xs" "p = (item_account x, known_type (snd (fst x)) (item_account x))"
      "q = (item_account y, known_type (snd (fst y)) (item_account y))" using key by (elim imageE) (simp only:, blast)
    then have "x = y" using f d by (simp add: distinct_map inj_on_def)
    then show "p = q" using xy by simp
  qed
  have ks: "set (map fst items) \<subseteq> entry_key ` set ?es" and dk: "distinct (map fst items)"
    unfolding snapshot_reference(2) [OF assms(2)] by (auto simp: reference_snapshot_def o_def)
  have "distinct (map fst (map fst items))"
    using dk inj_on_subset [OF inj ks] by (simp only: distinct_map [of fst "map fst items"])
  moreover have "map item_account items = map fst (map fst items)" by (simp add: item_account_def)
  ultimately show ?thesis by (simp only:)
qed

section \<open>The guarantees\<close>

text \<open>C24: the balances a state root hashes are the reference definition: for every account and type
  the sum of its ledger entries up to the block, the non-zero ones in order. In particular two nodes
  that hold the same entries, written in any order, compute the same state root.\<close>

theorem state_root_reference:
  assumes "canonical_balance_snapshot h ts db = Inr items"
  shows "items = reference_snapshot (filter (covered h ts) (ledger_entries db)) \<and>
    (\<forall>db' H. mset (filter (covered h ts) (ledger_entries db')) = mset (filter (covered h ts) (ledger_entries db)) \<longrightarrow>
       calculate_state_root H h ts db' = calculate_state_root H h ts db)"
proof -
  note r = snapshot_reference [OF assms]
  have "canonical_balance_snapshot h ts db' = canonical_balance_snapshot h ts db"
    if p: "mset (filter (covered h ts) (ledger_entries db')) = mset (filter (covered h ts) (ledger_entries db))" for db'
  proof -
    have "set (filter (covered h ts) (ledger_entries db')) = set (filter (covered h ts) (ledger_entries db))"
      by (rule mset_eq_setD [OF p])
    then have "\<forall>e \<in> set (filter (covered h ts) (ledger_entries db')). \<exists>u. entry_units e = Inr u"
      using r(3) by (simp only:)
    from snapshot_succeeds [OF r(1) this] show ?thesis
      unfolding assms r(2) reference_perm [OF p] .
  qed
  then show ?thesis using r(2) root_of_snapshot by blast
qed

text \<open>C25: the ledger and the balances agree. Whatever postings were made since a ledger that was
  consistent (an empty one, say), the items of an account in a snapshot of the tip, one that covers
  every entry of the ledger, add up to the balance of the account. (A snapshot of an earlier block
  covers fewer entries and is not about the present balances.)\<close>

theorem snapshot_matches_balances:
  assumes "posted db0 db" and "consistent_books db0"
    and "canonical_balance_snapshot h ts db = Inr items" and "\<forall>e \<in> set (ledger_entries db). covered h ts e"
  shows "account_total a items = acct_units db a"
proof -
  have "consistent_books db" by (rule posted_consistent [OF assms(1,2)])
  then have c: "ledger_ok db" "list_all entry_consistent (ledger_entries db)"
    unfolding consistent_books_def by (rule conjunct1, rule conjunct2)
  show ?thesis by (rule snapshot_account_total [OF assms(3) c]) (use assms(4) in \<open>simp add: list_all_iff\<close>)
qed

text \<open>C26: restoring a snapshot whose accounts have one type each succeeds on any database and gives a
  sound ledger with the same snapshot and therefore the same state root, also at later times.\<close>

theorem snapshot_restore_roundtrip:
  assumes "canonical_balance_snapshot h ts db = Inr items" and "list_all item_ok items"
    and "distinct (map item_account items)" and "\<forall>a. 0 \<le> stakes a"
  shows "\<exists>db'. restore_snapshot_balances stakes h sh t (map item_of items) db0 = Inr db' \<and> ledger_ok db' \<and>
    canonical_balance_snapshot h bt db' = Inr items \<and>
    (\<forall>H. calculate_state_root H h bt db' = calculate_state_root H h ts db)"
proof -
  have o: "sorted (map fst items)" unfolding snapshot_reference(2) [OF assms(1)] by (rule reference_sorted)
  obtain m where m: "foldE merge_item (map item_of items) [] = Inr m" "m = items"
    using merge_items_fold [OF assms(2), of "[]"] assms(3) by auto
  have n: "normalize_snapshot_balances_with_type (map item_of items) = Inr items"
    unfolding normalize_snapshot_balances_with_type_def m by (simp add: snapshot_items_fixed [OF o assms(2)])
  let ?db' = "db0\<lparr>balances := map (restored_row t) items,
      ledger_entries := concat (map (snapshot_entries stakes h sh t) items)\<rparr>"
  have r: "restore_snapshot_balances stakes h sh t (map item_of items) db0 = Inr ?db'"
    unfolding restore_snapshot_balances_def n bindE_simps by (subst restore_fold [OF assms(3)]) simp_all
  have c: "canonical_balance_snapshot h bt ?db' = Inr items"
    by (rule restored_snapshot [OF assms(2,4,3) o _ snapshot_reference(1) [OF assms(1)]]) simp
  have l: "ledger_ok ?db'" by (rule restored_ledger_ok [OF assms(2,4,3)]) simp_all
  have "calculate_state_root H h bt ?db' = calculate_state_root H h ts db" for H
    using c assms(1) by (simp add: calculate_state_root_def balance_snapshot_def)
  with r c l show ?thesis by blast
qed

text \<open>A snapshot in which an account occurs with two types (the treasury wallet does once it holds
  a claim and a transfer) never restores to itself: the restored node has another snapshot, so it
  computes other state roots than its peers.\<close>

theorem snapshot_two_types_diverge:
  assumes "canonical_balance_snapshot h ts db = Inr items" and "\<not> distinct (map item_account items)"
    and "restore_snapshot_balances stakes h sh t (map item_of items) db0 = Inr db'"
  shows "canonical_balance_snapshot h bt db' \<noteq> Inr items"
  using restored_accounts_distinct [OF assms(3)] assms(2) by blast

section \<open>Examples\<close>

lemma example_snapshot:
  "canonical_balance_snapshot 1 (Some 0) (example_chain 5000000 x) = Inr [((alice, ''wallet''), 5000000)]"
proof -
  have e: "entry_units \<lparr>le_account_id = alice, le_account_type = ''wallet'', le_amount = units_to_float 5000000,
       le_amount_units = 5000000, le_balance_after = units_to_float 5000000, le_balance_after_units = 5000000,
       le_entry_type = ''faucet_credit'', le_block_height = None, le_related_id = None, le_description = None,
       le_created_at = 0\<rparr> = Inr 5000000" (is "entry_units ?e = _")
    unfolding entry_units_def ledger_entry.simps by (rule units_from_db_consistent) simp
  have l: "ledger_entries (example_chain 5000000 x) = [?e]" by (simp only: example_chain_def db_ledger.simps)
  have b: "block_entries 1 (example_chain 5000000 x) = []"
    unfolding block_entries_def l by (simp only: filter.simps ledger_entry.simps option.case if_False sort_key_simps)
  have "loose_entries 0 (example_chain 5000000 x) = [?e]"
    unfolding loose_entries_def l by (simp only: filter.simps ledger_entry.simps order_refl simp_thms if_True sort_key_simps insort_key.simps)
  moreover have "merge_entry ?e [] = Inr [((alice, ''wallet''), 5000000)]"
    unfolding merge_entry_def e by (simp only: bindE_simps entry_key_def ledger_entry.simps known_type_def)
      (simp add: add_units_def tbl_upsert_def)
  ultimately show ?thesis
    unfolding canonical_balance_snapshot_def b
    by (simp only: option.case foldE.simps bindE_simps) (simp add: snapshot_items_def)
qed

lemma example_item_ok: "list_all item_ok [((alice, ''wallet''), 5000000)]"
proof -
  have "str_strip alice = alice" "str_strip ''wallet'' = ''wallet''"
    by (simp_all add: str_strip_def alice_def is_space_def)
  then show ?thesis by (simp add: item_ok_def alice_def)
qed

text \<open>The treasury wallet of a small ledger: a claim and a transfer went to it.\<close>

definition typed_entry :: "string \<Rightarrow> int \<Rightarrow> ledger_entry" where
  "typed_entry ty u = \<lparr>le_account_id = alice, le_account_type = ty, le_amount = units_to_float u, le_amount_units = u,
     le_balance_after = units_to_float u, le_balance_after_units = u, le_entry_type = ''credit'', le_block_height = Some 1,
     le_related_id = None, le_description = None, le_created_at = 0\<rparr>"

definition two_types :: db_ledger where
  "two_types = \<lparr>balances = [], ledger_entries = [typed_entry ''wallet'' 5000000, typed_entry ''treasury_wallet'' 3000000]\<rparr>"

lemma typed_entry_simps [simp]:
  "ty \<noteq> [] \<Longrightarrow> entry_key (typed_entry ty u) = (alice, ty)" "le_block_height (typed_entry ty u) = Some 1"
  by (simp_all add: typed_entry_def entry_key_def known_type_def)

lemma typed_entry_units: "\<bar>u\<bar> \<le> 10 ^ 15 \<Longrightarrow> entry_units (typed_entry ty u) = Inr u"
  unfolding entry_units_def typed_entry_def ledger_entry.simps by (rule units_from_db_consistent)

lemma two_types_snapshot:
  "canonical_balance_snapshot 1 None two_types = Inr [((alice, ''treasury_wallet''), 3000000), ((alice, ''wallet''), 5000000)]"
proof -
  have "block_entries 1 two_types = [typed_entry ''wallet'' 5000000, typed_entry ''treasury_wallet'' 3000000]"
    by (simp add: block_entries_def two_types_def)
  then show ?thesis
    by (simp add: canonical_balance_snapshot_def typed_entry_units add_units_def tbl_upsert_def snapshot_items_def
        merge_entry_def)
qed

lemma two_types_restores:
  "\<exists>db'. restore_snapshot_balances (\<lambda>_. 0) 1 ''s'' 0
    (map item_of [((alice, ''treasury_wallet''), 3000000), ((alice, ''wallet''), 5000000)]) two_types = Inr db'"
proof -
  have t: "str_strip alice = alice" "str_strip ''wallet'' = ''wallet''" "str_strip ''treasury_wallet'' = ''treasury_wallet''"
    by (simp_all add: str_strip_def alice_def is_space_def)
  have ok: "item_ok ((alice, ''treasury_wallet''), 3000000)" "item_ok ((alice, ''wallet''), 5000000)"
    using t by (simp_all add: item_ok_def alice_def)
  have "normalize_snapshot_balances_with_type
      (map item_of [((alice, ''treasury_wallet''), 3000000), ((alice, ''wallet''), 5000000)]) =
      Inr [((alice, ''treasury_wallet''), 8000000)]"
    by (simp add: normalize_snapshot_balances_with_type_def merge_item_of ok tbl_upsert_def item_account_def snapshot_items_def)
  then show ?thesis
    unfolding restore_snapshot_balances_def by (simp only: bindE_simps) (subst restore_fold, simp_all)
qed

theorem state_root_reference_witness:
  "canonical_balance_snapshot 1 None two_types = Inr [((alice, ''treasury_wallet''), 3000000), ((alice, ''wallet''), 5000000)] \<and>
   calculate_state_root id 1 None (two_types\<lparr>ledger_entries := rev (ledger_entries two_types)\<rparr>) =
     calculate_state_root id 1 None two_types"
proof -
  have "mset (filter (covered 1 None) (ledger_entries (two_types\<lparr>ledger_entries := rev (ledger_entries two_types)\<rparr>))) =
      mset (filter (covered 1 None) (ledger_entries two_types))" by simp
  with state_root_reference [OF two_types_snapshot] two_types_snapshot show ?thesis by blast
qed

theorem snapshot_matches_balances_witness:
  "\<exists>db' items. apply_account_delta 7 (example_posting ''PIA'' 500) example_ledger = Inr db' \<and>
     canonical_balance_snapshot 1 None db' = Inr items \<and> account_total ''PIA'' items = 500"
proof -
  obtain db' where d: "apply_account_delta 7 (example_posting ''PIA'' 500) example_ledger = Inr db'"
    using tx_post.post_succeeds [of example_ledger "example_posting ''PIA'' 500" 500 7]
    by (auto simp: negative_def)
  have "to_units (FloatA (units_to_float 500)) = Inr 500" by simp
  then obtain e where e: "ledger_entries db' = [e]" "le_block_height e = Some 1" "le_amount e = units_to_float 500"
      "le_amount_units e = 500"
    using d by (auto simp: posting_writes example_posting_def example_ledger_def split: if_splits)
  have u: "entry_units e = Inr 500" unfolding entry_units_def e(3,4) by (rule units_from_db_consistent) simp
  have c: "\<forall>x \<in> set (ledger_entries db'). covered 1 None x" by (simp add: e(1,2) covered_def)
  have s: "\<exists>items. canonical_balance_snapshot 1 None db' = Inr items"
    by (rule exI, rule snapshot_succeeds) (simp_all add: e(1) u)
  then obtain items where i: "canonical_balance_snapshot 1 None db' = Inr items" ..
  have "consistent_books example_ledger" by (simp add: consistent_books_def example_ledger_def [THEN arg_cong [where f = ledger_entries]])
  from snapshot_matches_balances [OF posted_delta [OF posted_none d] this i c]
  have "account_total ''PIA'' items = acct_units db' ''PIA''" .
  moreover have "acct_units db' ''PIA'' = 500"
    using tx_post.post_amount(1) [OF _ d, of 500] by simp
  ultimately show ?thesis using d i by auto
qed

theorem snapshot_restore_roundtrip_witness:
  "\<exists>db'. restore_snapshot_balances (\<lambda>_. 0) 1 ''s'' 7 (map item_of [((alice, ''wallet''), 5000000)]) two_types = Inr db' \<and>
    canonical_balance_snapshot 1 (Some 9) db' = Inr [((alice, ''wallet''), 5000000)]"
proof -
  have d: "distinct (map item_account [((alice, ''wallet''), 5000000)])" by simp
  have "\<forall>a :: string. 0 \<le> (0 :: int)" by simp
  from snapshot_restore_roundtrip [OF example_snapshot [of "()"] example_item_ok d this, where sh = "''s''"
      and t = 7 and ?db0.0 = two_types and bt = "Some 9"]
  show ?thesis by (elim exE conjE) (rule exI, rule conjI)
qed

theorem snapshot_two_types_diverge_witness:
  "\<exists>db'. restore_snapshot_balances (\<lambda>_. 0) 1 ''s'' 0
     (map item_of [((alice, ''treasury_wallet''), 3000000), ((alice, ''wallet''), 5000000)]) two_types = Inr db' \<and>
   canonical_balance_snapshot 1 None db' \<noteq> canonical_balance_snapshot 1 None two_types"
proof -
  obtain db' where r: "restore_snapshot_balances (\<lambda>_. 0) 1 ''s'' 0
     (map item_of [((alice, ''treasury_wallet''), 3000000), ((alice, ''wallet''), 5000000)]) two_types = Inr db'"
    using two_types_restores by (elim exE) (rule that)
  have "\<not> distinct (map item_account [((alice, ''treasury_wallet''), 3000000), ((alice, ''wallet''), 5000000)])"
    by (simp add: item_account_def)
  from snapshot_two_types_diverge [OF two_types_snapshot this r] r show ?thesis
    unfolding two_types_snapshot by blast
qed

end
