(* ===== verification/Certificates.thy ===== *)
theory Certificates
  imports StateRoot
begin

text \<open>
  Finality certificates: built from the votes on a validation job (\<open>_create_finality_certificate\<close>
  in \<open>app/services/mining.py\<close>), signed payloads of \<open>app/core/signatures.py\<close>, and checked when a
  block is imported (\<open>_validate_finality_certificate_for_block\<close> in
  \<open>app/services/consensus.py\<close>). A certificate travels as JSON, so the check reads a \<open>json\<close> value
  the way Python reads a dictionary. The text columns \<open>payload_json\<close> and \<open>votes_json\<close> are kept
  as the values they denote. Ed25519 is the parameter \<open>V\<close>: key text, message, signature to the
  answer or an exception.

  Lemmas: a certificate built from enough correctly signed votes passes the check; so does one that
  anybody builds with a key of their own, because the check consults no validator table.
\<close>

section \<open>Signatures\<close>

definition KEY_PREFIX :: string where "KEY_PREFIX = ''ed25519:''"

definition verify_payload_signature ::
  "(string \<Rightarrow> string \<Rightarrow> string \<Rightarrow> bool result) \<Rightarrow> string \<Rightarrow> json \<Rightarrow> string \<Rightarrow> bool result" where
  "verify_payload_signature V public_key payload signature =
     (if \<not> starts_with KEY_PREFIX public_key then Inl (ValueError ''key must use ed25519:<base64url> format'')
      else V (drop (length KEY_PREFIX) public_key) (canonical_json payload) signature)"

definition build_validation_result_signature_payload ::
  "string \<Rightarrow> string \<Rightarrow> string \<Rightarrow> bool \<Rightarrow> string \<Rightarrow> string \<Rightarrow> json" where
  "build_validation_result_signature_payload job_id validator_id task_id approved reason signed_at =
     JObj [(''approved'', JBool approved), (''job_id'', JStr job_id), (''reason'', JStr reason),
       (''signed_at'', JStr signed_at), (''task_id'', JStr task_id), (''validator_id'', JStr validator_id)]"

section \<open>Reading JSON\<close>

text \<open>\<open>d.get(key)\<close>; what is no object raises an \<open>AttributeError\<close>, modelled as \<open>TypeError\<close>.\<close>

definition jget :: "string \<Rightarrow> json \<Rightarrow> json result" where
  "jget key j = (case j of JObj kvs \<Rightarrow> Inr (case map_of kvs key of None \<Rightarrow> JNull | Some v \<Rightarrow> v) | _ \<Rightarrow> Inl TypeError)"

fun jtruthy :: "json \<Rightarrow> bool" where
  "jtruthy JNull = False"
| "jtruthy (JBool b) = b"
| "jtruthy (JInt i) = (i \<noteq> 0)"
| "jtruthy (JFloat x) = (x \<noteq> 0)"
| "jtruthy (JStr s) = (s \<noteq> [])"
| "jtruthy (JList xs) = (xs \<noteq> [])"
| "jtruthy (JObj kvs) = (kvs \<noteq> [])"

text \<open>\<open>d.get(key) or {}\<close>, \<open>d.get(key) or []\<close> and \<open>int(d.get(key) or 0)\<close>.\<close>

definition jget_obj :: "string \<Rightarrow> json \<Rightarrow> json result" where
  "jget_obj key j = bindE (jget key j) (\<lambda>v. Inr (if jtruthy v then v else JObj []))"

definition jget_list :: "string \<Rightarrow> json \<Rightarrow> json result" where
  "jget_list key j = bindE (jget key j) (\<lambda>v. Inr (if jtruthy v then v else JList []))"

text \<open>
  \<open>int(text)\<close>: an optional sign, then digits, with single underscores allowed between them.
\<close>

fun digit_groups :: "string \<Rightarrow> bool" where
  "digit_groups [] = False"
| "digit_groups [c] = is_digit c"
| "digit_groups (c # d # cs) = (is_digit c \<and> (if d = CHR ''_'' then digit_groups cs else digit_groups (d # cs)))"

definition unsigned_text :: "string \<Rightarrow> int result" where
  "unsigned_text t = (if digit_groups t then Inr (int (digits_val 0 (filter is_digit t)))
     else Inl (ValueError ''invalid literal for int()''))"

definition int_of_text :: "string \<Rightarrow> int result" where
  "int_of_text s = (case str_strip s of
       [] \<Rightarrow> unsigned_text []
     | c # t \<Rightarrow> if c = CHR ''+'' then unsigned_text t
         else if c = CHR ''-'' then bindE (unsigned_text t) (\<lambda>n. Inr (- n))
         else unsigned_text (c # t))"

definition jnumber :: "json \<Rightarrow> int result" where
  "jnumber v = (case v of
     JInt i \<Rightarrow> Inr i
   | JBool b \<Rightarrow> Inr (if b then 1 else 0)
   | JFloat x \<Rightarrow> Inr (if x < 0 then \<lceil>x\<rceil> else \<lfloor>x\<rfloor>)
   | JStr s \<Rightarrow> int_of_text s
   | _ \<Rightarrow> Inl TypeError)"

definition jint :: "json \<Rightarrow> int result" where
  "jint v = (if jtruthy v then jnumber v else Inr 0)"

definition jget_int :: "string \<Rightarrow> json \<Rightarrow> int result" where
  "jget_int key j = bindE (jget key j) jint"

definition jis_obj :: "json \<Rightarrow> bool" where
  "jis_obj j = (case j of JObj _ \<Rightarrow> True | _ \<Rightarrow> False)"

definition jlist_of :: "json \<Rightarrow> json list option" where
  "jlist_of j = (case j of JList xs \<Rightarrow> Some xs | _ \<Rightarrow> None)"

text \<open>A text argument of the signature check; anything but a text raises.\<close>

definition jtext :: "json \<Rightarrow> string result" where
  "jtext j = (case j of JStr s \<Rightarrow> Inr s | _ \<Rightarrow> Inl TypeError)"

section \<open>Building a certificate\<close>

record validation_job =
  vj_job_id :: string
  vj_task_id :: string
  vj_miner_id :: string
  vj_result_hash :: string
  vj_merkle_root :: string
  vj_challenge_seed :: string
  vj_samples :: "json list"
  vj_tx_merkle_root :: string
  vj_selected_tx_hashes_hash :: "string option"
  vj_tx_count :: int
  vj_tx_fee_total_units :: int
  vj_status :: string
  vj_created_at :: string
  vj_completed_at :: "string option"
  vj_mempool_snapshot_id :: "string option"
  vj_tx_hashes :: "string list"
  vj_transactions :: "tx list"
  vj_assigned_validator_id :: "string option"
  vj_assigned_at :: "string option"
  vj_assignment_failures :: int
  vj_blocking_reason :: "string option"
  vj_result_reason :: "string option"
  vj_validator_signature :: "string option"
  vj_validation_ms :: "int option"
  vj_job_created_at :: "string option"
  vj_first_vote_at :: "string option"
  vj_second_vote_at :: "string option"
  vj_quorum_reached_at :: "string option"
  vj_finalized_at :: "string option"
  vj_waiting_for_first_vote_ms :: "int option"
  vj_waiting_for_quorum_ms :: "int option"
  vj_finalization_ms :: "int option"

record validation_vote =
  vv_job_id :: string
  vv_task_id :: string
  vv_validator_id :: string
  vv_approved :: bool
  vv_reason :: string
  vv_signature :: string
  vv_signed_at :: string
  vv_validation_ms :: "int option"
  vv_submit_result_latency_ms :: "int option"
  vv_created_at :: string

record certificate_row =
  ct_block_height :: int
  ct_block_hash :: string
  ct_task_id :: string
  ct_job_id :: string
  ct_miner_id :: string
  ct_network_id :: string
  ct_chain_id :: string
  ct_protocol_version :: string
  ct_protocol_params_id :: "int option"
  ct_required_approvals :: int
  ct_approval_count :: int
  ct_certificate_hash :: string
  ct_payload :: json
  ct_votes :: "json list"
  ct_created_at :: string

text \<open>The fields of a block a certificate names or stores.\<close>

record certified_block =
  cb_height :: int
  cb_block_hash :: string
  cb_previous_hash :: string
  cb_state_root :: "string option"
  cb_miner_id :: string
  cb_result_hash :: string
  cb_merkle_root :: "string option"
  cb_tx_merkle_root :: "string option"
  cb_tx_count :: int
  cb_protocol_version :: string
  cb_protocol_params_id :: "int option"

record db_certificates = db_mempool +
  validation_jobs :: "validation_job list"
  validation_votes :: "validation_vote list"
  finality_certificates :: "certificate_row list"

definition jopt_str :: "string option \<Rightarrow> json" where
  "jopt_str x = (case x of None \<Rightarrow> JNull | Some s \<Rightarrow> JStr s)"

definition jopt_int :: "int option \<Rightarrow> json" where
  "jopt_int x = (case x of None \<Rightarrow> JNull | Some i \<Rightarrow> JInt i)"

definition jchain :: "chain_id \<Rightarrow> json" where
  "jchain c = (case c of ChainStr s \<Rightarrow> JStr s | ChainInt i \<Rightarrow> JInt i)"

text \<open>One vote of the certificate, joined with the validator's row.\<close>

definition certificate_vote :: "'a db_chain_scheme \<Rightarrow> validation_vote \<Rightarrow> json" where
  "certificate_vote db v =
     (let val = find_validator (vv_validator_id v) db in
      JObj [(''validator_id'', JStr (vv_validator_id v)),
        (''validator_name'', jopt_str (map_option v_name val)),
        (''validator_public_key'', jopt_str (map_option v_public_key val)),
        (''validator_reward_address'', jopt_str (Option.bind val v_reward_address)),
        (''approved'', JBool True), (''reason'', JStr (vv_reason v)), (''signature'', JStr (vv_signature v)),
        (''signed_at'', JStr (vv_signed_at v)),
        (''signature_payload'', build_validation_result_signature_payload (vv_job_id v) (vv_validator_id v)
           (vv_task_id v) True (vv_reason v) (vv_signed_at v)),
        (''validation_ms'', jopt_int (vv_validation_ms v)),
        (''submit_result_latency_ms'', jopt_int (vv_submit_result_latency_ms v)),
        (''voted_at'', JStr (vv_created_at v))])"

text \<open>\<open>ORDER BY created_at ASC, validator_id ASC\<close>.\<close>

definition approving_votes :: "string \<Rightarrow> 'a db_certificates_scheme \<Rightarrow> validation_vote list" where
  "approving_votes job_id db = sort_key vv_created_at (sort_key vv_validator_id
     (filter (\<lambda>v. vv_job_id v = job_id \<and> vv_approved v) (validation_votes db)))"

definition certificate_block :: "certified_block \<Rightarrow> validation_job \<Rightarrow> (string \<times> json) list" where
  "certificate_block b job =
     [(''height'', JInt (cb_height b)), (''block_hash'', JStr (cb_block_hash b)),
      (''previous_hash'', JStr (cb_previous_hash b)), (''state_root'', jopt_str (cb_state_root b)),
      (''miner_id'', JStr (cb_miner_id b)), (''task_id'', JStr (vj_task_id job)),
      (''result_hash'', JStr (cb_result_hash b)), (''merkle_root'', jopt_str (cb_merkle_root b)),
      (''tx_merkle_root'', jopt_str (cb_tx_merkle_root b)), (''tx_count'', JInt (cb_tx_count b)),
      (''tx_fee_total_units'', JInt (vj_tx_fee_total_units job)),
      (''selected_tx_hashes_hash'', jopt_str (vj_selected_tx_hashes_hash job))]"

definition certificate_validation :: "validation_job \<Rightarrow> int \<Rightarrow> int \<Rightarrow> (string \<times> json) list" where
  "certificate_validation job required approval_count =
     [(''job_id'', JStr (vj_job_id job)), (''challenge_seed'', JStr (vj_challenge_seed job)),
      (''sample_count'', JInt (int (length (vj_samples job)))), (''required_approvals'', JInt required),
      (''approval_count'', JInt approval_count), (''status'', JStr ''approved'')]"

definition certificate_payload ::
  "node_env \<Rightarrow> certified_block \<Rightarrow> validation_job \<Rightarrow> int \<Rightarrow> int \<Rightarrow> (string \<times> json) list" where
  "certificate_payload E b job required approval_count =
     [(''version'', JStr ''picoin-finality-v1''), (''network_id'', JStr (NETWORK_ID E)), (''chain_id'', jchain (CHAIN_ID E)),
      (''protocol_version'', JStr (cb_protocol_version b)), (''protocol_params_id'', jopt_int (cb_protocol_params_id b)),
      (''block'', JObj (certificate_block b job)),
      (''validation'', JObj (certificate_validation job required approval_count))]"

definition certificate_digest :: "(string \<Rightarrow> string) \<Rightarrow> json \<Rightarrow> json \<Rightarrow> string" where
  "certificate_digest H payload votes = H (canonical_json (JObj [(''payload'', payload), (''votes'', votes)]))"

text \<open>\<open>str(CHAIN_ID)\<close> is stored; the payload's own value is read back.\<close>

definition payload_chain_id :: "certificate_row \<Rightarrow> json" where
  "payload_chain_id r = (case ct_payload r of
     JObj kvs \<Rightarrow> (case map_of kvs ''chain_id'' of Some v \<Rightarrow> v | None \<Rightarrow> JStr (ct_chain_id r))
   | _ \<Rightarrow> JStr (ct_chain_id r))"

text \<open>\<open>_decode_finality_certificate\<close>: the dictionary a block carries.\<close>

definition decode_finality_certificate :: "certificate_row \<Rightarrow> json" where
  "decode_finality_certificate r =
     JObj [(''block_height'', JInt (ct_block_height r)), (''block_hash'', JStr (ct_block_hash r)),
       (''task_id'', JStr (ct_task_id r)), (''job_id'', JStr (ct_job_id r)), (''miner_id'', JStr (ct_miner_id r)),
       (''network_id'', JStr (ct_network_id r)), (''chain_id'', payload_chain_id r),
       (''protocol_version'', JStr (ct_protocol_version r)), (''protocol_params_id'', jopt_int (ct_protocol_params_id r)),
       (''required_approvals'', JInt (ct_required_approvals r)), (''approval_count'', JInt (ct_approval_count r)),
       (''certificate_hash'', JStr (ct_certificate_hash r)), (''payload'', ct_payload r),
       (''votes'', JList (ct_votes r)), (''created_at'', JStr (ct_created_at r))]"

text \<open>The UNIQUE columns of \<open>finality_certificates\<close>.\<close>

definition insert_certificate :: "certificate_row \<Rightarrow> 'a db_certificates_scheme \<Rightarrow> 'a db_certificates_scheme result" where
  "insert_certificate r db =
     (let rows = finality_certificates db in
      if ct_block_height r \<in> ct_block_height ` set rows \<or> ct_block_hash r \<in> ct_block_hash ` set rows \<or>
         ct_task_id r \<in> ct_task_id ` set rows \<or> ct_job_id r \<in> ct_job_id ` set rows \<or>
         ct_certificate_hash r \<in> ct_certificate_hash ` set rows
      then Inl (IntegrityError ''finality_certificates'')
      else Inr (db\<lparr>finality_certificates := rows @ [r]\<rparr>))"

definition new_certificate ::
  "node_env \<Rightarrow> certified_block \<Rightarrow> validation_job \<Rightarrow> int \<Rightarrow> json list \<Rightarrow> string \<Rightarrow> certificate_row" where
  "new_certificate E b job required votes created_at =
     (let payload = JObj (certificate_payload E b job required (int (length votes))) in
      \<lparr>ct_block_height = cb_height b, ct_block_hash = cb_block_hash b, ct_task_id = vj_task_id job,
       ct_job_id = vj_job_id job, ct_miner_id = cb_miner_id b, ct_network_id = NETWORK_ID E, ct_chain_id = chain_text (CHAIN_ID E),
       ct_protocol_version = cb_protocol_version b, ct_protocol_params_id = cb_protocol_params_id b,
       ct_required_approvals = required, ct_approval_count = int (length votes),
       ct_certificate_hash = certificate_digest (sha256_text (ne_crypto E)) payload (JList votes),
       ct_payload = payload, ct_votes = votes, ct_created_at = created_at\<rparr>)"

text \<open>\<open>MiningError\<close> is \<open>ConsensusError\<close> here: both carry a status code and a text.\<close>

definition create_finality_certificate ::
  "node_env \<Rightarrow> certified_block \<Rightarrow> string \<Rightarrow> int \<Rightarrow> string \<Rightarrow> 'a db_certificates_scheme \<Rightarrow>
   (json \<times> 'a db_certificates_scheme) result" where
  "create_finality_certificate E b job_id required created_at db =
     (case List.find (\<lambda>r. ct_block_height r = cb_height b \<or> ct_job_id r = job_id) (finality_certificates db) of
        Some r \<Rightarrow> Inr (decode_finality_certificate r, db)
      | None \<Rightarrow> (case tbl_find vj_job_id job_id (validation_jobs db) of
          None \<Rightarrow> Inl (ConsensusError 500 ''validation job not found while creating finality certificate'')
        | Some job \<Rightarrow>
          let votes = map (certificate_vote db) (approving_votes job_id db) in
          if int (length votes) < required
          then Inl (ConsensusError 500 ''not enough validator approvals to create finality certificate'')
          else
            let r = new_certificate E b job required votes created_at in
            bindE (insert_certificate r db) (\<lambda>db1. Inr (decode_finality_certificate r, db1))))"

section \<open>Checking a certificate\<close>

definition certificate_error :: "string \<Rightarrow> unit result" where
  "certificate_error detail = Inl (ConsensusError 422 detail)"

definition finality_certificate_hash :: "(string \<Rightarrow> string) \<Rightarrow> json \<Rightarrow> string result" where
  "finality_certificate_hash H c =
     bindE (jget_obj ''payload'' c) (\<lambda>payload. bindE (jget_list ''votes'' c) (\<lambda>votes.
     Inr (certificate_digest H payload votes)))"

text \<open>\<open>if d.get(key) != x: raise ConsensusError(422, detail)\<close>.\<close>

definition require_value :: "string \<Rightarrow> json \<Rightarrow> json \<Rightarrow> string \<Rightarrow> unit result" where
  "require_value key d x detail = bindE (jget key d) (\<lambda>v. if v = x then Inr () else certificate_error detail)"

definition require_number :: "string \<Rightarrow> json \<Rightarrow> int \<Rightarrow> string \<Rightarrow> unit result" where
  "require_number key d x detail = bindE (jget_int key d) (\<lambda>v. if v = x then Inr () else certificate_error detail)"

text \<open>The two conditions of the loop over the votes.\<close>

definition check_vote_payload :: "json \<Rightarrow> string \<Rightarrow> json \<Rightarrow> json \<Rightarrow> unit result" where
  "check_vote_payload job_id task_id vote signature_payload =
     (let mismatch = ''finality certificate vote payload mismatch'' in
      bindE (jget ''approved'' vote) (\<lambda>approved.
      if \<not> jtruthy approved then certificate_error mismatch
      else bindE (require_value ''job_id'' signature_payload job_id mismatch) (\<lambda>_.
      bindE (require_value ''task_id'' signature_payload (JStr task_id) mismatch) (\<lambda>_.
      bindE (jget ''validator_id'' vote) (\<lambda>validator_id.
      require_value ''validator_id'' signature_payload validator_id mismatch)))))"

definition check_vote_signature ::
  "(string \<Rightarrow> string \<Rightarrow> string \<Rightarrow> bool result) \<Rightarrow> json \<Rightarrow> json \<Rightarrow> unit result" where
  "check_vote_signature V vote signature_payload =
     (let invalid = ''finality certificate vote signature invalid'' in
      bindE (jget ''validator_public_key'' vote) (\<lambda>public_key.
      bindE (jget ''signature'' vote) (\<lambda>signature.
      if \<not> jtruthy public_key \<or> \<not> jtruthy signature then certificate_error invalid
      else bindE (jtext public_key) (\<lambda>pk.
      bindE (jtext signature) (\<lambda>sg.
      bindE (verify_payload_signature V pk signature_payload sg) (\<lambda>ok.
      if ok then Inr () else certificate_error invalid))))))"

definition check_certificate_vote ::
  "(string \<Rightarrow> string \<Rightarrow> string \<Rightarrow> bool result) \<Rightarrow> json \<Rightarrow> string \<Rightarrow> json \<Rightarrow> unit \<Rightarrow> unit result" where
  "check_certificate_vote V job_id task_id vote u =
     (if \<not> jis_obj vote then certificate_error ''invalid finality certificate vote''
      else bindE (jget_obj ''signature_payload'' vote) (\<lambda>signature_payload.
      bindE (check_vote_payload job_id task_id vote signature_payload) (\<lambda>_.
      check_vote_signature V vote signature_payload)))"

text \<open>The checks in front of the loop, in their order.\<close>

definition check_certificate_header ::
  "(string \<Rightarrow> string) \<Rightarrow> certified_block \<Rightarrow> string \<Rightarrow> json \<Rightarrow> json \<Rightarrow> json \<Rightarrow> unit result" where
  "check_certificate_header H b task_id c block_payload validation =
     bindE (require_number ''block_height'' c (cb_height b) ''finality certificate height mismatch'') (\<lambda>_.
     bindE (require_value ''block_hash'' c (JStr (cb_block_hash b)) ''finality certificate block hash mismatch'') (\<lambda>_.
     bindE (require_value ''block_hash'' block_payload (JStr (cb_block_hash b)) ''finality certificate block hash mismatch'') (\<lambda>_.
     bindE (require_value ''task_id'' c (JStr task_id) ''finality certificate task mismatch'') (\<lambda>_.
     bindE (require_value ''task_id'' block_payload (JStr task_id) ''finality certificate task mismatch'') (\<lambda>_.
     bindE (jget ''job_id'' validation) (\<lambda>job_id.
     bindE (require_value ''job_id'' c job_id ''finality certificate job mismatch'') (\<lambda>_.
     bindE (require_value ''miner_id'' c (JStr (cb_miner_id b)) ''finality certificate miner mismatch'') (\<lambda>_.
     bindE (finality_certificate_hash H c) (\<lambda>computed.
     require_value ''certificate_hash'' c (JStr computed) ''finality certificate hash mismatch'')))))))))"

definition check_certificate_counts :: "json \<Rightarrow> json \<Rightarrow> json list \<Rightarrow> unit result" where
  "check_certificate_counts c validation votes =
     bindE (jget_int ''required_approvals'' c) (\<lambda>required.
     bindE (jget_int ''approval_count'' c) (\<lambda>approval_count.
     if required \<le> 0 \<or> approval_count < required \<or> int (length votes) < required
     then certificate_error ''finality certificate does not contain quorum approvals''
     else
       bindE (require_number ''required_approvals'' validation required
         ''finality certificate required approval mismatch'') (\<lambda>_.
       require_number ''approval_count'' validation approval_count
         ''finality certificate approval count mismatch'')))"

definition check_certificate ::
  "(string \<Rightarrow> string) \<Rightarrow> (string \<Rightarrow> string \<Rightarrow> string \<Rightarrow> bool result) \<Rightarrow> certified_block \<Rightarrow> string \<Rightarrow> json \<Rightarrow>
   json \<Rightarrow> json list \<Rightarrow> unit result" where
  "check_certificate H V b task_id c payload votes =
     bindE (jget_obj ''block'' payload) (\<lambda>block_payload.
     bindE (jget_obj ''validation'' payload) (\<lambda>validation.
     bindE (check_certificate_header H b task_id c block_payload validation) (\<lambda>_.
     bindE (check_certificate_counts c validation votes) (\<lambda>_.
     bindE (jget ''job_id'' c) (\<lambda>job_id.
     foldE (check_certificate_vote V job_id task_id) votes ())))))"

definition validate_finality_certificate_for_block ::
  "(string \<Rightarrow> string) \<Rightarrow> (string \<Rightarrow> string \<Rightarrow> string \<Rightarrow> bool result) \<Rightarrow> certified_block \<Rightarrow> json option \<Rightarrow> string \<Rightarrow> unit result" where
  "validate_finality_certificate_for_block H V b certificate task_id =
     (case certificate of
        None \<Rightarrow> Inr ()
      | Some JNull \<Rightarrow> Inr ()
      | Some c \<Rightarrow>
        if \<not> jis_obj c then certificate_error ''invalid finality_certificate''
        else bindE (jget_obj ''payload'' c) (\<lambda>payload.
          bindE (jget_list ''votes'' c) (\<lambda>votes_json.
          case jlist_of votes_json of
            None \<Rightarrow> certificate_error ''invalid finality certificate payload''
          | Some votes \<Rightarrow>
            if \<not> jis_obj payload then certificate_error ''invalid finality certificate payload''
            else check_certificate H V b task_id c payload votes)))"

section \<open>Storing a certificate\<close>

text \<open>\<open>c[key]\<close>, and \<open>str(c.get(key))\<close> on texts, integers and \<open>None\<close>.\<close>

definition jitem :: "string \<Rightarrow> json \<Rightarrow> json result" where
  "jitem key j = (case j of
     JObj kvs \<Rightarrow> (case map_of kvs key of None \<Rightarrow> Inl (KeyError key) | Some v \<Rightarrow> Inr v) | _ \<Rightarrow> Inl TypeError)"

definition text_item :: "string \<Rightarrow> json \<Rightarrow> string result" where
  "text_item key j = bindE (jitem key j) jtext"

definition int_item :: "string \<Rightarrow> json \<Rightarrow> int result" where
  "int_item key j = bindE (jitem key j) jnumber"

definition jstr :: "json \<Rightarrow> string result" where
  "jstr j = (case j of JStr s \<Rightarrow> Inr s | JInt i \<Rightarrow> Inr (show_int i) | JNull \<Rightarrow> Inr ''None'' | _ \<Rightarrow> Inl TypeError)"

definition text_or_empty :: "string \<Rightarrow> json \<Rightarrow> string result" where
  "text_or_empty key j = bindE (jget key j) (\<lambda>v. if jtruthy v then jtext v else Inr [])"

definition opt_text :: "json \<Rightarrow> string option result" where
  "opt_text v = (case v of JNull \<Rightarrow> Inr None | JStr s \<Rightarrow> Inr (Some s) | _ \<Rightarrow> Inl TypeError)"

definition opt_number :: "json \<Rightarrow> int option result" where
  "opt_number v = (case v of JNull \<Rightarrow> Inr None | JInt i \<Rightarrow> Inr (Some i) | _ \<Rightarrow> Inl TypeError)"

definition opt_or_empty :: "string option \<Rightarrow> string" where
  "opt_or_empty x = (case x of None \<Rightarrow> [] | Some s \<Rightarrow> s)"

text \<open>The approved job that stands in for the one the certificate was made from; \<open>task_id\<close> is UNIQUE.\<close>

definition certificate_job ::
  "certified_block \<Rightarrow> json list \<Rightarrow> string \<Rightarrow> string \<Rightarrow> json \<Rightarrow> json \<Rightarrow> json \<Rightarrow> validation_job result" where
  "certificate_job b samples task_id job_id c block_payload validation =
     bindE (text_item ''miner_id'' c) (\<lambda>miner_id.
     bindE (text_or_empty ''challenge_seed'' validation) (\<lambda>challenge_seed.
     bindE (bindE (jget ''selected_tx_hashes_hash'' block_payload) opt_text) (\<lambda>selected.
     bindE (jget_int ''tx_fee_total_units'' block_payload) (\<lambda>fees.
     bindE (text_item ''created_at'' c) (\<lambda>created_at.
     Inr \<lparr>vj_job_id = job_id, vj_task_id = task_id, vj_miner_id = miner_id, vj_result_hash = cb_result_hash b,
       vj_merkle_root = opt_or_empty (cb_merkle_root b), vj_challenge_seed = challenge_seed, vj_samples = samples,
       vj_tx_merkle_root = opt_or_empty (cb_tx_merkle_root b), vj_selected_tx_hashes_hash = selected,
       vj_tx_count = cb_tx_count b, vj_tx_fee_total_units = fees, vj_status = ''approved'',
       vj_created_at = created_at, vj_completed_at = Some created_at,
       vj_mempool_snapshot_id = None, vj_tx_hashes = [], vj_transactions = [], vj_assigned_validator_id = None,
       vj_assigned_at = None, vj_assignment_failures = 0, vj_blocking_reason = None, vj_result_reason = None,
       vj_validator_signature = None, vj_validation_ms = None, vj_job_created_at = None, vj_first_vote_at = None,
       vj_second_vote_at = None, vj_quorum_reached_at = None, vj_finalized_at = None,
       vj_waiting_for_first_vote_ms = None, vj_waiting_for_quorum_ms = None, vj_finalization_ms = None\<rparr>)))))"

definition ensure_certificate_job ::
  "certified_block \<Rightarrow> json list \<Rightarrow> string \<Rightarrow> string \<Rightarrow> json \<Rightarrow> json \<Rightarrow> json \<Rightarrow> 'a db_certificates_scheme \<Rightarrow>
   'a db_certificates_scheme result" where
  "ensure_certificate_job b samples task_id job_id c block_payload validation db =
     (case tbl_find vj_job_id job_id (validation_jobs db) of
        Some _ \<Rightarrow> Inr db
      | None \<Rightarrow> bindE (certificate_job b samples task_id job_id c block_payload validation) (\<lambda>job.
          if task_id \<in> vj_task_id ` set (validation_jobs db) then Inl (IntegrityError ''validation_jobs.task_id'')
          else Inr (db\<lparr>validation_jobs := validation_jobs db @ [job]\<rparr>)))"

definition received_certificate :: "string \<Rightarrow> json \<Rightarrow> json \<Rightarrow> json list \<Rightarrow> certificate_row result" where
  "received_certificate task_id c payload votes =
     bindE (int_item ''block_height'' c) (\<lambda>height. bindE (text_item ''block_hash'' c) (\<lambda>block_hash.
     bindE (text_item ''job_id'' c) (\<lambda>job_id. bindE (text_item ''miner_id'' c) (\<lambda>miner_id.
     bindE (text_item ''network_id'' c) (\<lambda>network_id. bindE (bindE (jget ''chain_id'' c) jstr) (\<lambda>chain_id.
     bindE (text_item ''protocol_version'' c) (\<lambda>protocol_version.
     bindE (bindE (jget ''protocol_params_id'' c) opt_number) (\<lambda>params_id.
     bindE (int_item ''required_approvals'' c) (\<lambda>required. bindE (int_item ''approval_count'' c) (\<lambda>approvals.
     bindE (text_item ''certificate_hash'' c) (\<lambda>hash. bindE (text_item ''created_at'' c) (\<lambda>created_at.
     Inr \<lparr>ct_block_height = height, ct_block_hash = block_hash, ct_task_id = task_id, ct_job_id = job_id,
       ct_miner_id = miner_id, ct_network_id = network_id, ct_chain_id = chain_id,
       ct_protocol_version = protocol_version, ct_protocol_params_id = params_id, ct_required_approvals = required,
       ct_approval_count = approvals, ct_certificate_hash = hash, ct_payload = payload, ct_votes = votes,
       ct_created_at = created_at\<rparr>))))))))))))"

text \<open>\<open>ON CONFLICT(block_height) DO UPDATE\<close> of every other column; a clash with another row in one of
  the other UNIQUE columns is an error.\<close>

definition upsert_certificate :: "certificate_row \<Rightarrow> 'a db_certificates_scheme \<Rightarrow> 'a db_certificates_scheme result" where
  "upsert_certificate r db =
     (let others = filter (\<lambda>x. ct_block_height x \<noteq> ct_block_height r) (finality_certificates db) in
      if ct_block_hash r \<in> ct_block_hash ` set others \<or> ct_task_id r \<in> ct_task_id ` set others \<or>
         ct_job_id r \<in> ct_job_id ` set others \<or> ct_certificate_hash r \<in> ct_certificate_hash ` set others
      then Inl (IntegrityError ''finality_certificates'')
      else Inr (db\<lparr>finality_certificates := tbl_upsert ct_block_height (\<lambda>_. r) r (finality_certificates db)\<rparr>))"

definition store_certificate_document ::
  "certified_block \<Rightarrow> json list \<Rightarrow> string \<Rightarrow> json \<Rightarrow> json \<Rightarrow> json list \<Rightarrow> 'a db_certificates_scheme \<Rightarrow>
   'a db_certificates_scheme result" where
  "store_certificate_document b samples task_id c payload votes db =
     bindE (jget_obj ''validation'' payload) (\<lambda>validation. bindE (jget_obj ''block'' payload) (\<lambda>block_payload.
     bindE (bindE (jitem ''job_id'' c) jstr) (\<lambda>job_id.
     bindE (ensure_certificate_job b samples task_id job_id c block_payload validation db) (\<lambda>db1.
     bindE (received_certificate task_id c payload votes) (\<lambda>r. upsert_certificate r db1)))))"

definition store_finality_certificate_for_block ::
  "(string \<Rightarrow> string) \<Rightarrow> (string \<Rightarrow> string \<Rightarrow> string \<Rightarrow> bool result) \<Rightarrow> certified_block \<Rightarrow> json list \<Rightarrow> json option \<Rightarrow>
   string \<Rightarrow> 'a db_certificates_scheme \<Rightarrow> 'a db_certificates_scheme result" where
  "store_finality_certificate_for_block H V b samples certificate task_id db =
     (case certificate of
        None \<Rightarrow> Inr db
      | Some JNull \<Rightarrow> Inr db
      | Some c \<Rightarrow>
        bindE (validate_finality_certificate_for_block H V b certificate task_id) (\<lambda>_.
        bindE (jget_obj ''payload'' c) (\<lambda>payload. bindE (jget_list ''votes'' c) (\<lambda>votes.
        store_certificate_document b samples task_id c payload (case jlist_of votes of Some vs \<Rightarrow> vs | None \<Rightarrow> []) db))))"

section \<open>A certificate that is built is accepted\<close>

lemma jget_obj_simp [simp]: "jget k (JObj kvs) = Inr (case map_of kvs k of None \<Rightarrow> JNull | Some v \<Rightarrow> v)"
  by (simp add: jget_def)

lemma jis_obj_simps [simp]: "jis_obj (JObj kvs)"
  by (simp add: jis_obj_def)

lemma require_value_simp:
  "require_value k (JObj kvs) x detail =
     (if (case map_of kvs k of None \<Rightarrow> JNull | Some v \<Rightarrow> v) = x then Inr () else certificate_error detail)"
  by (simp add: require_value_def)

lemma jint_JInt [simp]: "jint (JInt i) = Inr i"
  by (simp add: jint_def jnumber_def)

lemma require_number_simp:
  "map_of kvs k = Some (JInt i) \<Longrightarrow>
   require_number k (JObj kvs) x detail = (if i = x then Inr () else certificate_error detail)"
  by (simp add: require_number_def jget_int_def)

text \<open>A vote that names the job and the task and carries a valid signature of its key.\<close>

definition good_vote :: "(string \<Rightarrow> string \<Rightarrow> string \<Rightarrow> bool result) \<Rightarrow> string \<Rightarrow> string \<Rightarrow> json \<Rightarrow> bool" where
  "good_vote V job_id task_id vote \<longleftrightarrow> check_certificate_vote V (JStr job_id) task_id vote () = Inr ()"

lemma good_votes_pass:
  "list_all (good_vote V job_id task_id) votes \<Longrightarrow>
   foldE (check_certificate_vote V (JStr job_id) task_id) votes () = Inr ()"
  by (induction votes) (simp_all add: good_vote_def)

text \<open>\<open>certificate_document\<close> is the dictionary with the fields the check reads.\<close>

lemma header_passes:
  assumes "map_of c ''block_height'' = Some (JInt (cb_height b))"
    and "map_of c ''block_hash'' = Some (JStr (cb_block_hash b))"
    and "map_of c ''task_id'' = Some (JStr task_id)"
    and "map_of c ''job_id'' = Some (JStr job_id)"
    and "map_of c ''miner_id'' = Some (JStr (cb_miner_id b))"
    and "map_of c ''payload'' = Some payload" and "jtruthy payload"
    and "map_of c ''votes'' = Some (JList votes)" and "votes \<noteq> []"
    and "map_of c ''certificate_hash'' = Some (JStr (certificate_digest H payload (JList votes)))"
    and "map_of blk ''block_hash'' = Some (JStr (cb_block_hash b))"
    and "map_of blk ''task_id'' = Some (JStr task_id)"
    and "map_of val ''job_id'' = Some (JStr job_id)"
  shows "check_certificate_header H b task_id (JObj c) (JObj blk) (JObj val) = Inr ()"
  using assms
  by (simp add: check_certificate_header_def require_value_simp require_number_simp
      finality_certificate_hash_def jget_obj_def jget_list_def)

lemma counts_pass:
  assumes "map_of c ''required_approvals'' = Some (JInt required)"
    and "map_of c ''approval_count'' = Some (JInt (int (length votes)))"
    and "map_of val ''required_approvals'' = Some (JInt required)"
    and "map_of val ''approval_count'' = Some (JInt (int (length votes)))"
    and "0 < required" "required \<le> int (length votes)"
  shows "check_certificate_counts (JObj c) (JObj val) votes = Inr ()"
  using assms by (simp add: check_certificate_counts_def jget_int_def require_number_simp)

definition certificate_document :: "certified_block \<Rightarrow> string \<Rightarrow> (string \<times> json) list \<Rightarrow> bool" where
  "certificate_document b task_id c \<longleftrightarrow>
     map_of c ''block_height'' = Some (JInt (cb_height b)) \<and>
     map_of c ''block_hash'' = Some (JStr (cb_block_hash b)) \<and>
     map_of c ''task_id'' = Some (JStr task_id) \<and>
     map_of c ''miner_id'' = Some (JStr (cb_miner_id b))"

lemma certificate_passes:
  assumes "certificate_document b task_id c"
    and "map_of c ''job_id'' = Some (JStr job_id)"
    and "map_of c ''payload'' = Some (JObj payload)" and "payload \<noteq> []"
    and "map_of c ''votes'' = Some (JList votes)"
    and "map_of c ''certificate_hash'' = Some (JStr (certificate_digest H (JObj payload) (JList votes)))"
    and "map_of c ''required_approvals'' = Some (JInt required)"
    and "map_of c ''approval_count'' = Some (JInt (int (length votes)))"
    and "0 < required" "required \<le> int (length votes)"
    and "map_of payload ''block'' = Some (JObj blk)" and "map_of payload ''validation'' = Some (JObj val)"
    and "map_of blk ''block_hash'' = Some (JStr (cb_block_hash b))"
    and "map_of blk ''task_id'' = Some (JStr task_id)"
    and "map_of val ''job_id'' = Some (JStr job_id)"
    and "map_of val ''required_approvals'' = Some (JInt required)"
    and "map_of val ''approval_count'' = Some (JInt (int (length votes)))"
    and "list_all (good_vote V job_id task_id) votes"
  shows "validate_finality_certificate_for_block H V b (Some (JObj c)) task_id = Inr ()"
proof -
  have ne: "votes \<noteq> []" "blk \<noteq> []" "val \<noteq> []" using assms(9,10,13,15) by auto
  have head: "check_certificate_header H b task_id (JObj c) (JObj blk) (JObj val) = Inr ()"
    by (rule header_passes [where votes = votes and payload = "JObj payload" and job_id = job_id])
      (use assms ne in \<open>simp_all add: certificate_document_def\<close>)
  have counts: "check_certificate_counts (JObj c) (JObj val) votes = Inr ()"
    by (rule counts_pass) (use assms in simp_all)
  have votes: "foldE (check_certificate_vote V (JStr job_id) task_id) votes () = Inr ()"
    by (rule good_votes_pass) fact
  have "check_certificate H V b task_id (JObj c) (JObj payload) votes = Inr ()"
    using assms(2,11,12) ne by (simp add: check_certificate_def jget_obj_def head counts votes)
  then show ?thesis
    using assms(3-5) ne
    by (simp add: validate_finality_certificate_for_block_def jget_obj_def jget_list_def jlist_of_def)
qed

text \<open>A vote of the table whose signature verifies under the key of the validator's row.\<close>

definition vote_signed ::
  "(string \<Rightarrow> string \<Rightarrow> string \<Rightarrow> bool result) \<Rightarrow> 'a db_certificates_scheme \<Rightarrow> string \<Rightarrow> validation_vote \<Rightarrow> bool" where
  "vote_signed V db task_id v \<longleftrightarrow>
     vv_task_id v = task_id \<and> vv_signature v \<noteq> [] \<and>
     (case find_validator (vv_validator_id v) db of
        None \<Rightarrow> False
      | Some val \<Rightarrow> verify_payload_signature V (v_public_key val)
          (build_validation_result_signature_payload (vv_job_id v) (vv_validator_id v) (vv_task_id v) True
             (vv_reason v) (vv_signed_at v)) (vv_signature v) = Inr True)"

lemma verified_key_nonempty: "verify_payload_signature V pk payload sg = Inr True \<Longrightarrow> pk \<noteq> []"
  by (auto simp: verify_payload_signature_def KEY_PREFIX_def starts_with_def split: if_splits)

text \<open>A vote object with the fields the loop reads.\<close>

lemma good_voteI:
  assumes "map_of v ''approved'' = Some (JBool True)"
    and "map_of v ''validator_id'' = Some (JStr validator_id)"
    and "map_of v ''validator_public_key'' = Some (JStr pk)"
    and "map_of v ''signature'' = Some (JStr sg)" and "sg \<noteq> []"
    and "map_of v ''signature_payload'' =
      Some (build_validation_result_signature_payload job_id validator_id task_id True reason signed_at)"
    and "verify_payload_signature V pk
      (build_validation_result_signature_payload job_id validator_id task_id True reason signed_at) sg = Inr True"
  shows "good_vote V job_id task_id (JObj v)"
proof -
  let ?p = "build_validation_result_signature_payload job_id validator_id task_id True reason signed_at"
  have truthy: "jtruthy ?p" and pk: "pk \<noteq> []"
    using verified_key_nonempty [OF assms(7)] by (simp_all add: build_validation_result_signature_payload_def)
  have payload: "check_vote_payload (JStr job_id) task_id (JObj v) ?p = Inr ()"
    using assms(1,2) by (simp add: check_vote_payload_def require_value_def build_validation_result_signature_payload_def)
  have signature: "check_vote_signature V (JObj v) ?p = Inr ()"
    using assms(3-5,7) pk by (simp add: check_vote_signature_def jtext_def)
  show ?thesis
    using assms(6) truthy by (simp add: good_vote_def check_certificate_vote_def jget_obj_def payload signature)
qed

lemma certificate_vote_good:
  assumes "vote_signed V db task_id v"
  shows "good_vote V (vv_job_id v) task_id (certificate_vote db v)"
proof -
  obtain val where val: "find_validator (vv_validator_id v) db = Some val" "vv_signature v \<noteq> []" "vv_task_id v = task_id"
    "verify_payload_signature V (v_public_key val) (build_validation_result_signature_payload (vv_job_id v)
       (vv_validator_id v) task_id True (vv_reason v) (vv_signed_at v)) (vv_signature v) = Inr True"
    using assms by (auto simp: vote_signed_def split: option.splits)
  show ?thesis
    unfolding certificate_vote_def Let_def
    by (rule good_voteI [where validator_id = "vv_validator_id v" and pk = "v_public_key val" and
          sg = "vv_signature v" and reason = "vv_reason v" and signed_at = "vv_signed_at v"])
      (simp_all add: val jopt_str_def)
qed

lemma approving_votes_job: "v \<in> set (approving_votes job_id db) \<Longrightarrow> vv_job_id v = job_id \<and> vv_approved v"
  by (simp add: approving_votes_def)

lemma new_certificate_passes:
  assumes "\<forall>v \<in> set (approving_votes (vj_job_id job) db). vote_signed V db (vj_task_id job) v"
    and "0 < required" "required \<le> int (length (approving_votes (vj_job_id job) db))"
  shows "validate_finality_certificate_for_block (sha256_text (ne_crypto E)) V b
    (Some (decode_finality_certificate
       (new_certificate E b job required (map (certificate_vote db) (approving_votes (vj_job_id job) db)) now)))
    (vj_task_id job) = Inr ()"
proof -
  let ?votes = "map (certificate_vote db) (approving_votes (vj_job_id job) db)"
  have good: "list_all (good_vote V (vj_job_id job) (vj_task_id job)) ?votes"
    unfolding list_all_iff
  proof (intro ballI)
    fix x assume "x \<in> set ?votes"
    then obtain v where v: "v \<in> set (approving_votes (vj_job_id job) db)" "x = certificate_vote db v" by auto
    then show "good_vote V (vj_job_id job) (vj_task_id job) x"
      using certificate_vote_good [of V db "vj_task_id job" v] assms(1) approving_votes_job [of v "vj_job_id job" db] by auto
  qed
  show ?thesis
    unfolding decode_finality_certificate_def
    by (rule certificate_passes [where job_id = "vj_job_id job" and votes = ?votes and required = required and
          payload = "certificate_payload E b job required (int (length ?votes))" and blk = "certificate_block b job" and
          val = "certificate_validation job required (int (length ?votes))"])
      (use assms good in \<open>simp_all add: new_certificate_def certificate_payload_def certificate_document_def
         certificate_block_def certificate_validation_def Let_def del: map_map\<close>)
qed

text \<open>C27: a finality certificate the node creates for a block, from at least the required positive
  number of approving votes that are correctly signed by the validators of its table, passes the
  check that importing nodes make of the certificate of that block.\<close>

theorem created_certificate_accepted:
  assumes "create_finality_certificate E b job_id required now db = Inr (c, db')"
    and "\<forall>r \<in> set (finality_certificates db). ct_block_height r \<noteq> cb_height b \<and> ct_job_id r \<noteq> job_id"
    and "tbl_find vj_job_id job_id (validation_jobs db) = Some job"
    and "0 < required"
    and "\<forall>v \<in> set (approving_votes job_id db). vote_signed V db (vj_task_id job) v"
  shows "validate_finality_certificate_for_block (sha256_text (ne_crypto E)) V b (Some c) (vj_task_id job) = Inr ()"
proof -
  have none: "List.find (\<lambda>r. ct_block_height r = cb_height b \<or> ct_job_id r = job_id) (finality_certificates db) = None"
    using assms(2) by (auto simp: find_None_iff)
  have id: "vj_job_id job = job_id" using assms(3) by (rule tbl_find_key)
  let ?votes = "map (certificate_vote db) (approving_votes job_id db)"
  have made: "c = decode_finality_certificate (new_certificate E b job required ?votes now)"
    and many: "required \<le> int (length (approving_votes job_id db))"
    using assms(1) by (auto simp: create_finality_certificate_def none assms(3) Let_def split: if_splits)
  show ?thesis
    unfolding made
    by (rule new_certificate_passes [where job = job, unfolded id]) (use assms(4,5) many in auto)
qed

definition example_block :: certified_block where
  "example_block = \<lparr>cb_height = 7, cb_block_hash = ''b7'', cb_previous_hash = ''b6'', cb_state_root = Some ''s'',
     cb_miner_id = ''m'', cb_result_hash = ''r'', cb_merkle_root = None, cb_tx_merkle_root = None, cb_tx_count = 0,
     cb_protocol_version = ''0.18'', cb_protocol_params_id = Some 1\<rparr>"

definition example_job :: validation_job where
  "example_job = \<lparr>vj_job_id = ''job'', vj_task_id = ''task'', vj_miner_id = ''m'', vj_result_hash = ''r'',
     vj_merkle_root = ''mr'', vj_challenge_seed = ''seed'', vj_samples = [], vj_tx_merkle_root = ''tr'',
     vj_selected_tx_hashes_hash = None, vj_tx_count = 0, vj_tx_fee_total_units = 0, vj_status = ''approved'',
     vj_created_at = ''t'', vj_completed_at = None,
       vj_mempool_snapshot_id = None, vj_tx_hashes = [], vj_transactions = [], vj_assigned_validator_id = None,
       vj_assigned_at = None, vj_assignment_failures = 0, vj_blocking_reason = None, vj_result_reason = None,
       vj_validator_signature = None, vj_validation_ms = None, vj_job_created_at = None, vj_first_vote_at = None,
       vj_second_vote_at = None, vj_quorum_reached_at = None, vj_finalized_at = None,
       vj_waiting_for_first_vote_ms = None, vj_waiting_for_quorum_ms = None, vj_finalization_ms = None\<rparr>"

definition example_vote :: validation_vote where
  "example_vote = \<lparr>vv_job_id = ''job'', vv_task_id = ''task'', vv_validator_id = ''v'', vv_approved = True, vv_reason = ''ok'',
     vv_signature = ''s'', vv_signed_at = ''t'', vv_validation_ms = None, vv_submit_result_latency_ms = None,
     vv_created_at = ''t''\<rparr>"

definition example_validator :: validator_row where
  "example_validator = \<lparr>v_validator_id = ''v'', v_name = ''v'', v_public_key = ''ed25519:k'', v_reward_address = None,
     v_registered_at = 0, v_accepted_jobs = 0, v_trust_score = 1, v_last_seen_at = None, v_stake_locked = 0,
     v_wallet_stake_locked = 0, v_stake_owner_address = None, v_is_banned = False, v_enabled = True,
     v_online_status = ''online'', v_sync_status = ''synced'', v_reason_if_not_eligible = None, v_protocol_version = ''0.18'', v_rejected_jobs = 0,
       v_invalid_results = 0, v_cooldown_until = None, v_total_validation_ms = 0, v_slashed_amount = 0,
       v_node_id = None, v_advertised_address = None\<rparr>"

definition example_votes_db :: db_certificates where
  "example_votes_db = (db_mempool.extend (db_chain.extend (example_chain 0 ()) (db_mempool.fields [] []))
     (db_certificates.fields [example_job] [example_vote] []))\<lparr>validators := [example_validator]\<rparr>"

lemma example_votes_db_simps:
  "finality_certificates example_votes_db = []" "validation_jobs example_votes_db = [example_job]"
  "validation_votes example_votes_db = [example_vote]" "validators example_votes_db = [example_validator]"
  by (simp_all add: example_votes_db_def example_chain_def db_chain.defs db_mempool.defs db_certificates.defs)

lemma example_approving: "approving_votes ''job'' example_votes_db = [example_vote]"
  by (simp add: approving_votes_def example_votes_db_simps example_vote_def)

lemma example_create:
  "\<exists>c db'. create_finality_certificate example_env example_block ''job'' 1 ''t'' example_votes_db = Inr (c, db')"
  by (simp add: create_finality_certificate_def example_votes_db_simps example_job_def example_approving
      insert_certificate_def Let_def)

theorem created_certificate_accepted_witness:
  "\<exists>c db'. create_finality_certificate example_env example_block ''job'' 1 ''t'' example_votes_db = Inr (c, db') \<and>
     validate_finality_certificate_for_block (sha256_text (ne_crypto example_env)) (\<lambda>_ _ _. Inr True) example_block
       (Some c) ''task'' = Inr ()"
proof -
  obtain c db' where made: "create_finality_certificate example_env example_block ''job'' 1 ''t'' example_votes_db = Inr (c, db')"
    using example_create by blast
  have "validate_finality_certificate_for_block (sha256_text (ne_crypto example_env)) (\<lambda>_ _ _. Inr True) example_block
      (Some c) (vj_task_id example_job) = Inr ()"
    by (rule created_certificate_accepted [OF made])
      (simp_all add: example_votes_db_simps example_approving vote_signed_def find_validator_def example_vote_def
        example_validator_def example_job_def verify_payload_signature_def KEY_PREFIX_def starts_with_def)
  with made show ?thesis by (auto simp: example_job_def)
qed

section \<open>Whose votes the check counts\<close>

text \<open>One key, as many copies of one vote as wanted, and counts of the holder's choosing.\<close>

definition single_key_vote :: "string \<Rightarrow> (json \<Rightarrow> string) \<Rightarrow> string \<Rightarrow> json" where
  "single_key_vote pk sign task_id =
     (let p = build_validation_result_signature_payload ''job'' ''v'' task_id True ''ok'' ''t'' in
      JObj [(''approved'', JBool True), (''validator_id'', JStr ''v''), (''validator_public_key'', JStr pk),
        (''signature'', JStr (sign p)), (''signature_payload'', p)])"

definition single_key_payload :: "certified_block \<Rightarrow> string \<Rightarrow> nat \<Rightarrow> (string \<times> json) list" where
  "single_key_payload b task_id n =
     [(''block'', JObj [(''block_hash'', JStr (cb_block_hash b)), (''task_id'', JStr task_id)]),
      (''validation'', JObj [(''job_id'', JStr ''job''), (''required_approvals'', JInt (int n)),
         (''approval_count'', JInt (int n))])]"

definition single_key_certificate ::
  "(string \<Rightarrow> string) \<Rightarrow> string \<Rightarrow> (json \<Rightarrow> string) \<Rightarrow> certified_block \<Rightarrow> string \<Rightarrow> nat \<Rightarrow> json" where
  "single_key_certificate H pk sign b task_id n =
     (let votes = replicate n (single_key_vote pk sign task_id); payload = JObj (single_key_payload b task_id n) in
      JObj [(''block_height'', JInt (cb_height b)), (''block_hash'', JStr (cb_block_hash b)), (''task_id'', JStr task_id),
        (''job_id'', JStr ''job''), (''miner_id'', JStr (cb_miner_id b)), (''payload'', payload), (''votes'', JList votes),
        (''certificate_hash'', JStr (certificate_digest H payload (JList votes))),
        (''required_approvals'', JInt (int n)), (''approval_count'', JInt (int n))])"

text \<open>C28: the check of a certificate is relative to the certificate's own data: whoever holds one
  key, registered as a validator or not, can build for any block and any positive number of
  approvals a certificate that passes, by repeating one vote signed with that key; the quorum, the
  validator table and the distinctness of the voters are not consulted.\<close>

theorem certificate_self_attested:
  assumes "\<forall>m. verify_payload_signature V pk m (sign m) = Inr True \<and> sign m \<noteq> []" and "0 < n"
  shows "validate_finality_certificate_for_block H V b (Some (single_key_certificate H pk sign b task_id n)) task_id = Inr ()"
proof -
  have good: "good_vote V ''job'' task_id (single_key_vote pk sign task_id)"
    unfolding single_key_vote_def Let_def
    by (rule good_voteI [where validator_id = "''v''" and pk = pk and reason = "''ok''" and signed_at = "''t''" and
          sg = "sign (build_validation_result_signature_payload ''job'' ''v'' task_id True ''ok'' ''t'')"])
      (use assms(1) in simp_all)
  show ?thesis
    unfolding single_key_certificate_def Let_def
    by (rule certificate_passes [where job_id = "''job''" and votes = "replicate n (single_key_vote pk sign task_id)" and
          required = "int n" and payload = "single_key_payload b task_id n" and
          blk = "[(''block_hash'', JStr (cb_block_hash b)), (''task_id'', JStr task_id)]" and
          val = "[(''job_id'', JStr ''job''), (''required_approvals'', JInt (int n)), (''approval_count'', JInt (int n))]"])
      (use assms(2) good in \<open>simp_all add: certificate_document_def single_key_payload_def list_all_iff\<close>)
qed

theorem certificate_self_attested_witness:
  "validate_finality_certificate_for_block id (\<lambda>_ _ sg. Inr (sg = ''s'')) example_block
     (Some (single_key_certificate id ''ed25519:mallory'' (\<lambda>_. ''s'') example_block ''task'' 3)) ''task'' = Inr ()"
  by (rule certificate_self_attested)
    (simp_all add: verify_payload_signature_def KEY_PREFIX_def starts_with_def)

end
