(* ===== verification/Blocks.thy ===== *)
theory Blocks
  imports Certificates
begin

text \<open>
  Block payloads of \<open>app/services/consensus.py\<close>: the dictionary a proposal carries, its
  normalisation, and the check of its hash. A \<open>block\<close> is the typed reading of the dictionary: an
  absent key and \<open>null\<close> are \<open>None\<close>, numbers and lists are already parsed, a timestamp is an instant
  written by \<open>isoformat\<close>. \<open>_block_hash_candidates\<close> accepts the hash of any of the variants of the
  payload; the lemmas say which fields no variant holds, so that the hash does not bind them.
\<close>

section \<open>Environment and tables\<close>

record chain_env =
  ce_node :: node_env
  ce_genesis_hash :: string
  ce_required_approvals :: int
  ce_node_id :: string
  ce_verify :: "string \<Rightarrow> string \<Rightarrow> string \<Rightarrow> bool result"

definition ce_sha256 :: "chain_env \<Rightarrow> string \<Rightarrow> string" where
  "ce_sha256 E = sha256_text (ne_crypto (ce_node E))"

definition ce_profile :: "chain_env \<Rightarrow> NetworkProfile" where
  "ce_profile E = st_profile (ne_settings (ce_node E))"

definition PROTOCOL_VERSION :: "chain_env \<Rightarrow> string" where
  "PROTOCOL_VERSION E = np_protocol_version (ce_profile E)"

definition VALIDATION_MODE :: string where "VALIDATION_MODE = ''external_commit_reveal''"

definition LEGACY_ZERO_GENESIS_HASH :: string where "LEGACY_ZERO_GENESIS_HASH = replicate 64 CHR ''0''"

text \<open>The \<open>validator_reward\<close> dictionary of a block.\<close>

record reward_payload =
  vr_validator_ids :: "string list"
  vr_pool :: amount
  vr_per_validator :: amount
  vr_reward_addresses :: "(string \<times> string) list"

record block =
  bk_height :: int
  bk_previous_hash :: string
  bk_miner_id :: string
  bk_range_start :: int
  bk_range_end :: int
  bk_algorithm :: string
  bk_result_hash :: string
  bk_samples :: "json list"
  bk_timestamp :: int
  bk_block_hash :: string
  bk_reward :: pyfloat
  bk_difficulty :: "pyfloat option"
  bk_protocol_params_id :: "int option"
  bk_total_task_ms :: "int option"
  bk_total_block_ms :: "int option"
  bk_merkle_root :: "string option"
  bk_miner_reward_address :: "string option"
  bk_tx_merkle_root :: "string option"
  bk_tx_count :: int
  bk_tx_hashes :: "string list"
  bk_fee_reward :: pyfloat
  bk_protocol_version :: "string option"
  bk_validation_mode :: "string option"
  bk_fraudulent :: bool
  bk_fraud_reason :: "string option"
  bk_fraud_detected_at :: "string option"
  bk_state_root :: "string option"
  bk_task_id :: "string option"
  bk_transactions :: "tx list"
  bk_validator_reward :: "reward_payload option"
  bk_finality_certificate :: "json option"

text \<open>The table \<open>blocks\<close>, without the columns of the branch bookkeeping.\<close>

record block_row =
  bl_height :: int
  bl_previous_hash :: string
  bl_miner_id :: string
  bl_range_start :: int
  bl_range_end :: int
  bl_algorithm :: string
  bl_result_hash :: string
  bl_merkle_root :: "string option"
  bl_samples :: "json list"
  bl_timestamp :: int
  bl_block_hash :: string
  bl_reward :: pyfloat
  bl_reward_units :: int
  bl_tx_merkle_root :: "string option"
  bl_tx_count :: int
  bl_tx_hashes :: "string list"
  bl_fee_reward :: pyfloat
  bl_fee_reward_units :: int
  bl_miner_reward_address :: "string option"
  bl_state_root :: "string option"
  bl_difficulty :: "pyfloat option"
  bl_task_id :: string
  bl_protocol_params_id :: "int option"
  bl_protocol_version :: string
  bl_validation_mode :: string
  bl_total_task_ms :: "int option"
  bl_total_block_ms :: "int option"
  bl_validation_ms :: "int option"
  bl_fraudulent :: bool
  bl_fraud_reason :: "string option"
  bl_fraud_detected_at :: "string option"

record miner_row =
  mi_miner_id :: string
  mi_name :: string
  mi_public_key :: "string option"
  mi_registered_at :: int
  mi_reward_address :: "string option"
  mi_trust_score :: pyfloat
  mi_cooldown_until :: "int option"
  mi_is_banned :: bool
  mi_enabled :: bool
  mi_last_seen_at :: "int option"
  mi_last_heartbeat_at :: "int option"
  mi_online_status :: string
  mi_protocol_version :: string

text \<open>The table \<open>protocol_params\<close>.\<close>

record params_row =
  pp_id :: int
  pp_protocol_version :: string
  pp_algorithm :: string
  pp_validation_mode :: string
  pp_required_validator_approvals :: int
  pp_range_assignment_mode :: string
  pp_max_pi_position :: int
  pp_range_assignment_max_attempts :: int
  pp_segment_size :: int
  pp_sample_count :: int
  pp_task_expiration_seconds :: int
  pp_max_active_tasks_per_miner :: int
  pp_base_reward :: pyfloat
  pp_difficulty :: "pyfloat option"
  pp_retarget_max_pi_position :: "int option"
  pp_target_block_time_ms :: "int option"
  pp_retarget_reason :: "string option"
  pp_retarget_source_window :: "int option"
  pp_retarget_source_details :: "json option"
  pp_previous_protocol_params_id :: "int option"
  pp_active :: bool

record snapshot_import =
  si_height :: int
  si_block_hash :: string
  si_active :: bool
  si_activated_at :: "int option"
  si_state_applied :: bool

record proposal =
  pr_proposal_id :: string
  pr_block_hash :: string
  pr_height :: int
  pr_previous_hash :: string
  pr_proposer_node_id :: string
  pr_status :: string
  pr_payload :: block
  pr_approvals :: int
  pr_rejections :: int
  pr_rejection_reason :: "string option"
  pr_finalized_at :: "int option"
  pr_created_at :: int
  pr_updated_at :: int

record consensus_vote =
  cv_vote_id :: string
  cv_proposal_id :: string
  cv_block_hash :: string
  cv_validator_id :: string
  cv_approved :: bool
  cv_reason :: string
  cv_signature :: string
  cv_signed_at :: string
  cv_created_at :: int

record finalization =
  fi_finalization_id :: string
  fi_proposal_id :: string
  fi_block_hash :: string
  fi_height :: int
  fi_quorum :: int
  fi_approvals :: int
  fi_validator_ids :: "string list"
  fi_imported :: bool
  fi_finalized_at :: int

record consensus_event =
  ev_event_type :: string
  ev_status :: string
  ev_details :: json
  ev_created_at :: int

record db_consensus = db_certificates +
  miners :: "miner_row list"
  params_rows :: "params_row list"
  snapshot_imports :: "snapshot_import list"
  blocks :: "block_row list"
  proposals :: "proposal list"
  consensus_votes :: "consensus_vote list"
  finalizations :: "finalization list"
  sync_events :: "consensus_event list"

section \<open>Timestamps as text\<close>

definition pad_left :: "nat \<Rightarrow> int \<Rightarrow> string" where
  "pad_left n i = (let s = show_int i in replicate (n - length s) CHR ''0'' @ s)"

text \<open>\<open>datetime.isoformat()\<close> of an instant in UTC.\<close>

definition isoformat :: "int \<Rightarrow> string" where
  "isoformat t =
     (case civil_from_days (t div DAY) of (y, m, d) \<Rightarrow>
      let s = (t mod DAY) div SECOND; micro = t mod SECOND in
      pad_left 4 y @ ''-'' @ pad2 m @ ''-'' @ pad2 d @ ''T'' @
      pad2 (s div 3600) @ '':'' @ pad2 (s div 60 mod 60) @ '':'' @ pad2 (s mod 60) @
      (if micro = 0 then [] else ''.'' @ pad_left 6 micro) @ ''+00:00'')"

section \<open>Normalisation\<close>

definition truthy_text :: "string option \<Rightarrow> bool" where
  "truthy_text x = (case x of None \<Rightarrow> False | Some s \<Rightarrow> s \<noteq> [])"

definition normal_address :: "string option \<Rightarrow> string option" where
  "normal_address a = (if truthy_text a then map_option (\<lambda>s. str_upper (str_strip s)) a else a)"

text \<open>The conversions to \<open>int\<close> and \<open>float\<close> are the typed reading; what remains are the roundings,
  the address, the length of the state root and the defaults.\<close>

definition normalize_block :: "chain_env \<Rightarrow> block \<Rightarrow> block result" where
  "normalize_block E b =
     (let b1 = b\<lparr>bk_reward := py_round 8 (bk_reward b), bk_fee_reward := py_round 8 (bk_fee_reward b),
               bk_miner_reward_address := normal_address (bk_miner_reward_address b)\<rparr> in
      bindE (guardE (case bk_state_root b of None \<Rightarrow> True | Some r \<Rightarrow> length r = 64)
        (ConsensusError 422 ''invalid state_root length'')) (\<lambda>_.
      bindE (if 0 < bk_tx_count b \<and> \<not> truthy_text (bk_tx_merkle_root b)
             then bindE (transaction_commitment (ce_sha256 E) (bk_transactions b)) (\<lambda>c. Inr (Some (cm_tx_merkle_root c)))
             else Inr (bk_tx_merkle_root b)) (\<lambda>mr.
      Inr (b1\<lparr>bk_tx_merkle_root := mr,
        bk_protocol_version := Some (str_or (bk_protocol_version b) (PROTOCOL_VERSION E)),
        bk_validation_mode := Some (str_or (bk_validation_mode b) VALIDATION_MODE)\<rparr>))))"

section \<open>The hash\<close>


definition mandatory_fields :: "block \<Rightarrow> (string \<times> json) list" where
  "mandatory_fields b =
     [(''algorithm'', JStr (bk_algorithm b)), (''height'', JInt (bk_height b)), (''miner_id'', JStr (bk_miner_id b)),
      (''previous_hash'', JStr (bk_previous_hash b)), (''range_end'', JInt (bk_range_end b)),
      (''range_start'', JInt (bk_range_start b)), (''result_hash'', JStr (bk_result_hash b)),
      (''reward'', JFloat (py_round 8 (bk_reward b))), (''samples'', JList (bk_samples b)),
      (''timestamp'', JStr (isoformat (bk_timestamp b)))]"

definition optional_scalars :: "block \<Rightarrow> (string \<times> json) list list" where
  "optional_scalars b =
     (case bk_difficulty b of None \<Rightarrow> [] | Some d \<Rightarrow> [[(''difficulty'', JFloat d)]]) @
     (case bk_protocol_params_id b of None \<Rightarrow> [] | Some i \<Rightarrow> [[(''protocol_params_id'', JInt i)]]) @
     (case bk_total_block_ms b of None \<Rightarrow> [] | Some i \<Rightarrow> [[(''total_block_ms'', JInt i)]]) @
     (if truthy_text (bk_merkle_root b) then [[(''merkle_root'', jopt_str (bk_merkle_root b))]] else []) @
     (if truthy_text (bk_miner_reward_address b)
      then [[(''miner_reward_address'', jopt_str (normal_address (bk_miner_reward_address b)))]] else [])"

definition protocol_fields :: "chain_env \<Rightarrow> block \<Rightarrow> (string \<times> json) list list" where
  "protocol_fields E b =
     [[(''protocol_version'', JStr (case bk_protocol_version b of Some v \<Rightarrow> v | None \<Rightarrow> PROTOCOL_VERSION E))],
      [(''validation_mode'', JStr (case bk_validation_mode b of Some m \<Rightarrow> m | None \<Rightarrow> VALIDATION_MODE))]]"

definition transaction_fields :: "block \<Rightarrow> (string \<times> json) list list" where
  "transaction_fields b =
     (if 0 < bk_tx_count b
      then [[(''tx_merkle_root'', jopt_str (bk_tx_merkle_root b)), (''tx_count'', JInt (bk_tx_count b)),
             (''tx_hashes'', JList (map JStr (bk_tx_hashes b))), (''fee_reward'', JFloat (py_round 8 (bk_fee_reward b)))]]
      else [])"

definition fraud_fields :: "block \<Rightarrow> (string \<times> json) list list" where
  "fraud_fields b =
     [[(''fraudulent'', JBool (bk_fraudulent b)), (''fraud_reason'', jopt_str (bk_fraud_reason b)),
       (''fraud_detected_at'', jopt_str (bk_fraud_detected_at b))]]"

definition canonical_block_payload :: "chain_env \<Rightarrow> block \<Rightarrow> bool \<Rightarrow> json" where
  "canonical_block_payload E b include_protocol =
     JObj (mandatory_fields b @ concat (optional_scalars b) @ concat (transaction_fields b) @
       (if include_protocol then concat (protocol_fields E b) else []))"

definition optional_groups :: "chain_env \<Rightarrow> block \<Rightarrow> (string \<times> json) list list" where
  "optional_groups E b = optional_scalars b @ protocol_fields E b @ transaction_fields b @ fraud_fields b"

text \<open>\<open>itertools.combinations(xs, n)\<close>.\<close>

fun combinations :: "nat \<Rightarrow> 'x list \<Rightarrow> 'x list list" where
  "combinations 0 xs = [[]]"
| "combinations (Suc n) [] = []"
| "combinations (Suc n) (x # xs) = map ((#) x) (combinations n xs) @ combinations (Suc n) xs"

definition schema_variants :: "chain_env \<Rightarrow> block \<Rightarrow> json list" where
  "schema_variants E b =
     (let groups = optional_groups E b in
      map (\<lambda>combo. JObj (mandatory_fields b @ concat combo))
        (concat (map (\<lambda>size. combinations size groups) [0..<length groups + 1])))"

text \<open>The payloads already \<open>seen\<close> are skipped.\<close>

fun unseen :: "string list \<Rightarrow> json list \<Rightarrow> json list" where
  "unseen seen [] = []"
| "unseen seen (p # ps) =
     (let key = canonical_json p in
      if key \<in> set seen then unseen seen ps else p # unseen (key # seen) ps)"

definition block_hash_variant_payloads :: "chain_env \<Rightarrow> block \<Rightarrow> json list" where
  "block_hash_variant_payloads E b =
     (let current = [canonical_block_payload E b True, canonical_block_payload E b False] in
      current @ unseen (map canonical_json current) (schema_variants E b))"

definition block_hash_candidates :: "chain_env \<Rightarrow> block \<Rightarrow> string list" where
  "block_hash_candidates E b = map (\<lambda>p. ce_sha256 E (canonical_json p)) (block_hash_variant_payloads E b)"

text \<open>The required fields are present in a \<open>block\<close>.\<close>

definition validate_block_hash :: "chain_env \<Rightarrow> block \<Rightarrow> unit result" where
  "validate_block_hash E b =
     (if length (bk_block_hash b) \<noteq> 64 \<or> length (bk_previous_hash b) \<noteq> 64
      then Inl (ConsensusError 422 ''invalid block hash length'')
      else if bk_block_hash b \<notin> set (block_hash_candidates E b)
      then Inl (ConsensusError 422 ''block_hash does not match canonical payload'')
      else Inr ())"

end
