(* ===== verification/BlockImport.thy ===== *)
theory BlockImport
  imports Blocks
begin

text \<open>
  Import of a finalized block (\<open>_import_finalized_block\<close> of \<open>app/services/consensus.py\<close>): guards
  against the local chain, the rows of the miner, the task, the transactions and the block, the
  miner's reward, the transactions, the reserve and treasury shares, the validators' reward, the
  rewards that mature, and the state root. The writes of the scheduled audit marker and of the
  periodic checkpoint, which go to tables nothing here reads, are left out.
\<close>

section \<open>The local chain\<close>

record chain_tip =
  tip_height :: int
  tip_block_hash :: string

text \<open>\<open>ORDER BY height DESC LIMIT 1\<close>; the height is the primary key.\<close>

fun highest :: "('r \<Rightarrow> int) \<Rightarrow> 'r list \<Rightarrow> 'r option" where
  "highest h [] = None"
| "highest h (r # rs) = (case highest h rs of None \<Rightarrow> Some r | Some r' \<Rightarrow> Some (if h r' \<le> h r then r else r'))"

text \<open>\<open>ORDER BY height DESC, activated_at DESC LIMIT 1\<close> among the active imports; a \<open>NULL\<close> sorts
  first in SQLite, so last in descending order.\<close>

definition later_base :: "snapshot_import \<Rightarrow> snapshot_import \<Rightarrow> bool" where
  "later_base s t \<longleftrightarrow> si_height t < si_height s \<or> si_height t = si_height s \<and>
     (case (si_activated_at s, si_activated_at t) of (_, None) \<Rightarrow> True | (None, Some _) \<Rightarrow> False | (Some x, Some y) \<Rightarrow> y \<le> x)"

fun latest_base :: "snapshot_import list \<Rightarrow> snapshot_import option" where
  "latest_base [] = None"
| "latest_base (s # ss) = (case latest_base ss of None \<Rightarrow> Some s | Some t \<Rightarrow> Some (if later_base s t then s else t))"

definition active_snapshot_base_in_connection :: "'a db_consensus_scheme \<Rightarrow> snapshot_import option" where
  "active_snapshot_base_in_connection db = latest_base (filter si_active (snapshot_imports db))"

definition latest_tip :: "chain_env \<Rightarrow> 'a db_consensus_scheme \<Rightarrow> chain_tip" where
  "latest_tip E db = (case highest bl_height (blocks db) of
       Some b \<Rightarrow> \<lparr>tip_height = bl_height b, tip_block_hash = bl_block_hash b\<rparr>
     | None \<Rightarrow> (case active_snapshot_base_in_connection db of
         Some s \<Rightarrow> if si_state_applied s then \<lparr>tip_height = si_height s, tip_block_hash = si_block_hash s\<rparr>
           else \<lparr>tip_height = 0, tip_block_hash = ce_genesis_hash E\<rparr>
       | None \<Rightarrow> \<lparr>tip_height = 0, tip_block_hash = ce_genesis_hash E\<rparr>))"

definition matches_local_parent :: "block \<Rightarrow> chain_tip \<Rightarrow> bool" where
  "matches_local_parent b tip \<longleftrightarrow> bk_previous_hash b = tip_block_hash tip \<or>
     bk_height b = 1 \<and> tip_height tip = 0 \<and> bk_previous_hash b = LEGACY_ZERO_GENESIS_HASH"

definition reject_duplicate_block_material :: "'a db_consensus_scheme \<Rightarrow> block \<Rightarrow> unit result" where
  "reject_duplicate_block_material db b =
     (case tbl_find bl_result_hash (bk_result_hash b) (blocks db) of
        None \<Rightarrow> Inr () | Some _ \<Rightarrow> Inl (ConsensusError 409 ''duplicate result_hash''))"

section \<open>The rows a block refers to\<close>

definition ensure_miner :: "chain_env \<Rightarrow> int \<Rightarrow> string \<Rightarrow> 'a db_consensus_scheme \<Rightarrow> 'a db_consensus_scheme" where
  "ensure_miner E now miner_id db =
     (case tbl_find mi_miner_id miner_id (miners db) of
        Some _ \<Rightarrow> db
      | None \<Rightarrow> db\<lparr>miners := miners db @ [\<lparr>mi_miner_id = miner_id, mi_name = ''distributed:'' @ miner_id,
          mi_public_key = None, mi_registered_at = now, mi_reward_address = None, mi_trust_score = 1,
          mi_cooldown_until = None, mi_is_banned = False, mi_enabled = True, mi_last_seen_at = None,
          mi_last_heartbeat_at = None, mi_online_status = ''offline'', mi_protocol_version = PROTOCOL_VERSION E\<rparr>]\<rparr>)"

definition resolve_local_protocol_params_id :: "'a db_consensus_scheme \<Rightarrow> int option \<Rightarrow> int option" where
  "resolve_local_protocol_params_id db pid =
     (case pid of None \<Rightarrow> None | Some i \<Rightarrow> if i \<in> pp_id ` set (params_rows db) then Some i else None)"

definition block_task_id :: "block \<Rightarrow> string" where
  "block_task_id b = str_or (bk_task_id b)
     (''distributed_task_'' @ show_int (bk_height b) @ ''_'' @ take 12 (bk_block_hash b))"

definition replayed_task :: "block \<Rightarrow> int option \<Rightarrow> task_row" where
  "replayed_task b params_id =
     \<lparr>tk_task_id = block_task_id b, tk_miner_id = bk_miner_id b, tk_range_start = bk_range_start b,
      tk_range_end = bk_range_end b, tk_algorithm = bk_algorithm b, tk_status = ''accepted'',
      tk_assignment_seed = Some (bk_block_hash b), tk_assignment_mode = Some ''distributed_replay'',
      tk_competitive_round_height = None, tk_competitive_round_previous_hash = None,
      tk_protocol_params_id = params_id, tk_created_at = bk_timestamp b, tk_expires_at = None,
      tk_submitted_at = Some (isoformat (bk_timestamp b)), tk_stale_at = None, tk_stale_reason = None,
      tk_mempool_snapshot_id = None, tk_selected_tx_hashes = [], tk_tx_merkle_root = '''', tk_tx_count = 0,
      tk_tx_fee_total_units = 0, tk_selected_tx_hashes_hash = None,
      tk_compute_ms = None\<rparr>"

text \<open>\<open>INSERT INTO tasks\<close>: the primary key and the partial UNIQUE index on the accepted range starts.\<close>

definition accepted_start :: "int \<Rightarrow> string \<Rightarrow> task_row \<Rightarrow> bool" where
  "accepted_start range_start algorithm t \<longleftrightarrow>
     tk_status t = ''accepted'' \<and> tk_range_start t = range_start \<and> tk_algorithm t = algorithm"

definition insert_task :: "task_row \<Rightarrow> 'a db_mempool_scheme \<Rightarrow> 'a db_mempool_scheme result" where
  "insert_task t db =
     (if tk_task_id t \<in> tk_task_id ` set (tasks db) then Inl (IntegrityError ''tasks.task_id'')
      else if tk_status t = ''accepted'' \<and> (\<exists>u \<in> set (tasks db). accepted_start (tk_range_start t) (tk_algorithm t) u)
      then Inl (IntegrityError ''tasks.range_start, tasks.algorithm'')
      else Inr (db\<lparr>tasks := tasks db @ [t]\<rparr>))"

definition ensure_task ::
  "block \<Rightarrow> int option \<Rightarrow> 'a db_consensus_scheme \<Rightarrow> 'a db_consensus_scheme result" where
  "ensure_task b params_id db =
     (case tbl_find tk_task_id (block_task_id b) (tasks db) of
        Some _ \<Rightarrow> Inr db
      | None \<Rightarrow> insert_task (replayed_task b params_id) db)"

text \<open>The transactions a block carries against its commitment; a block with a count of zero is not
  checked.\<close>

definition check_block_commitment :: "chain_env \<Rightarrow> block \<Rightarrow> unit result" where
  "check_block_commitment E b =
     bindE (transaction_commitment (ce_sha256 E) (bk_transactions b)) (\<lambda>c.
       if cm_tx_count c \<noteq> bk_tx_count b
       then Inl (ConsensusError 422 ''block transactions are missing from proposal payload'')
       else if Some (cm_tx_merkle_root c) \<noteq> bk_tx_merkle_root b
       then Inl (ConsensusError 422 ''block transaction merkle root mismatch'')
       else Inr ())"

definition admit_block_transactions :: "chain_env \<Rightarrow> block \<Rightarrow> 'a db_consensus_scheme \<Rightarrow> 'a db_consensus_scheme result" where
  "admit_block_transactions E b db =
     (if 0 < bk_tx_count b
      then bindE (check_block_commitment E b) (\<lambda>_.
        ensure_block_transactions_in_mempool (ce_node E) (bk_transactions b) (Some (bk_timestamp b)) db)
      else Inr db)"

section \<open>The row of the block\<close>

definition block_row_of :: "chain_env \<Rightarrow> block \<Rightarrow> string \<Rightarrow> int option \<Rightarrow> int \<Rightarrow> int \<Rightarrow> block_row" where
  "block_row_of E b task_id params_id r_units f_units =
     \<lparr>bl_height = bk_height b, bl_previous_hash = bk_previous_hash b, bl_miner_id = bk_miner_id b,
      bl_range_start = bk_range_start b, bl_range_end = bk_range_end b, bl_algorithm = bk_algorithm b,
      bl_result_hash = bk_result_hash b, bl_merkle_root = bk_merkle_root b, bl_samples = bk_samples b,
      bl_timestamp = bk_timestamp b, bl_block_hash = bk_block_hash b, bl_reward = bk_reward b,
      bl_reward_units = r_units, bl_tx_merkle_root = bk_tx_merkle_root b, bl_tx_count = bk_tx_count b,
      bl_tx_hashes = bk_tx_hashes b, bl_fee_reward = py_round 8 (bk_fee_reward b), bl_fee_reward_units = f_units,
      bl_miner_reward_address = bk_miner_reward_address b, bl_state_root = bk_state_root b,
      bl_difficulty = bk_difficulty b, bl_task_id = task_id, bl_protocol_params_id = params_id,
      bl_protocol_version = (case bk_protocol_version b of Some v \<Rightarrow> v | None \<Rightarrow> PROTOCOL_VERSION E),
      bl_validation_mode = (case bk_validation_mode b of Some m \<Rightarrow> m | None \<Rightarrow> VALIDATION_MODE),
      bl_total_task_ms = bk_total_task_ms b, bl_total_block_ms = bk_total_block_ms b, bl_validation_ms = None,
      bl_fraudulent = False, bl_fraud_reason = None, bl_fraud_detected_at = None\<rparr>"

text \<open>The UNIQUE columns: height, \<open>result_hash\<close>, \<open>block_hash\<close>, \<open>task_id\<close>.\<close>

definition insert_block :: "block_row \<Rightarrow> 'a db_consensus_scheme \<Rightarrow> 'a db_consensus_scheme result" where
  "insert_block r db =
     (let rows = blocks db in
      if bl_height r \<in> bl_height ` set rows \<or> bl_result_hash r \<in> bl_result_hash ` set rows \<or>
         bl_block_hash r \<in> bl_block_hash ` set rows \<or> bl_task_id r \<in> bl_task_id ` set rows
      then Inl (IntegrityError ''blocks'')
      else Inr (db\<lparr>blocks := rows @ [r]\<rparr>))"

definition store_block ::
  "chain_env \<Rightarrow> block \<Rightarrow> string \<Rightarrow> int option \<Rightarrow> 'a db_consensus_scheme \<Rightarrow> 'a db_consensus_scheme result" where
  "store_block E b task_id params_id db =
     bindE (to_units (FloatA (bk_reward b))) (\<lambda>r_units.
     bindE (to_units (FloatA (bk_fee_reward b))) (\<lambda>f_units.
     insert_block (block_row_of E b task_id params_id r_units f_units) db))"

definition update_block_state_root ::
  "chain_env \<Rightarrow> int \<Rightarrow> int \<Rightarrow> 'a db_consensus_scheme \<Rightarrow> (string \<times> 'a db_consensus_scheme) result" where
  "update_block_state_root E h ts db =
     bindE (calculate_state_root (ce_sha256 E) h (Some ts) db) (\<lambda>r.
     Inr (r, db\<lparr>blocks := tbl_update (\<lambda>b. bl_height b = h) (\<lambda>b. b\<lparr>bl_state_root := Some r\<rparr>) (blocks db)\<rparr>))"

section \<open>Quorum\<close>

definition VALIDATOR_MIN_TRUST_SCORE :: pyfloat where "VALIDATOR_MIN_TRUST_SCORE = fl 0.25"

definition MIN_VALIDATOR_STAKE :: "chain_env \<Rightarrow> pyfloat" where
  "MIN_VALIDATOR_STAKE E = np_min_validator_stake (ce_profile E)"

text \<open>The column \<open>VALIDATOR_ELIGIBILITY_STAKE_FIELD\<close> names.\<close>

definition eligibility_stake :: "chain_env \<Rightarrow> validator_row \<Rightarrow> pyfloat" where
  "eligibility_stake E v = (if np_name (ce_profile E) = ''mainnet'' then v_wallet_stake_locked v else v_stake_locked v)"

definition counts_for_quorum :: "chain_env \<Rightarrow> validator_row \<Rightarrow> bool" where
  "counts_for_quorum E v \<longleftrightarrow> \<not> v_is_banned v \<and> v_enabled v \<and> v_online_status v = ''online'' \<and>
     v_sync_status v \<noteq> ''out_of_sync'' \<and> v_protocol_version v = PROTOCOL_VERSION E \<and>
     MIN_VALIDATOR_STAKE E \<le> eligibility_stake E v \<and> VALIDATOR_MIN_TRUST_SCORE \<le> v_trust_score v"

definition eligible_validator_count_for_quorum :: "chain_env \<Rightarrow> 'a db_chain_scheme \<Rightarrow> int" where
  "eligible_validator_count_for_quorum E db = int (length (filter (counts_for_quorum E) (validators db)))"

definition required_validator_approvals_for_quorum :: "chain_env \<Rightarrow> 'a db_chain_scheme \<Rightarrow> int" where
  "required_validator_approvals_for_quorum E db =
     (let eligible_count = eligible_validator_count_for_quorum E db in
      if eligible_count \<le> 0 then ce_required_approvals E
      else let adaptive = max 1 eligible_count in max 1 (min (ce_required_approvals E) adaptive))"

section \<open>The validators' share\<close>

definition amount_or_zero :: "amount \<Rightarrow> amount" where
  "amount_or_zero v = (case v of NoneA \<Rightarrow> IntA 0 | StrA s \<Rightarrow> if s = [] then IntA 0 else v | _ \<Rightarrow> v)"

definition distributed_validator :: "chain_env \<Rightarrow> string \<Rightarrow> int \<Rightarrow> validator_row" where
  "distributed_validator E vid ts =
     \<lparr>v_validator_id = vid, v_name = ''distributed:'' @ vid, v_public_key = [], v_reward_address = None,
      v_registered_at = ts, v_accepted_jobs = 0, v_trust_score = 1, v_last_seen_at = Some ts,
      v_stake_locked = validator_registration_stake (ne_settings (ce_node E)), v_wallet_stake_locked = 0,
      v_stake_owner_address = None, v_is_banned = False, v_enabled = True, v_online_status = ''offline'',
      v_sync_status = ''unknown'', v_reason_if_not_eligible = None, v_protocol_version = PROTOCOL_VERSION E, v_rejected_jobs = 0,
       v_invalid_results = 0, v_cooldown_until = None, v_total_validation_ms = 0, v_slashed_amount = 0,
       v_node_id = None, v_advertised_address = None\<rparr>"

definition ensure_validator :: "chain_env \<Rightarrow> string \<Rightarrow> int \<Rightarrow> 'a db_chain_scheme \<Rightarrow> 'a db_chain_scheme" where
  "ensure_validator E vid ts db =
     (case find_validator vid db of
        Some _ \<Rightarrow> db
      | None \<Rightarrow> db\<lparr>validators := validators db @ [distributed_validator E vid ts]\<rparr>)"

definition credit_job :: "string \<Rightarrow> int \<Rightarrow> 'a db_chain_scheme \<Rightarrow> 'a db_chain_scheme" where
  "credit_job vid ts db = db\<lparr>validators := tbl_update (\<lambda>v. v_validator_id v = vid)
     (\<lambda>v. v\<lparr>v_accepted_jobs := v_accepted_jobs v + 1, v_last_seen_at := Some ts\<rparr>) (validators db)\<rparr>"

text \<open>\<open>reward_addresses.get(validator_id)\<close> or nothing.\<close>

definition reward_address_of :: "reward_payload option \<Rightarrow> string \<Rightarrow> string" where
  "reward_address_of p vid = (case p of None \<Rightarrow> [] | Some r \<Rightarrow>
     (case map_of (vr_reward_addresses r) vid of None \<Rightarrow> [] | Some a \<Rightarrow> a))"

definition validator_reward_posting ::
  "int \<Rightarrow> string \<Rightarrow> string \<Rightarrow> string \<Rightarrow> int \<Rightarrow> posting" where
  "validator_reward_posting h proposal_id account ty amount_units =
     \<lparr>p_account_id = account, p_account_type = ty, p_amount = reward_units_to_float amount_units,
      p_entry_type = ''validator_reward'', p_block_height = Some h, p_related_id = Some proposal_id,
      p_description = Some ''distributed consensus validator reward''\<rparr>"

definition pay_validator ::
  "chain_env \<Rightarrow> block \<Rightarrow> string \<Rightarrow> string \<Rightarrow> int \<Rightarrow> 'a db_consensus_scheme \<Rightarrow> 'a db_consensus_scheme result" where
  "pay_validator E b proposal_id vid amount_units db =
     (let reward_address = reward_address_of (bk_validator_reward b) vid;
          legacy = (reward_address = [] \<and> is_valid_address (ce_sha256 E) (Some vid));
          ts = bk_timestamp b;
          db1 = (if legacy then db else ensure_validator E vid ts db);
          account = (if reward_address \<noteq> [] then reward_address else vid);
          ty = (if reward_address \<noteq> [] \<or> legacy then ''wallet'' else ''validator'') in
      bindE (consensus_apply_account_delta ts
          (validator_reward_posting (bk_height b) proposal_id account ty amount_units) db1) (\<lambda>db2.
      Inr (if legacy then db2 else credit_job vid ts db2)))"

text \<open>The loop: every validator but the last gets \<open>per\<close>, the last one the rest of the pool.\<close>

fun pay_validators ::
  "chain_env \<Rightarrow> block \<Rightarrow> string \<Rightarrow> int \<Rightarrow> int \<Rightarrow> string list \<Rightarrow> int \<Rightarrow> 'a db_consensus_scheme \<Rightarrow>
   'a db_consensus_scheme result" where
  "pay_validators E b proposal_id pool per [] distributed db = Inr db"
| "pay_validators E b proposal_id pool per (vid # vids) distributed db =
     (let amount_units = (if vids = [] then pool - distributed else per) in
      bindE (pay_validator E b proposal_id vid amount_units db)
        (pay_validators E b proposal_id pool per vids (distributed + amount_units)))"

text \<open>\<open>SELECT validator_id \<dots> WHERE approved = 1 ORDER BY created_at ASC LIMIT n\<close>.\<close>

definition approving_validators :: "string \<Rightarrow> int \<Rightarrow> 'a db_consensus_scheme \<Rightarrow> string list" where
  "approving_validators proposal_id n db = take (nat n) (map cv_validator_id (sort_key cv_created_at
     (filter (\<lambda>v. cv_proposal_id v = proposal_id \<and> cv_approved v) (consensus_votes db))))"

definition rewarded_validators :: "chain_env \<Rightarrow> block \<Rightarrow> string \<Rightarrow> 'a db_consensus_scheme \<Rightarrow> string list" where
  "rewarded_validators E b proposal_id db =
     (let named = (case bk_validator_reward b of None \<Rightarrow> [] | Some r \<Rightarrow> vr_validator_ids r) in
      if named \<noteq> [] then named
      else approving_validators proposal_id (required_validator_approvals_for_quorum E db) db)"

definition reward_pool_units :: "block \<Rightarrow> int \<Rightarrow> int result" where
  "reward_pool_units b reward_total =
     bindE (to_units (case bk_validator_reward b of None \<Rightarrow> IntA 0 | Some r \<Rightarrow> amount_or_zero (vr_pool r))) (\<lambda>pool_units.
       if pool_units \<le> 0
       then validator_reward_pool_units \<lparr>base_reward = reward_units_to_float reward_total\<rparr>
       else Inr pool_units)"

definition per_validator_units :: "block \<Rightarrow> int \<Rightarrow> nat \<Rightarrow> int result" where
  "per_validator_units b pool_units n =
     bindE (to_units (case bk_validator_reward b of None \<Rightarrow> IntA 0 | Some r \<Rightarrow> amount_or_zero (vr_per_validator r))) (\<lambda>per.
       Inr (if per \<le> 0 then pool_units div int n else per))"

definition apply_distributed_validator_rewards ::
  "chain_env \<Rightarrow> block \<Rightarrow> string \<Rightarrow> int \<Rightarrow> 'a db_consensus_scheme \<Rightarrow> 'a db_consensus_scheme result" where
  "apply_distributed_validator_rewards E b proposal_id reward_total db =
     (let validator_ids = rewarded_validators E b proposal_id db in
      if validator_ids = [] then Inr db
      else bindE (reward_pool_units b reward_total) (\<lambda>pool_units.
        bindE (per_validator_units b pool_units (length validator_ids)) (\<lambda>per.
        pay_validators E b proposal_id pool_units per validator_ids 0 db)))"

section \<open>The import\<close>

definition certified :: "chain_env \<Rightarrow> block \<Rightarrow> certified_block" where
  "certified E b =
     \<lparr>cb_height = bk_height b, cb_block_hash = bk_block_hash b, cb_previous_hash = bk_previous_hash b,
      cb_state_root = bk_state_root b, cb_miner_id = bk_miner_id b, cb_result_hash = bk_result_hash b,
      cb_merkle_root = bk_merkle_root b, cb_tx_merkle_root = bk_tx_merkle_root b, cb_tx_count = bk_tx_count b,
      cb_protocol_version = str_or (bk_protocol_version b) (PROTOCOL_VERSION E),
      cb_protocol_params_id = bk_protocol_params_id b\<rparr>"

definition miner_account :: "block \<Rightarrow> string" where
  "miner_account b = str_or (bk_miner_reward_address b) (bk_miner_id b)"

definition miner_account_type :: "block \<Rightarrow> string" where
  "miner_account_type b = (if truthy_text (bk_miner_reward_address b) then ''wallet'' else ''miner'')"

definition miner_reward_args :: "block \<Rightarrow> string \<Rightarrow> reward_args" where
  "miner_reward_args b proposal_id =
     \<lparr>ra_miner_id = bk_miner_id b, ra_account_id = miner_account b, ra_account_type = miner_account_type b,
      ra_block_height = bk_height b, ra_amount = bk_reward b, ra_reason = ''distributed block finalized'',
      ra_related_id = Some proposal_id, ra_description = ''distributed finalized miner reward''\<rparr>"

text \<open>The guards against the local chain; \<open>Inr False\<close> when the block is there already.\<close>

definition import_admissible :: "chain_env \<Rightarrow> block \<Rightarrow> 'a db_consensus_scheme \<Rightarrow> bool result" where
  "import_admissible E b db =
     bindE (validate_block_hash E b) (\<lambda>_.
     let tip = latest_tip E db in
     if bk_height b \<le> tip_height tip
     then (case tbl_find bl_height (bk_height b) (blocks db) of
         Some r \<Rightarrow> if bl_block_hash r = bk_block_hash b then Inr False
           else Inl (ConsensusError 409 ''finalized block conflicts with local chain'')
       | None \<Rightarrow> Inl (ConsensusError 409 ''finalized block conflicts with local chain''))
     else if bk_height b \<noteq> tip_height tip + 1
     then Inl (ConsensusError 409 ''cannot import block before ancestors'')
     else if \<not> matches_local_parent b tip
     then Inl (ConsensusError 409 ''finalized block previous_hash does not match local chain tip'')
     else bindE (reject_duplicate_block_material db b) (\<lambda>_. Inr True))"

text \<open>From the rows the block refers to up to the row of the block.\<close>

definition record_block :: "chain_env \<Rightarrow> int \<Rightarrow> block \<Rightarrow> 'a db_consensus_scheme \<Rightarrow> 'a db_consensus_scheme result" where
  "record_block E now b db =
     (let db1 = ensure_miner E now (bk_miner_id b) db;
          params_id = resolve_local_protocol_params_id db1 (bk_protocol_params_id b);
          task_id = block_task_id b in
      bindE (ensure_task b params_id db1) (\<lambda>db2.
      bindE (validate_finality_certificate_for_block (ce_sha256 E) (ce_verify E) (certified E b)
        (bk_finality_certificate b) task_id) (\<lambda>_.
      bindE (admit_block_transactions E b db2) (\<lambda>db3.
      store_block E b task_id params_id db3))))"

text \<open>The money: the miner, the transactions, the reserve, the treasury, the validators, the rewards
  that mature.\<close>

definition settle_transactions :: "chain_env \<Rightarrow> block \<Rightarrow> 'a db_consensus_scheme \<Rightarrow> 'a db_consensus_scheme result" where
  "settle_transactions E b db =
     (if bk_transactions b = [] then Inr db
      else bindE (apply_block_transactions (ce_node E) (miner_account b) (miner_account_type b) (bk_height b)
        (bk_transactions b) (Some (bk_timestamp b)) True db) (\<lambda>(_, db1). Inr db1))"

definition settle_block ::
  "chain_env \<Rightarrow> int \<Rightarrow> block \<Rightarrow> string \<Rightarrow> 'a db_consensus_scheme \<Rightarrow> 'a db_consensus_scheme result" where
  "settle_block E now b proposal_id db =
     (let S = ne_settings (ce_node E) in
      bindE (record_miner_block_reward (st_block_maturity_depth S) (miner_reward_args b proposal_id) (bk_timestamp b) db)
        (\<lambda>(_, db1).
      bindE (settle_transactions E b db1) (\<lambda>db2.
      bindE (to_units (FloatA (bk_reward b))) (\<lambda>miner_units.
      let total_units = total_units_from_miner_reward_units miner_units;
          total_reward = reward_units_to_float total_units in
      bindE (record_science_reserve_for_block now (bk_height b) total_reward db2) (\<lambda>(_, db3).
      bindE (record_scientific_development_treasury_for_block S now (bk_height b) total_reward db3) (\<lambda>(_, db4).
      bindE (apply_distributed_validator_rewards E b proposal_id total_units db4) (\<lambda>db5.
      bindE (mature_block_rewards (bk_height b) (bk_timestamp b) db5) (\<lambda>(_, db6). Inr db6))))))))"

definition check_state_root :: "block \<Rightarrow> string \<Rightarrow> unit result" where
  "check_state_root b state_root =
     (if truthy_text (bk_state_root b) \<and> bk_state_root b \<noteq> Some state_root
      then Inl (ConsensusError 422 ''state_root mismatch after canonical replay'') else Inr ())"

definition import_finalized_block ::
  "chain_env \<Rightarrow> int \<Rightarrow> block \<Rightarrow> string \<Rightarrow> 'a db_consensus_scheme \<Rightarrow> (bool \<times> 'a db_consensus_scheme) result" where
  "import_finalized_block E now b proposal_id db =
     bindE (import_admissible E b db) (\<lambda>fresh.
     if \<not> fresh then Inr (False, db)
     else
       bindE (record_block E now b db) (\<lambda>db1.
       bindE (settle_block E now b proposal_id db1) (\<lambda>db2.
       bindE (update_block_state_root E (bk_height b) (bk_timestamp b) db2) (\<lambda>(state_root, db3).
       bindE (check_state_root b state_root) (\<lambda>_.
       bindE (store_finality_certificate_for_block (ce_sha256 E) (ce_verify E) (certified E b) (bk_samples b)
         (bk_finality_certificate b) (block_task_id b) db3) (\<lambda>db4. Inr (True, db4)))))))"

end
