(* ===== verification/Consensus.thy ===== *)
theory Consensus
  imports BlockImport "HOL-Library.Product_Lexorder"
begin

text \<open>
  Proposals and votes (\<open>app/services/consensus.py\<close>): \<open>propose_block\<close>,
  \<open>record_local_block_proposal\<close>, \<open>vote_on_proposal\<close>, \<open>finalize_proposal\<close>, the promotion of
  proposals whose ancestors have arrived, and the fork choice. Every operation is one database
  transaction; a raised exception rolls it back. Gossip and the request for missing ancestors are
  network traffic of the caller and are left out: what they bring arrives as further operations.
\<close>

section \<open>Texts\<close>

text \<open>\<open>json.dumps(x, sort_keys=True)\<close>, with blanks after commas and colons.\<close>

fun join_text :: "string \<Rightarrow> string list \<Rightarrow> string" where
  "join_text sep [] = []"
| "join_text sep [s] = s"
| "join_text sep (s # t # ts) = s @ sep @ join_text sep (t # ts)"

fun json_dumps :: "json \<Rightarrow> string" where
  "json_dumps (JList xs) = ''['' @ join_text '', '' (map json_dumps xs) @ '']''"
| "json_dumps (JObj kvs) = ''{'' @ join_text '', '' (map snd (sort_key fst
     (map (\<lambda>(k, v). (k, json_str k @ '': '' @ json_dumps v)) kvs))) @ ''}''"
| "json_dumps j = canonical_json j"

definition proposal_id :: "chain_env \<Rightarrow> string \<Rightarrow> string" where
  "proposal_id E block_hash = ce_sha256 E (''proposal:'' @ block_hash)"

definition consensus_vote_payload ::
  "string \<Rightarrow> string \<Rightarrow> int \<Rightarrow> string \<Rightarrow> bool \<Rightarrow> string \<Rightarrow> string \<Rightarrow> json" where
  "consensus_vote_payload pid block_hash height validator_id approved reason signed_at =
     JObj [(''approved'', JBool approved), (''block_hash'', JStr block_hash), (''height'', JInt height),
       (''proposal_id'', JStr pid), (''reason'', JStr reason), (''signed_at'', JStr signed_at),
       (''validator_id'', JStr validator_id)]"

definition record_consensus_event ::
  "int \<Rightarrow> string \<Rightarrow> string \<Rightarrow> json \<Rightarrow> 'a db_consensus_scheme \<Rightarrow> 'a db_consensus_scheme" where
  "record_consensus_event now event_type status details db =
     db\<lparr>sync_events := sync_events db @ [\<lparr>ev_event_type = event_type, ev_status = status, ev_details = details,
       ev_created_at = now\<rparr>]\<rparr>"

definition find_proposal :: "string \<Rightarrow> 'a db_consensus_scheme \<Rightarrow> proposal option" where
  "find_proposal pid db = tbl_find pr_proposal_id pid (proposals db)"

definition update_proposal ::
  "string \<Rightarrow> (proposal \<Rightarrow> proposal) \<Rightarrow> 'a db_consensus_scheme \<Rightarrow> 'a db_consensus_scheme" where
  "update_proposal pid f db = db\<lparr>proposals := tbl_update (\<lambda>p. pr_proposal_id p = pid) f (proposals db)\<rparr>"

definition proposal_event :: "block \<Rightarrow> string \<Rightarrow> json" where
  "proposal_event b pid = JObj [(''proposal_id'', JStr pid), (''block_hash'', JStr (bk_block_hash b)),
     (''height'', JInt (bk_height b))]"

section \<open>Proposals\<close>

text \<open>The status and reason a received block gets from the local chain.\<close>

definition covered_by_chain :: "block \<Rightarrow> 'a db_consensus_scheme \<Rightarrow> (string \<times> string option) result" where
  "covered_by_chain b db =
     (if (case tbl_find bl_height (bk_height b) (blocks db) of
            Some r \<Rightarrow> bl_block_hash r = bk_block_hash b | None \<Rightarrow> False)
      then Inr (''known'', Some ''block already exists locally'')
      else if (case active_snapshot_base_in_connection db of
            Some s \<Rightarrow> si_height s = bk_height b \<and> si_block_hash s = bk_block_hash b | None \<Rightarrow> False)
      then Inr (''known'', Some ''block already covered by active snapshot base'')
      else Inl (ConsensusError 409 ''proposal conflicts with local finalized chain''))"

definition received_status :: "chain_env \<Rightarrow> block \<Rightarrow> 'a db_consensus_scheme \<Rightarrow> (string \<times> string option) result" where
  "received_status E b db =
     (let tip = latest_tip E db in
      if bk_height b \<le> tip_height tip then covered_by_chain b db
      else if bk_height b = tip_height tip + 1 \<and> \<not> matches_local_parent b tip
      then Inr (''pending_missing_ancestors'', Some ''proposal accepted but previous_hash is not local chain tip'')
      else if tip_height tip + 1 < bk_height b
      then Inr (''pending_missing_ancestors'', Some ''proposal accepted but missing ancestor blocks'')
      else Inr (''pending'', None))"

definition new_proposal ::
  "chain_env \<Rightarrow> int \<Rightarrow> block \<Rightarrow> string \<Rightarrow> string \<Rightarrow> string option \<Rightarrow> int option \<Rightarrow> proposal" where
  "new_proposal E now b proposer status reason finalized_at =
     \<lparr>pr_proposal_id = proposal_id E (bk_block_hash b), pr_block_hash = bk_block_hash b, pr_height = bk_height b,
      pr_previous_hash = bk_previous_hash b, pr_proposer_node_id = proposer, pr_status = status, pr_payload = b,
      pr_approvals = 0, pr_rejections = 0, pr_rejection_reason = reason, pr_finalized_at = finalized_at,
      pr_created_at = now, pr_updated_at = now\<rparr>"

text \<open>\<open>INSERT \<dots> ON CONFLICT(proposal_id) DO UPDATE\<close>; \<open>block_hash\<close> is UNIQUE as well.\<close>

definition upsert_proposal ::
  "(proposal \<Rightarrow> proposal) \<Rightarrow> proposal \<Rightarrow> 'a db_consensus_scheme \<Rightarrow> 'a db_consensus_scheme result" where
  "upsert_proposal f p db =
     (if \<exists>q \<in> set (proposals db). pr_proposal_id q \<noteq> pr_proposal_id p \<and> pr_block_hash q = pr_block_hash p
      then Inl (IntegrityError ''consensus_block_proposals.block_hash'')
      else Inr (db\<lparr>proposals := tbl_upsert pr_proposal_id f p (proposals db)\<rparr>))"

definition reproposed :: "proposal \<Rightarrow> proposal \<Rightarrow> proposal" where
  "reproposed new p =
     p\<lparr>pr_proposer_node_id := pr_proposer_node_id new,
       pr_status := (if pr_status p \<in> {''finalized'', ''imported'', ''rejected''} then pr_status p else pr_status new),
       pr_payload := pr_payload new,
       pr_rejection_reason := (case pr_rejection_reason p of None \<Rightarrow> pr_rejection_reason new | Some r \<Rightarrow> Some r),
       pr_updated_at := pr_updated_at new\<rparr>"

definition propose_block ::
  "chain_env \<Rightarrow> int \<Rightarrow> block \<Rightarrow> string \<Rightarrow> 'a db_consensus_scheme \<Rightarrow> (proposal \<times> 'a db_consensus_scheme) result" where
  "propose_block E now block0 proposer db =
     bindE (normalize_block E block0) (\<lambda>b.
     bindE (validate_block_hash E b) (\<lambda>_.
     bindE (received_status E b db) (\<lambda>(status, reason).
     let new = new_proposal E now b proposer status reason None; pid = pr_proposal_id new in
     bindE (upsert_proposal (reproposed new) new db) (\<lambda>db1.
     let db2 = record_consensus_event now ''block_proposed'' status (proposal_event b pid) db1 in
     case find_proposal pid db2 of None \<Rightarrow> Inl TypeError | Some p \<Rightarrow> Inr (p, db2)))))"

definition mined_again :: "proposal \<Rightarrow> proposal \<Rightarrow> proposal" where
  "mined_again new p =
     p\<lparr>pr_status := (if pr_status p \<in> {''finalized'', ''imported''} then pr_status p else ''imported''),
       pr_payload := pr_payload new,
       pr_finalized_at := (case pr_finalized_at p of None \<Rightarrow> pr_finalized_at new | Some t \<Rightarrow> Some t),
       pr_updated_at := pr_updated_at new\<rparr>"

definition record_local_block_proposal ::
  "chain_env \<Rightarrow> int \<Rightarrow> block \<Rightarrow> string option \<Rightarrow> 'a db_consensus_scheme \<Rightarrow> (proposal \<times> 'a db_consensus_scheme) result" where
  "record_local_block_proposal E now block0 proposer db =
     bindE (normalize_block E block0) (\<lambda>b.
     bindE (validate_block_hash E b) (\<lambda>_.
     let new = new_proposal E now b (str_or proposer (ce_node_id E)) ''imported'' (Some ''locally mined block'') (Some now);
         pid = pr_proposal_id new in
     bindE (upsert_proposal (mined_again new) new db) (\<lambda>db1.
     let db2 = record_consensus_event now ''local_block_proposed'' ''imported'' (proposal_event b pid) db1 in
     case find_proposal pid db2 of None \<Rightarrow> Inl TypeError | Some p \<Rightarrow> Inr (p, db2))))"

section \<open>Proposals whose ancestors have arrived\<close>

definition parent_exists :: "chain_env \<Rightarrow> 'a db_consensus_scheme \<Rightarrow> int \<Rightarrow> string \<Rightarrow> bool" where
  "parent_exists E db height previous_hash \<longleftrightarrow>
     (if height = 1 \<and> previous_hash \<in> {ce_genesis_hash E, LEGACY_ZERO_GENESIS_HASH} then True
      else (case tbl_find bl_height (height - 1) (blocks db) of
              Some r \<Rightarrow> bl_block_hash r = previous_hash | None \<Rightarrow> False)) \<or>
     (case active_snapshot_base_in_connection db of
        Some s \<Rightarrow> si_height s = height - 1 \<and> si_block_hash s = previous_hash | None \<Rightarrow> False)"

definition promote_row ::
  "chain_env \<Rightarrow> int \<Rightarrow> proposal \<Rightarrow> 'a db_consensus_scheme \<times> nat \<Rightarrow> 'a db_consensus_scheme \<times> nat" where
  "promote_row E now row st = (case st of (db, promoted) \<Rightarrow>
     if parent_exists E db (pr_height row) (pr_previous_hash row)
     then (update_proposal (pr_proposal_id row)
             (\<lambda>p. if pr_status p = ''pending_missing_ancestors''
                  then p\<lparr>pr_status := ''pending'', pr_rejection_reason := None, pr_updated_at := now\<rparr> else p) db,
           promoted + 1)
     else st)"

text \<open>\<open>WHERE status = 'pending_missing_ancestors' ORDER BY height ASC, created_at ASC\<close>.\<close>

definition promote_ready_missing_ancestor_proposals ::
  "chain_env \<Rightarrow> int \<Rightarrow> 'a db_consensus_scheme \<Rightarrow> 'a db_consensus_scheme \<times> nat" where
  "promote_ready_missing_ancestor_proposals E now db =
     fold (promote_row E now) (sort_key pr_height (sort_key pr_created_at
       (filter (\<lambda>p. pr_status p = ''pending_missing_ancestors'') (proposals db)))) (db, 0)"

section \<open>Fork choice\<close>

definition fdiv :: "pyfloat \<Rightarrow> pyfloat \<Rightarrow> pyfloat" where
  "fdiv x y = fl (x / y)"

definition validator_weight :: "chain_env \<Rightarrow> pyfloat \<Rightarrow> pyfloat \<Rightarrow> pyfloat" where
  "validator_weight E trust_score stake0 =
     (let trust = max 0 trust_score; stake = max 0 stake0; m = MIN_VALIDATOR_STAKE E;
          stake_units = (if 0 < m then min (fdiv stake m) 100 else 0) in
      py_round 8 (fmul trust (fadd 1 stake_units)))"

text \<open>The join with \<open>validators\<close>: a vote of an unknown validator has no score and no stake.\<close>

definition vote_weight :: "chain_env \<Rightarrow> 'a db_consensus_scheme \<Rightarrow> consensus_vote \<Rightarrow> pyfloat" where
  "vote_weight E db v = (case find_validator (cv_validator_id v) db of
     None \<Rightarrow> validator_weight E 0 0
   | Some w \<Rightarrow> validator_weight E (v_trust_score w) (eligibility_stake E w))"

definition proposal_votes :: "string \<Rightarrow> bool \<Rightarrow> 'a db_consensus_scheme \<Rightarrow> consensus_vote list" where
  "proposal_votes pid approved db =
     filter (\<lambda>v. cv_proposal_id v = pid \<and> cv_approved v = approved) (consensus_votes db)"

text \<open>\<open>sum\<close> of floats, with the compensation that Python has since version 3.12, the one of the
  repository's \<open>docker-compose.yml\<close>.\<close>

definition sum_step :: "pyfloat \<times> pyfloat \<Rightarrow> pyfloat \<Rightarrow> pyfloat \<times> pyfloat" where
  "sum_step acc x =
     (let (s, c) = acc; t = fadd s x in
      (t, fadd c (if \<bar>x\<bar> \<le> \<bar>s\<bar> then fadd (fsub s t) x else fadd (fsub x t) s)))"

definition py_sum :: "pyfloat list \<Rightarrow> pyfloat" where
  "py_sum xs = (let (s, c) = foldl sum_step (0, 0) xs in if c = 0 then s else fadd s c)"

text \<open>\<open>round(sum(\<dots>), 8)\<close>.\<close>

definition proposal_vote_weight :: "chain_env \<Rightarrow> string \<Rightarrow> bool \<Rightarrow> 'a db_consensus_scheme \<Rightarrow> pyfloat" where
  "proposal_vote_weight E pid approved db =
     py_round 8 (py_sum (map (vote_weight E db) (proposal_votes pid approved db)))"

definition fork_choice_status_rank :: "string \<Rightarrow> int" where
  "fork_choice_status_rank status =
     (case map_of [(''imported'', 0), (''finalized'', 1), (''approved'', 2), (''validation_pending'', 3), (''pending'', 4),
        (''pending_missing_ancestors'', 5), (''pending_replay'', 6)] status of Some r \<Rightarrow> r | None \<Rightarrow> 7)"

definition fork_choice_sort_key ::
  "chain_env \<Rightarrow> 'a db_consensus_scheme \<Rightarrow> proposal \<Rightarrow> int \<times> pyfloat \<times> pyfloat \<times> int \<times> int \<times> int \<times> string" where
  "fork_choice_sort_key E db p =
     (fork_choice_status_rank (pr_status p), - proposal_vote_weight E (pr_proposal_id p) True db,
      proposal_vote_weight E (pr_proposal_id p) False db, - pr_approvals p, pr_rejections p, pr_created_at p,
      pr_block_hash p)"

text \<open>The proposals that compete: of the height and parent, not rejected, and no other block of the
  chain has the height.\<close>

definition fork_candidates :: "int \<Rightarrow> string \<Rightarrow> 'a db_consensus_scheme \<Rightarrow> proposal list" where
  "fork_candidates height previous_hash db =
     filter (\<lambda>p. pr_height p = height \<and> pr_previous_hash p = previous_hash \<and> pr_status p \<noteq> ''rejected'' \<and>
       \<not> (\<exists>b \<in> set (blocks db). bl_height b = pr_height p \<and> bl_block_hash b \<noteq> pr_block_hash p)) (proposals db)"

definition select_fork_choice ::
  "chain_env \<Rightarrow> int \<Rightarrow> string \<Rightarrow> 'a db_consensus_scheme \<Rightarrow> proposal option" where
  "select_fork_choice E height previous_hash db =
     (case sort_key (fork_choice_sort_key E db) (fork_candidates height previous_hash db) of
        [] \<Rightarrow> None | p # ps \<Rightarrow> Some p)"

section \<open>Finalization\<close>

definition upsert_finalization ::
  "finalization \<Rightarrow> 'a db_consensus_scheme \<Rightarrow> 'a db_consensus_scheme" where
  "upsert_finalization r db =
     db\<lparr>finalizations := tbl_upsert fi_proposal_id
       (\<lambda>f. f\<lparr>fi_approvals := fi_approvals r, fi_validator_ids := fi_validator_ids r, fi_imported := fi_imported r,
            fi_finalized_at := fi_finalized_at r\<rparr>) r (finalizations db)\<rparr>"

definition finalization_of ::
  "chain_env \<Rightarrow> int \<Rightarrow> proposal \<Rightarrow> int \<Rightarrow> string list \<Rightarrow> bool \<Rightarrow> finalization" where
  "finalization_of E now p required validator_ids imported =
     \<lparr>fi_finalization_id = ce_sha256 E (pr_proposal_id p @ '':'' @ isoformat now @ '':finalized''),
      fi_proposal_id = pr_proposal_id p, fi_block_hash = pr_block_hash p, fi_height = pr_height p, fi_quorum = required,
      fi_approvals = pr_approvals p, fi_validator_ids = validator_ids, fi_imported = imported, fi_finalized_at = now\<rparr>"

definition finalization_event :: "proposal \<Rightarrow> string list \<Rightarrow> json" where
  "finalization_event p validator_ids = JObj [(''proposal_id'', JStr (pr_proposal_id p)),
     (''block_hash'', JStr (pr_block_hash p)), (''height'', JInt (pr_height p)),
     (''validators'', JList (map JStr validator_ids))]"

text \<open>After the guards: import, promotion, the finalization row, the status.\<close>

definition close_proposal ::
  "chain_env \<Rightarrow> int \<Rightarrow> proposal \<Rightarrow> int \<Rightarrow> 'a db_consensus_scheme \<Rightarrow> (proposal \<times> 'a db_consensus_scheme) result" where
  "close_proposal E now p required db =
     bindE (import_finalized_block E now (pr_payload p) (pr_proposal_id p) db) (\<lambda>(imported, db1).
     let db2 = (if imported then fst (promote_ready_missing_ancestor_proposals E now db1) else db1);
         validator_ids = approving_validators (pr_proposal_id p) required db2;
         status = (if imported then ''imported'' else ''finalized'');
         db3 = upsert_finalization (finalization_of E now p required validator_ids imported) db2;
         db4 = update_proposal (pr_proposal_id p)
           (\<lambda>q. q\<lparr>pr_status := status, pr_finalized_at := Some now, pr_updated_at := now\<rparr>) db3;
         db5 = record_consensus_event now ''block_finalized'' status (finalization_event p validator_ids) db4 in
     case find_proposal (pr_proposal_id p) db5 of None \<Rightarrow> Inl TypeError | Some q \<Rightarrow> Inr (q, db5))"

definition finalize_proposal ::
  "chain_env \<Rightarrow> int \<Rightarrow> string \<Rightarrow> 'a db_consensus_scheme \<Rightarrow> (proposal \<times> 'a db_consensus_scheme) result" where
  "finalize_proposal E now pid db =
     (case find_proposal pid db of
        None \<Rightarrow> Inl (ConsensusError 404 ''block proposal not found'')
      | Some p \<Rightarrow>
        if pr_status p \<in> {''finalized'', ''imported''} then Inr (p, db)
        else let required = required_validator_approvals_for_quorum E db in
          if pr_approvals p < required then Inl (ConsensusError 409 ''validator quorum not reached'')
          else if (case select_fork_choice E (pr_height p) (pr_previous_hash p) db of
                     None \<Rightarrow> False | Some w \<Rightarrow> pr_proposal_id w \<noteq> pid)
          then Inl (ConsensusError 409 ''proposal is not fork-choice winner'')
          else close_proposal E now p required db)"

section \<open>Votes\<close>

definition refresh_vote_counts :: "int \<Rightarrow> string \<Rightarrow> 'a db_consensus_scheme \<Rightarrow> 'a db_consensus_scheme" where
  "refresh_vote_counts now pid db =
     update_proposal pid (\<lambda>p. p\<lparr>pr_approvals := int (length (proposal_votes pid True db)),
       pr_rejections := int (length (proposal_votes pid False db)), pr_updated_at := now\<rparr>) db"

definition check_voter :: "chain_env \<Rightarrow> string \<Rightarrow> 'a db_consensus_scheme \<Rightarrow> validator_row result" where
  "check_voter E validator_id db =
     (case find_validator validator_id db of
        None \<Rightarrow> Inl (ConsensusError 404 ''validator not found'')
      | Some v \<Rightarrow>
        if v_is_banned v then Inl (ConsensusError 403 ''validator is banned'')
        else if \<not> v_enabled v then Inl (ConsensusError 403 ''validator is disabled'')
        else if v_online_status v \<noteq> ''online'' then Inl (ConsensusError 403 (''validator is '' @ v_online_status v))
        else if v_sync_status v = ''out_of_sync'' then Inl (ConsensusError 403 ''validator is out_of_sync'')
        else if v_protocol_version v \<noteq> PROTOCOL_VERSION E
        then Inl (ConsensusError 403 ''validator protocol version is incompatible'')
        else Inr v)"

definition competing_vote :: "string \<Rightarrow> proposal \<Rightarrow> 'a db_consensus_scheme \<Rightarrow> bool" where
  "competing_vote validator_id p db \<longleftrightarrow>
     (\<exists>v \<in> set (consensus_votes db). cv_validator_id v = validator_id \<and>
        (case find_proposal (cv_proposal_id v) db of
           None \<Rightarrow> False
         | Some q \<Rightarrow> pr_height q = pr_height p \<and> pr_previous_hash q = pr_previous_hash p \<and>
             pr_proposal_id q \<noteq> pr_proposal_id p \<and> pr_status q \<noteq> ''rejected''))"

definition insert_vote :: "consensus_vote \<Rightarrow> 'a db_consensus_scheme \<Rightarrow> 'a db_consensus_scheme result" where
  "insert_vote v db =
     (if \<exists>w \<in> set (consensus_votes db). cv_vote_id w = cv_vote_id v \<or>
          cv_proposal_id w = cv_proposal_id v \<and> cv_validator_id w = cv_validator_id v
      then Inl (IntegrityError ''consensus_votes'')
      else Inr (db\<lparr>consensus_votes := consensus_votes db @ [v]\<rparr>))"

record ballot =
  ba_validator_id :: string
  ba_approved :: bool
  ba_reason :: string
  ba_signature :: string
  ba_signed_at :: string

definition ballot_payload :: "proposal \<Rightarrow> ballot \<Rightarrow> json" where
  "ballot_payload p x = consensus_vote_payload (pr_proposal_id p) (pr_block_hash p) (pr_height p)
     (ba_validator_id x) (ba_approved x) (ba_reason x) (ba_signed_at x)"

definition vote_of :: "chain_env \<Rightarrow> int \<Rightarrow> proposal \<Rightarrow> ballot \<Rightarrow> consensus_vote" where
  "vote_of E now p x =
     \<lparr>cv_vote_id = ce_sha256 E (json_dumps (ballot_payload p x)), cv_proposal_id = pr_proposal_id p,
      cv_block_hash = pr_block_hash p, cv_validator_id = ba_validator_id x, cv_approved = ba_approved x,
      cv_reason = ba_reason x, cv_signature = ba_signature x, cv_signed_at = ba_signed_at x, cv_created_at = now\<rparr>"

text \<open>The guards of a vote, in their order.\<close>

definition check_ballot ::
  "chain_env \<Rightarrow> proposal \<Rightarrow> ballot \<Rightarrow> 'a db_consensus_scheme \<Rightarrow> unit result" where
  "check_ballot E p x db =
     (if pr_status p \<in> {''finalized'', ''imported'', ''rejected''}
      then Inl (ConsensusError 409 (''proposal already '' @ pr_status p))
      else bindE (check_voter E (ba_validator_id x) db) (\<lambda>validator.
        if \<exists>v \<in> set (consensus_votes db). cv_proposal_id v = pr_proposal_id p \<and> cv_validator_id v = ba_validator_id x
        then Inl (ConsensusError 409 ''validator already voted on proposal'')
        else if competing_vote (ba_validator_id x) p db
        then Inl (ConsensusError 409 ''validator already voted on competing fork'')
        else bindE (verify_payload_signature (ce_verify E) (v_public_key validator) (ballot_payload p x) (ba_signature x))
          (\<lambda>ok. if ok then Inr () else Inl (ConsensusError 401 ''invalid consensus vote signature''))))"

definition vote_event :: "proposal \<Rightarrow> ballot \<Rightarrow> json" where
  "vote_event p x = JObj [(''proposal_id'', JStr (pr_proposal_id p)), (''validator_id'', JStr (ba_validator_id x)),
     (''approved'', JBool (ba_approved x)), (''approvals'', JInt (pr_approvals p)), (''rejections'', JInt (pr_rejections p))]"

text \<open>After the vote is counted: finalization or rejection when a quorum is reached.\<close>

definition conclude_vote ::
  "chain_env \<Rightarrow> int \<Rightarrow> proposal \<Rightarrow> 'a db_consensus_scheme \<Rightarrow> (proposal \<times> 'a db_consensus_scheme) result" where
  "conclude_vote E now p db =
     (let required = required_validator_approvals_for_quorum E db in
      if required \<le> pr_approvals p then finalize_proposal E now (pr_proposal_id p) db
      else if required \<le> pr_rejections p
      then let db1 = update_proposal (pr_proposal_id p) (\<lambda>q. q\<lparr>pr_status := ''rejected'',
             pr_rejection_reason := Some ''validator rejection quorum reached'', pr_updated_at := now\<rparr>) db in
        case find_proposal (pr_proposal_id p) db1 of None \<Rightarrow> Inl TypeError | Some q \<Rightarrow> Inr (q, db1)
      else Inr (p, db))"

definition count_vote ::
  "chain_env \<Rightarrow> int \<Rightarrow> proposal \<Rightarrow> ballot \<Rightarrow> 'a db_consensus_scheme \<Rightarrow> (proposal \<times> 'a db_consensus_scheme) result" where
  "count_vote E now p x db =
     bindE (insert_vote (vote_of E now p x) db) (\<lambda>db1.
     let db2 = refresh_vote_counts now (pr_proposal_id p) db1 in
     case find_proposal (pr_proposal_id p) db2 of
       None \<Rightarrow> Inl TypeError
     | Some q \<Rightarrow> Inr (q, record_consensus_event now ''consensus_vote'' ''accepted'' (vote_event q x) db2))"

definition vote_on_proposal ::
  "chain_env \<Rightarrow> int \<Rightarrow> string \<Rightarrow> ballot \<Rightarrow> 'a db_consensus_scheme \<Rightarrow> (proposal \<times> 'a db_consensus_scheme) result" where
  "vote_on_proposal E now pid x db =
     (case find_proposal pid db of
        None \<Rightarrow> Inl (ConsensusError 404 ''block proposal not found'')
      | Some p \<Rightarrow>
        bindE (check_ballot E p x db) (\<lambda>_.
        bindE (count_vote E now p x db) (\<lambda>(q, db1).
        conclude_vote E now q db1)))"

end
