(* ===== verification/Tasks.thy ===== *)
theory Tasks
  imports Consensus
begin

text \<open>
  Assignment of ranges of pi to miners (\<open>app/services/mining.py\<close>): the active protocol
  parameters, the window of range starts that is open, \<open>_assign_pseudo_random_range\<close> with its
  seeded attempts and its scan of the window, \<open>_competitive_round_assignment\<close>, and the
  identifiers of competitive tasks. \<open>db_mining\<close> adds the tables of commitments, submissions and
  penalties.

  Lemmas: an assigned range lies in the window and below the limit, overlaps no active task and
  starts nowhere a protected task starts; one is found exactly when the window holds one; the
  competitive assignment looks at neither the limit nor the active tasks.
\<close>

section \<open>Environment and tables\<close>

text \<open>\<open>me_sample seed n k\<close> is \<open>random.Random(seed).sample(range(n), k)\<close>, \<open>me_log10\<close> is \<open>math.log10\<close> and
  \<open>me_valid_key\<close> says whether \<open>validate_public_key\<close> accepts a text, all outside the source; the rest
  are settings. The size of a segment is positive, as the parameters of every protocol version have it.\<close>

record mining_env =
  me_chain :: chain_env
  me_log10 :: "int \<Rightarrow> pyfloat"
  me_sample :: "string \<Rightarrow> nat \<Rightarrow> nat \<Rightarrow> nat list"
  me_valid_key :: "string \<Rightarrow> bool"
  me_competitive :: bool
  me_range_start_window_size :: int
  me_range_window_retire_occupancy :: pyfloat
  me_range_window_max_age_blocks :: int
  me_range_window_lookahead_multiplier :: int
  me_retarget_max_pi_position :: int
  me_assignment_timeout_seconds :: int
  me_heartbeat_min_interval_seconds :: int

record commitment =
  cm_task_id :: string
  cm_miner_id :: string
  cm_result_hash :: string
  cm_merkle_root :: string
  cm_challenge_seed :: string
  cm_samples :: "int list"
  cm_commit_tx_merkle_root :: string
  cm_mempool_snapshot_id :: "string option"
  cm_commit_selected_tx_hashes_hash :: "string option"
  cm_commit_tx_count :: int
  cm_commit_tx_fee_total_units :: int
  cm_signature :: string
  cm_signed_at :: string
  cm_created_at :: int

record submission =
  sb_task_id :: string
  sb_miner_id :: string
  sb_result_hash :: string
  sb_segment_length :: int
  sb_signature :: "string option"
  sb_accepted :: bool
  sb_reason :: string
  sb_created_at :: int

record penalty =
  pe_miner_id :: string
  pe_task_id :: string
  pe_points :: int
  pe_reason :: string
  pe_created_at :: int

record rejected_submission =
  rj_task_id :: string
  rj_miner_id :: string
  rj_result_hash :: string
  rj_reason :: string
  rj_created_at :: int

record db_mining = db_consensus +
  commitments :: "commitment list"
  submissions :: "submission list"
  penalties :: "penalty list"
  rejected_submissions :: "rejected_submission list"

definition COMPETITIVE_ROUND_ASSIGNMENT_MODE :: string where
  "COMPETITIVE_ROUND_ASSIGNMENT_MODE = ''competitive_round''"

definition RANGE_ASSIGNMENT_MAX_ATTEMPTS :: int where "RANGE_ASSIGNMENT_MAX_ATTEMPTS = 512"

abbreviation me_node :: "mining_env \<Rightarrow> node_env" where "me_node M \<equiv> ce_node (me_chain M)"

abbreviation me_sha256 :: "mining_env \<Rightarrow> string \<Rightarrow> string" where "me_sha256 M \<equiv> ce_sha256 (me_chain M)"

abbreviation me_now :: "mining_env \<Rightarrow> int" where "me_now M \<equiv> ne_clock (me_node M)"

section \<open>Protocol parameters\<close>

definition active_protocol_params :: "'a db_consensus_scheme \<Rightarrow> params_row result" where
  "active_protocol_params db =
     (case highest pp_id (filter pp_active (params_rows db)) of
        Some p \<Rightarrow> Inr p | None \<Rightarrow> Inl (MiningError 500 ''active protocol params not found''))"

definition protocol_params_by_id :: "int \<Rightarrow> 'a db_consensus_scheme \<Rightarrow> params_row option" where
  "protocol_params_by_id i db = tbl_find pp_id i (params_rows db)"

definition protocol_params_for_task :: "task_row \<Rightarrow> 'a db_consensus_scheme \<Rightarrow> params_row result" where
  "protocol_params_for_task t db =
     (case tk_protocol_params_id t of None \<Rightarrow> active_protocol_params db
      | Some i \<Rightarrow> (case protocol_params_by_id i db of Some p \<Rightarrow> Inr p | None \<Rightarrow> active_protocol_params db))"

definition resolve_RETARGET_MAX_PI_POSITION :: "mining_env \<Rightarrow> params_row \<Rightarrow> int" where
  "resolve_RETARGET_MAX_PI_POSITION M p =
     max 1 (case pp_retarget_max_pi_position p of None \<Rightarrow> me_retarget_max_pi_position M
       | Some v \<Rightarrow> if v = 0 then me_retarget_max_pi_position M else v)"

definition py_int :: "pyfloat \<Rightarrow> int" where "py_int x = (if 0 \<le> x then \<lfloor>x\<rfloor> else \<lceil>x\<rceil>)"

definition get_dynamic_expiration :: "mining_env \<Rightarrow> int \<Rightarrow> int" where
  "get_dynamic_expiration M max_pi_position =
     (if max_pi_position \<le> 1000000 then 600
      else py_int (fmul 600 (fdiv (me_log10 M max_pi_position) 6)))"

definition task_expiration_seconds_for_position :: "mining_env \<Rightarrow> params_row \<Rightarrow> int \<Rightarrow> int" where
  "task_expiration_seconds_for_position M p position =
     max (pp_task_expiration_seconds p)
       (get_dynamic_expiration M (max 1 (if position = 0 then 1 else position)))"

definition iso_at :: "mining_env \<Rightarrow> int \<Rightarrow> int" where "iso_at M seconds = me_now M + seconds * SECOND"

section \<open>The open window of range starts\<close>

definition ACTIVE_STATUSES :: "string list" where "ACTIVE_STATUSES = [''assigned'', ''committed'', ''revealed'']"

definition PROTECTED_STATUSES :: "string list" where "PROTECTED_STATUSES = ACTIVE_STATUSES @ [''accepted'']"

definition latest_block_hash :: "chain_env \<Rightarrow> 'a db_consensus_scheme \<Rightarrow> string" where
  "latest_block_hash E db = (case highest bl_height (blocks db) of None \<Rightarrow> ce_genesis_hash E | Some b \<Rightarrow> bl_block_hash b)"

definition latest_block_height :: "'a db_consensus_scheme \<Rightarrow> int" where
  "latest_block_height db = (case highest bl_height (blocks db) of None \<Rightarrow> 0 | Some b \<Rightarrow> bl_height b)"

definition accepted_range_frontier :: "string \<Rightarrow> 'a db_consensus_scheme \<Rightarrow> int" where
  "accepted_range_frontier algorithm db =
     max_or_0 (map bl_range_end (filter (\<lambda>b. bl_algorithm b = algorithm) (blocks db)) @
       map tk_range_end (filter (\<lambda>t. tk_algorithm t = algorithm \<and> tk_status t = ''accepted'') (tasks db)))"

definition used_starts :: "string \<Rightarrow> int \<Rightarrow> int \<Rightarrow> 'a db_mempool_scheme \<Rightarrow> int" where
  "used_starts algorithm lo hi db =
     int (length (remdups (map tk_range_start (filter (\<lambda>t. tk_algorithm t = algorithm \<and>
       tk_status t \<in> set PROTECTED_STATUSES \<and> lo \<le> tk_range_start t \<and> tk_range_start t \<le> hi) (tasks db)))))"

text \<open>\<open>SELECT MIN(height)\<close>: the height at which the window was opened.\<close>

definition first_height_in :: "string \<Rightarrow> int \<Rightarrow> int \<Rightarrow> 'a db_consensus_scheme \<Rightarrow> int option" where
  "first_height_in algorithm lo hi db =
     (case map bl_height (filter (\<lambda>b. bl_algorithm b = algorithm \<and> lo \<le> bl_range_start b \<and> bl_range_start b \<le> hi)
        (blocks db)) of [] \<Rightarrow> None | h # hs \<Rightarrow> Some (fold min hs h))"

definition window_open :: "mining_env \<Rightarrow> string \<Rightarrow> int \<Rightarrow> int \<Rightarrow> 'a db_consensus_scheme \<Rightarrow> int \<Rightarrow> bool" where
  "window_open M algorithm window_size latest_height db window_index =
     (let lo = window_index * window_size + 1; hi = (window_index + 1) * window_size;
          occupancy = fdiv (fl (of_int (used_starts algorithm lo hi db))) (fl (of_int window_size));
          age = (case first_height_in algorithm lo hi db of None \<Rightarrow> 0 | Some h \<Rightarrow> max 0 (latest_height - h + 1)) in
      occupancy < max 0 (min 1 (me_range_window_retire_occupancy M)) \<and>
      age < max 1 (me_range_window_max_age_blocks M))"

definition first_unretired_range_window ::
  "mining_env \<Rightarrow> string \<Rightarrow> int \<Rightarrow> int \<Rightarrow> int \<Rightarrow> 'a db_consensus_scheme \<Rightarrow> int" where
  "first_unretired_range_window M algorithm window_size latest_height frontier_window_index db =
     (case List.find (window_open M algorithm window_size latest_height db) [0..frontier_window_index] of
        Some w \<Rightarrow> w | None \<Rightarrow> frontier_window_index + 1)"

record range_window =
  rw_limit :: int
  rw_effective_max_pi_position :: int
  rw_frontier :: int
  rw_lookahead_window :: int
  rw_max_start :: int
  rw_min_start :: int
  rw_window_index :: int
  rw_window_size :: int

definition range_assignment_window :: "mining_env \<Rightarrow> params_row \<Rightarrow> 'a db_consensus_scheme \<Rightarrow> range_window" where
  "range_assignment_window M p db =
     (let segment_size = pp_segment_size p;
          configured_limit = max (pp_max_pi_position p) segment_size;
          limit = resolve_RETARGET_MAX_PI_POSITION M p;
          window_size = max (me_range_start_window_size M) segment_size;
          lookahead_window = max window_size (segment_size * me_range_window_lookahead_multiplier M);
          frontier = accepted_range_frontier (pp_algorithm p) db;
          frontier_window_index = max 0 ((max frontier 1 - 1) div window_size);
          w = first_unretired_range_window M (pp_algorithm p) window_size (latest_block_height db)
                frontier_window_index db;
          effective = min limit (max (max configured_limit ((w + 1) * window_size)) (frontier + lookahead_window)) in
      \<lparr>rw_limit = limit, rw_effective_max_pi_position = effective, rw_frontier = frontier,
       rw_lookahead_window = lookahead_window, rw_max_start = effective - segment_size + 1,
       rw_min_start = w * window_size + 1, rw_window_index = w, rw_window_size = window_size\<rparr>)"

section \<open>Assignable ranges\<close>

definition range_start_is_protected :: "int \<Rightarrow> string \<Rightarrow> 'a db_mempool_scheme \<Rightarrow> bool" where
  "range_start_is_protected range_start algorithm db \<longleftrightarrow>
     (\<exists>t \<in> set (tasks db). tk_algorithm t = algorithm \<and> tk_status t \<in> set PROTECTED_STATUSES \<and>
        tk_range_start t = range_start)"

definition range_start_is_accepted :: "int \<Rightarrow> string \<Rightarrow> 'a db_consensus_scheme \<Rightarrow> bool" where
  "range_start_is_accepted range_start algorithm db \<longleftrightarrow>
     (\<exists>t \<in> set (tasks db). accepted_start range_start algorithm t) \<or>
     (\<exists>b \<in> set (blocks db). bl_algorithm b = algorithm \<and> bl_range_start b = range_start)"

definition range_overlaps_active_task :: "int \<Rightarrow> int \<Rightarrow> string \<Rightarrow> 'a db_mempool_scheme \<Rightarrow> bool" where
  "range_overlaps_active_task range_start range_end algorithm db \<longleftrightarrow>
     (\<exists>t \<in> set (tasks db). tk_algorithm t = algorithm \<and> tk_status t \<in> set ACTIVE_STATUSES \<and>
        tk_range_start t \<le> range_end \<and> range_start \<le> tk_range_end t)"

definition range_is_assignable :: "int \<Rightarrow> int \<Rightarrow> string \<Rightarrow> 'a db_mempool_scheme \<Rightarrow> bool" where
  "range_is_assignable range_start range_end algorithm db \<longleftrightarrow>
     \<not> range_start_is_protected range_start algorithm db \<and>
     \<not> range_overlaps_active_task range_start range_end algorithm db"

section \<open>Assigned mode\<close>

record range_assignment =
  as_range_start :: int
  as_range_end :: int
  as_assignment_seed :: string
  as_round_height :: "int option"
  as_previous_hash :: "string option"

text \<open>\<open>int(digest, 16)\<close>.\<close>

definition hex_digit_value :: "char \<Rightarrow> int" where
  "hex_digit_value c = (let n = of_char c :: nat in if n < 58 then int n - 48 else int n - 87)"

definition hex_value :: "string \<Rightarrow> int" where
  "hex_value s = foldl (\<lambda>acc c. 16 * acc + hex_digit_value c) 0 s"

definition assignment_seed_fields ::
  "mining_env \<Rightarrow> string \<Rightarrow> string \<Rightarrow> params_row \<Rightarrow> range_window \<Rightarrow> (string \<times> json) \<Rightarrow> 'a db_consensus_scheme \<Rightarrow> json" where
  "assignment_seed_fields M miner_id task_id p w attempt db =
     JObj [(''algorithm'', JStr (pp_algorithm p)),
       (''effective_max_pi_position'', JInt (rw_effective_max_pi_position w)),
       (''min_start'', JInt (rw_min_start w)), (''miner_id'', JStr miner_id), attempt,
       (''previous_hash'', JStr (latest_block_hash (me_chain M) db)), (''segment_size'', JInt (pp_segment_size p)),
       (''task_counter'', JInt (int (length (tasks db)) + 1)), (''task_id'', JStr task_id)]"

definition range_from :: "params_row \<Rightarrow> string \<Rightarrow> int \<Rightarrow> range_assignment" where
  "range_from p seed range_start =
     \<lparr>as_range_start = range_start, as_range_end = range_start + pp_segment_size p - 1, as_assignment_seed = seed,
      as_round_height = None, as_previous_hash = None\<rparr>"

definition seeded_range ::
  "mining_env \<Rightarrow> string \<Rightarrow> string \<Rightarrow> params_row \<Rightarrow> range_window \<Rightarrow> 'a db_consensus_scheme \<Rightarrow> int \<Rightarrow> range_assignment" where
  "seeded_range M miner_id task_id p w db nonce =
     (let seed = me_sha256 M (canonical_json
            (assignment_seed_fields M miner_id task_id p w (''nonce'', JInt nonce) db)) in
      range_from p seed (rw_min_start w + hex_value seed mod (rw_max_start w - rw_min_start w + 1)))"

definition fallback_range ::
  "mining_env \<Rightarrow> string \<Rightarrow> string \<Rightarrow> params_row \<Rightarrow> range_window \<Rightarrow> 'a db_consensus_scheme \<Rightarrow> int \<Rightarrow> range_assignment" where
  "fallback_range M miner_id task_id p w db range_start =
     range_from p (me_sha256 M (canonical_json
       (assignment_seed_fields M miner_id task_id p w (''fallback'', JBool True) db))) range_start"

definition usable_range :: "params_row \<Rightarrow> range_window \<Rightarrow> 'a db_mempool_scheme \<Rightarrow> range_assignment \<Rightarrow> bool" where
  "usable_range p w db a \<longleftrightarrow> as_range_end a \<le> rw_limit w \<and>
     range_is_assignable (as_range_start a) (as_range_end a) (pp_algorithm p) db"

definition assign_pseudo_random_range ::
  "mining_env \<Rightarrow> string \<Rightarrow> string \<Rightarrow> params_row \<Rightarrow> 'a db_consensus_scheme \<Rightarrow> range_assignment result" where
  "assign_pseudo_random_range M miner_id task_id p db =
     (let w = range_assignment_window M p db in
      if rw_max_start w < rw_min_start w
      then Inl (MiningError 503 ''no assignable range available below RETARGET_MAX_PI_POSITION'')
      else case List.find (usable_range p w db) (map (seeded_range M miner_id task_id p w db)
             [0..pp_range_assignment_max_attempts p - 1]) of
        Some a \<Rightarrow> Inr a
      | None \<Rightarrow> (case List.find (usable_range p w db) (map (fallback_range M miner_id task_id p w db)
             [rw_min_start w..rw_max_start w]) of
          Some a \<Rightarrow> Inr a
        | None \<Rightarrow> Inl (MiningError 503 ''could not assign a non-overlapping range below RETARGET_MAX_PI_POSITION'')))"

section \<open>Competitive mode\<close>

definition round_seed :: "mining_env \<Rightarrow> params_row \<Rightarrow> chain_tip \<Rightarrow> string" where
  "round_seed M p tip = me_sha256 M (canonical_json (JObj
     [(''mode'', JStr COMPETITIVE_ROUND_ASSIGNMENT_MODE), (''network_id'', JStr (NETWORK_ID (me_node M))),
      (''chain_id'', jchain (CHAIN_ID (me_node M))), (''height'', JInt (tip_height tip + 1)),
      (''previous_hash'', JStr (tip_block_hash tip)), (''algorithm'', JStr (pp_algorithm p)),
      (''segment_size'', JInt (pp_segment_size p)), (''protocol_params_id'', JInt (pp_id p))]))"

definition round_attempt :: "mining_env \<Rightarrow> range_window \<Rightarrow> string \<Rightarrow> int \<Rightarrow> int" where
  "round_attempt M w seed attempt =
     (let attempt_seed = (if attempt = 0 then seed else me_sha256 M (seed @ '':'' @ show_int attempt)) in
      rw_min_start w + hex_value attempt_seed mod max 1 (rw_max_start w - rw_min_start w + 1))"

definition round_attempts :: "params_row \<Rightarrow> int" where
  "round_attempts p = max 1 (if pp_range_assignment_max_attempts p = 0 then RANGE_ASSIGNMENT_MAX_ATTEMPTS
     else pp_range_assignment_max_attempts p)"

definition competitive_round_assignment ::
  "mining_env \<Rightarrow> params_row \<Rightarrow> 'a db_consensus_scheme \<Rightarrow> range_assignment result" where
  "competitive_round_assignment M p db =
     (let tip = latest_tip (me_chain M) db; w = range_assignment_window M p db; seed = round_seed M p tip in
      case List.find (\<lambda>s. \<not> range_start_is_accepted s (pp_algorithm p) db)
             (map (round_attempt M w seed) [0..round_attempts p - 1]) of
        Some range_start \<Rightarrow> Inr ((range_from p seed range_start)
          \<lparr>as_round_height := Some (tip_height tip + 1), as_previous_hash := Some (tip_block_hash tip)\<rparr>)
      | None \<Rightarrow> Inl (MiningError 409 ''no assignable competitive range available in active window''))"

definition competitive_id_fields ::
  "mining_env \<Rightarrow> string \<Rightarrow> range_assignment \<Rightarrow> params_row \<Rightarrow> (string \<times> json) list" where
  "competitive_id_fields M miner_id a p =
     [(''network_id'', JStr (NETWORK_ID (me_node M))), (''chain_id'', jchain (CHAIN_ID (me_node M))),
      (''miner_id'', JStr miner_id), (''height'', JInt (case as_round_height a of None \<Rightarrow> 0 | Some h \<Rightarrow> h)),
      (''previous_hash'', jopt_str (as_previous_hash a)), (''assignment_seed'', JStr (as_assignment_seed a)),
      (''range_start'', JInt (as_range_start a)), (''range_end'', JInt (as_range_end a)),
      (''algorithm'', JStr (pp_algorithm p)), (''protocol_params_id'', JInt (pp_id p))]"

definition competitive_task_id :: "mining_env \<Rightarrow> string \<Rightarrow> range_assignment \<Rightarrow> params_row \<Rightarrow> string" where
  "competitive_task_id M miner_id a p =
     ''task_'' @ take 16 (me_sha256 M (canonical_json (JObj
       ((''mode'', JStr COMPETITIVE_ROUND_ASSIGNMENT_MODE) # competitive_id_fields M miner_id a p))))"

definition retry_task_id :: "mining_env \<Rightarrow> string \<Rightarrow> range_assignment \<Rightarrow> params_row \<Rightarrow> int \<Rightarrow> string" where
  "retry_task_id M miner_id a p retry_index =
     ''task_'' @ take 16 (me_sha256 M (canonical_json (JObj
       ((''mode'', JStr COMPETITIVE_ROUND_ASSIGNMENT_MODE) # (''retry_index'', JInt retry_index) #
        competitive_id_fields M miner_id a p))))"

definition competitive_retry_task_id ::
  "mining_env \<Rightarrow> string \<Rightarrow> range_assignment \<Rightarrow> params_row \<Rightarrow> 'a db_mempool_scheme \<Rightarrow> string result" where
  "competitive_retry_task_id M miner_id a p db =
     (case List.find (\<lambda>tid. tid \<notin> tk_task_id ` set (tasks db)) (map (retry_task_id M miner_id a p) [1..999]) of
        Some tid \<Rightarrow> Inr tid
      | None \<Rightarrow> Inl (MiningError 429 ''competitive round retry limit reached; retry after next block''))"

end
