(* ===== verification/TaskLife.thy ===== *)
theory TaskLife
  imports Tasks
begin

text \<open>
  The life of a mining task (\<open>app/services/mining.py\<close>): the miner who asks for it, its assignment
  by \<open>create_next_task\<close> in both modes, expiry, revival, and the closing of competitive rounds. The
  transactions frozen for a task are released whenever it ends without a block.
\<close>

section \<open>Miners\<close>

definition find_miner :: "string \<Rightarrow> 'a db_consensus_scheme \<Rightarrow> miner_row option" where
  "find_miner miner_id db = tbl_find mi_miner_id miner_id (miners db)"

definition update_miner :: "string \<Rightarrow> (miner_row \<Rightarrow> miner_row) \<Rightarrow> 'a db_consensus_scheme \<Rightarrow> 'a db_consensus_scheme" where
  "update_miner miner_id f db = db\<lparr>miners := tbl_update (\<lambda>m. mi_miner_id m = miner_id) f (miners db)\<rparr>"

definition normalize_reward_address :: "mining_env \<Rightarrow> string option \<Rightarrow> string option result" where
  "normalize_reward_address M reward_address =
     (case reward_address of None \<Rightarrow> Inr None
      | Some a \<Rightarrow> let normalized = str_upper (str_strip a) in
          if normalized = [] then Inr None
          else if \<not> is_valid_address (me_sha256 M) (Some normalized)
          then Inl (MiningError 400 ''reward_address must be a valid PI wallet address'')
          else Inr (Some normalized))"

definition update_miner_reward_address ::
  "mining_env \<Rightarrow> string \<Rightarrow> string option \<Rightarrow> 'a db_consensus_scheme \<Rightarrow> 'a db_consensus_scheme result" where
  "update_miner_reward_address M miner_id reward_address db =
     bindE (normalize_reward_address M reward_address) (\<lambda>a. case a of
       None \<Rightarrow> Inr db
     | Some address \<Rightarrow>
         if (case find_miner miner_id db of None \<Rightarrow> False | Some m \<Rightarrow> str_or (mi_reward_address m) [] = address)
         then Inr db
         else Inr (ensure_balance_account address ''wallet'' (me_now M)
           (update_miner miner_id (\<lambda>m. m\<lparr>mi_reward_address := Some address\<rparr>) db)))"

text \<open>An unknown identifier is registered with whatever key the request names.\<close>

definition restored_miner :: "mining_env \<Rightarrow> string \<Rightarrow> string \<Rightarrow> string option \<Rightarrow> string option \<Rightarrow> miner_row" where
  "restored_miner M miner_id public_key name reward_address =
     \<lparr>mi_miner_id = miner_id, mi_name = take 80 (str_or name miner_id), mi_public_key = Some public_key,
      mi_registered_at = me_now M, mi_reward_address = reward_address, mi_trust_score = 1, mi_cooldown_until = None,
      mi_is_banned = False, mi_enabled = True, mi_last_seen_at = Some (me_now M),
      mi_last_heartbeat_at = Some (me_now M), mi_online_status = ''online'',
      mi_protocol_version = PROTOCOL_VERSION (me_chain M)\<rparr>"

definition refreshed_miner :: "miner_row \<Rightarrow> miner_row \<Rightarrow> miner_row" where
  "refreshed_miner new m =
     m\<lparr>mi_name := (if mi_name new = [] then mi_name m else mi_name new),
       mi_public_key := (case mi_public_key m of None \<Rightarrow> mi_public_key new | Some k \<Rightarrow> Some k),
       mi_reward_address := (case mi_reward_address new of None \<Rightarrow> mi_reward_address m | Some a \<Rightarrow> Some a),
       mi_last_seen_at := mi_last_seen_at new, mi_last_heartbeat_at := mi_last_heartbeat_at new,
       mi_online_status := ''online'', mi_protocol_version := mi_protocol_version new\<rparr>"

definition restore_miner_identity ::
  "mining_env \<Rightarrow> string \<Rightarrow> string \<Rightarrow> string option \<Rightarrow> string option \<Rightarrow> 'a db_consensus_scheme \<Rightarrow>
   (miner_row option \<times> 'a db_consensus_scheme) result" where
  "restore_miner_identity M miner_id0 public_key name reward_address db =
     (let miner_id = str_strip miner_id0 in
      if \<not> starts_with ''miner_'' miner_id then Inr (None, db)
      else if \<not> me_valid_key M public_key then Inl (MiningError 400 ''invalid public key'')
      else bindE (normalize_reward_address M reward_address) (\<lambda>address.
        let new = restored_miner M miner_id public_key name address;
            db1 = db\<lparr>miners := tbl_upsert mi_miner_id (refreshed_miner new) new (miners db)\<rparr>;
            db2 = ensure_balance_account miner_id ''miner'' (me_now M) db1;
            db3 = (case address of None \<Rightarrow> db2 | Some a \<Rightarrow> ensure_balance_account a ''wallet'' (me_now M) db2) in
        Inr (find_miner miner_id db3, db3)))"

definition maybe_update_miner_task_poll ::
  "mining_env \<Rightarrow> miner_row \<Rightarrow> 'a db_consensus_scheme \<Rightarrow> 'a db_consensus_scheme" where
  "maybe_update_miner_task_poll M miner db =
     (let last_seen = (case mi_last_heartbeat_at miner of Some t \<Rightarrow> Some t | None \<Rightarrow> mi_last_seen_at miner);
          recent = (case last_seen of None \<Rightarrow> False
            | Some t \<Rightarrow> me_now M - t < me_heartbeat_min_interval_seconds M * SECOND) in
      if recent \<and> mi_online_status miner = ''online'' then db
      else update_miner (mi_miner_id miner) (\<lambda>m. m\<lparr>mi_last_seen_at := Some (me_now M),
        mi_last_heartbeat_at := Some (me_now M), mi_online_status := ''online''\<rparr>) db)"

definition in_cooldown :: "mining_env \<Rightarrow> int option \<Rightarrow> bool" where
  "in_cooldown M until = (case until of None \<Rightarrow> False | Some t \<Rightarrow> me_now M < t)"

section \<open>Competitive rounds\<close>

definition find_task :: "string \<Rightarrow> 'a db_mempool_scheme \<Rightarrow> task_row option" where
  "find_task task_id db = tbl_find tk_task_id task_id (tasks db)"

definition update_tasks ::
  "(task_row \<Rightarrow> bool) \<Rightarrow> (task_row \<Rightarrow> task_row) \<Rightarrow> 'a db_mempool_scheme \<Rightarrow> 'a db_mempool_scheme" where
  "update_tasks p f db = db\<lparr>tasks := tbl_update p f (tasks db)\<rparr>"

definition update_jobs ::
  "(validation_job \<Rightarrow> bool) \<Rightarrow> (validation_job \<Rightarrow> validation_job) \<Rightarrow> 'a db_certificates_scheme \<Rightarrow>
   'a db_certificates_scheme" where
  "update_jobs p f db = db\<lparr>validation_jobs := tbl_update p f (validation_jobs db)\<rparr>"

definition release_for_task ::
  "mining_env \<Rightarrow> string \<Rightarrow> string \<Rightarrow> int \<Rightarrow> 'a db_chain_scheme \<Rightarrow> 'a db_chain_scheme" where
  "release_for_task M task_id reason timestamp db =
     snd (release_selected_transactions (me_now M) task_id reason (Some timestamp) db)"

definition coalesce :: "'x option \<Rightarrow> 'x \<Rightarrow> 'x option" where
  "coalesce a x = (case a of None \<Rightarrow> Some x | Some y \<Rightarrow> Some y)"

definition is_competitive_task :: "task_row \<Rightarrow> bool" where
  "is_competitive_task t \<longleftrightarrow> tk_assignment_mode t = Some COMPETITIVE_ROUND_ASSIGNMENT_MODE"

definition round_of :: "task_row \<Rightarrow> string" where
  "round_of t = str_strip (str_or (tk_assignment_seed t) [])"

definition in_round :: "string \<Rightarrow> task_row \<Rightarrow> bool" where
  "in_round seed t \<longleftrightarrow> is_competitive_task t \<and> tk_assignment_seed t = Some seed"

text \<open>The lowest block of the round.\<close>

definition competitive_round_winner :: "task_row \<Rightarrow> 'a db_consensus_scheme \<Rightarrow> block_row option" where
  "competitive_round_winner t db =
     (if \<not> is_competitive_task t \<or> round_of t = [] then None
      else highest (\<lambda>b. - bl_height b) (filter (\<lambda>b. case find_task (bl_task_id b) db of
        None \<Rightarrow> False | Some u \<Rightarrow> in_round (round_of t) u) (blocks db)))"

definition matches_assignment :: "task_row \<Rightarrow> range_assignment \<Rightarrow> bool" where
  "matches_assignment t a \<longleftrightarrow> str_or (tk_assignment_seed t) [] = as_assignment_seed a \<and>
     tk_range_start t = as_range_start a \<and> tk_range_end t = as_range_end a"

definition competitive_task_matches_current_round ::
  "mining_env \<Rightarrow> task_row \<Rightarrow> params_row \<Rightarrow> 'a db_consensus_scheme \<Rightarrow> bool result" where
  "competitive_task_matches_current_round M t p db =
     (if \<not> is_competitive_task t then Inr True
      else bindE (competitive_round_assignment M p db) (\<lambda>a. Inr (
        (case tk_competitive_round_height t of None \<Rightarrow> True | Some h \<Rightarrow> as_round_height a = Some h) \<and>
        (str_or (tk_competitive_round_previous_hash t) [] = [] \<or>
         tk_competitive_round_previous_hash t = as_previous_hash a) \<and>
        matches_assignment t a)))"

definition stale_task :: "string \<Rightarrow> string \<Rightarrow> task_row \<Rightarrow> task_row" where
  "stale_task reason stamp t =
     t\<lparr>tk_status := ''stale'', tk_submitted_at := coalesce (tk_submitted_at t) stamp, tk_stale_at := Some stamp,
       tk_stale_reason := Some reason\<rparr>"

definition closed_job :: "string \<Rightarrow> string \<Rightarrow> validation_job \<Rightarrow> validation_job" where
  "closed_job reason stamp j =
     j\<lparr>vj_status := ''rejected'', vj_result_reason := Some reason, vj_completed_at := coalesce (vj_completed_at j) stamp,
       vj_finalized_at := coalesce (vj_finalized_at j) stamp\<rparr>"

text \<open>The result says whether a task changed.\<close>

definition mark_competitive_task_stale ::
  "mining_env \<Rightarrow> string \<Rightarrow> string \<Rightarrow> int \<Rightarrow> 'a db_consensus_scheme \<Rightarrow> bool \<times> 'a db_consensus_scheme" where
  "mark_competitive_task_stale M task_id reason timestamp db =
     (let stamp = isoformat timestamp; is_open = (\<lambda>t. tk_task_id t = task_id \<and> tk_status t \<in> set ACTIVE_STATUSES);
          db1 = update_tasks is_open (stale_task reason stamp) db;
          db2 = release_for_task M task_id reason timestamp db1 in
      (\<exists>t \<in> set (tasks db). is_open t,
       update_jobs (\<lambda>j. vj_task_id j = task_id \<and> vj_status j = ''pending'') (closed_job reason stamp) db2))"

definition expire_stale_competitive_task ::
  "mining_env \<Rightarrow> task_row \<Rightarrow> params_row \<Rightarrow> 'a db_consensus_scheme \<Rightarrow> (bool \<times> 'a db_consensus_scheme) result" where
  "expire_stale_competitive_task M t p db =
     (if \<not> is_competitive_task t then Inr (False, db)
      else bindE (competitive_task_matches_current_round M t p db) (\<lambda>current.
        if current then Inr (False, db)
        else Inr (mark_competitive_task_stale M (tk_task_id t) ''competitive round closed'' (me_now M) db)))"

definition round_has_pending_validation_job :: "string \<Rightarrow> 'a db_certificates_scheme \<Rightarrow> bool" where
  "round_has_pending_validation_job seed0 db =
     (let seed = str_strip seed0 in seed \<noteq> [] \<and> (\<exists>j \<in> set (validation_jobs db).
        vj_status j \<in> {''pending'', ''approved''} \<and>
        (case find_task (vj_task_id j) db of None \<Rightarrow> False
         | Some t \<Rightarrow> tk_status t = ''revealed'' \<and> in_round seed t)))"

definition round_pending_candidate :: "task_row \<Rightarrow> 'a db_certificates_scheme \<Rightarrow> validation_job option" where
  "round_pending_candidate t db =
     (if \<not> is_competitive_task t \<or> round_of t = [] then None
      else case sort_key vj_created_at (sort_key vj_job_id (filter (\<lambda>j. vj_status j = ''pending'' \<and>
          vj_task_id j \<noteq> tk_task_id t \<and> (case find_task (vj_task_id j) db of None \<Rightarrow> False
            | Some u \<Rightarrow> tk_status u = ''revealed'' \<and> in_round (round_of t) u)) (validation_jobs db))) of
        [] \<Rightarrow> None | j # _ \<Rightarrow> Some j)"

definition won_by :: "block_row \<Rightarrow> string" where
  "won_by b = ''competitive round already won by '' @ bl_task_id b @ '' at block '' @ show_int (bl_height b)"

definition ensure_competitive_task_can_finalize ::
  "task_row \<Rightarrow> 'a db_consensus_scheme \<Rightarrow> unit result" where
  "ensure_competitive_task_can_finalize t db =
     (case competitive_round_winner t db of None \<Rightarrow> Inr ()
      | Some b \<Rightarrow> if bl_task_id b = tk_task_id t then Inr () else Inl (TransactionExecutionError (won_by b)))"

definition close_competitive_round_after_block ::
  "mining_env \<Rightarrow> task_row \<Rightarrow> int \<Rightarrow> int \<Rightarrow> 'a db_consensus_scheme \<Rightarrow> string list \<times> 'a db_consensus_scheme" where
  "close_competitive_round_after_block M t block_height timestamp db =
     (if \<not> is_competitive_task t \<or> round_of t = [] then ([], db)
      else
        let losers = map tk_task_id (sort_key tk_created_at (sort_key tk_task_id (filter (\<lambda>u.
              in_round (round_of t) u \<and> tk_task_id u \<noteq> tk_task_id t \<and> tk_status u \<in> set ACTIVE_STATUSES) (tasks db))));
            reason = ''competitive round won by '' @ tk_task_id t @ '' at block '' @ show_int block_height in
        (losers, fold (\<lambda>tid db. snd (mark_competitive_task_stale M tid reason timestamp db)) losers db))"

section \<open>Revival of expired tasks\<close>

definition expired_matches_assignment :: "task_row \<Rightarrow> range_assignment \<Rightarrow> bool" where
  "expired_matches_assignment t a \<longleftrightarrow> matches_assignment t a \<and>
     tk_competitive_round_height t = Some (case as_round_height a of None \<Rightarrow> 0 | Some h \<Rightarrow> h) \<and>
     str_or (tk_competitive_round_previous_hash t) [] = str_or (as_previous_hash a) []"

definition expired_targets_current_tip :: "mining_env \<Rightarrow> task_row \<Rightarrow> 'a db_consensus_scheme \<Rightarrow> bool" where
  "expired_targets_current_tip M t db =
     (case tk_competitive_round_height t of None \<Rightarrow> False
      | Some h \<Rightarrow> let tip = latest_tip (me_chain M) db; previous = str_or (tk_competitive_round_previous_hash t) [] in
          h = tip_height tip + 1 \<and> (previous = [] \<or> previous = tip_block_hash tip))"

definition find_commitment :: "string \<Rightarrow> 'a db_mining_scheme \<Rightarrow> commitment option" where
  "find_commitment task_id db = tbl_find cm_task_id task_id (commitments db)"

definition find_job_of_task :: "string \<Rightarrow> 'a db_certificates_scheme \<Rightarrow> validation_job option" where
  "find_job_of_task task_id db = tbl_find vj_task_id task_id (validation_jobs db)"

definition revivable ::
  "mining_env \<Rightarrow> task_row \<Rightarrow> range_assignment option \<Rightarrow> 'a db_mining_scheme \<Rightarrow> bool" where
  "revivable M t a db \<longleftrightarrow> tk_status t = ''expired'' \<and> is_competitive_task t \<and>
     competitive_round_winner t db = None \<and> find_job_of_task (tk_task_id t) db = None \<and>
     ((case a of None \<Rightarrow> False | Some b \<Rightarrow> expired_matches_assignment t b) \<or>
      find_commitment (tk_task_id t) db \<noteq> None \<and> expired_targets_current_tip M t db)"

definition revived_task :: "mining_env \<Rightarrow> params_row \<Rightarrow> bool \<Rightarrow> int \<Rightarrow> task_row \<Rightarrow> task_row" where
  "revived_task M p has_commitment range_end t =
     t\<lparr>tk_status := (if has_commitment then ''committed'' else ''assigned''), tk_created_at := me_now M,
       tk_expires_at := Some (iso_at M (task_expiration_seconds_for_position M p range_end)),
       tk_submitted_at := None, tk_stale_at := None, tk_stale_reason := None, tk_compute_ms := None\<rparr>"

definition refreeze_revived_task ::
  "mining_env \<Rightarrow> task_row \<Rightarrow> range_assignment option \<Rightarrow> 'a db_mining_scheme \<Rightarrow> 'a db_mining_scheme result" where
  "refreeze_revived_task M t a db =
     (let h = (case a of Some b \<Rightarrow> as_round_height b | None \<Rightarrow> tk_competitive_round_height t);
          seed = (case a of Some b \<Rightarrow> Some (as_assignment_seed b) | None \<Rightarrow> tk_assignment_seed t) in
      case h of None \<Rightarrow> Inl TypeError
      | Some height \<Rightarrow> bindE (freeze_transactions_for_competitive_round_task (me_node M) (tk_task_id t) height seed
          (st_max_transactions_per_block (ne_settings (me_node M))) (Some (me_now M))
          (release_for_task M (tk_task_id t) ''task reactivated'' (me_now M) db)) (\<lambda>(_, db1). Inr db1))"

definition reactivate_expired_competitive_task ::
  "mining_env \<Rightarrow> task_row \<Rightarrow> range_assignment option \<Rightarrow> params_row \<Rightarrow> 'a db_mining_scheme \<Rightarrow>
   (task_row option \<times> 'a db_mining_scheme) result" where
  "reactivate_expired_competitive_task M t a p db =
     (if \<not> revivable M t a db then Inr (None, db)
      else
        let has_commitment = (find_commitment (tk_task_id t) db \<noteq> None);
            db1 = update_tasks (\<lambda>u. tk_task_id u = tk_task_id t \<and> tk_status u = ''expired'')
              (revived_task M p has_commitment (tk_range_end t)) db in
        bindE (if has_commitment then Inr db1 else refreeze_revived_task M t a db1) (\<lambda>db2.
        Inr (find_task (tk_task_id t) db2, db2)))"

text \<open>The ten latest expired and committed tasks of the miner, until one revives.\<close>

fun revive_first ::
  "mining_env \<Rightarrow> params_row \<Rightarrow> task_row list \<Rightarrow> 'a db_mining_scheme \<Rightarrow> (task_row option \<times> 'a db_mining_scheme) result" where
  "revive_first M p [] db = Inr (None, db)"
| "revive_first M p (t # ts) db =
     bindE (reactivate_expired_competitive_task M t None p db) (\<lambda>(r, db1).
       case r of Some u \<Rightarrow> Inr (Some u, db1) | None \<Rightarrow> revive_first M p ts db1)"

definition resume_expired_committed_competitive_task_for_miner ::
  "mining_env \<Rightarrow> string \<Rightarrow> params_row \<Rightarrow> 'a db_mining_scheme \<Rightarrow> (task_row option \<times> 'a db_mining_scheme) result" where
  "resume_expired_committed_competitive_task_for_miner M miner_id p db =
     revive_first M p (take 10
       (sort_key (\<lambda>t. - (case tk_competitive_round_height t of None \<Rightarrow> 0 | Some h \<Rightarrow> h))
         (sort_key (\<lambda>t. - tk_created_at t) (rev (sort_key tk_task_id (filter (\<lambda>t.
           tk_miner_id t = miner_id \<and> tk_status t = ''expired'' \<and> is_competitive_task t \<and>
           find_commitment (tk_task_id t) db \<noteq> None \<and> find_job_of_task (tk_task_id t) db = None) (tasks db))))))) db"

end
