(* ===== verification/TaskAssign.thy ===== *)
theory TaskAssign
  imports TaskLife
begin

text \<open>
  \<open>_expire_assigned_tasks\<close> and \<open>create_next_task\<close> of \<open>app/services/mining.py\<close>. The numbers of
  closed and expired rows that the cleanup returns are dropped by the callers and left out here; the
  columns \<open>assignment_ms\<close> and \<open>commit_ms\<close>, which hold measured durations, are left out too.
\<close>

section \<open>Quorum of a validation job\<close>

definition vote_count :: "string \<Rightarrow> bool \<Rightarrow> 'a db_certificates_scheme \<Rightarrow> int" where
  "vote_count job_id approved db =
     int (length (filter (\<lambda>v. vv_job_id v = job_id \<and> vv_approved v = approved) (validation_votes db)))"

definition effective_required_validator_approvals :: "chain_env \<Rightarrow> params_row \<Rightarrow> int" where
  "effective_required_validator_approvals E p =
     max 1 (if pp_required_validator_approvals p = 0 then ce_required_approvals E else pp_required_validator_approvals p)"

definition eligible_validator_rows :: "mining_env \<Rightarrow> 'a db_chain_scheme \<Rightarrow> validator_row list" where
  "eligible_validator_rows M db = filter (\<lambda>v. counts_for_quorum (me_chain M) v \<and> truthy_text (v_node_id v) \<and>
     truthy_text (v_advertised_address v) \<and> \<not> in_cooldown M (v_cooldown_until v)) (validators db)"

definition revealed_task_has_quorum_path :: "mining_env \<Rightarrow> string \<Rightarrow> 'a db_consensus_scheme \<Rightarrow> bool result" where
  "revealed_task_has_quorum_path M task_id db =
     (case (find_task task_id db, find_job_of_task task_id db) of
        (Some t, Some j) \<Rightarrow>
          if vj_status j \<noteq> ''pending'' then Inr False
          else bindE (protocol_params_for_task t db) (\<lambda>p.
            let required = effective_required_validator_approvals (me_chain M) p;
                approvals = vote_count (vj_job_id j) True db; rejections = vote_count (vj_job_id j) False db in
            if required \<le> approvals \<or> required \<le> rejections then Inr True
            else if approvals = 0 \<and> rejections = 0 \<and> \<not> truthy_text (vj_assigned_validator_id j) then Inr False
            else Inr (\<exists>v \<in> set (eligible_validator_rows M db). v_validator_id v \<notin>
              vv_validator_id ` {u \<in> set (validation_votes db). vv_job_id u = vj_job_id j}))
      | _ \<Rightarrow> Inr False)"

section \<open>Expiry\<close>

definition release_timed_out_validation_assignments :: "mining_env \<Rightarrow> 'a db_certificates_scheme \<Rightarrow> 'a db_certificates_scheme" where
  "release_timed_out_validation_assignments M db =
     (let threshold = isoformat (me_now M - me_assignment_timeout_seconds M * SECOND) in
      update_jobs (\<lambda>j. vj_status j = ''pending'' \<and> vj_assigned_validator_id j \<noteq> None \<and>
          (case vj_assigned_at j of None \<Rightarrow> False | Some s \<Rightarrow> s < threshold))
        (\<lambda>j. j\<lparr>vj_assigned_validator_id := None, vj_assigned_at := None,
           vj_assignment_failures := vj_assignment_failures j + 1,
           vj_blocking_reason := Some ''assigned_validator_timeout''\<rparr>) db)"

text \<open>\<open>UPDATE tasks SET status = 'accepted'\<close> against the partial UNIQUE index.\<close>

definition accept_task ::
  "(task_row \<Rightarrow> bool) \<Rightarrow> (task_row \<Rightarrow> task_row) \<Rightarrow> 'a db_mempool_scheme \<Rightarrow> 'a db_mempool_scheme result" where
  "accept_task p f db =
     (let db' = update_tasks p (\<lambda>t. (f t)\<lparr>tk_status := ''accepted''\<rparr>) db;
          starts = map (\<lambda>t. (tk_range_start t, tk_algorithm t)) (filter (\<lambda>t. tk_status t = ''accepted'') (tasks db')) in
      if \<not> (\<exists>t \<in> set (tasks db). p t) \<or> distinct starts then Inr db'
      else Inl (IntegrityError ''tasks.range_start, tasks.algorithm''))"

definition instant_of :: "mining_env \<Rightarrow> string \<Rightarrow> int" where
  "instant_of M s = (case ne_iso (me_node M) s of Some t \<Rightarrow> t | None \<Rightarrow> me_now M)"

definition ended_task :: "string \<Rightarrow> string \<Rightarrow> string \<Rightarrow> task_row \<Rightarrow> task_row" where
  "ended_task status reason stamp t =
     (let u = t\<lparr>tk_status := status, tk_submitted_at := coalesce (tk_submitted_at t) stamp,
                 tk_stale_reason := coalesce (tk_stale_reason t) reason\<rparr> in
      if status = ''rejected'' then u else u\<lparr>tk_stale_at := coalesce (tk_stale_at t) stamp\<rparr>)"

definition close_terminal_task :: "mining_env \<Rightarrow> validation_job \<Rightarrow> 'a db_consensus_scheme \<Rightarrow> 'a db_consensus_scheme result" where
  "close_terminal_task M j db =
     (let tid = vj_task_id j; revealed = (\<lambda>t. tk_task_id t = tid \<and> tk_status t = ''revealed'');
          stamp = str_or (vj_finalized_at j) (str_or (vj_completed_at j) (isoformat (me_now M)));
          finish = (\<lambda>status default. let reason = str_or (vj_result_reason j) default in
            release_for_task M tid reason (instant_of M stamp) (update_tasks revealed (ended_task status reason stamp) db)) in
      if vj_status j = ''approved''
      then if \<exists>b \<in> set (blocks db). bl_task_id b = tid
        then accept_task revealed (\<lambda>t. t\<lparr>tk_submitted_at := coalesce (tk_submitted_at t) stamp\<rparr>) db
        else Inr (finish ''expired'' ''approved validation job did not finalize canonical block'')
      else if vj_status j = ''rejected'' then Inr (finish ''rejected'' ''validation job rejected'')
      else Inr (finish ''expired'' ''validation job expired''))"

definition close_terminal_validation_tasks :: "mining_env \<Rightarrow> 'a db_consensus_scheme \<Rightarrow> 'a db_consensus_scheme result" where
  "close_terminal_validation_tasks M db =
     foldE (close_terminal_task M) (sort_key (\<lambda>j. str_or (vj_completed_at j) []) (sort_key vj_created_at
       (filter (\<lambda>j. vj_status j \<in> {''approved'', ''rejected'', ''expired''} \<and>
          (case find_task (vj_task_id j) db of None \<Rightarrow> False | Some t \<Rightarrow> tk_status t = ''revealed''))
        (validation_jobs db)))) db"

text \<open>Why the pending job of a competitive task cannot lead to a block any more, if so.\<close>

definition obsolete_reason :: "mining_env \<Rightarrow> task_row \<Rightarrow> 'a db_consensus_scheme \<Rightarrow> string option result" where
  "obsolete_reason M t db =
     (let other = (\<lambda>b. if bl_task_id b \<noteq> tk_task_id t then Some (won_by b) else None);
          winner = (case competitive_round_winner t db of None \<Rightarrow> None | Some b \<Rightarrow> other b);
          canonical = (case tk_competitive_round_height t of None \<Rightarrow> None
            | Some h \<Rightarrow> (case tbl_find bl_height h (blocks db) of None \<Rightarrow> None | Some b \<Rightarrow> other b)) in
      case (case winner of Some r \<Rightarrow> Some r | None \<Rightarrow> canonical) of
        Some r \<Rightarrow> Inr (Some r)
      | None \<Rightarrow> bindE (protocol_params_for_task t db) (\<lambda>p.
          bindE (competitive_task_matches_current_round M t p db) (\<lambda>current.
          Inr (if current then None else Some ''competitive round closed''))))"

definition close_obsolete_task :: "mining_env \<Rightarrow> task_row \<Rightarrow> 'a db_consensus_scheme \<Rightarrow> 'a db_consensus_scheme result" where
  "close_obsolete_task M t db =
     bindE (obsolete_reason M t db) (\<lambda>reason. case reason of
       None \<Rightarrow> Inr db
     | Some r \<Rightarrow> Inr (snd (mark_competitive_task_stale M (tk_task_id t) r (me_now M) db)))"

definition close_obsolete_competitive_validation_jobs ::
  "mining_env \<Rightarrow> 'a db_consensus_scheme \<Rightarrow> 'a db_consensus_scheme result" where
  "close_obsolete_competitive_validation_jobs M db =
     foldE (close_obsolete_task M) (sort_key tk_created_at (sort_key tk_task_id (filter (\<lambda>t.
       tk_status t \<in> set ACTIVE_STATUSES \<and> is_competitive_task t \<and>
       (\<exists>j \<in> set (validation_jobs db). vj_task_id j = tk_task_id t \<and> vj_status j = ''pending'')) (tasks db)))) db"

definition past_expiry :: "mining_env \<Rightarrow> task_row \<Rightarrow> bool" where
  "past_expiry M t \<longleftrightarrow> (case tk_expires_at t of None \<Rightarrow> False | Some e \<Rightarrow> e \<le> me_now M)"

definition expired_ids :: "mining_env \<Rightarrow> string set \<Rightarrow> 'a db_mempool_scheme \<Rightarrow> string list" where
  "expired_ids M statuses db = sort (map tk_task_id (filter (\<lambda>t. tk_status t \<in> statuses \<and> past_expiry M t) (tasks db)))"

fun without_quorum_path :: "mining_env \<Rightarrow> 'a db_consensus_scheme \<Rightarrow> string list \<Rightarrow> string list result" where
  "without_quorum_path M db [] = Inr []"
| "without_quorum_path M db (tid # tids) =
     bindE (revealed_task_has_quorum_path M tid db) (\<lambda>path.
     bindE (without_quorum_path M db tids) (\<lambda>rest. Inr (if path then rest else tid # rest)))"

definition expire_tasks :: "mining_env \<Rightarrow> string list \<Rightarrow> string list \<Rightarrow> 'a db_consensus_scheme \<Rightarrow> 'a db_consensus_scheme" where
  "expire_tasks M waiting revealed db =
     (let expired = (\<lambda>t. t\<lparr>tk_status := ''expired''\<rparr>);
          db1 = update_tasks (\<lambda>t. tk_status t \<in> {''assigned'', ''committed''} \<and> past_expiry M t) expired db;
          db2 = update_tasks (\<lambda>t. tk_status t = ''revealed'' \<and> tk_task_id t \<in> set revealed) expired db1;
          db3 = update_jobs (\<lambda>j. vj_status j = ''pending'' \<and> vj_task_id j \<in> set (waiting @ revealed))
            (\<lambda>j. j\<lparr>vj_status := ''expired'', vj_completed_at := Some (isoformat (me_now M))\<rparr>) db2 in
      fold (\<lambda>tid. release_for_task M tid ''task expired'' (me_now M)) (waiting @ revealed) db3)"

definition expire_assigned_tasks :: "mining_env \<Rightarrow> 'a db_consensus_scheme \<Rightarrow> 'a db_consensus_scheme result" where
  "expire_assigned_tasks M db =
     bindE (close_terminal_validation_tasks M (release_timed_out_validation_assignments M db)) (\<lambda>db1.
     bindE (close_obsolete_competitive_validation_jobs M db1) (\<lambda>db2.
     bindE (without_quorum_path M db2 (expired_ids M {''revealed''} db2)) (\<lambda>revealed.
     Inr (expire_tasks M (expired_ids M {''assigned'', ''committed''} db2) revealed db2))))"

section \<open>Asking for a task\<close>

record task_response =
  rs_task :: task_row
  rs_resume_status :: "string option"

definition task_for_next_response :: "task_row \<Rightarrow> 'a db_mining_scheme \<Rightarrow> task_response" where
  "task_for_next_response t db =
     (if tk_status t = ''committed'' \<and>
         (case find_commitment (tk_task_id t) db of None \<Rightarrow> False | Some c \<Rightarrow> cm_miner_id c = tk_miner_id t)
      then \<lparr>rs_task = t\<lparr>tk_status := ''assigned''\<rparr>, rs_resume_status = Some ''committed''\<rparr>
      else \<lparr>rs_task = t, rs_resume_status = None\<rparr>)"

definition identify_miner ::
  "mining_env \<Rightarrow> string \<Rightarrow> string option \<Rightarrow> string option \<Rightarrow> string option \<Rightarrow> 'a db_mining_scheme \<Rightarrow>
   (miner_row option \<times> 'a db_mining_scheme) result" where
  "identify_miner M miner_id public_key name reward_address db =
     (case find_miner miner_id db of
        None \<Rightarrow> (if truthy_text public_key
          then restore_miner_identity M miner_id (str_or public_key []) name reward_address db else Inr (None, db))
      | Some m \<Rightarrow> (if truthy_text reward_address
          then bindE (update_miner_reward_address M miner_id reward_address db) (\<lambda>db1. Inr (find_miner miner_id db1, db1))
          else Inr (Some m, db)))"

definition active_tasks_of :: "string \<Rightarrow> 'a db_mempool_scheme \<Rightarrow> task_row list" where
  "active_tasks_of miner_id db = filter (\<lambda>t. tk_miner_id t = miner_id \<and> tk_status t \<in> set ACTIVE_STATUSES) (tasks db)"

text \<open>The oldest active task of the miner, unless it has expired or its round is over.\<close>

definition current_task ::
  "mining_env \<Rightarrow> string \<Rightarrow> params_row \<Rightarrow> 'a db_mining_scheme \<Rightarrow> (task_row option \<times> 'a db_mining_scheme) result" where
  "current_task M miner_id p db =
     (case sort_key tk_created_at (active_tasks_of miner_id db) of
        [] \<Rightarrow> Inr (None, db)
      | t # _ \<Rightarrow>
          if past_expiry M t
          then Inr (None, release_for_task M (tk_task_id t) ''task expired'' (me_now M)
            (update_tasks (\<lambda>u. tk_task_id u = tk_task_id t) (\<lambda>u. u\<lparr>tk_status := ''expired''\<rparr>) db))
          else if me_competitive M
          then bindE (expire_stale_competitive_task M t p db) (\<lambda>(gone, db1).
            Inr (if gone then None else Some t, db1))
          else Inr (Some t, db))"

definition TASK_RATE_LIMIT_WINDOW_SECONDS :: int where "TASK_RATE_LIMIT_WINDOW_SECONDS = 60"

definition TASK_RATE_LIMIT_MAX_ASSIGNMENTS :: int where "TASK_RATE_LIMIT_MAX_ASSIGNMENTS = 12"

definition check_assignment_limits :: "mining_env \<Rightarrow> string \<Rightarrow> params_row \<Rightarrow> 'a db_mempool_scheme \<Rightarrow> unit result" where
  "check_assignment_limits M miner_id p db =
     (if TASK_RATE_LIMIT_MAX_ASSIGNMENTS \<le> int (length (filter (\<lambda>t. tk_miner_id t = miner_id \<and>
          me_now M - TASK_RATE_LIMIT_WINDOW_SECONDS * SECOND \<le> tk_created_at t) (tasks db)))
      then Inl (MiningError 429 ''miner task assignment rate limit exceeded'')
      else if pp_max_active_tasks_per_miner p \<le> int (length (active_tasks_of miner_id db))
      then Inl (MiningError 429 ''miner has too many active tasks'')
      else Inr ())"

definition global_task_open :: "mining_env \<Rightarrow> string \<Rightarrow> params_row \<Rightarrow> task_row \<Rightarrow> bool" where
  "global_task_open M miner_id p t \<longleftrightarrow> tk_status t \<in> {''pending'', ''queued'', ''available''} \<and>
     tk_algorithm t \<in> {[], pp_algorithm p} \<and> tk_range_end t \<le> resolve_RETARGET_MAX_PI_POSITION M p \<and>
     (case tk_expires_at t of None \<Rightarrow> True | Some e \<Rightarrow> me_now M < e) \<and> tk_miner_id t \<in> {miner_id, [], ''global''}"

definition claimed_task :: "mining_env \<Rightarrow> string \<Rightarrow> params_row \<Rightarrow> int \<Rightarrow> task_row \<Rightarrow> task_row" where
  "claimed_task M miner_id p range_end t =
     t\<lparr>tk_miner_id := miner_id, tk_status := ''assigned'',
       tk_algorithm := (if tk_algorithm t = [] then pp_algorithm p else tk_algorithm t),
       tk_protocol_params_id := coalesce (tk_protocol_params_id t) (pp_id p),
       tk_assignment_mode := coalesce (tk_assignment_mode t) (pp_range_assignment_mode p),
       tk_expires_at := Some (iso_at M (task_expiration_seconds_for_position M p range_end))\<rparr>"

definition max_transactions :: "mining_env \<Rightarrow> int" where
  "max_transactions M = st_max_transactions_per_block (ne_settings (me_node M))"

definition claim_global_task_for_miner ::
  "mining_env \<Rightarrow> string \<Rightarrow> params_row \<Rightarrow> 'a db_mining_scheme \<Rightarrow> (task_row option \<times> 'a db_mining_scheme) result" where
  "claim_global_task_for_miner M miner_id p db =
     (case sort_key tk_created_at (filter (global_task_open M miner_id p) (tasks db)) of
        [] \<Rightarrow> Inr (None, db)
      | t # _ \<Rightarrow>
          if find_miner miner_id db = None then Inl (IntegrityError ''FOREIGN KEY constraint failed'')
          else
            let db1 = update_tasks (\<lambda>u. tk_task_id u = tk_task_id t) (claimed_task M miner_id p (tk_range_end t)) db in
            bindE (freeze_transactions_for_task (me_node M) (tk_task_id t) (tip_height (latest_tip (me_chain M) db1) + 1)
              (max_transactions M) (Some (me_now M)) db1) (\<lambda>(_, db2). Inr (find_task (tk_task_id t) db2, db2)))"

definition new_task :: "mining_env \<Rightarrow> string \<Rightarrow> string \<Rightarrow> range_assignment \<Rightarrow> string \<Rightarrow> params_row \<Rightarrow> task_row" where
  "new_task M task_id miner_id a mode p =
     \<lparr>tk_task_id = task_id, tk_miner_id = miner_id, tk_range_start = as_range_start a, tk_range_end = as_range_end a,
      tk_algorithm = pp_algorithm p, tk_status = ''assigned'', tk_assignment_seed = Some (as_assignment_seed a),
      tk_assignment_mode = Some mode, tk_competitive_round_height = as_round_height a,
      tk_competitive_round_previous_hash = as_previous_hash a, tk_protocol_params_id = Some (pp_id p),
      tk_created_at = me_now M,
      tk_expires_at = Some (iso_at M (task_expiration_seconds_for_position M p (as_range_end a))),
      tk_submitted_at = None, tk_stale_at = None, tk_stale_reason = None, tk_mempool_snapshot_id = None,
      tk_selected_tx_hashes = [], tk_tx_merkle_root = [], tk_tx_count = 0, tk_tx_fee_total_units = 0,
      tk_selected_tx_hashes_hash = None, tk_compute_ms = None\<rparr>"

definition freeze_for_new_task ::
  "mining_env \<Rightarrow> string \<Rightarrow> range_assignment \<Rightarrow> 'a db_mining_scheme \<Rightarrow> 'a db_mining_scheme result" where
  "freeze_for_new_task M task_id a db =
     (let height = (case as_round_height a of Some h \<Rightarrow> if h = 0 then tip_height (latest_tip (me_chain M) db) + 1 else h
            | None \<Rightarrow> tip_height (latest_tip (me_chain M) db) + 1) in
      if me_competitive M
      then bindE (freeze_transactions_for_competitive_round_task (me_node M) task_id height
        (Some (as_assignment_seed a)) (max_transactions M) (Some (me_now M)) db) (\<lambda>(_, db1). Inr db1)
      else bindE (freeze_transactions_for_task (me_node M) task_id height (max_transactions M) (Some (me_now M)) db)
        (\<lambda>(_, db1). Inr db1))"

text \<open>\<open>INSERT INTO tasks\<close> and the frozen snapshot. A task with the same identifier is answered
  instead; any other violated constraint is raised.\<close>

definition store_new_task ::
  "mining_env \<Rightarrow> string \<Rightarrow> string \<Rightarrow> range_assignment \<Rightarrow> string \<Rightarrow> params_row \<Rightarrow> 'a db_mining_scheme \<Rightarrow>
   (task_row option \<times> 'a db_mining_scheme) result" where
  "store_new_task M task_id miner_id a mode p db =
     (case find_task task_id db of
        Some existing \<Rightarrow> bindE (reactivate_expired_competitive_task M existing (Some a) p db) (\<lambda>(r, db1).
          Inr (Some (case r of Some t \<Rightarrow> t | None \<Rightarrow> existing), db1))
      | None \<Rightarrow>
          if find_miner miner_id db = None then Inl (IntegrityError ''FOREIGN KEY constraint failed'')
          else bindE (insert_task (new_task M task_id miner_id a mode p) db) (\<lambda>db1.
            bindE (freeze_for_new_task M task_id a db1) (\<lambda>db2. Inr (find_task task_id db2, db2))))"

definition next_competitive_task ::
  "mining_env \<Rightarrow> string \<Rightarrow> params_row \<Rightarrow> 'a db_mining_scheme \<Rightarrow> (task_row option \<times> 'a db_mining_scheme) result" where
  "next_competitive_task M miner_id p db =
     bindE (competitive_round_assignment M p db) (\<lambda>a.
     if round_has_pending_validation_job (as_assignment_seed a) db
     then Inl (MiningError 429 ''competitive round is waiting for validation; retry after next block'')
     else
       let task_id = competitive_task_id M miner_id a p;
           store = (\<lambda>tid. store_new_task M tid miner_id a COMPETITIVE_ROUND_ASSIGNMENT_MODE p) in
       case find_task task_id db of
         None \<Rightarrow> store task_id db
       | Some existing \<Rightarrow> bindE (reactivate_expired_competitive_task M existing (Some a) p db) (\<lambda>(r, db1).
           case r of
             Some t \<Rightarrow> Inr (Some t, db1)
           | None \<Rightarrow> if tk_status existing \<in> set ACTIVE_STATUSES then Inr (Some existing, db1)
               else bindE (competitive_retry_task_id M miner_id a p db1) (\<lambda>tid. store tid db1)))"

definition next_assigned_task ::
  "mining_env \<Rightarrow> string \<Rightarrow> string \<Rightarrow> params_row \<Rightarrow> 'a db_mining_scheme \<Rightarrow> (task_row option \<times> 'a db_mining_scheme) result" where
  "next_assigned_task M fresh miner_id p db =
     bindE (claim_global_task_for_miner M miner_id p db) (\<lambda>(pooled, db1). case pooled of
       Some t \<Rightarrow> Inr (Some t, db1)
     | None \<Rightarrow> let task_id = ''task_'' @ fresh in
         bindE (assign_pseudo_random_range M miner_id task_id p db1) (\<lambda>a.
         store_new_task M task_id miner_id a (pp_range_assignment_mode p) p db1))"

definition next_task_for_miner ::
  "mining_env \<Rightarrow> string \<Rightarrow> string \<Rightarrow> params_row \<Rightarrow> 'a db_mining_scheme \<Rightarrow> (task_row option \<times> 'a db_mining_scheme) result" where
  "next_task_for_miner M fresh miner_id p db =
     bindE (current_task M miner_id p db) (\<lambda>(active, db1). case active of
       Some t \<Rightarrow> if resolve_RETARGET_MAX_PI_POSITION M p < tk_range_end t
         then Inl (MiningError 409 ''active task exceeds RETARGET_MAX_PI_POSITION'') else Inr (Some t, db1)
     | None \<Rightarrow> bindE (check_assignment_limits M miner_id p db1) (\<lambda>_.
         if me_competitive M then next_competitive_task M miner_id p db1
         else next_assigned_task M fresh miner_id p db1))"

definition serve_miner ::
  "mining_env \<Rightarrow> string \<Rightarrow> string \<Rightarrow> miner_row \<Rightarrow> 'a db_mining_scheme \<Rightarrow> (task_response option \<times> 'a db_mining_scheme) result" where
  "serve_miner M fresh miner_id m db =
     (if mi_is_banned m then Inl (MiningError 403 ''miner is banned'')
      else if \<not> mi_enabled m then Inl (MiningError 403 ''miner is disabled'')
      else
        let db1 = maybe_update_miner_task_poll M m db in
        if in_cooldown M (mi_cooldown_until m) then Inl (MiningError 429 ''miner is in cooldown'')
        else bindE (active_protocol_params db1) (\<lambda>p.
          bindE (if me_competitive M then resume_expired_committed_competitive_task_for_miner M miner_id p db1
                 else Inr (None, db1)) (\<lambda>(resumed, db2).
          bindE (case resumed of Some t \<Rightarrow> Inr (Some t, db2) | None \<Rightarrow> next_task_for_miner M fresh miner_id p db2) (\<lambda>(t, db3).
          Inr (map_option (\<lambda>u. task_for_next_response u db3) t, db3)))))"

text \<open>\<open>cleanup\<close> says whether the throttled cleanup runs; \<open>fresh\<close> is the random part of an identifier.\<close>

definition create_next_task ::
  "mining_env \<Rightarrow> bool \<Rightarrow> string \<Rightarrow> string \<Rightarrow> string option \<Rightarrow> string option \<Rightarrow> string option \<Rightarrow> 'a db_mining_scheme \<Rightarrow>
   (task_response option \<times> 'a db_mining_scheme) result" where
  "create_next_task M cleanup fresh miner_id public_key name reward_address db =
     bindE (if cleanup then expire_assigned_tasks M db else Inr db) (\<lambda>db0.
     bindE (identify_miner M miner_id public_key name reward_address db0) (\<lambda>(miner, db1). case miner of
       None \<Rightarrow> Inr (None, db1)
     | Some m \<Rightarrow> serve_miner M fresh miner_id m db1))"

end
