(* ===== verification/Mining.thy ===== *)
theory Mining
  imports TaskAssign
begin

text \<open>
  Commit and reveal (\<open>commit_task\<close> and \<open>reveal_task\<close> of \<open>app/services/mining.py\<close>, with
  \<open>_reject_in_connection\<close> and the penalties): a miner commits to the Merkle root of a segment, is told
  which positions to open, and opens them; the opened samples become a validation job. The names of
  the columns that a mismatch concerns are only logged and left out.
\<close>

section \<open>Submissions and penalties\<close>

definition PENALTY_INVALID_RESULT :: int where "PENALTY_INVALID_RESULT = 1"

definition PENALTY_DUPLICATE :: int where "PENALTY_DUPLICATE = 3"

definition PENALTY_INVALID_SIGNATURE :: int where "PENALTY_INVALID_SIGNATURE = 5"

definition COOLDOWN_AFTER_REJECTIONS :: int where "COOLDOWN_AFTER_REJECTIONS = 3"

definition COOLDOWN_SECONDS :: int where "COOLDOWN_SECONDS = 5 * 60"

definition miner_exists :: "string \<Rightarrow> 'a db_consensus_scheme \<Rightarrow> bool" where
  "miner_exists miner_id db \<longleftrightarrow> find_miner miner_id db \<noteq> None"

definition record_submission ::
  "mining_env \<Rightarrow> string \<Rightarrow> string \<Rightarrow> string \<Rightarrow> string \<Rightarrow> string option \<Rightarrow> bool \<Rightarrow> string \<Rightarrow>
   'a db_mining_scheme \<Rightarrow> 'a db_mining_scheme" where
  "record_submission M task_id miner_id result_hash segment signature accepted reason db =
     db\<lparr>submissions := submissions db @ [\<lparr>sb_task_id = task_id, sb_miner_id = miner_id, sb_result_hash = result_hash,
       sb_segment_length = int (length segment), sb_signature = signature, sb_accepted = accepted, sb_reason = reason,
       sb_created_at = me_now M\<rparr>]\<rparr>"

definition penalty_points :: "string \<Rightarrow> 'a db_mining_scheme \<Rightarrow> int" where
  "penalty_points miner_id db =
     sum_list (map pe_points (filter (\<lambda>q. pe_miner_id q = miner_id) (penalties db)))"

definition trust_of :: "int \<Rightarrow> int \<Rightarrow> pyfloat" where
  "trust_of accepted points =
     (if accepted + points = 0 then 1 else py_round 4 (fdiv (of_int accepted) (of_int (accepted + points))))"

definition refresh_trust_score :: "string \<Rightarrow> 'a db_mining_scheme \<Rightarrow> 'a db_mining_scheme" where
  "refresh_trust_score miner_id db =
     (let accepted = int (length (filter (\<lambda>b. bl_miner_id b = miner_id) (blocks db))) in
      update_miner miner_id (\<lambda>m. m\<lparr>mi_trust_score := trust_of accepted (penalty_points miner_id db)\<rparr>) db)"

definition cool_down :: "mining_env \<Rightarrow> string \<Rightarrow> int \<Rightarrow> 'a db_mining_scheme \<Rightarrow> 'a db_mining_scheme" where
  "cool_down M miner_id seconds db =
     update_miner miner_id (\<lambda>m. m\<lparr>mi_cooldown_until := Some (iso_at M seconds)\<rparr>) db"

definition penalized :: "string \<Rightarrow> string \<Rightarrow> string \<Rightarrow> penalty \<Rightarrow> bool" where
  "penalized miner_id task_id reason q \<longleftrightarrow> pe_miner_id q = miner_id \<and> pe_task_id q = task_id \<and> pe_reason q = reason"

definition apply_penalty ::
  "mining_env \<Rightarrow> string \<Rightarrow> string \<Rightarrow> int \<Rightarrow> string \<Rightarrow> int option \<Rightarrow> 'a db_mining_scheme \<Rightarrow> 'a db_mining_scheme" where
  "apply_penalty M miner_id task_id points reason force_cooldown_seconds db =
     (let forced = (\<lambda>db. case force_cooldown_seconds of None \<Rightarrow> db | Some s \<Rightarrow> cool_down M miner_id s db) in
      if \<exists>q \<in> set (penalties db). penalized miner_id task_id reason q
      then refresh_trust_score miner_id (forced db)
      else
        let db1 = db\<lparr>penalties := penalties db @ [\<lparr>pe_miner_id = miner_id, pe_task_id = task_id, pe_points = points,
              pe_reason = reason, pe_created_at = me_now M\<rparr>]\<rparr>;
            db2 = (if COOLDOWN_AFTER_REJECTIONS \<le> penalty_points miner_id db1
              then cool_down M miner_id COOLDOWN_SECONDS db1 else db1) in
        refresh_trust_score miner_id (forced db2))"

section \<open>Responses\<close>

record commit_response =
  co_accepted :: bool
  co_status :: string
  co_message :: string
  co_challenge_seed :: "string option"
  co_samples :: "int list"

definition commit_rejected :: "string \<Rightarrow> commit_response" where
  "commit_rejected reason = \<lparr>co_accepted = False, co_status = ''rejected'', co_message = reason,
     co_challenge_seed = None, co_samples = []\<rparr>"

definition commit_stale :: "string \<Rightarrow> commit_response" where
  "commit_stale reason = \<lparr>co_accepted = False, co_status = ''stale'', co_message = reason,
     co_challenge_seed = None, co_samples = []\<rparr>"

definition commit_accepted :: "string \<Rightarrow> commitment \<Rightarrow> commit_response" where
  "commit_accepted message c = \<lparr>co_accepted = True, co_status = ''committed'', co_message = message,
     co_challenge_seed = Some (cm_challenge_seed c), co_samples = cm_samples c\<rparr>"

text \<open>The \<open>validation\<close> dictionary of a reveal response is its list of items.\<close>

record reveal_response =
  rv_accepted :: bool
  rv_status :: string
  rv_message :: string
  rv_validation :: "(string \<times> json) list"

definition rejected_response :: "string \<Rightarrow> (string \<times> json) list \<Rightarrow> reveal_response" where
  "rejected_response reason validation =
     \<lparr>rv_accepted = False, rv_status = ''rejected'', rv_message = reason, rv_validation = validation\<rparr>"

definition record_rejection ::
  "mining_env \<Rightarrow> string \<Rightarrow> string \<Rightarrow> string \<Rightarrow> string \<Rightarrow> 'a db_mining_scheme \<Rightarrow> 'a db_mining_scheme" where
  "record_rejection M reason task_id miner_id result_hash db =
     (if \<exists>r \<in> set (rejected_submissions db). rj_task_id r = task_id \<and> rj_miner_id r = miner_id \<and>
         rj_result_hash r = result_hash \<and> rj_reason r = reason
      then db
      else db\<lparr>rejected_submissions := rejected_submissions db @ [\<lparr>rj_task_id = task_id, rj_miner_id = miner_id,
        rj_result_hash = result_hash, rj_reason = reason, rj_created_at = me_now M\<rparr>]\<rparr>)"

definition reject_in_connection ::
  "mining_env \<Rightarrow> string \<Rightarrow> string \<Rightarrow> string \<Rightarrow> string \<Rightarrow> (string \<times> json) list \<Rightarrow> int \<Rightarrow> string option \<Rightarrow> string \<Rightarrow>
   'a db_mining_scheme \<Rightarrow> reveal_response \<times> 'a db_mining_scheme" where
  "reject_in_connection M reason task_id miner_id result_hash validation points signature segment db =
     (let db1 = record_rejection M reason task_id miner_id result_hash (release_for_task M task_id reason (me_now M) db) in
      (rejected_response reason validation,
       if miner_exists miner_id db1
       then apply_penalty M miner_id task_id points reason None
         (record_submission M task_id miner_id result_hash segment signature False reason db1)
       else db1))"

definition stale_competitive_response ::
  "mining_env \<Rightarrow> string \<Rightarrow> string \<Rightarrow> string \<Rightarrow> string option \<Rightarrow> string \<Rightarrow> string \<Rightarrow> 'a db_mining_scheme \<Rightarrow>
   reveal_response \<times> 'a db_mining_scheme" where
  "stale_competitive_response M task_id miner_id result_hash signature segment reason db =
     (let db1 = snd (mark_competitive_task_stale M task_id reason (me_now M) db) in
      (\<lparr>rv_accepted = False, rv_status = ''stale'', rv_message = reason, rv_validation = [(''reason'', JStr reason)]\<rparr>,
       if miner_exists miner_id db1
       then record_submission M task_id miner_id result_hash segment signature False reason db1 else db1))"

definition expired_reveal_response ::
  "mining_env \<Rightarrow> string \<Rightarrow> string \<Rightarrow> string \<Rightarrow> string option \<Rightarrow> 'a db_mining_scheme \<Rightarrow>
   reveal_response \<times> 'a db_mining_scheme" where
  "expired_reveal_response M task_id miner_id result_hash signature db =
     (\<lparr>rv_accepted = False, rv_status = ''expired'', rv_message = ''task expired'',
        rv_validation = [(''reason'', JStr ''task expired'')]\<rparr>,
      if miner_exists miner_id db
      then record_submission M task_id miner_id result_hash [] signature False ''task expired'' db else db)"

section \<open>The transactions a task is bound to\<close>

record tx_binding =
  tb_tx_merkle_root :: string
  tb_mempool_snapshot_id :: string
  tb_selected_tx_hashes_hash :: string
  tb_tx_count :: int
  tb_tx_fee_total_units :: int

definition snapshot_binding :: "snapshot_view \<Rightarrow> tx_binding" where
  "snapshot_binding v =
     \<lparr>tb_tx_merkle_root = sn_tx_merkle_root (sv_row v), tb_mempool_snapshot_id = sn_snapshot_id (sv_row v),
      tb_selected_tx_hashes_hash = sv_selected_tx_hashes_hash v, tb_tx_count = sv_tx_count v,
      tb_tx_fee_total_units = sv_tx_fee_total_units v\<rparr>"

definition commitment_binding :: "commitment \<Rightarrow> tx_binding" where
  "commitment_binding c =
     \<lparr>tb_tx_merkle_root = cm_commit_tx_merkle_root c, tb_mempool_snapshot_id = str_or (cm_mempool_snapshot_id c) [],
      tb_selected_tx_hashes_hash = str_or (cm_commit_selected_tx_hashes_hash c) [], tb_tx_count = cm_commit_tx_count c,
      tb_tx_fee_total_units = cm_commit_tx_fee_total_units c\<rparr>"

text \<open>What a reveal has to repeat: the commitment's columns, and the snapshot's where they are \<open>NULL\<close>.\<close>

definition reveal_binding :: "commitment \<Rightarrow> snapshot_view \<Rightarrow> tx_binding" where
  "reveal_binding c v =
     (commitment_binding c)
      \<lparr>tb_mempool_snapshot_id := (case cm_mempool_snapshot_id c of Some s \<Rightarrow> s | None \<Rightarrow> sn_snapshot_id (sv_row v)),
       tb_selected_tx_hashes_hash := (case cm_commit_selected_tx_hashes_hash c of Some s \<Rightarrow> s
         | None \<Rightarrow> sv_selected_tx_hashes_hash v)\<rparr>"

section \<open>Signatures\<close>

definition binding_fields :: "tx_binding \<Rightarrow> (string \<times> json) list" where
  "binding_fields b = [(''tx_merkle_root'', JStr (tb_tx_merkle_root b)),
     (''mempool_snapshot_id'', JStr (tb_mempool_snapshot_id b)),
     (''selected_tx_hashes_hash'', JStr (tb_selected_tx_hashes_hash b))]"

text \<open>\<open>None\<close> for the binding is the legacy payload without transactions and network.\<close>

definition build_commit_signature_payload ::
  "mining_env \<Rightarrow> task_row \<Rightarrow> string \<Rightarrow> string \<Rightarrow> string \<Rightarrow> string \<Rightarrow> tx_binding option \<Rightarrow> json" where
  "build_commit_signature_payload M t miner_id result_hash root_hash signed_at b =
     JObj ([(''algorithm'', JStr (tk_algorithm t)), (''merkle_root'', JStr root_hash), (''miner_id'', JStr miner_id),
        (''range_end'', JInt (tk_range_end t)), (''range_start'', JInt (tk_range_start t)),
        (''result_hash'', JStr result_hash), (''signed_at'', JStr signed_at), (''task_id'', JStr (tk_task_id t))] @
       (case b of None \<Rightarrow> []
        | Some b \<Rightarrow> binding_fields b @ [(''tx_count'', JInt (tb_tx_count b)),
            (''tx_fee_total_units'', JInt (tb_tx_fee_total_units b)), (''chain_id'', jchain (CHAIN_ID (me_node M))),
            (''network_id'', JStr (NETWORK_ID (me_node M)))]))"

definition build_reveal_signature_payload :: "commitment \<Rightarrow> string \<Rightarrow> string \<Rightarrow> tx_binding option \<Rightarrow> json" where
  "build_reveal_signature_payload c miner_id signed_at b =
     JObj ([(''challenge_seed'', JStr (cm_challenge_seed c)), (''merkle_root'', JStr (cm_merkle_root c)),
        (''miner_id'', JStr miner_id), (''signed_at'', JStr signed_at), (''task_id'', JStr (cm_task_id c))] @
       (case b of None \<Rightarrow> [] | Some b \<Rightarrow> binding_fields b))"

text \<open>A \<open>RuntimeError\<close> or \<open>ValueError\<close> of the check counts as invalid; a miner without a key makes it
  raise an \<open>AttributeError\<close>.\<close>

definition signature_holds :: "mining_env \<Rightarrow> miner_row \<Rightarrow> json \<Rightarrow> string \<Rightarrow> bool result" where
  "signature_holds M m payload signature =
     (case mi_public_key m of None \<Rightarrow> Inl TypeError
      | Some k \<Rightarrow> Inr (verify_payload_signature (ce_verify (me_chain M)) k payload signature = Inr True))"

text \<open>Without transactions the legacy payload is accepted as well.\<close>

definition signature_accepted ::
  "mining_env \<Rightarrow> miner_row \<Rightarrow> (tx_binding option \<Rightarrow> json) \<Rightarrow> tx_binding \<Rightarrow> string \<Rightarrow> bool result" where
  "signature_accepted M m payload b signature =
     bindE (signature_holds M m (payload (Some b)) signature) (\<lambda>ok.
       if \<not> ok \<and> tb_tx_count b = 0 then signature_holds M m (payload None) signature else Inr ok)"

section \<open>Commit\<close>

record commit_request =
  cr_task_id :: string
  cr_miner_id :: string
  cr_result_hash :: string
  cr_merkle_root :: string
  cr_signature :: string
  cr_signed_at :: string
  cr_compute_ms :: "int option"
  cr_binding :: tx_binding

definition challenge_seed_of :: "mining_env \<Rightarrow> string \<Rightarrow> string \<Rightarrow> string \<Rightarrow> string \<Rightarrow> string" where
  "challenge_seed_of M root_hash previous_hash result_hash task_id =
     me_sha256 M (canonical_json (JObj [(''merkle_root'', JStr root_hash), (''previous_hash'', JStr previous_hash),
       (''result_hash'', JStr result_hash), (''task_id'', JStr task_id)]))"

definition build_challenge_samples :: "mining_env \<Rightarrow> int \<Rightarrow> int \<Rightarrow> string \<Rightarrow> int \<Rightarrow> int list" where
  "build_challenge_samples M range_start range_end challenge_seed requested_sample_count =
     (let segment_length = range_end - range_start + 1; sample_count = min requested_sample_count segment_length in
      map (\<lambda>offset. range_start + int offset) (sort (me_sample M challenge_seed (nat segment_length) (nat sample_count))))"

definition new_commitment ::
  "mining_env \<Rightarrow> commit_request \<Rightarrow> task_row \<Rightarrow> params_row \<Rightarrow> tx_binding \<Rightarrow> 'a db_mining_scheme \<Rightarrow> commitment" where
  "new_commitment M r t p b db =
     (let seed = challenge_seed_of M (cr_merkle_root r) (latest_block_hash (me_chain M) db) (cr_result_hash r) (cr_task_id r) in
      \<lparr>cm_task_id = cr_task_id r, cm_miner_id = cr_miner_id r, cm_result_hash = cr_result_hash r,
       cm_merkle_root = cr_merkle_root r, cm_challenge_seed = seed,
       cm_samples = build_challenge_samples M (tk_range_start t) (tk_range_end t) seed (pp_sample_count p),
       cm_commit_tx_merkle_root = tb_tx_merkle_root b, cm_mempool_snapshot_id = Some (tb_mempool_snapshot_id b),
       cm_commit_selected_tx_hashes_hash = Some (tb_selected_tx_hashes_hash b), cm_commit_tx_count = tb_tx_count b,
       cm_commit_tx_fee_total_units = tb_tx_fee_total_units b, cm_signature = cr_signature r,
       cm_signed_at = cr_signed_at r, cm_created_at = me_now M\<rparr>)"

definition set_task_status :: "string \<Rightarrow> string \<Rightarrow> 'a db_mempool_scheme \<Rightarrow> 'a db_mempool_scheme" where
  "set_task_status task_id status db = update_tasks (\<lambda>t. tk_task_id t = task_id) (\<lambda>t. t\<lparr>tk_status := status\<rparr>) db"

definition store_commitment ::
  "commit_request \<Rightarrow> commitment \<Rightarrow> 'a db_mining_scheme \<Rightarrow> (commit_response \<times> 'a db_mining_scheme) result" where
  "store_commitment r c db =
     bindE (tbl_insert cm_task_id ''commitments.task_id'' c (commitments db)) (\<lambda>cs.
     let db1 = db\<lparr>commitments := cs\<rparr>;
         db2 = (case cr_compute_ms r of None \<Rightarrow> db1
           | Some ms \<Rightarrow> update_tasks (\<lambda>t. tk_task_id t = cr_task_id r) (\<lambda>t. t\<lparr>tk_compute_ms := Some ms\<rparr>) db1) in
     Inr (commit_accepted ''commit accepted; reveal requested samples'' c,
       set_task_status (cr_task_id r) ''committed'' db2))"

definition commit_payload :: "mining_env \<Rightarrow> commit_request \<Rightarrow> task_row \<Rightarrow> tx_binding option \<Rightarrow> json" where
  "commit_payload M r t =
     build_commit_signature_payload M t (cr_miner_id r) (cr_result_hash r) (cr_merkle_root r) (cr_signed_at r)"

text \<open>The same commitment again is answered with the stored challenge.\<close>

definition commit_again ::
  "mining_env \<Rightarrow> commit_request \<Rightarrow> task_row \<Rightarrow> miner_row \<Rightarrow> 'a db_mining_scheme \<Rightarrow> commit_response result" where
  "commit_again M r t m db =
     (case find_commitment (cr_task_id r) db of
        None \<Rightarrow> Inr (commit_rejected ''commitment not found'')
      | Some c \<Rightarrow>
          if cm_miner_id c \<noteq> cr_miner_id r then Inr (commit_rejected ''commitment not found'')
          else if cr_result_hash r \<noteq> cm_result_hash c \<or> cr_merkle_root r \<noteq> cm_merkle_root c
          then Inr (commit_rejected ''commitment mismatch'')
          else if cr_binding r \<noteq> commitment_binding c then Inr (commit_rejected ''invalid_tx_commitment'')
          else bindE (signature_accepted M m (commit_payload M r t) (commitment_binding c) (cr_signature r)) (\<lambda>ok.
            Inr (if ok then commit_accepted ''task already committed; reveal requested samples'' c
              else commit_rejected ''invalid miner signature'')))"

definition known_result :: "string \<Rightarrow> string \<Rightarrow> 'a db_consensus_scheme \<Rightarrow> bool" where
  "known_result result_hash task_id db \<longleftrightarrow>
     (\<exists>b \<in> set (blocks db). bl_result_hash b = result_hash \<or> bl_task_id b = task_id)"

definition commit_assigned ::
  "mining_env \<Rightarrow> commit_request \<Rightarrow> task_row \<Rightarrow> miner_row \<Rightarrow> params_row \<Rightarrow> 'a db_mining_scheme \<Rightarrow>
   (commit_response \<times> 'a db_mining_scheme) result" where
  "commit_assigned M r t m p db =
     (case get_task_tx_snapshot (me_sha256 M) (cr_task_id r) db of
        None \<Rightarrow> Inr (commit_rejected ''tx snapshot not found for task'', db)
      | Some v \<Rightarrow>
          let b = snapshot_binding v in
          if cr_binding r \<noteq> b then Inr (commit_rejected ''invalid_tx_commitment'', db)
          else if past_expiry M t
          then Inr (commit_rejected ''task expired'', set_task_status (cr_task_id r) ''expired'' db)
          else if known_result (cr_result_hash r) (cr_task_id r) db
          then Inr (commit_rejected ''duplicate result or task'', db)
          else bindE (signature_accepted M m (commit_payload M r t) b (cr_signature r)) (\<lambda>ok.
            if \<not> ok then Inr (commit_rejected ''invalid miner signature'', db)
            else store_commitment r (new_commitment M r t p b db) db))"

definition stale_commit ::
  "mining_env \<Rightarrow> commit_request \<Rightarrow> string \<Rightarrow> 'a db_mining_scheme \<Rightarrow> commit_response \<times> 'a db_mining_scheme" where
  "stale_commit M r reason db = (commit_stale reason,
     record_submission M (cr_task_id r) (cr_miner_id r) (cr_result_hash r) [] (Some (cr_signature r)) False reason db)"

definition commit_open ::
  "mining_env \<Rightarrow> commit_request \<Rightarrow> task_row \<Rightarrow> miner_row \<Rightarrow> 'a db_mining_scheme \<Rightarrow>
   (commit_response \<times> 'a db_mining_scheme) result" where
  "commit_open M r t m db =
     (if tk_status t = ''committed'' then bindE (commit_again M r t m db) (\<lambda>a. Inr (a, db))
      else if tk_status t = ''stale''
      then Inr (stale_commit M r (str_or (tk_stale_reason t) ''competitive round closed'') db)
      else if tk_status t \<noteq> ''assigned'' then Inr (commit_rejected (''task is not active: '' @ tk_status t), db)
      else bindE (protocol_params_for_task t db) (\<lambda>p.
        bindE (if me_competitive M then expire_stale_competitive_task M t p db else Inr (False, db)) (\<lambda>(gone, db1).
        if gone then Inr (stale_commit M r ''competitive round closed'' db1)
        else commit_assigned M r t m p db1)))"

text \<open>An expired competitive task is revived if it can be.\<close>

definition revive_task ::
  "mining_env \<Rightarrow> task_row \<Rightarrow> 'a db_mining_scheme \<Rightarrow> (task_row \<times> 'a db_mining_scheme) result" where
  "revive_task M t db =
     (if tk_status t = ''expired'' \<and> me_competitive M
      then bindE (protocol_params_for_task t db) (\<lambda>p.
        bindE (reactivate_expired_competitive_task M t None p db) (\<lambda>(revived, db1).
        Inr (case revived of Some u \<Rightarrow> u | None \<Rightarrow> t, db1)))
      else Inr (t, db))"

definition find_task_of :: "string \<Rightarrow> string \<Rightarrow> 'a db_mempool_scheme \<Rightarrow> task_row option" where
  "find_task_of task_id miner_id db =
     (case find_task task_id db of None \<Rightarrow> None | Some t \<Rightarrow> if tk_miner_id t = miner_id then Some t else None)"

definition commit_task ::
  "mining_env \<Rightarrow> commit_request \<Rightarrow> 'a db_mining_scheme \<Rightarrow> (commit_response \<times> 'a db_mining_scheme) result" where
  "commit_task M r db =
     bindE (expire_assigned_tasks M db) (\<lambda>db1.
     case find_task_of (cr_task_id r) (cr_miner_id r) db1 of
       None \<Rightarrow> Inr (commit_rejected ''task not found for miner'', db1)
     | Some t \<Rightarrow> (case find_miner (cr_miner_id r) db1 of
         None \<Rightarrow> Inr (commit_rejected ''miner not found'', db1)
       | Some m \<Rightarrow> bindE (revive_task M t db1) (\<lambda>(u, db2). commit_open M r u m db2)))"

section \<open>Reveal\<close>

text \<open>A revealed sample is its position together with the whole dictionary.\<close>

record reveal_request =
  rr_task_id :: string
  rr_miner_id :: string
  rr_samples :: "(int \<times> json) list"
  rr_signature :: string
  rr_signed_at :: string
  rr_binding :: tx_binding

definition rejected_reveal ::
  "mining_env \<Rightarrow> reveal_request \<Rightarrow> string \<Rightarrow> string \<Rightarrow> (string \<times> json) list \<Rightarrow> int \<Rightarrow> 'a db_mining_scheme \<Rightarrow>
   reveal_response \<times> 'a db_mining_scheme" where
  "rejected_reveal M r reason result_hash validation points db =
     reject_in_connection M reason (rr_task_id r) (rr_miner_id r) result_hash validation points (Some (rr_signature r)) [] db"

definition job_response :: "string \<Rightarrow> string \<Rightarrow> commitment \<Rightarrow> validation_job \<Rightarrow> reveal_response" where
  "job_response status message c j =
     \<lparr>rv_accepted = (status \<noteq> ''rejected''), rv_status = status, rv_message = message,
      rv_validation = [(''job_id'', JStr (vj_job_id j)), (''challenge_seed'', JStr (cm_challenge_seed c)),
        (''merkle_root'', JStr (cm_merkle_root c)), (''samples'', JList (vj_samples j))]\<rparr>"

definition processed_response :: "commitment \<Rightarrow> validation_job \<Rightarrow> reveal_response" where
  "processed_response c j =
     (let response = job_response (if vj_status j = ''pending'' then ''validation_pending'' else vj_status j)
            ''reveal already processed'' c j in
      response\<lparr>rv_validation := rv_validation response @ [(''status'', JStr (vj_status j))]\<rparr>)"

definition waiting_response :: "validation_job \<Rightarrow> reveal_response" where
  "waiting_response j =
     \<lparr>rv_accepted = False, rv_status = ''competitive_round_waiting'',
      rv_message = ''competitive round already has pending candidate '' @ vj_task_id j,
      rv_validation = [(''pending_task_id'', JStr (vj_task_id j)), (''pending_job_id'', JStr (vj_job_id j))]\<rparr>"

definition revealed_job ::
  "mining_env \<Rightarrow> string \<Rightarrow> reveal_request \<Rightarrow> commitment \<Rightarrow> tx_binding \<Rightarrow> string list \<Rightarrow> tx list \<Rightarrow> validation_job" where
  "revealed_job M fresh r c b tx_hashes transactions =
     (let stamp = isoformat (me_now M) in
      \<lparr>vj_job_id = ''job_'' @ fresh, vj_task_id = rr_task_id r, vj_miner_id = rr_miner_id r,
       vj_result_hash = cm_result_hash c, vj_merkle_root = cm_merkle_root c, vj_challenge_seed = cm_challenge_seed c,
       vj_samples = map snd (rr_samples r), vj_tx_merkle_root = tb_tx_merkle_root b,
       vj_selected_tx_hashes_hash = Some (tb_selected_tx_hashes_hash b), vj_tx_count = tb_tx_count b,
       vj_tx_fee_total_units = tb_tx_fee_total_units b, vj_status = ''pending'', vj_created_at = stamp,
       vj_completed_at = None, vj_mempool_snapshot_id = Some (tb_mempool_snapshot_id b), vj_tx_hashes = tx_hashes,
       vj_transactions = transactions, vj_assigned_validator_id = None, vj_assigned_at = None,
       vj_assignment_failures = 0, vj_blocking_reason = None, vj_result_reason = None, vj_validator_signature = None,
       vj_validation_ms = None, vj_job_created_at = Some stamp, vj_first_vote_at = None, vj_second_vote_at = None,
       vj_quorum_reached_at = None, vj_finalized_at = None, vj_waiting_for_first_vote_ms = None,
       vj_waiting_for_quorum_ms = None, vj_finalization_ms = None\<rparr>)"

definition insert_job :: "validation_job \<Rightarrow> 'a db_certificates_scheme \<Rightarrow> 'a db_certificates_scheme result" where
  "insert_job j db =
     (if vj_job_id j \<in> vj_job_id ` set (validation_jobs db) then Inl (IntegrityError ''validation_jobs.job_id'')
      else if vj_task_id j \<in> vj_task_id ` set (validation_jobs db) then Inl (IntegrityError ''validation_jobs.task_id'')
      else Inr (db\<lparr>validation_jobs := validation_jobs db @ [j]\<rparr>))"

definition open_validation_job ::
  "mining_env \<Rightarrow> string \<Rightarrow> reveal_request \<Rightarrow> task_row \<Rightarrow> commitment \<Rightarrow> params_row \<Rightarrow> snapshot_view \<Rightarrow> tx_binding \<Rightarrow>
   'a db_mining_scheme \<Rightarrow> (reveal_response \<times> 'a db_mining_scheme) result" where
  "open_validation_job M fresh r t c p v b db =
     (let message = ''reveal accepted; waiting for external validator'';
          answer = (\<lambda>j. job_response ''validation_pending'' message c (j\<lparr>vj_samples := map snd (rr_samples r)\<rparr>)) in
      case find_job_of_task (rr_task_id r) db of
        Some j \<Rightarrow> Inr (answer j, db)
      | None \<Rightarrow> bindE (load_snapshot_transactions (me_sha256 M) (rr_task_id r) db) (\<lambda>transactions.
          let j = revealed_job M fresh r c b (sv_tx_hashes v) transactions in
          bindE (insert_job j db) (\<lambda>db1.
          Inr (answer j, update_tasks (\<lambda>t. tk_task_id t = rr_task_id r) (\<lambda>u. u\<lparr>tk_status := ''revealed'',
            tk_expires_at := Some (iso_at M (task_expiration_seconds_for_position M p (tk_range_end t)))\<rparr>) db1))))"

definition reveal_payload :: "reveal_request \<Rightarrow> commitment \<Rightarrow> tx_binding option \<Rightarrow> json" where
  "reveal_payload r c = build_reveal_signature_payload c (rr_miner_id r) (rr_signed_at r)"

definition forged_reveal ::
  "mining_env \<Rightarrow> reveal_request \<Rightarrow> commitment \<Rightarrow> 'a db_mining_scheme \<Rightarrow> reveal_response \<times> 'a db_mining_scheme" where
  "forged_reveal M r c db =
     rejected_reveal M r ''invalid reveal signature'' (cm_result_hash c)
       [(''signature_present'', JBool (rr_signature r \<noteq> []))] PENALTY_INVALID_SIGNATURE
       (update_tasks (\<lambda>t. tk_task_id t = rr_task_id r)
         (\<lambda>t. t\<lparr>tk_status := ''rejected'', tk_submitted_at := Some (isoformat (me_now M))\<rparr>) db)"

definition reveal_samples ::
  "mining_env \<Rightarrow> string \<Rightarrow> reveal_request \<Rightarrow> task_row \<Rightarrow> miner_row \<Rightarrow> commitment \<Rightarrow> params_row \<Rightarrow> snapshot_view \<Rightarrow>
   'a db_mining_scheme \<Rightarrow> (reveal_response \<times> 'a db_mining_scheme) result" where
  "reveal_samples M fresh r t m c p v db =
     (let b = reveal_binding c v in
      if rr_binding r \<noteq> b
      then Inr (rejected_reveal M r ''invalid_tx_commitment'' (cm_result_hash c)
        [(''expected_tx_merkle_root'', JStr (tb_tx_merkle_root b)),
         (''received_tx_merkle_root'', JStr (tb_tx_merkle_root (rr_binding r)))] PENALTY_INVALID_RESULT db)
      else bindE (signature_accepted M m (reveal_payload r c) b (rr_signature r)) (\<lambda>ok.
        if \<not> ok then Inr (forged_reveal M r c db)
        else if set (cm_samples c) \<noteq> fst ` set (rr_samples r)
        then Inr (rejected_reveal M r ''revealed samples do not match requested positions'' (cm_result_hash c)
          [(''requested_positions'', JList (map JInt (sort (remdups (cm_samples c))))),
           (''revealed_positions'', JList (map JInt (sort (remdups (map fst (rr_samples r))))))] PENALTY_INVALID_RESULT db)
        else open_validation_job M fresh r t c p v b db))"

definition reveal_committed ::
  "mining_env \<Rightarrow> string \<Rightarrow> reveal_request \<Rightarrow> task_row \<Rightarrow> miner_row \<Rightarrow> commitment \<Rightarrow> 'a db_mining_scheme \<Rightarrow>
   (reveal_response \<times> 'a db_mining_scheme) result" where
  "reveal_committed M fresh r t m c db =
     bindE (protocol_params_for_task t db) (\<lambda>p.
     bindE (if me_competitive M then expire_stale_competitive_task M t p db else Inr (False, db)) (\<lambda>(gone, db1).
     if gone
     then Inr (stale_competitive_response M (rr_task_id r) (rr_miner_id r) (cm_result_hash c) (Some (rr_signature r)) []
       ''competitive round closed'' db1)
     else case (if me_competitive M then round_pending_candidate t db1 else None) of
       Some j \<Rightarrow> Inr (waiting_response j, db1)
     | None \<Rightarrow> (case get_task_tx_snapshot (me_sha256 M) (rr_task_id r) db1 of
         None \<Rightarrow> Inr (rejected_reveal M r ''tx_snapshot_mismatch'' (cm_result_hash c) [] PENALTY_INVALID_RESULT db1)
       | Some v \<Rightarrow> reveal_samples M fresh r t m c p v db1)))"

definition reveal_open ::
  "mining_env \<Rightarrow> string \<Rightarrow> reveal_request \<Rightarrow> task_row \<Rightarrow> miner_row \<Rightarrow> commitment \<Rightarrow> 'a db_mining_scheme \<Rightarrow>
   (reveal_response \<times> 'a db_mining_scheme) result" where
  "reveal_open M fresh r t m c db =
     (let processed = (if tk_status t \<in> {''revealed'', ''accepted'', ''rejected''}
            then find_job_of_task (rr_task_id r) db else None) in
      if tk_status t = ''expired''
      then Inr (expired_reveal_response M (rr_task_id r) (rr_miner_id r) (cm_result_hash c) (Some (rr_signature r)) db)
      else case processed of
        Some j \<Rightarrow> Inr (processed_response c j, db)
      | None \<Rightarrow>
          if tk_status t \<noteq> ''committed''
          then Inr (rejected_reveal M r ''task is not committed'' (cm_result_hash c)
            [(''task_status'', JStr (tk_status t))] PENALTY_DUPLICATE db)
          else reveal_committed M fresh r t m c db)"

definition reveal_task ::
  "mining_env \<Rightarrow> string \<Rightarrow> reveal_request \<Rightarrow> 'a db_mining_scheme \<Rightarrow> (reveal_response \<times> 'a db_mining_scheme) result" where
  "reveal_task M fresh r db =
     bindE (expire_assigned_tasks M db) (\<lambda>db1.
     case (find_task_of (rr_task_id r) (rr_miner_id r) db1, find_commitment (rr_task_id r) db1) of
       (Some t, Some c) \<Rightarrow> (case find_miner (rr_miner_id r) db1 of
           None \<Rightarrow> Inr (rejected_reveal M r ''miner not found'' (cm_result_hash c) [] PENALTY_INVALID_SIGNATURE db1)
         | Some m \<Rightarrow>
             if tk_status t = ''stale''
             then Inr (stale_competitive_response M (rr_task_id r) (rr_miner_id r) (cm_result_hash c)
               (Some (rr_signature r)) [] (str_or (tk_stale_reason t) ''competitive round closed'') db1)
             else bindE (revive_task M t db1) (\<lambda>(u, db2). reveal_open M fresh r u m c db2))
     | _ \<Rightarrow> Inr (rejected_reveal M r ''commitment not found'' [] [] PENALTY_INVALID_RESULT db1))"

end
