(* ===== verification/ImportFrame.thy ===== *)
theory ImportFrame
  imports BlockSafety Consensus
begin

text \<open>
  What importing a block leaves alone. \<open>settle_frame\<close> extends the frame of the transaction handlers to
  rewards, reserves and the validators' share; its instances say that the import touches neither
  proposals nor votes nor finalizations (\<open>same_tail\<close>) and keeps a consistent ledger consistent
  (\<open>books_kept\<close>).
\<close>

text \<open>Only tables of \<open>db_chain\<close> other than those of the ledger differ.\<close>

definition same_books :: "'a db_chain_scheme \<Rightarrow> 'a db_chain_scheme \<Rightarrow> bool" where
  "same_books db db' \<longleftrightarrow> balances db' = balances db \<and> ledger_entries db' = ledger_entries db \<and>
     db_chain.more db' = db_chain.more db"

lemma same_books_refl [simp]: "same_books db db"
  by (simp add: same_books_def)

lemma books_update [simp]:
  "same_books db (db'\<lparr>rewards := r\<rparr>) \<longleftrightarrow> same_books db db'"
  "same_books db (db'\<lparr>treasury_epochs := e\<rparr>) \<longleftrightarrow> same_books db db'"
  "same_books db (db'\<lparr>account_nonces := n\<rparr>) \<longleftrightarrow> same_books db db'"
  "same_books db (db'\<lparr>mempool_transactions := m\<rparr>) \<longleftrightarrow> same_books db db'"
  "same_books db (db'\<lparr>validators := v\<rparr>) \<longleftrightarrow> same_books db db'"
  "same_books db (update_treasury k db') \<longleftrightarrow> same_books db db'"
  "same_books db (ensure_treasury S now db') \<longleftrightarrow> same_books db db'"
  "same_books db (update_reserve ep h db') \<longleftrightarrow> same_books db db'"
  "same_books db (record_science_event x y z w q db') \<longleftrightarrow> same_books db db'"
  by (simp_all add: same_books_def update_treasury_def ensure_treasury_def update_reserve_def record_science_event_def)

lemma ensure_epoch_books: "ensure_epoch ep h u now db = (r, db') \<Longrightarrow> same_books db db'"
  by (auto simp: ensure_epoch_def Let_def split: option.splits if_splits)

lemma accrue_books: "same_books db (accrue_tables S now h x db)"
  unfolding accrue_tables_def Let_def
  by (auto split: prod.split dest!: ensure_epoch_books simp: same_books_def update_treasury_def ensure_treasury_def)

lemma ensure_reserve_books: "same_books db (snd (ensure_reserve_epoch now ep db))"
  by (simp add: ensure_reserve_epoch_def same_books_def Let_def)

locale settle_frame = tx_frame R
  for R :: "'a db_consensus_scheme \<Rightarrow> 'a db_consensus_scheme \<Rightarrow> bool" +
  assumes R_books: "same_books a b \<Longrightarrow> R a b"
    and R_consensus: "consensus_apply_account_delta ts p a = Inr b \<Longrightarrow> R a b"
    and R_reward: "apply_reward_ledger_entry ts p a = Inr b \<Longrightarrow> R a b"
    and R_science: "science_apply_ledger_entry now p a = Inr b \<Longrightarrow> R a b"
    and R_ensure: "R a (ensure_balance_account acct ty now a)"
begin

lemma R_then_books: "R a b \<Longrightarrow> same_books b c \<Longrightarrow> R a c"
  using R_trans R_books by blast

lemma R_block_transaction:
  fixes db db' :: "'a db_consensus_scheme"
  assumes "apply_block_transaction E miner mty h ts replay tx (e, ap, db) = Inr (e', ap', db')"
  shows "R db db'"
proof -
  obtain e1 db1 db2 db3 where
    r: "transaction_rejection_reason E tx e (\<lambda>_. []) replay replay db = Inr (None, e1, db1)"
    and x: "apply_transaction E replay tx h ts db1 = Inr db2"
    and w: "apply_fee_reward miner mty tx h ts db2 = Inr db3"
    and d: "db' = record_confirmed_nonce (x_sender tx) (x_nonce tx) ts (confirm_transaction (x_tx_hash tx) h ts db3)"
    by (rule apply_block_transaction_cases [OF assms(1)])
  have "same_core db db1" using rejection_reason_cases(1) [OF r] by (elim exE) simp
  then have "R db db3"
    using R_core R_apply_transaction [OF x] R_fee_reward [OF w] R_trans by blast
  moreover have "R db3 db'"
    by (rule R_books) (simp add: d record_confirmed_nonce_def confirm_transaction_def update_mempool_def)
  ultimately show ?thesis by (rule R_trans)
qed

lemma R_block_transactions:
  assumes "apply_block_transactions E miner mty h txs ts replay db = Inr (hashes, db')"
  shows "R db db'"
proof -
  let ?f = "apply_block_transaction E miner mty h (op_time (ne_clock E) ts) replay"
  obtain e where run: "foldE ?f txs (Map.empty, [], db) = Inr (e, hashes, db')"
    using assms by (auto simp: apply_block_transactions_def)
  have "R db (snd (snd (e, hashes, db')))"
  proof (rule foldE_invariant [where f = ?f and P = "\<lambda>s. R db (snd (snd s))", OF _ _ run])
    fix x s s' assume "R db (snd (snd s))" and step: "?f x s = Inr s'"
    moreover obtain a b c where "s = (a, b, c)" by (cases s) auto
    moreover obtain a' b' c' where "s' = (a', b', c')" by (cases s') auto
    ultimately show "R db (snd (snd s'))"
      using R_block_transaction R_trans by fastforce
  qed simp
  then show ?thesis by simp
qed

lemma R_science_reserve:
  assumes "record_science_reserve_for_block now h x db = Inr (a, db')"
  shows "R db db'"
proof -
  obtain r db1 where e: "ensure_reserve_epoch now (current_epoch now) db = (r, db1)" by fastforce
  have r1: "R db db1" using R_books [OF ensure_reserve_books [of db now "current_epoch now"]] by (simp add: e)
  have r2: "R db (update_reserve ep f db1)" for ep f by (rule R_then_books [OF r1]) simp
  have r3: "R db (record_science_event n i k d t db3)"
    if "science_apply_ledger_entry now q (update_reserve ep f db1) = Inr db3" for n i k d t q ep f db3
    by (rule R_then_books [OF R_trans [OF r2 R_science [OF that]]]) simp
  show ?thesis
    using assms r3
    by (auto simp: record_science_reserve_for_block_def e Let_def split: if_splits)
qed

lemma R_treasury_record:
  "record_scientific_development_treasury_for_block S now h x db = Inr (a, db') \<Longrightarrow> R db db'"
  using R_books [OF accrue_books [of db S now h]]
  by (auto simp: record_scientific_development_treasury_for_block_def Let_def split: if_splits
      dest!: R_treasury intro: R_trans)

lemma R_block_reward:
  assumes "record_miner_block_reward depth a ts db = Inr (r, db')"
  shows "R db db'"
proof -
  have b: "R db ((ensure_balance_account acct ty ts db)\<lparr>rewards := rs\<rparr>)" for acct ty rs
    by (rule R_then_books [OF R_ensure [of db acct ty ts]]) simp
  then have c: "R db db3" if "apply_reward_ledger_entry ts q ((ensure_balance_account acct ty ts db)\<lparr>rewards := rs\<rparr>) = Inr db3"
    for acct ty rs q db3 using R_trans R_reward [OF that] by blast
  show ?thesis
    using assms b c by (auto simp: record_miner_block_reward_def Let_def split: if_splits)
qed

lemma R_mature_reward: "mature_reward h ts r (db, c, u) = Inr (db', c', u') \<Longrightarrow> R db db'"
proof -
  have b: "R d (d\<lparr>rewards := rs\<rparr>)" for d :: "'a db_consensus_scheme" and rs by (rule R_books) simp
  show "mature_reward h ts r (db, c, u) = Inr (db', c', u') \<Longrightarrow> R db db'"
    by (auto simp: mature_reward_def mark_mature_def split: if_splits dest!: R_reward intro: R_trans b)
qed

lemma R_mature_rewards:
  assumes "mature_block_rewards h ts db = Inr (s, db')"
  shows "R db db'"
proof -
  obtain c u where run: "foldE (mature_reward h ts) (due_rewards h db) (db, 0, 0) = Inr (db', c, u)"
    using assms by (auto simp: mature_block_rewards_def)
  have "R db (fst (db', c, u))"
  proof (rule foldE_invariant [where f = "mature_reward h ts" and P = "\<lambda>s. R db (fst s)", OF _ _ run])
    fix x s s' assume "R db (fst s)" and "mature_reward h ts x s = Inr s'"
    moreover obtain a b c where "s = (a, b, c)" by (cases s) auto
    moreover obtain a' b' c' where "s' = (a', b', c')" by (cases s') auto
    ultimately show "R db (fst s')" using R_mature_reward R_trans by fastforce
  qed simp
  then show ?thesis by simp
qed

lemma R_pay_validator:
  assumes "pay_validator E b pid vid u db = Inr db'"
  shows "R db db'"
proof -
  have v: "R d (ensure_validator E x ts d)" "R d (credit_job x ts d)" for x ts and d :: "'a db_consensus_scheme"
    by (rule R_books, simp add: same_books_def ensure_validator_def credit_job_def split: option.split)+
  have c: "R db (credit_job x ts d)" if "consensus_apply_account_delta t q (ensure_validator E y t' db) = Inr d" for x ts t q y t' d
    using R_trans [OF R_trans [OF v(1) R_consensus [OF that]] v(2)] .
  show ?thesis
    using assms c unfolding pay_validator_def Let_def bindE_eq_Inr
    by (elim exE conjE) (auto split: if_splits option.splits intro: v R_consensus)
qed

lemma R_pay_validators: "pay_validators E b pid pool per vids d db = Inr db' \<Longrightarrow> R db db'"
proof (induction vids arbitrary: d db)
  case (Cons vid vids)
  then obtain x db1 where "pay_validator E b pid vid x db = Inr db1" "pay_validators E b pid pool per vids (d + x) db1 = Inr db'"
    by (auto simp: Let_def)
  then show ?case using R_pay_validator Cons.IH R_trans by blast
qed simp

lemma R_validator_rewards: "apply_distributed_validator_rewards E b pid u db = Inr db' \<Longrightarrow> R db db'"
  by (auto simp: apply_distributed_validator_rewards_def Let_def split: if_splits dest: R_pay_validators)

lemma R_settle_transactions: "settle_transactions E b db = Inr db' \<Longrightarrow> R db db'"
  by (auto simp: settle_transactions_def split: if_splits dest: R_block_transactions)

text \<open>What precedes and what follows the distribution of the validators' share.\<close>

lemma R_settle:
  assumes "settle_block E now b pid db = Inr db'"
  obtains d1 d2 units where "R db d1" and "apply_distributed_validator_rewards E b pid units d1 = Inr d2" and "R d2 db'"
proof -
  obtain r db1 db2 mu s db3 t db4 db5 m where st:
    "record_miner_block_reward (st_block_maturity_depth (ne_settings (ce_node E))) (miner_reward_args b pid) (bk_timestamp b) db = Inr (r, db1)"
    "settle_transactions E b db1 = Inr db2"
    "record_science_reserve_for_block now (bk_height b)
      (reward_units_to_float (total_units_from_miner_reward_units mu)) db2 = Inr (s, db3)"
    "record_scientific_development_treasury_for_block (ne_settings (ce_node E)) now (bk_height b)
      (reward_units_to_float (total_units_from_miner_reward_units mu)) db3 = Inr (t, db4)"
    "apply_distributed_validator_rewards E b pid (total_units_from_miner_reward_units mu) db4 = Inr db5"
    "mature_block_rewards (bk_height b) (bk_timestamp b) db5 = Inr (m, db')"
    using assms unfolding settle_block_def Let_def bindE_eq_Inr by (elim exE conjE) auto
  have "R db db4"
    using R_block_reward [OF st(1)] R_settle_transactions [OF st(2)] R_science_reserve [OF st(3)] R_treasury_record [OF st(4)]
      R_trans by blast
  from that [OF this st(5) R_mature_rewards [OF st(6)]] show ?thesis .
qed

lemma R_settle_block: "settle_block E now b pid db = Inr db' \<Longrightarrow> R db db'"
  by (erule R_settle) (meson R_trans R_validator_rewards)

end

interpretation import_tail: settle_frame same_tail
proof unfold_locales
  fix a b :: "'a db_consensus_scheme"
  show "same_books a b \<Longrightarrow> same_tail a b" by (simp add: same_books_def same_tail_def)
  show "consensus_apply_account_delta ts p a = Inr b \<Longrightarrow> same_tail a b" for ts p
    by (auto simp: consensus_apply_account_delta_def upsert_balance_def insert_ledger_entry_def same_tail_def Let_def)
  show "apply_reward_ledger_entry ts p a = Inr b \<Longrightarrow> same_tail a b" for ts p
    by (auto simp: apply_reward_ledger_entry_def ensure_balance_account_def update_balance_def insert_ledger_entry_def
        same_tail_def Let_def)
  show "science_apply_ledger_entry now p a = Inr b \<Longrightarrow> same_tail a b" for now p
    by (auto simp: science_apply_ledger_entry_def ensure_balance_account_def update_balance_def insert_ledger_entry_def
        same_tail_def Let_def split: if_splits)
  show "same_tail a (ensure_balance_account acct ty now a)" for acct ty now
    by (simp add: ensure_balance_account_def same_tail_def Let_def)
qed

interpretation import_books: settle_frame books_kept
proof unfold_locales
  fix a b :: "'a db_consensus_scheme"
  show "same_books a b \<Longrightarrow> books_kept a b" by (rule books_kept_tables) (simp_all add: same_books_def)
  show "consensus_apply_account_delta ts p a = Inr b \<Longrightarrow> books_kept a b" for ts p
    using consensus_post.post_ok by (auto simp: books_kept_def)
  show "apply_reward_ledger_entry ts p a = Inr b \<Longrightarrow> books_kept a b" for ts p
    using rewards_post.post_ok by (auto simp: books_kept_def)
  show "science_apply_ledger_entry now p a = Inr b \<Longrightarrow> books_kept a b" for now p
    using science_post.post_ok by (auto simp: books_kept_def)
  show "books_kept a (ensure_balance_account acct ty now a)" for acct ty now
    by (simp add: books_kept_def ensure_balance_account_ok)
qed

text \<open>The ledger's entries are never changed, only added to.\<close>

definition entries_grow :: "'a db_ledger_scheme \<Rightarrow> 'a db_ledger_scheme \<Rightarrow> bool" where
  "entries_grow db db' \<longleftrightarrow> (\<exists>es. ledger_entries db' = ledger_entries db @ es)"

lemma entries_grow_same: "ledger_entries db' = ledger_entries db \<Longrightarrow> entries_grow db db'"
  by (simp add: entries_grow_def)

interpretation import_grow: settle_frame entries_grow
proof unfold_locales
  fix a b c :: "'a db_consensus_scheme"
  show "entries_grow a b \<Longrightarrow> entries_grow b c \<Longrightarrow> entries_grow a c" by (auto simp: entries_grow_def)
  show "same_core a b \<Longrightarrow> entries_grow a b" by (rule entries_grow_same) (simp add: same_core_def)
  show "same_books a b \<Longrightarrow> entries_grow a b" by (rule entries_grow_same) (simp add: same_books_def)
  show "apply_account_delta ts p a = Inr b \<Longrightarrow> entries_grow a b" for ts p
    by (auto simp: posting_writes entries_grow_def split: if_splits)
  show "treasury_apply_ledger_entry now ots p a = Inr b \<Longrightarrow> entries_grow a b" for now ots p
    by (auto simp: posting_writes entries_grow_def split: if_splits)
  show "consensus_apply_account_delta ts p a = Inr b \<Longrightarrow> entries_grow a b" for ts p
    by (auto simp: posting_writes entries_grow_def split: if_splits)
  show "apply_reward_ledger_entry ts p a = Inr b \<Longrightarrow> entries_grow a b" for ts p
    by (auto simp: posting_writes entries_grow_def split: if_splits)
  show "science_apply_ledger_entry now p a = Inr b \<Longrightarrow> entries_grow a b" for now p
    by (auto simp: posting_writes entries_grow_def split: if_splits)
  show "entries_grow a (ensure_balance_account acct ty now a)" for acct ty now
    by (rule entries_grow_same) simp
qed

lemma same_tail_refl [simp]: "same_tail db db"
  by (simp add: same_tail_def)

lemma same_tail_trans: "same_tail a b \<Longrightarrow> same_tail b c \<Longrightarrow> same_tail a c"
  by (simp add: same_tail_def)

lemma tail_update [simp]:
  "same_tail db (db'\<lparr>mempool_transactions := m\<rparr>) \<longleftrightarrow> same_tail db db'"
  "same_tail db (db'\<lparr>account_nonces := n\<rparr>) \<longleftrightarrow> same_tail db db'"
  "same_tail db (ensure_balance_account a ty now db') \<longleftrightarrow> same_tail db db'"
  by (simp_all add: same_tail_def ensure_balance_account_def Let_def)

lemmas settle_tail = import_tail.R_settle_block

section \<open>The tables of the consensus\<close>

lemma consensus_fields_of_tail:
  assumes "same_tail db (db' :: 'a db_consensus_scheme)"
  shows "proposals db' = proposals db" and "consensus_votes db' = consensus_votes db"
    and "finalizations db' = finalizations db" and "sync_events db' = sync_events db"
    and "blocks db' = blocks db" and "snapshot_imports db' = snapshot_imports db"
    and "miners db' = miners db" and "tasks db' = tasks db"
  using assms
  by (cases db; cases db'; simp add: same_tail_def db_chain.defs db_mempool.defs db_certificates.defs db_consensus.defs)+

text \<open>Proposals, votes and finalizations.\<close>

definition same_ballots :: "'a db_consensus_scheme \<Rightarrow> 'a db_consensus_scheme \<Rightarrow> bool" where
  "same_ballots db db' \<longleftrightarrow> proposals db' = proposals db \<and> consensus_votes db' = consensus_votes db \<and>
     finalizations db' = finalizations db"

lemma same_ballots_trans: "same_ballots a b \<Longrightarrow> same_ballots b c \<Longrightarrow> same_ballots a c"
  by (simp add: same_ballots_def)

lemma same_ballots_tail: "same_tail db db' \<Longrightarrow> same_ballots db db'"
  by (simp add: same_ballots_def consensus_fields_of_tail)

lemma ensure_mempool_tail:
  "ensure_block_transactions_in_mempool E txs ts db = Inr db' \<Longrightarrow> same_tail db db'"
proof -
  assume run: "ensure_block_transactions_in_mempool E txs ts db = Inr db'"
  show "same_tail db db'"
  proof (rule foldE_invariant [where f = "ensure_one E (op_time (ne_clock E) ts)" and P = "same_tail db" and s = db])
    show "foldE (ensure_one E (op_time (ne_clock E) ts)) txs db = Inr db'"
      using run by (simp add: ensure_block_transactions_in_mempool_def)
    fix x s s' assume "same_tail db s" "ensure_one E (op_time (ne_clock E) ts) x s = Inr s'"
    then show "same_tail db s'"
      by (auto simp: ensure_one_def clear_nonce_def insert_mempool_def split: if_splits option.splits)
  qed simp
qed

lemma admit_tail: "admit_block_transactions E b db = Inr db' \<Longrightarrow> same_tail db db'"
  by (auto simp: admit_block_transactions_def split: if_splits dest: ensure_mempool_tail)

lemma store_block_Inr:
  assumes "store_block E b tid par db = Inr db'"
  shows "\<exists>r. bl_height r = bk_height b \<and> bl_block_hash r = bk_block_hash b \<and>
     bl_previous_hash r = bk_previous_hash b \<and> db' = db\<lparr>blocks := blocks db @ [r]\<rparr>"
proof -
  obtain x y where "insert_block (block_row_of E b tid par x y) db = Inr db'"
    using assms by (auto simp: store_block_def)
  then have "db' = db\<lparr>blocks := blocks db @ [block_row_of E b tid par x y]\<rparr>"
    by (auto simp: insert_block_def Let_def split: if_splits)
  then show ?thesis by (intro exI [of _ "block_row_of E b tid par x y"]) (simp add: block_row_of_def)
qed

lemma record_block_ballots: "record_block E now b db = Inr db' \<Longrightarrow> same_ballots db db'"
  by (auto simp: record_block_def Let_def ensure_task_def insert_task_def ensure_miner_def same_ballots_def
      split: option.splits if_splits dest!: admit_tail store_block_Inr dest: consensus_fields_of_tail)

lemma store_certificate_ballots:
  fixes db db' :: "'a db_consensus_scheme"
  assumes "store_finality_certificate_for_block H V b samples c tid db = Inr db'"
  shows "same_ballots db db'"
proof -
  have doc: "same_ballots db db'" if "store_certificate_document b samples tid x payload votes db = Inr db'" for x payload votes
    using that unfolding store_certificate_document_def bindE_eq_Inr
    by (elim exE conjE) (auto simp: ensure_certificate_job_def upsert_certificate_def same_ballots_def Let_def
        split: option.splits if_splits)
  show ?thesis
    using assms doc unfolding store_finality_certificate_for_block_def
    by (auto split: option.splits json.splits simp: same_ballots_def)
qed

lemma state_root_ballots: "update_block_state_root E h ts db = Inr (r, db') \<Longrightarrow> same_ballots db db'"
  by (auto simp: update_block_state_root_def same_ballots_def)

text \<open>The ledger: only \<open>settle_block\<close> writes it.\<close>

lemma ensure_mempool_ledger:
  assumes "ensure_block_transactions_in_mempool E txs ts db = Inr db'"
  shows "balances db' = balances db \<and> ledger_entries db' = ledger_entries db"
proof (rule foldE_invariant [where f = "ensure_one E (op_time (ne_clock E) ts)" and s = db and
      P = "\<lambda>s. balances s = balances db \<and> ledger_entries s = ledger_entries db"])
  show "foldE (ensure_one E (op_time (ne_clock E) ts)) txs db = Inr db'"
    using assms by (simp add: ensure_block_transactions_in_mempool_def)
  fix x s s' assume "balances s = balances db \<and> ledger_entries s = ledger_entries db"
    "ensure_one E (op_time (ne_clock E) ts) x s = Inr s'"
  then show "balances s' = balances db \<and> ledger_entries s' = ledger_entries db"
    by (auto simp: ensure_one_def clear_nonce_def insert_mempool_def split: if_splits option.splits)
qed simp

lemma record_block_ledger:
  "record_block E now b db = Inr db' \<Longrightarrow> balances db' = balances db"
  "record_block E now b db = Inr db' \<Longrightarrow> ledger_entries db' = ledger_entries db"
  by (auto simp: record_block_def Let_def ensure_task_def insert_task_def ensure_miner_def admit_block_transactions_def
      split: option.splits if_splits dest!: store_block_Inr dest: ensure_mempool_ledger)

lemma store_certificate_ledger:
  fixes db db' :: "'a db_consensus_scheme"
  assumes "store_finality_certificate_for_block H V b samples c tid db = Inr db'"
  shows "balances db' = balances db" and "ledger_entries db' = ledger_entries db"
proof -
  have doc: "balances db' = balances db \<and> ledger_entries db' = ledger_entries db"
    if "store_certificate_document b samples tid x payload votes db = Inr db'" for x payload votes
    using that unfolding store_certificate_document_def bindE_eq_Inr
    by (elim exE conjE) (auto simp: ensure_certificate_job_def upsert_certificate_def Let_def
        split: option.splits if_splits)
  have "balances db' = balances db \<and> ledger_entries db' = ledger_entries db"
    using assms doc unfolding store_finality_certificate_for_block_def
    by (auto split: option.splits json.splits)
  then show "balances db' = balances db" "ledger_entries db' = ledger_entries db" by simp_all
qed

lemma state_root_ledger:
  assumes "update_block_state_root E h ts db = Inr (r, db')"
  shows "balances db' = balances db" and "ledger_entries db' = ledger_entries db"
  using assms by (auto simp: update_block_state_root_def)

lemma import_ballots:
  assumes "import_finalized_block E now b pid db = Inr (fresh, db')"
  shows "same_ballots db db'"
proof (cases fresh)
  case False
  with assms show ?thesis
    by (auto simp: import_finalized_block_def same_ballots_def split: if_splits)
next
  case True
  then obtain db1 db2 r db3 where steps: "record_block E now b db = Inr db1" "settle_block E now b pid db1 = Inr db2"
    "update_block_state_root E (bk_height b) (bk_timestamp b) db2 = Inr (r, db3)"
    "store_finality_certificate_for_block (ce_sha256 E) (ce_verify E) (certified E b) (bk_samples b)
       (bk_finality_certificate b) (block_task_id b) db3 = Inr db'"
    using assms by (auto simp: import_finalized_block_def split: if_splits)
  show ?thesis
    using record_block_ballots [OF steps(1)] same_ballots_tail [OF settle_tail [OF steps(2)]]
      state_root_ballots [OF steps(3)] store_certificate_ballots [OF steps(4)] same_ballots_trans by blast
qed

end
