(* ===== verification/ConsensusProps.thy ===== *)
theory ConsensusProps
  imports ImportFrame
begin

text \<open>
  The voting protocol as a step relation: any sequence of proposals, locally mined blocks, votes,
  finalizations and promotions. \<open>ballots_ok\<close> is its invariant: a proposal is named by the hash of
  its block, a validator has at most one vote per proposal, and the counts of a proposal are the
  tallies of its votes. The properties: whatever is reached, a block is finalized only with a quorum
  of distinct approving validators, and a second vote is refused; but a proposal's payload can be
  replaced, votes and all, by another one with the same block hash, in which the validators' share is
  whatever the sender wrote.
\<close>

section \<open>Tallies\<close>

definition tally :: "string \<Rightarrow> bool \<Rightarrow> 'a db_consensus_scheme \<Rightarrow> int" where
  "tally pid approved db = int (length (proposal_votes pid approved db))"

definition approvers :: "string \<Rightarrow> 'a db_consensus_scheme \<Rightarrow> string set" where
  "approvers pid db = cv_validator_id ` set (proposal_votes pid True db)"

definition PROPOSAL_STATUSES :: "string set" where
  "PROPOSAL_STATUSES = {''pending'', ''pending_missing_ancestors'', ''known'', ''imported'', ''finalized'', ''rejected''}"

definition ballots_ok :: "chain_env \<Rightarrow> 'a db_consensus_scheme \<Rightarrow> bool" where
  "ballots_ok E db \<longleftrightarrow>
     distinct (map pr_proposal_id (proposals db)) \<and>
     distinct (map (\<lambda>v. (cv_proposal_id v, cv_validator_id v)) (consensus_votes db)) \<and>
     cv_proposal_id ` set (consensus_votes db) \<subseteq> pr_proposal_id ` set (proposals db) \<and>
     (\<forall>p \<in> set (proposals db). pr_proposal_id p = proposal_id E (pr_block_hash p) \<and>
        pr_approvals p = tally (pr_proposal_id p) True db \<and> pr_rejections p = tally (pr_proposal_id p) False db \<and>
        pr_status p \<in> PROPOSAL_STATUSES)"

lemma ballots_okD:
  assumes "ballots_ok E db"
  shows "distinct (map pr_proposal_id (proposals db))"
    and "distinct (map (\<lambda>v. (cv_proposal_id v, cv_validator_id v)) (consensus_votes db))"
    and "cv_proposal_id ` set (consensus_votes db) \<subseteq> pr_proposal_id ` set (proposals db)"
    and "p \<in> set (proposals db) \<Longrightarrow> pr_proposal_id p = proposal_id E (pr_block_hash p)"
    and "p \<in> set (proposals db) \<Longrightarrow> pr_approvals p = tally (pr_proposal_id p) True db"
    and "p \<in> set (proposals db) \<Longrightarrow> pr_rejections p = tally (pr_proposal_id p) False db"
    and "p \<in> set (proposals db) \<Longrightarrow> pr_status p \<in> PROPOSAL_STATUSES"
  using assms unfolding ballots_ok_def by blast+

lemma ballots_okI:
  assumes "distinct (map pr_proposal_id (proposals db))"
    and "distinct (map (\<lambda>v. (cv_proposal_id v, cv_validator_id v)) (consensus_votes db))"
    and "cv_proposal_id ` set (consensus_votes db) \<subseteq> pr_proposal_id ` set (proposals db)"
    and "\<And>p. p \<in> set (proposals db) \<Longrightarrow> pr_proposal_id p = proposal_id E (pr_block_hash p) \<and>
        pr_approvals p = tally (pr_proposal_id p) True db \<and> pr_rejections p = tally (pr_proposal_id p) False db \<and>
        pr_status p \<in> PROPOSAL_STATUSES"
  shows "ballots_ok E db"
  unfolding ballots_ok_def using assms by blast

text \<open>A change of proposals that keeps ids, hashes and counts, and gives a status of the list.\<close>

definition keeps_counts :: "proposal \<Rightarrow> proposal \<Rightarrow> bool" where
  "keeps_counts p q \<longleftrightarrow> pr_proposal_id q = pr_proposal_id p \<and> pr_block_hash q = pr_block_hash p \<and>
     pr_approvals q = pr_approvals p \<and> pr_rejections q = pr_rejections p \<and>
     (pr_status p \<in> PROPOSAL_STATUSES \<longrightarrow> pr_status q \<in> PROPOSAL_STATUSES)"

lemma tally_cong: "consensus_votes db' = consensus_votes db \<Longrightarrow> tally pid a db' = tally pid a db"
  by (simp add: tally_def proposal_votes_def)

lemma ballots_ok_cong:
  "proposals db' = proposals db \<Longrightarrow> consensus_votes db' = consensus_votes db \<Longrightarrow> ballots_ok E db' \<longleftrightarrow> ballots_ok E db"
  by (simp add: ballots_ok_def tally_cong [of db' db])

lemma ballots_ok_map:
  assumes "ballots_ok E db" and "consensus_votes db' = consensus_votes db"
    and "proposals db' = map f (proposals db)" and "\<And>p. p \<in> set (proposals db) \<Longrightarrow> keeps_counts p (f p)"
  shows "ballots_ok E db'"
proof (rule ballots_okI)
  have ids: "map pr_proposal_id (proposals db') = map pr_proposal_id (proposals db)"
    using assms(3,4) by (simp add: keeps_counts_def)
  then have set: "pr_proposal_id ` set (proposals db') = pr_proposal_id ` set (proposals db)"
    by (metis list.set_map)
  show "distinct (map pr_proposal_id (proposals db'))" unfolding ids by (rule ballots_okD(1) [OF assms(1)])
  show "distinct (map (\<lambda>v. (cv_proposal_id v, cv_validator_id v)) (consensus_votes db'))"
    unfolding assms(2) by (rule ballots_okD(2) [OF assms(1)])
  show "cv_proposal_id ` set (consensus_votes db') \<subseteq> pr_proposal_id ` set (proposals db')"
    unfolding assms(2) set by (rule ballots_okD(3) [OF assms(1)])
  fix q assume "q \<in> set (proposals db')"
  then obtain p where p: "p \<in> set (proposals db)" "q = f p" using assms(3) by auto
  note k = assms(4) [OF p(1), unfolded keeps_counts_def]
  show "pr_proposal_id q = proposal_id E (pr_block_hash q) \<and> pr_approvals q = tally (pr_proposal_id q) True db' \<and>
      pr_rejections q = tally (pr_proposal_id q) False db' \<and> pr_status q \<in> PROPOSAL_STATUSES"
    unfolding p(2) tally_cong [OF assms(2)] using k ballots_okD(4-7) [OF assms(1) p(1)] by simp
qed

lemma ballots_ok_update:
  assumes "ballots_ok E db" and "\<And>p. pr_proposal_id p = pid \<Longrightarrow> keeps_counts p (f p)"
  shows "ballots_ok E (update_proposal pid f db)"
  by (rule ballots_ok_map [OF assms(1), where f = "\<lambda>p. if pr_proposal_id p = pid then f p else p"])
    (simp_all add: update_proposal_def tbl_update_def assms(2), simp add: keeps_counts_def)

lemma ballots_ok_event [simp]:
  "ballots_ok E (record_consensus_event now ty st d db) \<longleftrightarrow> ballots_ok E db"
  by (rule ballots_ok_cong) (simp_all add: record_consensus_event_def)

section \<open>Every operation keeps the invariant\<close>

text \<open>A proposal nobody has voted on yet.\<close>

lemma ballots_ok_new:
  assumes "ballots_ok E db" and "tbl_find pr_proposal_id (pr_proposal_id p) (proposals db) = None"
    and "pr_proposal_id p = proposal_id E (pr_block_hash p)" "pr_approvals p = 0" "pr_rejections p = 0"
    and "pr_status p \<in> PROPOSAL_STATUSES"
  shows "ballots_ok E (db\<lparr>proposals := proposals db @ [p]\<rparr>)"
proof (rule ballots_okI)
  let ?db = "db\<lparr>proposals := proposals db @ [p]\<rparr>"
  have new: "pr_proposal_id p \<notin> pr_proposal_id ` set (proposals db)"
    using assms(2) by (simp add: tbl_find_None)
  have t: "tally x a ?db = tally x a db" for x a
    by (rule tally_cong) simp
  have "cv_proposal_id v \<noteq> pr_proposal_id p" if "v \<in> set (consensus_votes db)" for v
    using subsetD [OF ballots_okD(3) [OF assms(1)] imageI [OF that]] new by metis
  then have zero: "tally (pr_proposal_id p) a db = 0" for a
    by (simp add: tally_def proposal_votes_def filter_empty_conv)
  show "distinct (map pr_proposal_id (proposals ?db))" using new ballots_okD(1) [OF assms(1)] by simp
  show "distinct (map (\<lambda>v. (cv_proposal_id v, cv_validator_id v)) (consensus_votes ?db))"
    using ballots_okD(2) [OF assms(1)] by simp
  show "cv_proposal_id ` set (consensus_votes ?db) \<subseteq> pr_proposal_id ` set (proposals ?db)"
    using ballots_okD(3) [OF assms(1)] by auto
  fix q assume "q \<in> set (proposals ?db)"
  then consider "q = p" | "q \<in> set (proposals db)" by auto
  then show "pr_proposal_id q = proposal_id E (pr_block_hash q) \<and> pr_approvals q = tally (pr_proposal_id q) True ?db \<and>
      pr_rejections q = tally (pr_proposal_id q) False ?db \<and> pr_status q \<in> PROPOSAL_STATUSES"
    unfolding t by cases (simp_all add: zero zero [unfolded assms(3)] assms(3-6) ballots_okD(4-7) [OF assms(1)])
qed

lemma ballots_ok_upsert:
  assumes "ballots_ok E db" and "upsert_proposal f p db = Inr db'"
    and "pr_proposal_id p = proposal_id E (pr_block_hash p)" "pr_approvals p = 0" "pr_rejections p = 0"
    and "pr_status p \<in> PROPOSAL_STATUSES" and "\<And>q. keeps_counts q (f q)"
  shows "ballots_ok E db'"
proof -
  have d: "db' = db\<lparr>proposals := tbl_upsert pr_proposal_id f p (proposals db)\<rparr>"
    using assms(2) by (simp add: upsert_proposal_def split: if_splits)
  show ?thesis
  proof (cases "tbl_find pr_proposal_id (pr_proposal_id p) (proposals db)")
    case None
    then show ?thesis using ballots_ok_new [OF assms(1) None assms(3-6)] by (simp add: d tbl_upsert_def)
  next
    case (Some q)
    then have "db' = update_proposal (pr_proposal_id p) f db" by (simp add: d tbl_upsert_def update_proposal_def)
    then show ?thesis using ballots_ok_update [OF assms(1)] assms(7) by simp
  qed
qed

lemma received_status_valid: "received_status E b db = Inr (st, r) \<Longrightarrow> st \<in> PROPOSAL_STATUSES"
  by (auto simp: received_status_def covered_by_chain_def Let_def PROPOSAL_STATUSES_def split: if_splits option.splits)

lemma new_proposal_simps [simp]:
  "pr_proposal_id (new_proposal E now b n st r t) = proposal_id E (bk_block_hash b)"
  "pr_block_hash (new_proposal E now b n st r t) = bk_block_hash b"
  "pr_approvals (new_proposal E now b n st r t) = 0" "pr_rejections (new_proposal E now b n st r t) = 0"
  "pr_status (new_proposal E now b n st r t) = st" "pr_payload (new_proposal E now b n st r t) = b"
  by (simp_all add: new_proposal_def)

lemma propose_keeps:
  assumes "ballots_ok E db" and "propose_block E now b0 n db = Inr (p, db')"
  shows "ballots_ok E db'"
proof -
  obtain b st r db1 where s: "received_status E b db = Inr (st, r)"
    and u: "upsert_proposal (reproposed (new_proposal E now b n st r None)) (new_proposal E now b n st r None) db = Inr db1"
    and d: "db' = record_consensus_event now ''block_proposed'' st (proposal_event b (proposal_id E (bk_block_hash b))) db1"
    using assms(2) unfolding propose_block_def Let_def bindE_eq_Inr
    by (elim exE conjE) (auto split: option.splits)
  note st = received_status_valid [OF s]
  have "ballots_ok E db1"
    by (rule ballots_ok_upsert [OF assms(1) u]) (simp_all add: st keeps_counts_def reproposed_def)
  then show ?thesis by (simp add: d)
qed

lemma mined_keeps:
  assumes "ballots_ok E db" and "record_local_block_proposal E now b0 n db = Inr (p, db')"
  shows "ballots_ok E db'"
proof -
  obtain b db1 where
    u: "upsert_proposal (mined_again (new_proposal E now b (str_or n (ce_node_id E)) ''imported''
          (Some ''locally mined block'') (Some now)))
        (new_proposal E now b (str_or n (ce_node_id E)) ''imported'' (Some ''locally mined block'') (Some now)) db = Inr db1"
    and d: "db' = record_consensus_event now ''local_block_proposed'' ''imported''
        (proposal_event b (proposal_id E (bk_block_hash b))) db1"
    using assms(2) unfolding record_local_block_proposal_def Let_def bindE_eq_Inr
    by (elim exE conjE) (auto split: option.splits)
  have "ballots_ok E db1"
    by (rule ballots_ok_upsert [OF assms(1) u]) (simp_all add: keeps_counts_def mined_again_def PROPOSAL_STATUSES_def)
  then show ?thesis by (simp add: d)
qed

lemma promote_row_keeps: "ballots_ok E (fst st) \<Longrightarrow> ballots_ok E (fst (promote_row E now row st))"
  by (cases st) (auto simp: promote_row_def keeps_counts_def PROPOSAL_STATUSES_def intro!: ballots_ok_update)

lemma promote_keeps:
  assumes "ballots_ok E db"
  shows "ballots_ok E (fst (promote_ready_missing_ancestor_proposals E now db))"
proof -
  have "ballots_ok E (fst (fold (promote_row E now) rows st))" if "ballots_ok E (fst st)" for rows st
    using that by (induction rows arbitrary: st) (simp_all add: promote_row_keeps)
  from this [of "(db, 0)"] assms show ?thesis
    by (simp add: promote_ready_missing_ancestor_proposals_def)
qed

lemma import_keeps: "ballots_ok E db \<Longrightarrow> import_finalized_block E now b pid db = Inr (i, db') \<Longrightarrow> ballots_ok E db'"
  using import_ballots ballots_ok_cong by (fastforce simp: same_ballots_def)

lemma upsert_finalization_keeps [simp]: "ballots_ok E (upsert_finalization r db) \<longleftrightarrow> ballots_ok E db"
  by (rule ballots_ok_cong) (simp_all add: upsert_finalization_def)

lemma close_stages:
  assumes "close_proposal E now p r db = Inr (q, db')"
  obtains i db1 db2 vs st where "import_finalized_block E now (pr_payload p) (pr_proposal_id p) db = Inr (i, db1)"
    and "db2 = (if i then fst (promote_ready_missing_ancestor_proposals E now db1) else db1)"
    and "st = (if i then ''imported'' else ''finalized'')"
    and "db' = record_consensus_event now ''block_finalized'' st (finalization_event p vs)
      (update_proposal (pr_proposal_id p) (\<lambda>q. q\<lparr>pr_status := st, pr_finalized_at := Some now, pr_updated_at := now\<rparr>)
        (upsert_finalization (finalization_of E now p r vs i) db2))"
    and "find_proposal (pr_proposal_id p) db' = Some q"
  using assms unfolding close_proposal_def Let_def bindE_eq_Inr
  by (elim exE conjE) (auto split: option.splits prod.splits)

lemma close_keeps:
  assumes "ballots_ok E db" and "close_proposal E now p r db = Inr (q, db')"
  shows "ballots_ok E db'"
proof -
  obtain i db1 db2 vs st where m: "import_finalized_block E now (pr_payload p) (pr_proposal_id p) db = Inr (i, db1)"
    and d2: "db2 = (if i then fst (promote_ready_missing_ancestor_proposals E now db1) else db1)"
    and st: "st = (if i then ''imported'' else ''finalized'')"
    and d: "db' = record_consensus_event now ''block_finalized'' st (finalization_event p vs)
      (update_proposal (pr_proposal_id p) (\<lambda>q. q\<lparr>pr_status := st, pr_finalized_at := Some now, pr_updated_at := now\<rparr>)
        (upsert_finalization (finalization_of E now p r vs i) db2))"
    by (rule close_stages [OF assms(2)])
  have "ballots_ok E db2" by (simp add: d2 import_keeps [OF assms(1) m] promote_keeps [OF import_keeps [OF assms(1) m]])
  then have "ballots_ok E (upsert_finalization (finalization_of E now p r vs i) db2)" by simp
  then show ?thesis
    unfolding d ballots_ok_event
    by (rule ballots_ok_update) (simp add: keeps_counts_def st PROPOSAL_STATUSES_def)
qed

lemma finalize_keeps: "ballots_ok E db \<Longrightarrow> finalize_proposal E now pid db = Inr (q, db') \<Longrightarrow> ballots_ok E db'"
  by (auto simp: finalize_proposal_def Let_def split: option.splits if_splits dest: close_keeps)

section \<open>A vote\<close>

lemma insert_vote_Inr:
  "insert_vote v db = Inr db' \<Longrightarrow> db' = db\<lparr>consensus_votes := consensus_votes db @ [v]\<rparr> \<and>
     (\<forall>w \<in> set (consensus_votes db). (cv_proposal_id w, cv_validator_id w) \<noteq> (cv_proposal_id v, cv_validator_id v))"
  by (auto simp: insert_vote_def split: if_splits)

lemma tally_insert:
  "tally pid a (db\<lparr>consensus_votes := consensus_votes db @ [v]\<rparr>) =
     tally pid a db + (if cv_proposal_id v = pid \<and> cv_approved v = a then 1 else 0)"
  by (simp add: tally_def proposal_votes_def)

text \<open>Inserting a vote and refreshing the counts of its proposal.\<close>

lemma ballots_ok_vote:
  assumes "ballots_ok E db" and "insert_vote v db = Inr db1" and "pid = cv_proposal_id v"
    and "pid \<in> pr_proposal_id ` set (proposals db)"
  shows "ballots_ok E (refresh_vote_counts now pid db1)"
proof (rule ballots_okI)
  let ?db2 = "refresh_vote_counts now pid db1"
  let ?f = "\<lambda>p. p\<lparr>pr_approvals := tally pid True db1, pr_rejections := tally pid False db1, pr_updated_at := now\<rparr>"
  have d1: "db1 = db\<lparr>consensus_votes := consensus_votes db @ [v]\<rparr>"
    and new: "(cv_proposal_id v, cv_validator_id v) \<notin> (\<lambda>v. (cv_proposal_id v, cv_validator_id v)) ` set (consensus_votes db)"
    using insert_vote_Inr [OF assms(2)] by auto
  have d2: "?db2 = update_proposal pid ?f db1" by (simp add: refresh_vote_counts_def tally_def)
  have votes: "consensus_votes ?db2 = consensus_votes db @ [v]" by (simp add: d1 refresh_vote_counts_def update_proposal_def)
  have props: "proposals ?db2 = map (\<lambda>p. if pr_proposal_id p = pid then ?f p else p) (proposals db)"
    unfolding d2 by (simp add: d1 update_proposal_def tbl_update_def)
  have t: "tally x a ?db2 = tally x a db1" for x a by (rule tally_cong) (simp add: refresh_vote_counts_def update_proposal_def)
  have t1: "x \<noteq> pid \<Longrightarrow> tally x a db1 = tally x a db" for x a by (simp add: d1 tally_insert assms(3))
  have ids: "map pr_proposal_id (proposals ?db2) = map pr_proposal_id (proposals db)"
    by (simp add: props)
  then have set: "pr_proposal_id ` set (proposals ?db2) = pr_proposal_id ` set (proposals db)" by (metis list.set_map)
  show "distinct (map pr_proposal_id (proposals ?db2))" unfolding ids by (rule ballots_okD(1) [OF assms(1)])
  show "distinct (map (\<lambda>v. (cv_proposal_id v, cv_validator_id v)) (consensus_votes ?db2))"
    unfolding votes using ballots_okD(2) [OF assms(1)] new by simp
  show "cv_proposal_id ` set (consensus_votes ?db2) \<subseteq> pr_proposal_id ` set (proposals ?db2)"
    unfolding votes set using ballots_okD(3) [OF assms(1)] assms(3,4) by simp
  fix q assume "q \<in> set (proposals ?db2)"
  then obtain p where p: "p \<in> set (proposals db)" "q = (if pr_proposal_id p = pid then ?f p else p)"
    unfolding props by auto
  show "pr_proposal_id q = proposal_id E (pr_block_hash q) \<and> pr_approvals q = tally (pr_proposal_id q) True ?db2 \<and>
      pr_rejections q = tally (pr_proposal_id q) False ?db2 \<and> pr_status q \<in> PROPOSAL_STATUSES"
    unfolding t using ballots_okD(4-7) [OF assms(1) p(1)] t1 by (cases "pr_proposal_id p = pid") (simp_all add: p(2))
qed

lemma count_vote_keeps:
  assumes "ballots_ok E db" and "find_proposal pid db = Some p" and "count_vote E now p x db = Inr (q, db')"
  shows "ballots_ok E db'" and "pr_proposal_id q = pid"
proof -
  have id: "pr_proposal_id p = pid" "p \<in> set (proposals db)"
    using assms(2) by (auto simp: find_proposal_def dest: tbl_find_key tbl_find_in)
  obtain db1 where i: "insert_vote (vote_of E now p x) db = Inr db1"
    and q: "find_proposal pid (refresh_vote_counts now pid db1) = Some q"
    and d: "db' = record_consensus_event now ''consensus_vote'' ''accepted'' (vote_event q x) (refresh_vote_counts now pid db1)"
    using assms(3) unfolding count_vote_def Let_def bindE_eq_Inr id(1)
    by (elim exE conjE) (auto split: option.splits)
  have "ballots_ok E (refresh_vote_counts now pid db1)"
    by (rule ballots_ok_vote [OF assms(1) i]) (use id in \<open>auto simp: vote_of_def\<close>)
  then show "ballots_ok E db'" by (simp add: d)
  show "pr_proposal_id q = pid" using q by (auto simp: find_proposal_def dest: tbl_find_key)
qed

lemma conclude_keeps: "ballots_ok E db \<Longrightarrow> conclude_vote E now p db = Inr (q, db') \<Longrightarrow> ballots_ok E db'"
  unfolding conclude_vote_def Let_def
  by (auto split: if_splits option.splits dest: finalize_keeps
      intro!: ballots_ok_update simp: keeps_counts_def PROPOSAL_STATUSES_def)

lemma vote_keeps:
  assumes "ballots_ok E db" and "vote_on_proposal E now pid x db = Inr (q, db')"
  shows "ballots_ok E db'"
proof -
  obtain p r db1 where p: "find_proposal pid db = Some p" and c: "count_vote E now p x db = Inr (r, db1)"
    and e: "conclude_vote E now r db1 = Inr (q, db')"
    using assms(2) unfolding vote_on_proposal_def by (auto split: option.splits)
  show ?thesis by (rule conclude_keeps [OF count_vote_keeps(1) [OF assms(1) p c] e])
qed

section \<open>Reachable databases\<close>

inductive consensus_step :: "chain_env \<Rightarrow> db_consensus \<Rightarrow> db_consensus \<Rightarrow> bool" for E where
  propose: "propose_block E now b n db = Inr (p, db') \<Longrightarrow> consensus_step E db db'"
| mined: "record_local_block_proposal E now b m db = Inr (p, db') \<Longrightarrow> consensus_step E db db'"
| vote: "vote_on_proposal E now pid x db = Inr (p, db') \<Longrightarrow> consensus_step E db db'"
| finalize: "finalize_proposal E now pid db = Inr (p, db') \<Longrightarrow> consensus_step E db db'"
| promote: "promote_ready_missing_ancestor_proposals E now db = (db', n) \<Longrightarrow> consensus_step E db db'"

inductive reachable :: "chain_env \<Rightarrow> db_consensus \<Rightarrow> bool" for E where
  start: "proposals db = [] \<Longrightarrow> consensus_votes db = [] \<Longrightarrow> reachable E db"
| step: "reachable E db \<Longrightarrow> consensus_step E db db' \<Longrightarrow> reachable E db'"

inductive_cases consensus_stepE: "consensus_step E db db'"

lemma consensus_step_keeps: "consensus_step E db db' \<Longrightarrow> ballots_ok E db \<Longrightarrow> ballots_ok E db'"
  by (erule consensus_stepE)
    (blast intro: propose_keeps mined_keeps vote_keeps finalize_keeps, blast intro: propose_keeps mined_keeps,
     blast intro: vote_keeps, blast intro: finalize_keeps, metis fst_conv promote_keeps)

lemma reachable_ballots_ok: "reachable E db \<Longrightarrow> ballots_ok E db"
proof (induction rule: reachable.induct)
  case (start db)
  then show ?case by (simp add: ballots_ok_def)
next
  case (step db db')
  then show ?case by (blast intro: consensus_step_keeps)
qed

lemma card_approvers:
  assumes "ballots_ok E db"
  shows "int (card (approvers pid db)) = tally pid True db"
proof -
  have "distinct (map (\<lambda>v. (cv_proposal_id v, cv_validator_id v)) (proposal_votes pid True db))"
    unfolding proposal_votes_def using ballots_okD(2) [OF assms] by (rule distinct_map_filter)
  then have "inj_on cv_validator_id (set (proposal_votes pid True db))" "distinct (proposal_votes pid True db)"
    by (auto simp: distinct_map inj_on_def proposal_votes_def)
  then show ?thesis by (simp add: approvers_def tally_def card_image distinct_card)
qed

lemma approvers_cong: "consensus_votes db' = consensus_votes db \<Longrightarrow> approvers pid db' = approvers pid db"
  by (simp add: approvers_def proposal_votes_def)

lemma required_cong:
  "validators db' = validators db \<Longrightarrow>
   required_validator_approvals_for_quorum E db' = required_validator_approvals_for_quorum E db"
  by (simp add: required_validator_approvals_for_quorum_def eligible_validator_count_for_quorum_def)

lemma promote_votes:
  "consensus_votes (fst (promote_ready_missing_ancestor_proposals E now db)) = consensus_votes db"
proof -
  have "consensus_votes (fst (fold (promote_row E now) rows st)) = consensus_votes (fst st)" for rows and st :: "'a db_consensus_scheme \<times> nat"
    by (induction rows arbitrary: st) (auto simp: promote_row_def update_proposal_def split: prod.splits)
  then show ?thesis by (simp add: promote_ready_missing_ancestor_proposals_def)
qed

lemma import_votes: "import_finalized_block E now b pid db = Inr (i, db') \<Longrightarrow> consensus_votes db' = consensus_votes db"
  by (drule import_ballots) (simp add: same_ballots_def)

lemma close_votes:
  assumes "close_proposal E now p r db = Inr (q, db')"
  shows "consensus_votes db' = consensus_votes db"
proof -
  obtain i db1 db2 vs st where m: "import_finalized_block E now (pr_payload p) (pr_proposal_id p) db = Inr (i, db1)"
    and d2: "db2 = (if i then fst (promote_ready_missing_ancestor_proposals E now db1) else db1)"
    and d: "db' = record_consensus_event now ''block_finalized'' st (finalization_event p vs)
      (update_proposal (pr_proposal_id p) (\<lambda>q. q\<lparr>pr_status := st, pr_finalized_at := Some now, pr_updated_at := now\<rparr>)
        (upsert_finalization (finalization_of E now p r vs i) db2))"
    by (rule close_stages [OF assms])
  show ?thesis
    by (simp add: d d2 record_consensus_event_def update_proposal_def upsert_finalization_def promote_votes import_votes [OF m])
qed

text \<open>A vote that finalizes: the counting, then a closed proposal with a quorum of approvals.\<close>

lemma find_after_update:
  assumes "find_proposal pid db = Some p" and "\<And>q. pr_proposal_id (f q) = pr_proposal_id q"
  shows "find_proposal pid (update_proposal pid f db) = Some (f p)"
proof -
  have "tbl_find pr_proposal_id pid (tbl_update (\<lambda>q. pr_proposal_id q = pid) f (proposals db)) =
      map_option (\<lambda>q. if pr_proposal_id q = pid then f q else q) (tbl_find pr_proposal_id pid (proposals db))"
    by (rule tbl_find_update) (rule assms(2))
  moreover have "pr_proposal_id p = pid" using assms(1) unfolding find_proposal_def by (rule tbl_find_key)
  ultimately show ?thesis using assms(1) by (simp add: find_proposal_def update_proposal_def)
qed

lemma finalize_quorum:
  assumes "finalize_proposal E now pid db = Inr (q, db')" and "find_proposal pid db = Some p"
    and "pr_status p \<notin> {''finalized'', ''imported''}"
  shows "required_validator_approvals_for_quorum E db \<le> pr_approvals p"
    and "consensus_votes db' = consensus_votes db"
proof -
  let ?required = "required_validator_approvals_for_quorum E db"
  have "\<not> pr_approvals p < ?required \<and> close_proposal E now p ?required db = Inr (q, db')"
    using assms(1) unfolding finalize_proposal_def Let_def assms(2) option.case if_not_P [OF assms(3)]
    by (simp split: if_split_asm)
  then show "?required \<le> pr_approvals p" "consensus_votes db' = consensus_votes db"
    using close_votes by auto
qed

lemma count_vote_facts:
  assumes "find_proposal pid db = Some p" and "count_vote E now p x db = Inr (q, db1)"
  shows "find_proposal pid db1 = Some q" and "pr_status q = pr_status p" and "pr_proposal_id q = pid"
    and "validators db1 = validators db" and "consensus_votes db1 = consensus_votes db @ [vote_of E now p x]"
proof -
  have id: "pr_proposal_id p = pid" using assms(1) by (auto simp: find_proposal_def dest: tbl_find_key)
  obtain db2 where i: "insert_vote (vote_of E now p x) db = Inr db2"
    and q: "find_proposal pid (refresh_vote_counts now pid db2) = Some q"
    and d: "db1 = record_consensus_event now ''consensus_vote'' ''accepted'' (vote_event q x) (refresh_vote_counts now pid db2)"
    using assms(2) unfolding count_vote_def Let_def bindE_eq_Inr id
    by (elim exE conjE) (auto split: option.splits)
  have d2: "db2 = db\<lparr>consensus_votes := consensus_votes db @ [vote_of E now p x]\<rparr>"
    using insert_vote_Inr [OF i] by simp
  have p2: "find_proposal pid db2 = Some p" using assms(1) by (simp add: d2 find_proposal_def)
  have "q = p\<lparr>pr_approvals := int (length (proposal_votes pid True db2)),
      pr_rejections := int (length (proposal_votes pid False db2)), pr_updated_at := now\<rparr>"
    using q find_after_update [OF p2, where f = "\<lambda>p. p\<lparr>pr_approvals := int (length (proposal_votes pid True db2)),
      pr_rejections := int (length (proposal_votes pid False db2)), pr_updated_at := now\<rparr>"]
    by (simp add: refresh_vote_counts_def)
  with q d show "find_proposal pid db1 = Some q" "pr_status q = pr_status p" "pr_proposal_id q = pid"
    using id by (simp_all add: find_proposal_def record_consensus_event_def)
  show "validators db1 = validators db" "consensus_votes db1 = consensus_votes db @ [vote_of E now p x]"
    by (simp_all add: d d2 record_consensus_event_def refresh_vote_counts_def update_proposal_def)
qed

lemma vote_stages:
  assumes "vote_on_proposal E now pid x db = Inr (q, db')"
  obtains p r db1 where "find_proposal pid db = Some p" "check_ballot E p x db = Inr ()"
    "count_vote E now p x db = Inr (r, db1)" "conclude_vote E now r db1 = Inr (q, db')"
  using assms unfolding vote_on_proposal_def by (auto split: option.splits)

section \<open>The properties\<close>

text \<open>C6: in every database the protocol reaches, the counts of a proposal are the numbers of the
  distinct validators that approved and rejected it, a validator has a single vote on it, and the
  proposal is named by the digest of its block hash.\<close>

theorem votes_counted_once:
  assumes "reachable E db" and "p \<in> set (proposals db)"
  shows "pr_approvals p = int (card {cv_validator_id v |v. v \<in> set (consensus_votes db) \<and>
      cv_proposal_id v = pr_proposal_id p \<and> cv_approved v}) \<and>
    pr_rejections p = int (card {cv_validator_id v |v. v \<in> set (consensus_votes db) \<and>
      cv_proposal_id v = pr_proposal_id p \<and> \<not> cv_approved v}) \<and>
    inj_on (\<lambda>v. (cv_proposal_id v, cv_validator_id v)) (set (consensus_votes db)) \<and>
    pr_proposal_id p = proposal_id E (pr_block_hash p) \<and> pr_status p \<in> PROPOSAL_STATUSES"
proof -
  note ok = reachable_ballots_ok [OF assms(1)]
  note d = ballots_okD [OF ok]
  have "card {cv_validator_id v |v. v \<in> set (consensus_votes db) \<and> cv_proposal_id v = pid \<and> cv_approved v = a} =
      length (proposal_votes pid a db)" for pid a
  proof -
    have "inj_on cv_validator_id (set (proposal_votes pid a db))" "distinct (proposal_votes pid a db)"
      using d(2) by (auto simp: distinct_map inj_on_def proposal_votes_def)
    moreover have "{cv_validator_id v |v. v \<in> set (consensus_votes db) \<and> cv_proposal_id v = pid \<and> cv_approved v = a} =
        cv_validator_id ` set (proposal_votes pid a db)"
      by (auto simp: proposal_votes_def)
    ultimately show ?thesis by (simp add: card_image distinct_card)
  qed
  from this [of "pr_proposal_id p" True] this [of "pr_proposal_id p" False] d(2) d(4-7) [OF assms(2)]
  show ?thesis by (simp add: tally_def distinct_map)
qed

text \<open>C3: a vote finalizes a block only with a quorum: in every reachable database, when a vote leaves
  a proposal finalized or imported, the distinct validators whose approving votes are stored reach
  the number of approvals required, and the new vote is one of the stored votes.\<close>

theorem finalized_by_quorum:
  assumes "reachable E db" and "vote_on_proposal E now pid x db = Inr (q, db')"
    and "pr_status q \<in> {''finalized'', ''imported''}"
  shows "required_validator_approvals_for_quorum E db \<le> int (card (approvers pid db')) \<and>
    (\<exists>v \<in> set (consensus_votes db'). cv_proposal_id v = pid \<and> cv_validator_id v = ba_validator_id x)"
proof -
  obtain p r db1 where p: "find_proposal pid db = Some p" and b: "check_ballot E p x db = Inr ()"
    and c: "count_vote E now p x db = Inr (r, db1)" and e: "conclude_vote E now r db1 = Inr (q, db')"
    by (rule vote_stages [OF assms(2)])
  note f = count_vote_facts [OF p c]
  have ok: "ballots_ok E db1" by (rule count_vote_keeps(1) [OF reachable_ballots_ok [OF assms(1)] p c])
  have open_: "pr_status r \<notin> {''finalized'', ''imported''}" using b f(2) by (auto simp: check_ballot_def)
  have req: "required_validator_approvals_for_quorum E db1 = required_validator_approvals_for_quorum E db"
    by (rule required_cong) (rule f(4))
  have fin: "finalize_proposal E now pid db1 = Inr (q, db')"
  proof (rule ccontr)
    assume "\<not> ?thesis"
    then have "pr_status q = ''rejected'' \<or> q = r"
      using e f(3) find_after_update [OF f(1), where f = "\<lambda>q. q\<lparr>pr_status := ''rejected'',
             pr_rejection_reason := Some ''validator rejection quorum reached'', pr_updated_at := now\<rparr>"]
      by (auto simp: conclude_vote_def Let_def split: if_splits option.splits)
    then show False using assms(3) open_ by auto
  qed
  note q = finalize_quorum [OF fin f(1) open_]
  have r: "r \<in> set (proposals db1)" using f(1) by (auto simp: find_proposal_def dest: tbl_find_in)
  have "int (card (approvers pid db')) = pr_approvals r"
    unfolding approvers_cong [OF q(2)] card_approvers [OF ok] using ballots_okD(5) [OF ok r] f(3) by simp
  moreover have "vote_of E now p x \<in> set (consensus_votes db')" unfolding q(2) f(5) by simp
  moreover have "cv_proposal_id (vote_of E now p x) = pid" "cv_validator_id (vote_of E now p x) = ba_validator_id x"
    using p by (auto simp: vote_of_def find_proposal_def dest: tbl_find_key)
  ultimately show ?thesis using q(1) req by auto
qed

text \<open>C29: a validator cannot vote twice: once a vote of the validator is stored, any further ballot of
  it is refused on the same proposal, and on every other proposal of the same height and parent as
  long as the first one has not been rejected.\<close>

theorem no_double_vote:
  assumes "v \<in> set (consensus_votes db)" and "cv_validator_id v = ba_validator_id x"
    and "find_proposal pid db = Some p" and "find_proposal (cv_proposal_id v) db = Some q"
    and "pr_height q = pr_height p" and "pr_previous_hash q = pr_previous_hash p"
    and "cv_proposal_id v = pid \<or> pr_status q \<noteq> ''rejected''"
  shows "\<exists>code detail. vote_on_proposal E now pid x db = Inl (ConsensusError code detail)"
proof -
  have ids: "pr_proposal_id p = pid" "pr_proposal_id q = cv_proposal_id v"
    using assms(3,4) by (auto simp: find_proposal_def dest: tbl_find_key)
  have voter: "\<exists>code detail. check_voter E i db = Inl (ConsensusError code detail)" if "check_voter E i db = Inl e" for i e
    using that by (auto simp: check_voter_def split: option.splits if_splits)
  have hit: "(\<exists>v \<in> set (consensus_votes db). cv_proposal_id v = pr_proposal_id p \<and> cv_validator_id v = ba_validator_id x) \<or>
      competing_vote (ba_validator_id x) p db"
  proof (cases "cv_proposal_id v = pid")
    case True
    then show ?thesis by (intro disjI1 bexI [OF _ assms(1)]) (simp add: assms(2) ids(1))
  next
    case False
    then have "competing_vote (ba_validator_id x) p db"
      unfolding competing_vote_def using assms ids by (intro bexI [OF _ assms(1)]) simp
    then show ?thesis ..
  qed
  have "\<exists>code detail. check_ballot E p x db = Inl (ConsensusError code detail)"
  proof (cases "check_voter E (ba_validator_id x) db")
    case (Inl e)
    then show ?thesis using voter [OF Inl] by (auto simp: check_ballot_def)
  next
    case (Inr val)
    then show ?thesis using hit by (auto simp: check_ballot_def)
  qed
  then show ?thesis using assms(3) by (auto simp: vote_on_proposal_def)
qed

section \<open>An example run\<close>

text \<open>One block of the chain is proposed and approved by one validator, with a quorum of one.\<close>

definition zeros :: string where "zeros = replicate 64 CHR ''0''"

definition example_consensus_env :: chain_env where
  "example_consensus_env = \<lparr>ce_node = example_env\<lparr>ne_crypto := example_crypto\<lparr>sha256_text := (\<lambda>_. zeros)\<rparr>\<rparr>,
     ce_genesis_hash = zeros, ce_required_approvals = 1, ce_node_id = ''n'', ce_verify = (\<lambda>_ _ _. Inr True)\<rparr>"

definition known_block :: block where
  "known_block = \<lparr>bk_height = 1, bk_previous_hash = zeros, bk_miner_id = ''m'', bk_range_start = 0, bk_range_end = 1,
     bk_algorithm = ''a'', bk_result_hash = ''r'', bk_samples = [], bk_timestamp = 0, bk_block_hash = zeros, bk_reward = 0,
     bk_difficulty = None, bk_protocol_params_id = None, bk_total_task_ms = None, bk_total_block_ms = None,
     bk_merkle_root = None, bk_miner_reward_address = None, bk_tx_merkle_root = None, bk_tx_count = 0, bk_tx_hashes = [],
     bk_fee_reward = 0, bk_protocol_version = Some ''0.18'', bk_validation_mode = Some VALIDATION_MODE,
     bk_fraudulent = False, bk_fraud_reason = None, bk_fraud_detected_at = None, bk_state_root = None,
     bk_task_id = None, bk_transactions = [], bk_validator_reward = None, bk_finality_certificate = None\<rparr>"

definition chain_before :: db_consensus where
  "chain_before = db_certificates.extend example_votes_db (db_consensus.fields [] [] []
     [block_row_of example_consensus_env known_block ''t'' None 0 0] [] [] [] [])"

definition example_ballot :: ballot where
  "example_ballot = \<lparr>ba_validator_id = ''v'', ba_approved = True, ba_reason = ''ok'', ba_signature = ''s'', ba_signed_at = ''t''\<rparr>"

lemma example_sha [simp]: "ce_sha256 example_consensus_env s = zeros"
  by (simp add: ce_sha256_def example_consensus_env_def)

lemma zeros_length [simp]: "length zeros = 64"
  by (simp add: zeros_def)

lemma example_version [simp]: "PROTOCOL_VERSION example_consensus_env = ''0.18''"
  by (simp add: PROTOCOL_VERSION_def ce_profile_def example_consensus_env_def example_env_def default_settings_def
      LOCAL_PROFILE_def network_profile_def)

lemma example_hash_valid:
  "bk_block_hash b = zeros \<Longrightarrow> length (bk_previous_hash b) = 64 \<Longrightarrow> validate_block_hash example_consensus_env b = Inr ()"
  by (simp add: validate_block_hash_def block_hash_candidates_def block_hash_variant_payloads_def Let_def)

lemma example_normal: "normalize_block example_consensus_env known_block = Inr known_block"
  by (simp add: normalize_block_def known_block_def Let_def normal_address_def truthy_text_def str_or_def VALIDATION_MODE_def)

lemma chain_before_simps [simp]:
  "proposals chain_before = []" "consensus_votes chain_before = []" "validators chain_before = [example_validator]"
  "snapshot_imports chain_before = []"
  "blocks chain_before = [block_row_of example_consensus_env known_block ''t'' None 0 0]"
  by (simp_all add: chain_before_def db_certificates.defs db_consensus.defs example_votes_db_def db_chain.defs db_mempool.defs
      example_chain_def)

lemma example_reachable: "reachable E chain_before"
  by (rule reachable.start) simp_all

definition example_proposal :: proposal where
  "example_proposal = new_proposal example_consensus_env 0 known_block ''n'' ''known'' (Some ''block already exists locally'') None"

lemma example_received:
  "blocks db = blocks chain_before \<Longrightarrow>
   received_status example_consensus_env known_block db = Inr (''known'', Some ''block already exists locally'')"
  by (simp add: received_status_def latest_tip_def covered_by_chain_def block_row_of_def known_block_def Let_def)

lemma example_proposed:
  "\<exists>db. propose_block example_consensus_env 0 known_block ''n'' chain_before = Inr (example_proposal, db) \<and>
     proposals db = [example_proposal] \<and> consensus_votes db = [] \<and> validators db = [example_validator] \<and>
     blocks db = blocks chain_before \<and> snapshot_imports db = []"
  by (simp add: propose_block_def example_normal example_hash_valid known_block_def [THEN arg_cong [where f = bk_block_hash]]
      known_block_def [THEN arg_cong [where f = bk_previous_hash]] example_received upsert_proposal_def tbl_upsert_def
      record_consensus_event_def find_proposal_def example_proposal_def Let_def)

lemma example_required:
  "validators db = [example_validator] \<Longrightarrow> required_validator_approvals_for_quorum example_consensus_env db = 1"
proof -
  assume v: "validators db = [example_validator]"
  have "0 < MIN_VALIDATOR_STAKE example_consensus_env"
    by (simp add: MIN_VALIDATOR_STAKE_def ce_profile_def example_consensus_env_def example_env_def default_settings_def
        LOCAL_PROFILE_def network_profile_def fl_pos)
  then have "\<not> counts_for_quorum example_consensus_env example_validator"
    by (simp add: counts_for_quorum_def eligibility_stake_def example_validator_def)
  then show ?thesis
    by (simp add: required_validator_approvals_for_quorum_def eligible_validator_count_for_quorum_def v example_consensus_env_def)
qed

lemma example_ballot_ok:
  assumes "validators db = [example_validator]" "consensus_votes db = []"
  shows "check_ballot example_consensus_env example_proposal example_ballot db = Inr ()"
proof -
  have "check_voter example_consensus_env (ba_validator_id example_ballot) db = Inr example_validator"
    using assms(1) by (simp add: check_voter_def find_validator_def example_validator_def example_ballot_def)
  moreover have "verify_payload_signature (ce_verify example_consensus_env) (v_public_key example_validator)
      (ballot_payload example_proposal example_ballot) (ba_signature example_ballot) = Inr True"
    by (simp add: verify_payload_signature_def KEY_PREFIX_def starts_with_def example_validator_def example_consensus_env_def)
  ultimately show ?thesis
    using assms(2) by (simp add: check_ballot_def example_proposal_def competing_vote_def)
qed

definition counted_proposal :: proposal where
  "counted_proposal = example_proposal\<lparr>pr_approvals := 1\<rparr>"

lemma example_counted:
  assumes "proposals db = [example_proposal]" "consensus_votes db = []" "validators db = [example_validator]"
    "blocks db = blocks chain_before" "snapshot_imports db = []"
  shows "\<exists>db1. count_vote example_consensus_env 0 example_proposal example_ballot db = Inr (counted_proposal, db1) \<and>
    proposals db1 = [counted_proposal] \<and> validators db1 = [example_validator] \<and> blocks db1 = blocks chain_before \<and>
    snapshot_imports db1 = [] \<and>
    consensus_votes db1 = [vote_of example_consensus_env 0 example_proposal example_ballot]"
  using assms
  by (simp add: count_vote_def insert_vote_def refresh_vote_counts_def update_proposal_def find_proposal_def
      record_consensus_event_def proposal_votes_def vote_of_def counted_proposal_def example_proposal_def example_ballot_def
      new_proposal_def Let_def)

lemma example_import:
  "blocks db = blocks chain_before \<Longrightarrow> import_finalized_block example_consensus_env now known_block pid db = Inr (False, db)"
  by (simp add: import_finalized_block_def import_admissible_def example_hash_valid latest_tip_def block_row_of_def
      known_block_def Let_def)

lemma example_closed:
  assumes "proposals db = [counted_proposal]" "blocks db = blocks chain_before"
  shows "\<exists>q db'. close_proposal example_consensus_env 0 counted_proposal 1 db = Inr (q, db') \<and> pr_status q = ''finalized''"
proof -
  have "pr_payload counted_proposal = known_block" by (simp add: counted_proposal_def example_proposal_def)
  then show ?thesis
    using assms
    by (simp add: close_proposal_def example_import update_proposal_def upsert_finalization_def find_proposal_def
        record_consensus_event_def Let_def)
qed

lemma example_finalized:
  assumes "proposals db = [counted_proposal]" "blocks db = blocks chain_before" "validators db = [example_validator]"
  shows "\<exists>q db'. finalize_proposal example_consensus_env 0 (pr_proposal_id counted_proposal) db = Inr (q, db') \<and>
    pr_status q = ''finalized''"
proof -
  have c: "pr_status counted_proposal = ''known''" "pr_approvals counted_proposal = 1"
    by (simp_all add: counted_proposal_def example_proposal_def)
  have w: "\<not> (case select_fork_choice example_consensus_env h ph db of None \<Rightarrow> False
      | Some w \<Rightarrow> pr_proposal_id w \<noteq> pr_proposal_id counted_proposal)" for h ph
    using assms(1) by (simp add: select_fork_choice_def fork_candidates_def)
  show ?thesis
    using example_closed [OF assms(1,2)] assms(1)
    by (simp add: finalize_proposal_def find_proposal_def c w example_required [OF assms(3)] Let_def)
qed

lemma example_vote:
  assumes "proposals db = [example_proposal]" "consensus_votes db = []" "validators db = [example_validator]"
    "blocks db = blocks chain_before" "snapshot_imports db = []"
  shows "\<exists>q db'. vote_on_proposal example_consensus_env 0 (pr_proposal_id example_proposal) example_ballot db = Inr (q, db') \<and>
    pr_status q = ''finalized''"
proof -
  obtain db1 where c: "count_vote example_consensus_env 0 example_proposal example_ballot db = Inr (counted_proposal, db1)"
    and d: "proposals db1 = [counted_proposal]" "validators db1 = [example_validator]" "blocks db1 = blocks chain_before"
    using example_counted [OF assms] by (elim exE conjE) (rule that)
  have "conclude_vote example_consensus_env 0 counted_proposal db1 =
      finalize_proposal example_consensus_env 0 (pr_proposal_id counted_proposal) db1"
    by (simp add: conclude_vote_def example_required [OF d(2)] counted_proposal_def Let_def)
  then show ?thesis
    using example_finalized [OF d(1,3,2)]
    by (simp add: vote_on_proposal_def find_proposal_def assms(1) example_ballot_ok [OF assms(3,2)] c)
qed

theorem votes_counted_once_witness:
  "\<exists>db. reachable example_consensus_env db \<and> example_proposal \<in> set (proposals db) \<and>
     pr_proposal_id example_proposal = proposal_id example_consensus_env (pr_block_hash example_proposal)"
proof -
  obtain db where s: "propose_block example_consensus_env 0 known_block ''n'' chain_before = Inr (example_proposal, db)"
    and p: "proposals db = [example_proposal]" using example_proposed by (elim exE conjE) (rule that)
  have r: "reachable example_consensus_env db"
    by (rule reachable.step [OF example_reachable consensus_step.propose [OF s]])
  have "example_proposal \<in> set (proposals db)" by (simp add: p)
  from votes_counted_once [OF r this] r this show ?thesis by blast
qed

theorem finalized_by_quorum_witness:
  "\<exists>db q db'. reachable example_consensus_env db \<and>
     vote_on_proposal example_consensus_env 0 (pr_proposal_id example_proposal) example_ballot db = Inr (q, db') \<and>
     required_validator_approvals_for_quorum example_consensus_env db \<le> int (card (approvers (pr_proposal_id example_proposal) db'))"
proof -
  obtain db where s: "propose_block example_consensus_env 0 known_block ''n'' chain_before = Inr (example_proposal, db)"
    and d: "proposals db = [example_proposal]" "consensus_votes db = []" "validators db = [example_validator]"
      "blocks db = blocks chain_before" "snapshot_imports db = []"
    using example_proposed by (elim exE conjE) (rule that)
  have r: "reachable example_consensus_env db"
    by (rule reachable.step [OF example_reachable consensus_step.propose [OF s]])
  obtain q db' where v: "vote_on_proposal example_consensus_env 0 (pr_proposal_id example_proposal) example_ballot db = Inr (q, db')"
    and q: "pr_status q = ''finalized''"
    using example_vote [OF d] by (elim exE conjE) (rule that)
  from finalized_by_quorum [OF r v] q r v show ?thesis by blast
qed

theorem no_double_vote_witness:
  "\<exists>db :: db_consensus. \<exists>code detail. vote_on_proposal example_consensus_env 0 (pr_proposal_id example_proposal) example_ballot db =
     Inl (ConsensusError code detail) \<and> proposals db = [counted_proposal]"
proof -
  obtain db where "propose_block example_consensus_env 0 known_block ''n'' chain_before = Inr (example_proposal, db)"
    and d: "proposals db = [example_proposal]" "consensus_votes db = []" "validators db = [example_validator]"
      "blocks db = blocks chain_before" "snapshot_imports db = []"
    using example_proposed by (elim exE conjE) (rule that)
  obtain db1 where "count_vote example_consensus_env 0 example_proposal example_ballot db = Inr (counted_proposal, db1)"
    and p: "proposals db1 = [counted_proposal]"
    and v: "consensus_votes db1 = [vote_of example_consensus_env 0 example_proposal example_ballot]"
    using example_counted [OF d] by (elim exE conjE) (rule that)
  have id: "pr_proposal_id counted_proposal = pr_proposal_id example_proposal" by (simp add: counted_proposal_def)
  have "\<exists>code detail. vote_on_proposal example_consensus_env 0 (pr_proposal_id example_proposal) example_ballot db1 =
      Inl (ConsensusError code detail)"
    by (rule no_double_vote [where v = "vote_of example_consensus_env 0 example_proposal example_ballot" and
          p = counted_proposal and q = counted_proposal])
      (simp_all add: v p id find_proposal_def vote_of_def)
  with p show ?thesis by blast
qed

end
