(* ===== verification/ImportProps.thy ===== *)
theory ImportProps
  imports ConsensusProps
begin

text \<open>
  The validators' share of an imported block. \<open>pay_validators\<close> hands out exactly the pool, the last
  validator getting what is left; the ledger stays consistent. The pool, the amount per validator
  and the accounts come from a part of the payload that the block hash does not cover.
\<close>

section \<open>The pool is handed out exactly\<close>

lemma validator_posting_simps [simp]:
  "p_account_id (validator_reward_posting h pid a ty u) = a"
  "p_amount (validator_reward_posting h pid a ty u) = units_to_float u"
  by (simp_all add: validator_reward_posting_def reward_units_to_float_def)

lemma validator_posted_units:
  "\<bar>u\<bar> \<le> 10 ^ 15 \<Longrightarrow> posted_units (validator_reward_posting h pid a ty u) = Inr u"
  by (simp add: posted_units_def)

text \<open>The account a validator of the list is paid on.\<close>

definition pay_account :: "block \<Rightarrow> string \<Rightarrow> string" where
  "pay_account b vid = (if reward_address_of (bk_validator_reward b) vid \<noteq> []
     then reward_address_of (bk_validator_reward b) vid else vid)"

lemma same_tables_ledger:
  assumes "balances db' = balances db" "ledger_entries db' = ledger_entries db"
  shows "ledger_ok db' \<longleftrightarrow> ledger_ok db" "acct_units db' = acct_units db" "total_units db' = total_units db"
  using ledger_cong [of db' db] assms by simp_all

lemma ensure_validator_tables [simp]:
  "balances (ensure_validator E vid ts db) = balances db" "ledger_entries (ensure_validator E vid ts db) = ledger_entries db"
  "balances (credit_job vid ts db) = balances db" "ledger_entries (credit_job vid ts db) = ledger_entries db"
  by (simp_all add: ensure_validator_def credit_job_def split: option.splits)

lemma pay_validator_step:
  assumes "ledger_ok db" and "pay_validator E b pid vid u db = Inr db'" and "\<bar>u\<bar> \<le> 10 ^ 15"
  shows "ledger_ok db'" and "acct_units db' = (acct_units db)(pay_account b vid := acct_units db (pay_account b vid) + u)"
    and "total_units db' = total_units db + u"
proof -
  define legacy where "legacy \<longleftrightarrow> reward_address_of (bk_validator_reward b) vid = [] \<and> is_valid_address (ce_sha256 E) (Some vid)"
  define ty where "ty = (if reward_address_of (bk_validator_reward b) vid \<noteq> [] \<or> legacy then ''wallet'' else ''validator'')"
  define db1 where "db1 = (if legacy then db else ensure_validator E vid (bk_timestamp b) db)"
  have e: "balances db1 = balances db" "ledger_entries db1 = ledger_entries db"
    by (simp_all add: db1_def)
  obtain db2 where p: "consensus_apply_account_delta (bk_timestamp b)
      (validator_reward_posting (bk_height b) pid (pay_account b vid) ty u) db1 = Inr db2"
    and db': "db' = (if legacy then db2 else credit_job vid (bk_timestamp b) db2)"
    using assms(2) unfolding pay_validator_def Let_def pay_account_def legacy_def db1_def ty_def bindE_eq_Inr
    by (elim exE conjE) simp
  have d: "balances db' = balances db2" "ledger_entries db' = ledger_entries db2"
    by (simp_all add: db')
  have ok: "ledger_ok db1" using same_tables_ledger(1) [OF e] assms(1) by simp
  note s = consensus_post.post_amount [OF ok p validator_posted_units [OF assms(3)]]
  show "ledger_ok db'" using same_tables_ledger(1) [OF d] consensus_post.post_ok [OF ok p] by simp
  show "acct_units db' = (acct_units db)(pay_account b vid := acct_units db (pay_account b vid) + u)"
    using s(1) by (simp add: same_tables_ledger(2) [OF d] same_tables_ledger(2) [OF e])
  show "total_units db' = total_units db + u"
    using s(2) by (simp add: same_tables_ledger(3) [OF d] same_tables_ledger(3) [OF e])
qed

lemma pay_validators_total:
  assumes "ledger_ok db" and "pay_validators E b pid pool per vids d db = Inr db'" and "vids \<noteq> []"
    and "\<bar>pool - d\<bar> + \<bar>per\<bar> * int (length vids) \<le> 10 ^ 15"
  shows "ledger_ok db' \<and> total_units db' = total_units db + (pool - d)"
  using assms
proof (induction vids arbitrary: d db)
  case (Cons vid vids)
  let ?u = "if vids = [] then pool - d else per"
  obtain db1 where s: "pay_validator E b pid vid ?u db = Inr db1"
    and r: "pay_validators E b pid pool per vids (d + ?u) db1 = Inr db'"
    using Cons.prems(2) by (auto simp: Let_def)
  define m where "m = \<bar>per\<bar> * int (length vids)"
  have split: "\<bar>per\<bar> * int (length (vid # vids)) = \<bar>per\<bar> + m" by (simp add: algebra_simps m_def)
  have nn: "0 \<le> m" by (simp add: m_def)
  have le: "\<bar>pool - d\<bar> + (\<bar>per\<bar> + m) \<le> 10 ^ 15" using Cons.prems(4) unfolding split .
  have "\<bar>pool - d\<bar> \<le> 10 ^ 15" "\<bar>per\<bar> \<le> 10 ^ 15" using le nn by linarith+
  then have u: "\<bar>?u\<bar> \<le> 10 ^ 15" by simp
  note step = pay_validator_step [OF Cons.prems(1) s u]
  show ?case
  proof (cases "vids = []")
    case True
    with r step show ?thesis by simp
  next
    case False
    have "\<bar>pool - (d + ?u)\<bar> + \<bar>per\<bar> * int (length vids) \<le> 10 ^ 15"
      using le False unfolding m_def by simp
    from Cons.IH [OF step(1) r False this] step(3) show ?thesis by simp
  qed
qed simp

text \<open>The distribution of the validators' share pays out exactly the pool, also when the amount per
  validator times their number is another sum (pool and amounts together of at most \<open>10 ^ 15\<close> units):
  the total of all balances grows by the pool and every balance still equals its postings.\<close>

theorem validator_pool_distributed:
  assumes "apply_distributed_validator_rewards E b pid total_reward db = Inr db'"
    and "rewarded_validators E b pid db = vids" and "vids \<noteq> []"
    and "reward_pool_units b total_reward = Inr pool" and "per_validator_units b pool (length vids) = Inr per"
    and "\<bar>pool\<bar> + \<bar>per\<bar> * int (length vids) \<le> 10 ^ 15" and "ledger_ok db"
  shows "total_units db' = total_units db + pool \<and> ledger_ok db'"
proof -
  have "pay_validators E b pid pool per vids 0 db = Inr db'"
    using assms(1-5) by (simp add: apply_distributed_validator_rewards_def Let_def)
  from pay_validators_total [OF assms(7) this assms(3)] assms(6) show ?thesis by simp
qed

section \<open>What the block hash does not bind\<close>

text \<open>The block with another reward dictionary, without the state root and the certificate.\<close>

definition stripped :: "reward_payload \<Rightarrow> block \<Rightarrow> block" where
  "stripped vr b = b\<lparr>bk_validator_reward := Some vr, bk_state_root := None, bk_finality_certificate := None\<rparr>"

lemma stripped_simps [simp]:
  "bk_validator_reward (stripped vr b) = Some vr" "bk_state_root (stripped vr b) = None"
  "bk_finality_certificate (stripped vr b) = None" "bk_height (stripped vr b) = bk_height b"
  "bk_block_hash (stripped vr b) = bk_block_hash b" "bk_previous_hash (stripped vr b) = bk_previous_hash b"
  "bk_result_hash (stripped vr b) = bk_result_hash b" "bk_miner_id (stripped vr b) = bk_miner_id b"
  by (simp_all add: stripped_def)

lemma fields_of_stripped [simp]:
  "mandatory_fields (stripped vr b) = mandatory_fields b"
  "optional_scalars (stripped vr b) = optional_scalars b"
  "protocol_fields E (stripped vr b) = protocol_fields E b"
  "transaction_fields (stripped vr b) = transaction_fields b"
  "fraud_fields (stripped vr b) = fraud_fields b"
  by (simp_all add: mandatory_fields_def optional_scalars_def protocol_fields_def transaction_fields_def fraud_fields_def
      stripped_def cong: option.case_cong if_cong)

lemma hash_of_stripped: "validate_block_hash E (stripped vr b) = validate_block_hash E b"
  by (simp add: validate_block_hash_def block_hash_candidates_def block_hash_variant_payloads_def schema_variants_def
      canonical_block_payload_def optional_groups_def)

lemma normalize_stripped: "normalize_block E b = Inr nb \<Longrightarrow> normalize_block E (stripped vr b) = Inr (stripped vr nb)"
  by (auto simp: normalize_block_def stripped_def Let_def split: if_splits)

lemma received_stripped: "received_status E (stripped vr b) db = received_status E b db"
proof -
  have m: "matches_local_parent (stripped vr b) t = matches_local_parent b t" for t
    by (simp add: matches_local_parent_def)
  have c: "covered_by_chain (stripped vr b) db = covered_by_chain b db"
    by (simp add: covered_by_chain_def cong: option.case_cong)
  show ?thesis unfolding received_status_def m c stripped_simps ..
qed

text \<open>Two entries of a validator list: a payee, and an account that gives what the payee gets.\<close>

definition skewed_reward :: "string \<Rightarrow> string \<Rightarrow> nat \<Rightarrow> reward_payload" where
  "skewed_reward payee payer n =
     \<lparr>vr_validator_ids = [''a'', ''b''], vr_pool = IntA 1, vr_per_validator = IntA (int n),
      vr_reward_addresses = [(''a'', payee), (''b'', payer)]\<rparr>"

lemma to_units_IntA: "\<bar>i\<bar> \<le> 10 ^ 9 \<Longrightarrow> to_units (IntA i) = Inr (i * 1000000)"
proof -
  assume "\<bar>i\<bar> \<le> 10 ^ 9"
  then have "\<bar>i * 1000000\<bar> < 10 ^ 28" by (simp add: abs_mult)
  moreover have "round_half_up (of_int i * of_int PICOIN_UNIT) = i * 1000000"
    unfolding PICOIN_UNIT_def of_int_mult [symmetric] by (rule round_half_up_of_int)
  ultimately show ?thesis by (simp add: to_units_def decimal_of_def Let_def)
qed

text \<open>An entry of the ledger that pays a validator's share.\<close>

definition share_entry :: "string \<Rightarrow> int \<Rightarrow> ledger_entry \<Rightarrow> bool" where
  "share_entry a u e \<longleftrightarrow> le_account_id e = a \<and> le_amount_units e = u \<and> le_amount e = units_to_float u \<and>
     le_entry_type e = ''validator_reward''"

lemma pay_validator_entry:
  assumes "pay_validator E b pid vid u db = Inr db'" and "\<bar>u\<bar> \<le> 10 ^ 15"
  shows "\<exists>e. ledger_entries db' = ledger_entries db @ [e] \<and> share_entry (pay_account b vid) u e"
proof -
  have entry: "\<exists>e. ledger_entries d' = ledger_entries d @ [e] \<and> share_entry a u e"
    if "consensus_apply_account_delta ts (validator_reward_posting h pid a ty u) d = Inr d'"
    for ts h a ty and d d' :: "'a db_consensus_scheme"
    using that assms(2)
    by (auto simp: consensus_apply_account_delta_def to_units_units_to_float Let_def insert_ledger_entry_def
        upsert_balance_def share_entry_def validator_reward_posting_def reward_units_to_float_def)
  show ?thesis
    using assms(1) entry unfolding pay_validator_def Let_def pay_account_def bindE_eq_Inr
    by (elim exE conjE) (fastforce split: if_splits)
qed

lemma skewed_distribution:
  assumes "bk_validator_reward b = Some (skewed_reward payee payer n)" and "0 < n" "n \<le> 10 ^ 8"
    and "payee \<noteq> []" "payer \<noteq> []"
    and "apply_distributed_validator_rewards E b pid total_reward db = Inr db'"
  shows "\<exists>e f. ledger_entries db' = ledger_entries db @ [e, f] \<and> share_entry payee (1000000 * int n) e \<and>
    share_entry payer (1000000 - 1000000 * int n) f"
proof -
  have n: "\<bar>int n\<bar> \<le> 10 ^ 9" using assms(3) by simp
  have pool: "reward_pool_units b total_reward = Inr 1000000"
    using to_units_IntA [of 1] by (simp add: reward_pool_units_def assms(1) skewed_reward_def amount_or_zero_def)
  have per: "per_validator_units b 1000000 2 = Inr (int n * 1000000)"
    using to_units_IntA [OF n] assms(2)
    by (simp add: per_validator_units_def assms(1) skewed_reward_def amount_or_zero_def)
  have vids: "rewarded_validators E b pid db = [''a'', ''b'']"
    by (simp add: rewarded_validators_def assms(1) skewed_reward_def)
  obtain db1 where s1: "pay_validator E b pid ''a'' (int n * 1000000) db = Inr db1"
    and s2: "pay_validator E b pid ''b'' (1000000 - int n * 1000000) db1 = Inr db'"
    using assms(6) by (auto simp: apply_distributed_validator_rewards_def vids pool per Let_def numeral_2_eq_2 [symmetric])
  have acc: "pay_account b ''a'' = payee" "pay_account b ''b'' = payer"
    using assms(4,5) by (simp_all add: pay_account_def reward_address_of_def assms(1) skewed_reward_def)
  have u: "\<bar>int n * 1000000\<bar> \<le> 10 ^ 15" "\<bar>1000000 - int n * 1000000\<bar> \<le> 10 ^ 15" using assms(2,3) by simp_all
  show ?thesis
    using pay_validator_entry [OF s1 u(1)] pay_validator_entry [OF s2 u(2)] by (auto simp: acc mult.commute)
qed

text \<open>The import of a block with such a dictionary.\<close>

lemma skewed_import:
  assumes "import_finalized_block E now b pid db = Inr (True, db')" and "ledger_ok db"
    and "bk_validator_reward b = Some (skewed_reward payee payer n)" and "0 < n" "n \<le> 10 ^ 8"
    and "payee \<noteq> []" "payer \<noteq> []"
  shows "ledger_ok db' \<and> (\<exists>es. ledger_entries db' = ledger_entries db @ es \<and>
    (\<exists>e \<in> set es. share_entry payee (1000000 * int n) e) \<and> (\<exists>f \<in> set es. share_entry payer (1000000 - 1000000 * int n) f))"
proof -
  obtain db1 db2 r db3 where st: "record_block E now b db = Inr db1" "settle_block E now b pid db1 = Inr db2"
    "update_block_state_root E (bk_height b) (bk_timestamp b) db2 = Inr (r, db3)"
    "store_finality_certificate_for_block (ce_sha256 E) (ce_verify E) (certified E b) (bk_samples b)
       (bk_finality_certificate b) (block_task_id b) db3 = Inr db'"
    using assms(1) by (auto simp: import_finalized_block_def split: if_splits)
  note l1 = record_block_ledger [OF st(1)] and l3 = state_root_ledger [OF st(3)] and l4 = store_certificate_ledger [OF st(4)]
  have ok: "ledger_ok db1" using same_tables_ledger(1) [of db1 db] l1 assms(2) by simp
  then have "ledger_ok db2" using import_books.R_settle_block [OF st(2)] by (simp add: books_kept_def)
  then have "ledger_ok db'" using same_tables_ledger(1) [of db' db2] l3 l4 by simp
  moreover obtain d1 d2 units where d: "entries_grow db1 d1" "apply_distributed_validator_rewards E b pid units d1 = Inr d2"
    "entries_grow d2 db2" by (rule import_grow.R_settle [OF st(2)])
  from skewed_distribution [OF assms(3-7) d(2)] d(1,3)
  have "\<exists>es. ledger_entries db' = ledger_entries db @ es \<and>
    (\<exists>e \<in> set es. share_entry payee (1000000 * int n) e) \<and> (\<exists>f \<in> set es. share_entry payer (1000000 - 1000000 * int n) f)"
    by (auto simp: entries_grow_def l1 l3 l4)
  ultimately show ?thesis ..
qed

text \<open>Proposing a block again.\<close>

lemma upsert_existing:
  assumes "find_proposal pid db = Some p" and "pr_proposal_id new = pid"
    and "\<forall>q \<in> set (proposals db). pr_block_hash q = pr_block_hash new \<longrightarrow> pr_proposal_id q = pid"
  shows "upsert_proposal f new db = Inr (update_proposal pid f db)"
  using assms by (auto simp: upsert_proposal_def tbl_upsert_def update_proposal_def find_proposal_def)

lemma repropose:
  assumes "find_proposal (proposal_id E (bk_block_hash nb)) db = Some p"
    and "normalize_block E b = Inr nb" "validate_block_hash E nb = Inr ()" "received_status E nb db = Inr (st, r)"
    and "\<forall>q \<in> set (proposals db). pr_block_hash q = bk_block_hash nb \<longrightarrow> pr_proposal_id q = proposal_id E (bk_block_hash nb)"
  shows "\<exists>db'. propose_block E now b n db = Inr (reproposed (new_proposal E now nb n st r None) p, db') \<and>
    consensus_votes db' = consensus_votes db"
proof -
  let ?new = "new_proposal E now nb n st r None"
  have u: "upsert_proposal (reproposed ?new) ?new db = Inr (update_proposal (proposal_id E (bk_block_hash nb)) (reproposed ?new) db)"
    by (rule upsert_existing [OF assms(1)]) (use assms(5) in simp_all)
  have f: "find_proposal (proposal_id E (bk_block_hash nb)) (update_proposal (proposal_id E (bk_block_hash nb)) (reproposed ?new) db) =
      Some (reproposed ?new p)"
    by (rule find_after_update [OF assms(1)]) (simp add: reproposed_def)
  show ?thesis
    using f by (simp add: propose_block_def assms(2-4) u Let_def record_consensus_event_def find_proposal_def update_proposal_def)
qed

lemma pay_validator_succeeds:
  assumes "ledger_ok db" and "\<bar>u\<bar> \<le> 10 ^ 15" and "\<bar>acct_units db (pay_account b vid)\<bar> \<le> 10 ^ 15"
  shows "\<exists>db'. pay_validator E b pid vid u db = Inr db'"
proof -
  define legacy where "legacy \<longleftrightarrow> reward_address_of (bk_validator_reward b) vid = [] \<and> is_valid_address (ce_sha256 E) (Some vid)"
  define ty where "ty = (if reward_address_of (bk_validator_reward b) vid \<noteq> [] \<or> legacy then ''wallet'' else ''validator'')"
  define db1 where "db1 = (if legacy then db else ensure_validator E vid (bk_timestamp b) db)"
  have e: "balances db1 = balances db" "ledger_entries db1 = ledger_entries db" by (simp_all add: db1_def)
  have ok: "ledger_ok db1" using same_tables_ledger(1) [OF e] assms(1) by simp
  have "\<bar>acct_units db1 (p_account_id (validator_reward_posting (bk_height b) pid (pay_account b vid) ty u))\<bar> \<le> 10 ^ 15"
    using assms(3) by (simp add: same_tables_ledger(2) [OF e])
  from consensus_post.post_succeeds [OF ok validator_posted_units [OF assms(2)] this, of "bk_timestamp b"]
  obtain db2 where "consensus_apply_account_delta (bk_timestamp b)
      (validator_reward_posting (bk_height b) pid (pay_account b vid) ty u) db1 = Inr db2"
    by (auto simp: never_def)
  then show ?thesis
    unfolding pay_validator_def Let_def pay_account_def legacy_def db1_def ty_def by simp
qed

lemma example_ledger: "ledger_ok chain_before" "acct_units chain_before a = 0"
proof -
  have b: "balances chain_before = balances (example_chain 0 ())" "ledger_entries chain_before = ledger_entries (example_chain 0 ())"
    by (simp_all add: chain_before_def db_certificates.defs db_consensus.defs example_votes_db_def db_chain.defs
        db_mempool.defs example_chain_def)
  have acct: "acct_units (example_chain 0 ()) a = 0" for a by (simp add: example_acct)
  have "ledger_ok (example_chain 0 ())" using example_sound [of 0 "()"] by (simp add: sound_ledger_def)
  then show "ledger_ok chain_before" "acct_units chain_before a = 0"
    using same_tables_ledger(1,2) [OF b] acct by simp_all
qed

text \<open>C30: a proposal that is being voted on can be turned into a transfer. Anyone who sends the same
  block again, under the same hash, with a reward dictionary of their own and without its state root
  and certificate, replaces the stored payload and keeps its identity, its approvals and all its votes.
  Every import of that payload into a consistent ledger then ends in a consistent ledger in which the
  block has added an entry that credits the chosen payee with any chosen sum, and one that takes it
  (but for one Picoin, the pool) from the chosen payer, without a floor and without the payer's
  signature.\<close>

theorem reproposal_redirects_funds:
  fixes db :: "'a db_consensus_scheme"
  assumes "find_proposal pid db = Some p" and "pid = proposal_id E (bk_block_hash nb)"
    and "normalize_block E b = Inr nb" and "validate_block_hash E nb = Inr ()"
    and "received_status E nb db = Inr (st, r)" and "ballots_ok E db"
    and "payee \<noteq> []" and "payer \<noteq> []" and "0 < n" and "n \<le> 10 ^ 8"
  shows "\<exists>q db'. propose_block E now (stripped (skewed_reward payee payer n) b) sender db = Inr (q, db') \<and>
    pr_payload q = stripped (skewed_reward payee payer n) nb \<and> pr_block_hash q = pr_block_hash p \<and>
    pr_proposal_id q = pid \<and> pr_approvals q = pr_approvals p \<and> consensus_votes db' = consensus_votes db \<and>
    (\<forall>now' (db1 :: 'b db_consensus_scheme) db2. ledger_ok db1 \<and>
       import_finalized_block E now' (pr_payload q) pid db1 = Inr (True, db2) \<longrightarrow>
       ledger_ok db2 \<and> (\<exists>es. ledger_entries db2 = ledger_entries db1 @ es \<and>
         (\<exists>e \<in> set es. share_entry payee (1000000 * int n) e) \<and>
         (\<exists>f \<in> set es. share_entry payer (1000000 - 1000000 * int n) f)))"
proof -
  let ?vr = "skewed_reward payee payer n"
  let ?b = "stripped ?vr b" and ?nb = "stripped ?vr nb"
  let ?q = "reproposed (new_proposal E now ?nb sender st r None) p"
  have unique: "\<forall>q \<in> set (proposals db). pr_block_hash q = bk_block_hash ?nb \<longrightarrow>
      pr_proposal_id q = proposal_id E (bk_block_hash ?nb)"
    using ballots_okD(4) [OF assms(6)] by simp
  have found: "find_proposal (proposal_id E (bk_block_hash ?nb)) db = Some p" using assms(1,2) by simp
  obtain db' where again: "propose_block E now ?b sender db = Inr (?q, db')" "consensus_votes db' = consensus_votes db"
    using repropose [OF found normalize_stripped [OF assms(3)] _ _ unique, of st r now sender] assms(4,5)
    by (auto simp: hash_of_stripped received_stripped)
  have id: "pr_proposal_id p = pid" using assms(1) by (auto simp: find_proposal_def dest: tbl_find_key)
  have load: "pr_payload ?q = ?nb" by (simp add: reproposed_def)
  then have reward: "bk_validator_reward (pr_payload ?q) = Some ?vr" by simp
  have "\<forall>now' (db1 :: 'b db_consensus_scheme) db2. ledger_ok db1 \<and>
       import_finalized_block E now' (pr_payload ?q) pid db1 = Inr (True, db2) \<longrightarrow>
       ledger_ok db2 \<and> (\<exists>es. ledger_entries db2 = ledger_entries db1 @ es \<and>
         (\<exists>e \<in> set es. share_entry payee (1000000 * int n) e) \<and>
         (\<exists>f \<in> set es. share_entry payer (1000000 - 1000000 * int n) f))"
    using skewed_import [OF _ _ reward assms(9,10,7,8)] by blast
  moreover have "pr_proposal_id ?q = pid" "pr_approvals ?q = pr_approvals p" "pr_block_hash ?q = pr_block_hash p"
    using id by (simp_all add: reproposed_def)
  ultimately show ?thesis using again load by blast
qed

theorem validator_pool_distributed_witness:
  "\<exists>db'. apply_distributed_validator_rewards example_consensus_env
       (known_block\<lparr>bk_validator_reward := Some (skewed_reward bob alice 2)\<rparr>) ''p'' 0 chain_before = Inr db' \<and>
     total_units db' = total_units chain_before + 1000000 \<and> ledger_ok db'"
proof -
  let ?b = "known_block\<lparr>bk_validator_reward := Some (skewed_reward bob alice 2)\<rparr>"
  have vids: "rewarded_validators example_consensus_env ?b ''p'' chain_before = [''a'', ''b'']"
    by (simp add: rewarded_validators_def skewed_reward_def)
  have pool: "reward_pool_units ?b 0 = Inr 1000000"
    using to_units_IntA [of 1] by (simp add: reward_pool_units_def skewed_reward_def amount_or_zero_def)
  have per: "per_validator_units ?b 1000000 (length [''a'', ''b'']) = Inr 2000000"
    using to_units_IntA [of 2] by (simp add: per_validator_units_def skewed_reward_def amount_or_zero_def)
  have "\<exists>db1. pay_validator example_consensus_env ?b ''p'' ''a'' 2000000 chain_before = Inr db1"
    by (rule pay_validator_succeeds) (simp_all add: example_ledger)
  then obtain db1 where s1: "pay_validator example_consensus_env ?b ''p'' ''a'' 2000000 chain_before = Inr db1" ..
  have b: "\<bar>2000000 :: int\<bar> \<le> 10 ^ 15" by simp
  note a = pay_validator_step [OF example_ledger(1) s1 b]
  have "\<exists>db2. pay_validator example_consensus_env ?b ''p'' ''b'' (- 1000000) db1 = Inr db2"
    by (rule pay_validator_succeeds [OF a(1)]) (simp_all add: a(2) example_ledger(2))
  then obtain db2 where s2: "pay_validator example_consensus_env ?b ''p'' ''b'' (- 1000000) db1 = Inr db2" ..
  have run: "apply_distributed_validator_rewards example_consensus_env ?b ''p'' 0 chain_before = Inr db2"
    using pool per s1 s2 by (simp add: apply_distributed_validator_rewards_def vids)
  from validator_pool_distributed [OF run vids _ pool per _ example_ledger(1)] run show ?thesis by simp
qed

section \<open>A redirected import\<close>

text \<open>A node with an empty chain, the first block proposed to it, and the same block sent again.\<close>

definition fresh_chain :: db_consensus where
  "fresh_chain = chain_before\<lparr>blocks := []\<rparr>"

definition first_proposal :: proposal where
  "first_proposal = new_proposal example_consensus_env 0 known_block ''n'' ''pending'' None None"

lemma known_block_simps [simp]:
  "bk_height known_block = 1" "bk_block_hash known_block = zeros" "bk_previous_hash known_block = zeros"
  "bk_result_hash known_block = ''r''" "bk_reward known_block = 0" "bk_fee_reward known_block = 0"
  "bk_tx_count known_block = 0" "bk_transactions known_block = []" "bk_timestamp known_block = 0"
  "bk_miner_reward_address known_block = None" "bk_miner_id known_block = ''m''"
  by (simp_all add: known_block_def)

lemma stripped_block_simps [simp]:
  "bk_reward (stripped vr b) = bk_reward b" "bk_fee_reward (stripped vr b) = bk_fee_reward b"
  "bk_tx_count (stripped vr b) = bk_tx_count b" "bk_transactions (stripped vr b) = bk_transactions b"
  "bk_timestamp (stripped vr b) = bk_timestamp b" "bk_miner_reward_address (stripped vr b) = bk_miner_reward_address b"
  by (simp_all add: stripped_def)

lemma example_chain_env [simp]:
  "ce_genesis_hash example_consensus_env = zeros" "ne_settings (ce_node example_consensus_env) = default_settings"
  by (simp_all add: example_consensus_env_def example_env_def)

text \<open>What the run needs of the node's tables.\<close>

definition empty_node :: "'a db_consensus_scheme \<Rightarrow> bool" where
  "empty_node d \<longleftrightarrow> blocks d = [] \<and> snapshot_imports d = [] \<and> tasks d = [] \<and> rewards d = [] \<and> ledger_ok d \<and>
     (\<forall>a. acct_units d a = 0) \<and> (\<forall>e \<in> set (ledger_entries d). entry_units e = Inr 0)"

lemma fresh_received:
  "blocks db = [] \<Longrightarrow> snapshot_imports db = [] \<Longrightarrow> received_status example_consensus_env known_block db = Inr (''pending'', None)"
  by (simp add: received_status_def latest_tip_def active_snapshot_base_in_connection_def matches_local_parent_def Let_def)

lemma redirected_admissible:
  "empty_node d \<Longrightarrow> import_admissible example_consensus_env (stripped vr known_block) d = Inr True"
  by (simp add: import_admissible_def hash_of_stripped example_hash_valid empty_node_def latest_tip_def
     active_snapshot_base_in_connection_def matches_local_parent_def reject_duplicate_block_material_def Let_def)

lemma redirected_recorded:
  assumes "empty_node d"
  shows "\<exists>d1. record_block example_consensus_env 0 (stripped vr known_block) d = Inr d1 \<and> balances d1 = balances d \<and>
    ledger_entries d1 = ledger_entries d \<and> rewards d1 = []"
proof -
  let ?b = "stripped vr known_block" and ?E = example_consensus_env
  let ?d0 = "ensure_miner ?E 0 (bk_miner_id ?b) d"
  have m: "blocks ?d0 = []" "tasks ?d0 = []" "balances ?d0 = balances d" "ledger_entries ?d0 = ledger_entries d" "rewards ?d0 = []"
    using assms by (simp_all add: ensure_miner_def empty_node_def split: option.split)
  have t: "ensure_task ?b p ?d0 = Inr (?d0\<lparr>tasks := [replayed_task ?b p]\<rparr>)" for p
    by (simp only: ensure_task_def insert_task_def m(2)) simp
  have i: "insert_block r x = Inr (x\<lparr>blocks := [r]\<rparr>)" if "blocks x = []" for r and x :: "'a db_consensus_scheme"
    using that by (simp add: insert_block_def)
  have c: "validate_finality_certificate_for_block (ce_sha256 ?E) (ce_verify ?E) (certified ?E ?b)
      (bk_finality_certificate ?b) (block_task_id ?b) = Inr ()"
    by (simp add: validate_finality_certificate_for_block_def)
  show ?thesis
    by (simp only: record_block_def Let_def t c bindE_simps) (simp add: admit_block_transactions_def store_block_def i m m [simplified])
qed

lemma pay_validator_rewards: "ledger_ok db \<Longrightarrow> pay_validator E b pid vid u db = Inr db' \<Longrightarrow> rewards db' = rewards db"
  by (auto simp: pay_validator_def Let_def consensus_apply_account_delta_def upsert_balance_def insert_ledger_entry_def
      ensure_validator_def credit_job_def split: if_splits option.splits)

lemma redirected_settled:
  fixes d :: "'a db_consensus_scheme"
  assumes "ledger_ok d" "rewards d = []" "\<And>a. acct_units d a = 0" "\<forall>e \<in> set (ledger_entries d). entry_units e = Inr 0"
  shows "\<exists>d1. settle_block example_consensus_env 0 (stripped (skewed_reward bob alice 5) known_block) pid d = Inr d1 \<and>
    (\<forall>e \<in> set (ledger_entries d1). \<exists>u. entry_units e = Inr u)"
proof -
  let ?b = "stripped (skewed_reward bob alice 5) known_block" and ?E = example_consensus_env
  let ?m = "ensure_balance_account (miner_account ?b) (miner_account_type ?b) 0 d"
  have m: "rewards ?m = []" by (simp add: ensure_balance_account_def assms(2) Let_def)
  obtain v r where w: "record_miner_block_reward 2 (miner_reward_args ?b pid) 0 d = Inr (v, ?m\<lparr>rewards := [r]\<rparr>)"
    and nd: "\<not> reward_due 1 r"
    by (simp add: record_miner_block_reward_def miner_reward_args_def Let_def reward_due_def m)
  define d0 where "d0 = ?m\<lparr>rewards := [r]\<rparr>"
  have "balances d0 = balances ?m" "ledger_entries d0 = ledger_entries ?m" by (simp_all add: d0_def)
  note l = same_tables_ledger [OF this]
  have ok: "ledger_ok d0" and z: "acct_units d0 a = 0" and e0: "ledger_entries d0 = ledger_entries d"
    and due0: "due_rewards 1 d0 = []" for a
    using ensure_balance_account_ok [OF assms(1)] nd by (simp_all add: l assms(3), simp_all add: d0_def due_rewards_def)
  have vids: "rewarded_validators ?E ?b pid d0 = [''a'', ''b'']"
    by (simp add: rewarded_validators_def skewed_reward_def)
  have pool: "reward_pool_units ?b 0 = Inr 1000000"
    using to_units_IntA [of 1] by (simp add: reward_pool_units_def skewed_reward_def amount_or_zero_def)
  have per: "per_validator_units ?b 1000000 (length [''a'', ''b'']) = Inr 5000000"
    using to_units_IntA [of 5] by (simp add: per_validator_units_def skewed_reward_def amount_or_zero_def)
  have "\<exists>d1. pay_validator ?E ?b pid ''a'' 5000000 d0 = Inr d1"
    by (rule pay_validator_succeeds [OF ok]) (simp_all add: z)
  then obtain d1 where s1: "pay_validator ?E ?b pid ''a'' 5000000 d0 = Inr d1" ..
  have b: "\<bar>5000000 :: int\<bar> \<le> 10 ^ 15" "\<bar>- 4000000 :: int\<bar> \<le> 10 ^ 15" by simp_all
  note a = pay_validator_step [OF ok s1 b(1)]
  have "\<exists>d2. pay_validator ?E ?b pid ''b'' (- 4000000) d1 = Inr d2"
    by (rule pay_validator_succeeds [OF a(1)]) (simp_all add: a(2) z)
  then obtain d2 where s2: "pay_validator ?E ?b pid ''b'' (- 4000000) d1 = Inr d2" ..
  have run: "apply_distributed_validator_rewards ?E ?b pid 0 d0 = Inr d2"
    using pool per s1 s2 by (simp add: apply_distributed_validator_rewards_def vids)
  have "rewards d2 = rewards d0"
    using pay_validator_rewards [OF ok s1] pay_validator_rewards [OF a(1) s2] by simp
  then have due: "due_rewards 1 d2 = []" using due0 by (simp add: due_rewards_def)
  have zero: "total_units_from_miner_reward_units 0 = 0" "reward_units_to_float 0 = 0"
    "science_reserve_units_from_total 0 = 0" "scientific_development_units_from_total 0 = 0"
    using round_half_up_of_int [of 0]
    by (simp_all add: total_units_from_miner_reward_units_def reward_units_to_float_def science_reserve_units_from_total_def
        scientific_development_units_from_total_def percent_units_def)
  have "settle_block ?E 0 ?b pid d = Inr d2"
    using w run
    by (simp add: settle_block_def Let_def d0_def [symmetric] settle_transactions_def zero
        record_science_reserve_for_block_def record_scientific_development_treasury_for_block_def
        mature_block_rewards_def due default_settings_def)
  moreover have "\<exists>u. entry_units e = Inr u" if e: "e \<in> set (ledger_entries d2)" for e
  proof -
    have share: "entry_units x = Inr u" if "share_entry acc u x" "\<bar>u\<bar> \<le> 10 ^ 15" for x acc u
      using that units_from_db_consistent [of u] by (simp add: entry_units_def share_entry_def)
    obtain x y where "ledger_entries d1 = ledger_entries d0 @ [x]" "share_entry (pay_account ?b ''a'') 5000000 x"
      "ledger_entries d2 = ledger_entries d1 @ [y]" "share_entry (pay_account ?b ''b'') (- 4000000) y"
      using pay_validator_entry [OF s1 b(1)] pay_validator_entry [OF s2 b(2)] by (elim exE conjE) (rule that)
    then show ?thesis using e assms(4) share b by (auto simp: e0)
  qed
  ultimately show ?thesis by blast
qed

text \<open>The whole import of the redirected block.\<close>

lemma redirected_import:
  assumes "empty_node d"
  shows "\<exists>d'. import_finalized_block example_consensus_env 0 (stripped (skewed_reward bob alice 5) known_block) pid d = Inr (True, d')"
proof -
  let ?b = "stripped (skewed_reward bob alice 5) known_block" and ?E = example_consensus_env
  obtain d1 where r: "record_block ?E 0 ?b d = Inr d1" and t: "balances d1 = balances d" "ledger_entries d1 = ledger_entries d"
    "rewards d1 = []" using redirected_recorded [OF assms, of "skewed_reward bob alice 5"] by (elim exE conjE) (rule that)
  have e: "ledger_ok d" "\<And>a. acct_units d a = 0" "\<forall>e \<in> set (ledger_entries d). entry_units e = Inr 0"
    using assms by (simp_all add: empty_node_def)
  obtain d2 where s: "settle_block ?E 0 ?b pid d1 = Inr d2" and u: "\<forall>e \<in> set (ledger_entries d2). \<exists>u. entry_units e = Inr u"
    using redirected_settled [of d1 pid] e unfolding same_tables_ledger(1,2) [OF t(1,2), symmetric] t(2) [symmetric] using t(3) by blast
  have "\<exists>items. canonical_balance_snapshot 1 (Some 0) d2 = Inr items"
    by (rule exI, rule snapshot_succeeds) (use u in simp_all)
  then obtain h where h: "calculate_state_root (ce_sha256 ?E) 1 (Some 0) d2 = Inr h"
    by (auto simp: calculate_state_root_def balance_snapshot_def)
  show ?thesis
    using redirected_admissible [OF assms] r s h
    by (simp add: import_finalized_block_def update_block_state_root_def check_state_root_def truthy_text_def
        store_finality_certificate_for_block_def)
qed

text \<open>The node before and after the first proposal, and after any other.\<close>

lemma propose_keeps_node:
  assumes "empty_node d" and "propose_block E now b n d = Inr (q, d')"
  shows "empty_node d'"
proof -
  have "blocks d' = blocks d \<and> snapshot_imports d' = snapshot_imports d \<and> tasks d' = tasks d \<and> rewards d' = rewards d \<and>
      balances d' = balances d \<and> ledger_entries d' = ledger_entries d"
    using assms(2) by (auto simp: propose_block_def upsert_proposal_def record_consensus_event_def Let_def
        split: if_splits option.splits)
  then show ?thesis using assms(1) same_tables_ledger(1,2) [of d' d] by (simp add: empty_node_def)
qed

lemma fresh_empty: "empty_node fresh_chain"
proof -
  have t: "balances fresh_chain = balances chain_before" "ledger_entries fresh_chain = ledger_entries chain_before"
    by (simp_all add: fresh_chain_def)
  have "ledger_entries chain_before = ledger_entries (example_chain 0 ())"
    by (simp add: chain_before_def db_certificates.defs db_consensus.defs example_votes_db_def db_chain.defs
        db_mempool.defs example_chain_def)
  then have "\<forall>e \<in> set (ledger_entries fresh_chain). entry_units e = Inr 0"
    using units_from_db_consistent [of 0] by (simp add: t entry_units_def example_chain_def)
  moreover have "tasks fresh_chain = []" "rewards fresh_chain = []" "snapshot_imports fresh_chain = []" "blocks fresh_chain = []"
    by (simp_all add: fresh_chain_def chain_before_def db_certificates.defs db_consensus.defs example_votes_db_def db_chain.defs
        db_mempool.defs example_chain_def)
  ultimately show ?thesis
    using example_ledger by (simp add: empty_node_def same_tables_ledger [OF t])
qed

lemma fresh_reachable: "reachable E fresh_chain"
  by (rule reachable.start) (simp_all add: fresh_chain_def)

lemma fresh_proposed:
  "\<exists>db. propose_block example_consensus_env 0 known_block ''n'' fresh_chain = Inr (first_proposal, db) \<and> proposals db = [first_proposal]"
proof -
  have "blocks fresh_chain = []" "snapshot_imports fresh_chain = []" "proposals fresh_chain = []"
    using fresh_empty by (simp_all add: empty_node_def fresh_chain_def)
  with fresh_received [OF this(1,2)] show ?thesis
    by (simp add: propose_block_def example_normal example_hash_valid upsert_proposal_def tbl_upsert_def
        record_consensus_event_def find_proposal_def first_proposal_def new_proposal_def Let_def)
qed

text \<open>The first block of the chain, waiting for votes, is sent again and then imported: four Picoin
  go from one account to the other (a fifth is the pool).\<close>

theorem reproposal_redirects_funds_witness:
  "\<exists>db q db' db2. propose_block example_consensus_env 0 known_block ''n'' fresh_chain = Inr (first_proposal, db) \<and>
     propose_block example_consensus_env 0 (stripped (skewed_reward bob alice 5) known_block) ''mallory'' db = Inr (q, db') \<and>
     pr_proposal_id q = pr_proposal_id first_proposal \<and>
     import_finalized_block example_consensus_env 0 (pr_payload q) (pr_proposal_id q) db' = Inr (True, db2) \<and>
     (\<exists>f \<in> set (ledger_entries db2). share_entry alice (- 4000000) f)"
proof -
  obtain db where s: "propose_block example_consensus_env 0 known_block ''n'' fresh_chain = Inr (first_proposal, db)"
    and d: "proposals db = [first_proposal]" using fresh_proposed by (elim exE conjE) (rule that)
  have ok: "ballots_ok example_consensus_env db"
    by (rule propose_keeps [OF reachable_ballots_ok [OF fresh_reachable] s])
  have e: "empty_node db" by (rule propose_keeps_node [OF fresh_empty s])
  have hash: "validate_block_hash example_consensus_env known_block = Inr ()" by (rule example_hash_valid) simp_all
  have found: "find_proposal (pr_proposal_id first_proposal) db = Some first_proposal" by (simp add: find_proposal_def d)
  have id: "pr_proposal_id first_proposal = proposal_id example_consensus_env (bk_block_hash known_block)"
    by (simp add: first_proposal_def new_proposal_def)
  have rs: "received_status example_consensus_env known_block db = Inr (''pending'', None)"
    by (rule fresh_received) (use e in \<open>simp_all add: empty_node_def\<close>)
  have n: "bob \<noteq> []" "alice \<noteq> []" "0 < (5 :: nat)" "(5 :: nat) \<le> 10 ^ 8" by (simp_all add: bob_def alice_def)
  obtain q db' where p: "propose_block example_consensus_env 0 (stripped (skewed_reward bob alice 5) known_block) ''mallory'' db = Inr (q, db')"
    and q: "pr_payload q = stripped (skewed_reward bob alice 5) known_block" "pr_proposal_id q = pr_proposal_id first_proposal"
    and w: "\<And>now' (db1 :: db_consensus) db2. ledger_ok db1 \<and> import_finalized_block example_consensus_env now' (pr_payload q)
        (pr_proposal_id first_proposal) db1 = Inr (True, db2) \<Longrightarrow>
       ledger_ok db2 \<and> (\<exists>es. ledger_entries db2 = ledger_entries db1 @ es \<and>
         (\<exists>e \<in> set es. share_entry bob (1000000 * int 5) e) \<and>
         (\<exists>f \<in> set es. share_entry alice (1000000 - 1000000 * int 5) f))"
    using reproposal_redirects_funds [OF found id example_normal hash rs ok n, where sender = "''mallory''" and now = 0] by blast
  have e': "empty_node db'" by (rule propose_keeps_node [OF e p])
  then have l: "ledger_ok db'" by (simp add: empty_node_def)
  obtain db2 where i: "import_finalized_block example_consensus_env 0 (pr_payload q) (pr_proposal_id first_proposal) db' = Inr (True, db2)"
    using redirected_import [OF e', of "pr_proposal_id first_proposal"] unfolding q(1) [symmetric] by (elim exE) (rule that)
  from w [OF conjI [OF l i]] have "\<exists>f \<in> set (ledger_entries db2). share_entry alice (- 4000000) f" by auto
  with s p q(2) i show ?thesis by auto
qed


end
