(* ===== verification/TaskStatus.thy ===== *)
theory TaskStatus
  imports Mining ImportProps
begin

text \<open>
  How the status of a task moves. \<open>status_edge\<close> lists the steps of the status machine; \<open>evolves\<close>
  relates the task tables before and after an operation: no task disappears, none changes its range,
  and each status moves along edges. Every operation of \<open>Tasks\<close>, \<open>TaskLife\<close>, \<open>TaskAssign\<close> and
  \<open>Mining\<close> that writes the table is shown to evolve it.
\<close>


section \<open>Selecting and releasing transactions keep the tasks\<close>

lemma fail_transaction_tail [simp]: "same_tail db (fail_transaction now h reason db') \<longleftrightarrow> same_tail db db'"
  by (simp add: fail_transaction_def update_mempool_def)

lemma select_expected_tail:
  assumes "select_expected E tx st = Inr st'"
  shows "same_tail (sel_db st) (sel_db st')"
proof -
  obtain semantic expected db1 where r: "transaction_rejection_reason E tx (sel_expected st) (sel_faucet st)
      False False (sel_db st) = Inr (semantic, expected, db1)"
    using assms unfolding select_expected_def bindE_eq_Inr by auto
  obtain g t where db1: "db1 = (sel_db st)\<lparr>treasury := t, science_governance := g\<rparr>"
    using rejection_reason_cases(1) [OF r] by (elim exE) (rule that)
  have t: "same_tail (sel_db st) db1" by (simp add: db1 same_tail_def)
  note s = assms [unfolded select_expected_def r bindE_simps prod.case Let_def]
  show ?thesis
  proof (cases semantic)
    case None
    then show ?thesis
      using take_transaction_cases [OF s [unfolded None option.case]] t by fastforce
  next
    case (Some reason)
    then show ?thesis using s t by auto
  qed
qed

lemma select_row_tail:
  assumes "select_row E k m st = Inr st'"
  shows "same_tail (sel_db st) (sel_db st')"
proof (rule select_row_cases [OF assms refl])
  assume "select_expected E (decode_mempool_transaction m) st = Inr st'"
  then show ?thesis by (rule select_expected_tail)
qed simp_all

lemma select_passes_tail:
  "select_passes E k rows st = Inr st' \<Longrightarrow> same_tail (sel_db st) (sel_db st')"
proof (induction E k rows st rule: select_passes.induct)
  case (1 E k rows st)
  show ?case
  proof (cases "sel_progress st \<and> length (sel_txs st) < k")
    case True
    then obtain st1 where p: "select_pass E k rows st = Inr st1" "select_passes E k rows st1 = Inr st'"
      using "1.prems" by (subst (asm) select_passes.simps) auto
    have "same_tail (sel_db st) (sel_db st1)"
    proof (rule foldE_invariant [where f = "select_row E k" and P = "\<lambda>s. same_tail (sel_db st) (sel_db s)"])
      show "foldE (select_row E k) rows (st\<lparr>sel_progress := False\<rparr>) = Inr st1"
        using p(1) by (simp add: select_pass_def)
    qed (auto intro: same_tail_trans select_row_tail)
    from same_tail_trans [OF this "1.IH" [OF True p(1) p(2)]] show ?thesis .
  next
    case False
    then show ?thesis using "1.prems" by (subst (asm) select_passes.simps) auto
  qed
qed

lemma select_tail:
  "select_transactions_for_task E n h db = Inr (txs, db') \<Longrightarrow> same_tail db db'"
  by (auto simp: select_transactions_for_task_def initial_selection_def split: if_splits dest!: select_passes_tail)

lemma fold_tail:
  "(\<And>x d. same_tail d (f x d)) \<Longrightarrow> same_tail db (fold f xs db)"
  by (induction xs arbitrary: db) (auto intro: same_tail_trans)

lemma mark_selected_tail: "same_tail db (fold (mark_selected tid h sid ts) hashes db)"
  by (rule fold_tail) (simp add: mark_selected_def update_mempool_def)

lemma release_one_tail: "same_tail (snd acc) (snd (release_one ts reason row acc))"
  by (simp add: release_one_def update_mempool_def Let_def split: prod.split)

lemma release_fold_tail: "same_tail (snd acc) (snd (fold (release_one ts reason) rows acc))"
proof (induction rows arbitrary: acc)
  case (Cons row rows)
  from same_tail_trans [OF release_one_tail Cons.IH] show ?case by simp
qed simp

lemma release_tail: "same_tail db (release_for_task M tid reason ts db)"
  using release_fold_tail [where acc = "((0, 0), db)"]
  by (simp add: release_for_task_def release_selected_transactions_def Let_def)

lemma release_keeps [simp]:
  "tasks (release_for_task M tid reason ts db) = tasks (db :: 'a db_consensus_scheme)"
  "blocks (release_for_task M tid reason ts db) = blocks db"
  using consensus_fields_of_tail [OF release_tail [of db M tid reason ts]] by simp_all

section \<open>The status machine\<close>

inductive status_edge :: "string \<Rightarrow> string \<Rightarrow> bool" where
  claim: "s \<in> {''pending'', ''queued'', ''available''} \<Longrightarrow> status_edge s ''assigned''"
| commit: "status_edge ''assigned'' ''committed''"
| reveal: "status_edge ''committed'' ''revealed''"
| accept: "status_edge ''revealed'' ''accepted''"
| reject: "s \<in> {''committed'', ''revealed''} \<Longrightarrow> status_edge s ''rejected''"
| expire: "s \<in> set ACTIVE_STATUSES \<Longrightarrow> status_edge s ''expired''"
| close: "s \<in> set ACTIVE_STATUSES \<Longrightarrow> status_edge s ''stale''"
| revive: "s \<in> {''assigned'', ''committed''} \<Longrightarrow> status_edge ''expired'' s"

inductive_simps status_edge_final:
  "status_edge ''accepted'' s" "status_edge ''rejected'' s" "status_edge ''stale'' s"

definition FINAL_STATUSES :: "string list" where "FINAL_STATUSES = [''accepted'', ''rejected'', ''stale'']"

lemma final_stays:
  assumes "status_edge\<^sup>*\<^sup>* s s'" and "s \<in> set FINAL_STATUSES"
  shows "s' = s"
  using assms
  by (induction rule: rtranclp_induct) (auto simp: FINAL_STATUSES_def status_edge_final ACTIVE_STATUSES_def)

definition moved :: "task_row \<Rightarrow> task_row \<Rightarrow> bool" where
  "moved t u \<longleftrightarrow> tk_task_id u = tk_task_id t \<and> tk_range_start u = tk_range_start t \<and>
     tk_range_end u = tk_range_end t \<and> status_edge\<^sup>*\<^sup>* (tk_status t) (tk_status u)"

lemma moved_refl [simp]: "moved t t"
  by (simp add: moved_def)

lemma moved_trans: "moved t u \<Longrightarrow> moved u v \<Longrightarrow> moved t v"
  by (auto simp: moved_def intro: rtranclp_trans)

definition evolves :: "task_row list \<Rightarrow> task_row list \<Rightarrow> bool" where
  "evolves ts us \<longleftrightarrow> (distinct (map tk_task_id ts) \<longrightarrow>
     distinct (map tk_task_id us) \<and> list_all2 moved ts (take (length ts) us))"

lemma evolves_refl [simp]: "evolves ts ts"
  by (simp add: evolves_def list_all2_same)

lemma evolves_trans:
  assumes "evolves ts us" and "evolves us vs"
  shows "evolves ts vs"
proof -
  have "list_all2 moved ts (take (length ts) vs)"
    if "list_all2 moved ts (take (length ts) us)" "list_all2 moved us (take (length us) vs)"
  proof -
    have l: "length ts \<le> length us" using list_all2_lengthD [OF that(1)] by simp
    from list_all2_takeI [OF that(2), of "length ts"]
    have "list_all2 moved (take (length ts) us) (take (length ts) vs)" using l by simp
    from list_all2_trans [OF _ that(1) this] show ?thesis by (blast intro: moved_trans)
  qed
  then show ?thesis using assms by (auto simp: evolves_def)
qed

lemma evolves_update:
  assumes "\<And>t. distinct (map tk_task_id ts) \<Longrightarrow> t \<in> set ts \<Longrightarrow> p t \<Longrightarrow> moved t (f t)"
  shows "evolves ts (tbl_update p f ts)"
proof -
  have "list_all2 moved ts (tbl_update p f ts)" "map tk_task_id (tbl_update p f ts) = map tk_task_id ts"
    if "distinct (map tk_task_id ts)"
    using assms [OF that] by (auto simp: tbl_update_def list_all2_map2 list_all2_same moved_def)
  then show ?thesis by (auto simp: evolves_def)
qed

text \<open>An update by identifier touches the task found under it.\<close>

lemma evolves_update_found:
  assumes "tbl_find tk_task_id tid ts = Some t" and "moved t (f t)"
  shows "evolves ts (tbl_update (\<lambda>u. tk_task_id u = tid) f ts)"
proof (rule evolves_update)
  fix u assume "distinct (map tk_task_id ts)" "u \<in> set ts" "tk_task_id u = tid"
  with tbl_find_distinct [of tk_task_id ts u] assms show "moved u (f u)" by simp
qed

lemma find_task_member:
  "distinct (map tk_task_id ts) \<Longrightarrow> t \<in> set ts \<Longrightarrow> u \<in> set ts \<Longrightarrow> tk_task_id u = tk_task_id t \<Longrightarrow> u = t"
  by (metis option.inject tbl_find_distinct)

lemma evolves_update_member:
  assumes "t \<in> set ts" and "moved t (f t)"
  shows "evolves ts (tbl_update (\<lambda>u. tk_task_id u = tk_task_id t) f ts)"
  by (rule evolves_update) (use assms find_task_member in blast)

lemma evolves_insert: "insert_task t db = Inr db' \<Longrightarrow> evolves (tasks db) (tasks db')"
  by (auto simp: insert_task_def evolves_def list_all2_same split: if_splits)

lemma moved_edge:
  "tk_task_id u = tk_task_id t \<Longrightarrow> tk_range_start u = tk_range_start t \<Longrightarrow> tk_range_end u = tk_range_end t \<Longrightarrow>
   status_edge (tk_status t) (tk_status u) \<Longrightarrow> moved t u"
  by (simp add: moved_def r_into_rtranclp)

lemma active_edges:
  "s \<in> set ACTIVE_STATUSES \<Longrightarrow> status_edge s ''expired''" "s \<in> set ACTIVE_STATUSES \<Longrightarrow> status_edge s ''stale''"
  "s = ''assigned'' \<Longrightarrow> status_edge s ''expired''" "s = ''committed'' \<Longrightarrow> status_edge s ''expired''"
  "s = ''revealed'' \<Longrightarrow> status_edge s ''expired''" "s = ''revealed'' \<Longrightarrow> status_edge s ''rejected''"
  "s = ''committed'' \<Longrightarrow> status_edge s ''rejected''" "s = ''revealed'' \<Longrightarrow> status_edge s ''accepted''"
  "s = ''assigned'' \<Longrightarrow> status_edge s ''committed''" "s = ''committed'' \<Longrightarrow> status_edge s ''revealed''"
  by (auto intro: status_edge.intros simp: ACTIVE_STATUSES_def)

lemma tasks_update [simp]: "tasks (update_tasks p f db) = tbl_update p f (tasks db)"
  by (simp add: update_tasks_def)

lemma tasks_jobs [simp]: "tasks (update_jobs p f db) = tasks db"
  by (simp add: update_jobs_def)

lemma tasks_miner [simp]: "tasks (update_miner mid f db) = tasks db"
  by (simp add: update_miner_def)

section \<open>Freezing, closing and revival\<close>

lemma stamp_evolves [simp]: "evolves (tasks db) (tasks (stamp_task tid sid c db))"
  by (simp add: stamp_task_def) (rule evolves_update, simp add: moved_def)

lemma tasks_snapshots [simp]: "tasks (db\<lparr>task_tx_snapshots := rows\<rparr>) = tasks db"
  by simp

lemma tail_tasks: "same_tail db (db' :: 'a db_consensus_scheme) \<Longrightarrow> tasks db' = tasks db"
  by (rule consensus_fields_of_tail)

lemma freeze_evolves:
  assumes "freeze_transactions_for_task E tid h n ts db = Inr (s, db' :: 'a db_consensus_scheme)"
  shows "evolves (tasks db) (tasks db')"
proof -
  obtain txs db1 c snap db2 where r: "select_transactions_for_task E n (h - 1) db = Inr (txs, db1)"
    "store_task_tx_snapshot (sha256_text (ne_crypto E)) tid h c (op_time (ne_clock E) ts) db1 = Inr (snap, db2)"
    "db' = fold (mark_selected tid h (ts_snapshot_id snap) (op_time (ne_clock E) ts)) (cm_tx_hashes c) db2"
    using assms unfolding freeze_transactions_for_task_def Let_def bindE_eq_Inr by (elim exE conjE) auto
  have "evolves (tasks db1) (tasks db2)"
    using r(2) unfolding store_task_tx_snapshot_def Let_def bindE_eq_Inr
    by (elim exE conjE) (auto intro: evolves_trans [OF _ stamp_evolves])
  with tail_tasks [OF select_tail [OF r(1)]] tail_tasks [OF mark_selected_tail [of db2]] show ?thesis
    by (simp add: r(3))
qed

lemma freeze_round_evolves:
  assumes "freeze_transactions_for_competitive_round_task E tid h seed n ts db = Inr (s, db' :: 'a db_consensus_scheme)"
  shows "evolves (tasks db) (tasks db')"
  using assms freeze_evolves
  by (auto simp: freeze_transactions_for_competitive_round_task_def apply_task_tx_snapshot_def Let_def
      split: option.splits if_splits)

lemma closing_evolves: "evolves (tasks db) (tasks (snd (mark_competitive_task_stale M tid reason ts db)))"
  by (simp add: mark_competitive_task_stale_def Let_def)
    (rule evolves_update, simp add: stale_task_def moved_edge active_edges)

lemma expire_stale_evolves:
  "expire_stale_competitive_task M t p db = Inr (gone, db') \<Longrightarrow> evolves (tasks db) (tasks db')"
  unfolding expire_stale_competitive_task_def
  using closing_evolves [of db M "tk_task_id t" "''competitive round closed''" "me_now M"]
  by (auto split: if_splits)

lemma fold_evolves:
  assumes "\<And>x d. evolves (tasks d) (tasks (f x d))"
  shows "evolves (tasks db) (tasks (fold f xs db))"
  by (induction xs arbitrary: db) (auto intro: evolves_trans assms)

lemma foldE_evolves:
  assumes "\<And>x d d'. f x d = Inr d' \<Longrightarrow> evolves (tasks d) (tasks d')" and "foldE f xs db = Inr db'"
  shows "evolves (tasks db) (tasks db')"
  by (rule foldE_invariant [OF _ _ assms(2)]) (auto intro: evolves_trans assms(1))

lemma close_round_evolves: "close_competitive_round_after_block M t h ts db = (ids, db') \<Longrightarrow> evolves (tasks db) (tasks db')"
  by (auto simp: close_competitive_round_after_block_def Let_def split: if_splits intro: fold_evolves closing_evolves)

lemma refreeze_evolves:
  assumes "refreeze_revived_task M t a db = Inr db'"
  shows "evolves (tasks db) (tasks db')"
proof -
  obtain h seed s where "freeze_transactions_for_competitive_round_task (me_node M) (tk_task_id t) h seed
      (st_max_transactions_per_block (ne_settings (me_node M))) (Some (me_now M))
      (release_for_task M (tk_task_id t) ''task reactivated'' (me_now M) db) = Inr (s, db')"
    using assms unfolding refreeze_revived_task_def Let_def
    by (cases "case a of None \<Rightarrow> tk_competitive_round_height t | Some b \<Rightarrow> as_round_height b") auto
  from freeze_round_evolves [OF this] show ?thesis by simp
qed

lemma revived_edge: "status_edge ''expired'' (tk_status (revived_task M p c e t))"
  by (simp add: revived_task_def status_edge.revive)

lemma reactivate_evolves:
  assumes "reactivate_expired_competitive_task M t a p db = Inr (r, db')"
  shows "evolves (tasks db) (tasks db')"
proof (cases "revivable M t a db")
  case True
  let ?c = "find_commitment (tk_task_id t) db \<noteq> None"
  let ?db1 = "update_tasks (\<lambda>u. tk_task_id u = tk_task_id t \<and> tk_status u = ''expired'')
    (revived_task M p ?c (tk_range_end t)) db"
  have one: "evolves (tasks db) (tasks ?db1)"
    by (simp, rule evolves_update, rule moved_edge)
      (simp_all add: revived_edge, simp_all add: revived_task_def)
  have "(if ?c then Inr ?db1 else refreeze_revived_task M t a ?db1) = Inr db'"
    using assms True unfolding reactivate_expired_competitive_task_def Let_def bindE_eq_Inr
    by (simp only: not_True_eq_False if_False bindE_eq_Inr) (elim exE conjE, simp)
  then have "db' = ?db1 \<or> refreeze_revived_task M t a ?db1 = Inr db'"
    by (cases ?c) (simp_all only: if_True if_False sum.inject simp_thms)
  then have "evolves (tasks ?db1) (tasks db')" using refreeze_evolves by (elim disjE) (simp_all only: evolves_refl)
  with one show ?thesis by (rule evolves_trans)
next
  case False
  with assms show ?thesis by (simp add: reactivate_expired_competitive_task_def)
qed

text \<open>What a reactivation answers is the row the table holds.\<close>

lemma reactivate_found:
  "reactivate_expired_competitive_task M t a p db = Inr (r, db') \<Longrightarrow>
   r = None \<and> db' = db \<or> r = find_task (tk_task_id t) db' \<and> tk_status t = ''expired''"
  by (auto simp: reactivate_expired_competitive_task_def revivable_def Let_def split: if_splits)

lemma revive_first_evolves:
  "revive_first M p ts db = Inr (r, db') \<Longrightarrow> evolves (tasks db) (tasks db')"
proof (induction ts arbitrary: db)
  case (Cons t ts)
  then obtain r1 db1 where s: "reactivate_expired_competitive_task M t None p db = Inr (r1, db1)"
    "(case r1 of Some u \<Rightarrow> Inr (Some u, db1) | None \<Rightarrow> revive_first M p ts db1) = Inr (r, db')" by auto
  from s(2) Cons.IH [of db1] have "evolves (tasks db1) (tasks db')" by (auto split: option.splits)
  with reactivate_evolves [OF s(1)] show ?case by (rule evolves_trans)
qed simp

section \<open>Expiry\<close>

lemma ended_moved: "tk_status t = ''revealed'' \<Longrightarrow> st \<in> {''rejected'', ''expired''} \<Longrightarrow> moved t (ended_task st reason stamp t)"
  by (rule moved_edge) (auto simp: ended_task_def Let_def active_edges)

lemma accept_evolves:
  assumes "accept_task p f db = Inr db'"
    and "\<And>t. p t \<Longrightarrow> tk_status t = ''revealed'' \<and> tk_task_id (f t) = tk_task_id t \<and>
      tk_range_start (f t) = tk_range_start t \<and> tk_range_end (f t) = tk_range_end t"
  shows "evolves (tasks db) (tasks db')"
proof -
  have "db' = update_tasks p (\<lambda>t. (f t)\<lparr>tk_status := ''accepted''\<rparr>) db"
    using assms(1) by (simp add: accept_task_def Let_def split: if_splits)
  moreover have "evolves (tasks db) (tbl_update p (\<lambda>t. (f t)\<lparr>tk_status := ''accepted''\<rparr>) (tasks db))"
    by (rule evolves_update, rule moved_edge) (use assms(2) in \<open>simp_all add: active_edges\<close>)
  ultimately show ?thesis by simp
qed

lemma close_terminal_evolves:
  assumes "close_terminal_task M j db = Inr db'"
  shows "evolves (tasks db) (tasks db')"
proof -
  let ?p = "\<lambda>t. tk_task_id t = vj_task_id j \<and> tk_status t = ''revealed''"
  have ended: "evolves (tasks db) (tbl_update ?p (ended_task st reason stamp) (tasks db))"
    if "st \<in> {''rejected'', ''expired''}" for st reason stamp
    by (rule evolves_update) (use ended_moved that in blast)
  consider stamp where "accept_task ?p (\<lambda>t. t\<lparr>tk_submitted_at := coalesce (tk_submitted_at t) stamp\<rparr>) db = Inr db'"
    | st reason stamp ts where "st \<in> {''rejected'', ''expired''}"
      "db' = release_for_task M (vj_task_id j) reason ts (update_tasks ?p (ended_task st reason stamp) db)"
    using assms unfolding close_terminal_task_def Let_def by (simp split: if_splits) blast+
  then show ?thesis
  proof cases
    case 1
    from accept_evolves [OF this] show ?thesis by simp
  next
    case 2
    with ended [OF 2(1)] show ?thesis by simp
  qed
qed

lemma close_obsolete_evolves: "close_obsolete_task M t db = Inr db' \<Longrightarrow> evolves (tasks db) (tasks db')"
  unfolding close_obsolete_task_def bindE_eq_Inr
  by (elim exE conjE) (auto split: option.splits intro: closing_evolves)

lemma expire_tasks_evolves: "evolves (tasks db) (tasks (expire_tasks M waiting revealed db))"
proof -
  let ?e = "\<lambda>t. t\<lparr>tk_status := ''expired''\<rparr>"
  let ?p = "\<lambda>t. tk_status t \<in> {''assigned'', ''committed''} \<and> past_expiry M t"
  let ?q = "\<lambda>t. tk_status t = ''revealed'' \<and> tk_task_id t \<in> set revealed"
  have 1: "evolves (tasks db) (tbl_update ?p ?e (tasks db))"
    by (rule evolves_update, rule moved_edge) (auto simp: active_edges)
  have 2: "evolves ts (tbl_update ?q ?e ts)" for ts
    by (rule evolves_update, rule moved_edge) (auto simp: active_edges)
  have 3: "evolves (tasks d) (tasks (fold (\<lambda>tid. release_for_task M tid ''task expired'' (me_now M)) ids d))"
    for ids and d :: "'a db_consensus_scheme"
    by (rule fold_evolves) simp
  have "tasks (update_jobs r g (update_tasks ?q ?e (update_tasks ?p ?e db))) = tbl_update ?q ?e (tbl_update ?p ?e (tasks db))"
    for r g by simp
  from evolves_trans [OF 1 evolves_trans [OF 2 3 [of "update_jobs r g (update_tasks ?q ?e (update_tasks ?p ?e db))" for r g,
    unfolded this]]]
  show ?thesis unfolding expire_tasks_def Let_def .
qed

lemma expire_assigned_evolves:
  assumes "expire_assigned_tasks M db = Inr db'"
  shows "evolves (tasks db) (tasks db')"
proof -
  obtain db1 db2 ids where s: "close_terminal_validation_tasks M (release_timed_out_validation_assignments M db) = Inr db1"
    "close_obsolete_competitive_validation_jobs M db1 = Inr db2"
    "db' = expire_tasks M (expired_ids M {''assigned'', ''committed''} db2) ids db2"
    using assms unfolding expire_assigned_tasks_def bindE_eq_Inr by (elim exE conjE) auto
  have "evolves (tasks db) (tasks db1)"
    using foldE_evolves [OF close_terminal_evolves s(1) [unfolded close_terminal_validation_tasks_def]]
    by (simp add: release_timed_out_validation_assignments_def Let_def)
  moreover have "evolves (tasks db1) (tasks db2)"
    using foldE_evolves [OF close_obsolete_evolves s(2) [unfolded close_obsolete_competitive_validation_jobs_def]] .
  ultimately show ?thesis unfolding s(3) by (blast intro: evolves_trans expire_tasks_evolves)
qed

section \<open>Asking for a task\<close>

lemma balance_account_tasks [simp]:
  "tasks (ensure_balance_account a ty now (db :: 'a db_consensus_scheme)) = tasks db"
  by (rule tail_tasks) simp

lemma reward_address_tasks:
  "update_miner_reward_address M mid a db = Inr db' \<Longrightarrow> tasks db' = tasks db"
  unfolding update_miner_reward_address_def bindE_eq_Inr
proof (elim exE conjE)
  fix x
  assume "(case x of None \<Rightarrow> Inr db | Some address \<Rightarrow>
      if case find_miner mid db of None \<Rightarrow> False | Some m \<Rightarrow> str_or (mi_reward_address m) [] = address then Inr db
      else Inr (ensure_balance_account address ''wallet'' (me_now M)
        (update_miner mid (\<lambda>m. m\<lparr>mi_reward_address := Some address\<rparr>) db))) = Inr db'"
  then show "tasks db' = tasks db" by (cases x) (auto split: if_splits)
qed

lemma identify_tasks: "identify_miner M mid k n a db = Inr (m, db') \<Longrightarrow> tasks db' = tasks db"
  by (auto simp: identify_miner_def restore_miner_identity_def Let_def reward_address_tasks
      split: option.splits if_splits)

lemma poll_tasks [simp]: "tasks (maybe_update_miner_task_poll M m db) = tasks db"
  by (simp add: maybe_update_miner_task_poll_def Let_def)

lemma current_task_evolves:
  assumes "current_task M mid p db = Inr (r, db')"
  shows "evolves (tasks db) (tasks db')"
proof (cases "sort_key tk_created_at (active_tasks_of mid db)")
  case (Cons t ts)
  then have "t \<in> set (sort_key tk_created_at (active_tasks_of mid db))" by simp
  then have t: "t \<in> set (tasks db)" "tk_status t \<in> set ACTIVE_STATUSES" by (auto simp: active_tasks_of_def)
  have e: "evolves (tasks db) (tbl_update (\<lambda>u. tk_task_id u = tk_task_id t) (\<lambda>u. u\<lparr>tk_status := ''expired''\<rparr>) (tasks db))"
    by (rule evolves_update_member [OF t(1)], rule moved_edge) (simp_all add: active_edges t)
  note r = assms [unfolded current_task_def Cons list.case]
  show ?thesis
  proof (cases "past_expiry M t")
    case True
    with r e show ?thesis by auto
  next
    case False
    with r show ?thesis by (auto split: if_splits dest: expire_stale_evolves)
  qed
qed (use assms in \<open>simp add: current_task_def\<close>)

lemma claim_evolves:
  assumes "claim_global_task_for_miner M mid p db = Inr (r, db')"
  shows "evolves (tasks db) (tasks db')"
proof (cases "sort_key tk_created_at (filter (global_task_open M mid p) (tasks db))")
  case (Cons t ts)
  then have "t \<in> set (sort_key tk_created_at (filter (global_task_open M mid p) (tasks db)))" by simp
  then have t: "t \<in> set (tasks db)" "tk_status t \<in> {''pending'', ''queued'', ''available''}"
    by (auto simp: global_task_open_def)
  let ?db1 = "update_tasks (\<lambda>u. tk_task_id u = tk_task_id t) (claimed_task M mid p (tk_range_end t)) db"
  have e: "evolves (tasks db) (tasks ?db1)"
    unfolding tasks_update
    by (rule evolves_update_member [OF t(1)], rule moved_edge)
      (use status_edge.claim [OF t(2)] in \<open>simp_all add: claimed_task_def\<close>)
  obtain s db2 where "freeze_transactions_for_task (me_node M) (tk_task_id t)
      (tip_height (latest_tip (me_chain M) ?db1) + 1) (max_transactions M) (Some (me_now M)) ?db1 = Inr (s, db2)" "db' = db2"
    using assms [unfolded claim_global_task_for_miner_def Cons list.case Let_def]
    by (auto simp del: tasks_update split: if_splits)
  with freeze_evolves [OF this(1)] e show ?thesis by (blast intro: evolves_trans)
qed (use assms in \<open>simp add: claim_global_task_for_miner_def\<close>)

lemma freeze_new_evolves: "freeze_for_new_task M tid a db = Inr db' \<Longrightarrow> evolves (tasks db) (tasks db')"
  unfolding freeze_for_new_task_def Let_def
  by (auto split: if_splits dest: freeze_evolves freeze_round_evolves)

lemma store_new_evolves:
  assumes "store_new_task M tid mid a mode p db = Inr (r, db')"
  shows "evolves (tasks db) (tasks db')"
proof (cases "find_task tid db")
  case None
  then obtain db1 where "insert_task (new_task M tid mid a mode p) db = Inr db1" "freeze_for_new_task M tid a db1 = Inr db'"
    using assms by (auto simp: store_new_task_def split: if_splits)
  then show ?thesis by (blast intro: evolves_trans evolves_insert freeze_new_evolves)
next
  case (Some t)
  with assms show ?thesis by (auto simp: store_new_task_def dest: reactivate_evolves)
qed

lemma next_competitive_evolves:
  assumes "next_competitive_task M mid p db = Inr (r, db')"
  shows "evolves (tasks db) (tasks db')"
proof -
  obtain a where a: "(if round_has_pending_validation_job (as_assignment_seed a) db
     then Inl (MiningError 429 ''competitive round is waiting for validation; retry after next block'')
     else case find_task (competitive_task_id M mid a p) db of
         None \<Rightarrow> store_new_task M (competitive_task_id M mid a p) mid a COMPETITIVE_ROUND_ASSIGNMENT_MODE p db
       | Some existing \<Rightarrow> bindE (reactivate_expired_competitive_task M existing (Some a) p db) (\<lambda>(r, db1).
           case r of
             Some t \<Rightarrow> Inr (Some t, db1)
           | None \<Rightarrow> if tk_status existing \<in> set ACTIVE_STATUSES then Inr (Some existing, db1)
               else bindE (competitive_retry_task_id M mid a p db1) (\<lambda>tid.
                 store_new_task M tid mid a COMPETITIVE_ROUND_ASSIGNMENT_MODE p db1))) = Inr (r, db')"
    using assms unfolding next_competitive_task_def Let_def by (subst (asm) bindE_eq_Inr) blast
  show ?thesis
  proof (cases "find_task (competitive_task_id M mid a p) db")
    case None
    with a show ?thesis by (auto split: if_splits dest: store_new_evolves)
  next
    case (Some t)
    then obtain q db1 where q: "reactivate_expired_competitive_task M t (Some a) p db = Inr (q, db1)"
      and k: "(case q of
             Some t \<Rightarrow> Inr (Some t, db1)
           | None \<Rightarrow> if tk_status t \<in> set ACTIVE_STATUSES then Inr (Some t, db1)
               else bindE (competitive_retry_task_id M mid a p db1) (\<lambda>tid.
                 store_new_task M tid mid a COMPETITIVE_ROUND_ASSIGNMENT_MODE p db1)) = Inr (r, db')"
      using a by (auto split: if_splits)
    from k have "evolves (tasks db1) (tasks db')"
      by (auto split: option.splits if_splits dest: store_new_evolves)
    with reactivate_evolves [OF q] show ?thesis by (rule evolves_trans)
  qed
qed

lemma next_assigned_evolves:
  assumes "next_assigned_task M fresh mid p db = Inr (r, db')"
  shows "evolves (tasks db) (tasks db')"
proof -
  obtain q db1 where c: "claim_global_task_for_miner M mid p db = Inr (q, db1)"
    and k: "(case q of Some t \<Rightarrow> Inr (Some t, db1)
     | None \<Rightarrow> bindE (assign_pseudo_random_range M mid (''task_'' @ fresh) p db1) (\<lambda>a.
         store_new_task M (''task_'' @ fresh) mid a (pp_range_assignment_mode p) p db1)) = Inr (r, db')"
    using assms unfolding next_assigned_task_def Let_def bindE_eq_Inr by (elim exE conjE) auto
  from k have "evolves (tasks db1) (tasks db')" by (cases q) (auto dest: store_new_evolves)
  with claim_evolves [OF c] show ?thesis by (rule evolves_trans)
qed

lemma next_task_evolves:
  assumes "next_task_for_miner M fresh mid p db = Inr (r, db')"
  shows "evolves (tasks db) (tasks db')"
proof -
  obtain q db1 where c: "current_task M mid p db = Inr (q, db1)"
    and k: "db' = db1 \<or> next_competitive_task M mid p db1 = Inr (r, db') \<or> next_assigned_task M fresh mid p db1 = Inr (r, db')"
    using assms unfolding next_task_for_miner_def by (auto split: option.splits if_splits)
  from k have "evolves (tasks db1) (tasks db')"
    by (auto dest: next_competitive_evolves next_assigned_evolves)
  with current_task_evolves [OF c] show ?thesis by (rule evolves_trans)
qed

lemma serve_evolves:
  assumes "serve_miner M fresh mid m db = Inr (r, db')"
  shows "evolves (tasks db) (tasks db')"
proof -
  obtain p q db1 where p: "active_protocol_params (maybe_update_miner_task_poll M m db) = Inr p"
    and c: "(if me_competitive M then resume_expired_committed_competitive_task_for_miner M mid p (maybe_update_miner_task_poll M m db)
        else Inr (None, maybe_update_miner_task_poll M m db)) = Inr (q, db1)"
    and k: "db' = db1 \<or> (\<exists>t. next_task_for_miner M fresh mid p db1 = Inr (t, db'))"
    using assms unfolding serve_miner_def Let_def by (auto split: option.splits if_splits)
  have "evolves (tasks db) (tasks db1)"
    using c by (auto simp: resume_expired_committed_competitive_task_for_miner_def split: if_splits
        dest: revive_first_evolves)
  moreover from k have "evolves (tasks db1) (tasks db')" by (auto dest: next_task_evolves)
  ultimately show ?thesis by (rule evolves_trans)
qed

lemma create_next_evolves:
  assumes "create_next_task M cleanup fresh mid k n a db = Inr (r, db')"
  shows "evolves (tasks db) (tasks db')"
proof -
  obtain db0 where e: "(if cleanup then expire_assigned_tasks M db else Inr db) = Inr db0"
    and k: "bindE (identify_miner M mid k n a db0) (\<lambda>(miner, db1). case miner of
       None \<Rightarrow> Inr (None, db1) | Some m \<Rightarrow> serve_miner M fresh mid m db1) = Inr (r, db')"
    using assms unfolding create_next_task_def by (subst (asm) bindE_eq_Inr) blast
  from k obtain m db1 where i: "identify_miner M mid k n a db0 = Inr (m, db1)"
    and s: "(case m of None \<Rightarrow> Inr (None, db1) | Some m \<Rightarrow> serve_miner M fresh mid m db1) = Inr (r, db')"
    by auto
  have "evolves (tasks db) (tasks db0)" using e by (auto split: if_splits dest: expire_assigned_evolves)
  moreover have "tasks db1 = tasks db0" by (rule identify_tasks [OF i])
  moreover from s have "evolves (tasks db1) (tasks db')" by (cases m) (auto dest: serve_evolves)
  ultimately show ?thesis by (auto intro: evolves_trans)
qed

section \<open>Commit and reveal\<close>

lemma submission_tasks [simp]: "tasks (record_submission M tid mid h seg sig ok reason db) = tasks db"
  by (simp add: record_submission_def)

lemma trust_tasks [simp]: "tasks (refresh_trust_score mid db) = tasks db"
  by (simp add: refresh_trust_score_def)

lemma cool_down_tasks [simp]: "tasks (cool_down M mid s db) = tasks db"
  by (simp add: cool_down_def)

lemma penalty_tasks [simp]: "tasks (apply_penalty M mid tid pts reason force db) = tasks db"
  by (simp add: apply_penalty_def Let_def split: option.split)

lemma rejection_tasks [simp]: "tasks (record_rejection M reason tid mid h db) = tasks db"
  by (simp add: record_rejection_def)

lemma reject_tasks [simp]: "tasks (snd (reject_in_connection M reason tid mid h v pts sig seg db)) = tasks db"
  by (simp add: reject_in_connection_def Let_def)

lemma rejected_reveal_tasks [simp]: "tasks (snd (rejected_reveal M r reason h v pts db)) = tasks db"
  by (simp add: rejected_reveal_def)

lemma stale_commit_tasks [simp]: "tasks (snd (stale_commit M r reason db)) = tasks db"
  by (simp add: stale_commit_def)

lemma expired_reveal_tasks [simp]: "tasks (snd (expired_reveal_response M tid mid h sig db)) = tasks db"
  by (simp add: expired_reveal_response_def)

lemma response_tasks:
  "rejected_reveal M r reason h v pts db = (a, db') \<Longrightarrow> tasks db' = tasks db"
  "expired_reveal_response M tid mid h sig db = (a, db') \<Longrightarrow> tasks db' = tasks db"
  by (metis rejected_reveal_tasks snd_conv) (metis expired_reveal_tasks snd_conv)

lemma stale_response_evolves:
  "evolves (tasks db) (tasks (snd (stale_competitive_response M tid mid h sig seg reason db)))"
  using closing_evolves [of db M tid reason "me_now M"] by (simp add: stale_competitive_response_def Let_def)

text \<open>\<open>at_task db tid t\<close>: the row the operation works with is the one of the table.\<close>

lemma found_of: "find_task_of tid mid db = Some t \<Longrightarrow> find_task tid db = Some t"
  by (auto simp: find_task_of_def split: option.splits if_splits)

lemma revive_evolves:
  assumes "revive_task M t db = Inr (u, db')" and "find_task tid db = Some t"
  shows "evolves (tasks db) (tasks db') \<and> (find_task tid db' = Some u \<or> tk_status u = ''expired'')"
proof -
  have tid: "tk_task_id t = tid" using assms(2) unfolding find_task_def by (rule tbl_find_key)
  show ?thesis
  proof (cases "tk_status t = ''expired'' \<and> me_competitive M")
    case True
    then obtain p q where r: "reactivate_expired_competitive_task M t None p db = Inr (q, db')"
      and u: "(case q of Some u \<Rightarrow> u | None \<Rightarrow> t) = u"
      using assms(1) by (auto simp: revive_task_def)
    show ?thesis
    proof (cases q)
      case None
      with True u reactivate_evolves [OF r] show ?thesis by simp
    next
      case (Some v)
      with u reactivate_evolves [OF r] reactivate_found [OF r] tid show ?thesis by simp
    qed
  next
    case False
    with assms have "u = t" "db' = db" by (auto simp: revive_task_def)
    with assms(2) show ?thesis by simp
  qed
qed

lemma task_update_evolves:
  assumes "find_task tid db = Some t" and "moved t (f t)"
  shows "evolves (tasks db) (tbl_update (\<lambda>u. tk_task_id u = tid) f (tasks db))"
  using evolves_update_found assms by (simp add: find_task_def)

lemma set_status_evolves:
  "find_task tid db = Some t \<Longrightarrow> status_edge (tk_status t) st \<Longrightarrow> evolves (tasks db) (tasks (set_task_status tid st db))"
  unfolding set_task_status_def tasks_update
  by (rule task_update_evolves, assumption, rule moved_edge) simp_all

lemma store_commitment_evolves:
  assumes "store_commitment r c db = Inr (a, db')" and "find_task (cr_task_id r) db = Some t" "tk_status t = ''assigned''"
  shows "evolves (tasks db) (tasks db')"
proof -
  obtain cs where db': "db' = set_task_status (cr_task_id r) ''committed'' (case cr_compute_ms r of None \<Rightarrow> db\<lparr>commitments := cs\<rparr>
      | Some ms \<Rightarrow> update_tasks (\<lambda>t. tk_task_id t = cr_task_id r) (\<lambda>t. t\<lparr>tk_compute_ms := Some ms\<rparr>) (db\<lparr>commitments := cs\<rparr>))"
    using assms(1) unfolding store_commitment_def Let_def by auto
  have f: "find_task (cr_task_id r) (db\<lparr>commitments := cs\<rparr>) = Some t" using assms(2) by (simp add: find_task_def)
  show ?thesis
  proof (cases "cr_compute_ms r")
    case None
    from set_status_evolves [OF f, of "''committed''"] assms(3) show ?thesis by (simp add: db' None active_edges)
  next
    case (Some ms)
    let ?db = "update_tasks (\<lambda>t. tk_task_id t = cr_task_id r) (\<lambda>t. t\<lparr>tk_compute_ms := Some ms\<rparr>) (db\<lparr>commitments := cs\<rparr>)"
    have "evolves (tasks db) (tasks ?db)" by simp (rule evolves_update, simp add: moved_def)
    moreover have "find_task (cr_task_id r) ?db = Some (t\<lparr>tk_compute_ms := Some ms\<rparr>)"
      using assms(2) tbl_find_key by (fastforce simp: find_task_def tbl_find_update)
    from set_status_evolves [OF this, of "''committed''"] have "evolves (tasks ?db) (tasks db')"
      using assms(3) by (simp add: db' Some active_edges)
    ultimately show ?thesis by (rule evolves_trans)
  qed
qed

lemma commit_assigned_evolves:
  assumes "commit_assigned M r t m p db = Inr (a, db')" and "find_task (cr_task_id r) db = Some t" "tk_status t = ''assigned''"
  shows "evolves (tasks db) (tasks db')"
proof (cases "get_task_tx_snapshot (me_sha256 M) (cr_task_id r) db")
  case (Some v)
  from assms(1) consider "db' = db" | "db' = set_task_status (cr_task_id r) ''expired'' db"
    | c where "store_commitment r c db = Inr (a, db')"
    unfolding commit_assigned_def Some option.case Let_def by (auto split: if_splits)
  then show ?thesis
  proof cases
    case 2
    with set_status_evolves [OF assms(2), of "''expired''"] assms(3) show ?thesis by (simp add: active_edges)
  qed (use store_commitment_evolves assms(2,3) in auto)
qed (use assms(1) in \<open>simp add: commit_assigned_def\<close>)

lemma kept_open:
  assumes "expire_stale_competitive_task M t p db = Inr (False, db')"
    and "find_task tid db = Some t" "tk_status t \<in> set ACTIVE_STATUSES"
  shows "db' = db"
proof -
  have "t \<in> set (tasks db)" using assms(2) unfolding find_task_def by (rule tbl_find_in)
  then show ?thesis
    using assms(1,3) by (auto simp: expire_stale_competitive_task_def mark_competitive_task_stale_def Let_def split: if_splits)
qed

lemma round_check_kept:
  assumes "(if me_competitive M then expire_stale_competitive_task M t p db else Inr (False, db)) = Inr (gone, db1)"
    and "find_task tid db = Some t" "tk_status t \<in> set ACTIVE_STATUSES"
  shows "evolves (tasks db) (tasks db1)" and "\<not> gone \<Longrightarrow> db1 = db"
  using assms kept_open expire_stale_evolves by (auto split: if_splits)

lemma commit_open_evolves:
  assumes "commit_open M r t m db = Inr (a, db')"
    and "find_task (cr_task_id r) db = Some t \<or> tk_status t = ''expired''"
  shows "evolves (tasks db) (tasks db')"
proof (cases "tk_status t = ''assigned''")
  case True
  then obtain p gone db1 where c: "(if me_competitive M then expire_stale_competitive_task M t p db else Inr (False, db)) = Inr (gone, db1)"
    and k: "(if gone then Inr (stale_commit M r ''competitive round closed'' db1) else commit_assigned M r t m p db1) = Inr (a, db')"
    using assms(1) by (auto simp: commit_open_def)
  have f: "find_task (cr_task_id r) db = Some t" using assms(2) True by simp
  note kept = round_check_kept [OF c f]
  show ?thesis
  proof (cases gone)
    case True
    with k have "db' = snd (stale_commit M r ''competitive round closed'' db1)" by (auto simp: stale_commit_def)
    with kept(1) \<open>tk_status t = ''assigned''\<close> show ?thesis by (simp add: ACTIVE_STATUSES_def)
  next
    case False
    with kept(2) k True f show ?thesis by (auto simp: ACTIVE_STATUSES_def dest: commit_assigned_evolves)
  qed
next
  case False
  then have "db' = db \<or> db' = snd (stale_commit M r (str_or (tk_stale_reason t) ''competitive round closed'') db)"
    using assms(1) by (auto simp: commit_open_def stale_commit_def split: if_splits)
  then show ?thesis by (elim disjE) simp_all
qed

lemma commit_evolves:
  assumes "commit_task M r db = Inr (a, db')"
  shows "evolves (tasks db) (tasks db')"
proof -
  obtain db1 where e: "expire_assigned_tasks M db = Inr db1" using assms by (auto simp: commit_task_def)
  note r = assms [unfolded commit_task_def e bindE_simps]
  have e1: "evolves (tasks db) (tasks db1)" by (rule expire_assigned_evolves [OF e])
  show ?thesis
  proof (cases "find_task_of (cr_task_id r) (cr_miner_id r) db1")
    case None
    with r e1 show ?thesis by simp
  next
    case (Some t)
    note r2 = r [unfolded this option.case]
    show ?thesis
    proof (cases "find_miner (cr_miner_id r) db1")
      case None
      with r2 e1 show ?thesis by simp
    next
      case (Some m)
      then obtain u db2 where v: "revive_task M t db1 = Inr (u, db2)" and o: "commit_open M r u m db2 = Inr (a, db')"
        using r2 by auto
      from revive_evolves [OF v found_of [OF \<open>find_task_of _ _ _ = Some t\<close>]] commit_open_evolves [OF o] e1
      show ?thesis by (blast intro: evolves_trans)
    qed
  qed
qed

lemma insert_job_tasks: "insert_job j db = Inr db' \<Longrightarrow> tasks db' = tasks db"
  by (auto simp: insert_job_def split: if_splits)

lemma open_job_evolves:
  assumes "open_validation_job M fresh r t c p v b db = Inr (a, db')"
    and "find_task (rr_task_id r) db = Some u" "tk_status u = ''committed''"
  shows "evolves (tasks db) (tasks db')"
proof (cases "find_job_of_task (rr_task_id r) db")
  case None
  then obtain j db1 e where "insert_job j db = Inr db1"
    "db' = update_tasks (\<lambda>t. tk_task_id t = rr_task_id r) (\<lambda>u. u\<lparr>tk_status := ''revealed'', tk_expires_at := e\<rparr>) db1"
    using assms(1) by (auto simp: open_validation_job_def Let_def)
  moreover have "evolves (tasks db) (tbl_update (\<lambda>t. tk_task_id t = rr_task_id r)
      (\<lambda>u. u\<lparr>tk_status := ''revealed'', tk_expires_at := e\<rparr>) (tasks db))"
    by (rule task_update_evolves [OF assms(2)], rule moved_edge) (simp_all add: assms(3) active_edges)
  ultimately show ?thesis by (simp add: insert_job_tasks)
next
  case (Some j)
  with assms(1) show ?thesis by (simp add: open_validation_job_def Let_def)
qed

lemma forged_evolves:
  assumes "find_task (rr_task_id r) db = Some t" "tk_status t = ''committed''"
  shows "evolves (tasks db) (tasks (snd (forged_reveal M r c db)))"
  unfolding forged_reveal_def rejected_reveal_tasks tasks_update
  by (rule task_update_evolves [OF assms(1)], rule moved_edge) (simp_all add: assms(2) active_edges)

text \<open>A reveal is rejected, forged, or signed and complete.\<close>

lemma reveal_samples_cases:
  assumes "reveal_samples M fresh r t m c p v db = Inr x"
  obtains reason w pts where "rejected_reveal M r reason (cm_result_hash c) w pts db = x"
    | "forged_reveal M r c db = x"
    | "signature_accepted M m (reveal_payload r c) (reveal_binding c v) (rr_signature r) = Inr True"
      "rr_binding r = reveal_binding c v" "set (cm_samples c) = fst ` set (rr_samples r)"
      "open_validation_job M fresh r t c p v (reveal_binding c v) db = Inr x"
proof (cases "rr_binding r = reveal_binding c v")
  case False
  with assms that(1) show ?thesis by (auto simp: reveal_samples_def Let_def)
next
  case True
  then obtain ok where ok: "signature_accepted M m (reveal_payload r c) (reveal_binding c v) (rr_signature r) = Inr ok"
    using assms by (auto simp: reveal_samples_def Let_def)
  show ?thesis
  proof (cases "ok \<and> set (cm_samples c) = fst ` set (rr_samples r)")
    case True
    with ok assms that(3) \<open>rr_binding r = _\<close> show ?thesis by (simp add: reveal_samples_def Let_def)
  next
    case False
    with ok assms that(1,2) True show ?thesis by (cases ok) (auto simp: reveal_samples_def Let_def)
  qed
qed

lemma reveal_samples_evolves:
  assumes "reveal_samples M fresh r t m c p v db = Inr (a, db')"
    and "find_task (rr_task_id r) db = Some t" "tk_status t = ''committed''"
  shows "evolves (tasks db) (tasks db')"
proof (rule reveal_samples_cases [OF assms(1)])
  fix reason w pts
  assume "rejected_reveal M r reason (cm_result_hash c) w pts db = (a, db')"
  from response_tasks(1) [OF this] show ?thesis by simp
next
  assume "forged_reveal M r c db = (a, db')"
  from arg_cong [OF this, of snd] forged_evolves [OF assms(2,3)] show ?thesis by (metis snd_conv)
qed (rule open_job_evolves [OF _ assms(2,3)])

lemma reveal_committed_evolves:
  assumes "reveal_committed M fresh r t m c db = Inr (a, db')"
    and "find_task (rr_task_id r) db = Some t" "tk_status t = ''committed''"
  shows "evolves (tasks db) (tasks db')"
proof -
  obtain p gone db1 where g: "(if me_competitive M then expire_stale_competitive_task M t p db else Inr (False, db)) = Inr (gone, db1)"
    and k: "(if gone
     then Inr (stale_competitive_response M (rr_task_id r) (rr_miner_id r) (cm_result_hash c) (Some (rr_signature r)) []
       ''competitive round closed'' db1)
     else case (if me_competitive M then round_pending_candidate t db1 else None) of
       Some j \<Rightarrow> Inr (waiting_response j, db1)
     | None \<Rightarrow> (case get_task_tx_snapshot (me_sha256 M) (rr_task_id r) db1 of
         None \<Rightarrow> Inr (rejected_reveal M r ''tx_snapshot_mismatch'' (cm_result_hash c) [] PENALTY_INVALID_RESULT db1)
       | Some v \<Rightarrow> reveal_samples M fresh r t m c p v db1)) = Inr (a, db')"
    using assms(1) unfolding reveal_committed_def by (simp only: bindE_eq_Inr) (elim exE conjE, auto)
  note kept = round_check_kept [OF g assms(2)]
  have act: "tk_status t \<in> set ACTIVE_STATUSES" by (simp add: assms(3) ACTIVE_STATUSES_def)
  show ?thesis
  proof (cases gone)
    case True
    then have "db' = snd (stale_competitive_response M (rr_task_id r) (rr_miner_id r) (cm_result_hash c)
        (Some (rr_signature r)) [] ''competitive round closed'' db1)" using k by (metis sum.inject(2) snd_conv)
    with kept(1) [OF act] show ?thesis by (auto intro: evolves_trans stale_response_evolves)
  next
    case False
    with kept(2) [OF act] have db1: "db1 = db" by simp
    show ?thesis
    proof (cases "if me_competitive M then round_pending_candidate t db1 else None")
      case None
      note k1 = k [unfolded if_not_P [OF False] None option.case]
      show ?thesis
      proof (cases "get_task_tx_snapshot (me_sha256 M) (rr_task_id r) db1")
        case None
        with k1 have "rejected_reveal M r ''tx_snapshot_mismatch'' (cm_result_hash c) [] PENALTY_INVALID_RESULT db1 = (a, db')"
          by simp
        from response_tasks(1) [OF this] show ?thesis by (simp add: db1)
      next
        case (Some v)
        with k1 reveal_samples_evolves [OF _ assms(2,3)] show ?thesis by (simp add: db1)
      qed
    next
      case (Some j)
      with k False db1 show ?thesis by auto
    qed
  qed
qed

lemma reveal_open_evolves:
  assumes "reveal_open M fresh r t m c db = Inr (a, db')"
    and "find_task (rr_task_id r) db = Some t \<or> tk_status t = ''expired''"
  shows "evolves (tasks db) (tasks db')"
proof (cases "tk_status t = ''committed''")
  case True
  with assms show ?thesis by (auto simp: reveal_open_def dest: reveal_committed_evolves)
next
  case False
  show ?thesis
  proof (cases "if tk_status t \<in> {''revealed'', ''accepted'', ''rejected''} then find_job_of_task (rr_task_id r) db else None")
    case None
    with assms(1) False show ?thesis
      by (auto simp: reveal_open_def Let_def split: if_splits dest: response_tasks)
  next
    case (Some j)
    with assms(1) False show ?thesis
      by (auto simp: reveal_open_def Let_def split: if_splits dest: response_tasks)
  qed
qed

lemma reveal_evolves:
  assumes "reveal_task M fresh r db = Inr (a, db')"
  shows "evolves (tasks db) (tasks db')"
proof -
  obtain db1 where e: "expire_assigned_tasks M db = Inr db1" using assms by (auto simp: reveal_task_def)
  note r = assms [unfolded reveal_task_def e bindE_simps]
  have e1: "evolves (tasks db) (tasks db1)" by (rule expire_assigned_evolves [OF e])
  show ?thesis
  proof (cases "find_task_of (rr_task_id r) (rr_miner_id r) db1 = None \<or> find_commitment (rr_task_id r) db1 = None
      \<or> find_miner (rr_miner_id r) db1 = None")
    case True
    with r have "\<exists>reason h pts. rejected_reveal M r reason h [] pts db1 = (a, db')"
      by (auto split: option.splits)
    with e1 show ?thesis by (auto dest: response_tasks)
  next
    case False
    then obtain t c m where f: "find_task_of (rr_task_id r) (rr_miner_id r) db1 = Some t"
      "find_commitment (rr_task_id r) db1 = Some c" "find_miner (rr_miner_id r) db1 = Some m" by auto
    note r2 = r [unfolded f prod.case option.case]
    show ?thesis
    proof (cases "tk_status t = ''stale''")
      case True
      with r2 have "db' = snd (stale_competitive_response M (rr_task_id r) (rr_miner_id r) (cm_result_hash c)
          (Some (rr_signature r)) [] (str_or (tk_stale_reason t) ''competitive round closed'') db1)"
        by (metis sum.inject(2) snd_conv)
      with e1 show ?thesis by (auto intro: evolves_trans stale_response_evolves)
    next
      case False
      then obtain u db2 where v: "revive_task M t db1 = Inr (u, db2)" and o: "reveal_open M fresh r u m c db2 = Inr (a, db')"
        using r2 by auto
      from revive_evolves [OF v found_of [OF f(1)]] reveal_open_evolves [OF o] e1 show ?thesis
        by (blast intro: evolves_trans)
    qed
  qed
qed

end
