(* ===== verification/TaskFrame.thy ===== *)
theory TaskFrame
  imports TaskStatus
begin

text \<open>
  What the operations on tasks leave alone: \<open>quiet\<close> relates databases with the same miners and blocks,
  the same validation jobs up to their status, and the same tables of \<open>db_mining\<close>.
\<close>

definition job_core :: "validation_job \<Rightarrow> string \<times> string \<times> string \<times> string \<times> string \<times> json list" where
  "job_core j = (vj_job_id j, vj_task_id j, vj_miner_id j, vj_merkle_root j, vj_challenge_seed j, vj_samples j)"

definition quiet :: "'a db_consensus_scheme \<Rightarrow> 'a db_consensus_scheme \<Rightarrow> bool" where
  "quiet db db' \<longleftrightarrow> miners db' = miners db \<and> blocks db' = blocks db \<and>
     map job_core (validation_jobs db') = map job_core (validation_jobs db) \<and> db_consensus.more db' = db_consensus.more db"

lemma quiet_refl [simp]: "quiet db db"
  by (simp add: quiet_def)

lemma quiet_trans: "quiet a b \<Longrightarrow> quiet b c \<Longrightarrow> quiet a c"
  by (simp add: quiet_def)

lemma more_commitments:
  "db_consensus.more db' = db_consensus.more db \<Longrightarrow> commitments (db' :: 'a db_mining_scheme) = commitments db"
  by (cases db; cases db'; simp add: db_consensus.defs)

lemma quiet_commitments: "quiet db (db' :: 'a db_mining_scheme) \<Longrightarrow> commitments db' = commitments db"
  using more_commitments unfolding quiet_def by blast

lemma job_ids_of_core:
  "map vj_job_id js = map fst (map job_core js)" "map vj_task_id js = map (fst \<circ> snd) (map job_core js)"
  by (simp_all add: job_core_def)

lemma quiet_ids:
  assumes "quiet db db'"
  shows "map vj_job_id (validation_jobs db') = map vj_job_id (validation_jobs db)"
    and "map vj_task_id (validation_jobs db') = map vj_task_id (validation_jobs db)"
  using assms unfolding quiet_def job_ids_of_core by metis+

lemma quiet_job_of_task:
  assumes "quiet db db'"
  shows "find_job_of_task tid db' = None \<longleftrightarrow> find_job_of_task tid db = None"
  using quiet_ids(2) [OF assms] unfolding find_job_of_task_def tbl_find_None by (metis image_set)

lemma quiet_tasks [simp]: "quiet db (db'\<lparr>tasks := ts\<rparr>) \<longleftrightarrow> quiet db db'"
  by (simp add: quiet_def)

lemma quiet_snapshots [simp]: "quiet db (db'\<lparr>task_tx_snapshots := ts\<rparr>) \<longleftrightarrow> quiet db db'"
  by (simp add: quiet_def)

lemma quiet_update_tasks [simp]: "quiet db (update_tasks p f db') \<longleftrightarrow> quiet db db'"
  by (simp add: update_tasks_def)

lemma quiet_tail: "same_tail db db' \<Longrightarrow> quiet db (db' :: 'a db_consensus_scheme)"
  by (cases db; cases db')
    (simp add: quiet_def same_tail_def db_chain.defs db_mempool.defs db_certificates.defs db_consensus.defs)

lemma quiet_release [simp]: "quiet db (release_for_task M tid reason ts (db' :: 'a db_consensus_scheme)) \<longleftrightarrow> quiet db db'"
  using quiet_tail [OF release_tail [of db' M tid reason ts]] by (simp add: quiet_def)

lemma quiet_jobs:
  "(\<And>j. job_core (f j) = job_core j) \<Longrightarrow> quiet db (update_jobs p f db') \<longleftrightarrow> quiet db db'"
proof -
  assume "\<And>j. job_core (f j) = job_core j"
  then have "map job_core (tbl_update p f js) = map job_core js" for js by (simp add: tbl_update_def)
  then show ?thesis by (simp add: quiet_def update_jobs_def)
qed

lemma quiet_fold:
  assumes "\<And>x d. quiet d (f x d)"
  shows "quiet db (fold f xs db)"
  by (induction xs arbitrary: db) (auto intro: quiet_trans assms)

lemma quiet_foldE:
  assumes "\<And>x d d'. f x d = Inr d' \<Longrightarrow> quiet d d'" and "foldE f xs db = Inr db'"
  shows "quiet db db'"
  by (rule foldE_invariant [OF _ _ assms(2)]) (auto intro: quiet_trans assms(1))

section \<open>Rounds, expiry and revival\<close>

lemma closing_quiet: "quiet db (snd (mark_competitive_task_stale M tid reason ts db))"
  by (simp add: mark_competitive_task_stale_def Let_def quiet_jobs closed_job_def job_core_def)

lemma expire_stale_quiet: "expire_stale_competitive_task M t p db = Inr (gone, db') \<Longrightarrow> quiet db db'"
  using closing_quiet [of db M "tk_task_id t" "''competitive round closed''" "me_now M"]
  by (auto simp: expire_stale_competitive_task_def split: if_splits)

lemma accept_quiet: "accept_task p f db = Inr db' \<Longrightarrow> quiet db db'"
  by (auto simp: accept_task_def Let_def split: if_splits)

lemma close_terminal_quiet: "close_terminal_task M j db = Inr db' \<Longrightarrow> quiet db db'"
  unfolding close_terminal_task_def Let_def by (auto split: if_splits dest: accept_quiet)

lemma close_obsolete_quiet: "close_obsolete_task M t db = Inr db' \<Longrightarrow> quiet db db'"
  unfolding close_obsolete_task_def bindE_eq_Inr
  by (elim exE conjE) (auto split: option.splits intro: closing_quiet)

lemma expire_tasks_quiet: "quiet db (expire_tasks M waiting revealed db)"
proof -
  have "quiet d (fold (\<lambda>tid. release_for_task M tid ''task expired'' (me_now M)) ids d)" for ids and d :: "'a db_consensus_scheme"
    by (rule quiet_fold) simp
  then show ?thesis
    unfolding expire_tasks_def Let_def
    by (rule quiet_trans [rotated]) (simp add: quiet_jobs job_core_def)
qed

lemma expire_assigned_quiet:
  assumes "expire_assigned_tasks M db = Inr db'"
  shows "quiet db db'"
proof -
  obtain db1 db2 ids where s: "close_terminal_validation_tasks M (release_timed_out_validation_assignments M db) = Inr db1"
    "close_obsolete_competitive_validation_jobs M db1 = Inr db2"
    "db' = expire_tasks M (expired_ids M {''assigned'', ''committed''} db2) ids db2"
    using assms unfolding expire_assigned_tasks_def bindE_eq_Inr by (elim exE conjE) auto
  have "quiet db (release_timed_out_validation_assignments M db)"
    by (simp add: release_timed_out_validation_assignments_def Let_def quiet_jobs job_core_def)
  moreover have "quiet (release_timed_out_validation_assignments M db) db1"
    by (rule quiet_foldE [OF close_terminal_quiet s(1) [unfolded close_terminal_validation_tasks_def]])
  moreover have "quiet db1 db2"
    by (rule quiet_foldE [OF close_obsolete_quiet s(2) [unfolded close_obsolete_competitive_validation_jobs_def]])
  ultimately show ?thesis unfolding s(3) by (meson expire_tasks_quiet quiet_trans)
qed

lemma stamp_quiet [simp]: "quiet db (stamp_task tid sid c db') \<longleftrightarrow> quiet db db'"
  by (simp add: stamp_task_def)

lemma freeze_quiet:
  assumes "freeze_transactions_for_task E tid h n ts db = Inr (s, db' :: 'a db_consensus_scheme)"
  shows "quiet db db'"
proof -
  obtain txs db1 c snap db2 where r: "select_transactions_for_task E n (h - 1) db = Inr (txs, db1)"
    "store_task_tx_snapshot (sha256_text (ne_crypto E)) tid h c (op_time (ne_clock E) ts) db1 = Inr (snap, db2)"
    "db' = fold (mark_selected tid h (ts_snapshot_id snap) (op_time (ne_clock E) ts)) (cm_tx_hashes c) db2"
    using assms unfolding freeze_transactions_for_task_def Let_def bindE_eq_Inr by (elim exE conjE) auto
  have "quiet db1 db2" using r(2) unfolding store_task_tx_snapshot_def Let_def bindE_eq_Inr by (elim exE conjE) auto
  with quiet_tail [OF select_tail [OF r(1)]] quiet_tail [OF mark_selected_tail [of db2]] show ?thesis
    unfolding r(3) by (meson quiet_trans)
qed

lemma freeze_round_quiet:
  assumes "freeze_transactions_for_competitive_round_task E tid h seed n ts db = Inr (s, db' :: 'a db_consensus_scheme)"
  shows "quiet db db'"
  using assms freeze_quiet
  by (auto simp: freeze_transactions_for_competitive_round_task_def apply_task_tx_snapshot_def Let_def
      split: option.splits if_splits)

lemma refreeze_quiet:
  assumes "refreeze_revived_task M t a db = Inr db'"
  shows "quiet db db'"
proof -
  obtain h seed s where "freeze_transactions_for_competitive_round_task (me_node M) (tk_task_id t) h seed
      (st_max_transactions_per_block (ne_settings (me_node M))) (Some (me_now M))
      (release_for_task M (tk_task_id t) ''task reactivated'' (me_now M) db) = Inr (s, db')"
    using assms unfolding refreeze_revived_task_def Let_def
    by (cases "case a of None \<Rightarrow> tk_competitive_round_height t | Some b \<Rightarrow> as_round_height b") auto
  from quiet_trans [OF _ freeze_round_quiet [OF this]] show ?thesis by simp
qed

lemma reactivate_quiet:
  assumes "reactivate_expired_competitive_task M t a p db = Inr (r, db')"
  shows "quiet db db'"
proof (cases "revivable M t a db")
  case True
  let ?c = "find_commitment (tk_task_id t) db \<noteq> None"
  let ?db1 = "update_tasks (\<lambda>u. tk_task_id u = tk_task_id t \<and> tk_status u = ''expired'')
    (revived_task M p ?c (tk_range_end t)) db"
  have one: "quiet db ?db1" by simp
  have "(if ?c then Inr ?db1 else refreeze_revived_task M t a ?db1) = Inr db'"
    using assms True unfolding reactivate_expired_competitive_task_def Let_def bindE_eq_Inr
    by (simp only: not_True_eq_False if_False bindE_eq_Inr) (elim exE conjE, simp)
  then have "db' = ?db1 \<or> refreeze_revived_task M t a ?db1 = Inr db'"
    by (cases ?c) (simp_all only: if_True if_False sum.inject simp_thms)
  then have "quiet ?db1 db'" using refreeze_quiet by (elim disjE) (simp_all only: quiet_refl)
  with one show ?thesis by (rule quiet_trans)
next
  case False
  with assms show ?thesis by (simp add: reactivate_expired_competitive_task_def)
qed

lemma revive_quiet:
  assumes "revive_task M t db = Inr (u, db')"
  shows "quiet db db'"
proof (cases "tk_status t = ''expired'' \<and> me_competitive M")
  case True
  then obtain p q where "reactivate_expired_competitive_task M t None p db = Inr (q, db')"
    using assms by (auto simp: revive_task_def)
  then show ?thesis by (rule reactivate_quiet)
qed (use assms in \<open>auto simp: revive_task_def\<close>)

section \<open>Asking for a task\<close>

lemma revive_first_quiet:
  "revive_first M p ts db = Inr (r, db') \<Longrightarrow> quiet db db'"
proof (induction ts arbitrary: db)
  case (Cons t ts)
  then obtain r1 db1 where s: "reactivate_expired_competitive_task M t None p db = Inr (r1, db1)"
    "(case r1 of Some u \<Rightarrow> Inr (Some u, db1) | None \<Rightarrow> revive_first M p ts db1) = Inr (r, db')" by auto
  from s(2) Cons.IH [of db1] have "quiet db1 db'" by (auto split: option.splits)
  with reactivate_quiet [OF s(1)] show ?case by (rule quiet_trans)
qed simp

lemma current_task_quiet:
  assumes "current_task M mid p db = Inr (r, db')"
  shows "quiet db db'"
proof (cases "sort_key tk_created_at (active_tasks_of mid db)")
  case (Cons t ts)
  note r = assms [unfolded current_task_def Cons list.case]
  show ?thesis
  proof (cases "past_expiry M t")
    case True
    with r show ?thesis by auto
  next
    case False
    with r show ?thesis by (auto split: if_splits dest: expire_stale_quiet)
  qed
qed (use assms in \<open>simp add: current_task_def\<close>)

lemma claim_quiet:
  assumes "claim_global_task_for_miner M mid p db = Inr (r, db')"
  shows "quiet db db'"
proof (cases "sort_key tk_created_at (filter (global_task_open M mid p) (tasks db))")
  case (Cons t ts)
  let ?db1 = "update_tasks (\<lambda>u. tk_task_id u = tk_task_id t) (claimed_task M mid p (tk_range_end t)) db"
  obtain s db2 where "freeze_transactions_for_task (me_node M) (tk_task_id t)
      (tip_height (latest_tip (me_chain M) ?db1) + 1) (max_transactions M) (Some (me_now M)) ?db1 = Inr (s, db2)" "db' = db2"
    using assms [unfolded claim_global_task_for_miner_def Cons list.case Let_def]
    by (auto split: if_splits)
  with quiet_trans [OF _ freeze_quiet [OF this(1)], of db] show ?thesis by simp
qed (use assms in \<open>simp add: claim_global_task_for_miner_def\<close>)

lemma insert_quiet: "insert_task t db = Inr db' \<Longrightarrow> quiet db db'"
  by (auto simp: insert_task_def split: if_splits)

lemma freeze_new_quiet: "freeze_for_new_task M tid a db = Inr db' \<Longrightarrow> quiet db db'"
  unfolding freeze_for_new_task_def Let_def
  by (auto split: if_splits dest: freeze_quiet freeze_round_quiet)

lemma store_new_quiet:
  assumes "store_new_task M tid mid a mode p db = Inr (r, db')"
  shows "quiet db db'"
proof (cases "find_task tid db")
  case None
  then obtain db1 where "insert_task (new_task M tid mid a mode p) db = Inr db1" "freeze_for_new_task M tid a db1 = Inr db'"
    using assms by (auto simp: store_new_task_def split: if_splits)
  then show ?thesis by (blast intro: quiet_trans insert_quiet freeze_new_quiet)
next
  case (Some t)
  with assms show ?thesis by (auto simp: store_new_task_def dest: reactivate_quiet)
qed

lemma next_assigned_quiet:
  assumes "next_assigned_task M fresh mid p db = Inr (r, db')"
  shows "quiet db db'"
proof -
  obtain q db1 where c: "claim_global_task_for_miner M mid p db = Inr (q, db1)"
    and k: "(case q of Some t \<Rightarrow> Inr (Some t, db1)
     | None \<Rightarrow> bindE (assign_pseudo_random_range M mid (''task_'' @ fresh) p db1) (\<lambda>a.
         store_new_task M (''task_'' @ fresh) mid a (pp_range_assignment_mode p) p db1)) = Inr (r, db')"
    using assms unfolding next_assigned_task_def Let_def bindE_eq_Inr by (elim exE conjE) auto
  from k have "quiet db1 db'" by (cases q) (auto dest: store_new_quiet)
  with claim_quiet [OF c] show ?thesis by (rule quiet_trans)
qed

lemma next_competitive_quiet:
  assumes "next_competitive_task M mid p db = Inr (r, db')"
  shows "quiet db db'"
proof -
  obtain a where a: "(if round_has_pending_validation_job (as_assignment_seed a) db
     then Inl (MiningError 429 ''competitive round is waiting for validation; retry after next block'')
     else case find_task (competitive_task_id M mid a p) db of
         None \<Rightarrow> store_new_task M (competitive_task_id M mid a p) mid a COMPETITIVE_ROUND_ASSIGNMENT_MODE p db
       | Some existing \<Rightarrow> bindE (reactivate_expired_competitive_task M existing (Some a) p db) (\<lambda>(r, db1).
           case r of
             Some t \<Rightarrow> Inr (Some t, db1)
           | None \<Rightarrow> if tk_status existing \<in> set ACTIVE_STATUSES then Inr (Some existing, db1)
               else bindE (competitive_retry_task_id M mid a p db1) (\<lambda>tid.
                 store_new_task M tid mid a COMPETITIVE_ROUND_ASSIGNMENT_MODE p db1))) = Inr (r, db')"
    using assms unfolding next_competitive_task_def Let_def by (subst (asm) bindE_eq_Inr) blast
  show ?thesis
  proof (cases "find_task (competitive_task_id M mid a p) db")
    case None
    with a show ?thesis by (auto split: if_splits dest: store_new_quiet)
  next
    case (Some t)
    then obtain q db1 where q: "reactivate_expired_competitive_task M t (Some a) p db = Inr (q, db1)"
      and k: "(case q of
             Some t \<Rightarrow> Inr (Some t, db1)
           | None \<Rightarrow> if tk_status t \<in> set ACTIVE_STATUSES then Inr (Some t, db1)
               else bindE (competitive_retry_task_id M mid a p db1) (\<lambda>tid.
                 store_new_task M tid mid a COMPETITIVE_ROUND_ASSIGNMENT_MODE p db1)) = Inr (r, db')"
      using a by (auto split: if_splits)
    from k have "quiet db1 db'"
      by (auto split: option.splits if_splits dest: store_new_quiet)
    with reactivate_quiet [OF q] show ?thesis by (rule quiet_trans)
  qed
qed

lemma next_task_quiet:
  assumes "next_task_for_miner M fresh mid p db = Inr (r, db')"
  shows "quiet db db'"
proof -
  obtain q db1 where c: "current_task M mid p db = Inr (q, db1)"
    and k: "db' = db1 \<or> next_competitive_task M mid p db1 = Inr (r, db') \<or> next_assigned_task M fresh mid p db1 = Inr (r, db')"
    using assms unfolding next_task_for_miner_def by (auto split: option.splits if_splits)
  from k have "quiet db1 db'"
    by (auto dest: next_competitive_quiet next_assigned_quiet)
  with current_task_quiet [OF c] show ?thesis by (rule quiet_trans)
qed

text \<open>Serving a miner writes its row only to note that it was seen.\<close>

lemma serve_quiet:
  assumes "serve_miner M fresh mid m db = Inr (r, db')"
  shows "quiet (maybe_update_miner_task_poll M m db) db'"
proof -
  obtain p q db1 where p: "active_protocol_params (maybe_update_miner_task_poll M m db) = Inr p"
    and c: "(if me_competitive M then resume_expired_committed_competitive_task_for_miner M mid p (maybe_update_miner_task_poll M m db)
        else Inr (None, maybe_update_miner_task_poll M m db)) = Inr (q, db1)"
    and k: "db' = db1 \<or> (\<exists>t. next_task_for_miner M fresh mid p db1 = Inr (t, db'))"
    using assms unfolding serve_miner_def Let_def by (auto split: option.splits if_splits)
  have "quiet (maybe_update_miner_task_poll M m db) db1"
    using c by (auto simp: resume_expired_committed_competitive_task_for_miner_def split: if_splits
        dest: revive_first_quiet)
  moreover from k have "quiet db1 db'" by (auto dest: next_task_quiet)
  ultimately show ?thesis by (rule quiet_trans)
qed

lemma find_updated_miner:
  assumes "\<And>m. mi_miner_id (f m) = mi_miner_id m"
  shows "find_miner mid (update_miner k f db) = map_option (\<lambda>m. if mi_miner_id m = k then f m else m) (find_miner mid db)"
  using assms by (simp add: find_miner_def update_miner_def tbl_find_update)

lemma serve_keeps_reward:
  assumes "serve_miner M fresh mid m db = Inr (r, db')"
  shows "map_option mi_reward_address (find_miner k db') = map_option mi_reward_address (find_miner k db)"
proof -
  have "find_miner k db' = find_miner k (maybe_update_miner_task_poll M m db)"
    using serve_quiet [OF assms] by (simp add: find_miner_def quiet_def)
  moreover have "map_option mi_reward_address (find_miner k (maybe_update_miner_task_poll M m db)) =
      map_option mi_reward_address (find_miner k db)"
    by (cases "find_miner k db") (simp_all add: maybe_update_miner_task_poll_def Let_def find_updated_miner)
  ultimately show ?thesis by (simp only:)
qed

end
