(* ===== verification/TaskProps.thy ===== *)
theory TaskProps
  imports TaskFrame
begin

text \<open>
  Properties of the assignment of ranges, the status of tasks, and of commit and reveal.
\<close>

section \<open>Ranges\<close>

lemma find_Some_in: "List.find P xs = Some x \<Longrightarrow> x \<in> set xs \<and> P x"
  by (induction xs) (auto split: if_splits)

lemma effective_within_limit: "rw_effective_max_pi_position (range_assignment_window M p db) \<le> resolve_RETARGET_MAX_PI_POSITION M p"
  by (simp only: range_assignment_window_def Let_def range_window.simps min.cobounded1)

lemma window_simps:
  "rw_limit (range_assignment_window M p db) = resolve_RETARGET_MAX_PI_POSITION M p"
  "rw_max_start (range_assignment_window M p db) =
     rw_effective_max_pi_position (range_assignment_window M p db) - pp_segment_size p + 1"
  by (simp_all only: range_assignment_window_def Let_def range_window.simps)

lemma range_from_simps [simp]:
  "as_range_start (range_from p seed s) = s" "as_range_end (range_from p seed s) = s + pp_segment_size p - 1"
  by (simp_all add: range_from_def)

lemma seeded_start:
  assumes "rw_min_start w \<le> rw_max_start w"
  shows "as_range_start (seeded_range M miner tid p w db n) \<in> {rw_min_start w..rw_max_start w}"
proof -
  have "0 < rw_max_start w - rw_min_start w + 1" using assms by simp
  from pos_mod_bound [OF this] pos_mod_sign [OF this] show ?thesis
    by (auto simp: seeded_range_def Let_def algebra_simps) (smt (verit))
qed

lemma seeded_end:
  "as_range_end (seeded_range M miner tid p w db n) = as_range_start (seeded_range M miner tid p w db n) + pp_segment_size p - 1"
  by (simp add: seeded_range_def Let_def)

lemma assigned_usable:
  assumes "assign_pseudo_random_range M miner tid p db = Inr a" and w: "w = range_assignment_window M p db"
  shows "usable_range p w db a \<and> as_range_start a \<in> {rw_min_start w..rw_max_start w} \<and>
     as_range_end a = as_range_start a + pp_segment_size p - 1"
proof -
  have le: "rw_min_start w \<le> rw_max_start w"
    using assms by (auto simp: assign_pseudo_random_range_def Let_def split: if_splits)
  consider "List.find (usable_range p w db) (map (seeded_range M miner tid p w db)
      [0..pp_range_assignment_max_attempts p - 1]) = Some a"
    | "List.find (usable_range p w db) (map (fallback_range M miner tid p w db) [rw_min_start w..rw_max_start w]) = Some a"
    using assms by (auto simp: assign_pseudo_random_range_def Let_def split: if_splits option.splits)
  then show ?thesis
  proof cases
    case 1
    from find_Some_in [OF this] obtain n where "a = seeded_range M miner tid p w db n" "usable_range p w db a" by auto
    with seeded_start [OF le] show ?thesis by (simp add: seeded_end)
  next
    case 2
    from find_Some_in [OF this] show ?thesis by (auto simp: fallback_range_def)
  qed
qed

lemma fallback_found:
  assumes "rw_min_start w \<le> s" "s \<le> rw_max_start w" "usable_range p w db (fallback_range M miner tid p w db s)"
  shows "\<exists>a. List.find (usable_range p w db) (map (fallback_range M miner tid p w db) [rw_min_start w..rw_max_start w]) = Some a"
  using assms by (cases "List.find (usable_range p w db) (map (fallback_range M miner tid p w db) [rw_min_start w..rw_max_start w])")
    (auto simp: find_None_iff)

text \<open>C31: A range handed out in assigned mode has the size of a segment, starts in the open window (from its first to its last start), ends at or below the end of the window and the limit, overlaps no active task and starts where no accepted task starts.\<close>

theorem assigned_range_free:
  assumes "assign_pseudo_random_range M miner_id task_id p db = Inr a"
  shows "as_range_end a = as_range_start a + pp_segment_size p - 1 \<and>
     rw_min_start (range_assignment_window M p db) \<le> as_range_start a \<and>
     as_range_start a \<le> rw_max_start (range_assignment_window M p db) \<and>
     as_range_end a \<le> rw_effective_max_pi_position (range_assignment_window M p db) \<and>
     as_range_end a \<le> resolve_RETARGET_MAX_PI_POSITION M p \<and>
     (\<forall>t \<in> set (tasks db). tk_algorithm t = pp_algorithm p \<and> tk_status t \<in> set ACTIVE_STATUSES \<longrightarrow>
        tk_range_end t < as_range_start a \<or> as_range_end a < tk_range_start t) \<and>
     (\<forall>t \<in> set (tasks db). tk_algorithm t = pp_algorithm p \<and> tk_status t = ''accepted'' \<longrightarrow>
        tk_range_start t \<noteq> as_range_start a)"
proof -
  from assigned_usable [OF assms refl] have u: "usable_range p (range_assignment_window M p db) db a"
    and s: "as_range_start a \<in> {rw_min_start (range_assignment_window M p db)..rw_max_start (range_assignment_window M p db)}"
    and e: "as_range_end a = as_range_start a + pp_segment_size p - 1" by auto
  from u have "\<not> range_start_is_protected (as_range_start a) (pp_algorithm p) db"
    and "\<not> range_overlaps_active_task (as_range_start a) (as_range_end a) (pp_algorithm p) db"
    and l: "as_range_end a \<le> resolve_RETARGET_MAX_PI_POSITION M p"
    by (simp_all add: usable_range_def range_is_assignable_def window_simps)
  then have "\<forall>t \<in> set (tasks db). tk_algorithm t = pp_algorithm p \<and> tk_status t \<in> set ACTIVE_STATUSES \<longrightarrow>
      tk_range_end t < as_range_start a \<or> as_range_end a < tk_range_start t"
    "\<forall>t \<in> set (tasks db). tk_algorithm t = pp_algorithm p \<and> tk_status t = ''accepted'' \<longrightarrow>
      tk_range_start t \<noteq> as_range_start a"
    by (auto simp: range_overlaps_active_task_def range_start_is_protected_def PROTECTED_STATUSES_def not_le)
  with s e l show ?thesis by (simp add: window_simps)
qed

text \<open>C32: A range is found exactly when some start of the window is assignable: the seeded attempts may fail,
  the scan of the window does not.\<close>

theorem range_found_when_free:
  "(\<exists>a. assign_pseudo_random_range M miner_id task_id p db = Inr a) \<longleftrightarrow>
     (\<exists>s \<in> {rw_min_start (range_assignment_window M p db)..rw_max_start (range_assignment_window M p db)}.
        range_is_assignable s (s + pp_segment_size p - 1) (pp_algorithm p) db)" (is "?L \<longleftrightarrow> ?R")
proof
  assume ?L
  then obtain a where "assign_pseudo_random_range M miner_id task_id p db = Inr a" ..
  from assigned_usable [OF this refl] show ?R
    by (intro bexI [where x = "as_range_start a"]) (auto simp: usable_range_def)
next
  let ?w = "range_assignment_window M p db"
  assume ?R
  then obtain s where s: "rw_min_start ?w \<le> s" "s \<le> rw_max_start ?w"
    "range_is_assignable s (s + pp_segment_size p - 1) (pp_algorithm p) db" by auto
  have u: "usable_range p ?w db (fallback_range M miner_id task_id p ?w db s)"
    using s effective_within_limit [of M p db] by (simp add: usable_range_def fallback_range_def window_simps)
  from s fallback_found [OF s(1,2) u] show ?L
    by (auto simp: assign_pseudo_random_range_def Let_def split: option.split)
qed

lemma window_bounds:
  assumes "w = range_assignment_window M p db"
  shows "rw_effective_max_pi_position w = rw_limit w \<or>
     (rw_window_index w + 1) * rw_window_size w \<le> rw_effective_max_pi_position w"
    and "rw_min_start w = rw_window_index w * rw_window_size w + 1" and "pp_segment_size p \<le> rw_window_size w"
  by (simp_all only: assms range_assignment_window_def Let_def range_window.simps) linarith+

text \<open>In competitive mode the limit is not looked at: when no start is left below it the assigned mode raises,
  while the competitive assignment hands out a range that ends above the limit.\<close>

theorem competitive_ignores_limit:
  assumes "rw_max_start (range_assignment_window M p db) < rw_min_start (range_assignment_window M p db)"
    and "competitive_round_assignment M p db = Inr a"
  shows "resolve_RETARGET_MAX_PI_POSITION M p < as_range_end a \<and>
     assign_pseudo_random_range M miner_id task_id p db =
       Inl (MiningError 503 ''no assignable range available below RETARGET_MAX_PI_POSITION'')"
proof -
  let ?w = "range_assignment_window M p db"
  have start: "round_attempt M ?w seed n = rw_min_start ?w" for seed n
    using assms(1) by (simp add: round_attempt_def Let_def max_absorb1)
  obtain s where s: "s \<in> set (map (round_attempt M ?w (round_seed M p (latest_tip (me_chain M) db))) [0..round_attempts p - 1])"
    and a: "as_range_end a = s + pp_segment_size p - 1"
    using assms(2) by (auto simp: competitive_round_assignment_def Let_def split: option.splits dest!: find_Some_in)
  have "s = rw_min_start ?w" using s by (auto simp: start)
  moreover have "resolve_RETARGET_MAX_PI_POSITION M p < rw_min_start ?w + pp_segment_size p - 1"
    using window_bounds [OF refl, where M = M and p = p and db = db] assms(1) by (auto simp: window_simps algebra_simps)
  ultimately show ?thesis using assms(1) by (simp add: a assign_pseudo_random_range_def Let_def)
qed

section \<open>The status of a task\<close>

inductive mining_step :: "'a db_mining_scheme \<Rightarrow> 'a db_mining_scheme \<Rightarrow> bool" where
  "create_next_task": "create_next_task M cleanup fresh miner_id key name address db = Inr (a, db') \<Longrightarrow> mining_step db db'"
| "commit_task": "commit_task M r db = Inr (b, db') \<Longrightarrow> mining_step db db'"
| "reveal_task": "reveal_task M fresh q db = Inr (c, db') \<Longrightarrow> mining_step db db'"
| "expire": "expire_assigned_tasks M db = Inr db' \<Longrightarrow> mining_step db db'"
| "close_round": "close_competitive_round_after_block M t height timestamp db = (ids, db') \<Longrightarrow> mining_step db db'"

lemma step_evolves: "mining_step db db' \<Longrightarrow> evolves (tasks db) (tasks db')"
  by (induction rule: mining_step.induct)
    (blast intro: create_next_evolves commit_evolves reveal_evolves expire_assigned_evolves close_round_evolves)+

lemma steps_evolve: "mining_step\<^sup>*\<^sup>* db db' \<Longrightarrow> evolves (tasks db) (tasks db')"
  by (induction rule: rtranclp_induct) (auto intro: evolves_trans step_evolves)

lemma evolved_row:
  assumes "evolves ts us" "distinct (map tk_task_id ts)" "t \<in> set ts"
  shows "\<exists>u. tbl_find tk_task_id (tk_task_id t) us = Some u \<and> moved t u"
proof -
  have d: "distinct (map tk_task_id us)" and l: "list_all2 moved ts (take (length ts) us)"
    using assms by (simp_all add: evolves_def)
  from assms(3) obtain i where i: "i < length ts" "ts ! i = t" by (auto simp: in_set_conv_nth)
  have "moved t (us ! i)" "us ! i \<in> set us"
    using list_all2_nthD [OF l i(1)] list_all2_lengthD [OF l] i by simp_all
  with tbl_find_distinct [OF d, of "us ! i"] show ?thesis by (auto simp: moved_def)
qed

text \<open>C4: Whatever miners ask for, in any order and at any times: no task disappears or changes its range, its status
  only follows the edges of the status machine, and an accepted, rejected or stale task stays so.\<close>

theorem final_tasks_stay:
  assumes "mining_step\<^sup>*\<^sup>* db db'" and "distinct (map tk_task_id (tasks db))" and "t \<in> set (tasks db)"
  shows "\<exists>u. find_task (tk_task_id t) db' = Some u \<and> tk_range_start u = tk_range_start t \<and>
     tk_range_end u = tk_range_end t \<and> status_edge\<^sup>*\<^sup>* (tk_status t) (tk_status u) \<and>
     (tk_status t \<in> {''accepted'', ''rejected'', ''stale''} \<longrightarrow> tk_status u = tk_status t)"
proof -
  from evolved_row [OF steps_evolve [OF assms(1)] assms(2,3)] obtain u where
    "find_task (tk_task_id t) db' = Some u" "moved t u" by (auto simp: find_task_def)
  then show ?thesis using final_stays [of "tk_status t" "tk_status u"] by (auto simp: moved_def FINAL_STATUSES_def)
qed

section \<open>Commit and reveal\<close>

lemma release_keeps_jobs [simp]:
  "validation_jobs (release_for_task M tid reason ts (db :: 'a db_consensus_scheme)) = validation_jobs db"
  using release_tail [of db M tid reason ts]
  by (cases db; cases "release_for_task M tid reason ts db";
      simp add: same_tail_def db_chain.defs db_mempool.defs db_certificates.defs)

lemma penalty_keeps_jobs [simp]:
  "validation_jobs (apply_penalty M mid tid pts reason force db) = validation_jobs db"
  by (simp add: apply_penalty_def refresh_trust_score_def cool_down_def update_miner_def Let_def split: option.split)

lemma rejected_keeps_jobs [simp]: "validation_jobs (snd (rejected_reveal M r reason h v pts db)) = validation_jobs db"
  by (simp add: rejected_reveal_def reject_in_connection_def record_rejection_def record_submission_def Let_def)

lemma forged_keeps_jobs [simp]: "validation_jobs (snd (forged_reveal M r c db)) = validation_jobs db"
  by (simp add: forged_reveal_def update_tasks_def)

lemma expired_keeps_jobs [simp]:
  "validation_jobs (snd (expired_reveal_response M tid mid h sig db)) = validation_jobs db"
  by (simp add: expired_reveal_response_def record_submission_def)

lemma stale_keeps_ids:
  "map vj_job_id (validation_jobs (snd (stale_competitive_response M tid mid h sig seg reason db))) =
   map vj_job_id (validation_jobs db)"
  using quiet_ids(1) [OF closing_quiet [of db M tid reason "me_now M"]]
  by (simp add: stale_competitive_response_def record_submission_def Let_def)

lemma response_jobs:
  "rejected_reveal M r reason h v pts db = (a, db') \<Longrightarrow> validation_jobs db' = validation_jobs db"
  "forged_reveal M r c db = (a, db') \<Longrightarrow> validation_jobs db' = validation_jobs db"
  "expired_reveal_response M tid mid h sig db = (a, db') \<Longrightarrow> validation_jobs db' = validation_jobs db"
  "stale_competitive_response M tid mid h sig seg reason db = (a, db') \<Longrightarrow>
   map vj_job_id (validation_jobs db') = map vj_job_id (validation_jobs db)"
  using rejected_keeps_jobs [of M r reason h v pts db] forged_keeps_jobs [of M r c db]
    expired_keeps_jobs [of M tid mid h sig db] stale_keeps_ids [of M tid mid h sig seg reason db]
  by simp_all

text \<open>\<open>opened c m r j\<close>: the job is what the revealed samples and the commitment say, and the miner signed.\<close>

definition opened :: "mining_env \<Rightarrow> commitment \<Rightarrow> miner_row \<Rightarrow> reveal_request \<Rightarrow> validation_job \<Rightarrow> bool" where
  "opened M c m r j \<longleftrightarrow> vj_task_id j = rr_task_id r \<and> vj_miner_id j = rr_miner_id r \<and>
     vj_result_hash j = cm_result_hash c \<and> vj_merkle_root j = cm_merkle_root c \<and>
     vj_challenge_seed j = cm_challenge_seed c \<and> vj_samples j = map snd (rr_samples r) \<and>
     fst ` set (rr_samples r) = set (cm_samples c) \<and>
     vj_tx_merkle_root j = cm_commit_tx_merkle_root c \<and> vj_tx_count j = cm_commit_tx_count c \<and>
     signature_accepted M m (reveal_payload r c) (rr_binding r) (rr_signature r) = Inr True"

lemma open_job_opened:
  assumes "open_validation_job M fresh r t c p v b db = Inr (a, db')"
    and "signature_accepted M m (reveal_payload r c) b (rr_signature r) = Inr True" "b = reveal_binding c v" "rr_binding r = b"
      "set (cm_samples c) = fst ` set (rr_samples r)"
    and "j \<in> set (validation_jobs db')" "vj_job_id j \<notin> set (map vj_job_id (validation_jobs db))"
  shows "opened M c m r j"
proof (cases "find_job_of_task (rr_task_id r) db")
  case None
  then obtain txs db1 f where i: "insert_job (revealed_job M fresh r c b (sv_tx_hashes v) txs) db = Inr db1"
    and "db' = update_tasks (\<lambda>t. tk_task_id t = rr_task_id r) f db1"
    using assms(1) by (auto simp: open_validation_job_def Let_def)
  then have "validation_jobs db' = validation_jobs db @ [revealed_job M fresh r c b (sv_tx_hashes v) txs]"
    by (auto simp: insert_job_def update_tasks_def split: if_splits)
  with assms(6,7) have "j = revealed_job M fresh r c b (sv_tx_hashes v) txs" by auto
  with assms(2-5) show ?thesis
    by (simp add: opened_def revealed_job_def Let_def reveal_binding_def commitment_binding_def)
next
  case (Some k)
  with assms(1,6,7) show ?thesis by (auto simp: open_validation_job_def Let_def)
qed

lemma reveal_committed_opened:
  assumes "reveal_committed M fresh r t m c db = Inr (a, db')"
    and j: "j \<in> set (validation_jobs db')" "vj_job_id j \<notin> set (map vj_job_id (validation_jobs db))"
  shows "opened M c m r j"
proof -
  obtain p gone db1 where g: "(if me_competitive M then expire_stale_competitive_task M t p db else Inr (False, db)) = Inr (gone, db1)"
    and k: "(if gone
     then Inr (stale_competitive_response M (rr_task_id r) (rr_miner_id r) (cm_result_hash c) (Some (rr_signature r)) []
       ''competitive round closed'' db1)
     else case (if me_competitive M then round_pending_candidate t db1 else None) of
       Some j \<Rightarrow> Inr (waiting_response j, db1)
     | None \<Rightarrow> (case get_task_tx_snapshot (me_sha256 M) (rr_task_id r) db1 of
         None \<Rightarrow> Inr (rejected_reveal M r ''tx_snapshot_mismatch'' (cm_result_hash c) [] PENALTY_INVALID_RESULT db1)
       | Some v \<Rightarrow> reveal_samples M fresh r t m c p v db1)) = Inr (a, db')"
    using assms(1) unfolding reveal_committed_def by (simp only: bindE_eq_Inr) (elim exE conjE, auto)
  have "quiet db db1" using g by (auto split: if_splits dest: expire_stale_quiet)
  then have ids: "map vj_job_id (validation_jobs db1) = map vj_job_id (validation_jobs db)" by (rule quiet_ids)
  have new: "map vj_job_id (validation_jobs db') \<noteq> map vj_job_id (validation_jobs db1)"
    using j unfolding ids by (metis image_eqI list.set_map)
  have ng: "\<not> gone"
  proof
    assume gone
    with k have "stale_competitive_response M (rr_task_id r) (rr_miner_id r) (cm_result_hash c) (Some (rr_signature r)) []
       ''competitive round closed'' db1 = (a, db')" by simp
    from new response_jobs(4) [OF this] show False by (rule notE)
  qed
  note k1 = k [unfolded if_not_P [OF ng]]
  have "(if me_competitive M then round_pending_candidate t db1 else None) = None"
    using k1 new by (cases "if me_competitive M then round_pending_candidate t db1 else None") auto
  note k2 = k1 [unfolded this option.case]
  obtain v where "reveal_samples M fresh r t m c p v db1 = Inr (a, db')"
    using k2 new response_jobs(1) by (cases "get_task_tx_snapshot (me_sha256 M) (rr_task_id r) db1") fastforce+
  then show ?thesis
  proof (rule reveal_samples_cases)
    assume o: "signature_accepted M m (reveal_payload r c) (reveal_binding c v) (rr_signature r) = Inr True"
      "rr_binding r = reveal_binding c v" "set (cm_samples c) = fst ` set (rr_samples r)"
      "open_validation_job M fresh r t c p v (reveal_binding c v) db1 = Inr (a, db')"
    show ?thesis by (rule open_job_opened [OF o(4,1) refl o(2,3) j(1)]) (use j(2) in \<open>simp add: ids del: set_map\<close>)
  qed (use new response_jobs(1,2) in \<open>metis+\<close>)
qed

lemma reveal_open_opened:
  assumes "reveal_open M fresh r t m c db = Inr (a, db')"
    and j: "j \<in> set (validation_jobs db')" "vj_job_id j \<notin> set (map vj_job_id (validation_jobs db))"
  shows "opened M c m r j"
proof (cases "tk_status t = ''committed''")
  case True
  with assms show ?thesis by (auto simp: reveal_open_def dest: reveal_committed_opened)
next
  case False
  have "validation_jobs db' = validation_jobs db"
  proof (cases "if tk_status t \<in> {''revealed'', ''accepted'', ''rejected''} then find_job_of_task (rr_task_id r) db else None")
    case None
    with assms(1) False show ?thesis
      by (auto simp: reveal_open_def Let_def split: if_splits dest: response_jobs)
  next
    case (Some j)
    with assms(1) False show ?thesis
      by (auto simp: reveal_open_def Let_def split: if_splits dest: response_jobs)
  qed
  with j show ?thesis by simp
qed

text \<open>The cleanup before a reveal keeps whose each task is.\<close>

definition owners :: "task_row list \<Rightarrow> (string \<times> string) list" where
  "owners ts = map (\<lambda>t. (tk_task_id t, tk_miner_id t)) ts"

lemma owners_update:
  "(\<And>t. tk_task_id (f t) = tk_task_id t \<and> tk_miner_id (f t) = tk_miner_id t) \<Longrightarrow> owners (tbl_update p f ts) = owners ts"
  unfolding owners_def by (rule map_tbl_update) simp

lemma owners_foldE:
  assumes "\<And>x d d'. f x d = Inr d' \<Longrightarrow> owners (tasks d') = owners (tasks d)" and "foldE f xs db = Inr db'"
  shows "owners (tasks db') = owners (tasks db)"
  by (rule foldE_invariant [OF _ _ assms(2)]) (simp_all add: assms(1))

lemma owners_fold:
  "(\<And>x d. owners (tasks (f x d)) = owners (tasks d)) \<Longrightarrow> owners (tasks (fold f xs db)) = owners (tasks db)"
  by (induction xs arbitrary: db) simp_all

lemma owners_close_terminal: "close_terminal_task M j db = Inr db' \<Longrightarrow> owners (tasks db') = owners (tasks db)"
  unfolding close_terminal_task_def accept_task_def Let_def
  by (auto split: if_splits simp: owners_update ended_task_def Let_def)

lemma owners_close_obsolete: "close_obsolete_task M t db = Inr db' \<Longrightarrow> owners (tasks db') = owners (tasks db)"
  unfolding close_obsolete_task_def bindE_eq_Inr
  by (elim exE conjE) (auto split: option.splits simp: mark_competitive_task_stale_def Let_def owners_update stale_task_def)

lemma owners_expire_tasks: "owners (tasks (expire_tasks M waiting revealed db)) = owners (tasks db)"
  unfolding expire_tasks_def Let_def by (subst owners_fold) (simp_all add: owners_update)

lemma owners_expire:
  assumes "expire_assigned_tasks M db = Inr db'"
  shows "owners (tasks db') = owners (tasks db)"
proof -
  obtain db1 db2 ids where s: "close_terminal_validation_tasks M (release_timed_out_validation_assignments M db) = Inr db1"
    "close_obsolete_competitive_validation_jobs M db1 = Inr db2"
    "db' = expire_tasks M (expired_ids M {''assigned'', ''committed''} db2) ids db2"
    using assms unfolding expire_assigned_tasks_def bindE_eq_Inr by (elim exE conjE) auto
  have "owners (tasks db1) = owners (tasks db)"
    using owners_foldE [OF owners_close_terminal s(1) [unfolded close_terminal_validation_tasks_def]]
    by (simp add: release_timed_out_validation_assignments_def Let_def)
  moreover have "owners (tasks db2) = owners (tasks db1)"
    by (rule owners_foldE [OF owners_close_obsolete s(2) [unfolded close_obsolete_competitive_validation_jobs_def]])
  ultimately show ?thesis unfolding s(3) owners_expire_tasks by (simp only:)
qed

lemma owner_found:
  assumes "owners ts = owners us" and "tbl_find tk_task_id tid ts = Some t"
  shows "\<exists>u. tbl_find tk_task_id tid us = Some u \<and> tk_miner_id u = tk_miner_id t"
proof -
  have "map_of (owners ts) tid = map_option tk_miner_id (tbl_find tk_task_id tid ts)" for ts
    by (induction ts) (auto simp: owners_def)
  with assms show ?thesis by (metis map_option_eq_Some option.simps(9))
qed

text \<open>C5: A validation job that a reveal creates is for an existing task of the miner the request names and for the
  commitment the task had, carries its root, seed and result, opens exactly the positions the challenge asked for,
  and rests on a signature under the key of that miner.\<close>

theorem job_opens_commitment:
  assumes "reveal_task M fresh r db = Inr (a, db')"
    and "j \<in> set (validation_jobs db')" and "vj_job_id j \<notin> vj_job_id ` set (validation_jobs db)"
  shows "\<exists>t c m. find_task (rr_task_id r) db = Some t \<and> tk_miner_id t = rr_miner_id r \<and>
     find_commitment (rr_task_id r) db = Some c \<and> find_miner (rr_miner_id r) db = Some m \<and>
     vj_task_id j = rr_task_id r \<and> vj_miner_id j = rr_miner_id r \<and> vj_result_hash j = cm_result_hash c \<and>
     vj_merkle_root j = cm_merkle_root c \<and> vj_challenge_seed j = cm_challenge_seed c \<and>
     vj_samples j = map snd (rr_samples r) \<and> fst ` set (rr_samples r) = set (cm_samples c) \<and>
     signature_accepted M m (reveal_payload r c) (rr_binding r) (rr_signature r) = Inr True"
proof -
  obtain db1 where e: "expire_assigned_tasks M db = Inr db1" using assms by (auto simp: reveal_task_def)
  note r = assms(1) [unfolded reveal_task_def e bindE_simps]
  have q: "quiet db db1" by (rule expire_assigned_quiet [OF e])
  note ids = quiet_ids(1) [OF q]
  have new: "map vj_job_id (validation_jobs db') \<noteq> map vj_job_id (validation_jobs db1)"
    using assms(2,3) unfolding ids by (metis image_eqI list.set_map)
  obtain t c m where f: "find_task_of (rr_task_id r) (rr_miner_id r) db1 = Some t"
    "find_commitment (rr_task_id r) db1 = Some c" "find_miner (rr_miner_id r) db1 = Some m"
  proof (cases "find_task_of (rr_task_id r) (rr_miner_id r) db1 = None \<or> find_commitment (rr_task_id r) db1 = None
      \<or> find_miner (rr_miner_id r) db1 = None")
    case True
    with r have "\<exists>reason h pts. rejected_reveal M r reason h [] pts db1 = (a, db')"
      by (auto split: option.splits)
    with new response_jobs(1) show ?thesis by metis
  qed (use that in auto)
  note r2 = r [unfolded f prod.case option.case]
  have ns: "tk_status t \<noteq> ''stale''"
  proof
    assume "tk_status t = ''stale''"
    with r2 have "stale_competitive_response M (rr_task_id r) (rr_miner_id r) (cm_result_hash c)
       (Some (rr_signature r)) [] (str_or (tk_stale_reason t) ''competitive round closed'') db1 = (a, db')" by simp
    from new response_jobs(4) [OF this] show False by (rule notE)
  qed
  obtain u db2 where v: "revive_task M t db1 = Inr (u, db2)" and o: "reveal_open M fresh r u m c db2 = Inr (a, db')"
    using r2 ns by auto
  have "vj_job_id j \<notin> set (map vj_job_id (validation_jobs db2))"
    using assms(3) by (simp only: quiet_ids(1) [OF revive_quiet [OF v]] ids set_map not_False_eq_True)
  from reveal_open_opened [OF o assms(2) this] have "opened M c m r j" .
  moreover have "find_commitment (rr_task_id r) db = Some c" "find_miner (rr_miner_id r) db = Some m"
    using f q quiet_commitments [OF q] by (simp_all add: find_commitment_def find_miner_def quiet_def)
  moreover obtain t0 where "find_task (rr_task_id r) db = Some t0" "tk_miner_id t0 = rr_miner_id r"
  proof -
    have "tbl_find tk_task_id (rr_task_id r) (tasks db1) = Some t" "tk_miner_id t = rr_miner_id r"
      using f(1) by (auto simp: find_task_of_def find_task_def split: option.splits if_splits)
    with owner_found [OF owners_expire [OF e] this(1)] show ?thesis by (auto simp: find_task_def intro: that)
  qed
  ultimately show ?thesis by (auto simp: opened_def)
qed

section \<open>Requests nobody signed\<close>

text \<open>C33: Asking for a task needs no key: whoever names a registered miner and an address becomes the receiver of
  that miner's rewards.\<close>

theorem poll_redirects_reward:
  assumes "create_next_task M False fresh miner_id None None (Some address) db = Inr (a, db')"
    and "find_miner miner_id db = Some m" and "str_strip address \<noteq> []"
  shows "\<exists>m'. find_miner miner_id db' = Some m' \<and> mi_reward_address m' = Some (str_upper (str_strip address))"
proof -
  let ?n = "str_upper (str_strip address)"
  have n: "?n \<noteq> []" using assms(3) by (simp add: str_upper_def)
  have id: "mi_miner_id m = miner_id" using assms(2) unfolding find_miner_def by (rule tbl_find_key)
  have truthy: "truthy_text (Some address)" using assms(3) by (auto simp: truthy_text_def)
  obtain x db1 where i: "identify_miner M miner_id None None (Some address) db = Inr (x, db1)"
    and s: "(case x of None \<Rightarrow> Inr (None, db1) | Some m \<Rightarrow> serve_miner M fresh miner_id m db1) = Inr (a, db')"
    using assms(1) by (auto simp: create_next_task_def)
  have u: "update_miner_reward_address M miner_id (Some address) db = Inr db1" and x: "x = find_miner miner_id db1"
    using i assms(2) truthy by (auto simp: identify_miner_def)
  have "normalize_reward_address M (Some address) = Inr (Some ?n)"
    using u n by (auto simp: update_miner_reward_address_def normalize_reward_address_def Let_def split: if_splits)
  note u1 = u [unfolded update_miner_reward_address_def this bindE_simps option.case assms(2)]
  have "map_option mi_reward_address (find_miner miner_id db1) = Some (Some ?n)"
  proof (cases "str_or (mi_reward_address m) [] = ?n")
    case True
    then have "mi_reward_address m = Some ?n" using n by (auto simp: str_or_def split: option.splits if_splits)
    with True u1 assms(2) show ?thesis by simp
  next
    case False
    let ?f = "\<lambda>m. m\<lparr>mi_reward_address := Some ?n\<rparr>"
    have db1: "db1 = ensure_balance_account ?n ''wallet'' (me_now M) (update_miner miner_id ?f db)" using u1 False by simp
    have "find_miner miner_id db1 = find_miner miner_id (update_miner miner_id ?f db)"
      unfolding db1 find_miner_def by (rule arg_cong [OF consensus_fields_of_tail(7)]) simp
    then show ?thesis using assms(2) id by (simp add: find_updated_miner)
  qed
  moreover obtain y where "x = Some y" using calculation x by auto
  then have "map_option mi_reward_address (find_miner miner_id db') = map_option mi_reward_address (find_miner miner_id db1)"
    using s serve_keeps_reward by simp
  ultimately show ?thesis by auto
qed

lemma penalty_adds:
  assumes "\<not> (\<exists>q \<in> set (penalties db). penalized mid tid reason q)"
  shows "penalty_points mid (apply_penalty M mid tid pts reason None db) = penalty_points mid db + pts"
    and "find_miner mid db \<noteq> None \<Longrightarrow> COOLDOWN_AFTER_REJECTIONS \<le> penalty_points mid db + pts \<Longrightarrow>
      map_option mi_cooldown_until (find_miner mid (apply_penalty M mid tid pts reason None db)) =
      Some (Some (iso_at M COOLDOWN_SECONDS))"
    and "mempool_transactions (apply_penalty M mid tid pts reason None db) = mempool_transactions db"
proof -
  let ?db1 = "db\<lparr>penalties := penalties db @ [\<lparr>pe_miner_id = mid, pe_task_id = tid, pe_points = pts,
      pe_reason = reason, pe_created_at = me_now M\<rparr>]\<rparr>"
  have p: "penalty_points mid ?db1 = penalty_points mid db + pts" by (simp add: penalty_points_def)
  have keep: "penalty_points mid (update_miner k f d) = penalty_points mid d" for k f and d :: "'a db_mining_scheme"
    by (simp add: penalty_points_def update_miner_def)
  show "penalty_points mid (apply_penalty M mid tid pts reason None db) = penalty_points mid db + pts"
    using assms p by (simp add: apply_penalty_def refresh_trust_score_def cool_down_def keep Let_def)
  show "mempool_transactions (apply_penalty M mid tid pts reason None db) = mempool_transactions db"
    using assms by (simp add: apply_penalty_def refresh_trust_score_def cool_down_def update_miner_def Let_def)
  assume "find_miner mid db \<noteq> None" and c: "COOLDOWN_AFTER_REJECTIONS \<le> penalty_points mid db + pts"
  then obtain m where m: "find_miner mid ?db1 = Some m" by (auto simp: find_miner_def)
  then have "mi_miner_id m = mid" unfolding find_miner_def by (rule tbl_find_key)
  with assms p c m show "map_option mi_cooldown_until (find_miner mid (apply_penalty M mid tid pts reason None db)) =
      Some (Some (iso_at M COOLDOWN_SECONDS))"
    by (simp add: apply_penalty_def refresh_trust_score_def cool_down_def find_updated_miner Let_def)
qed

text \<open>C34: A reveal for a task the miner does not have needs no signature and still costs the named miner a point,
  with the third a cooldown, and returns the transactions frozen for that task, whose ever it is, to the mempool.\<close>

theorem unsigned_reveal_punishes:
  assumes "expire_assigned_tasks M db = Inr db1" and "find_task_of (rr_task_id r) (rr_miner_id r) db1 = None"
    and "find_miner (rr_miner_id r) db1 = Some m"
    and "\<not> (\<exists>q \<in> set (penalties db1). penalized (rr_miner_id r) (rr_task_id r) ''commitment not found'' q)"
    and "distinct (map m_tx_hash (mempool_transactions db1))"
  shows "\<exists>a db'. reveal_task M fresh r db = Inr (a, db') \<and>
     penalty_points (rr_miner_id r) db' = penalty_points (rr_miner_id r) db1 + 1 \<and>
     (2 \<le> penalty_points (rr_miner_id r) db1 \<longrightarrow> map_option mi_cooldown_until (find_miner (rr_miner_id r) db') =
        Some (Some (iso_at M COOLDOWN_SECONDS))) \<and>
     filter (selected_for (rr_task_id r)) (mempool_transactions db') = []"
proof -
  let ?mid = "rr_miner_id r" and ?tid = "rr_task_id r" and ?reason = "''commitment not found''"
  let ?db2 = "release_for_task M ?tid ?reason (me_now M) db1"
  let ?db3 = "record_rejection M ?reason ?tid ?mid [] ?db2"
  let ?db4 = "record_submission M ?tid ?mid [] [] (Some (rr_signature r)) False ?reason ?db3"
  have q: "quiet db1 ?db2" by simp
  have "db_consensus.more ?db2 = db_consensus.more db1" using q by (simp add: quiet_def)
  then have pen2: "penalties ?db2 = penalties db1" by (cases db1; cases ?db2; simp add: db_consensus.defs)
  have f: "find_miner ?mid ?db4 = Some m" "miner_exists ?mid ?db3"
    using assms(3) q by (simp_all add: find_miner_def record_submission_def record_rejection_def quiet_def miner_exists_def)
  have pen: "penalties ?db4 = penalties db1" "penalty_points k ?db4 = penalty_points k db1" for k
    by (simp_all add: penalty_points_def record_submission_def record_rejection_def pen2)
  have np: "\<not> (\<exists>q \<in> set (penalties ?db4). penalized ?mid ?tid ?reason q)" unfolding pen by (rule assms(4))
  let ?db' = "apply_penalty M ?mid ?tid PENALTY_INVALID_RESULT ?reason None ?db4"
  have run: "reveal_task M fresh r db = Inr (rejected_response ?reason [], ?db')"
    using assms(1,2) f(2) by (simp add: reveal_task_def rejected_reveal_def reject_in_connection_def Let_def)
  obtain x y where "release_selected_transactions (me_now M) ?tid ?reason (Some (me_now M)) db1 = ((x, y), ?db2)"
    unfolding release_for_task_def by (metis prod.collapse)
  then have "filter (selected_for ?tid) (mempool_transactions ?db2) = []"
    by (rule conjunct2 [OF conjunct2 [OF release_clears_task [OF assms(5)]]])
  moreover have "mempool_transactions ?db4 = mempool_transactions ?db2"
    by (simp add: record_submission_def record_rejection_def)
  ultimately have "filter (selected_for ?tid) (mempool_transactions ?db') = []"
    unfolding penalty_adds(3) [OF np] by (simp only:)
  moreover have "penalty_points ?mid ?db' = penalty_points ?mid db1 + 1"
    unfolding penalty_adds(1) [OF np] pen PENALTY_INVALID_RESULT_def ..
  moreover have "map_option mi_cooldown_until (find_miner ?mid ?db') = Some (Some (iso_at M COOLDOWN_SECONDS))"
    if "2 \<le> penalty_points ?mid db1"
    by (rule penalty_adds(2) [OF np])
      (use that f(1) in \<open>simp_all only: pen PENALTY_INVALID_RESULT_def COOLDOWN_AFTER_REJECTIONS_def, simp_all\<close>)
  ultimately show ?thesis using run by blast
qed

text \<open>C35: A reveal that names a committed task and its miner, with the transaction binding of the commitment and a
  wrong signature, ends the task: it becomes rejected, whoever sent the request. In competitive mode this is so while
  the round is open and no candidate waits for validation.\<close>

theorem forged_reveal_rejects:
  assumes "expire_assigned_tasks M db = Inr db1" and "find_task_of (rr_task_id r) (rr_miner_id r) db1 = Some t"
    and "tk_status t = ''committed''" and "find_commitment (rr_task_id r) db1 = Some c"
    and "find_miner (rr_miner_id r) db1 = Some m" and "protocol_params_for_task t db1 = Inr p"
    and "\<not> me_competitive M \<or> expire_stale_competitive_task M t p db1 = Inr (False, db1) \<and> round_pending_candidate t db1 = None"
    and "get_task_tx_snapshot (me_sha256 M) (rr_task_id r) db1 = Some v" and "rr_binding r = reveal_binding c v"
    and "signature_accepted M m (reveal_payload r c) (reveal_binding c v) (rr_signature r) = Inr False"
  shows "\<exists>a db' u. reveal_task M fresh r db = Inr (a, db') \<and> \<not> rv_accepted a \<and>
     find_task (rr_task_id r) db' = Some u \<and> tk_miner_id u = rr_miner_id r \<and> tk_status u = ''rejected''"
proof -
  let ?f = "\<lambda>t. t\<lparr>tk_status := ''rejected'', tk_submitted_at := Some (isoformat (me_now M))\<rparr>"
  have t: "find_task (rr_task_id r) db1 = Some t" "tk_miner_id t = rr_miner_id r"
    using assms(2) by (auto simp: find_task_of_def split: option.splits if_splits)
  obtain a db' where run: "forged_reveal M r c db1 = (a, db')" by fastforce
  have "reveal_samples M fresh r t m c p v db1 = Inr (a, db')"
    by (simp add: reveal_samples_def assms(9,10) run Let_def)
  then have "reveal_committed M fresh r t m c db1 = Inr (a, db')"
    using assms(7) by (auto simp: reveal_committed_def assms(6,8))
  then have "reveal_open M fresh r t m c db1 = Inr (a, db')"
    by (simp add: reveal_open_def assms(3))
  then have "reveal_task M fresh r db = Inr (a, db')"
    by (simp add: reveal_task_def assms(1-5) revive_task_def)
  moreover have "tasks db' = tbl_update (\<lambda>t. tk_task_id t = rr_task_id r) ?f (tasks db1)"
    using arg_cong [OF run, of "\<lambda>x. tasks (snd x)"] by (simp add: forged_reveal_def)
  then have "find_task (rr_task_id r) db' = Some (?f t)"
    using t(1) tbl_find_key [of tk_task_id "rr_task_id r" "tasks db1" t] by (simp add: find_task_def tbl_find_update)
  moreover have "\<not> rv_accepted a"
    using arg_cong [OF run, of fst]
    by (auto simp: forged_reveal_def rejected_reveal_def reject_in_connection_def rejected_response_def Let_def)
  ultimately show ?thesis using t(2) by (intro exI conjI) (assumption | simp)+
qed

section \<open>Examples\<close>

definition example_mining_env :: mining_env where
  "example_mining_env = \<lparr>me_chain = example_consensus_env, me_log10 = (\<lambda>_. 6), me_sample = (\<lambda>_ _ k. [0..<k]),
     me_valid_key = (\<lambda>_. True), me_competitive = False, me_range_start_window_size = 100,
     me_range_window_retire_occupancy = 1 / 2, me_range_window_max_age_blocks = 100,
     me_range_window_lookahead_multiplier = 1, me_retarget_max_pi_position = 1000, me_assignment_timeout_seconds = 60,
     me_heartbeat_min_interval_seconds = 30\<rparr>"

definition example_params :: params_row where
  "example_params = \<lparr>pp_id = 1, pp_protocol_version = ''0.18'', pp_algorithm = ''a'', pp_validation_mode = VALIDATION_MODE,
     pp_required_validator_approvals = 1, pp_range_assignment_mode = ''pseudo_random'', pp_max_pi_position = 1000,
     pp_range_assignment_max_attempts = 1, pp_segment_size = 10, pp_sample_count = 1, pp_task_expiration_seconds = 600,
     pp_max_active_tasks_per_miner = 3, pp_base_reward = 1, pp_difficulty = None, pp_retarget_max_pi_position = None,
     pp_target_block_time_ms = None, pp_retarget_reason = None, pp_retarget_source_window = None,
     pp_retarget_source_details = None, pp_previous_protocol_params_id = None, pp_active = True\<rparr>"

definition example_miner :: miner_row where
  "example_miner = \<lparr>mi_miner_id = ''miner_m'', mi_name = ''m'', mi_public_key = Some ''ed25519:k'', mi_registered_at = 0,
     mi_reward_address = None, mi_trust_score = 1, mi_cooldown_until = None, mi_is_banned = False, mi_enabled = True,
     mi_last_seen_at = None, mi_last_heartbeat_at = None, mi_online_status = ''online'', mi_protocol_version = ''0.18''\<rparr>"

definition example_task :: "string \<Rightarrow> task_row" where
  "example_task status = \<lparr>tk_task_id = ''task_t'', tk_miner_id = ''miner_m'', tk_range_start = 150, tk_range_end = 159,
     tk_algorithm = ''a'', tk_status = status, tk_assignment_seed = None, tk_assignment_mode = None,
     tk_competitive_round_height = None, tk_competitive_round_previous_hash = None, tk_protocol_params_id = None,
     tk_created_at = 0, tk_expires_at = None, tk_submitted_at = None, tk_stale_at = None, tk_stale_reason = None,
     tk_mempool_snapshot_id = None, tk_selected_tx_hashes = [], tk_tx_merkle_root = [], tk_tx_count = 0,
     tk_tx_fee_total_units = 0, tk_selected_tx_hashes_hash = None, tk_compute_ms = None\<rparr>"

definition example_snapshot :: snapshot_row where
  "example_snapshot = \<lparr>sn_snapshot_id = ''snap'', sn_task_id = ''task_t'', sn_block_height = 1, sn_tx_hashes = [],
     sn_tx_merkle_root = ''root'', sn_tx_count = 0, sn_tx_fee_total_units = 0, sn_created_at = 0\<rparr>"

definition example_commitment :: commitment where
  "example_commitment = \<lparr>cm_task_id = ''task_t'', cm_miner_id = ''miner_m'', cm_result_hash = ''r'', cm_merkle_root = ''mr'',
     cm_challenge_seed = ''seed'', cm_samples = [150], cm_commit_tx_merkle_root = ''root'',
     cm_mempool_snapshot_id = Some ''snap'', cm_commit_selected_tx_hashes_hash = Some ''h'', cm_commit_tx_count = 0,
     cm_commit_tx_fee_total_units = 0, cm_signature = ''s'', cm_signed_at = ''t'', cm_created_at = 0\<rparr>"

definition example_reveal :: reveal_request where
  "example_reveal = \<lparr>rr_task_id = ''task_t'', rr_miner_id = ''miner_m'', rr_samples = [(150, JInt 3)], rr_signature = ''s'',
     rr_signed_at = ''t'', rr_binding = commitment_binding example_commitment\<rparr>"

text \<open>One miner, one task in the given status, its commitment and its snapshot.\<close>

definition mining_base :: "string \<Rightarrow> db_mining" where
  "mining_base status = db_consensus.extend
     (db_certificates.extend (example_votes_db\<lparr>tasks := [example_task status], task_tx_snapshots := [example_snapshot],
        validation_jobs := [], mempool_transactions := []\<rparr>)
      (db_consensus.fields [example_miner] [example_params] [] [] [] [] [] []))
     (db_mining.fields [example_commitment] [] [] [])"

lemma base_simps [simp]:
  "tasks (mining_base s) = [example_task s]" "miners (mining_base s) = [example_miner]"
  "params_rows (mining_base s) = [example_params]" "blocks (mining_base s) = []" "validation_jobs (mining_base s) = []"
  "task_tx_snapshots (mining_base s) = [example_snapshot]" "commitments (mining_base s) = [example_commitment]"
  "penalties (mining_base s) = []" "mempool_transactions (mining_base s) = []" "rejected_submissions (mining_base s) = []"
  "snapshot_imports (mining_base s) = []"
  by (simp_all add: mining_base_def example_votes_db_def example_chain_def db_chain.defs db_mempool.defs
      db_certificates.defs db_consensus.defs db_mining.defs)

lemma example_mining_env_simps [simp]:
  "me_competitive example_mining_env = False" "me_chain example_mining_env = example_consensus_env"
  "me_range_start_window_size example_mining_env = 100" "me_range_window_retire_occupancy example_mining_env = 1 / 2"
  "me_range_window_max_age_blocks example_mining_env = 100" "me_range_window_lookahead_multiplier example_mining_env = 1"
  "me_retarget_max_pi_position example_mining_env = 1000"
  by (simp_all add: example_mining_env_def)

lemma example_window:
  "pp_segment_size p = 10 \<Longrightarrow> pp_algorithm p = ''a'' \<Longrightarrow> pp_max_pi_position p = 1000 \<Longrightarrow>
   rw_min_start (range_assignment_window example_mining_env p (mining_base ''assigned'')) = 1 \<and>
   rw_max_start (range_assignment_window example_mining_env p (mining_base ''assigned'')) =
     min (resolve_RETARGET_MAX_PI_POSITION example_mining_env p) 1000 - 9"
proof -
  assume p: "pp_segment_size p = 10" "pp_algorithm p = ''a''" "pp_max_pi_position p = 1000"
  have f: "accepted_range_frontier ''a'' (mining_base ''assigned'') = 0"
    by (simp add: accepted_range_frontier_def example_task_def max_or_0_def)
  have "used_starts ''a'' 1 100 (mining_base ''assigned'') = 0" by (simp add: used_starts_def example_task_def)
  moreover have "first_height_in ''a'' 1 100 (mining_base ''assigned'') = None" by (simp add: first_height_in_def)
  ultimately have "window_open example_mining_env ''a'' 100 0 (mining_base ''assigned'') 0"
    by (simp add: window_open_def fdiv_def Let_def)
  then have u: "first_unretired_range_window example_mining_env ''a'' 100 0 0 (mining_base ''assigned'') = 0"
    by (simp add: first_unretired_range_window_def)
  have h: "latest_block_height (mining_base ''assigned'') = 0" by (simp add: latest_block_height_def)
  show ?thesis
    unfolding range_assignment_window_def Let_def range_window.simps by (simp add: p f u h)
qed

lemma example_range:
  "assign_pseudo_random_range example_mining_env ''miner_m'' ''task_u'' example_params (mining_base ''assigned'') =
     Inr (range_from example_params zeros 1)"
proof -
  have l: "resolve_RETARGET_MAX_PI_POSITION example_mining_env example_params = 1000"
    by (simp add: resolve_RETARGET_MAX_PI_POSITION_def example_params_def)
  have w: "rw_min_start (range_assignment_window example_mining_env example_params (mining_base ''assigned'')) = 1"
    "rw_max_start (range_assignment_window example_mining_env example_params (mining_base ''assigned'')) = 991"
    using example_window [of example_params] by (simp_all add: l) (simp_all add: example_params_def)
  have "hex_value zeros = 0" by (simp add: hex_value_def zeros_def hex_digit_value_def eval_nat_numeral)
  then have s: "seeded_range example_mining_env ''miner_m'' ''task_u'' example_params
      (range_assignment_window example_mining_env example_params (mining_base ''assigned'')) (mining_base ''assigned'') n =
      range_from example_params zeros 1" for n
    by (simp add: seeded_range_def w Let_def)
  have "[0..pp_range_assignment_max_attempts example_params - 1] = [0]" by (simp add: example_params_def)
  moreover have "usable_range example_params (range_assignment_window example_mining_env example_params (mining_base ''assigned''))
      (mining_base ''assigned'') (range_from example_params zeros 1)"
    by (simp add: usable_range_def window_simps l)
      (simp add: example_params_def range_is_assignable_def range_start_is_protected_def
        range_overlaps_active_task_def example_task_def)
  ultimately show ?thesis by (simp add: assign_pseudo_random_range_def w s Let_def)
qed

theorem assigned_range_free_witness:
  "\<exists>a. assign_pseudo_random_range example_mining_env ''miner_m'' ''task_u'' example_params (mining_base ''assigned'') = Inr a \<and>
     as_range_end a \<le> resolve_RETARGET_MAX_PI_POSITION example_mining_env example_params"
  using assigned_range_free [OF example_range] example_range by blast

theorem competitive_ignores_limit_witness:
  "\<exists>a. competitive_round_assignment example_mining_env (example_params\<lparr>pp_retarget_max_pi_position := Some 5\<rparr>)
       (mining_base ''assigned'') = Inr a \<and>
     resolve_RETARGET_MAX_PI_POSITION example_mining_env (example_params\<lparr>pp_retarget_max_pi_position := Some 5\<rparr>) < as_range_end a"
proof -
  let ?p = "example_params\<lparr>pp_retarget_max_pi_position := Some 5\<rparr>" and ?M = example_mining_env and ?db = "mining_base ''assigned''"
  let ?w = "range_assignment_window ?M ?p ?db"
  have "resolve_RETARGET_MAX_PI_POSITION ?M ?p = 5" by (simp add: resolve_RETARGET_MAX_PI_POSITION_def)
  then have w: "rw_min_start ?w = 1" "rw_max_start ?w = -4"
    using example_window [of ?p] by (simp_all add: example_params_def)
  then have "round_attempt ?M ?w seed n = 1" for seed n by (simp add: round_attempt_def Let_def)
  moreover have "\<not> range_start_is_accepted 1 (pp_algorithm ?p) ?db"
    by (simp add: range_start_is_accepted_def accepted_start_def example_task_def)
  ultimately obtain a where a: "competitive_round_assignment ?M ?p ?db = Inr a"
    by (simp add: competitive_round_assignment_def Let_def round_attempts_def example_params_def)
  have "rw_max_start ?w < rw_min_start ?w" by (simp add: w)
  from competitive_ignores_limit [OF this a] a show ?thesis by blast
qed

text \<open>A request for a task by a miner that has one is answered with it.\<close>

lemma same_tasks: "(\<And>t. t \<in> set (tasks db) \<Longrightarrow> \<not> p t) \<Longrightarrow> update_tasks p f db = db"
  by (simp add: update_tasks_def tbl_update_def map_idI)

lemma same_jobs: "validation_jobs db = [] \<Longrightarrow> update_jobs p f db = db"
  by (simp add: update_jobs_def)

lemma update_tasks_jobs [simp]: "validation_jobs (update_tasks p f db) = validation_jobs db"
  by (simp add: update_tasks_def)

lemma example_active: "active_protocol_params (d :: db_mining) = Inr example_params" if "params_rows d = [example_params]"
  using that by (simp add: active_protocol_params_def example_params_def)

lemma example_poll:
  assumes "length address = 40" "address_pattern 38 address" "str_upper (str_strip address) = address"
  shows "\<exists>a db'. create_next_task example_mining_env False ''u'' ''miner_m'' None None (Some address) (mining_base ''assigned'') = Inr (a, db')"
proof -
  let ?M = example_mining_env and ?db = "mining_base ''assigned''"
  let ?m = "example_miner\<lparr>mi_reward_address := Some address\<rparr>"
  define D where "D = update_miner ''miner_m'' (\<lambda>m. m\<lparr>mi_reward_address := Some address\<rparr>) ?db"
  define D1 where "D1 = ensure_balance_account address ''wallet'' (me_now ?M) D"
  define D2 where "D2 = maybe_update_miner_task_poll ?M ?m D1"
  have ne: "address \<noteq> []" using assms(1) by auto
  have "is_valid_address H (Some address)" for H using assms by (simp add: is_valid_address_def ADDRESS_HASH_LENGTH_def)
  then have n: "normalize_reward_address ?M (Some address) = Inr (Some address)"
    using assms(3) ne by (simp add: normalize_reward_address_def Let_def)
  have f: "find_miner ''miner_m'' ?db = Some example_miner" by (simp add: find_miner_def example_miner_def)
  have "miners D1 = miners D" unfolding D1_def by (rule consensus_fields_of_tail(7)) simp
  then have "miners D1 = [?m]" by (simp add: D_def update_miner_def example_miner_def)
  then have f1: "find_miner ''miner_m'' D1 = Some ?m" unfolding find_miner_def by (simp add: example_miner_def)
  have "mi_reward_address example_miner = None" by (simp add: example_miner_def)
  then have "update_miner_reward_address ?M ''miner_m'' (Some address) ?db = Inr D1"
    using ne f by (simp add: update_miner_reward_address_def n str_or_def D1_def D_def)
  then have i: "identify_miner ?M ''miner_m'' None None (Some address) ?db = Inr (Some ?m, D1)"
    using ne f f1 by (simp add: identify_miner_def truthy_text_def)
  have t: "tasks D2 = [example_task ''assigned'']" by (simp add: D2_def D1_def D_def)
  have p: "params_rows D2 = [example_params]"
    by (simp add: D2_def D1_def D_def maybe_update_miner_task_poll_def update_miner_def Let_def ensure_balance_account_def)
  have "current_task ?M ''miner_m'' example_params D2 = Inr (Some (example_task ''assigned''), D2)"
    by (simp add: current_task_def active_tasks_of_def t past_expiry_def)
      (simp add: example_task_def ACTIVE_STATUSES_def)
  moreover have "tk_range_end (example_task ''assigned'') \<le> resolve_RETARGET_MAX_PI_POSITION ?M example_params"
    by (simp add: example_task_def resolve_RETARGET_MAX_PI_POSITION_def) (simp add: example_params_def)
  ultimately have n: "next_task_for_miner ?M ''u'' ''miner_m'' example_params D2 = Inr (Some (example_task ''assigned''), D2)"
    by (simp add: next_task_for_miner_def)
  have flags: "\<not> mi_is_banned ?m" "mi_enabled ?m" "\<not> in_cooldown ?M (mi_cooldown_until ?m)"
    by (simp_all add: example_miner_def in_cooldown_def)
  have "\<exists>a. serve_miner ?M ''u'' ''miner_m'' ?m D1 = Inr (a, D2)"
    using flags by (simp add: serve_miner_def Let_def D2_def [symmetric] example_active [OF p] n)
  then show ?thesis using i by (auto simp: create_next_task_def)
qed

definition example_address :: string where "example_address = ''PI'' @ replicate 38 CHR ''0''"

lemma example_address_ok:
  "length example_address = 40" "address_pattern 38 example_address" "str_upper (str_strip example_address) = example_address"
  by (simp_all add: example_address_def eval_nat_numeral address_pattern_def ADDRESS_PREFIX_def hex_upper_def
      str_strip_def str_upper_def is_space_def char_upper_def)

theorem poll_redirects_reward_witness:
  "\<exists>a db' m. create_next_task example_mining_env False ''u'' ''miner_m'' None None (Some example_address)
     (mining_base ''assigned'') = Inr (a, db') \<and> find_miner ''miner_m'' db' = Some m \<and>
     mi_reward_address m = Some example_address"
proof -
  obtain a db' where r: "create_next_task example_mining_env False ''u'' ''miner_m'' None None (Some example_address)
     (mining_base ''assigned'') = Inr (a, db')"
    using example_poll [OF example_address_ok] by (elim exE) (rule that)
  have f: "find_miner ''miner_m'' (mining_base ''assigned'') = Some example_miner"
    by (simp add: find_miner_def example_miner_def)
  have "str_strip example_address \<noteq> []"
  proof
    assume "str_strip example_address = []"
    then have "example_address = []" using example_address_ok(3) by (simp add: str_upper_def)
    with example_address_ok(1) show False by simp
  qed
  from poll_redirects_reward [OF r f this] r show ?thesis unfolding example_address_ok(3) by blast
qed

theorem final_tasks_stay_witness:
  "\<exists>db' u. mining_step\<^sup>*\<^sup>* (mining_base ''assigned'') db' \<and> find_task ''task_t'' db' = Some u \<and>
     status_edge\<^sup>*\<^sup>* ''assigned'' (tk_status u)"
proof -
  obtain a db' where "create_next_task example_mining_env False ''u'' ''miner_m'' None None (Some example_address)
     (mining_base ''assigned'') = Inr (a, db')"
    using example_poll [OF example_address_ok] by (elim exE) (rule that)
  then have s: "mining_step\<^sup>*\<^sup>* (mining_base ''assigned'') db'" by (blast intro: mining_step.intros)
  have t: "tk_task_id (example_task ''assigned'') = ''task_t''" "tk_status (example_task ''assigned'') = ''assigned''"
    by (simp_all add: example_task_def)
  from final_tasks_stay [OF s, of "example_task ''assigned''"] s show ?thesis unfolding t by auto
qed

lemma idle_expiry: "expire_assigned_tasks M (mining_base s) = Inr (mining_base s)"
proof -
  have "past_expiry M (example_task s) = False" by (simp add: past_expiry_def example_task_def)
  moreover from this have "update_tasks (\<lambda>t. (tk_status t = ''assigned'' \<or> tk_status t = ''committed'') \<and>
      past_expiry M t) f (mining_base s) = mining_base s" for f
    by (intro same_tasks) simp
  ultimately show ?thesis
    by (simp add: expire_assigned_tasks_def release_timed_out_validation_assignments_def same_jobs Let_def
        close_terminal_validation_tasks_def close_obsolete_competitive_validation_jobs_def expired_ids_def
        expire_tasks_def same_tasks)
qed

lemma example_expiry: "expire_assigned_tasks example_mining_env (mining_base s) = Inr (mining_base s)"
  by (rule idle_expiry)

lemma example_verifies: "signature_accepted example_mining_env example_miner payload b sig = Inr True"
  by (simp add: signature_accepted_def signature_holds_def example_miner_def verify_payload_signature_def KEY_PREFIX_def
      starts_with_def example_consensus_env_def)

lemma example_found:
  "find_task ''task_t'' (mining_base s) = Some (example_task s)" "find_task_of ''task_t'' ''miner_m'' (mining_base s) = Some (example_task s)"
  "find_miner ''miner_m'' (mining_base s) = Some example_miner" "find_commitment ''task_t'' (mining_base s) = Some example_commitment"
  by (simp_all add: find_task_of_def find_task_def find_miner_def find_commitment_def example_miner_def
      example_commitment_def) (simp_all add: example_task_def)

lemma example_view: "get_task_tx_snapshot H ''task_t'' (mining_base s) = Some (view_snapshot H example_snapshot)"
  by (simp add: get_task_tx_snapshot_def task_snapshot_row_def) (simp add: example_snapshot_def)

lemma example_binding: "reveal_binding example_commitment v = commitment_binding example_commitment"
  by (simp add: reveal_binding_def commitment_binding_def example_commitment_def str_or_def)

lemma example_params_of: "protocol_params_for_task (example_task s) (mining_base s') = Inr example_params"
  by (simp add: protocol_params_for_task_def example_task_def example_active [OF base_simps(3)])

lemma example_request [simp]:
  "rr_task_id example_reveal = ''task_t''" "rr_miner_id example_reveal = ''miner_m''"
  "rr_binding example_reveal = commitment_binding example_commitment"
  "fst ` set (rr_samples example_reveal) = set (cm_samples example_commitment)"
  by (simp_all add: example_reveal_def example_commitment_def)

lemma example_revealed:
  "\<exists>a db' j. reveal_task example_mining_env ''f'' example_reveal (mining_base ''committed'') = Inr (a, db') \<and>
     j \<in> set (validation_jobs db')"
proof -
  let ?M = example_mining_env and ?db = "mining_base ''committed''"
  let ?v = "view_snapshot (me_sha256 ?M) example_snapshot"
  let ?j = "revealed_job ?M ''f'' example_reveal example_commitment (commitment_binding example_commitment) (sv_tx_hashes ?v) []"
  have "load_snapshot_transactions (me_sha256 ?M) ''task_t'' ?db = Inr []"
    by (simp add: load_snapshot_transactions_def example_view view_snapshot_def load_transactions_def)
      (simp add: example_snapshot_def)
  moreover have "find_job_of_task ''task_t'' ?db = None" by (simp add: find_job_of_task_def)
  moreover have "insert_job ?j ?db = Inr (?db\<lparr>validation_jobs := [?j]\<rparr>)" by (simp add: insert_job_def)
  ultimately obtain a db' where "open_validation_job ?M ''f'' example_reveal (example_task ''committed'') example_commitment
      example_params ?v (commitment_binding example_commitment) ?db = Inr (a, db')" and j: "validation_jobs db' = [?j]"
    by (auto simp: open_validation_job_def update_tasks_def Let_def)
  then have "reveal_samples ?M ''f'' example_reveal (example_task ''committed'') example_miner example_commitment
      example_params ?v ?db = Inr (a, db')"
    by (simp add: reveal_samples_def example_binding example_verifies Let_def)
  moreover have "tk_status (example_task ''committed'') = ''committed''" by (simp add: example_task_def)
  ultimately have "reveal_task ?M ''f'' example_reveal ?db = Inr (a, db')"
    by (simp add: reveal_task_def example_expiry example_found revive_task_def reveal_open_def reveal_committed_def
        example_params_of example_view Let_def)
  with j show ?thesis by auto
qed

theorem job_opens_commitment_witness:
  "\<exists>a db' j. reveal_task example_mining_env ''f'' example_reveal (mining_base ''committed'') = Inr (a, db') \<and>
     j \<in> set (validation_jobs db') \<and> vj_merkle_root j = ''mr''"
proof -
  obtain a db' j where r: "reveal_task example_mining_env ''f'' example_reveal (mining_base ''committed'') = Inr (a, db')"
    and j: "j \<in> set (validation_jobs db')" using example_revealed by (elim exE conjE) (rule that)
  have "vj_job_id j \<notin> vj_job_id ` set (validation_jobs (mining_base ''committed''))" by simp
  from job_opens_commitment [OF r j this] have "vj_merkle_root j = ''mr''"
    by (auto simp: example_found) (simp add: example_commitment_def)
  with r j show ?thesis by blast
qed

theorem unsigned_reveal_punishes_witness:
  "\<exists>a db'. reveal_task example_mining_env ''f'' (example_reveal\<lparr>rr_task_id := ''no_task''\<rparr>) (mining_base ''committed'') = Inr (a, db') \<and>
     penalty_points ''miner_m'' db' = 1"
proof -
  let ?r = "example_reveal\<lparr>rr_task_id := ''no_task''\<rparr>"
  have "find_task_of (rr_task_id ?r) (rr_miner_id ?r) (mining_base ''committed'') = None"
    by (simp add: find_task_of_def find_task_def) (simp add: example_task_def)
  moreover have "find_miner (rr_miner_id ?r) (mining_base ''committed'') = Some example_miner" by (simp add: example_found)
  ultimately show ?thesis
    using unsigned_reveal_punishes [OF example_expiry [of "''committed''"], of ?r example_miner "''f''"]
    by (simp add: penalty_points_def) blast
qed

theorem forged_reveal_rejects_witness:
  "\<exists>M a db' u. reveal_task M ''f'' example_reveal (mining_base ''committed'') = Inr (a, db') \<and>
     find_task ''task_t'' db' = Some u \<and> tk_status u = ''rejected''"
proof -
  let ?M = "example_mining_env\<lparr>me_chain := example_consensus_env\<lparr>ce_verify := (\<lambda>_ _ _. Inr False)\<rparr>\<rparr>"
  have bad: "signature_accepted ?M example_miner payload b sig = Inr False" for payload b sig
    by (simp add: signature_accepted_def signature_holds_def example_miner_def verify_payload_signature_def KEY_PREFIX_def
      starts_with_def)
  have s: "tk_status (example_task ''committed'') = ''committed''" by (simp add: example_task_def)
  have n: "\<not> me_competitive ?M \<or> expire_stale_competitive_task ?M (example_task ''committed'') example_params (mining_base ''committed'') =
      Inr (False, mining_base ''committed'') \<and> round_pending_candidate (example_task ''committed'') (mining_base ''committed'') = None"
    by simp
  from forged_reveal_rejects [of ?M "mining_base ''committed''" "mining_base ''committed''" example_reveal, unfolded example_request,
      OF idle_expiry example_found(2) s example_found(4,3) example_params_of n example_view example_binding [symmetric] bad]
  show ?thesis by blast
qed

end
