(* ===== verification/PiDigits.thy ===== *)
theory PiDigits
  imports Mining
begin

text \<open>
  Digits of pi (\<open>app/core/pi.py\<close>): the Bailey-Borwein-Plouffe series over floats, which gives hexadecimal
  digits at any position, and Machin's formula over decimals. The cache of digits and the alias
  \<open>calculate_pi_digits\<close> are left out.

  Lemmas: the loops end; a computed segment has one digit for each position, each of the
  algorithm's alphabet.
\<close>

section \<open>Decimals of a given precision\<close>

text \<open>The exponent of the leading digit, and rounding to \<open>prec\<close> digits, ties to even. Sums,
  products and quotients of \<open>Decimal\<close> are the exact ones rounded once.\<close>

definition expo10 :: "rat \<Rightarrow> int" where
  "expo10 x = (if 1 \<le> x then int (floorlog 10 (nat \<lfloor>x\<rfloor>)) - 1 else - int (floorlog 10 (nat \<lceil>1 / x\<rceil> - 1)))"

definition dec_ctx :: "nat \<Rightarrow> rat \<Rightarrow> rat" where
  "dec_ctx prec x = (if x = 0 then 0
     else let u = 10 powi (expo10 \<bar>x\<bar> - int prec + 1) in of_int (round_half_even (x / u)) * u)"

lemma expo10_bounds:
  assumes "0 < x"
  shows "10 powi (expo10 x) \<le> x" and "x < 10 powi (expo10 x + 1)"
proof -
  have "10 powi (expo10 x) \<le> x \<and> x < 10 powi (expo10 x + 1)"
  proof (cases "1 \<le> x")
    case True
    define n where "n = nat \<lfloor>x\<rfloor>"
    from True have fx: "1 \<le> \<lfloor>x\<rfloor>" by linarith
    then have n: "0 < n" "of_nat n \<le> x" "x < of_nat n + 1"
      by (simp_all add: n_def) linarith+
    have b: "10 ^ (floorlog 10 n - 1) \<le> n" "n < 10 ^ floorlog 10 n"
      using floorlog_bounds [of n 10] n(1) by auto
    have pos: "0 < floorlog 10 n" by (rule gr0I) (use n(1) in \<open>auto simp: floorlog_eq_zero_iff\<close>)
    have lo: "(10::rat) ^ (floorlog 10 n - 1) \<le> x"
      using b(1) n(2) by (metis (mono_tags, opaque_lifting) numeral_power_le_of_nat_cancel_iff order_trans)
    have "n + 1 \<le> 10 ^ floorlog 10 n" using b(2) by simp
    then have "(of_nat (n + 1) :: rat) \<le> 10 ^ floorlog 10 n"
      by (metis of_nat_le_iff of_nat_numeral of_nat_power)
    then have hi: "x < 10 ^ floorlog 10 n" using n(3) by simp
    have e: "expo10 x = int (floorlog 10 n - 1)" "expo10 x + 1 = int (floorlog 10 n)"
      using True pos by (simp_all add: expo10_def n_def)
    show ?thesis unfolding e(2) unfolding e(1) using lo hi by (simp only: power_int_of_nat)
  next
    case False
    define m where "m = nat \<lceil>1 / x\<rceil>"
    have x1: "1 < 1 / x" using assms False by simp
    then have "1 < \<lceil>1 / x\<rceil>" by linarith
    then have m: "1 < m" "of_nat m - 1 < 1 / x" "1 / x \<le> of_nat m"
      by (simp_all add: m_def) linarith+
    define k where "k = floorlog 10 (m - 1)"
    have k0: "0 < k" by (rule gr0I) (use m(1) in \<open>auto simp: k_def floorlog_eq_zero_iff\<close>)
    have b: "10 ^ (k - 1) \<le> m - 1" "m - 1 < 10 ^ k"
      using floorlog_bounds [of "m - 1" 10] m(1) unfolding k_def by auto
    have "m \<le> 10 ^ k" using b(2) by simp
    then have "(of_nat m :: rat) \<le> 10 ^ k" by (metis of_nat_le_iff of_nat_numeral of_nat_power)
    then have up: "1 / x \<le> 10 ^ k" by (rule order_trans [OF m(3)])
    have "(10::rat) ^ (k - 1) \<le> of_nat (m - 1)" using b(1) by (metis of_nat_le_iff of_nat_numeral of_nat_power)
    also have "of_nat (m - 1) = (of_nat m :: rat) - 1" using m(1) by (simp add: of_nat_diff)
    finally have lo: "10 ^ (k - 1) < 1 / x" using m(2) by simp
    have e: "expo10 x = - int k" "expo10 x + 1 = - int (k - 1)"
      using False k0 by (simp_all add: expo10_def k_def m_def)
    have "1 / 10 ^ k \<le> x" using up assms by (simp add: field_simps)
    moreover have "x < 1 / 10 ^ (k - 1)" using lo assms by (simp add: field_simps)
    ultimately show ?thesis unfolding e(2) unfolding e(1)
      by (simp only: power_int_minus power_int_of_nat divide_inverse mult_1)
  qed
  then show "10 powi (expo10 x) \<le> x" and "x < 10 powi (expo10 x + 1)" by blast+
qed

lemma dec_ctx_err: "\<bar>dec_ctx (Suc p) x - x\<bar> \<le> \<bar>x\<bar> / 10 ^ p"
proof (cases "x = 0")
  case False
  define u where "u = (10::rat) powi (expo10 \<bar>x\<bar> - int (Suc p) + 1)"
  have u: "0 < u" by (simp add: u_def)
  have d: "dec_ctx (Suc p) x = of_int (round_half_even (x / u)) * u"
    using False by (simp only: dec_ctx_def u_def Let_def if_False)
  have "dec_ctx (Suc p) x - x = (of_int (round_half_even (x / u)) - x / u) * u"
    using u by (simp add: d algebra_simps)
  then have "\<bar>dec_ctx (Suc p) x - x\<bar> = \<bar>of_int (round_half_even (x / u)) - x / u\<bar> * u"
    using u by (simp add: abs_mult)
  also have "\<dots> \<le> 1 / 2 * u" using round_half_even_err [of "x / u"] u by (intro mult_right_mono) auto
  also have "u = 10 powi (expo10 \<bar>x\<bar>) / 10 ^ p" by (simp add: u_def power_int_diff power_int_add)
  also have "1 / 2 * (10 powi (expo10 \<bar>x\<bar>) / 10 ^ p) \<le> \<bar>x\<bar> / 10 ^ p"
    using expo10_bounds(1) [of "\<bar>x\<bar>"] False by (simp add: field_simps)
  finally show ?thesis .
qed (simp add: dec_ctx_def)

section \<open>Hexadecimal digits\<close>

definition HEX_DIGITS :: string where "HEX_DIGITS = ''0123456789ABCDEF''"

text \<open>\<open>x % 1.0\<close> of a float that is not negative.\<close>

definition frac1 :: "pyfloat \<Rightarrow> pyfloat" where "frac1 x = x - of_int \<lfloor>x\<rfloor>"

text \<open>\<open>math.pow(16.0, n - k)\<close> is a power of two and exact.\<close>

definition bbp_term :: "nat \<Rightarrow> nat \<Rightarrow> nat \<Rightarrow> pyfloat" where
  "bbp_term j n k = fdiv (16 powi (int n - int k)) (of_nat (8 * k + j))"

definition BBP_EPSILON :: pyfloat where "BBP_EPSILON = fl (1 / 10 ^ 17)"

text \<open>The terms from \<open>16 ^ -15\<close> on lie below the bound that ends the loop.\<close>

lemma bbp_term_small:
  assumes "n + 15 \<le> k" and "0 < k"
  shows "bbp_term j n k < BBP_EPSILON"
proof -
  have d: "(1::rat) \<le> of_nat (8 * k + j)" using assms(2) by simp
  have "(16::rat) powi (int n - int k) \<le> 16 powi (- 15)"
    using assms(1) by (intro power_int_increasing) auto
  then have e: "(16::rat) powi (int n - int k) \<le> 1 / 16 ^ 15"
    by (simp only: power_int_minus power_int_numeral inverse_eq_divide)
  have "16 powi (int n - int k) / of_nat (8 * k + j) \<le> (16::rat) powi (int n - int k) / 1"
    using d by (intro divide_left_mono) auto
  also have "\<dots> \<le> 1 / 16 ^ 15" using e by (simp only: div_by_1)
  finally have "16 powi (int n - int k) / of_nat (8 * k + j) \<le> (1 / 16 ^ 15 :: rat)" .
  then have "bbp_term j n k \<le> fl (1 / 16 ^ 15)" unfolding bbp_term_def fdiv_def by (rule fl_mono)
  moreover have "fl (1 / 16 ^ 15) < BBP_EPSILON" unfolding BBP_EPSILON_def by code_simp
  ultimately show ?thesis by simp
qed

function bbp_tail :: "nat \<Rightarrow> nat \<Rightarrow> nat \<Rightarrow> pyfloat \<Rightarrow> pyfloat" where
  "bbp_tail j n k acc = (if bbp_term j n k < BBP_EPSILON then acc else bbp_tail j n (k + 1) (fadd acc (bbp_term j n k)))"
  by pat_completeness auto
termination
proof (relation "measure (\<lambda>(j, n, k, acc). n + 16 - k)")
  fix j n k acc
  assume "\<not> bbp_term j n k < BBP_EPSILON"
  then have "k < n + 15 \<or> k = 0" using bbp_term_small [of n k j] by (meson not_less not_gr_zero)
  then show "((j, n, k + 1, fadd acc (bbp_term j n k)), j, n, k, acc) \<in> measure (\<lambda>(j, n, k, acc). n + 16 - k)"
    by auto
qed simp

declare bbp_tail.simps [simp del]

definition bbp_step :: "nat \<Rightarrow> nat \<Rightarrow> pyfloat \<Rightarrow> nat \<Rightarrow> pyfloat" where
  "bbp_step j n acc k =
     (let denominator = 8 * k + j in
      frac1 (fadd acc (fdiv (of_int (16 ^ (n - k) mod int denominator)) (of_nat denominator))))"

definition bbp_series :: "nat \<Rightarrow> nat \<Rightarrow> pyfloat" where
  "bbp_series j n = frac1 (bbp_tail j n (n + 1) (foldl (bbp_step j n) 0 [0..<n + 1]))"

definition bbp_value :: "nat \<Rightarrow> pyfloat" where
  "bbp_value n = fsub (fsub (fsub (fmul 4 (bbp_series 1 n)) (fmul 2 (bbp_series 4 n))) (bbp_series 5 n)) (bbp_series 6 n)"

definition bbp_hex_digit :: "nat \<Rightarrow> char" where
  "bbp_hex_digit n =
     (let v = bbp_value n; value = fsub v (of_int \<lfloor>v\<rfloor>) in HEX_DIGITS ! nat (min 15 (py_int (fmul 16 value))))"

definition position_range :: "int \<Rightarrow> int \<Rightarrow> unit result" where
  "position_range range_start range_end =
     (if range_start < 1 then Inl (ValueError ''range_start must be >= 1'')
      else if range_end < range_start then Inl (ValueError ''range_end must be >= range_start'') else Inr ())"

definition calculate_pi_hex_digits :: "int \<Rightarrow> int \<Rightarrow> string result" where
  "calculate_pi_hex_digits range_start range_end =
     bindE (position_range range_start range_end) (\<lambda>_.
     Inr (map (\<lambda>position. bbp_hex_digit (nat (position - 1))) [range_start..range_end]))"

section \<open>Decimal digits\<close>

text \<open>The Gregory series: term index, power of \<open>x\<close>, sign and sum. The first argument bounds the
  rounds; \<open>arctan_returns\<close> shows that it is never used up.\<close>

fun arctan_loop :: "nat \<Rightarrow> nat \<Rightarrow> nat \<Rightarrow> nat \<Rightarrow> rat \<Rightarrow> int \<Rightarrow> rat \<Rightarrow> rat option" where
  "arctan_loop 0 prec x index xpow sgn0 acc = None"
| "arctan_loop (Suc n) prec x index xpow sgn0 acc =
     (let t = dec_ctx prec (of_int sgn0 / dec_ctx prec (of_nat index * xpow)) in
      if \<bar>t\<bar> < 1 / 10 ^ (prec + 2) then Some acc
      else arctan_loop n prec x (index + 2) (dec_ctx prec (xpow * dec_ctx prec (of_nat x * of_nat x))) (- sgn0)
        (dec_ctx prec (acc + t)))"

definition arctan_inverse :: "nat \<Rightarrow> nat \<Rightarrow> rat option" where
  "arctan_inverse prec x = arctan_loop (prec + 3) prec x 1 (of_nat x) 1 0"

definition decimal_digit :: "rat \<Rightarrow> nat \<Rightarrow> char" where
  "decimal_digit v i = char_of (48 + nat (\<lfloor>v * 10 ^ i\<rfloor> mod 10))"

text \<open>A value with fewer digits than asked for is filled up with zeros. The precision is set for the
  whole thread and not restored.\<close>

definition calculate_pi_decimal_digits :: "int \<Rightarrow> int \<Rightarrow> string result" where
  "calculate_pi_decimal_digits range_start range_end =
     bindE (position_range range_start range_end) (\<lambda>_.
     let prec = nat range_end + 20 in
     case (arctan_inverse prec 5, arctan_inverse prec 239) of
       (Some a, Some b) \<Rightarrow>
         let pi_value = dec_ctx prec (dec_ctx prec (16 * a) - dec_ctx prec (4 * b)) in
         Inr (map (\<lambda>position. decimal_digit pi_value (nat position)) [range_start..range_end])
     | _ \<Rightarrow> Inl TypeError)"

section \<open>Segments\<close>

definition calculate_pi_segment :: "int \<Rightarrow> int \<Rightarrow> string \<Rightarrow> string result" where
  "calculate_pi_segment range_start range_end algorithm =
     (if algorithm = ''bbp_hex_v1'' then calculate_pi_hex_digits range_start range_end
      else if algorithm = ''machin_decimal_v1'' then calculate_pi_decimal_digits range_start range_end
      else Inl (ValueError (''unsupported pi algorithm: '' @ algorithm)))"

definition normalize_segment :: "string \<Rightarrow> string \<Rightarrow> string" where
  "normalize_segment segment algorithm = (if algorithm = ''bbp_hex_v1'' then str_upper segment else segment)"

text \<open>\<open>str.isdigit\<close> is false for the empty text.\<close>

definition is_valid_segment_charset :: "string \<Rightarrow> string \<Rightarrow> bool" where
  "is_valid_segment_charset segment algorithm =
     (if algorithm = ''bbp_hex_v1'' then list_all (\<lambda>c. c \<in> set HEX_DIGITS) (str_upper segment)
      else if algorithm = ''machin_decimal_v1'' then segment \<noteq> [] \<and> list_all is_digit segment
      else False)"

section \<open>The loops end\<close>

lemma dec_ctx_near:
  assumes "1 < prec"
  shows "9 / 10 * \<bar>x\<bar> \<le> \<bar>dec_ctx prec x\<bar>" and "\<bar>dec_ctx prec x\<bar> \<le> 11 / 10 * \<bar>x\<bar>" and "0 \<le> x \<Longrightarrow> 0 \<le> dec_ctx prec x"
proof -
  obtain p where p: "prec = Suc (Suc p)" using assms by (cases prec; cases "prec - 1") auto
  have "\<bar>dec_ctx prec x - x\<bar> \<le> \<bar>x\<bar> / 10 ^ Suc p" unfolding p by (rule dec_ctx_err)
  moreover have "(10::rat) ^ 1 \<le> 10 ^ Suc p" by (rule power_increasing) auto
  then have "\<bar>x\<bar> / 10 ^ Suc p \<le> \<bar>x\<bar> / 10" by (intro divide_left_mono) auto
  ultimately have e: "\<bar>dec_ctx prec x - x\<bar> \<le> \<bar>x\<bar> / 10" by linarith
  then show "9 / 10 * \<bar>x\<bar> \<le> \<bar>dec_ctx prec x\<bar>" and "\<bar>dec_ctx prec x\<bar> \<le> 11 / 10 * \<bar>x\<bar>" by linarith+
  show "0 \<le> x \<Longrightarrow> 0 \<le> dec_ctx prec x" using e by linarith
qed

lemma arctan_term_small:
  assumes "1 < prec" and "1 \<le> index" and "4 * 10 ^ m \<le> xpow" and "\<bar>sg\<bar> = 1"
  shows "\<bar>dec_ctx prec (of_int sg / dec_ctx prec (of_nat index * xpow))\<bar> < 1 / 10 ^ m"
proof -
  define D where "D = dec_ctx prec (of_nat index * xpow)"
  have x0: "(0::rat) < 10 ^ m" "0 < xpow" using assms(3) by (auto intro: less_le_trans [OF _ assms(3)])
  have "1 * xpow \<le> of_nat index * xpow" using assms(2) x0(2) by (intro mult_right_mono) auto
  then have "4 * 10 ^ m \<le> \<bar>of_nat index * xpow\<bar>" using assms(3) by linarith
  moreover have "9 / 10 * \<bar>of_nat index * xpow\<bar> \<le> \<bar>D\<bar>" unfolding D_def by (rule dec_ctx_near(1) [OF assms(1)])
  ultimately have d: "18 / 5 * 10 ^ m \<le> \<bar>D\<bar>" by linarith
  have "\<bar>of_int sg / D\<bar> = 1 / \<bar>D\<bar>" using assms(4) by (metis abs_divide of_int_1 of_int_abs)
  also have "\<dots> \<le> 1 / (18 / 5 * 10 ^ m)" using d x0 by (intro divide_left_mono mult_pos_pos) linarith+
  also have "\<dots> = 5 / 18 / 10 ^ m" by simp
  finally have q: "\<bar>of_int sg / D\<bar> \<le> 5 / 18 / 10 ^ m" .
  have "\<bar>dec_ctx prec (of_int sg / D)\<bar> \<le> 11 / 10 * (5 / 18 / 10 ^ m)"
    by (rule order_trans [OF dec_ctx_near(2) [OF assms(1)]]) (use q in simp)
  also have "\<dots> = 11 / 36 * (1 / 10 ^ m)" by simp
  also have "\<dots> < 1 * (1 / 10 ^ m)" using x0 by (intro mult_strict_right_mono) auto
  finally show ?thesis by (simp add: D_def)
qed

lemma arctan_power_grows:
  assumes "1 < prec" and "4 \<le> x" and "4 * 10 ^ m \<le> xpow"
  shows "4 * 10 ^ Suc m \<le> dec_ctx prec (xpow * dec_ctx prec (of_nat x * of_nat x))"
proof -
  define s where "s = dec_ctx prec (of_nat x * of_nat x)"
  have p0: "0 \<le> (4::rat) * 10 ^ m" "0 \<le> xpow" using assms(3) by (auto intro: order_trans [OF _ assms(3)])
  have "(4::rat) * 4 \<le> of_nat x * of_nat x" using assms(2) by (intro mult_mono) auto
  moreover have "9 / 10 * \<bar>of_nat x * of_nat x\<bar> \<le> \<bar>s\<bar>" "0 \<le> s"
    unfolding s_def by (rule dec_ctx_near(1) [OF assms(1)], rule dec_ctx_near(3) [OF assms(1)]) simp
  ultimately have s: "72 / 5 \<le> s" by linarith
  have "4 * 10 ^ m * (72 / 5) \<le> xpow * s" using assms(3) s p0 by (intro mult_mono) auto
  moreover have "9 / 10 * \<bar>xpow * s\<bar> \<le> \<bar>dec_ctx prec (xpow * s)\<bar>" "0 \<le> dec_ctx prec (xpow * s)"
    using p0 s by (intro dec_ctx_near [OF assms(1)] mult_nonneg_nonneg; simp)+
  ultimately have "9 / 10 * (4 * 10 ^ m * (72 / 5)) \<le> dec_ctx prec (xpow * s)" by linarith
  moreover have "4 * 10 ^ Suc m \<le> 9 / 10 * (4 * 10 ^ m * (72 / 5) :: rat)" by simp
  ultimately show ?thesis unfolding s_def by linarith
qed

lemma arctan_loop_returns:
  assumes "1 < prec" and "4 \<le> x"
  shows "\<lbrakk>1 \<le> index; 4 * 10 ^ m \<le> xpow; \<bar>sg\<bar> = 1; prec + 3 \<le> m + n; 0 < n\<rbrakk> \<Longrightarrow>
    \<exists>a. arctan_loop n prec x index xpow sg acc = Some a"
proof (induction n arbitrary: index m xpow sg acc)
  case (Suc n)
  let ?t = "dec_ctx prec (of_int sg / dec_ctx prec (of_nat index * xpow))"
  show ?case
  proof (cases "\<bar>?t\<bar> < 1 / 10 ^ (prec + 2)")
    case False
    have "n \<noteq> 0"
    proof
      assume "n = 0"
      with Suc.prems have "prec + 2 \<le> m" by simp
      then have "(10::rat) ^ (prec + 2) \<le> 10 ^ m" by (rule power_increasing) simp
      then have "1 / 10 ^ m \<le> 1 / (10::rat) ^ (prec + 2)" by (intro divide_left_mono) auto
      with arctan_term_small [OF assms(1) Suc.prems(1-3)] False show False by linarith
    qed
    with Suc.prems have "\<exists>a. arctan_loop n prec x (index + 2) (dec_ctx prec (xpow * dec_ctx prec (of_nat x * of_nat x)))
        (- sg) (dec_ctx prec (acc + ?t)) = Some a"
      by (intro Suc.IH [of _ "Suc m"] arctan_power_grows [OF assms]) simp_all
    with False show ?thesis by (simp only: arctan_loop.simps Let_def if_False)
  qed (simp add: Let_def)
qed simp

lemma arctan_returns:
  assumes "1 < prec" and "4 \<le> x"
  shows "\<exists>a. arctan_inverse prec x = Some a"
  unfolding arctan_inverse_def using assms by (intro arctan_loop_returns [OF assms, of _ 0]) simp_all

section \<open>The digits of a segment\<close>

lemma hex_digit_valid: "bbp_hex_digit n \<in> set HEX_DIGITS"
proof -
  have "nat (min 15 (k::int)) < 16" for k by linarith
  then have "nat (min 15 (k::int)) < length HEX_DIGITS" for k by (simp add: HEX_DIGITS_def)
  then show ?thesis by (simp add: bbp_hex_digit_def Let_def)
qed

lemma hex_digits_upper: "c \<in> set HEX_DIGITS \<Longrightarrow> char_upper c = c"
proof -
  have "list_all (\<lambda>c. char_upper c = c) HEX_DIGITS" by code_simp
  then show "c \<in> set HEX_DIGITS \<Longrightarrow> char_upper c = c" by (simp add: list_all_iff)
qed

lemma decimal_digit_valid: "is_digit (decimal_digit v i)"
proof -
  have "0 \<le> \<lfloor>v * 10 ^ i\<rfloor> mod 10" "\<lfloor>v * 10 ^ i\<rfloor> mod 10 < 10" by simp_all
  then have "nat (\<lfloor>v * 10 ^ i\<rfloor> mod 10) < 10" by linarith
  then show ?thesis by (simp add: is_digit_def decimal_digit_def)
qed

lemma pi_hex_digits:
  assumes "1 \<le> s" and "s \<le> e"
  shows "\<exists>d. calculate_pi_hex_digits s e = Inr d \<and> int (length d) = e - s + 1 \<and> is_valid_segment_charset d ''bbp_hex_v1''"
  using assms hex_digit_valid
  by (auto simp: calculate_pi_hex_digits_def position_range_def is_valid_segment_charset_def list_all_iff str_upper_def
      hex_digits_upper)

lemma pi_decimal_digits:
  assumes "1 \<le> s" and "s \<le> e"
  shows "\<exists>d. calculate_pi_decimal_digits s e = Inr d \<and> int (length d) = e - s + 1 \<and>
    is_valid_segment_charset d ''machin_decimal_v1''"
proof -
  define prec where "prec = nat e + 20"
  have "1 < prec" by (simp add: prec_def)
  then obtain a b where ab: "arctan_inverse prec 5 = Some a" "arctan_inverse prec 239 = Some b"
    using arctan_returns [of prec] by (metis numeral_le_iff semiring_norm(68,69,70,71,72,75))
  show ?thesis
    using assms decimal_digit_valid ab unfolding prec_def
    by (simp add: calculate_pi_decimal_digits_def position_range_def is_valid_segment_charset_def list_all_iff Let_def)
qed

text \<open>C36: Both algorithms return for every range that starts at the first position or later (the series
  and the two arcus tangens loops end), and the segment has one digit for each position, all of them in the
  alphabet that the network accepts for the algorithm.\<close>

theorem pi_segment_wellformed:
  assumes "1 \<le> range_start" and "range_start \<le> range_end"
    and "algorithm = ''bbp_hex_v1'' \<or> algorithm = ''machin_decimal_v1''"
  shows "\<exists>d. calculate_pi_segment range_start range_end algorithm = Inr d \<and>
    int (length d) = range_end - range_start + 1 \<and> is_valid_segment_charset d algorithm"
  using pi_hex_digits [OF assms(1,2)] pi_decimal_digits [OF assms(1,2)] assms(3)
  by (elim disjE) (simp_all add: calculate_pi_segment_def)

theorem pi_segment_wellformed_witness:
  "\<exists>d. calculate_pi_segment 1 64 ''bbp_hex_v1'' = Inr d \<and> int (length d) = 64 \<and> is_valid_segment_charset d ''bbp_hex_v1''"
  using pi_segment_wellformed [of 1 64 "''bbp_hex_v1''"] by simp

end
