(* ===== verification/Difficulty.thy ===== *)
theory Difficulty
  imports PiDigits
begin

text \<open>
  The difficulty service (\<open>app/services/difficulty_service.py\<close>) and the displayed difficulty
  (\<open>app/core/difficulty.py\<close>): from the timings of the last blocks and the active protocol parameters
  come the parameters of the next epoch. Averages and factors are decimals of 28 digits, the cost
  model of the BBP series uses floats; \<open>math.log\<close> is an argument as \<open>math.log10\<close> is. The entries of
  the meta dictionary that no caller reads are left out, but not the errors of computing them.

  Lemmas: segment size, sample count and difficulty stay within their bounds, and the segment moves
  by at most two.
\<close>

section \<open>Settings\<close>

record protocol_env =
  pe_mining :: mining_env
  pe_log :: "int \<Rightarrow> pyfloat"
  pe_window_blocks :: int
  pe_max_segment_size :: int
  pe_max_adjustment_factor :: pyfloat
  pe_min_difficulty :: pyfloat
  pe_max_difficulty :: pyfloat

abbreviation pe_log10 :: "protocol_env \<Rightarrow> int \<Rightarrow> pyfloat" where "pe_log10 P \<equiv> me_log10 (pe_mining P)"

definition TARGET_BLOCK_MS :: int where "TARGET_BLOCK_MS = 60000"

definition TARGET_MINER_MS :: pyfloat where "TARGET_MINER_MS = fmul 60000 (fl 0.65)"

definition MIN_SEGMENT_SIZE :: int where "MIN_SEGMENT_SIZE = 8"

definition MIN_SAMPLE_COUNT :: int where "MIN_SAMPLE_COUNT = 8"

definition MAX_SAMPLE_COUNT :: int where "MAX_SAMPLE_COUNT = 64"

definition MAX_SEGMENT_STEP :: int where "MAX_SEGMENT_STEP = 2"

definition PI_PIVOT_POS :: int where "PI_PIVOT_POS = 10000"

definition PI_GUARDRAIL_START :: int where "PI_GUARDRAIL_START = 1000000"

definition DEADBAND_LOW :: rat where "DEADBAND_LOW = 45000"

definition DEADBAND_HIGH :: rat where "DEADBAND_HIGH = 75000"

definition MAX_DIFFICULTY_ADJUSTMENT :: "protocol_env \<Rightarrow> pyfloat" where
  "MAX_DIFFICULTY_ADJUSTMENT P = min (pe_max_adjustment_factor P) (fl 1.15)"

section \<open>Decimals and floats\<close>

definition dec :: "rat \<Rightarrow> rat" where "dec x = dec_ctx 28 x"

definition dec_avg :: "rat list \<Rightarrow> rat" where
  "dec_avg xs = (if xs = [] then 0 else dec (foldl (\<lambda>acc x. dec (acc + x)) 0 xs / of_nat (length xs)))"

text \<open>\<open>quantize\<close> to six places, as a float; it raises when 28 digits do not suffice.\<close>

definition dec_float :: "rat \<Rightarrow> pyfloat result" where
  "dec_float x = (let q = round_half_up (x * 10 ^ 6) in
     if \<bar>q\<bar> \<ge> 10 ^ 28 then Inl InvalidOperation else Inr (fl (of_int q / 10 ^ 6)))"

fun dec_floats :: "rat list \<Rightarrow> pyfloat list result" where
  "dec_floats [] = Inr []"
| "dec_floats (x # xs) = bindE (dec_float x) (\<lambda>y. bindE (dec_floats xs) (\<lambda>ys. Inr (y # ys)))"

text \<open>\<open>statistics.median\<close> of a non-empty list.\<close>

definition median :: "pyfloat list \<Rightarrow> pyfloat" where
  "median xs = (let ys = sort xs; n = length xs in
     if odd n then ys ! (n div 2) else fdiv (fadd (ys ! (n div 2 - 1)) (ys ! (n div 2))) 2)"

text \<open>\<open>xs[-n:]\<close>.\<close>

definition py_last :: "int \<Rightarrow> 'x list \<Rightarrow> 'x list" where
  "py_last n xs = (if 0 < n then drop (length xs - nat n) xs else drop (nat (- n)) xs)"

definition int_or :: "int \<Rightarrow> int \<Rightarrow> int" where "int_or x d = (if x = 0 then d else x)"

section \<open>The displayed difficulty\<close>

definition calculate_difficulty :: "protocol_env \<Rightarrow> params_row \<Rightarrow> pyfloat" where
  "calculate_difficulty P p =
     (case pp_difficulty p of
        Some d \<Rightarrow> py_round 6 (max (fl 0.001) d)
      | None \<Rightarrow>
        let max_pos = min (int_or (pp_max_pi_position p) 10000) (resolve_RETARGET_MAX_PI_POSITION (pe_mining P) p);
            segment_factor = fdiv (of_int (int_or (pp_segment_size p) 64)) 64;
            sample_factor = fdiv (of_int (int_or (pp_sample_count p) 8)) 8;
            position_factor = (if max_pos > 1000000 then fmul (fdiv 6 4) (fdiv (of_int max_pos) 1000000)
              else fdiv (pe_log10 P (max 100 max_pos)) 4) in
        py_round 6 (max (fl 0.001) (fmul (fmul segment_factor sample_factor) position_factor)))"

section \<open>Buckets of positions\<close>

definition position_bucket :: "protocol_env \<Rightarrow> int \<Rightarrow> int \<times> int" where
  "position_bucket P pos =
     (if pos < 100 then (0, 100)
      else
        let base = 10 ^ nat \<lfloor>pe_log10 P pos\<rfloor>; mid = fmul (fl 2.5) (fl (of_int base)) in
        if of_int pos < mid then (base, py_int mid)
        else if pos < 5 * base then (py_int mid, 5 * base)
        else (5 * base, 10 * base))"

definition bucket_id :: "int \<times> int \<Rightarrow> string" where
  "bucket_id b = show_int (fst b) @ ''-'' @ show_int (snd b)"

definition bbp_cost_factor :: "protocol_env \<Rightarrow> int \<Rightarrow> pyfloat" where
  "bbp_cost_factor P position =
     (let safe_position = max 10 (int_or position 10); pivot = max 10 PI_PIVOT_POS in
      fdiv (fmul (fl (of_int safe_position)) (pe_log P safe_position)) (fmul (fl (of_int pivot)) (pe_log P pivot)))"

section \<open>Statistics of a window\<close>

text \<open>A row of \<open>_retarget_epoch_rows\<close>.\<close>

record retarget_row =
  ep_height :: int
  ep_range_start :: int
  ep_range_end :: int
  ep_total_task_ms :: int
  ep_validation_ms :: int
  ep_total_block_ms :: int
  ep_difficulty :: pyfloat
  ep_segment_size :: int
  ep_sample_count :: int

record window_stats =
  ws_total :: rat
  ws_task :: rat
  ws_validation :: rat
  ws_segment :: rat
  ws_sample :: rat
  ws_difficulty :: rat
  ws_mining_ratio :: rat
  ws_validation_ratio :: rat

definition window_stats_of :: "retarget_row list \<Rightarrow> window_stats" where
  "window_stats_of history =
     (let avg_total = dec_avg (map (\<lambda>b. of_int (ep_total_block_ms b)) history);
          avg_task = dec_avg (map (\<lambda>b. of_int (int_or (ep_total_task_ms b) (ep_total_block_ms b))) history);
          avg_validation = dec_avg (map (\<lambda>b. of_int (ep_validation_ms b)) history) in
      \<lparr>ws_total = avg_total, ws_task = avg_task, ws_validation = avg_validation,
       ws_segment = dec_avg (map (\<lambda>b. of_int (int_or (ep_segment_size b) (ep_range_end b - ep_range_start b + 1))) history),
       ws_sample = dec_avg (map (\<lambda>b. of_int (int_or (ep_sample_count b) 8)) history),
       ws_difficulty = dec_avg (map (\<lambda>b. py_repr (ep_difficulty b)) history),
       ws_mining_ratio = dec (avg_task / max 1 avg_total),
       ws_validation_ratio = dec (avg_validation / max 1 avg_total)\<rparr>)"

record bucket_metric =
  bm_bucket_id :: string
  bm_range_start_min :: int
  bm_range_start_max :: int
  bm_avg_task_ms :: pyfloat
  bm_avg_validation_ms :: pyfloat
  bm_avg_total_block_ms :: pyfloat
  bm_avg_segment_size :: pyfloat
  bm_avg_sample_count :: pyfloat
  bm_avg_difficulty :: pyfloat
  bm_samples_seen :: int
  bm_updated_at :: int

definition bucket_metric_of :: "int \<Rightarrow> (int \<times> int) \<Rightarrow> retarget_row list \<Rightarrow> bucket_metric result" where
  "bucket_metric_of updated_at b history =
     (let s = window_stats_of history in
      bindE (dec_floats [ws_task s, ws_validation s, ws_total s, ws_segment s, ws_sample s, ws_difficulty s]) (\<lambda>xs.
      Inr \<lparr>bm_bucket_id = bucket_id b, bm_range_start_min = fst b, bm_range_start_max = snd b,
        bm_avg_task_ms = xs ! 0, bm_avg_validation_ms = xs ! 1, bm_avg_total_block_ms = xs ! 2,
        bm_avg_segment_size = xs ! 3, bm_avg_sample_count = xs ! 4, bm_avg_difficulty = xs ! 5,
        bm_samples_seen = int (length history), bm_updated_at = updated_at\<rparr>))"

definition history_buckets :: "protocol_env \<Rightarrow> retarget_row list \<Rightarrow> (int \<times> int) list" where
  "history_buckets P history = sort_key bucket_id (remdups (map (\<lambda>b. position_bucket P (ep_range_start b))
     (filter (\<lambda>b. 0 < ep_total_block_ms b) history)))"

text \<open>The metrics of every bucket, in the order of the identifiers.\<close>

fun bucket_metrics_of ::
  "protocol_env \<Rightarrow> int \<Rightarrow> retarget_row list \<Rightarrow> (int \<times> int) list \<Rightarrow> bucket_metric list result" where
  "bucket_metrics_of P updated_at history [] = Inr []"
| "bucket_metrics_of P updated_at history (k # ks) =
     bindE (bucket_metric_of updated_at k
       (filter (\<lambda>b. 0 < ep_total_block_ms b \<and> position_bucket P (ep_range_start b) = k) history)) (\<lambda>m.
     bindE (bucket_metrics_of P updated_at history ks) (\<lambda>ms. Inr (m # ms)))"

definition bucket_metrics :: "protocol_env \<Rightarrow> int \<Rightarrow> retarget_row list \<Rightarrow> bucket_metric list result" where
  "bucket_metrics P updated_at history = bucket_metrics_of P updated_at history (history_buckets P history)"

section \<open>Clamps\<close>

definition clamp_adjustment :: "protocol_env \<Rightarrow> rat \<Rightarrow> rat" where
  "clamp_adjustment P x = max 0.85 (min (py_repr (MAX_DIFFICULTY_ADJUSTMENT P)) x)"

definition clamp_difficulty :: "protocol_env \<Rightarrow> rat \<Rightarrow> rat" where
  "clamp_difficulty P x = max (py_repr (pe_min_difficulty P)) (min (py_repr (pe_max_difficulty P)) x)"

definition clamp_int :: "int \<Rightarrow> int \<Rightarrow> int \<Rightarrow> int" where
  "clamp_int x minimum maximum = max minimum (min maximum x)"

definition limit_segment_step :: "int \<Rightarrow> int \<Rightarrow> int" where
  "limit_segment_step current target =
     (if current < target then min target (current + MAX_SEGMENT_STEP)
      else if target < current then max target (current - MAX_SEGMENT_STEP) else current)"

section \<open>The guardrail for deep positions\<close>

text \<open>The cost per unit of every row that has a duration and a size.\<close>

definition unit_cost :: "protocol_env \<Rightarrow> retarget_row \<Rightarrow> pyfloat option" where
  "unit_cost P b =
     (let task_ms = int_or (ep_total_task_ms b) (ep_total_block_ms b);
          segment = int_or (int_or (ep_segment_size b) (ep_range_end b - ep_range_start b + 1)) 1 in
      if task_ms \<le> 0 \<or> segment \<le> 0 then None
      else Some (fdiv (fdiv (fl (of_int task_ms)) (fl (of_int (max 1 segment))))
        (max (fl 0.000001) (bbp_cost_factor P (ep_range_start b)))))"

definition guarded_segment :: "protocol_env \<Rightarrow> pyfloat \<Rightarrow> int \<Rightarrow> int \<Rightarrow> int" where
  "guarded_segment P next_cost current proposed =
     (let desired = max MIN_SEGMENT_SIZE (min (pe_max_segment_size P)
            (round_half_even (fdiv TARGET_MINER_MS (max (fl 0.000001) next_cost)))) in
      max MIN_SEGMENT_SIZE (min proposed (min desired (current - 1))))"

text \<open>Whether the guardrail acts, and the segment size to aim at.\<close>

definition bbp_position_guardrail :: "protocol_env \<Rightarrow> retarget_row list \<Rightarrow> int \<Rightarrow> int \<Rightarrow> int \<Rightarrow> bool \<times> int" where
  "bbp_position_guardrail P history current proposed next_range_start =
     (let costs = List.map_filter (unit_cost P) (py_last (pe_window_blocks P) history);
          cost = median costs; next_factor = bbp_cost_factor P next_range_start;
          predicted = fmul (fmul cost (fl (of_int (max 1 proposed)))) next_factor;
          guarded = guarded_segment P (fmul cost next_factor) current proposed in
      if next_range_start \<le> PI_GUARDRAIL_START \<or> costs = [] \<or> predicted \<le> DEADBAND_HIGH then (False, proposed)
      else (guarded < proposed, if guarded < proposed then guarded else proposed))"

section \<open>Current difficulty and cold start\<close>

definition current_difficulty :: "protocol_env \<Rightarrow> params_row \<Rightarrow> rat result" where
  "current_difficulty P p =
     (case pp_difficulty p of
        Some d \<Rightarrow> Inr (py_repr d)
      | None \<Rightarrow>
        let segment = dec (of_int (int_or (pp_segment_size p) 64) / 64);
            samples = dec (of_int (int_or (pp_sample_count p) 8) / 8);
            max_pos = max 100 (int_or (pp_max_pi_position p) 10000);
            position = (if max_pos > 1000000 then dec (dec (6 / 4) * dec (of_int max_pos / 1000000))
              else dec (py_repr (pe_log10 P max_pos) / 4));
            q = round_half_up (dec (dec (segment * samples) * position) * 10 ^ 6) in
        if \<bar>q\<bar> \<ge> 10 ^ 28 then Inl InvalidOperation else Inr (of_int q / 10 ^ 6))"

text \<open>The segment size and the reason when the target bucket has no history.\<close>

definition handle_cold_start :: "protocol_env \<Rightarrow> retarget_row list \<Rightarrow> params_row \<Rightarrow> int \<Rightarrow> int \<times> string" where
  "handle_cold_start P history p next_pos =
     (let ref_pos = max 100 (ep_range_start (last history)); cur_pos = max 100 next_pos;
          complexity_factor = fdiv (pe_log10 P cur_pos) (pe_log10 P ref_pos) in
      if fl 1.05 < complexity_factor
      then (max MIN_SEGMENT_SIZE (py_int (fdiv (fl (of_int (pp_segment_size p))) complexity_factor)),
        ''BBP Complexity scaling (factor '' @ canonical_json (JFloat (py_round 2 complexity_factor)) @ '')'')
      else (pp_segment_size p, ''Bucket cold start (no scaling needed)''))"

section \<open>The next parameters\<close>

record retarget_meta =
  rm_action :: string
  rm_reason :: string
  rm_adjustment_factor :: pyfloat
  rm_details :: "(string \<times> json) list"

text \<open>What the averages ask for: the factors of the difficulty and of the samples, and the reasons.\<close>

definition within_deadband :: "window_stats \<Rightarrow> bool" where
  "within_deadband s \<longleftrightarrow> DEADBAND_LOW \<le> ws_total s \<and> ws_total s \<le> DEADBAND_HIGH"

definition difficulty_decision :: "window_stats \<Rightarrow> rat \<Rightarrow> rat \<times> string list" where
  "difficulty_decision s f =
     (let target = of_int TARGET_BLOCK_MS in
      if within_deadband s then (1, [''Within hysteresis band''])
      else if target < ws_total s \<and> 0.60 < ws_mining_ratio s then (f, [''mining bottleneck''])
      else if target < ws_total s \<and> \<not> 0.40 < ws_validation_ratio s then (f, [''total block time high''])
      else if ws_total s < target then (f, [''blocks below target'']) else (1, []))"

definition sample_decision :: "window_stats \<Rightarrow> rat \<Rightarrow> rat \<times> string list" where
  "sample_decision s f =
     (let target = of_int TARGET_BLOCK_MS in
      if within_deadband s then (1, [])
      else if target < ws_total s \<and> 0.40 < ws_validation_ratio s then (f, [''validation bottleneck''])
      else if ws_total s < target \<and> ws_validation_ratio s < 0.20 then (f, [''validation cheap''])
      else (1, []))"

definition is_emergency :: "window_stats \<Rightarrow> bool" where
  "is_emergency s \<longleftrightarrow> dec (of_int TARGET_BLOCK_MS * 3) < ws_task s"

definition retarget_action :: "bool \<Rightarrow> bool \<Rightarrow> bool \<Rightarrow> bool \<Rightarrow> string" where
  "retarget_action up down changed longer =
     (let action = (if down then if up then ''mixed'' else ''decrease'' else if up then ''increase'' else ''keep'');
          expiration = (if longer then ''increase'' else ''decrease'') in
      if changed then if action = ''keep'' then expiration else if action \<noteq> expiration then ''mixed'' else action
      else action)"

text \<open>The parameters before the averages are looked at: the limit and the expiry of tasks.\<close>

definition base_next_params :: "protocol_env \<Rightarrow> params_row \<Rightarrow> int \<Rightarrow> params_row" where
  "base_next_params P p next_range_start =
     p\<lparr>pp_retarget_max_pi_position := Some (resolve_RETARGET_MAX_PI_POSITION (pe_mining P) p),
       pp_task_expiration_seconds := get_dynamic_expiration (pe_mining P) next_range_start\<rparr>"

definition capped_position :: "protocol_env \<Rightarrow> params_row \<Rightarrow> int \<Rightarrow> int" where
  "capped_position P p next_range_start =
     min (max 1 (int_or next_range_start 1)) (resolve_RETARGET_MAX_PI_POSITION (pe_mining P) p)"

text \<open>The target segment: scaled with the difficulty, not above the cold start's, guarded.\<close>

definition target_segment ::
  "protocol_env \<Rightarrow> retarget_row list \<Rightarrow> params_row \<Rightarrow> params_row \<Rightarrow> rat \<Rightarrow> rat \<Rightarrow> int \<Rightarrow> bool \<times> int" where
  "target_segment P history p base old new next_range_start =
     (let current = int_or (pp_segment_size p) 64;
          scaled = round_half_up (dec (of_int current * dec (new / max old 0.000001)));
          cold = (if pp_segment_size base \<noteq> pp_segment_size p then min scaled (pp_segment_size base) else scaled) in
      bbp_position_guardrail P history current cold next_range_start)"

definition next_segment :: "protocol_env \<Rightarrow> params_row \<Rightarrow> int \<Rightarrow> int" where
  "next_segment P p target =
     clamp_int (limit_segment_step (int_or (pp_segment_size p) 64) target) MIN_SEGMENT_SIZE (pe_max_segment_size P)"

definition current_samples :: "params_row \<Rightarrow> int" where
  "current_samples p = int_or (pp_sample_count p) 8"

definition next_samples :: "params_row \<Rightarrow> rat \<Rightarrow> int" where
  "next_samples p factor =
     clamp_int (round_half_up (dec (of_int (current_samples p) * factor))) MIN_SAMPLE_COUNT MAX_SAMPLE_COUNT"

definition meta_details ::
  "int \<times> int \<Rightarrow> int \<Rightarrow> int \<Rightarrow> json list \<Rightarrow> (string \<times> json) list" where
  "meta_details b old_expiration new_expiration xs =
     [(''bucket'', JStr (bucket_id b)), (''avg_total_block_ms'', xs ! 0), (''avg_task_ms'', xs ! 1),
      (''avg_validation_ms'', xs ! 2), (''mining_ratio'', xs ! 3), (''validation_ratio'', xs ! 4),
      (''old_task_expiration_seconds'', JInt old_expiration), (''new_task_expiration_seconds'', JInt new_expiration),
      (''task_expiration_changed'', JBool (new_expiration \<noteq> old_expiration))]"

text \<open>The numbers of the meta dictionary, which are all converted.\<close>

definition meta_numbers :: "window_stats \<Rightarrow> rat \<Rightarrow> rat \<Rightarrow> rat \<Rightarrow> rat \<Rightarrow> rat \<Rightarrow> rat list" where
  "meta_numbers s raw f old df sf =
     [ws_total s, ws_task s, ws_validation s, ws_mining_ratio s, ws_validation_ratio s, f, ws_segment s, ws_sample s,
      ws_difficulty s, raw,
      if is_emergency s then 2 else max 0.000001 (dec (ws_task s / max 1 (py_repr TARGET_MINER_MS))), df, sf, old]"

text \<open>The step from statistics to parameters, \<open>base\<close> being the parameters after a cold start.\<close>

definition next_params_from ::
  "protocol_env \<Rightarrow> retarget_row list \<Rightarrow> params_row \<Rightarrow> params_row \<Rightarrow> string list \<Rightarrow> int \<Rightarrow> (params_row \<times> retarget_meta) result" where
  "next_params_from P history p base cold_reason next_range_start =
     (let s = window_stats_of history; raw = dec (of_int TARGET_BLOCK_MS / max 1 (ws_total s)); f = clamp_adjustment P raw;
          (df, dr) = difficulty_decision s f; (sf, sr) = sample_decision s f;
          old_expiration = int_or (pp_task_expiration_seconds p) (pp_task_expiration_seconds base);
          new_expiration = pp_task_expiration_seconds base in
      bindE (current_difficulty P p) (\<lambda>old.
      let new = clamp_difficulty P (dec (old * df));
          (guarded, target) = target_segment P history p base old new next_range_start;
          segment = next_segment P p target; samples = next_samples p sf in
      bindE (dec_float new) (\<lambda>d.
      let up = (old < py_repr d \<or> int_or (pp_segment_size p) 64 < segment \<or> current_samples p < samples);
          down = (py_repr d < old \<or> segment < int_or (pp_segment_size p) 64 \<or> samples < current_samples p);
          action = retarget_action up down (new_expiration \<noteq> old_expiration) (old_expiration < new_expiration);
          reasons = dr @ sr @ cold_reason @ (if is_emergency s then [''Emergency''] else []) @
            (if guarded then [''BBP position guardrail''] else []) @
            (if new_expiration \<noteq> old_expiration then [''dynamic task expiration''] else []) @
            (if action = ''keep'' then [''Within deadband / target envelope''] else []) in
      bindE (dec_floats (meta_numbers s raw f old df sf)) (\<lambda>xs.
      Inr (base\<lparr>pp_difficulty := (if action = ''keep'' \<and> pp_difficulty p = None then None else Some d),
             pp_segment_size := segment, pp_sample_count := samples\<rparr>,
           \<lparr>rm_action = action, rm_reason = join_text ''; '' reasons, rm_adjustment_factor = xs ! 5,
            rm_details = meta_details (position_bucket P next_range_start) old_expiration new_expiration
              (map JFloat xs)\<rparr>)))))"

definition waiting_meta :: "protocol_env \<Rightarrow> params_row \<Rightarrow> params_row \<Rightarrow> int \<Rightarrow> retarget_meta" where
  "waiting_meta P p base next_range_start =
     \<lparr>rm_action = ''wait'', rm_reason = ''No valid timing history available'', rm_adjustment_factor = 1,
      rm_details = meta_details (position_bucket P next_range_start)
        (int_or (pp_task_expiration_seconds p) (pp_task_expiration_seconds base)) (pp_task_expiration_seconds base)
        (replicate 5 JNull)\<rparr>"

definition calculate_next_protocol_params ::
  "protocol_env \<Rightarrow> retarget_row list \<Rightarrow> params_row \<Rightarrow> int \<Rightarrow> (params_row \<times> retarget_meta) result" where
  "calculate_next_protocol_params P history p next_range_start =
     (let pos = capped_position P p next_range_start; base = base_next_params P p pos;
          valid = filter (\<lambda>b. 0 < ep_total_block_ms b) (py_last (pe_window_blocks P) history);
          same_bucket = filter (\<lambda>b. position_bucket P (ep_range_start b) = position_bucket P pos) valid in
      if valid = [] then Inr (base, waiting_meta P p base pos)
      else if same_bucket = []
      then let (segment, reason) = handle_cold_start P valid base pos in
        next_params_from P valid p (base\<lparr>pp_segment_size := segment\<rparr>) [reason] pos
      else next_params_from P same_bucket p base [] pos)"

section \<open>Bounds\<close>

lemma limit_segment_step_bounds: "\<bar>limit_segment_step current target - current\<bar> \<le> MAX_SEGMENT_STEP"
  by (auto simp: limit_segment_step_def MAX_SEGMENT_STEP_def)

lemma clamp_int_bounds: "minimum \<le> clamp_int x minimum maximum" "minimum \<le> maximum \<Longrightarrow> clamp_int x minimum maximum \<le> maximum"
  by (simp_all add: clamp_int_def)

lemma next_segment_bounds:
  assumes "MIN_SEGMENT_SIZE \<le> pe_max_segment_size P"
  shows "MIN_SEGMENT_SIZE \<le> next_segment P p target" and "next_segment P p target \<le> pe_max_segment_size P"
    and "MIN_SEGMENT_SIZE \<le> pp_segment_size p \<Longrightarrow> pp_segment_size p \<le> pe_max_segment_size P \<Longrightarrow>
      \<bar>next_segment P p target - pp_segment_size p\<bar> \<le> MAX_SEGMENT_STEP"
  using assms clamp_int_bounds limit_segment_step_bounds [of "int_or (pp_segment_size p) 64" target]
  by (auto simp: next_segment_def clamp_int_def int_or_def MIN_SEGMENT_SIZE_def)

text \<open>A bound of the difficulty as it is stored.\<close>

definition stored_difficulty :: "pyfloat \<Rightarrow> pyfloat" where
  "stored_difficulty d = fl (of_int (round_half_up (py_repr d * 10 ^ 6)) / 10 ^ 6)"

lemma dec_float_mono:
  assumes "dec_float x = Inr d"
  shows "y \<le> x \<Longrightarrow> fl (of_int (round_half_up (y * 10 ^ 6)) / 10 ^ 6) \<le> d"
    and "x \<le> y \<Longrightarrow> d \<le> fl (of_int (round_half_up (y * 10 ^ 6)) / 10 ^ 6)"
proof -
  have d: "d = fl (of_int (round_half_up (x * 10 ^ 6)) / 10 ^ 6)"
    using assms by (simp add: dec_float_def Let_def split: if_splits)
  have m: "fl (of_int (round_half_up (a * 10 ^ 6)) / 10 ^ 6) \<le> fl (of_int (round_half_up (b * 10 ^ 6)) / 10 ^ 6)"
    if "a \<le> b" for a b :: rat
  proof -
    have "round_half_up (a * 10 ^ 6) \<le> round_half_up (b * 10 ^ 6)"
      using that by (intro round_half_up_mono mult_right_mono) auto
    then show ?thesis by (intro fl_mono divide_right_mono) (simp_all only: of_int_le_iff zero_le_power zero_le_numeral)
  qed
  show "y \<le> x \<Longrightarrow> fl (of_int (round_half_up (y * 10 ^ 6)) / 10 ^ 6) \<le> d"
    and "x \<le> y \<Longrightarrow> d \<le> fl (of_int (round_half_up (y * 10 ^ 6)) / 10 ^ 6)"
    unfolding d by (rule m; assumption)+
qed

definition params_within :: "protocol_env \<Rightarrow> params_row \<Rightarrow> bool" where
  "params_within P p \<longleftrightarrow> MIN_SEGMENT_SIZE \<le> pp_segment_size p \<and> pp_segment_size p \<le> pe_max_segment_size P \<and>
     MIN_SAMPLE_COUNT \<le> pp_sample_count p \<and> pp_sample_count p \<le> MAX_SAMPLE_COUNT \<and>
     (case pp_difficulty p of None \<Rightarrow> True
      | Some d \<Rightarrow> stored_difficulty (pe_min_difficulty P) \<le> d \<and>
          d \<le> max (stored_difficulty (pe_min_difficulty P)) (stored_difficulty (pe_max_difficulty P)))"

lemma clamp_difficulty_stored:
  assumes "dec_float (clamp_difficulty P x) = Inr d"
  shows "stored_difficulty (pe_min_difficulty P) \<le> d"
    and "d \<le> max (stored_difficulty (pe_min_difficulty P)) (stored_difficulty (pe_max_difficulty P))"
proof -
  let ?lo = "py_repr (pe_min_difficulty P)" and ?hi = "py_repr (pe_max_difficulty P)"
  have "?lo \<le> clamp_difficulty P x" by (simp add: clamp_difficulty_def)
  then show "stored_difficulty (pe_min_difficulty P) \<le> d"
    unfolding stored_difficulty_def by (rule dec_float_mono(1) [OF assms])
  have "clamp_difficulty P x \<le> ?lo \<or> clamp_difficulty P x \<le> ?hi" by (auto simp: clamp_difficulty_def)
  then show "d \<le> max (stored_difficulty (pe_min_difficulty P)) (stored_difficulty (pe_max_difficulty P))"
    unfolding stored_difficulty_def le_max_iff_disj by (elim disjE) (use dec_float_mono(2) [OF assms] in blast)+
qed

text \<open>The fields a retarget does not touch.\<close>

definition params_identity ::
  "params_row \<Rightarrow> string \<times> string \<times> int \<times> string \<times> int \<times> int \<times> int \<times> pyfloat" where
  "params_identity p = (pp_algorithm p, pp_validation_mode p, pp_required_validator_approvals p,
     pp_range_assignment_mode p, pp_max_pi_position p, pp_range_assignment_max_attempts p,
     pp_max_active_tasks_per_miner p, pp_base_reward p)"

lemma next_params_shape:
  assumes "next_params_from P history p base cold pos = Inr (q, m)"
  shows "\<exists>target d factor x. dec_float (clamp_difficulty P x) = Inr d \<and>
    q = base\<lparr>pp_difficulty := (if rm_action m = ''keep'' \<and> pp_difficulty p = None then None else Some d),
      pp_segment_size := next_segment P p target, pp_sample_count := next_samples p factor\<rparr>"
proof -
  have *: "Inr (base\<lparr>pp_difficulty := (if a = ''keep'' \<and> pp_difficulty p = None then None else Some d),
      pp_segment_size := n, pp_sample_count := k\<rparr>, \<lparr>rm_action = a, rm_reason = r, rm_adjustment_factor = f, rm_details = e\<rparr>) =
    (Inr (q, m) :: (params_row \<times> retarget_meta) result) \<Longrightarrow>
    q = base\<lparr>pp_difficulty := (if rm_action m = ''keep'' \<and> pp_difficulty p = None then None else Some d),
      pp_segment_size := n, pp_sample_count := k\<rparr>" for a r f e d n k by auto
  show ?thesis
    using assms unfolding next_params_from_def Let_def case_prod_unfold bindE_eq_Inr
    by (elim exE conjE) (intro exI conjI, assumption, rule *, assumption)
qed

lemma next_params_within:
  assumes "next_params_from P history p base cold pos = Inr (q, m)"
    and "MIN_SEGMENT_SIZE \<le> pe_max_segment_size P" and "params_within P p"
  shows "params_within P q" and "\<bar>pp_segment_size q - pp_segment_size p\<bar> \<le> MAX_SEGMENT_STEP"
    and "params_identity q = params_identity base"
proof -
  obtain target d factor x where d: "dec_float (clamp_difficulty P x) = Inr d"
    and q: "q = base\<lparr>pp_difficulty := (if rm_action m = ''keep'' \<and> pp_difficulty p = None then None else Some d),
      pp_segment_size := next_segment P p target, pp_sample_count := next_samples p factor\<rparr>"
    using next_params_shape [OF assms(1)] by blast
  have s: "MIN_SEGMENT_SIZE \<le> pp_segment_size p" "pp_segment_size p \<le> pe_max_segment_size P"
    using assms(3) by (simp_all add: params_within_def)
  note seg = next_segment_bounds [OF assms(2), of p target]
  have sam: "MIN_SAMPLE_COUNT \<le> next_samples p factor" "next_samples p factor \<le> MAX_SAMPLE_COUNT"
    unfolding next_samples_def by (rule clamp_int_bounds, rule clamp_int_bounds) (simp add: MIN_SAMPLE_COUNT_def MAX_SAMPLE_COUNT_def)
  show "params_within P q"
    using seg(1,2) sam clamp_difficulty_stored [OF d] by (simp add: params_within_def q)
  show "\<bar>pp_segment_size q - pp_segment_size p\<bar> \<le> MAX_SEGMENT_STEP" using seg(3) [OF s] by (simp add: q)
  show "params_identity q = params_identity base" by (simp add: q params_identity_def)
qed

lemma calculate_next_within:
  assumes "calculate_next_protocol_params P history p pos = Inr (q, m)"
    and "MIN_SEGMENT_SIZE \<le> pe_max_segment_size P" and "params_within P p"
  shows "params_within P q \<and> \<bar>pp_segment_size q - pp_segment_size p\<bar> \<le> MAX_SEGMENT_STEP \<and> params_identity q = params_identity p"
proof -
  let ?pos = "capped_position P p pos" let ?base = "base_next_params P p ?pos"
  let ?valid = "filter (\<lambda>b. 0 < ep_total_block_ms b) (py_last (pe_window_blocks P) history)"
  have b: "params_identity ?base = params_identity p" "params_identity (?base\<lparr>pp_segment_size := n\<rparr>) = params_identity p" for n
    by (simp_all add: base_next_params_def params_identity_def)
  have w: "params_within P ?base" "pp_segment_size ?base = pp_segment_size p"
    using assms(3) by (simp_all add: base_next_params_def params_within_def)
  consider "q = ?base" | hs where "next_params_from P hs p ?base [] ?pos = Inr (q, m)"
    | hs n r where "next_params_from P hs p (?base\<lparr>pp_segment_size := n\<rparr>) [r] ?pos = Inr (q, m)"
    using assms(1) by (auto simp: calculate_next_protocol_params_def Let_def split: if_splits prod.splits)
  then show ?thesis
  proof cases
    case 1
    with w b show ?thesis by (simp add: MAX_SEGMENT_STEP_def)
  qed (use next_params_within [OF _ assms(2,3)] b in metis)+
qed

end
