(* ===== verification/Retarget.thy ===== *)
theory Retarget
  imports Difficulty
begin

text \<open>
  Retargeting (\<open>_maybe_retarget_after_block\<close> and its parts in \<open>app/services/mining.py\<close>): the rows of
  an epoch, the preview, the metrics of the buckets, and the new row of \<open>protocol_params\<close> that becomes
  the active one. \<open>db_protocol\<close> adds the tables of retarget events, bucket metrics and retroactive
  audits.

  Lemmas: when a row of parameters is active before, one is active afterwards, it lies within the
  bounds of the settings, its segment is at most two away from the old one, and reward, algorithm and
  quorum are the old ones.
\<close>

record retarget_event =
  rt_previous_protocol_params_id :: int
  rt_new_protocol_params_id :: int
  rt_epoch_start_height :: int
  rt_epoch_end_height :: int
  rt_epoch_block_count :: int
  rt_average_block_ms :: pyfloat
  rt_target_block_ms :: int
  rt_old_difficulty :: pyfloat
  rt_new_difficulty :: pyfloat
  rt_adjustment_factor :: pyfloat
  rt_action :: string
  rt_reason :: string
  rt_created_at :: int

record audit_row =
  au_block_height :: int
  au_block_hash :: string
  au_audit_seed :: string
  au_sample_count :: int
  au_samples :: "json list"
  au_expected_hash :: string
  au_actual_hash :: string
  au_passed :: bool
  au_reason :: string
  au_automatic :: bool
  au_reward :: pyfloat
  au_reward_account_id :: "string option"
  au_fraud_detected :: bool
  au_created_at :: int

record db_protocol = db_mining +
  retarget_events :: "retarget_event list"
  difficulty_bucket_metrics :: "bucket_metric list"
  retroactive_audits :: "audit_row list"

abbreviation pe_now :: "protocol_env \<Rightarrow> int" where "pe_now P \<equiv> me_now (pe_mining P)"

definition RETARGET_EPOCH_BLOCKS :: int where "RETARGET_EPOCH_BLOCKS = 5"

section \<open>The epoch\<close>

definition last_retarget_height :: "'a db_protocol_scheme \<Rightarrow> int" where
  "last_retarget_height db = (case map rt_epoch_end_height (retarget_events db) of [] \<Rightarrow> 0 | h # hs \<Rightarrow> fold max hs h)"

text \<open>\<open>COALESCE(x, y, d)\<close>.\<close>

definition coalesce3 :: "'x option \<Rightarrow> 'x option \<Rightarrow> 'x \<Rightarrow> 'x" where
  "coalesce3 x y d = (case x of Some v \<Rightarrow> v | None \<Rightarrow> (case y of Some v \<Rightarrow> v | None \<Rightarrow> d))"

definition elapsed_block_ms :: "int \<Rightarrow> block_row \<Rightarrow> int" where
  "elapsed_block_ms d b =
     max (coalesce3 (bl_total_block_ms b) (bl_total_task_ms b) d)
       (coalesce3 (bl_total_task_ms b) (bl_total_block_ms b) d + coalesce3 (bl_validation_ms b) None 0)"

definition epoch_row_of :: "'a db_consensus_scheme \<Rightarrow> block_row \<Rightarrow> retarget_row" where
  "epoch_row_of db b =
     (let p = Option.bind (bl_protocol_params_id b) (\<lambda>i. protocol_params_by_id i db) in
      \<lparr>ep_height = bl_height b, ep_range_start = bl_range_start b, ep_range_end = bl_range_end b,
       ep_total_task_ms = coalesce3 (bl_total_task_ms b) (bl_total_block_ms b) TARGET_BLOCK_MS,
       ep_validation_ms = coalesce3 (bl_validation_ms b) None 0, ep_total_block_ms = elapsed_block_ms TARGET_BLOCK_MS b,
       ep_difficulty = coalesce3 (bl_difficulty b) (Option.bind p pp_difficulty) 0,
       ep_segment_size = coalesce3 (map_option pp_segment_size p) None (bl_range_end b - bl_range_start b + 1),
       ep_sample_count = coalesce3 (map_option pp_sample_count p) None 8\<rparr>)"

text \<open>\<open>LIMIT n\<close>; a negative limit is none.\<close>

definition sql_limit :: "int \<Rightarrow> 'x list \<Rightarrow> 'x list" where
  "sql_limit n xs = (if n < 0 then xs else take (nat n) xs)"

definition retarget_epoch_rows :: "protocol_env \<Rightarrow> int \<Rightarrow> 'a db_consensus_scheme \<Rightarrow> retarget_row list" where
  "retarget_epoch_rows P last_height db =
     map (epoch_row_of db) (sort_key bl_height (sql_limit (pe_window_blocks P) (sort_key (\<lambda>b. - bl_height b)
       (filter (\<lambda>b. last_height < bl_height b \<and> 0 < elapsed_block_ms 0 b) (blocks db)))))"

definition average_epoch_ms :: "retarget_row list \<Rightarrow> pyfloat" where
  "average_epoch_ms rows =
     py_round 2 (fdiv (py_sum (map (\<lambda>b. fl (of_int (ep_total_block_ms b))) rows)) (of_nat (length rows)))"

section \<open>Preview\<close>

record retarget_preview =
  rp_ready :: bool
  rp_epoch :: "retarget_row list"
  rp_current :: params_row
  rp_proposed :: params_row
  rp_meta :: retarget_meta

definition no_retarget :: retarget_meta where
  "no_retarget = \<lparr>rm_action = ''wait'', rm_reason = ''not enough accepted blocks for retarget'', rm_adjustment_factor = 1,
     rm_details = []\<rparr>"

definition next_range_position :: "protocol_env \<Rightarrow> params_row \<Rightarrow> 'a db_consensus_scheme \<Rightarrow> int" where
  "next_range_position P p db =
     (let w = range_assignment_window (pe_mining P) p db in min (rw_frontier w + 1) (rw_limit w))"

definition preview_retarget :: "protocol_env \<Rightarrow> bool \<Rightarrow> 'a db_protocol_scheme \<Rightarrow> retarget_preview result" where
  "preview_retarget P force db =
     bindE (active_protocol_params db) (\<lambda>p.
     let epoch = retarget_epoch_rows P (last_retarget_height db) db;
         required = max RETARGET_EPOCH_BLOCKS (pe_window_blocks P);
         ready = (epoch \<noteq> [] \<and> (force \<or> required \<le> int (length epoch))) in
     bindE (if ready then calculate_next_protocol_params P epoch p (next_range_position P p db) else Inr (p, no_retarget))
       (\<lambda>(q, m). Inr \<lparr>rp_ready = ready, rp_epoch = epoch, rp_current = p, rp_proposed = q, rp_meta = m\<rparr>))"

section \<open>The retarget\<close>

definition upsert_bucket_metric :: "bucket_metric \<Rightarrow> 'a db_protocol_scheme \<Rightarrow> 'a db_protocol_scheme" where
  "upsert_bucket_metric m db =
     db\<lparr>difficulty_bucket_metrics := tbl_upsert bm_bucket_id (\<lambda>_. m) m (difficulty_bucket_metrics db)\<rparr>"

definition upsert_difficulty_bucket_metrics ::
  "protocol_env \<Rightarrow> retarget_row list \<Rightarrow> 'a db_protocol_scheme \<Rightarrow> 'a db_protocol_scheme result" where
  "upsert_difficulty_bucket_metrics P history db =
     bindE (bucket_metrics P (pe_now P) history) (\<lambda>ms. Inr (fold upsert_bucket_metric ms db))"

definition source_details :: "retarget_row list \<Rightarrow> retarget_meta \<Rightarrow> json" where
  "source_details epoch m =
     JObj ([(''epoch_start_height'', JInt (ep_height (hd epoch))), (''epoch_end_height'', JInt (ep_height (last epoch))),
       (''epoch_block_count'', JInt (int (length epoch)))] @ rm_details m)"

definition fresh_params_id :: "'a db_consensus_scheme \<Rightarrow> int" where
  "fresh_params_id db = fold max (map pp_id (params_rows db)) 0 + 1"

definition retargeted_params ::
  "protocol_env \<Rightarrow> retarget_row list \<Rightarrow> params_row \<Rightarrow> params_row \<Rightarrow> retarget_meta \<Rightarrow> int \<Rightarrow> params_row" where
  "retargeted_params P epoch p q m new_id =
     q\<lparr>pp_id := new_id, pp_protocol_version := PROTOCOL_VERSION (me_chain (pe_mining P)),
       pp_target_block_time_ms := Some TARGET_BLOCK_MS,
       pp_retarget_max_pi_position := Some (case pp_retarget_max_pi_position q of
           None \<Rightarrow> me_retarget_max_pi_position (pe_mining P)
         | Some v \<Rightarrow> int_or v (me_retarget_max_pi_position (pe_mining P))),
       pp_retarget_reason := Some (rm_reason m), pp_retarget_source_window := Some (int (length epoch)),
       pp_retarget_source_details := Some (source_details epoch m), pp_previous_protocol_params_id := Some (pp_id p),
       pp_active := True\<rparr>"

text \<open>\<open>UPDATE protocol_params SET active = 0\<close>, then the new row.\<close>

definition activate_params :: "params_row \<Rightarrow> 'a db_consensus_scheme \<Rightarrow> 'a db_consensus_scheme" where
  "activate_params q db = db\<lparr>params_rows := tbl_update pp_active (\<lambda>p. p\<lparr>pp_active := False\<rparr>) (params_rows db) @ [q]\<rparr>"

definition retarget_event_of ::
  "protocol_env \<Rightarrow> retarget_preview \<Rightarrow> int \<Rightarrow> retarget_event" where
  "retarget_event_of P v new_id =
     (let epoch = rp_epoch v in
      \<lparr>rt_previous_protocol_params_id = pp_id (rp_current v), rt_new_protocol_params_id = new_id,
       rt_epoch_start_height = ep_height (hd epoch), rt_epoch_end_height = ep_height (last epoch),
       rt_epoch_block_count = int (length epoch), rt_average_block_ms = py_round 2 (average_epoch_ms epoch),
       rt_target_block_ms = TARGET_BLOCK_MS, rt_old_difficulty = calculate_difficulty P (rp_current v),
       rt_new_difficulty = calculate_difficulty P (rp_proposed v),
       rt_adjustment_factor = rm_adjustment_factor (rp_meta v), rt_action = rm_action (rp_meta v),
       rt_reason = rm_reason (rp_meta v), rt_created_at = pe_now P\<rparr>)"

definition apply_retarget ::
  "protocol_env \<Rightarrow> retarget_preview \<Rightarrow> 'a db_protocol_scheme \<Rightarrow> retarget_event \<times> 'a db_protocol_scheme" where
  "apply_retarget P v db =
     (let keep = (rm_action (rp_meta v) = ''keep'');
          new_id = (if keep then pp_id (rp_current v) else fresh_params_id db);
          db1 = (if keep then db
            else activate_params (retargeted_params P (rp_epoch v) (rp_current v) (rp_proposed v) (rp_meta v) new_id) db);
          event = retarget_event_of P v new_id in
      (event, db1\<lparr>retarget_events := retarget_events db1 @ [event]\<rparr>))"

definition maybe_retarget_after_block ::
  "protocol_env \<Rightarrow> int \<Rightarrow> bool \<Rightarrow> 'a db_protocol_scheme \<Rightarrow> (retarget_event option \<times> 'a db_protocol_scheme) result" where
  "maybe_retarget_after_block P current_height force db =
     (if current_height \<le> 0 then Inr (None, db)
      else bindE (preview_retarget P force db) (\<lambda>v.
        if \<not> rp_ready v then Inr (None, db)
        else bindE (upsert_difficulty_bucket_metrics P (rp_epoch v) db) (\<lambda>db1.
          case apply_retarget P v db1 of (event, db2) \<Rightarrow> Inr (Some event, db2))))"

text \<open>\<open>run_retarget\<close>, at the height of the chain.\<close>

definition run_retarget ::
  "protocol_env \<Rightarrow> bool \<Rightarrow> 'a db_protocol_scheme \<Rightarrow> ((retarget_event option \<times> params_row) \<times> 'a db_protocol_scheme) result" where
  "run_retarget P force db =
     bindE (maybe_retarget_after_block P (latest_block_height db) force db) (\<lambda>(event, db1).
     bindE (active_protocol_params db1) (\<lambda>p. Inr ((event, p), db1)))"

end
