(* ===== verification/Audits.thy ===== *)
theory Audits
  imports Retarget
begin

text \<open>
  Penalties of validators and retroactive audits (\<open>app/services/mining.py\<close>): a validator whose
  signature does not verify loses stake and is cooled down or banned; every 314 blocks one block is
  recomputed, and when its result hash is wrong the miner and the validators who approved it are
  punished. The identifier of a requested audit and the row that \<open>ORDER BY RANDOM()\<close> picks are
  arguments.

  Lemmas: a slash never makes a stake negative and records what it takes.
\<close>

section \<open>Penalties of validators\<close>

definition VALIDATOR_PENALTY_INVALID_SIGNATURE :: int where "VALIDATOR_PENALTY_INVALID_SIGNATURE = 2"

definition VALIDATOR_COOLDOWN_AFTER_INVALID_RESULTS :: int where "VALIDATOR_COOLDOWN_AFTER_INVALID_RESULTS = 3"

definition VALIDATOR_BAN_AFTER_INVALID_RESULTS :: int where "VALIDATOR_BAN_AFTER_INVALID_RESULTS = 9"

definition VALIDATOR_COOLDOWN_SECONDS :: int where "VALIDATOR_COOLDOWN_SECONDS = 10 * 60"

definition FRAUD_MINER_PENALTY_POINTS :: int where "FRAUD_MINER_PENALTY_POINTS = 20"

definition FRAUD_VALIDATOR_INVALID_RESULTS :: int where "FRAUD_VALIDATOR_INVALID_RESULTS = 3"

definition FRAUD_COOLDOWN_SECONDS :: int where "FRAUD_COOLDOWN_SECONDS = 60 * 60"

definition update_validator ::
  "string \<Rightarrow> (validator_row \<Rightarrow> validator_row) \<Rightarrow> 'a db_chain_scheme \<Rightarrow> 'a db_chain_scheme" where
  "update_validator vid f db = db\<lparr>validators := tbl_update (\<lambda>v. v_validator_id v = vid) f (validators db)\<rparr>"

definition validator_trust_of :: "validator_row \<Rightarrow> pyfloat" where
  "validator_trust_of v =
     (let completed = v_accepted_jobs v + v_rejected_jobs v;
          invalid_weight = v_invalid_results v * VALIDATOR_PENALTY_INVALID_SIGNATURE in
      py_round 4 (fdiv (of_int (completed + 1)) (of_int (completed + 1 + invalid_weight))))"

definition refresh_validator_trust_score :: "string \<Rightarrow> 'a db_chain_scheme \<Rightarrow> 'a db_chain_scheme" where
  "refresh_validator_trust_score vid db =
     (case find_validator vid db of None \<Rightarrow> db
      | Some v \<Rightarrow> update_validator vid (\<lambda>w. w\<lparr>v_trust_score := validator_trust_of v\<rparr>) db)"

definition slash_amount :: "chain_env \<Rightarrow> validator_row \<Rightarrow> pyfloat" where
  "slash_amount E v = min (v_stake_locked v) (np_validator_slash_invalid_signature (ce_profile E))"

definition slashed ::
  "chain_env \<Rightarrow> int \<Rightarrow> int \<Rightarrow> validator_row \<Rightarrow> validator_row" where
  "slashed E invalid now v =
     (let slash = slash_amount E v; wallet_slash = min (v_wallet_stake_locked v) slash in
      v\<lparr>v_invalid_results := v_invalid_results v + invalid,
        v_stake_locked := max 0 (fsub (v_stake_locked v) slash),
        v_wallet_stake_locked := max 0 (fsub (v_wallet_stake_locked v) wallet_slash),
        v_slashed_amount := fadd (v_slashed_amount v) slash, v_last_seen_at := Some now\<rparr>)"

text \<open>The cooldown and the ban look at the count after the penalty.\<close>

definition banned_after :: "validator_row \<Rightarrow> validator_row" where
  "banned_after v = (if VALIDATOR_BAN_AFTER_INVALID_RESULTS \<le> v_invalid_results v then v\<lparr>v_is_banned := True\<rparr> else v)"

definition cooled_after :: "mining_env \<Rightarrow> validator_row \<Rightarrow> validator_row" where
  "cooled_after M v = (if VALIDATOR_COOLDOWN_AFTER_INVALID_RESULTS \<le> v_invalid_results v
     then v\<lparr>v_cooldown_until := Some (iso_at M VALIDATOR_COOLDOWN_SECONDS)\<rparr> else v)"

definition apply_validator_penalty :: "mining_env \<Rightarrow> string \<Rightarrow> 'a db_chain_scheme \<Rightarrow> 'a db_chain_scheme result" where
  "apply_validator_penalty M vid db =
     (case find_validator vid db of None \<Rightarrow> Inl TypeError
      | Some _ \<Rightarrow> Inr (refresh_validator_trust_score vid (update_validator vid
          (\<lambda>v. banned_after (cooled_after M (slashed (me_chain M) 1 (me_now M) v))) db)))"

definition apply_validator_fraud_penalty :: "mining_env \<Rightarrow> string \<Rightarrow> 'a db_chain_scheme \<Rightarrow> 'a db_chain_scheme result" where
  "apply_validator_fraud_penalty M vid db =
     (case find_validator vid db of None \<Rightarrow> Inl TypeError
      | Some _ \<Rightarrow> Inr (refresh_validator_trust_score vid (update_validator vid
          (\<lambda>v. banned_after ((slashed (me_chain M) FRAUD_VALIDATOR_INVALID_RESULTS (me_now M) v)
             \<lparr>v_cooldown_until := Some (iso_at M FRAUD_COOLDOWN_SECONDS)\<rparr>)) db)))"

definition record_validator_completed_vote ::
  "mining_env \<Rightarrow> string \<Rightarrow> bool \<Rightarrow> int \<Rightarrow> 'a db_chain_scheme \<Rightarrow> 'a db_chain_scheme" where
  "record_validator_completed_vote M vid approved validation_ms db =
     refresh_validator_trust_score vid (update_validator vid (\<lambda>v.
       (if approved then v\<lparr>v_accepted_jobs := v_accepted_jobs v + 1\<rparr> else v\<lparr>v_rejected_jobs := v_rejected_jobs v + 1\<rparr>)
        \<lparr>v_total_validation_ms := v_total_validation_ms v + validation_ms, v_last_seen_at := Some (me_now M)\<rparr>) db)"

section \<open>Retroactive audits\<close>

definition RETROACTIVE_AUDIT_INTERVAL_BLOCKS :: int where "RETROACTIVE_AUDIT_INTERVAL_BLOCKS = 314"

definition RETROACTIVE_AUDIT_SAMPLE_MULTIPLIER :: int where "RETROACTIVE_AUDIT_SAMPLE_MULTIPLIER = 2"

definition RETROACTIVE_AUDIT_REWARD_PERCENT_OF_BLOCK :: pyfloat where "RETROACTIVE_AUDIT_REWARD_PERCENT_OF_BLOCK = 0"

definition RETROACTIVE_AUDIT_REWARD_ACCOUNT_ID :: string where "RETROACTIVE_AUDIT_REWARD_ACCOUNT_ID = ''audit_treasury''"

record audit_request =
  aq_block_height :: "int option"
  aq_sample_multiplier :: int
  aq_automatic :: bool
  aq_trigger_height :: "int option"
  aq_trigger_timestamp :: "int option"
  aq_audit_id :: string
  aq_random_row :: nat

definition protocol_params_for_block :: "block_row \<Rightarrow> 'a db_consensus_scheme \<Rightarrow> params_row result" where
  "protocol_params_for_block b db =
     (case Option.bind (bl_protocol_params_id b) (\<lambda>i. protocol_params_by_id i db) of
        Some p \<Rightarrow> Inr p | None \<Rightarrow> active_protocol_params db)"

definition jopt :: "('x \<Rightarrow> json) \<Rightarrow> 'x option \<Rightarrow> json" where
  "jopt f x = (case x of None \<Rightarrow> JNull | Some v \<Rightarrow> f v)"

definition network_fields :: "mining_env \<Rightarrow> (string \<times> json) list" where
  "network_fields M = [(''chain_id'', jchain (CHAIN_ID (me_node M))), (''network_id'', JStr (NETWORK_ID (me_node M)))]"

definition select_scheduled_audit_block ::
  "mining_env \<Rightarrow> int option \<Rightarrow> 'a db_consensus_scheme \<Rightarrow> block_row option" where
  "select_scheduled_audit_block M trigger_height db =
     (let given = (case trigger_height of None \<Rightarrow> 0 | Some h \<Rightarrow> h);
          max_height = (if given \<le> 0 then latest_block_height db else given);
          rows = sort_key bl_height (filter (\<lambda>b. bl_height b \<le> max_height) (blocks db));
          trigger = tbl_find bl_height max_height (blocks db);
          seed = me_sha256 M (canonical_json (JObj (network_fields M @
            [(''trigger_block_hash'', jopt (\<lambda>b. JStr (bl_block_hash b)) trigger), (''trigger_height'', JInt max_height),
             (''trigger_previous_hash'', jopt (\<lambda>b. JStr (bl_previous_hash b)) trigger),
             (''type'', JStr ''scheduled_retroactive_audit_selection'')]))) in
      if rows = [] then None else Some (rows ! nat (hex_value (take 16 seed) mod int (length rows))))"

definition audited_block :: "mining_env \<Rightarrow> audit_request \<Rightarrow> 'a db_consensus_scheme \<Rightarrow> block_row option" where
  "audited_block M r db =
     (case aq_block_height r of
        Some h \<Rightarrow> tbl_find bl_height h (blocks db)
      | None \<Rightarrow> if aq_automatic r then select_scheduled_audit_block M (aq_trigger_height r) db
          else if blocks db = [] then None else Some (blocks db ! (aq_random_row r mod length (blocks db))))"

definition audit_time :: "mining_env \<Rightarrow> audit_request \<Rightarrow> int" where
  "audit_time M r = (case aq_trigger_timestamp r of None \<Rightarrow> me_now M | Some t \<Rightarrow> if aq_automatic r then t else me_now M)"

definition audit_seed_of :: "mining_env \<Rightarrow> audit_request \<Rightarrow> block_row \<Rightarrow> int \<Rightarrow> string" where
  "audit_seed_of M r b sample_count =
     me_sha256 M (canonical_json (JObj (if aq_automatic r
       then network_fields M @
         [(''automatic'', JBool True), (''audited_block_hash'', JStr (bl_block_hash b)),
          (''audited_block_height'', JInt (bl_height b)), (''created_at'', JStr (isoformat (audit_time M r))),
          (''sample_count'', JInt sample_count),
          (''trigger_height'', JInt (case aq_trigger_height r of None \<Rightarrow> 0 | Some h \<Rightarrow> h)),
          (''type'', JStr ''scheduled_retroactive_audit'')]
       else [(''audit_id'', JStr (aq_audit_id r)), (''automatic'', JBool False), (''block_hash'', JStr (bl_block_hash b)),
         (''block_height'', JInt (bl_height b)), (''created_at'', JStr (isoformat (audit_time M r))),
         (''sample_count'', JInt sample_count)])))"

definition audit_samples :: "mining_env \<Rightarrow> block_row \<Rightarrow> string \<Rightarrow> string \<Rightarrow> int \<Rightarrow> json list" where
  "audit_samples M b segment seed sample_count =
     map (\<lambda>position. JObj [(''position'', JInt position), (''digit'', JStr [segment ! nat (position - bl_range_start b)])])
       (build_challenge_samples M (bl_range_start b) (bl_range_end b) seed sample_count)"

definition apply_retroactive_audit_reward ::
  "mining_env \<Rightarrow> block_row \<Rightarrow> params_row \<Rightarrow> string \<Rightarrow> 'a db_mining_scheme \<Rightarrow> (pyfloat \<times> 'a db_mining_scheme) result" where
  "apply_retroactive_audit_reward M b p seed db =
     (let reward = py_round 8 (fmul (py_round 8 (pp_base_reward p)) RETROACTIVE_AUDIT_REWARD_PERCENT_OF_BLOCK) in
      if reward \<le> 0 then Inr (0, db)
      else bindE (mining_apply_ledger_entry (me_now M) None
        \<lparr>p_account_id = RETROACTIVE_AUDIT_REWARD_ACCOUNT_ID, p_account_type = ''audit'', p_amount = reward,
         p_entry_type = ''retroactive_audit_reward'', p_block_height = Some (bl_height b), p_related_id = Some seed,
         p_description = Some ''scheduled retroactive audit reward''\<rparr> db) (\<lambda>db1. Inr (reward, db1)))"

definition mark_block_fraudulent :: "int \<Rightarrow> string \<Rightarrow> int \<Rightarrow> 'a db_consensus_scheme \<Rightarrow> 'a db_consensus_scheme" where
  "mark_block_fraudulent height reason detected_at db =
     db\<lparr>blocks := tbl_update (\<lambda>b. bl_height b = height) (\<lambda>b. b\<lparr>bl_fraudulent := True, bl_fraud_reason := Some reason,
       bl_fraud_detected_at := Some (isoformat detected_at)\<rparr>) (blocks db)\<rparr>"

definition approvers_of_task :: "string \<Rightarrow> 'a db_certificates_scheme \<Rightarrow> string list" where
  "approvers_of_task task_id db = rev (remdups (rev (map vv_validator_id
     (filter (\<lambda>v. vv_task_id v = task_id \<and> vv_approved v) (validation_votes db)))))"

definition apply_fraud_penalties ::
  "mining_env \<Rightarrow> block_row \<Rightarrow> string \<Rightarrow> 'a db_mining_scheme \<Rightarrow> 'a db_mining_scheme result" where
  "apply_fraud_penalties M b reason db =
     (let db1 = apply_penalty M (bl_miner_id b) (bl_task_id b) FRAUD_MINER_PENALTY_POINTS reason
            (Some FRAUD_COOLDOWN_SECONDS) db in
      foldE (apply_validator_fraud_penalty M) (approvers_of_task (bl_task_id b) db1) db1)"

definition punish_fraud ::
  "mining_env \<Rightarrow> block_row \<Rightarrow> bool \<Rightarrow> int \<Rightarrow> 'a db_mining_scheme \<Rightarrow> (string \<times> 'a db_mining_scheme) result" where
  "punish_fraud M b passed timestamp db =
     (let reason = ''fraud detected: result_hash mismatch'' in
      if passed then Inr (''accepted'', db)
      else if bl_fraudulent b then Inr (''fraud confirmed: result_hash mismatch'', db)
      else bindE (apply_fraud_penalties M b reason (mark_block_fraudulent (bl_height b) reason timestamp db))
        (\<lambda>db1. Inr (reason, db1)))"

definition new_audit ::
  "mining_env \<Rightarrow> audit_request \<Rightarrow> block_row \<Rightarrow> int \<Rightarrow> string \<Rightarrow> string \<Rightarrow> string \<Rightarrow> pyfloat \<Rightarrow> audit_row" where
  "new_audit M r b sample_count seed segment reason reward =
     (let actual = hash_result (me_sha256 M) segment (bl_range_start b) (bl_range_end b) (bl_algorithm b);
          passed = (actual = bl_result_hash b) in
      \<lparr>au_block_height = bl_height b, au_block_hash = bl_block_hash b, au_audit_seed = seed,
       au_sample_count = sample_count, au_samples = audit_samples M b segment seed sample_count,
       au_expected_hash = bl_result_hash b, au_actual_hash = actual, au_passed = passed, au_reason = reason,
       au_automatic = aq_automatic r, au_reward = reward,
       au_reward_account_id = (if 0 < reward then Some RETROACTIVE_AUDIT_REWARD_ACCOUNT_ID else None),
       au_fraud_detected = (\<not> passed), au_created_at = audit_time M r\<rparr>)"

definition run_retroactive_audit_in_connection ::
  "mining_env \<Rightarrow> audit_request \<Rightarrow> 'a db_protocol_scheme \<Rightarrow> (audit_row \<times> 'a db_protocol_scheme) result" where
  "run_retroactive_audit_in_connection M r db =
     (case audited_block M r db of None \<Rightarrow> Inl (MiningError 404 ''block not found for retroactive audit'')
      | Some b \<Rightarrow>
        bindE (protocol_params_for_block b db) (\<lambda>p.
        let sample_count = min (bl_range_end b - bl_range_start b + 1) (pp_sample_count p * aq_sample_multiplier r);
            seed = audit_seed_of M r b sample_count in
        case tbl_find au_audit_seed seed (retroactive_audits db) of
          Some a \<Rightarrow> Inr (a, db)
        | None \<Rightarrow>
          bindE (calculate_pi_segment (bl_range_start b) (bl_range_end b) (bl_algorithm b)) (\<lambda>segment.
          bindE (if aq_automatic r then apply_retroactive_audit_reward M b p seed db else Inr (0, db)) (\<lambda>(reward, db1).
          bindE (punish_fraud M b
            (hash_result (me_sha256 M) segment (bl_range_start b) (bl_range_end b) (bl_algorithm b) = bl_result_hash b)
            (audit_time M r) db1) (\<lambda>(reason, db2).
          let a = new_audit M r b sample_count seed segment reason reward in
          Inr (a, db2\<lparr>retroactive_audits := retroactive_audits db2 @ [a]\<rparr>))))))"

text \<open>The audit after every 314th block mined here.\<close>

definition maybe_run_scheduled_retroactive_audit ::
  "mining_env \<Rightarrow> int \<Rightarrow> 'a db_protocol_scheme \<Rightarrow> (audit_row option \<times> 'a db_protocol_scheme) result" where
  "maybe_run_scheduled_retroactive_audit M current_height db =
     (if current_height \<le> 0 \<or> current_height mod RETROACTIVE_AUDIT_INTERVAL_BLOCKS \<noteq> 0 then Inr (None, db)
      else bindE (run_retroactive_audit_in_connection M
        \<lparr>aq_block_height = None, aq_sample_multiplier = RETROACTIVE_AUDIT_SAMPLE_MULTIPLIER, aq_automatic = True,
         aq_trigger_height = Some current_height,
         aq_trigger_timestamp = map_option bl_timestamp (tbl_find bl_height current_height (blocks db)),
         aq_audit_id = [], aq_random_row = 0\<rparr> db) (\<lambda>(a, db1). Inr (Some a, db1)))"

end
