(* ===== verification/Acceptance.thy ===== *)
theory Acceptance
  imports Audits
begin

text \<open>
  Acceptance of a validated result as a block (\<open>_accept_block_in_connection\<close> of
  \<open>app/services/mining.py\<close>): the anchor of the block, the transactions frozen for the task, the hash,
  the row, the rewards of miner, reserve, treasury and validators, the end of the round, retarget,
  audit, state root and the proposal. The dictionary that the code returns is represented by the row
  of the block; the parts of it that are only reported are left out, as are the column of the
  checkpoint and the periodic checkpoint itself. A timestamp read from a validation job is the
  instant it denotes.
\<close>

section \<open>Rewards of validators\<close>

definition approved_validator_ids_for_job :: "string \<Rightarrow> 'a db_certificates_scheme \<Rightarrow> string list" where
  "approved_validator_ids_for_job job_id db = map vv_validator_id (sort_key vv_created_at
     (filter (\<lambda>v. vv_job_id v = job_id \<and> vv_approved v) (validation_votes db)))"

text \<open>An account and its type.\<close>

definition reward_account_of :: "chain_env \<Rightarrow> string option \<Rightarrow> string \<Rightarrow> string \<Rightarrow> string \<times> string" where
  "reward_account_of E address owner kind =
     (case address of None \<Rightarrow> (owner, kind)
      | Some a \<Rightarrow> if a \<noteq> [] \<and> is_valid_address (ce_sha256 E) (Some a) then (a, ''wallet'') else (owner, kind))"

definition reward_account_for_miner :: "chain_env \<Rightarrow> string \<Rightarrow> 'a db_consensus_scheme \<Rightarrow> string \<times> string" where
  "reward_account_for_miner E miner_id db =
     reward_account_of E (Option.bind (find_miner miner_id db) mi_reward_address) miner_id ''miner''"

definition reward_account_for_validator :: "chain_env \<Rightarrow> string \<Rightarrow> 'a db_chain_scheme \<Rightarrow> string \<times> string" where
  "reward_account_for_validator E vid db =
     reward_account_of E (Option.bind (find_validator vid db) v_reward_address) vid ''validator''"

definition job_reward_posting :: "int \<Rightarrow> string \<Rightarrow> string \<times> string \<Rightarrow> int \<Rightarrow> posting" where
  "job_reward_posting h job_id account amount_units =
     \<lparr>p_account_id = fst account, p_account_type = snd account, p_amount = reward_units_to_float amount_units,
      p_entry_type = ''validator_reward'', p_block_height = Some h, p_related_id = Some job_id,
      p_description = Some ''additional validator reward''\<rparr>"

text \<open>The last validator gets what is left of the pool.\<close>

fun pay_approvers ::
  "mining_env \<Rightarrow> int \<Rightarrow> string \<Rightarrow> int \<Rightarrow> int \<Rightarrow> string list \<Rightarrow> int \<Rightarrow> 'a db_chain_scheme \<Rightarrow> 'a db_chain_scheme result" where
  "pay_approvers M h job_id pool per [] distributed db = Inr db"
| "pay_approvers M h job_id pool per (vid # vids) distributed db =
     (let amount_units = (if vids = [] then pool - distributed else per) in
      bindE (mining_apply_ledger_entry (me_now M) None
        (job_reward_posting h job_id (reward_account_for_validator (me_chain M) vid db) amount_units) db)
        (pay_approvers M h job_id pool per vids (distributed + amount_units)))"

definition reward_addresses :: "chain_env \<Rightarrow> string list \<Rightarrow> 'a db_chain_scheme \<Rightarrow> (string \<times> string) list" where
  "reward_addresses E validator_ids db =
     map (\<lambda>vid. (vid, fst (reward_account_for_validator E vid db)))
       (filter (\<lambda>vid. snd (reward_account_for_validator E vid db) = ''wallet'') validator_ids)"

definition no_validator_reward :: reward_payload where
  "no_validator_reward =
     \<lparr>vr_validator_ids = [], vr_pool = FloatA 0, vr_per_validator = FloatA 0, vr_reward_addresses = []\<rparr>"

definition apply_validator_rewards ::
  "mining_env \<Rightarrow> string \<Rightarrow> int \<Rightarrow> params_row \<Rightarrow> 'a db_certificates_scheme \<Rightarrow>
   (reward_payload \<times> 'a db_certificates_scheme) result" where
  "apply_validator_rewards M job_id h p db =
     bindE (validator_reward_pool_units \<lparr>base_reward = pp_base_reward p\<rparr>) (\<lambda>pool_units.
     let validator_ids = approved_validator_ids_for_job job_id db; per = pool_units div int (length validator_ids) in
     if validator_ids = [] \<or> pool_units \<le> 0 then Inr (no_validator_reward, db)
     else bindE (pay_approvers M h job_id pool_units per validator_ids 0 db) (\<lambda>db1.
       Inr (\<lparr>vr_validator_ids = validator_ids, vr_pool = FloatA (reward_units_to_float pool_units),
              vr_per_validator = FloatA (reward_units_to_float per),
              vr_reward_addresses = reward_addresses (me_chain M) validator_ids db\<rparr>, db1)))"

section \<open>Times\<close>

text \<open>\<open>int((end - start).total_seconds() * 1000)\<close>, not negative.\<close>

definition elapsed_between :: "int \<Rightarrow> int \<Rightarrow> int" where
  "elapsed_between start stop = max 0 (py_int (fmul (fdiv (of_int (stop - start)) (10 ^ 6)) 1000))"

definition elapsed_iso_ms :: "mining_env \<Rightarrow> string option \<Rightarrow> string option \<Rightarrow> int option" where
  "elapsed_iso_ms M start stop =
     (case (Option.bind start (ne_iso (me_node M)), Option.bind stop (ne_iso (me_node M))) of
        (Some a, Some b) \<Rightarrow> Some (elapsed_between a b) | _ \<Rightarrow> None)"

definition block_timestamp_for_validation_job :: "mining_env \<Rightarrow> string \<Rightarrow> 'a db_certificates_scheme \<Rightarrow> int" where
  "block_timestamp_for_validation_job M job_id db =
     (case tbl_find vj_job_id job_id (validation_jobs db) of None \<Rightarrow> me_now M
      | Some j \<Rightarrow> (case Option.bind (vj_job_created_at j) (ne_iso (me_node M)) of Some t \<Rightarrow> t
          | None \<Rightarrow> (case ne_iso (me_node M) (vj_created_at j) of Some t \<Rightarrow> t | None \<Rightarrow> me_now M)))"

definition validation_block_elapsed_ms :: "task_row \<Rightarrow> int \<Rightarrow> int" where
  "validation_block_elapsed_ms t timestamp =
     (case tk_compute_ms t of Some ms \<Rightarrow> max 0 ms | None \<Rightarrow> elapsed_between (tk_created_at t) timestamp)"

section \<open>The anchor\<close>

record block_anchor =
  an_height :: int
  an_previous_hash :: string
  an_anchored :: bool
  an_tip :: chain_tip

definition block_anchor_for_task :: "chain_env \<Rightarrow> task_row \<Rightarrow> 'a db_consensus_scheme \<Rightarrow> block_anchor" where
  "block_anchor_for_task E t db =
     (let tip = latest_tip E db; previous = str_strip (str_or (tk_competitive_round_previous_hash t) []);
          unanchored = \<lparr>an_height = tip_height tip + 1, an_previous_hash = tip_block_hash tip, an_anchored = False, an_tip = tip\<rparr> in
      if is_competitive_task t \<and> previous \<noteq> []
      then (case tk_competitive_round_height t of None \<Rightarrow> unanchored
        | Some h \<Rightarrow> \<lparr>an_height = h, an_previous_hash = previous, an_anchored = True, an_tip = tip\<rparr>)
      else unanchored)"

definition deferred :: "block_anchor \<Rightarrow> err" where
  "deferred a = ValidationFinalizationDeferred (''competitive round parent is not local chain tip: expected height='' @
     show_int (an_height a - 1) @ '' hash='' @ an_previous_hash a @ '' got height='' @ show_int (tip_height (an_tip a)) @
     '' hash='' @ tip_block_hash (an_tip a))"

definition ensure_block_anchor_is_local_tip :: "block_anchor \<Rightarrow> unit result" where
  "ensure_block_anchor_is_local_tip a =
     (if \<not> an_anchored a \<or> tip_height (an_tip a) = an_height a - 1 \<and> tip_block_hash (an_tip a) = an_previous_hash a
      then Inr () else Inl (deferred a))"

section \<open>The block\<close>

text \<open>The transactions of the snapshot against the commitment in the row of the task.\<close>

definition task_transactions ::
  "chain_env \<Rightarrow> task_row \<Rightarrow> 'a db_mempool_scheme \<Rightarrow> (tx list \<times> tx_commitment) result" where
  "task_transactions E t db =
     bindE (load_snapshot_transactions (ce_sha256 E) (tk_task_id t) db) (\<lambda>txs.
     bindE (transaction_commitment (ce_sha256 E) txs) (\<lambda>c.
     if cm_tx_merkle_root c = tk_tx_merkle_root t \<and>
        cm_selected_tx_hashes_hash c = str_or (tk_selected_tx_hashes_hash t) (selected_tx_hashes_hash (ce_sha256 E) []) \<and>
        cm_tx_count c = tk_tx_count t \<and> cm_tx_fee_total_units c = tk_tx_fee_total_units t
     then Inr (txs, c)
     else Inl (TransactionExecutionError (''tx snapshot mismatch for task '' @ tk_task_id t))))"

text \<open>What a block is made of before its hash is known.\<close>

record block_parts =
  bp_task :: task_row
  bp_job :: validation_job
  bp_params :: params_row
  bp_height :: int
  bp_previous_hash :: string
  bp_timestamp :: int
  bp_total_ms :: int
  bp_reward_units :: int
  bp_difficulty :: pyfloat
  bp_account :: "string \<times> string"
  bp_transactions :: "tx list"
  bp_commitment :: tx_commitment

definition bp_reward :: "block_parts \<Rightarrow> pyfloat" where "bp_reward k = reward_units_to_float (bp_reward_units k)"

definition bp_reward_address :: "block_parts \<Rightarrow> string option" where
  "bp_reward_address k = (if snd (bp_account k) = ''wallet'' then Some (fst (bp_account k)) else None)"

definition block_payload :: "block_parts \<Rightarrow> json" where
  "block_payload k =
     (let t = bp_task k; j = bp_job k; p = bp_params k; c = bp_commitment k in
      JObj ([(''algorithm'', JStr (tk_algorithm t)), (''height'', JInt (bp_height k)), (''miner_id'', JStr (vj_miner_id j)),
         (''previous_hash'', JStr (bp_previous_hash k)), (''range_end'', JInt (tk_range_end t)),
         (''range_start'', JInt (tk_range_start t)), (''result_hash'', JStr (vj_result_hash j)),
         (''reward'', JFloat (bp_reward k)), (''difficulty'', JFloat (bp_difficulty k)), (''samples'', JList (vj_samples j)),
         (''timestamp'', JStr (isoformat (bp_timestamp k))), (''protocol_params_id'', JInt (pp_id p)),
         (''protocol_version'', JStr (pp_protocol_version p)), (''total_block_ms'', JInt (bp_total_ms k)),
         (''validation_mode'', JStr (pp_validation_mode p))] @
       (case bp_reward_address k of None \<Rightarrow> [] | Some a \<Rightarrow> [(''miner_reward_address'', JStr a)]) @
       (if vj_merkle_root j = [] then [] else [(''merkle_root'', JStr (vj_merkle_root j))]) @
       (if cm_tx_count c = 0 then []
        else [(''tx_merkle_root'', JStr (cm_tx_merkle_root c)), (''tx_count'', JInt (cm_tx_count c)),
          (''tx_hashes'', JList (map JStr (cm_tx_hashes c))), (''fee_reward'', JFloat (cm_fee_reward c))])))"

definition parts_hash :: "chain_env \<Rightarrow> block_parts \<Rightarrow> string" where
  "parts_hash E k = ce_sha256 E (canonical_json (block_payload k))"

definition accepted_row :: "chain_env \<Rightarrow> block_parts \<Rightarrow> int \<Rightarrow> int \<Rightarrow> int \<Rightarrow> block_row" where
  "accepted_row E k reward_u fee_u validation_ms =
     (let t = bp_task k; j = bp_job k; p = bp_params k; c = bp_commitment k in
      \<lparr>bl_height = bp_height k, bl_previous_hash = bp_previous_hash k, bl_miner_id = vj_miner_id j,
       bl_range_start = tk_range_start t, bl_range_end = tk_range_end t, bl_algorithm = tk_algorithm t,
       bl_result_hash = vj_result_hash j, bl_merkle_root = Some (vj_merkle_root j), bl_samples = vj_samples j,
       bl_timestamp = bp_timestamp k, bl_block_hash = parts_hash E k, bl_reward = bp_reward k, bl_reward_units = reward_u,
       bl_tx_merkle_root = Some (cm_tx_merkle_root c), bl_tx_count = cm_tx_count c, bl_tx_hashes = cm_tx_hashes c,
       bl_fee_reward = cm_fee_reward c, bl_fee_reward_units = fee_u, bl_miner_reward_address = bp_reward_address k,
       bl_state_root = None, bl_difficulty = Some (bp_difficulty k), bl_task_id = tk_task_id t,
       bl_protocol_params_id = Some (pp_id p), bl_protocol_version = pp_protocol_version p,
       bl_validation_mode = pp_validation_mode p, bl_total_task_ms = Some (bp_total_ms k),
       bl_total_block_ms = Some (bp_total_ms k), bl_validation_ms = Some validation_ms, bl_fraudulent = False,
       bl_fraud_reason = None, bl_fraud_detected_at = None\<rparr>)"

text \<open>The dictionary that becomes the payload of the proposal.\<close>

definition accepted_block :: "chain_env \<Rightarrow> block_parts \<Rightarrow> string \<Rightarrow> reward_payload \<Rightarrow> block" where
  "accepted_block E k state_root vr =
     (let t = bp_task k; j = bp_job k; p = bp_params k; c = bp_commitment k in
      \<lparr>bk_height = bp_height k, bk_previous_hash = bp_previous_hash k, bk_miner_id = vj_miner_id j,
       bk_range_start = tk_range_start t, bk_range_end = tk_range_end t, bk_algorithm = tk_algorithm t,
       bk_result_hash = vj_result_hash j, bk_samples = vj_samples j, bk_timestamp = bp_timestamp k,
       bk_block_hash = parts_hash E k, bk_reward = bp_reward k, bk_difficulty = Some (bp_difficulty k),
       bk_protocol_params_id = Some (pp_id p), bk_total_task_ms = Some (bp_total_ms k),
       bk_total_block_ms = Some (bp_total_ms k), bk_merkle_root = Some (vj_merkle_root j),
       bk_miner_reward_address = bp_reward_address k, bk_tx_merkle_root = Some (cm_tx_merkle_root c),
       bk_tx_count = cm_tx_count c, bk_tx_hashes = cm_tx_hashes c, bk_fee_reward = cm_fee_reward c,
       bk_protocol_version = Some (pp_protocol_version p), bk_validation_mode = Some (pp_validation_mode p),
       bk_fraudulent = False, bk_fraud_reason = None, bk_fraud_detected_at = None, bk_state_root = Some state_root,
       bk_task_id = None, bk_transactions = bp_transactions k, bk_validator_reward = Some vr,
       bk_finality_certificate = None\<rparr>)"

section \<open>Acceptance\<close>

definition block_parts_of ::
  "protocol_env \<Rightarrow> task_row \<Rightarrow> validation_job \<Rightarrow> params_row \<Rightarrow> block_anchor \<Rightarrow> int \<Rightarrow> int \<Rightarrow> tx list \<times> tx_commitment \<Rightarrow>
   'a db_consensus_scheme \<Rightarrow> block_parts" where
  "block_parts_of P t j p a reward_u timestamp txs db =
     \<lparr>bp_task = t, bp_job = j, bp_params = p, bp_height = an_height a, bp_previous_hash = an_previous_hash a,
      bp_timestamp = timestamp, bp_total_ms = validation_block_elapsed_ms t timestamp, bp_reward_units = reward_u,
      bp_difficulty = calculate_difficulty P p,
      bp_account = reward_account_for_miner (me_chain (pe_mining P)) (vj_miner_id j) db,
      bp_transactions = fst txs, bp_commitment = snd txs\<rparr>"

text \<open>The guards, and the parts of the block.\<close>

definition prepare_block ::
  "protocol_env \<Rightarrow> task_row \<Rightarrow> validation_job \<Rightarrow> params_row \<Rightarrow> 'a db_consensus_scheme \<Rightarrow> block_parts result" where
  "prepare_block P t j p db =
     (let E = me_chain (pe_mining P); a = block_anchor_for_task E t db in
      bindE (ensure_block_anchor_is_local_tip a) (\<lambda>_.
      bindE (ensure_competitive_task_can_finalize t db) (\<lambda>_.
      bindE (miner_reward_units \<lparr>base_reward = pp_base_reward p\<rparr>) (\<lambda>reward_u.
      bindE (task_transactions E t db) (\<lambda>txs.
      Inr (block_parts_of P t j p a reward_u (block_timestamp_for_validation_job (pe_mining P) (vj_job_id j) db) txs db))))))"

text \<open>The row of the block, the accepted task and the submission.\<close>

definition record_accepted ::
  "mining_env \<Rightarrow> block_parts \<Rightarrow> string \<Rightarrow> string \<Rightarrow> int \<Rightarrow> 'a db_mining_scheme \<Rightarrow> (block_row \<times> 'a db_mining_scheme) result" where
  "record_accepted M k signature submission_reason validation_ms db =
     (let t = bp_task k; j = bp_job k in
      bindE (to_units (FloatA (bp_reward k))) (\<lambda>reward_u.
      bindE (to_units (FloatA (cm_fee_reward (bp_commitment k)))) (\<lambda>fee_u.
      let row = accepted_row (me_chain M) k reward_u fee_u validation_ms in
      bindE (insert_block row db) (\<lambda>db1.
      bindE (accept_task (\<lambda>u. tk_task_id u = tk_task_id t)
        (\<lambda>u. u\<lparr>tk_submitted_at := Some (isoformat (bp_timestamp k))\<rparr>) db1) (\<lambda>db2.
      Inr (row, record_submission M (tk_task_id t) (vj_miner_id j) (vj_result_hash j) [] (Some signature) True
        submission_reason db2))))))"

definition accepted_reward_args :: "block_parts \<Rightarrow> reward_args" where
  "accepted_reward_args k =
     \<lparr>ra_miner_id = vj_miner_id (bp_job k), ra_account_id = fst (bp_account k), ra_account_type = snd (bp_account k),
      ra_block_height = bp_height k, ra_amount = bp_reward k, ra_reason = ''block accepted'',
      ra_related_id = Some (tk_task_id (bp_task k)), ra_description = ''miner block reward''\<rparr>"

text \<open>The money of the block.\<close>

definition settle_accepted ::
  "mining_env \<Rightarrow> block_parts \<Rightarrow> 'a db_mining_scheme \<Rightarrow> (reward_payload \<times> 'a db_mining_scheme) result" where
  "settle_accepted M k db =
     (let N = me_node M; S = ne_settings N; h = bp_height k; now = me_now M;
          total_reward = py_round 8 (pp_base_reward (bp_params k)) in
      bindE (record_miner_block_reward (st_block_maturity_depth S) (accepted_reward_args k) (bp_timestamp k) db) (\<lambda>(_, db1).
      bindE (apply_block_transactions N (fst (bp_account k)) (snd (bp_account k)) h (bp_transactions k)
        (Some (bp_timestamp k)) False db1) (\<lambda>(_, db2).
      bindE (record_science_reserve_for_block now h total_reward db2) (\<lambda>(_, db3).
      bindE (record_scientific_development_treasury_for_block S now h total_reward db3) (\<lambda>(_, db4).
      apply_validator_rewards M (vj_job_id (bp_job k)) h (bp_params k) db4)))))"

text \<open>What follows the block: the round, matured rewards, trust, retarget, audit, root, proposal.\<close>

definition conclude_accepted ::
  "protocol_env \<Rightarrow> block_parts \<Rightarrow> reward_payload \<Rightarrow> 'a db_protocol_scheme \<Rightarrow> (string \<times> 'a db_protocol_scheme) result" where
  "conclude_accepted P k vr db =
     (let M = pe_mining P; h = bp_height k;
          db1 = snd (close_competitive_round_after_block M (bp_task k) h (bp_timestamp k) db) in
      bindE (mature_block_rewards h (bp_timestamp k) db1) (\<lambda>(_, db2).
      bindE (maybe_retarget_after_block P h False (refresh_trust_score (vj_miner_id (bp_job k)) db2)) (\<lambda>(_, db3).
      bindE (maybe_run_scheduled_retroactive_audit M h db3) (\<lambda>(_, db4).
      bindE (update_block_state_root (me_chain M) h (bp_timestamp k) db4) (\<lambda>(state_root, db5).
      bindE (record_local_block_proposal (me_chain M) (me_now M) (accepted_block (me_chain M) k state_root vr)
        (Some (vj_miner_id (bp_job k))) db5) (\<lambda>(_, db6). Inr (state_root, db6)))))))"

definition accept_block_in_connection ::
  "protocol_env \<Rightarrow> task_row \<Rightarrow> validation_job \<Rightarrow> string \<Rightarrow> string \<Rightarrow> int \<Rightarrow> params_row \<Rightarrow> 'a db_protocol_scheme \<Rightarrow>
   (block_row \<times> 'a db_protocol_scheme) result" where
  "accept_block_in_connection P t j signature submission_reason validation_ms p db =
     (case tbl_find bl_task_id (tk_task_id t) (blocks db) of
        Some r \<Rightarrow> Inr (r, db)
      | None \<Rightarrow>
        bindE (prepare_block P t j p db) (\<lambda>k.
        bindE (record_accepted (pe_mining P) k signature submission_reason validation_ms db) (\<lambda>(row, db1).
        bindE (settle_accepted (pe_mining P) k db1) (\<lambda>(vr, db2).
        bindE (conclude_accepted P k vr db2) (\<lambda>(state_root, db3).
        Inr (row\<lparr>bl_state_root := Some state_root\<rparr>, db3))))))"

end
