(* ===== verification/Validation.thy ===== *)
theory Validation
  imports Acceptance
begin

text \<open>
  Votes of validators on a revealed result (\<open>app/services/mining.py\<close>): \<open>submit_validation_result\<close>,
  \<open>receive_validation_vote_gossip\<close> and the finalization of a job that has reached its quorum, as a
  block or as a rejection. A finalization runs inside a savepoint: when it is deferred or its
  transactions fail, the database is the one before it. \<open>submit_validation_result\<close> returns its
  exception next to the database, because it commits a penalty before it raises. Log lines are left
  out; the measured duration of a request is an argument.
\<close>

section \<open>Votes\<close>

record vote_counts =
  vc_approvals :: int
  vc_rejections :: int

definition validation_vote_counts :: "string \<Rightarrow> 'a db_certificates_scheme \<Rightarrow> vote_counts" where
  "validation_vote_counts job_id db = \<lparr>vc_approvals = vote_count job_id True db, vc_rejections = vote_count job_id False db\<rparr>"

definition has_voted :: "string \<Rightarrow> string \<Rightarrow> 'a db_certificates_scheme \<Rightarrow> bool" where
  "has_voted job_id vid db \<longleftrightarrow> (\<exists>v \<in> set (validation_votes db). vv_job_id v = job_id \<and> vv_validator_id v = vid)"

text \<open>The UNIQUE columns of \<open>validation_votes\<close>.\<close>

definition insert_validation_vote :: "validation_vote \<Rightarrow> 'a db_certificates_scheme \<Rightarrow> 'a db_certificates_scheme result" where
  "insert_validation_vote v db =
     (if has_voted (vv_job_id v) (vv_validator_id v) db
      then Inl (IntegrityError ''validation_votes.job_id, validation_votes.validator_id'')
      else Inr (db\<lparr>validation_votes := validation_votes db @ [v]\<rparr>))"

definition find_job :: "string \<Rightarrow> 'a db_certificates_scheme \<Rightarrow> validation_job option" where
  "find_job job_id db = tbl_find vj_job_id job_id (validation_jobs db)"

definition update_job ::
  "string \<Rightarrow> (validation_job \<Rightarrow> validation_job) \<Rightarrow> 'a db_certificates_scheme \<Rightarrow> 'a db_certificates_scheme" where
  "update_job job_id f db = update_jobs (\<lambda>j. vj_job_id j = job_id) f db"

section \<open>The times of a job\<close>

definition votes_in_order :: "string \<Rightarrow> 'a db_certificates_scheme \<Rightarrow> validation_vote list" where
  "votes_in_order job_id db = sort_key vv_created_at (filter (\<lambda>v. vv_job_id v = job_id) (validation_votes db))"

definition nth_vote_at :: "nat \<Rightarrow> string \<Rightarrow> string \<Rightarrow> 'a db_certificates_scheme \<Rightarrow> string" where
  "nth_vote_at n job_id received_at db =
     (let votes = votes_in_order job_id db in if n < length votes then vv_created_at (votes ! n) else received_at)"

definition job_created_text :: "validation_job \<Rightarrow> string" where
  "job_created_text j = str_or (vj_job_created_at j) (vj_created_at j)"

definition refresh_validation_job_timing ::
  "mining_env \<Rightarrow> string \<Rightarrow> vote_counts \<Rightarrow> int \<Rightarrow> string \<Rightarrow> 'a db_certificates_scheme \<Rightarrow> 'a db_certificates_scheme" where
  "refresh_validation_job_timing M job_id c required received_at db =
     (case find_job job_id db of None \<Rightarrow> db
      | Some j \<Rightarrow>
        let created = Some (job_created_text j); votes = vc_approvals c + vc_rejections c;
            set_first = (1 \<le> votes \<and> \<not> truthy_text (vj_first_vote_at j));
            set_second = (2 \<le> votes \<and> \<not> truthy_text (vj_second_vote_at j));
            set_quorum = ((required \<le> vc_approvals c \<or> required \<le> vc_rejections c) \<and> \<not> truthy_text (vj_quorum_reached_at j));
            at1 = nth_vote_at 0 job_id received_at db; at2 = nth_vote_at 1 job_id received_at db in
        update_job job_id (\<lambda>j. j
          \<lparr>vj_first_vote_at := (if set_first then Some at1 else vj_first_vote_at j),
           vj_waiting_for_first_vote_ms := (if set_first then elapsed_iso_ms M created (Some at1) else vj_waiting_for_first_vote_ms j),
           vj_second_vote_at := (if set_second then Some at2 else vj_second_vote_at j),
           vj_quorum_reached_at := (if set_quorum then Some received_at else vj_quorum_reached_at j),
           vj_waiting_for_quorum_ms := (if set_quorum then elapsed_iso_ms M created (Some received_at)
             else vj_waiting_for_quorum_ms j)\<rparr>) db)"

text \<open>\<open>max(fallback, None)\<close> raises.\<close>

definition quorum_validation_ms :: "mining_env \<Rightarrow> validation_job \<Rightarrow> string \<Rightarrow> int \<Rightarrow> int result" where
  "quorum_validation_ms M j received_at fallback_ms =
     (case elapsed_iso_ms M (Some (job_created_text j)) (Some received_at) of
        None \<Rightarrow> Inl TypeError | Some ms \<Rightarrow> Inr (max (max 0 fallback_ms) ms))"

definition mark_validation_job_finalized ::
  "mining_env \<Rightarrow> string \<Rightarrow> string \<Rightarrow> 'a db_certificates_scheme \<Rightarrow> 'a db_certificates_scheme" where
  "mark_validation_job_finalized M job_id finalized_at db =
     (let quorum_at = (case find_job job_id db of None \<Rightarrow> finalized_at
            | Some j \<Rightarrow> str_or (vj_quorum_reached_at j) finalized_at) in
      update_job job_id (\<lambda>j. j\<lparr>vj_finalized_at := Some finalized_at,
        vj_finalization_ms := elapsed_iso_ms M (Some quorum_at) (Some finalized_at)\<rparr>) db)"

section \<open>Closing a job\<close>

text \<open>The vote that decides.\<close>

record deciding_vote =
  dv_validator_id :: string
  dv_approved :: bool
  dv_reason :: string
  dv_signature :: string
  dv_validation_ms :: int

text \<open>\<open>UPDATE validation_jobs SET status, assigned_validator_id, \<dots>\<close> after \<open>_mark_validation_job_finalized\<close>.\<close>

definition close_job ::
  "mining_env \<Rightarrow> string \<Rightarrow> string \<Rightarrow> deciding_vote \<Rightarrow> string \<Rightarrow> 'a db_certificates_scheme \<Rightarrow> 'a db_certificates_scheme" where
  "close_job M job_id status d reason db =
     (let finalized_at = isoformat (me_now M) in
      update_job job_id (\<lambda>j. j\<lparr>vj_status := status, vj_assigned_validator_id := Some (dv_validator_id d),
        vj_result_reason := Some reason, vj_validator_signature := Some (dv_signature d),
        vj_validation_ms := Some (dv_validation_ms d), vj_completed_at := Some finalized_at\<rparr>)
        (mark_validation_job_finalized M job_id finalized_at db))"

definition reject_task :: "mining_env \<Rightarrow> string \<Rightarrow> 'a db_mempool_scheme \<Rightarrow> 'a db_mempool_scheme" where
  "reject_task M task_id db = update_tasks (\<lambda>t. tk_task_id t = task_id)
     (\<lambda>t. t\<lparr>tk_status := ''rejected'', tk_submitted_at := Some (isoformat (me_now M))\<rparr>) db"

record vote_response =
  vp_accepted :: bool
  vp_status :: string
  vp_message :: string
  vp_block :: "block_row option"
  vp_certificate :: "json option"
  vp_approvals :: int
  vp_rejections :: int
  vp_required :: int

definition respond ::
  "bool \<Rightarrow> string \<Rightarrow> string \<Rightarrow> vote_counts \<Rightarrow> int \<Rightarrow> vote_response" where
  "respond accepted status message c required =
     \<lparr>vp_accepted = accepted, vp_status = status, vp_message = message, vp_block = None, vp_certificate = None,
      vp_approvals = vc_approvals c, vp_rejections = vc_rejections c, vp_required = required\<rparr>"

definition find_duplicate_block :: "validation_job \<Rightarrow> 'a db_consensus_scheme \<Rightarrow> block_row option" where
  "find_duplicate_block j db =
     List.find (\<lambda>b. bl_result_hash b = vj_result_hash j \<or> bl_task_id b = vj_task_id j) (blocks db)"

definition certified_row :: "block_row \<Rightarrow> certified_block" where
  "certified_row r =
     \<lparr>cb_height = bl_height r, cb_block_hash = bl_block_hash r, cb_previous_hash = bl_previous_hash r,
      cb_state_root = bl_state_root r, cb_miner_id = bl_miner_id r, cb_result_hash = bl_result_hash r,
      cb_merkle_root = bl_merkle_root r, cb_tx_merkle_root = bl_tx_merkle_root r, cb_tx_count = bl_tx_count r,
      cb_protocol_version = bl_protocol_version r, cb_protocol_params_id = bl_protocol_params_id r\<rparr>"

text \<open>The job is approved and its certificate made.\<close>

definition approve_job ::
  "mining_env \<Rightarrow> validation_job \<Rightarrow> deciding_vote \<Rightarrow> string \<Rightarrow> block_row \<Rightarrow> vote_counts \<Rightarrow> int \<Rightarrow> 'a db_mining_scheme \<Rightarrow>
   (vote_response \<times> 'a db_mining_scheme) result" where
  "approve_job M j d reason r c required db =
     bindE (create_finality_certificate (me_node M) (certified_row r) (vj_job_id j) required (isoformat (me_now M))
       (close_job M (vj_job_id j) ''approved'' d reason db)) (\<lambda>(certificate, db1).
     Inr (respond True ''approved'' ''block accepted by validator quorum'' c required
       \<lparr>vp_block := Some r, vp_certificate := Some certificate\<rparr>, db1))"

definition duplicate_reason :: "block_row \<Rightarrow> string" where
  "duplicate_reason b = ''duplicate competitive result already accepted at block '' @ show_int (bl_height b)"

definition reject_duplicate ::
  "mining_env \<Rightarrow> validation_job \<Rightarrow> deciding_vote \<Rightarrow> block_row \<Rightarrow> vote_counts \<Rightarrow> int \<Rightarrow> 'a db_mining_scheme \<Rightarrow>
   vote_response \<times> 'a db_mining_scheme" where
  "reject_duplicate M j d b c required db =
     (let reason = duplicate_reason b in
      (respond False ''rejected'' reason c required,
       close_job M (vj_job_id j) ''rejected'' d reason
         (release_for_task M (vj_task_id j) reason (me_now M) (reject_task M (vj_task_id j) db))))"

text \<open>A failed finalization; \<open>keep_stale\<close> leaves a stale task alone.\<close>

definition fail_finalization ::
  "mining_env \<Rightarrow> bool \<Rightarrow> validation_job \<Rightarrow> deciding_vote \<Rightarrow> string \<Rightarrow> vote_counts \<Rightarrow> int \<Rightarrow> 'a db_mining_scheme \<Rightarrow>
   vote_response \<times> 'a db_mining_scheme" where
  "fail_finalization M keep_stale j d detail c required db =
     (let competitive = starts_with ''competitive round'' detail;
          reason = (if competitive then detail else ''transaction finalization failed: '' @ detail);
          is_stale = (case find_task (vj_task_id j) db of None \<Rightarrow> False | Some t \<Rightarrow> tk_status t = ''stale'');
          db1 = (if competitive then snd (mark_competitive_task_stale M (vj_task_id j) reason (me_now M) db)
            else if keep_stale \<and> is_stale then db
            else release_for_task M (vj_task_id j) reason (me_now M) (reject_task M (vj_task_id j) db)) in
      (respond False (if competitive then ''stale'' else ''rejected'') reason c required,
       close_job M (vj_job_id j) ''rejected'' d reason db1))"

text \<open>The savepoint around the acceptance.\<close>

definition finalize_block ::
  "protocol_env \<Rightarrow> bool \<Rightarrow> validation_job \<Rightarrow> task_row \<Rightarrow> deciding_vote \<Rightarrow> string \<Rightarrow> params_row \<Rightarrow> vote_counts \<Rightarrow> int \<Rightarrow>
   'a db_protocol_scheme \<Rightarrow> (vote_response \<times> 'a db_protocol_scheme) result" where
  "finalize_block P keep_stale j t d received_at p c required db =
     (let M = pe_mining P in
      case bindE (quorum_validation_ms M j received_at (dv_validation_ms d)) (\<lambda>ms.
          accept_block_in_connection P t j (dv_signature d) (''external validation approved by '' @ dv_validator_id d) ms p db) of
        Inr (r, db1) \<Rightarrow> approve_job M j d (dv_reason d) r c required db1
      | Inl (ValidationFinalizationDeferred detail) \<Rightarrow> Inr (respond True ''validation_pending'' detail c required, db)
      | Inl (TransactionExecutionError detail) \<Rightarrow> Inr (fail_finalization M keep_stale j d detail c required db)
      | Inl e \<Rightarrow> Inl e)"

text \<open>The quorum of rejections.\<close>

definition reject_job ::
  "mining_env \<Rightarrow> validation_job \<Rightarrow> deciding_vote \<Rightarrow> vote_counts \<Rightarrow> int \<Rightarrow> 'a db_mining_scheme \<Rightarrow>
   vote_response \<times> 'a db_mining_scheme" where
  "reject_job M j d c required db =
     (respond True ''rejected'' ''validation rejected task by validator quorum'' c required,
      apply_penalty M (vj_miner_id j) (vj_task_id j) PENALTY_INVALID_RESULT (dv_reason d) None
        (close_job M (vj_job_id j) ''rejected'' d (dv_reason d) (reject_task M (vj_task_id j) db)))"

section \<open>Finalization from votes received\<close>

definition adopt_block ::
  "mining_env \<Rightarrow> validation_job \<Rightarrow> deciding_vote \<Rightarrow> block_row \<Rightarrow> vote_counts \<Rightarrow> int \<Rightarrow> 'a db_mining_scheme \<Rightarrow>
   (vote_response \<times> 'a db_mining_scheme) result" where
  "adopt_block M j d b c required db =
     (let reason = ''block already accepted at height '' @ show_int (bl_height b) in
      bindE (accept_task (\<lambda>t. tk_task_id t = vj_task_id j)
        (\<lambda>t. t\<lparr>tk_submitted_at := coalesce (tk_submitted_at t) (isoformat (me_now M))\<rparr>) db) (\<lambda>db1.
      bindE (approve_job M j d reason b c required db1) (\<lambda>(response, db2).
      Inr (response\<lparr>vp_message := reason\<rparr>, db2))))"

definition finalize_validation_quorum_from_gossip ::
  "protocol_env \<Rightarrow> validation_job \<Rightarrow> task_row \<Rightarrow> deciding_vote \<Rightarrow> params_row \<Rightarrow> vote_counts \<Rightarrow> int \<Rightarrow>
   'a db_protocol_scheme \<Rightarrow> (vote_response option \<times> 'a db_protocol_scheme) result" where
  "finalize_validation_quorum_from_gossip P j t d p c required db =
     (let M = pe_mining P; some = (\<lambda>(response, db1). Inr (Some response, db1)) in
      if dv_approved d \<and> required \<le> vc_approvals c
      then (case find_duplicate_block j db of
          Some b \<Rightarrow> if bl_task_id b = vj_task_id j \<and> bl_result_hash b = vj_result_hash j
            then bindE (adopt_block M j d b c required db) some
            else some (reject_duplicate M j d b c required db)
        | None \<Rightarrow> bindE (finalize_block P False j t d (isoformat (me_now M)) p c required db) some)
      else if \<not> dv_approved d \<and> required \<le> vc_rejections c then some (reject_job M j d c required db)
      else Inr (None, db))"

definition deciding_vote_of :: "validation_vote \<Rightarrow> deciding_vote" where
  "deciding_vote_of v =
     \<lparr>dv_validator_id = vv_validator_id v, dv_approved = True, dv_reason = vv_reason v, dv_signature = vv_signature v,
      dv_validation_ms = (case vv_validation_ms v of None \<Rightarrow> 0 | Some ms \<Rightarrow> ms)\<rparr>"

text \<open>\<open>ORDER BY created_at DESC, id DESC LIMIT 1\<close>.\<close>

definition latest_approval :: "string \<Rightarrow> 'a db_certificates_scheme \<Rightarrow> validation_vote option" where
  "latest_approval job_id db =
     (case filter vv_approved (votes_in_order job_id db) of [] \<Rightarrow> None | v # vs \<Rightarrow> Some (last (v # vs)))"

definition finalize_pending_validation_job_from_existing_votes ::
  "protocol_env \<Rightarrow> validation_job \<Rightarrow> vote_counts \<Rightarrow> int \<Rightarrow> 'a db_protocol_scheme \<Rightarrow>
   (vote_response option \<times> 'a db_protocol_scheme) result" where
  "finalize_pending_validation_job_from_existing_votes P j c required db =
     (if vj_status j \<noteq> ''pending'' \<or> vc_approvals c < required then Inr (None, db)
      else case find_task (vj_task_id j) db of
        None \<Rightarrow> Inl (MiningError 404 ''validation task not found'')
      | Some t \<Rightarrow> (case latest_approval (vj_job_id j) db of
          None \<Rightarrow> Inr (None, db)
        | Some v \<Rightarrow> bindE (protocol_params_for_task t db) (\<lambda>p.
            finalize_validation_quorum_from_gossip P j t (deciding_vote_of v) p c required db)))"

section \<open>A vote submitted by a validator\<close>

record vote_request =
  vq_job_id :: string
  vq_validator_id :: string
  vq_approved :: bool
  vq_reason :: string
  vq_signature :: string
  vq_signed_at :: string
  vq_measured_ms :: int

definition vote_payload :: "string \<Rightarrow> string \<Rightarrow> string \<Rightarrow> bool \<Rightarrow> string \<Rightarrow> string \<Rightarrow> json" where
  "vote_payload job_id vid task_id approved reason signed_at =
     build_validation_result_signature_payload job_id vid task_id approved reason signed_at"

text \<open>A \<open>RuntimeError\<close> or \<open>ValueError\<close> of the check counts as invalid.\<close>

definition vote_signature_valid :: "mining_env \<Rightarrow> validator_row \<Rightarrow> json \<Rightarrow> string \<Rightarrow> bool" where
  "vote_signature_valid M v payload signature \<longleftrightarrow>
     verify_payload_signature (ce_verify (me_chain M)) (v_public_key v) payload signature = Inr True"

definition required_approvals :: "mining_env \<Rightarrow> params_row \<Rightarrow> int" where
  "required_approvals M p = effective_required_validator_approvals (me_chain M) p"

definition completed_response ::
  "protocol_env \<Rightarrow> validation_job \<Rightarrow> params_row \<Rightarrow> 'a db_protocol_scheme \<Rightarrow> vote_response" where
  "completed_response P j p db =
     respond False (vj_status j) ''validation job already completed'' (validation_vote_counts (vj_job_id j) db)
       (required_approvals (pe_mining P) p)"

definition existing_vote_response ::
  "protocol_env \<Rightarrow> validation_job \<Rightarrow> params_row \<Rightarrow> 'a db_protocol_scheme \<Rightarrow> (vote_response \<times> 'a db_protocol_scheme) result" where
  "existing_vote_response P j p db =
     (let c = validation_vote_counts (vj_job_id j) db; required = required_approvals (pe_mining P) p in
      bindE (finalize_pending_validation_job_from_existing_votes P j c required db) (\<lambda>(f, db1).
      let message = (case f of None \<Rightarrow> [] | Some r \<Rightarrow> vp_message r) in
      Inr (case f of
          Some r \<Rightarrow> if vp_status r = ''approved''
            then (respond True ''approved'' ''block accepted by validator quorum'' c required)
              \<lparr>vp_block := vp_block r, vp_certificate := vp_certificate r\<rparr>
            else respond False ''already_voted''
              (str_or (Some message) ''validator already submitted a vote for this job'') c required
        | None \<Rightarrow> respond False ''already_voted'' ''validator already submitted a vote for this job'' c required, db1)))"

definition vote_of_request :: "mining_env \<Rightarrow> vote_request \<Rightarrow> validation_job \<Rightarrow> validation_vote" where
  "vote_of_request M r j =
     (let received_at = isoformat (me_now M) in
      \<lparr>vv_job_id = vq_job_id r, vv_task_id = vj_task_id j, vv_validator_id = vq_validator_id r, vv_approved = vq_approved r,
       vv_reason = vq_reason r, vv_signature = vq_signature r, vv_signed_at = vq_signed_at r,
       vv_validation_ms = Some (vq_measured_ms r),
       vv_submit_result_latency_ms = elapsed_iso_ms M (Some (vq_signed_at r)) (Some received_at), vv_created_at = received_at\<rparr>)"

definition deciding_request :: "vote_request \<Rightarrow> deciding_vote" where
  "deciding_request r =
     \<lparr>dv_validator_id = vq_validator_id r, dv_approved = vq_approved r, dv_reason = vq_reason r,
      dv_signature = vq_signature r, dv_validation_ms = vq_measured_ms r\<rparr>"

text \<open>After the vote is stored.\<close>

definition decide_vote ::
  "protocol_env \<Rightarrow> vote_request \<Rightarrow> validation_job \<Rightarrow> task_row \<Rightarrow> params_row \<Rightarrow> vote_counts \<Rightarrow> int \<Rightarrow>
   'a db_protocol_scheme \<Rightarrow> (vote_response \<times> 'a db_protocol_scheme) result" where
  "decide_vote P r j t p c required db =
     (let M = pe_mining P; d = deciding_request r in
      if vq_approved r \<and> required \<le> vc_approvals c
      then (case find_duplicate_block j db of
          Some b \<Rightarrow> Inr (reject_duplicate M j d b c required db)
        | None \<Rightarrow> finalize_block P True j t d (isoformat (me_now M)) p c required db)
      else if \<not> vq_approved r \<and> required \<le> vc_rejections c then Inr (reject_job M j d c required db)
      else Inr (respond True ''validation_pending'' ''validator vote recorded; waiting for quorum'' c required, db))"

definition store_vote ::
  "mining_env \<Rightarrow> validation_vote \<Rightarrow> int \<Rightarrow> string \<Rightarrow> int \<Rightarrow> 'a db_certificates_scheme \<Rightarrow>
   (vote_counts \<times> 'a db_certificates_scheme) result" where
  "store_vote M v validation_ms received_at required db =
     bindE (insert_validation_vote v db) (\<lambda>db1.
     let db2 = record_validator_completed_vote M (vv_validator_id v) (vv_approved v) validation_ms db1;
         c = validation_vote_counts (vv_job_id v) db2 in
     Inr (c, refresh_validation_job_timing M (vv_job_id v) c required received_at db2))"

definition count_submitted_vote ::
  "protocol_env \<Rightarrow> vote_request \<Rightarrow> validation_job \<Rightarrow> task_row \<Rightarrow> params_row \<Rightarrow> 'a db_protocol_scheme \<Rightarrow>
   (vote_response \<times> 'a db_protocol_scheme) result" where
  "count_submitted_vote P r j t p db =
     (let M = pe_mining P; required = required_approvals M p in
      bindE (store_vote M (vote_of_request M r j) (vq_measured_ms r) (isoformat (me_now M)) required db) (\<lambda>(c, db1).
      decide_vote P r j t p c required db1))"

text \<open>The job of the request together with its task, and the validator; their checks come before
  the signature.\<close>

definition vote_parties ::
  "protocol_env \<Rightarrow> vote_request \<Rightarrow> 'a db_protocol_scheme \<Rightarrow> (validation_job \<times> task_row \<times> validator_row) result" where
  "vote_parties P r db =
     (case (case find_job (vq_job_id r) db of None \<Rightarrow> None
          | Some j \<Rightarrow> map_option (Pair j) (find_task (vj_task_id j) db)) of
        None \<Rightarrow> Inl (MiningError 404 ''validation job not found'')
      | Some (j, t) \<Rightarrow> (case find_validator (vq_validator_id r) db of
          None \<Rightarrow> Inl (MiningError 404 ''validator not found'')
        | Some v \<Rightarrow>
            if v_is_banned v then Inl (MiningError 403 ''validator is banned'')
            else if in_cooldown (pe_mining P) (v_cooldown_until v)
            then Inl (MiningError 429 ''validator is in cooldown'')
            else Inr (j, t, v)))"

definition lift_vote :: "'d \<Rightarrow> ('r \<times> 'd) result \<Rightarrow> 'r result \<times> 'd" where
  "lift_vote db m = (case m of Inl e \<Rightarrow> (Inl e, db) | Inr (r, db1) \<Rightarrow> (Inr r, db1))"

definition submit_validation_result ::
  "protocol_env \<Rightarrow> vote_request \<Rightarrow> 'a db_protocol_scheme \<Rightarrow> vote_response result \<times> 'a db_protocol_scheme" where
  "submit_validation_result P r db =
     (let M = pe_mining P in
      case vote_parties P r db of Inl e \<Rightarrow> (Inl e, db)
      | Inr (j, t, v) \<Rightarrow> (case protocol_params_for_task t db of Inl e \<Rightarrow> (Inl e, db)
        | Inr p \<Rightarrow>
          if vj_status j \<noteq> ''pending'' then (Inr (completed_response P j p db), db)
          else if has_voted (vq_job_id r) (vq_validator_id r) db then lift_vote db (existing_vote_response P j p db)
          else if \<not> vote_signature_valid M v (vote_payload (vq_job_id r) (vq_validator_id r) (vj_task_id j) (vq_approved r)
            (vq_reason r) (vq_signed_at r)) (vq_signature r)
          then (case apply_validator_penalty M (vq_validator_id r) db of
              Inl e \<Rightarrow> (Inl e, db)
            | Inr db1 \<Rightarrow> (Inl (MiningError 400 ''invalid validator signature''), db1))
          else lift_vote db (count_submitted_vote P r j t p db)))"

section \<open>A vote received from a peer\<close>

text \<open>The dictionary of the envelope, its identifiers stripped.\<close>

record gossip_vote =
  gv_job_id :: string
  gv_task_id :: string
  gv_validator_id :: string
  gv_approved :: bool
  gv_reason :: string
  gv_signature :: string
  gv_signed_at :: string
  gv_created_at :: "string option"
  gv_validation_ms :: int
  gv_submit_result_latency_ms :: "int option"

text \<open>The counts are reported unless a vote was accepted and the job finalized.\<close>

record gossip_response =
  gr_status :: string
  gr_counts :: vote_counts
  gr_required :: int
  gr_finalization :: "vote_response option"

definition vote_of_gossip :: "mining_env \<Rightarrow> gossip_vote \<Rightarrow> validation_vote" where
  "vote_of_gossip M g =
     \<lparr>vv_job_id = gv_job_id g, vv_task_id = gv_task_id g, vv_validator_id = gv_validator_id g, vv_approved = gv_approved g,
      vv_reason = gv_reason g, vv_signature = gv_signature g, vv_signed_at = gv_signed_at g,
      vv_validation_ms = Some (gv_validation_ms g), vv_submit_result_latency_ms = gv_submit_result_latency_ms g,
      vv_created_at = str_or (gv_created_at g) (isoformat (me_now M))\<rparr>"

definition deciding_gossip :: "gossip_vote \<Rightarrow> deciding_vote" where
  "deciding_gossip g =
     \<lparr>dv_validator_id = gv_validator_id g, dv_approved = gv_approved g, dv_reason = gv_reason g,
      dv_signature = gv_signature g, dv_validation_ms = gv_validation_ms g\<rparr>"

definition gossip_parties ::
  "gossip_vote \<Rightarrow> 'a db_protocol_scheme \<Rightarrow> (validation_job \<times> validator_row) result" where
  "gossip_parties g db =
     (if gv_job_id g = [] \<or> gv_task_id g = [] \<or> gv_validator_id g = []
      then Inl (MiningError 422 ''validation vote gossip requires job_id, task_id, and validator_id'')
      else case find_job (gv_job_id g) db of
        None \<Rightarrow> Inl (MiningError 404 ''validation job not found'')
      | Some j \<Rightarrow>
          if vj_task_id j \<noteq> gv_task_id g then Inl (MiningError 409 ''validation vote task mismatch'')
          else (case find_validator (gv_validator_id g) db of
            None \<Rightarrow> Inl (MiningError 404 ''validator not found'') | Some v \<Rightarrow> Inr (j, v)))"

text \<open>A repeated vote; the row of a job has no parameters of its own, so the active ones count.\<close>

definition repeated_gossip ::
  "protocol_env \<Rightarrow> validation_job \<Rightarrow> 'a db_protocol_scheme \<Rightarrow> (gossip_response \<times> 'a db_protocol_scheme) result" where
  "repeated_gossip P j db =
     bindE (active_protocol_params db) (\<lambda>p.
     let c = validation_vote_counts (vj_job_id j) db; required = required_approvals (pe_mining P) p in
     bindE (finalize_pending_validation_job_from_existing_votes P j c required db) (\<lambda>(f, db1).
     Inr (\<lparr>gr_status = ''duplicate'', gr_counts = c, gr_required = required, gr_finalization = f\<rparr>, db1)))"

definition count_gossip_vote ::
  "protocol_env \<Rightarrow> gossip_vote \<Rightarrow> validation_job \<Rightarrow> 'a db_protocol_scheme \<Rightarrow> (gossip_response \<times> 'a db_protocol_scheme) result" where
  "count_gossip_vote P g j db =
     (let M = pe_mining P; v = vote_of_gossip M g in
      case find_task (gv_task_id g) db of
        None \<Rightarrow> Inl (MiningError 404 ''validation task not found'')
      | Some t \<Rightarrow>
        bindE (protocol_params_for_task t db) (\<lambda>p.
        let required = required_approvals M p in
        bindE (store_vote M v (gv_validation_ms g) (vv_created_at v) required db) (\<lambda>(c, db1).
        bindE (if vj_status j = ''pending''
          then finalize_validation_quorum_from_gossip P j t (deciding_gossip g) p c required db1 else Inr (None, db1)) (\<lambda>(f, db2).
        Inr (\<lparr>gr_status = ''accepted'', gr_counts = c, gr_required = required, gr_finalization = f\<rparr>, db2)))))"

definition receive_validation_vote_gossip ::
  "protocol_env \<Rightarrow> gossip_vote \<Rightarrow> 'a db_protocol_scheme \<Rightarrow> (gossip_response \<times> 'a db_protocol_scheme) result" where
  "receive_validation_vote_gossip P g db =
     bindE (gossip_parties g db) (\<lambda>(j, v).
     if has_voted (gv_job_id g) (gv_validator_id g) db then repeated_gossip P j db
     else if \<not> vote_signature_valid (pe_mining P) v (vote_payload (gv_job_id g) (gv_validator_id g) (gv_task_id g)
       (gv_approved g) (gv_reason g) (gv_signed_at g)) (gv_signature g)
     then Inl (MiningError 400 ''invalid validator signature'')
     else count_gossip_vote P g j db)"

end
