(* ===== verification/RetargetProps.thy ===== *)
theory RetargetProps
  imports Validation TaskProps
begin

text \<open>
  What retargets promise: the parameters stay within the bounds of the settings, a retarget returns
  when timings and difficulties are below \<open>10 ^ 18\<close>, and one block with an enormous difficulty makes
  every retarget that looks at it raise.
\<close>

section \<open>Decimals keep their size\<close>

lemma dec_err: "\<bar>dec x - x\<bar> \<le> \<bar>x\<bar> / 10 ^ 27"
  using dec_ctx_err [of 27 x] by (simp add: dec_def eval_nat_numeral)

lemma dec_le: "\<bar>dec x\<bar> \<le> \<bar>x\<bar> + \<bar>x\<bar> / 10 ^ 27"
  using dec_err [of x] by linarith

lemma dec_nonneg: "0 \<le> x \<Longrightarrow> 0 \<le> dec x"
  unfolding dec_def by (rule dec_ctx_near(3)) simp_all

lemma dec_double: "\<bar>x\<bar> \<le> B \<Longrightarrow> \<bar>dec x\<bar> \<le> 2 * B"
  using dec_le [of x] by simp

text \<open>A sum of few terms grows by a factor close to one.\<close>

abbreviation dec_sum :: "rat list \<Rightarrow> rat" where "dec_sum xs \<equiv> foldl (\<lambda>acc x. dec (acc + x)) 0 xs"

lemma growth_step:
  fixes n e B a x :: rat
  assumes "\<bar>a\<bar> \<le> n * B * (1 + n * e)" "\<bar>x\<bar> \<le> B" "0 \<le> n" "0 \<le> e" "n * e \<le> 1"
  shows "\<bar>a + x\<bar> + \<bar>a + x\<bar> * e \<le> (n + 1) * B * (1 + (n + 1) * e)"
proof -
  have B: "0 \<le> B" using assms(2) by linarith
  have "\<bar>a + x\<bar> \<le> n * B * (1 + n * e) + B" using assms(1,2) by linarith
  then have "\<bar>a + x\<bar> * (1 + e) \<le> (n * B * (1 + n * e) + B) * (1 + e)"
    using assms(4) by (intro mult_right_mono) auto
  also have "\<dots> = (n + 1) * B * (1 + (n + 1) * e) - B * e * (n * (1 - n * e))"
    by (simp add: algebra_simps power2_eq_square)
  also have "\<dots> \<le> (n + 1) * B * (1 + (n + 1) * e)"
    using B assms(3-5) by (simp add: mult_nonneg_nonneg)
  finally show ?thesis by (simp add: algebra_simps)
qed

lemma dec_sum_bound:
  assumes "\<forall>x \<in> set xs. \<bar>x\<bar> \<le> B" and "length xs \<le> 10 ^ 27"
  shows "\<bar>dec_sum xs\<bar> \<le> of_nat (length xs) * B * (1 + of_nat (length xs) * (1 / 10 ^ 27))"
  using assms
proof (induction xs rule: rev_induct)
  case (snoc x xs)
  let ?n = "of_nat (length xs) :: rat" and ?e = "1 / 10 ^ 27 :: rat"
  have "length xs \<le> 10 ^ 27" using snoc.prems(2) by simp
  then have "?n \<le> of_nat (10 ^ 27)" by (rule of_nat_mono)
  then have n: "?n * ?e \<le> 1" by simp
  have "\<bar>dec (dec_sum xs + x)\<bar> \<le> \<bar>dec_sum xs + x\<bar> + \<bar>dec_sum xs + x\<bar> * ?e" using dec_le by simp
  also have "\<dots> \<le> (?n + 1) * B * (1 + (?n + 1) * ?e)"
    by (rule growth_step) (use snoc n in auto)
  finally show ?case by (simp add: add.commute)
qed simp

lemma dec_avg_bound:
  assumes "\<forall>x \<in> set xs. \<bar>x\<bar> \<le> B" and "length xs \<le> 10 ^ 27" and "0 \<le> B"
  shows "\<bar>dec_avg xs\<bar> \<le> 4 * B"
proof (cases "xs = []")
  case False
  let ?n = "of_nat (length xs) :: rat"
  have n: "0 < ?n" using False by simp
  have "?n \<le> of_nat (10 ^ 27)" using assms(2) by (rule of_nat_mono)
  then have e: "?n * (1 / 10 ^ 27) \<le> 1" by simp
  have "\<bar>dec_sum xs\<bar> \<le> ?n * B * (1 + ?n * (1 / 10 ^ 27))" by (rule dec_sum_bound [OF assms(1,2)])
  also have "\<dots> \<le> ?n * B * 2" using n e assms(3) by (intro mult_left_mono) auto
  finally have "\<bar>dec_sum xs / ?n\<bar> \<le> 2 * B" using n by (simp add: field_simps)
  then have "\<bar>dec (dec_sum xs / ?n)\<bar> \<le> 2 * (2 * B)" by (rule dec_double)
  with False show ?thesis by (simp add: dec_avg_def)
qed (use assms(3) in \<open>simp add: dec_avg_def\<close>)

lemma dec_avg_nonneg:
  assumes "\<forall>x \<in> set xs. 0 \<le> x"
  shows "0 \<le> dec_avg xs"
proof -
  have "0 \<le> dec_sum xs" using assms by (induction xs rule: rev_induct) (auto intro: dec_nonneg)
  then show ?thesis by (simp add: dec_avg_def dec_nonneg)
qed

lemma dec_float_returns:
  assumes "\<bar>x\<bar> \<le> 10 ^ 21"
  shows "\<exists>y. dec_float x = Inr y"
proof -
  have "\<bar>of_int (round_half_up (x * 10 ^ 6)) - x * 10 ^ 6\<bar> \<le> (1 / 2 :: rat)" by (rule round_half_up_err)
  moreover have "\<bar>x * 10 ^ 6\<bar> \<le> 10 ^ 27" using assms by (simp add: abs_mult)
  ultimately have "\<bar>of_int (round_half_up (x * 10 ^ 6))\<bar> \<le> (10 ^ 27 + 1 / 2 :: rat)" by (rule abs_near) simp
  also have "\<dots> < 10 ^ 28" by simp
  finally have "\<bar>of_int (round_half_up (x * 10 ^ 6))\<bar> < (10 ^ 28 :: rat)" .
  then have "\<bar>round_half_up (x * 10 ^ 6)\<bar> < 10 ^ 28"
    by (metis of_int_abs of_int_less_iff of_int_numeral of_int_power)
  then show ?thesis by (simp add: dec_float_def Let_def)
qed

lemma dec_floats_return: "(\<forall>x \<in> set xs. \<bar>x\<bar> \<le> 10 ^ 21) \<Longrightarrow> \<exists>ys. dec_floats xs = Inr ys \<and> length ys = length xs"
proof (induction xs)
  case (Cons x xs)
  then obtain ys where ys: "dec_floats xs = Inr ys" "length ys = length xs" by auto
  obtain y where y: "dec_float x = Inr y" using dec_float_returns [of x] Cons.prems by auto
  from y ys show ?case by simp
qed simp

section \<open>A retarget returns\<close>

text \<open>Numbers below \<open>10 ^ 18\<close>.\<close>

abbreviation modest :: "int \<Rightarrow> bool" where "modest i \<equiv> \<bar>i\<bar> \<le> 10 ^ 18"

definition modest_row :: "retarget_row \<Rightarrow> bool" where
  "modest_row b \<longleftrightarrow> modest (ep_total_task_ms b) \<and> modest (ep_validation_ms b) \<and> modest (ep_total_block_ms b) \<and>
     modest (ep_segment_size b) \<and> modest (ep_range_end b - ep_range_start b + 1) \<and> modest (ep_sample_count b) \<and>
     \<bar>py_repr (ep_difficulty b)\<bar> \<le> 10 ^ 18"

lemma modest_of_int: "modest i \<Longrightarrow> \<bar>of_int i :: rat\<bar> \<le> 10 ^ 18"
  by (metis of_int_abs of_int_le_iff of_int_numeral of_int_power)

lemma modest_or: "modest x \<Longrightarrow> modest y \<Longrightarrow> modest (int_or x y)"
  by (simp add: int_or_def)

abbreviation small :: "rat \<Rightarrow> bool" where "small x \<equiv> \<bar>x\<bar> \<le> 4 * 10 ^ 18"

lemma modest_avg:
  assumes "\<forall>b \<in> set history. modest (f b)" and "length history \<le> 10 ^ 27"
  shows "small (dec_avg (map (\<lambda>b. of_int (f b)) history))"
  by (rule dec_avg_bound) (use assms modest_of_int in auto)

lemma window_small:
  assumes "\<forall>b \<in> set history. modest_row b" and "length history \<le> 10 ^ 27"
  shows "small (ws_total (window_stats_of history))" "small (ws_task (window_stats_of history))"
    "small (ws_validation (window_stats_of history))" "small (ws_segment (window_stats_of history))"
    "small (ws_sample (window_stats_of history))" "small (ws_difficulty (window_stats_of history))"
proof -
  have i: "small (dec_avg (map (\<lambda>b. of_int (f b)) history))" if "\<And>b. modest_row b \<Longrightarrow> modest (f b)" for f
    by (rule modest_avg) (use assms that in blast)+
  have d: "small (dec_avg (map (\<lambda>b. py_repr (ep_difficulty b)) history))"
    by (rule dec_avg_bound) (use assms in \<open>auto simp: modest_row_def\<close>)
  note s = window_stats_of_def Let_def window_stats.simps
  show "small (ws_total (window_stats_of history))" unfolding s by (rule i) (simp only: modest_row_def)
  show "small (ws_task (window_stats_of history))" unfolding s by (rule i, rule modest_or) (simp_all only: modest_row_def)
  show "small (ws_validation (window_stats_of history))" unfolding s by (rule i) (simp only: modest_row_def)
  show "small (ws_segment (window_stats_of history))" unfolding s by (rule i, rule modest_or) (simp_all only: modest_row_def)
  show "small (ws_sample (window_stats_of history))"
    unfolding s by (rule i, rule modest_or) (simp only: modest_row_def, simp)
  show "small (ws_difficulty (window_stats_of history))" unfolding s by (rule d)
qed

text \<open>A quotient by at least one.\<close>

lemma small_ratio:
  assumes "small x" and "1 \<le> y"
  shows "\<bar>dec (x / y)\<bar> \<le> 8 * 10 ^ 18"
proof -
  have "\<bar>x / y\<bar> \<le> \<bar>x\<bar>" using assms(2) by (simp add: abs_divide divide_le_eq mult_le_cancel_left1)
  then have "\<bar>x / y\<bar> \<le> 4 * 10 ^ 18" using assms(1) by linarith
  then show ?thesis using dec_double by fastforce
qed

lemma metric_returns:
  assumes "\<forall>b \<in> set history. modest_row b" and "length history \<le> 10 ^ 27"
  shows "\<exists>m. bucket_metric_of now k history = Inr m"
proof -
  let ?s = "window_stats_of history"
  have "\<forall>x \<in> set [ws_task ?s, ws_validation ?s, ws_total ?s, ws_segment ?s, ws_sample ?s, ws_difficulty ?s]. \<bar>x\<bar> \<le> 10 ^ 21"
    using window_small [OF assms] by simp
  from dec_floats_return [OF this] show ?thesis by (auto simp: bucket_metric_of_def Let_def)
qed

lemma metrics_return:
  assumes "\<forall>b \<in> set history. modest_row b" and "length history \<le> 10 ^ 27"
  shows "\<exists>ms. bucket_metrics P now history = Inr ms"
proof -
  have "\<exists>ms. bucket_metrics_of P now history ks = Inr ms" for ks
  proof (induction ks)
    case (Cons k ks)
    let ?h = "filter (\<lambda>b. 0 < ep_total_block_ms b \<and> position_bucket P (ep_range_start b) = k) history"
    have "length ?h \<le> 10 ^ 27" using assms(2) length_filter_le order_trans by blast
    then have "\<exists>m. bucket_metric_of now k ?h = Inr m" by (intro metric_returns) (use assms(1) in auto)
    with Cons.IH show ?case by auto
  qed simp
  then show ?thesis by (simp add: bucket_metrics_def)
qed

lemma adjustment_bound:
  assumes "\<bar>raw\<bar> \<le> 8 * 10 ^ 18"
  shows "\<bar>clamp_adjustment P raw\<bar> \<le> 8 * 10 ^ 18"
proof -
  have "clamp_adjustment P raw \<le> max 0.85 raw" by (simp add: clamp_adjustment_def max.coboundedI2)
  moreover have "0 \<le> clamp_adjustment P raw" by (simp add: clamp_adjustment_def max.coboundedI1)
  ultimately show ?thesis using assms by (simp add: max_def split: if_splits)
qed

lemma decisions:
  "fst (difficulty_decision s f) \<in> {1, f}" "fst (sample_decision s f) \<in> {1, f}"
  by (simp_all add: difficulty_decision_def sample_decision_def Let_def)

lemma abs_max_le: "\<bar>x\<bar> \<le> B \<Longrightarrow> 0 \<le> c \<Longrightarrow> c \<le> B \<Longrightarrow> \<bar>max c x\<bar> \<le> B"
  for x c B :: rat
  by (simp add: max_def abs_le_iff)

lemma meta_numbers_return:
  assumes "\<forall>b \<in> set history. modest_row b" and "length history \<le> 10 ^ 27" and "small old"
    and "\<bar>raw\<bar> \<le> 8 * 10 ^ 18"
  shows "\<exists>ys. dec_floats (meta_numbers (window_stats_of history) raw (clamp_adjustment P raw) old
    (fst (difficulty_decision (window_stats_of history) (clamp_adjustment P raw)))
    (fst (sample_decision (window_stats_of history) (clamp_adjustment P raw)))) = Inr ys"
proof -
  define s where "s = window_stats_of history"
  define f where "f = clamp_adjustment P raw"
  note w = window_small [OF assms(1,2), folded s_def]
  have f: "\<bar>f\<bar> \<le> 8 * 10 ^ 18" unfolding f_def by (rule adjustment_bound [OF assms(4)])
  have df: "\<bar>fst (difficulty_decision s f)\<bar> \<le> 8 * 10 ^ 18" and sf: "\<bar>fst (sample_decision s f)\<bar> \<le> 8 * 10 ^ 18"
    using decisions [of s f] f by auto
  have r: "ws_mining_ratio s = dec (ws_task s / max 1 (ws_total s))" "ws_validation_ratio s = dec (ws_validation s / max 1 (ws_total s))"
    by (simp_all add: s_def window_stats_of_def Let_def)
  have m: "\<bar>ws_mining_ratio s\<bar> \<le> 8 * 10 ^ 18" "\<bar>ws_validation_ratio s\<bar> \<le> 8 * 10 ^ 18"
    unfolding r by (rule small_ratio [OF w(2)], simp) (rule small_ratio [OF w(3)], simp)
  have "\<bar>dec (ws_task s / max 1 (py_repr TARGET_MINER_MS))\<bar> \<le> 8 * 10 ^ 18" by (rule small_ratio [OF w(2)]) simp
  then have e: "\<bar>max 0.000001 (dec (ws_task s / max 1 (py_repr TARGET_MINER_MS)))\<bar> \<le> 8 * 10 ^ 18"
    by (rule abs_max_le) simp_all
  have "\<forall>x \<in> set (meta_numbers s raw f old (fst (difficulty_decision s f)) (fst (sample_decision s f))). \<bar>x\<bar> \<le> 8 * 10 ^ 18"
    using w f df sf m e assms(3,4) by (simp add: meta_numbers_def)
  then have "\<forall>x \<in> set (meta_numbers s raw f old (fst (difficulty_decision s f)) (fst (sample_decision s f))). \<bar>x\<bar> \<le> 10 ^ 21"
    by (auto dest!: bspec)
  from dec_floats_return [OF this] show ?thesis unfolding s_def f_def by blast
qed

lemma clamp_difficulty_bound:
  assumes "small (py_repr (pe_min_difficulty P))" and "small (py_repr (pe_max_difficulty P))"
  shows "\<exists>d. dec_float (clamp_difficulty P x) = Inr d"
proof (rule dec_float_returns)
  have "clamp_difficulty P x \<le> max (py_repr (pe_min_difficulty P)) (py_repr (pe_max_difficulty P))"
    "py_repr (pe_min_difficulty P) \<le> clamp_difficulty P x"
    by (auto simp: clamp_difficulty_def)
  then show "\<bar>clamp_difficulty P x\<bar> \<le> 10 ^ 21" using assms by (simp add: max_def split: if_splits)
qed

lemma next_params_return:
  assumes "\<forall>b \<in> set history. modest_row b" and "length history \<le> 10 ^ 27"
    and "current_difficulty P p = Inr old" and "small old"
    and "small (py_repr (pe_min_difficulty P))" and "small (py_repr (pe_max_difficulty P))"
  shows "\<exists>r. next_params_from P history p base cold pos = Inr r"
proof -
  let ?s = "window_stats_of history" and ?raw = "dec (of_int TARGET_BLOCK_MS / max 1 (ws_total (window_stats_of history)))"
  have "\<bar>?raw\<bar> \<le> 8 * 10 ^ 18" by (rule small_ratio) (simp_all add: TARGET_BLOCK_MS_def)
  from meta_numbers_return [OF assms(1,2,4) this] obtain ys where ys: "dec_floats (meta_numbers ?s ?raw (clamp_adjustment P ?raw) old
    (fst (difficulty_decision ?s (clamp_adjustment P ?raw))) (fst (sample_decision ?s (clamp_adjustment P ?raw)))) = Inr ys"
    by blast
  obtain d where "dec_float (clamp_difficulty P (dec (old * fst (difficulty_decision ?s (clamp_adjustment P ?raw))))) = Inr d"
    using clamp_difficulty_bound [OF assms(5,6)] by blast
  with ys show ?thesis
    unfolding next_params_from_def Let_def case_prod_unfold assms(3) bindE_simps by simp
qed

lemma set_py_last: "set (py_last n xs) \<subseteq> set xs"
  by (auto simp: py_last_def dest: in_set_dropD)

lemma length_py_last: "length (py_last n xs) \<le> length xs"
  by (simp add: py_last_def)

lemma calculate_returns:
  assumes "\<forall>b \<in> set history. modest_row b" and "length history \<le> 10 ^ 27"
    and "current_difficulty P p = Inr old" and "small old"
    and "small (py_repr (pe_min_difficulty P))" and "small (py_repr (pe_max_difficulty P))"
  shows "\<exists>q m. calculate_next_protocol_params P history p pos = Inr (q, m)"
proof -
  have r: "\<exists>q m. next_params_from P (filter g (filter h (py_last n history))) p base cold x = Inr (q, m)"
    "\<exists>q m. next_params_from P (filter h (py_last n history)) p base cold x = Inr (q, m)" for g h n base cold x
  proof -
    have l: "length (filter h (py_last n history)) \<le> 10 ^ 27"
      using assms(2) length_py_last length_filter_le order_trans by meson
    have "length (filter g (filter h (py_last n history))) \<le> 10 ^ 27"
      using l length_filter_le order_trans by meson
    with l show "\<exists>q m. next_params_from P (filter g (filter h (py_last n history))) p base cold x = Inr (q, m)"
      "\<exists>q m. next_params_from P (filter h (py_last n history)) p base cold x = Inr (q, m)"
      using next_params_return [OF _ _ assms(3-6)] set_py_last [of n history] assms(1) by (fastforce simp: subset_iff)+
  qed
  show ?thesis
    unfolding calculate_next_protocol_params_def Let_def case_prod_unfold using r by auto
qed

lemma length_sql_limit: "0 \<le> n \<Longrightarrow> length (sql_limit n xs) \<le> nat n"
  by (simp add: sql_limit_def)

lemma set_sql_limit: "set (sql_limit n xs) \<subseteq> set xs"
  by (auto simp: sql_limit_def dest: in_set_takeD)

text \<open>Blocks, settings and active parameters with which a retarget can be computed.\<close>

definition computable :: "protocol_env \<Rightarrow> 'a db_consensus_scheme \<Rightarrow> bool" where
  "computable P db \<longleftrightarrow> (\<forall>b \<in> set (blocks db). modest_row (epoch_row_of db b)) \<and>
     0 \<le> pe_window_blocks P \<and> pe_window_blocks P \<le> 10 ^ 6 \<and>
     small (py_repr (pe_min_difficulty P)) \<and> small (py_repr (pe_max_difficulty P)) \<and>
     (\<exists>p old. active_protocol_params db = Inr p \<and> current_difficulty P p = Inr old \<and> small old)"

lemma epoch_modest:
  assumes "computable P db"
  shows "\<forall>b \<in> set (retarget_epoch_rows P h db). modest_row b" and "length (retarget_epoch_rows P h db) \<le> 10 ^ 27"
proof -
  show "\<forall>b \<in> set (retarget_epoch_rows P h db). modest_row b"
    using assms set_sql_limit unfolding computable_def retarget_epoch_rows_def by fastforce
  have "length (retarget_epoch_rows P h db) \<le> nat (pe_window_blocks P)"
    using assms unfolding computable_def retarget_epoch_rows_def by (simp add: length_sql_limit)
  also have "\<dots> \<le> nat (10 ^ 6)" using assms unfolding computable_def by (intro nat_mono) blast
  finally show "length (retarget_epoch_rows P h db) \<le> 10 ^ 27" by simp
qed

lemma preview_returns:
  assumes "active_protocol_params db = Inr p"
    and "calculate_next_protocol_params P (retarget_epoch_rows P (last_retarget_height db) db) p (next_range_position P p db) = Inr (q, m)"
  shows "\<exists>v. preview_retarget P force db = Inr v \<and> rp_epoch v = retarget_epoch_rows P (last_retarget_height db) db"
  unfolding preview_retarget_def assms(1) bindE_simps Let_def
  by (cases "retarget_epoch_rows P (last_retarget_height db) db \<noteq> [] \<and>
      (force \<or> max RETARGET_EPOCH_BLOCKS (pe_window_blocks P) \<le> int (length (retarget_epoch_rows P (last_retarget_height db) db)))")
    (simp_all only: if_True if_False assms(2) bindE_simps prod.case, auto)

lemma retarget_computed:
  assumes "computable P db"
  obtains v ms where "preview_retarget P force db = Inr v" and "bucket_metrics P (pe_now P) (rp_epoch v) = Inr ms"
proof -
  obtain p old where p: "active_protocol_params db = Inr p" "current_difficulty P p = Inr old" "small old"
    and lim: "small (py_repr (pe_min_difficulty P))" "small (py_repr (pe_max_difficulty P))"
    using assms unfolding computable_def by blast
  note e = epoch_modest [OF assms, of "last_retarget_height db"]
  obtain q m where "calculate_next_protocol_params P (retarget_epoch_rows P (last_retarget_height db) db) p
      (next_range_position P p db) = Inr (q, m)"
    using calculate_returns [OF e p(2,3) lim] by blast
  from preview_returns [OF p(1) this] obtain v where v: "preview_retarget P force db = Inr v"
    and r: "rp_epoch v = retarget_epoch_rows P (last_retarget_height db) db" by blast
  obtain ms where "bucket_metrics P (pe_now P) (rp_epoch v) = Inr ms"
    unfolding r using metrics_return [OF e] by blast
  with v show ?thesis by (rule that)
qed

lemma maybe_retarget_Inr:
  "preview_retarget P force db = Inr v \<Longrightarrow> bucket_metrics P (pe_now P) (rp_epoch v) = Inr ms \<Longrightarrow>
   \<exists>event db'. maybe_retarget_after_block P height force db = Inr (event, db')"
  by (cases "rp_ready v") (auto simp: maybe_retarget_after_block_def upsert_difficulty_bucket_metrics_def split: prod.splits)

text \<open>A retarget returns, whatever the height and whether forced or not, when durations, sizes and
  difficulties of blocks, settings and active parameters are below \<open>10 ^ 18\<close> in magnitude.\<close>

theorem retarget_returns:
  assumes "computable P db"
  shows "\<exists>event db'. maybe_retarget_after_block P height force db = Inr (event, db')"
  by (rule retarget_computed [OF assms]) (rule maybe_retarget_Inr)

section \<open>The active parameters\<close>

text \<open>The row without its flag.\<close>

abbreviation inactive :: "params_row \<Rightarrow> params_row" where "inactive p \<equiv> p\<lparr>pp_active := False\<rparr>"

lemma inactive_deactivated [simp]: "map inactive (tbl_update pp_active inactive rows) = map inactive rows"
  by (simp add: tbl_update_def)

lemma no_active_left [simp]: "filter pp_active (tbl_update pp_active inactive rows) = []"
  by (auto simp: tbl_update_def filter_empty_conv)

lemma active_single: "filter pp_active (params_rows db) = [p] \<Longrightarrow> active_protocol_params db = Inr p"
  by (simp add: active_protocol_params_def)

lemma upsert_metrics_params:
  "upsert_difficulty_bucket_metrics P history db = Inr db' \<Longrightarrow> params_rows db' = params_rows db"
proof -
  have "params_rows (fold upsert_bucket_metric ms d) = params_rows d" for ms and d :: "'a db_protocol_scheme"
    by (induction ms arbitrary: d) (simp_all add: upsert_bucket_metric_def)
  then show "upsert_difficulty_bucket_metrics P history db = Inr db' \<Longrightarrow> params_rows db' = params_rows db"
    by (auto simp: upsert_difficulty_bucket_metrics_def)
qed

lemma apply_retarget_params:
  assumes "apply_retarget P v db = (e, db')"
  shows "params_rows db' = params_rows db \<or>
    (\<exists>n. params_rows db' = tbl_update pp_active inactive (params_rows db) @
       [retargeted_params P (rp_epoch v) (rp_current v) (rp_proposed v) (rp_meta v) n])"
proof (cases "rm_action (rp_meta v) = ''keep''")
  case True
  with assms show ?thesis by (auto simp: apply_retarget_def Let_def)
next
  case False
  with assms show ?thesis
    by (intro disjI2 exI [of _ "fresh_params_id db"]) (auto simp: apply_retarget_def Let_def activate_params_def)
qed

lemma retargeted_within:
  "params_within P (retargeted_params P epoch p q m n) = params_within P q"
  "pp_segment_size (retargeted_params P epoch p q m n) = pp_segment_size q"
  "params_identity (retargeted_params P epoch p q m n) = params_identity q" "pp_active (retargeted_params P epoch p q m n)"
  by (simp_all add: retargeted_params_def params_within_def params_identity_def)

text \<open>The bounds that every retarget keeps.\<close>

definition params_governed :: "protocol_env \<Rightarrow> params_row \<Rightarrow> 'a db_consensus_scheme \<Rightarrow> bool" where
  "params_governed P p db \<longleftrightarrow> filter pp_active (params_rows db) = [p] \<and> params_within P p"

text \<open>C38: A retarget that returns keeps the parameters governed: when one row of parameters was active
  and its segment size, sample count and difficulty lay within the configured bounds, the same holds
  afterwards (of the same row or of a new one), the segment is at most \<open>MAX_SEGMENT_STEP\<close> away from the
  old one, reward, quorum, algorithm and limits of assignments are the old ones, and no earlier row is
  lost or changed but for its flag. (The largest segment of the settings must not be below the
  smallest.)\<close>

theorem retarget_keeps_bounds:
  assumes "maybe_retarget_after_block P height force db = Inr (event, db')"
    and "MIN_SEGMENT_SIZE \<le> pe_max_segment_size P" and "params_governed P p db"
  shows "\<exists>q new. params_governed P q db' \<and> \<bar>pp_segment_size q - pp_segment_size p\<bar> \<le> MAX_SEGMENT_STEP \<and>
    params_identity q = params_identity p \<and> map inactive (params_rows db') = map inactive (params_rows db) @ new"
proof (cases "params_rows db' = params_rows db")
  case True
  with assms(3) show ?thesis
    by (intro exI [of _ p] exI [of _ "[]"]) (simp add: params_governed_def MAX_SEGMENT_STEP_def)
next
  case False
  have a: "active_protocol_params db = Inr p" and w: "params_within P p"
    using assms(3) active_single by (auto simp: params_governed_def)
  have "0 < height" using assms(1) False by (auto simp: maybe_retarget_after_block_def split: if_splits)
  then obtain v where v: "preview_retarget P force db = Inr v"
    and rest: "(if \<not> rp_ready v then Inr (None, db)
        else bindE (upsert_difficulty_bucket_metrics P (rp_epoch v) db) (\<lambda>db1.
          case apply_retarget P v db1 of (event, db2) \<Rightarrow> Inr (Some event, db2))) = Inr (event, db')"
    using assms(1) unfolding maybe_retarget_after_block_def by auto
  then obtain db1 e where r: "rp_ready v" "upsert_difficulty_bucket_metrics P (rp_epoch v) db = Inr db1"
    "apply_retarget P v db1 = (e, db')"
  proof (cases "rp_ready v")
    case True
    with rest obtain d where d: "upsert_difficulty_bucket_metrics P (rp_epoch v) db = Inr d"
      "(case apply_retarget P v d of (event, db2) \<Rightarrow> Inr (Some event, db2)) = (Inr (event, db') :: _ result)"
      by auto
    obtain x y where "apply_retarget P v d = (x, y)" by (cases "apply_retarget P v d")
    with d True show ?thesis by (intro that) auto
  qed (use rest False in auto)
  have s: "params_rows db1 = params_rows db" by (rule upsert_metrics_params [OF r(2)])
  obtain n where rows: "params_rows db' = tbl_update pp_active inactive (params_rows db) @
      [retargeted_params P (rp_epoch v) (rp_current v) (rp_proposed v) (rp_meta v) n]"
    using apply_retarget_params [OF r(3)] False unfolding s by auto
  obtain epoch where "calculate_next_protocol_params P epoch p (next_range_position P p db) = Inr (rp_proposed v, rp_meta v)"
    using v r(1) unfolding preview_retarget_def a bindE_simps Let_def by (auto split: if_splits)
  from calculate_next_within [OF this assms(2) w] show ?thesis
    by (intro exI [of _ "retargeted_params P (rp_epoch v) (rp_current v) (rp_proposed v) (rp_meta v) n"] exI)
      (simp add: params_governed_def rows retargeted_within)
qed

section \<open>One enormous difficulty\<close>

lemma round_half_even_ge: "of_int i \<le> x \<Longrightarrow> i \<le> round_half_even x"
  by (metis round_half_even_mono round_half_even_of_int)

lemma dec_ge_power:
  assumes "10 ^ k \<le> x"
  shows "10 ^ k \<le> dec x"
proof -
  have "0 < (10::rat) ^ k" by simp
  with assms have x: "0 < x" by linarith
  define e where "e = expo10 x"
  define u where "u = (10::rat) powi (e - 27)"
  have u: "0 < u" by (simp add: u_def)
  have lo: "10 powi e \<le> x" and hi: "x < 10 powi (e + 1)" using expo10_bounds [OF x] by (simp_all add: e_def)
  have "(10::rat) ^ k < 10 powi (e + 1)" using assms hi by linarith
  then have "(10::rat) powi int k < 10 powi (e + 1)" by (simp only: power_int_of_nat)
  then have k: "int k \<le> e" using power_int_increasing [of "e + 1" "int k" "10::rat"] by (cases "int k \<le> e") auto
  have d: "dec x = of_int (round_half_even (x / u)) * u"
    using x by (simp add: dec_def dec_ctx_def u_def e_def Let_def)
  have ten: "(10::rat) powi e = of_int (10 ^ 27) * u" by (simp add: u_def power_int_diff)
  have "of_int (10 ^ 27) \<le> x / u" using lo u unfolding ten by (simp add: field_simps)
  then have "10 ^ 27 \<le> round_half_even (x / u)" by (rule round_half_even_ge)
  then have "of_int (10 ^ 27) * u \<le> dec x" unfolding d using u by (intro mult_right_mono, subst of_int_le_iff) simp_all
  moreover have "(10::rat) ^ k \<le> 10 powi e"
    using k by (simp add: power_int_of_nat [symmetric] power_int_increasing del: power_int_of_nat)
  ultimately show ?thesis unfolding ten [symmetric] by linarith
qed

lemma dec_sum_huge:
  assumes "\<forall>x \<in> set xs. 0 \<le> x" and "\<exists>x \<in> set xs. 10 ^ k \<le> x"
  shows "10 ^ k \<le> dec_sum xs"
  using assms
proof (induction xs rule: rev_induct)
  case (snoc x xs)
  have "0 \<le> dec_sum xs" using snoc.prems(1) by (induction xs rule: rev_induct) (auto intro: dec_nonneg)
  moreover have "0 \<le> x" using snoc.prems(1) by simp
  moreover have "10 ^ k \<le> x \<or> 10 ^ k \<le> dec_sum xs" using snoc by auto
  ultimately have "10 ^ k \<le> dec_sum xs + x" by linarith
  from dec_ge_power [OF this] show ?case by simp
qed simp

lemma dec_avg_huge:
  assumes "\<forall>x \<in> set xs. 0 \<le> x" and "\<exists>x \<in> set xs. 10 ^ 30 \<le> x" and "length xs \<le> 10 ^ 6"
  shows "10 ^ 24 \<le> dec_avg xs"
proof -
  have ne: "xs \<noteq> []" using assms(2) by auto
  then have n: "0 < (of_nat (length xs) :: rat)" by simp
  have m: "(of_nat (length xs) :: rat) \<le> 10 ^ 6" using of_nat_mono [OF assms(3), where 'a = rat] by simp
  have "(10::rat) ^ 24 * of_nat (length xs) \<le> 10 ^ 24 * 10 ^ 6" using m by (rule mult_left_mono) simp
  also have "\<dots> \<le> dec_sum xs" using dec_sum_huge [OF assms(1,2)] by simp
  finally have "10 ^ 24 \<le> dec_sum xs / of_nat (length xs)" using n by (simp add: field_simps)
  from dec_ge_power [OF this] show ?thesis using ne by (simp add: dec_avg_def)
qed

lemma dec_float_overflow:
  assumes "10 ^ 24 \<le> x"
  shows "dec_float x = Inl InvalidOperation"
proof -
  have "(10::rat) ^ 24 * 10 ^ 6 \<le> x * 10 ^ 6" by (rule mult_right_mono [OF assms]) simp
  then have "of_int (10 ^ 30) \<le> x * 10 ^ 6" by simp
  from round_half_up_mono [OF this] have "10 ^ 30 \<le> round_half_up (x * 10 ^ 6)"
    unfolding round_half_up_of_int .
  then have "10 ^ 28 \<le> \<bar>round_half_up (x * 10 ^ 6)\<bar>" by simp
  then show ?thesis by (simp add: dec_float_def Let_def)
qed

lemma dec_floats_overflow: "x \<in> set xs \<Longrightarrow> 10 ^ 24 \<le> x \<Longrightarrow> dec_floats xs = Inl InvalidOperation"
proof (induction xs)
  case (Cons y ys)
  have "dec_float y = Inl InvalidOperation \<or> (\<exists>z. dec_float y = Inr z)" by (auto simp: dec_float_def Let_def)
  then show ?case using Cons dec_float_overflow by auto
qed simp

lemma huge_difficulty_metric:
  assumes "b \<in> set history" and "10 ^ 30 \<le> py_repr (ep_difficulty b)"
    and "\<forall>r \<in> set history. 0 \<le> py_repr (ep_difficulty r)" and "length history \<le> 10 ^ 6"
  shows "bucket_metric_of now k history = Inl InvalidOperation"
proof -
  let ?s = "window_stats_of history"
  have "10 ^ 24 \<le> ws_difficulty ?s"
    unfolding window_stats_of_def Let_def window_stats.simps by (rule dec_avg_huge) (use assms in auto)
  then have "dec_floats [ws_task ?s, ws_validation ?s, ws_total ?s, ws_segment ?s, ws_sample ?s, ws_difficulty ?s]
      = Inl InvalidOperation"
    by (rule dec_floats_overflow [rotated]) simp
  then show ?thesis by (simp only: bucket_metric_of_def Let_def bindE_simps)
qed

lemma dec_float_error: "dec_float y = Inl e \<Longrightarrow> e = InvalidOperation"
  by (auto simp: dec_float_def Let_def split: if_splits)

lemma dec_floats_error: "dec_floats xs = Inl e \<Longrightarrow> e = InvalidOperation"
  by (induction xs) (auto simp: bindE_eq_Inl dest: dec_float_error)

lemma metric_error: "bucket_metric_of now k history = Inl e \<Longrightarrow> e = InvalidOperation"
  unfolding bucket_metric_of_def Let_def bindE_eq_Inl by (elim disjE exE conjE, erule dec_floats_error) simp

lemma huge_difficulty_metrics:
  assumes "b \<in> set history" and "0 < ep_total_block_ms b" and "10 ^ 30 \<le> py_repr (ep_difficulty b)"
    and "\<forall>r \<in> set history. 0 \<le> py_repr (ep_difficulty r)" and "length history \<le> 10 ^ 6"
  shows "bucket_metrics P now history = Inl InvalidOperation"
proof -
  let ?k = "position_bucket P (ep_range_start b)"
  have bad: "bucket_metrics_of P now history ks = Inl InvalidOperation" if "?k \<in> set ks" for ks
    using that
  proof (induction ks)
    case (Cons k ks)
    let ?h = "filter (\<lambda>b. 0 < ep_total_block_ms b \<and> position_bucket P (ep_range_start b) = k) history"
    show ?case
    proof (cases "k = ?k")
      case True
      have "length ?h \<le> 10 ^ 6" using assms(5) length_filter_le order_trans by blast
      then have "bucket_metric_of now k ?h = Inl InvalidOperation"
        by (intro huge_difficulty_metric [of b]) (use assms True in auto)
      then show ?thesis by simp
    next
      case False
      with Cons have "bucket_metrics_of P now history ks = Inl InvalidOperation" by simp
      then show ?thesis by (cases "bucket_metric_of now k ?h") (auto dest: metric_error)
    qed
  qed simp
  have "?k \<in> set (history_buckets P history)" using assms(1,2) by (auto simp: history_buckets_def)
  from bad [OF this] show ?thesis by (simp add: bucket_metrics_def)
qed

lemma epoch_positive: "b \<in> set (retarget_epoch_rows P h db) \<Longrightarrow> 0 < ep_total_block_ms b"
proof -
  assume "b \<in> set (retarget_epoch_rows P h db)"
  then obtain r where b: "b = epoch_row_of db r" and r: "0 < elapsed_block_ms 0 r"
    using set_sql_limit unfolding retarget_epoch_rows_def by fastforce
  have "elapsed_block_ms 0 r \<le> elapsed_block_ms TARGET_BLOCK_MS r"
    by (auto simp: elapsed_block_ms_def coalesce3_def TARGET_BLOCK_MS_def split: option.splits)
  with r show ?thesis by (simp add: b epoch_row_of_def Let_def)
qed

lemma calculate_error:
  assumes "calculate_next_protocol_params P history p pos = Inl e"
  shows "e = InvalidOperation"
proof -
  have c: "current_difficulty P p = Inl x \<Longrightarrow> x = InvalidOperation" for x
    by (auto simp: current_difficulty_def Let_def split: option.splits if_splits)
  have n: "next_params_from P hs p base cold x = Inl e \<Longrightarrow> e = InvalidOperation" for hs base cold x
    unfolding next_params_from_def Let_def case_prod_unfold bindE_eq_Inl
    by (elim disjE exE conjE) (auto dest: c dec_float_error dec_floats_error)
  show ?thesis
    using assms n unfolding calculate_next_protocol_params_def Let_def case_prod_unfold by (auto split: if_splits)
qed

text \<open>C39: One block with a difficulty of at least \<open>10 ^ 30\<close> among the blocks of a retarget's epoch makes
  the retarget raise \<open>InvalidOperation\<close>, forced or due because the epoch is complete: the averages are
  converted back with a \<open>quantize\<close> of 28 digits. The epoch has at most a million rows, none with a
  negative difficulty, and there are active parameters.\<close>

theorem huge_difficulty_stops_retarget:
  fixes P db
  defines "rows \<equiv> retarget_epoch_rows P (last_retarget_height db) db"
  assumes "b \<in> set rows" and "10 ^ 30 \<le> py_repr (ep_difficulty b)"
    and "\<forall>r \<in> set rows. 0 \<le> py_repr (ep_difficulty r)" and "length rows \<le> 10 ^ 6"
    and "force \<or> max RETARGET_EPOCH_BLOCKS (pe_window_blocks P) \<le> int (length rows)"
    and "active_protocol_params db = Inr p" and "0 < height"
  shows "maybe_retarget_after_block P height force db = Inl InvalidOperation"
proof -
  have ready: "rows \<noteq> []" using assms(2) by auto
  have m: "bucket_metrics P (pe_now P) rows = Inl InvalidOperation"
    by (rule huge_difficulty_metrics [OF assms(2) epoch_positive assms(3-5)]) (use assms(2) in \<open>simp add: rows_def\<close>)
  show ?thesis
  proof (cases "calculate_next_protocol_params P rows p (next_range_position P p db)")
    case (Inl e)
    then have "e = InvalidOperation" by (rule calculate_error)
    with Inl ready assms(6-8) show ?thesis
      by (simp add: maybe_retarget_after_block_def preview_retarget_def rows_def [symmetric] Let_def)
  next
    case (Inr r)
    obtain q n where "r = (q, n)" by (cases r)
    with Inr ready assms(6-8) m show ?thesis
      by (simp add: maybe_retarget_after_block_def preview_retarget_def rows_def [symmetric] Let_def
          upsert_difficulty_bucket_metrics_def)
  qed
qed

section \<open>Examples\<close>

definition example_protocol_env :: protocol_env where
  "example_protocol_env = \<lparr>pe_mining = example_mining_env, pe_log = (\<lambda>_. 9), pe_window_blocks = 5,
     pe_max_segment_size = 64, pe_max_adjustment_factor = fl 1.25, pe_min_difficulty = 0, pe_max_difficulty = fl 1000\<rparr>"

definition governed_params :: params_row where
  "governed_params = example_params\<lparr>pp_sample_count := 8, pp_difficulty := Some 0\<rparr>"

definition timed_block :: "pyfloat \<Rightarrow> block_row" where
  "timed_block d = (block_row_of example_consensus_env known_block ''t'' None 0 0)
     \<lparr>bl_total_block_ms := Some 120000, bl_total_task_ms := Some 100000, bl_difficulty := Some d\<rparr>"

definition protocol_base :: "pyfloat \<Rightarrow> db_protocol" where
  "protocol_base d = db_mining.extend (mining_base ''assigned''\<lparr>params_rows := [governed_params], blocks := [timed_block d]\<rparr>)
     (db_protocol.fields [] [] [])"

lemma protocol_base_simps [simp]:
  "params_rows (protocol_base d) = [governed_params]" "blocks (protocol_base d) = [timed_block d]"
  "retarget_events (protocol_base d) = []"
  by (simp_all add: protocol_base_def mining_base_def db_mining.defs db_protocol.defs db_consensus.defs db_certificates.defs)

lemma governed_active: "active_protocol_params (protocol_base d) = Inr governed_params"
  by (rule active_single) (simp add: governed_params_def example_params_def)

lemma timed_row:
  "epoch_row_of (protocol_base d) (timed_block d) = \<lparr>ep_height = 1, ep_range_start = 0, ep_range_end = 1,
     ep_total_task_ms = 100000, ep_validation_ms = 0, ep_total_block_ms = 120000, ep_difficulty = d, ep_segment_size = 2,
     ep_sample_count = 8\<rparr>"
  by (simp add: epoch_row_of_def timed_block_def block_row_of_def known_block_def elapsed_block_ms_def coalesce3_def)

lemma fl_thousand: "small (py_repr (fl 1000))"
proof -
  have "\<bar>fl 1000 - 1000\<bar> \<le> \<bar>1000\<bar> / 9007199254740992" by (rule fl_err_num)
  then have "\<bar>fl 1000\<bar> \<le> 2000" unfolding abs_le_iff by simp
  moreover have "\<bar>py_repr (fl 1000) - fl 1000\<bar> \<le> \<bar>fl 1000\<bar> / 4503599627370496" by (rule py_repr_err) simp
  ultimately have "\<bar>py_repr (fl 1000)\<bar> \<le> 4000" by linarith
  then show ?thesis by (rule order_trans) simp
qed

lemma base_computable: "computable example_protocol_env (protocol_base 0)"
proof -
  have "current_difficulty example_protocol_env governed_params = Inr 0"
    by (simp add: current_difficulty_def governed_params_def)
  then show ?thesis
    unfolding computable_def using fl_thousand
    by (simp add: timed_row modest_row_def governed_active example_protocol_env_def)
qed

theorem retarget_returns_witness:
  "\<exists>event db'. maybe_retarget_after_block example_protocol_env 1 True (protocol_base 0) = Inr (event, db')"
  by (rule retarget_returns [OF base_computable])

theorem retarget_keeps_bounds_witness:
  "\<exists>event db' q. maybe_retarget_after_block example_protocol_env 1 True (protocol_base 0) = Inr (event, db') \<and>
     params_governed example_protocol_env q db' \<and> \<bar>pp_segment_size q - 10\<bar> \<le> 2"
proof -
  obtain v ms where "preview_retarget example_protocol_env True (protocol_base 0) = Inr v"
    "bucket_metrics example_protocol_env (pe_now example_protocol_env) (rp_epoch v) = Inr ms"
    by (rule retarget_computed [OF base_computable])
  from maybe_retarget_Inr [OF this] obtain event db' where
    r: "maybe_retarget_after_block example_protocol_env 1 True (protocol_base 0) = Inr (event, db')" by blast
  have g: "params_governed example_protocol_env governed_params (protocol_base 0)"
    by (simp add: params_governed_def params_within_def governed_params_def example_params_def example_protocol_env_def
        stored_difficulty_def MIN_SEGMENT_SIZE_def MIN_SAMPLE_COUNT_def MAX_SAMPLE_COUNT_def)
  have s: "pp_segment_size governed_params = 10" by (simp add: governed_params_def example_params_def)
  have "MIN_SEGMENT_SIZE \<le> pe_max_segment_size example_protocol_env"
    by (simp add: MIN_SEGMENT_SIZE_def example_protocol_env_def)
  from retarget_keeps_bounds [OF r this g] r show ?thesis unfolding s MAX_SEGMENT_STEP_def by blast
qed

lemma huge_repr: "10 ^ 30 \<le> py_repr (fl (10 ^ 32))"
proof -
  have "\<bar>fl (10 ^ 32) - 10 ^ 32\<bar> \<le> \<bar>10 ^ 32\<bar> / 9007199254740992" by (rule fl_err_num)
  then have a: "10 ^ 31 \<le> fl (10 ^ 32)" unfolding abs_le_iff by simp
  have "\<bar>py_repr (fl (10 ^ 32)) - fl (10 ^ 32)\<bar> \<le> \<bar>fl (10 ^ 32)\<bar> / 4503599627370496" by (rule py_repr_err) simp
  with a show ?thesis unfolding abs_le_iff by simp
qed

theorem huge_difficulty_stops_retarget_witness:
  "maybe_retarget_after_block example_protocol_env 1 True (protocol_base (fl (10 ^ 32))) = Inl InvalidOperation"
proof -
  let ?b = "epoch_row_of (protocol_base (fl (10 ^ 32))) (timed_block (fl (10 ^ 32)))"
  have e: "elapsed_block_ms 0 (timed_block d) = 120000" "bl_height (timed_block d) = 1" for d
    by (simp_all add: timed_block_def elapsed_block_ms_def coalesce3_def block_row_of_def known_block_def)
  have rows: "retarget_epoch_rows example_protocol_env (last_retarget_height (protocol_base (fl (10 ^ 32))))
      (protocol_base (fl (10 ^ 32))) = [?b]"
    unfolding retarget_epoch_rows_def last_retarget_height_def
    by (simp add: e sql_limit_def) (simp add: example_protocol_env_def)
  have d: "ep_difficulty ?b = fl (10 ^ 32)" by (simp only: timed_row retarget_row.simps)
  have n: "0 \<le> py_repr (fl (10 ^ 32))" by (rule order_trans [OF _ huge_repr]) simp
  show ?thesis
    by (rule huge_difficulty_stops_retarget [where b = ?b, OF _ _ _ _ _ governed_active], unfold rows list.set d)
      (use huge_repr n d in \<open>simp_all only: insert_iff empty_iff, auto\<close>)
qed

end
