(* ===== verification/ValidationProps.thy ===== *)
theory ValidationProps
  imports RetargetProps
begin

text \<open>
  What the votes on a result promise: a job is approved only by a quorum of distinct validators, on
  both ways a vote may arrive. Two theorems show where the ways differ: a banned validator's vote still
  counts when it arrives as gossip, and a vote nobody signed costs the validator it names.
\<close>

section \<open>Counting\<close>

text \<open>The validators who have approved a job.\<close>

definition job_approvers :: "string \<Rightarrow> 'a db_certificates_scheme \<Rightarrow> string set" where
  "job_approvers job_id db = vv_validator_id ` {v \<in> set (validation_votes db). vv_job_id v = job_id \<and> vv_approved v}"

text \<open>UNIQUE(job_id, validator_id).\<close>

definition votes_unique :: "'a db_certificates_scheme \<Rightarrow> bool" where
  "votes_unique db \<longleftrightarrow> distinct (map (\<lambda>v. (vv_job_id v, vv_validator_id v)) (validation_votes db))"

lemma vote_count_card:
  assumes "votes_unique db"
  shows "vote_count job_id True db = int (card (job_approvers job_id db))"
proof -
  let ?vs = "filter (\<lambda>v. vv_job_id v = job_id \<and> vv_approved v) (validation_votes db)"
  have "distinct (map (\<lambda>v. (vv_job_id v, vv_validator_id v)) ?vs)"
    using assms unfolding votes_unique_def by (rule distinct_map_filter)
  then have "distinct (map vv_validator_id ?vs)"
    unfolding distinct_map by (auto simp: inj_on_def)
  then have "card (set (map vv_validator_id ?vs)) = length ?vs" by (simp add: distinct_card del: set_map)
  then show ?thesis by (simp add: vote_count_def job_approvers_def)
qed

lemma votes_update [simp]:
  "validation_votes (update_validator vid f db) = validation_votes db"
  "validation_votes (refresh_validator_trust_score vid db) = validation_votes db"
  "validation_votes (record_validator_completed_vote M vid b ms db) = validation_votes db"
  "validation_votes (refresh_validation_job_timing M job_id c required received db) = validation_votes db"
  by (simp_all add: update_validator_def refresh_validator_trust_score_def record_validator_completed_vote_def
      refresh_validation_job_timing_def update_job_def update_jobs_def Let_def split: option.splits)

lemma blocks_update [simp]:
  "blocks (update_validator vid f db) = blocks db"
  "blocks (refresh_validator_trust_score vid db) = blocks db"
  "blocks (record_validator_completed_vote M vid b ms db) = blocks db"
  "blocks (refresh_validation_job_timing M job_id c required received db) = blocks db"
  by (simp_all add: update_validator_def refresh_validator_trust_score_def record_validator_completed_vote_def
      refresh_validation_job_timing_def update_job_def update_jobs_def Let_def split: option.splits)

text \<open>A vote is stored once, and counted at once.\<close>

lemma store_vote_Inr:
  assumes "store_vote M v ms received required db = Inr (c, db')"
  shows "\<not> has_voted (vv_job_id v) (vv_validator_id v) db" and "validation_votes db' = validation_votes db @ [v]"
    and "c = validation_vote_counts (vv_job_id v) db'" and "blocks db' = blocks (db :: 'a db_consensus_scheme)"
  using assms
  by (auto simp: store_vote_def insert_validation_vote_def validation_vote_counts_def vote_count_def Let_def split: if_splits)

lemma stored_approvals:
  assumes "store_vote M v ms received required (db :: 'a db_consensus_scheme) = Inr (c, db')" and "votes_unique db" and "vv_approved v"
  shows "vc_approvals c = int (card (insert (vv_validator_id v) (job_approvers (vv_job_id v) db)))"
proof -
  note s = store_vote_Inr [OF assms(1)]
  have "votes_unique db'"
    using assms(2) s(1) by (auto simp: votes_unique_def s(2) has_voted_def)
  then have "vc_approvals c = int (card (job_approvers (vv_job_id v) db'))"
    by (simp add: s(3) validation_vote_counts_def vote_count_card)
  also have "job_approvers (vv_job_id v) db' = insert (vv_validator_id v) (job_approvers (vv_job_id v) db)"
    using assms(3) by (auto simp: job_approvers_def s(2))
  finally show ?thesis .
qed

section \<open>Approval needs a quorum\<close>

definition approving :: "vote_response \<Rightarrow> bool" where
  "approving a \<longleftrightarrow> vp_accepted a \<and> vp_status a = ''approved''"

lemma respond_approving [simp]: "approving (respond b s m c n) \<longleftrightarrow> b \<and> s = ''approved''"
  by (simp add: approving_def respond_def)

lemma apply_penalty_blocks [simp]: "blocks (apply_penalty M mid tid pts reason force db) = blocks db"
  by (simp add: apply_penalty_def refresh_trust_score_def cool_down_def update_miner_def Let_def split: option.splits)

lemma reject_job_effect: "reject_job M j d c required db = (a, db') \<Longrightarrow> \<not> approving a \<and> blocks db' = blocks db"
  by (auto simp: reject_job_def close_job_def mark_validation_job_finalized_def update_job_def update_jobs_def
      reject_task_def update_tasks_def Let_def)

lemma decide_needs_approvals:
  assumes "decide_vote P r j t p c required db = Inr (a, db')" and "approving a \<or> blocks db' \<noteq> blocks db"
  shows "vq_approved r \<and> required \<le> vc_approvals c"
proof (rule ccontr)
  assume n: "\<not> (vq_approved r \<and> required \<le> vc_approvals c)"
  then have "\<not> approving a \<and> blocks db' = blocks db"
    using assms(1) unfolding decide_vote_def Let_def if_not_P [OF n]
    by (auto split: if_splits dest: reject_job_effect)
  with assms(2) show False by simp
qed

lemma gossip_needs_approvals:
  assumes "finalize_validation_quorum_from_gossip P j t d p c required db = Inr (f, db')"
    and "(\<exists>a. f = Some a \<and> approving a) \<or> blocks db' \<noteq> blocks db"
  shows "dv_approved d \<and> required \<le> vc_approvals c"
proof (rule ccontr)
  assume n: "\<not> (dv_approved d \<and> required \<le> vc_approvals c)"
  then have "(\<forall>a. f = Some a \<longrightarrow> \<not> approving a) \<and> blocks db' = blocks db"
    using assms(1) unfolding finalize_validation_quorum_from_gossip_def Let_def if_not_P [OF n]
    by (cases "reject_job (pe_mining P) j d c required db") (auto split: if_splits dest: reject_job_effect)
  with assms(2) show False by auto
qed

lemma existing_needs_approvals:
  assumes "finalize_pending_validation_job_from_existing_votes P j c required db = Inr (f, db')"
    and "f \<noteq> None \<or> blocks db' \<noteq> blocks db"
  shows "vj_status j = ''pending'' \<and> required \<le> vc_approvals c"
  using assms by (auto simp: finalize_pending_validation_job_from_existing_votes_def split: if_splits)

text \<open>C37: When a vote submitted by a validator ends in the approval of its job, or in a change of the
  table of blocks at all, the job was pending and the distinct validators with an approving vote on
  it, the sender among them, were at least as many as the parameters of the task require. A first vote
  of the sender was an approval under a valid signature, and the sender neither banned nor in cooldown.\<close>

theorem submitted_approval_has_quorum:
  assumes "submit_validation_result P r db = (res, db')"
    and "(\<exists>a. res = Inr a \<and> approving a) \<or> blocks db' \<noteq> blocks db" and "votes_unique db"
  shows "\<exists>j t v p. find_job (vq_job_id r) db = Some j \<and> vj_status j = ''pending'' \<and>
     find_task (vj_task_id j) db = Some t \<and> protocol_params_for_task t db = Inr p \<and>
     find_validator (vq_validator_id r) db = Some v \<and> \<not> v_is_banned v \<and> \<not> in_cooldown (pe_mining P) (v_cooldown_until v) \<and>
     (if has_voted (vq_job_id r) (vq_validator_id r) db
      then required_approvals (pe_mining P) p \<le> int (card (job_approvers (vq_job_id r) db))
      else required_approvals (pe_mining P) p \<le> int (card (insert (vq_validator_id r) (job_approvers (vq_job_id r) db))) \<and>
        vq_approved r \<and> vote_signature_valid (pe_mining P) v (vote_payload (vq_job_id r) (vq_validator_id r)
          (vj_task_id j) True (vq_reason r) (vq_signed_at r)) (vq_signature r))"
proof -
  let ?M = "pe_mining P"
  obtain j t v where parties: "vote_parties P r db = Inr (j, t, v)"
  proof (cases "vote_parties P r db")
    case (Inl e)
    then show ?thesis using assms(1,2) by (auto simp: submit_validation_result_def)
  next
    case (Inr x)
    then show ?thesis by (cases x) (auto intro: that)
  qed
  then have f: "find_job (vq_job_id r) db = Some j" "find_task (vj_task_id j) db = Some t"
    "find_validator (vq_validator_id r) db = Some v" "\<not> v_is_banned v" "\<not> in_cooldown ?M (v_cooldown_until v)"
    by (auto simp: vote_parties_def split: option.splits if_splits)
  have id: "vj_job_id j = vq_job_id r" using f(1) unfolding find_job_def by (rule tbl_find_key)
  note run = assms(1) [unfolded submit_validation_result_def parties Let_def, simplified]
  obtain p where p: "protocol_params_for_task t db = Inr p"
    using run assms(2) by (cases "protocol_params_for_task t db") auto
  let ?req = "required_approvals ?M p" and ?voted = "has_voted (vq_job_id r) (vq_validator_id r) db"
  let ?ok = "vote_signature_valid ?M v (vote_payload (vq_job_id r) (vq_validator_id r) (vj_task_id j) (vq_approved r)
    (vq_reason r) (vq_signed_at r)) (vq_signature r)"
  have pending: "vj_status j = ''pending''"
    using run assms(2) by (auto simp: p completed_response_def split: if_splits)
  have voted: "?req \<le> int (card (job_approvers (vq_job_id r) db))" if ?voted
  proof -
    have e: "lift_vote db (existing_vote_response P j p db) = (res, db')" using run that by (simp add: p pending)
    then obtain a where a: "existing_vote_response P j p db = Inr (a, db')" "res = Inr a"
      using assms(2) by (auto simp: lift_vote_def split: sum.splits)
    then obtain g where g: "finalize_pending_validation_job_from_existing_votes P j
        (validation_vote_counts (vj_job_id j) db) ?req db = Inr (g, db')"
      and g2: "approving a \<Longrightarrow> \<exists>b. g = Some b \<and> vp_status b = ''approved''"
      unfolding existing_vote_response_def Let_def bindE_eq_Inr
      by (elim exE conjE) (auto split: option.splits if_splits)
    have "?req \<le> vc_approvals (validation_vote_counts (vj_job_id j) db)"
      using existing_needs_approvals [OF g] g2 assms(2) a(2) by auto
    then show ?thesis by (simp add: validation_vote_counts_def id vote_count_card [OF assms(3)])
  qed
  have fresh: "?req \<le> int (card (insert (vq_validator_id r) (job_approvers (vq_job_id r) db))) \<and> vq_approved r \<and> ?ok" if "\<not> ?voted"
  proof -
    have ok: ?ok
    proof (rule ccontr)
      assume "\<not> ?ok"
      then have "(\<exists>e. res = Inl e) \<and> blocks db' = blocks db"
        using run that by (auto simp: p pending apply_validator_penalty_def split: sum.splits option.splits)
      with assms(2) show False by auto
    qed
    then have e: "lift_vote db (count_submitted_vote P r j t p db) = (res, db')" using run that by (simp add: p pending)
    then obtain a where a: "count_submitted_vote P r j t p db = Inr (a, db')" "res = Inr a"
      using assms(2) by (auto simp: lift_vote_def split: sum.splits)
    then obtain c db1 where s: "store_vote ?M (vote_of_request ?M r j) (vq_measured_ms r) (isoformat (me_now ?M)) ?req db = Inr (c, db1)"
      and d: "decide_vote P r j t p c ?req db1 = Inr (a, db')"
      unfolding count_submitted_vote_def Let_def bindE_eq_Inr by (elim exE conjE) auto
    have "blocks db1 = blocks db" by (rule store_vote_Inr(4) [OF s])
    then have q: "vq_approved r" "?req \<le> vc_approvals c" using decide_needs_approvals [OF d] assms(2) a(2) by auto
    have v: "vv_approved (vote_of_request ?M r j)" "vv_validator_id (vote_of_request ?M r j) = vq_validator_id r"
      "vv_job_id (vote_of_request ?M r j) = vq_job_id r"
      using q(1) by (simp_all add: vote_of_request_def Let_def)
    from stored_approvals [OF s assms(3) v(1)] q ok show ?thesis by (simp only: v)
  qed
  show ?thesis
    by (intro exI [of _ j] exI [of _ t] exI [of _ v] exI [of _ p]) (use f p pending voted fresh in auto)
qed

text \<open>The same holds for a vote received from a peer, but for two things the code leaves out there:
  nothing asks whether the validator is banned or in cooldown, and a repeated vote is measured against
  the active parameters instead of those of the task.\<close>

theorem gossiped_approval_has_quorum:
  assumes "receive_validation_vote_gossip P g db = Inr (a, db')"
    and "(\<exists>f. gr_finalization a = Some f \<and> approving f) \<or> blocks db' \<noteq> blocks db" and "votes_unique db"
  shows "\<exists>j t v p. find_job (gv_job_id g) db = Some j \<and> vj_status j = ''pending'' \<and> vj_task_id j = gv_task_id g \<and>
     find_validator (gv_validator_id g) db = Some v \<and>
     (if has_voted (gv_job_id g) (gv_validator_id g) db
      then active_protocol_params db = Inr p \<and>
        required_approvals (pe_mining P) p \<le> int (card (job_approvers (gv_job_id g) db))
      else find_task (gv_task_id g) db = Some t \<and> protocol_params_for_task t db = Inr p \<and>
        required_approvals (pe_mining P) p \<le> int (card (insert (gv_validator_id g) (job_approvers (gv_job_id g) db))) \<and>
        gv_approved g \<and> vote_signature_valid (pe_mining P) v (vote_payload (gv_job_id g) (gv_validator_id g)
          (gv_task_id g) True (gv_reason g) (gv_signed_at g)) (gv_signature g))"
proof -
  let ?M = "pe_mining P" and ?voted = "has_voted (gv_job_id g) (gv_validator_id g) db"
  obtain j v where parties: "gossip_parties g db = Inr (j, v)"
    using assms(1) unfolding receive_validation_vote_gossip_def bindE_eq_Inr by (elim exE conjE) (auto intro: that)
  then have f: "find_job (gv_job_id g) db = Some j" "vj_task_id j = gv_task_id g" "find_validator (gv_validator_id g) db = Some v"
    by (auto simp: gossip_parties_def split: option.splits if_splits)
  have id: "vj_job_id j = gv_job_id g" using f(1) unfolding find_job_def by (rule tbl_find_key)
  note run = assms(1) [unfolded receive_validation_vote_gossip_def parties bindE_simps prod.case]
  show ?thesis
  proof (cases ?voted)
    case True
    then obtain p x where p: "active_protocol_params db = Inr p"
      and e: "finalize_pending_validation_job_from_existing_votes P j (validation_vote_counts (vj_job_id j) db)
        (required_approvals ?M p) db = Inr (x, db')" and x: "gr_finalization a = x"
      using run unfolding repeated_gossip_def Let_def if_P [OF True] bindE_eq_Inr by (elim exE conjE) auto
    from existing_needs_approvals [OF e] assms(2) x
    have "vj_status j = ''pending'' \<and> required_approvals ?M p \<le> vc_approvals (validation_vote_counts (vj_job_id j) db)" by auto
    then show ?thesis
      using f p True by (simp add: validation_vote_counts_def id vote_count_card [OF assms(3)])
  next
    case False
    then have ok: "vote_signature_valid ?M v (vote_payload (gv_job_id g) (gv_validator_id g) (gv_task_id g) (gv_approved g)
        (gv_reason g) (gv_signed_at g)) (gv_signature g)" and c: "count_gossip_vote P g j db = Inr (a, db')"
      using run by (auto split: if_splits)
    obtain t where t: "find_task (gv_task_id g) db = Some t"
      using c by (cases "find_task (gv_task_id g) db") (auto simp: count_gossip_vote_def)
    let ?v = "vote_of_gossip ?M g"
    obtain p n db1 x where p: "protocol_params_for_task t db = Inr p"
      and s: "store_vote ?M ?v (gv_validation_ms g) (vv_created_at ?v) (required_approvals ?M p) db = Inr (n, db1)"
      and e: "(if vj_status j = ''pending'' then finalize_validation_quorum_from_gossip P j t (deciding_gossip g) p n
          (required_approvals ?M p) db1 else Inr (None, db1)) = Inr (x, db')" and x: "gr_finalization a = x"
      using c unfolding count_gossip_vote_def t option.case Let_def bindE_eq_Inr by (elim exE conjE) auto
    have b: "blocks db1 = blocks db" by (rule store_vote_Inr(4) [OF s])
    with e assms(2) x have pending: "vj_status j = ''pending''" by (auto split: if_splits)
    with e have "finalize_validation_quorum_from_gossip P j t (deciding_gossip g) p n (required_approvals ?M p) db1 = Inr (x, db')"
      by simp
    from gossip_needs_approvals [OF this] assms(2) x b
    have q: "gv_approved g" "required_approvals ?M p \<le> vc_approvals n" by (auto simp: deciding_gossip_def)
    have w: "vv_approved ?v" "vv_validator_id ?v = gv_validator_id g" "vv_job_id ?v = gv_job_id g"
      using q(1) by (simp_all add: vote_of_gossip_def)
    from stored_approvals [OF s assms(3) w(1)] q ok f t p pending False show ?thesis
      by (intro exI [of _ j] exI [of _ t] exI [of _ v] exI [of _ p]) (simp add: w)
  qed
qed

section \<open>Banned validators and unsigned votes\<close>

text \<open>The same vote sent to the endpoint of validators.\<close>

definition request_of :: "gossip_vote \<Rightarrow> vote_request" where
  "request_of g = \<lparr>vq_job_id = gv_job_id g, vq_validator_id = gv_validator_id g, vq_approved = gv_approved g,
     vq_reason = gv_reason g, vq_signature = gv_signature g, vq_signed_at = gv_signed_at g, vq_measured_ms = gv_validation_ms g\<rparr>"

lemma vote_counts_append:
  "validation_votes db' = validation_votes db @ [v] \<Longrightarrow>
   vote_count (vv_job_id v) b db' = vote_count (vv_job_id v) b db + (if vv_approved v = b then 1 else 0)"
  by (simp add: vote_count_def)

text \<open>C40: A vote that the endpoint of validators refuses because its sender is banned is stored and
  counted when the same signed vote arrives as gossip.\<close>

theorem banned_votes_by_gossip:
  assumes "gossip_parties g db = Inr (j, v)" and "v_is_banned v"
    and "find_task (gv_task_id g) db = Some t" and "protocol_params_for_task t db = Inr p"
    and "\<not> has_voted (gv_job_id g) (gv_validator_id g) db"
    and "vote_signature_valid (pe_mining P) v (vote_payload (gv_job_id g) (gv_validator_id g) (gv_task_id g)
      (gv_approved g) (gv_reason g) (gv_signed_at g)) (gv_signature g)"
    and "vote_count (gv_job_id g) (gv_approved g) db + 1 < required_approvals (pe_mining P) p"
  shows "submit_validation_result P (request_of g) db = (Inl (MiningError 403 ''validator is banned''), db) \<and>
    (\<exists>a db'. receive_validation_vote_gossip P g db = Inr (a, db') \<and> gr_status a = ''accepted'' \<and>
      has_voted (gv_job_id g) (gv_validator_id g) db' \<and>
      vote_count (gv_job_id g) (gv_approved g) db' = vote_count (gv_job_id g) (gv_approved g) db + 1)"
proof
  have f: "find_job (gv_job_id g) db = Some j" "vj_task_id j = gv_task_id g" "find_validator (gv_validator_id g) db = Some v"
    using assms(1) by (auto simp: gossip_parties_def split: option.splits if_splits)
  show "submit_validation_result P (request_of g) db = (Inl (MiningError 403 ''validator is banned''), db)"
    by (simp add: submit_validation_result_def vote_parties_def request_of_def f assms(2,3))
  let ?M = "pe_mining P" and ?v = "vote_of_gossip (pe_mining P) g"
  have v: "vv_job_id ?v = gv_job_id g" "vv_validator_id ?v = gv_validator_id g" "vv_approved ?v = gv_approved g"
    by (simp_all add: vote_of_gossip_def)
  obtain c db1 where s: "store_vote ?M ?v (gv_validation_ms g) (vv_created_at ?v) (required_approvals ?M p) db = Inr (c, db1)"
    using assms(5) by (auto simp: store_vote_def insert_validation_vote_def v Let_def)
  note st = store_vote_Inr [OF s, unfolded v]
  have n: "vote_count (gv_job_id g) b db1 = vote_count (gv_job_id g) b db + (if gv_approved g = b then 1 else 0)" for b
    using vote_counts_append [OF st(2), of b] by (simp only: v)
  have few: "\<not> (dv_approved (deciding_gossip g) \<and> required_approvals ?M p \<le> vc_approvals c)"
    "\<not> (\<not> dv_approved (deciding_gossip g) \<and> required_approvals ?M p \<le> vc_rejections c)"
    using assms(7) n by (cases "gv_approved g"; simp add: st(3) validation_vote_counts_def deciding_gossip_def)+
  have q: "finalize_validation_quorum_from_gossip P j t (deciding_gossip g) p c (required_approvals ?M p) db1 = Inr (None, db1)"
    unfolding finalize_validation_quorum_from_gossip_def Let_def if_not_P [OF few(1)] if_not_P [OF few(2)] ..
  have "count_gossip_vote P g j db = Inr (\<lparr>gr_status = ''accepted'', gr_counts = c,
      gr_required = required_approvals ?M p, gr_finalization = None\<rparr>, db1)"
    by (simp only: count_gossip_vote_def Let_def assms(3,4) option.case bindE_simps s prod.case q if_cancel)
  then have "receive_validation_vote_gossip P g db = Inr (\<lparr>gr_status = ''accepted'', gr_counts = c,
      gr_required = required_approvals ?M p, gr_finalization = None\<rparr>, db1)"
    by (simp only: receive_validation_vote_gossip_def assms(1,5,6) bindE_simps prod.case if_False not_True_eq_False)
  moreover have "has_voted (gv_job_id g) (gv_validator_id g) db1" by (auto simp: has_voted_def st(2) v)
  ultimately show "\<exists>a db'. receive_validation_vote_gossip P g db = Inr (a, db') \<and> gr_status a = ''accepted'' \<and>
      has_voted (gv_job_id g) (gv_validator_id g) db' \<and>
      vote_count (gv_job_id g) (gv_approved g) db' = vote_count (gv_job_id g) (gv_approved g) db + 1"
    using n by auto
qed

lemma find_updated_validator:
  assumes "\<And>x. v_validator_id (f x) = v_validator_id x"
  shows "find_validator vid (update_validator vid f db) = map_option f (find_validator vid db)"
proof (cases "find_validator vid db")
  case (Some v)
  then have "v_validator_id v = vid" unfolding find_validator_def by (rule tbl_find_key)
  with Some show ?thesis by (simp add: find_validator_def update_validator_def tbl_find_update assms)
qed (simp add: find_validator_def update_validator_def tbl_find_update assms)

text \<open>The row of the validator after a penalty.\<close>

definition slashed_row :: "mining_env \<Rightarrow> validator_row \<Rightarrow> validator_row" where
  "slashed_row M v = banned_after (cooled_after M (slashed (me_chain M) 1 (me_now M) v))"

lemma slashed_row_fields:
  "v_validator_id (slashed_row M v) = v_validator_id v"
  "v_invalid_results (slashed_row M v) = v_invalid_results v + 1"
  "v_stake_locked (slashed_row M v) = max 0 (fsub (v_stake_locked v) (slash_amount (me_chain M) v))"
  "VALIDATOR_BAN_AFTER_INVALID_RESULTS \<le> v_invalid_results v + 1 \<Longrightarrow> v_is_banned (slashed_row M v)"
  by (simp_all add: slashed_row_def banned_after_def cooled_after_def slashed_def Let_def)

lemma penalty_effect:
  assumes "find_validator vid db = Some v"
  shows "\<exists>db' trust. apply_validator_penalty M vid db = Inr db' \<and>
    find_validator vid db' = Some ((slashed_row M v)\<lparr>v_trust_score := trust\<rparr>)"
proof -
  let ?db1 = "update_validator vid (slashed_row M) db"
  have f: "find_validator vid ?db1 = Some (slashed_row M v)"
    by (simp add: find_updated_validator slashed_row_fields assms)
  have p: "apply_validator_penalty M vid db = Inr (refresh_validator_trust_score vid ?db1)"
    unfolding apply_validator_penalty_def assms option.case slashed_row_def [abs_def] ..
  have "find_validator vid (refresh_validator_trust_score vid ?db1) =
      Some ((slashed_row M v)\<lparr>v_trust_score := validator_trust_of (slashed_row M v)\<rparr>)"
    by (simp add: refresh_validator_trust_score_def f find_updated_validator)
  with p show ?thesis by blast
qed

text \<open>A vote with an invalid signature on a pending job, which needs no key to send, is refused and
  still takes stake from the validator it names, counts against it and bans it at the ninth.\<close>

theorem unsigned_vote_slashes:
  assumes "vote_parties P r db = Inr (j, t, v)" and "vj_status j = ''pending''"
    and "protocol_params_for_task t db = Inr p" and "\<not> has_voted (vq_job_id r) (vq_validator_id r) db"
    and "\<not> vote_signature_valid (pe_mining P) v (vote_payload (vq_job_id r) (vq_validator_id r) (vj_task_id j)
      (vq_approved r) (vq_reason r) (vq_signed_at r)) (vq_signature r)"
  shows "\<exists>db' w. submit_validation_result P r db = (Inl (MiningError 400 ''invalid validator signature''), db') \<and>
    find_validator (vq_validator_id r) db' = Some w \<and> v_invalid_results w = v_invalid_results v + 1 \<and>
    v_stake_locked w = max 0 (fsub (v_stake_locked v) (slash_amount (me_chain (pe_mining P)) v)) \<and>
    (VALIDATOR_BAN_AFTER_INVALID_RESULTS \<le> v_invalid_results v + 1 \<longrightarrow> v_is_banned w)"
proof -
  let ?M = "pe_mining P" and ?vid = "vq_validator_id r"
  have v: "find_validator ?vid db = Some v" using assms(1) by (auto simp: vote_parties_def split: option.splits if_splits)
  obtain db' trust where p: "apply_validator_penalty ?M ?vid db = Inr db'"
    and w: "find_validator ?vid db' = Some ((slashed_row ?M v)\<lparr>v_trust_score := trust\<rparr>)"
    using penalty_effect [OF v, of ?M] by (elim exE conjE) (rule that)
  have "submit_validation_result P r db = (Inl (MiningError 400 ''invalid validator signature''), db')"
    by (simp only: submit_validation_result_def Let_def assms prod.case sum.case p if_True if_False simp_thms)
  with w show ?thesis
    by (intro exI [of _ db'] exI [of _ "(slashed_row ?M v)\<lparr>v_trust_score := trust\<rparr>"]) (simp add: slashed_row_fields)
qed

section \<open>Examples\<close>

text \<open>One pending job of the example task with its vote.\<close>

definition voting_db :: "validation_vote list \<Rightarrow> bool \<Rightarrow> db_protocol" where
  "voting_db votes banned = (protocol_base 0)
     \<lparr>tasks := [(example_task ''revealed'')\<lparr>tk_task_id := ''task''\<rparr>],
      validation_jobs := [example_job\<lparr>vj_status := ''pending''\<rparr>], validation_votes := votes,
      blocks := [block_row_of example_consensus_env known_block ''task'' None 0 0], finality_certificates := [],
      validators := [example_validator\<lparr>v_is_banned := banned\<rparr>]\<rparr>"

lemma voting_simps [simp]:
  "tasks (voting_db vs b) = [(example_task ''revealed'')\<lparr>tk_task_id := ''task''\<rparr>]"
  "validation_jobs (voting_db vs b) = [example_job\<lparr>vj_status := ''pending''\<rparr>]" "validation_votes (voting_db vs b) = vs"
  "blocks (voting_db vs b) = [block_row_of example_consensus_env known_block ''task'' None 0 0]"
  "finality_certificates (voting_db vs b) = []" "validators (voting_db vs b) = [example_validator\<lparr>v_is_banned := b\<rparr>]"
  "params_rows (voting_db vs b) = [governed_params]"
  by (simp_all add: voting_db_def)

definition voted_request :: vote_request where
  "voted_request = \<lparr>vq_job_id = ''job'', vq_validator_id = ''v'', vq_approved = True, vq_reason = ''ok'', vq_signature = ''s'',
     vq_signed_at = ''t'', vq_measured_ms = 5\<rparr>"

lemma voting_required: "required_approvals (pe_mining example_protocol_env) governed_params = 1"
  by (simp add: required_approvals_def effective_required_validator_approvals_def governed_params_def example_params_def)

lemma voting_params: "protocol_params_for_task ((example_task s)\<lparr>tk_task_id := i\<rparr>) (voting_db vs b) = Inr governed_params"
  by (simp add: protocol_params_for_task_def example_task_def active_protocol_params_def protocol_params_by_id_def governed_params_def example_params_def)

lemma voting_approved:
  "\<exists>a db'. submit_validation_result example_protocol_env voted_request (voting_db [example_vote] False) = (Inr a, db') \<and> approving a"
proof -
  let ?db = "voting_db [example_vote] False" and ?j = "example_job\<lparr>vj_status := ''pending''\<rparr>"
  let ?t = "(example_task ''revealed'')\<lparr>tk_task_id := ''task''\<rparr>" and ?P = example_protocol_env
  have parties: "vote_parties ?P voted_request ?db = Inr (?j, ?t, example_validator)"
    by (simp add: vote_parties_def voted_request_def find_job_def find_task_def find_validator_def example_job_def
        example_validator_def in_cooldown_def)
  have voted: "has_voted (vq_job_id voted_request) (vq_validator_id voted_request) ?db"
    by (simp add: has_voted_def voted_request_def example_vote_def)
  have counts: "validation_vote_counts (vj_job_id ?j) ?db = \<lparr>vc_approvals = 1, vc_rejections = 0\<rparr>"
    by (simp add: validation_vote_counts_def vote_count_def example_vote_def example_job_def)
  let ?c = "\<lparr>vc_approvals = 1, vc_rejections = 0\<rparr>" and ?row = "block_row_of example_consensus_env known_block ''task'' None 0 0"
  have latest: "latest_approval (vj_job_id ?j) ?db = Some example_vote"
    by (simp add: latest_approval_def votes_in_order_def example_vote_def example_job_def)
  have dup: "find_duplicate_block ?j ?db = Some ?row" and same: "bl_task_id ?row = vj_task_id ?j" "bl_result_hash ?row = vj_result_hash ?j"
    by (simp_all add: find_duplicate_block_def block_row_of_def example_job_def known_block_def)
  have task: "find_task (vj_task_id ?j) ?db = Some ?t" by (simp add: find_task_def example_job_def)
  obtain d where acc: "accept_task (\<lambda>t. tk_task_id t = vj_task_id ?j)
        (\<lambda>t. t\<lparr>tk_submitted_at := coalesce (tk_submitted_at t) (isoformat (me_now (pe_mining ?P)))\<rparr>) ?db = Inr d"
    and d: "validation_jobs d = [?j]" "validation_votes d = [example_vote]" "finality_certificates d = []" "validators d = [example_validator]"
    by (simp add: accept_task_def update_tasks_def example_validator_def)
  have "\<exists>r d'. approve_job (pe_mining ?P) ?j (deciding_vote_of example_vote) reason ?row ?c 1 d = Inr (r, d') \<and> vp_status r = ''approved''" for reason
    by (simp add: approve_job_def create_finality_certificate_def close_job_def mark_validation_job_finalized_def update_job_def
        update_jobs_def find_job_def d approving_votes_def example_vote_def example_job_def insert_certificate_def respond_def Let_def)
  then obtain r d' where app: "approve_job (pe_mining ?P) ?j (deciding_vote_of example_vote)
      (''block already accepted at height '' @ show_int (bl_height ?row)) ?row ?c 1 d = Inr (r, d')" "vp_status r = ''approved''"
    by blast
  have quorum: "finalize_validation_quorum_from_gossip ?P ?j ?t (deciding_vote_of example_vote) governed_params ?c 1 ?db =
      Inr (Some (r\<lparr>vp_message := ''block already accepted at height '' @ show_int (bl_height ?row)\<rparr>), d')"
    by (simp only: finalize_validation_quorum_from_gossip_def Let_def dup option.case same adopt_block_def acc bindE_simps app(1)
        prod.case) (simp add: deciding_vote_of_def)
  define m where "m = ''block already accepted at height '' @ show_int (bl_height ?row)"
  have run: "finalize_pending_validation_job_from_existing_votes ?P ?j ?c 1 ?db = Inr (Some (r\<lparr>vp_message := m\<rparr>), d')"
    unfolding m_def
    by (simp only: finalize_pending_validation_job_from_existing_votes_def task latest voting_params option.case bindE_simps quorum) simp
  have st: "vp_status (r\<lparr>vp_message := m\<rparr>) = ''approved''" using app(2) by simp
  have "\<exists>a. existing_vote_response ?P ?j governed_params ?db = Inr (a, d') \<and> approving a"
    unfolding existing_vote_response_def Let_def counts voting_required run bindE_simps prod.case option.case if_P [OF st]
    by (simp add: approving_def respond_def)
  then show ?thesis
    by (simp only: submit_validation_result_def Let_def parties prod.case sum.case voting_params voted if_True) (auto simp: lift_vote_def)
qed

theorem submitted_approval_has_quorum_witness:
  "(\<exists>a db'. submit_validation_result example_protocol_env voted_request (voting_db [example_vote] False) = (Inr a, db') \<and> approving a) \<and>
   1 \<le> int (card (job_approvers ''job'' (voting_db [example_vote] False)))"
proof -
  let ?db = "voting_db [example_vote] False"
  obtain a db' where s: "submit_validation_result example_protocol_env voted_request ?db = (Inr a, db')" "approving a"
    using voting_approved by (elim exE conjE) (rule that)
  have u: "votes_unique ?db" by (simp add: votes_unique_def)
  have v: "has_voted (vq_job_id voted_request) (vq_validator_id voted_request) ?db" "vq_job_id voted_request = ''job''"
    by (simp_all add: has_voted_def voted_request_def example_vote_def)
  have "(\<exists>b. Inr a = Inr b \<and> approving b) \<or> blocks db' \<noteq> blocks ?db" using s(2) by simp
  from submitted_approval_has_quorum [OF s(1) this u, unfolded if_P [OF v(1)]] obtain j t p where
    p: "find_job (vq_job_id voted_request) ?db = Some j" "find_task (vj_task_id j) ?db = Some t" "protocol_params_for_task t ?db = Inr p"
      "required_approvals (pe_mining example_protocol_env) p \<le> int (card (job_approvers (vq_job_id voted_request) ?db))"
    by (elim exE conjE) (rule that)
  have "j = example_job\<lparr>vj_status := ''pending''\<rparr>" using p(1) by (simp add: find_job_def v(2) example_job_def)
  then have "t = (example_task ''revealed'')\<lparr>tk_task_id := ''task''\<rparr>" using p(2) by (simp add: find_task_def example_job_def)
  then have "p = governed_params" using p(3) voting_params by simp
  with p(4) s show ?thesis by (simp add: voting_required v(2))
qed

definition banned_gossip :: gossip_vote where
  "banned_gossip = \<lparr>gv_job_id = ''job'', gv_task_id = ''task'', gv_validator_id = ''v'', gv_approved = True, gv_reason = ''ok'',
     gv_signature = ''s'', gv_signed_at = ''t'', gv_created_at = None, gv_validation_ms = 5, gv_submit_result_latency_ms = None\<rparr>"

lemma any_signature: "vote_signature_valid (pe_mining example_protocol_env) (example_validator\<lparr>v_is_banned := b\<rparr>) payload ''s''"
  by (simp add: vote_signature_valid_def verify_payload_signature_def KEY_PREFIX_def starts_with_def example_validator_def
      example_protocol_env_def) (simp add: example_consensus_env_def)

text \<open>The validator banned, two approvals required.\<close>

definition banned_db :: db_protocol where
  "banned_db = (voting_db [] True)\<lparr>params_rows := [governed_params\<lparr>pp_required_validator_approvals := 2\<rparr>]\<rparr>"

lemma banned_db_simps [simp]:
  "tasks banned_db = [(example_task ''revealed'')\<lparr>tk_task_id := ''task''\<rparr>]"
  "validation_jobs banned_db = [example_job\<lparr>vj_status := ''pending''\<rparr>]" "validation_votes banned_db = []"
  "validators banned_db = [example_validator\<lparr>v_is_banned := True\<rparr>]"
  "params_rows banned_db = [governed_params\<lparr>pp_required_validator_approvals := 2\<rparr>]"
  by (simp_all add: banned_db_def)

theorem banned_votes_by_gossip_witness:
  "submit_validation_result example_protocol_env (request_of banned_gossip) banned_db = (Inl (MiningError 403 ''validator is banned''), banned_db) \<and>
   (\<exists>a db'. receive_validation_vote_gossip example_protocol_env banned_gossip banned_db = Inr (a, db') \<and>
      vote_count ''job'' True db' = 1)"
proof -
  let ?j = "example_job\<lparr>vj_status := ''pending''\<rparr>" and ?v = "example_validator\<lparr>v_is_banned := True\<rparr>"
  let ?t = "(example_task ''revealed'')\<lparr>tk_task_id := ''task''\<rparr>" and ?p = "governed_params\<lparr>pp_required_validator_approvals := 2\<rparr>"
  have g: "gv_job_id banned_gossip = ''job''" "gv_task_id banned_gossip = ''task''" "gv_validator_id banned_gossip = ''v''"
    "gv_approved banned_gossip" "gv_signature banned_gossip = ''s''" by (simp_all add: banned_gossip_def)
  have parties: "gossip_parties banned_gossip banned_db = Inr (?j, ?v)"
    by (simp add: gossip_parties_def g find_job_def find_validator_def example_job_def example_validator_def)
  have task: "find_task (gv_task_id banned_gossip) banned_db = Some ?t" by (simp add: find_task_def g)
  have params: "protocol_params_for_task ?t banned_db = Inr ?p"
    by (simp add: protocol_params_for_task_def example_task_def active_protocol_params_def governed_params_def example_params_def)
  have few: "vote_count (gv_job_id banned_gossip) (gv_approved banned_gossip) banned_db + 1 <
      required_approvals (pe_mining example_protocol_env) ?p"
    by (simp add: vote_count_def required_approvals_def effective_required_validator_approvals_def)
  have new: "\<not> has_voted (gv_job_id banned_gossip) (gv_validator_id banned_gossip) banned_db" by (simp add: has_voted_def)
  have banned: "v_is_banned ?v" by simp
  have zero: "vote_count ''job'' True banned_db = 0" by (simp add: vote_count_def)
  have sg: "vote_signature_valid (pe_mining example_protocol_env) ?v (vote_payload (gv_job_id banned_gossip)
      (gv_validator_id banned_gossip) (gv_task_id banned_gossip) (gv_approved banned_gossip) (gv_reason banned_gossip)
      (gv_signed_at banned_gossip)) (gv_signature banned_gossip)"
    unfolding g(5) by (rule any_signature)
  from banned_votes_by_gossip [OF parties banned task params new sg few] g zero show ?thesis by auto
qed

text \<open>A pending job without votes, a validator whose key accepts nothing.\<close>

definition strict_env :: protocol_env where
  "strict_env = example_protocol_env\<lparr>pe_mining := (pe_mining example_protocol_env)
     \<lparr>me_chain := (me_chain (pe_mining example_protocol_env))\<lparr>ce_verify := (\<lambda>_ _ _. Inr False)\<rparr>\<rparr>\<rparr>"

theorem unsigned_vote_slashes_witness:
  "\<exists>db' w. submit_validation_result strict_env voted_request (voting_db [] False) =
     (Inl (MiningError 400 ''invalid validator signature''), db') \<and> find_validator ''v'' db' = Some w \<and> v_invalid_results w = 1"
proof -
  let ?j = "example_job\<lparr>vj_status := ''pending''\<rparr>" and ?db = "voting_db [] False"
  let ?t = "(example_task ''revealed'')\<lparr>tk_task_id := ''task''\<rparr>"
  have parties: "vote_parties strict_env voted_request ?db = Inr (?j, ?t, example_validator)"
    by (simp add: vote_parties_def voted_request_def find_job_def find_task_def find_validator_def example_job_def
        example_validator_def in_cooldown_def)
  have new: "\<not> has_voted (vq_job_id voted_request) (vq_validator_id voted_request) ?db" by (simp add: has_voted_def)
  have pending: "vj_status ?j = ''pending''" by simp
  have bad: "\<not> vote_signature_valid (pe_mining strict_env) example_validator (vote_payload (vq_job_id voted_request)
      (vq_validator_id voted_request) (vj_task_id ?j) (vq_approved voted_request) (vq_reason voted_request)
      (vq_signed_at voted_request)) (vq_signature voted_request)"
    by (simp add: vote_signature_valid_def verify_payload_signature_def strict_env_def KEY_PREFIX_def starts_with_def
        example_validator_def)
  have "vq_validator_id voted_request = ''v''" "v_invalid_results example_validator = 0"
    by (simp_all add: voted_request_def example_validator_def)
  with unsigned_vote_slashes [OF parties pending voting_params new bad] show ?thesis by auto
qed

end
