(* ===== verification/Spec2Isabelle.thy ===== *)
theory Spec2Isabelle
  imports TaskProps ValidationProps
begin

text \<open>
  Verification of the Picoin node, the Python package \<open>src/picoin-proof-of-pi/app\<close>.

  \<^bold>\<open>The program.\<close> A node keeps its whole state in one SQLite database. Miners compute segments of
  pi, validators vote on them, and a block that reaches the quorum pays the miner, the validators, a
  reserve for scientific computing and a development treasury, and executes the transactions frozen
  for its task. Blocks of other nodes arrive as proposals, collect votes and are imported with the
  same effects. Next to the chain the node runs a market for scientific jobs, paid from the reserve
  once a governance procedure has unlocked it. Every service function works on a connection, raises
  an exception or returns, and a raised exception rolls the transaction back.

  \<^bold>\<open>The model.\<close> The database is a record of tables, each a list of rows in insertion order; the
  records extend one another in the order \<open>db_ledger\<close>, \<open>db_rewards\<close>, \<open>db_treasury\<close>, \<open>db_governance\<close>,
  \<open>db_science\<close>, \<open>db_chain\<close>, \<open>db_mempool\<close>, \<open>db_certificates\<close>, \<open>db_consensus\<close>, \<open>db_mining\<close>, \<open>db_protocol\<close>, and an operation
  is polymorphic in the tables it does not know. An operation maps a database to \<open>err + ('a \<times> db)\<close>: \<open>Inl\<close>
  is the exception, and the database before the call is the one after the rollback (a savepoint is
  written out, and an operation that commits before it raises returns both). Integers are
  unbounded as in Python; a \<open>REAL\<close> column or Python \<open>float\<close> is a binary64 value, an exact rational
  with the rounding of every operation written out (\<open>Float64\<close>). Time is an argument, in microseconds.
  SHA-256, Ed25519, fresh identifiers, \<open>random.sample\<close>, \<open>log\<close> and \<open>log10\<close> are arguments too; what is assumed of the hash (its digests
  are 64 hexadecimal digits; texts that are hashed do not collide) is a named hypothesis of the
  theorems that use it, discharged in their witnesses by a concrete function.

  \<^bold>\<open>Theories and code.\<close>
  \<^item> \<open>Prelude\<close>: exceptions, sequencing, tables, \<open>str\<close> methods. \<open>Clock\<close>: calendar and quarters.
    \<open>Json\<close>: \<open>canonical_json\<close> of \<open>core/crypto.py\<close>. \<open>Float64\<close>: float arithmetic, \<open>round\<close>.
  \<^item> \<open>Money\<close> (\<open>core/money.py\<close>): micro-units; round trips up to 10^15 units, below which a float
    holds six decimals exactly. \<open>Economics\<close> (\<open>core/economics.py\<close>, settings, network profiles): the
    split of a block reward.
  \<^item> \<open>Merkle\<close> (\<open>core/merkle.py\<close>, \<open>transactions.merkle_root\<close>): trees over digits and transactions;
    soundness and completeness of proofs, binding of roots.
  \<^item> \<open>Ledger\<close> (\<open>_apply_account_delta\<close> and its five siblings), \<open>Rewards\<close> (\<open>services/rewards.py\<close>),
    \<open>Treasury\<close> (\<open>services/treasury.py\<close>): postings, immature rewards, quarterly epochs. The locale
    \<open>posting_op\<close> states the contract of a posting and is interpreted on the six functions of the code.
  \<^item> \<open>Governance\<close>, \<open>Science\<close>, \<open>ScienceProps\<close> (\<open>services/science.py\<close>): unlocking of the reserve, the
    job machine, stakes and payments.
  \<^item> \<open>Wallet\<close> (\<open>services/wallet.py\<close>), \<open>TxRules\<close>, \<open>Mempool\<close>, \<open>Snapshots\<close>, \<open>TxApply\<close>
    (\<open>services/transactions.py\<close>): addresses and signed payloads, admission, storing and selection,
    the snapshot frozen for a task, execution in a block. \<open>TxFrame\<close> holds the locale
    \<open>tx_frame\<close>: a relation that the handlers' writes keep is kept by a whole block; it is interpreted
    for the tables a block leaves alone, the confirmed nonces and the books. \<open>BlockProps\<close> and
    \<open>BlockSafety\<close> prove that a block of canonical transactions conserves the supply, that the
    transactions of any block cannot run twice, and that the amount spent is not the one signed.
  \<^item> \<open>StateRoot\<close> (\<open>services/state.py\<close>): balance snapshots, the state root, restoring; after any
    run of postings a snapshot of the tip agrees with the balances.
  \<^item> \<open>Certificates\<close>, \<open>Blocks\<close>, \<open>BlockImport\<close>, \<open>Consensus\<close> (\<open>services/consensus.py\<close>,
    \<open>core/signatures.py\<close>, parts of \<open>services/mining.py\<close>): finality certificates, block payloads and
    their hash, import of a block, proposals, votes and fork choice. \<open>ImportFrame\<close> extends
    \<open>tx_frame\<close> to the locale \<open>settle_frame\<close> and interprets it for what a whole import leaves alone,
    for the books and for the growth of the ledger; \<open>ConsensusProps\<close> and \<open>ImportProps\<close> hold the invariant of reachable
    databases and the effects of an import.
  \<^item> \<open>Tasks\<close>, \<open>TaskLife\<close>, \<open>TaskAssign\<close>, \<open>Mining\<close> (\<open>services/mining.py\<close>): the choice of a range,
    competitive rounds, expiry, \<open>create_next_task\<close>, penalties, \<open>commit_task\<close> and \<open>reveal_task\<close>.
    \<open>TaskStatus\<close> proves the status machine of tasks for every operation, \<open>TaskFrame\<close> what they leave
    alone, \<open>TaskProps\<close> the ranges handed out and what a revealed validation job is bound to.
  \<^item> \<open>PiDigits\<close> (\<open>core/pi.py\<close>): digits of pi by the BBP series and by Machin's formula; the loops end
    and give one valid digit for each position.
  \<^item> \<open>Difficulty\<close> (\<open>services/difficulty_service.py\<close>, \<open>core/difficulty.py\<close>) and \<open>Retarget\<close>
    (\<open>services/mining.py\<close>): the parameters of the next epoch and the rows a retarget writes.
    \<open>RetargetProps\<close> bounds every step and says when a retarget returns: always, for timings and
    difficulties of ordinary size (\<open>retarget_returns\<close>), and not after a block with a huge one.
  \<^item> \<open>Audits\<close>, \<open>Acceptance\<close>, \<open>Validation\<close> (\<open>services/mining.py\<close>): penalties of validators and
    retroactive audits, the acceptance of a validated result as a block, and the votes on results,
    submitted or received as gossip. \<open>ValidationProps\<close>: no block without a quorum of distinct
    validators, and how the endpoint of gossip is laxer than the one of validators.

  \<^bold>\<open>Bounds and termination.\<close> Recursion is structural or on a decreasing
  measure (the layers of a Merkle tree halve, decimal texts shorten, the terms of the BBP series fall by 16).
  The one exception is the series of the arcus tangens: it is given three rounds more than digits of
  precision, which is enough because its terms fall by ten in every round. Where exactness of floats
  matters the theorems bound the amounts: 10^15 units for a balance that is converted and back,
  10^14 units for a reward that is split, 10^28 for the 28 digits of Python's decimal context. The
  supply of the network stays far below each.

  \<^bold>\<open>What the proofs show to be wrong.\<close> The manifest lists the findings; the theorems
  \<open>unsigned_amount_is_spent\<close>, \<open>payment_leaks_reservation\<close>, \<open>pause_undone_by_execute\<close>,
  \<open>certificate_self_attested\<close>, \<open>reproposal_redirects_funds\<close>, \<open>competitive_ignores_limit\<close>,
  \<open>poll_redirects_reward\<close>, \<open>unsigned_reveal_punishes\<close>, \<open>forged_reveal_rejects\<close>,
  \<open>huge_difficulty_stops_retarget\<close>, \<open>banned_votes_by_gossip\<close> and \<open>unsigned_vote_slashes\<close> each exhibit one.

  \<^bold>\<open>Not modelled.\<close> Checkpoints and snapshot documents (\<open>services/state.py\<close>); registration,
  heartbeats, gossip of jobs and status pages (\<open>services/mining.py\<close>); reorganisation and the replay
  worker (\<open>services/consensus.py\<close>); the peer network, the HTTP interface, reports, migrations, and the separate programs of the
  repository: pool, marketplace, second layer, desktop applications. The import leaves out the
  marker of a replayed audit, which only keeps a second audit of the same trigger from running; import
  and acceptance leave out the periodic checkpoint, which writes tables nothing modelled reads.
\<close>

end
